(* ===== verification/Prelude.thy ===== *)
theory Prelude
  imports Complex_Main "HOL-Library.Char_ord" "HOL-Library.List_Lexorder" "HOL-Library.Product_Lexorder"
begin

text \<open>
  Shared vocabulary of the development: the exceptions of the program as values, programs as
  functions that return a result or an exception together with the state they leave behind, a
  small calculus for invariants of such programs, JSON values as the Python code sees them, text
  helpers, and tables of rows addressed by primary key.

  A program of type \<open>('s, 'a) prog\<close> keeps the state it has reached when it raises. What
  happens to that state is decided by the caller: the worker rolls the database part back and
  keeps what left the process (queue messages, provider requests).
\<close>

section \<open>Exceptions\<close>

datatype py_error =
    PermanentJobError string
  | TransientJobError string
  | SecretRejectedError string
  | TenantScopeViolation string
  | InvalidEpistemicTransition string
  | ApprovalBindingError string
  | ValueError string
  | TelegramConnectorRejected string
  | TelegramAmbiguousOutcome string
  | TelegramObservationUnavailable string
  | OtherError string string

text \<open>The value of \<open>error.__class__.__name__\<close>.\<close>

fun error_class_name :: "py_error \<Rightarrow> string" where
  "error_class_name (PermanentJobError m) = ''PermanentJobError''"
| "error_class_name (TransientJobError m) = ''TransientJobError''"
| "error_class_name (SecretRejectedError m) = ''SecretRejectedError''"
| "error_class_name (TenantScopeViolation m) = ''TenantScopeViolation''"
| "error_class_name (InvalidEpistemicTransition m) = ''InvalidEpistemicTransition''"
| "error_class_name (ApprovalBindingError m) = ''ApprovalBindingError''"
| "error_class_name (ValueError m) = ''ValueError''"
| "error_class_name (TelegramConnectorRejected m) = ''TelegramConnectorRejected''"
| "error_class_name (TelegramAmbiguousOutcome m) = ''TelegramAmbiguousOutcome''"
| "error_class_name (TelegramObservationUnavailable m) = ''TelegramObservationUnavailable''"
| "error_class_name (OtherError c m) = c"

text \<open>The value of \<open>str(error)\<close>.\<close>

fun error_message :: "py_error \<Rightarrow> string" where
  "error_message (PermanentJobError m) = m"
| "error_message (TransientJobError m) = m"
| "error_message (SecretRejectedError m) = m"
| "error_message (TenantScopeViolation m) = m"
| "error_message (InvalidEpistemicTransition m) = m"
| "error_message (ApprovalBindingError m) = m"
| "error_message (ValueError m) = m"
| "error_message (TelegramConnectorRejected m) = m"
| "error_message (TelegramAmbiguousOutcome m) = m"
| "error_message (TelegramObservationUnavailable m) = m"
| "error_message (OtherError c m) = m"

section \<open>Programs with state and exceptions\<close>

type_synonym ('s, 'a) prog = "'s \<Rightarrow> (py_error + 'a) \<times> 's"

definition ret :: "'a \<Rightarrow> ('s, 'a) prog" where
  "ret x = (\<lambda>s. (Inr x, s))"

definition raise :: "py_error \<Rightarrow> ('s, 'a) prog" where
  "raise e = (\<lambda>s. (Inl e, s))"

definition bnd :: "('s, 'a) prog \<Rightarrow> ('a \<Rightarrow> ('s, 'b) prog) \<Rightarrow> ('s, 'b) prog" where
  "bnd m f = (\<lambda>s. case m s of (Inl e, s') \<Rightarrow> (Inl e, s') | (Inr x, s') \<Rightarrow> f x s')"

definition gets :: "('s \<Rightarrow> 'a) \<Rightarrow> ('s, 'a) prog" where
  "gets f = (\<lambda>s. (Inr (f s), s))"

definition modify :: "('s \<Rightarrow> 's) \<Rightarrow> ('s, unit) prog" where
  "modify f = (\<lambda>s. (Inr (), f s))"

definition require :: "bool \<Rightarrow> py_error \<Rightarrow> ('s, unit) prog" where
  "require b e = (if b then ret () else raise e)"

definition required :: "'a option \<Rightarrow> py_error \<Rightarrow> ('s, 'a) prog" where
  "required x e = (case x of None \<Rightarrow> raise e | Some y \<Rightarrow> ret y)"

definition lift_sum :: "py_error + 'a \<Rightarrow> ('s, 'a) prog" where
  "lift_sum r = (case r of Inl e \<Rightarrow> raise e | Inr x \<Rightarrow> ret x)"

definition handle_error :: "('s, 'a) prog \<Rightarrow> (py_error \<Rightarrow> ('s, 'a) prog) \<Rightarrow> ('s, 'a) prog" where
  "handle_error m h = (\<lambda>s. case m s of (Inl e, s') \<Rightarrow> h e s' | (Inr x, s') \<Rightarrow> (Inr x, s'))"

primrec foreach :: "'x list \<Rightarrow> ('x \<Rightarrow> ('s, unit) prog) \<Rightarrow> ('s, unit) prog" where
  "foreach [] f = ret ()"
| "foreach (x # xs) f = bnd (f x) (\<lambda>_. foreach xs f)"

primrec map_prog :: "('x \<Rightarrow> ('s, 'y) prog) \<Rightarrow> 'x list \<Rightarrow> ('s, 'y list) prog" where
  "map_prog f [] = ret []"
| "map_prog f (x # xs) = bnd (f x) (\<lambda>y. bnd (map_prog f xs) (\<lambda>ys. ret (y # ys)))"

named_theorems run_simps "execution of the program combinators on a state"

lemma run_ret [run_simps]: "ret x s = (Inr x, s)"
  by (simp add: ret_def)

lemma run_raise [run_simps]: "raise e s = (Inl e, s)"
  by (simp add: raise_def)

lemma run_gets [run_simps]: "gets f s = (Inr (f s), s)"
  by (simp add: gets_def)

lemma run_modify [run_simps]: "modify f s = (Inr (), f s)"
  by (simp add: modify_def)

lemma run_require [run_simps]:
  "require b e s = (if b then (Inr (), s) else (Inl e, s))"
  by (simp add: require_def ret_def raise_def)

lemma run_required [run_simps]:
  "required x e s = (case x of None \<Rightarrow> (Inl e, s) | Some y \<Rightarrow> (Inr y, s))"
  by (simp add: required_def ret_def raise_def split: option.splits)

lemma run_lift_sum [run_simps]: "lift_sum r s = (r, s)"
  by (simp add: lift_sum_def ret_def raise_def split: sum.splits)

lemma run_bnd [run_simps]:
  "bnd m f s = (case m s of (Inl e, s') \<Rightarrow> (Inl e, s') | (Inr x, s') \<Rightarrow> f x s')"
  by (simp add: bnd_def)

lemma bnd_assoc: "bnd (bnd m f) g = bnd m (\<lambda>x. bnd (f x) g)"
  by (rule ext) (simp add: bnd_def split: prod.splits sum.splits)

lemma bnd_ret_left [simp]: "bnd (ret x) f = f x"
  by (rule ext) (simp add: bnd_def ret_def)

lemma bnd_raise_left [simp]: "bnd (raise e) f = raise e"
  by (rule ext) (simp add: bnd_def raise_def)

lemma bnd_okE:
  assumes "bnd m f s = (Inr y, s'')"
  obtains x s' where "m s = (Inr x, s')" and "f x s' = (Inr y, s'')"
  using assms by (auto simp: bnd_def split: prod.splits sum.splits)

lemma bnd_errE:
  assumes "bnd m f s = (Inl e, s'')"
  obtains "m s = (Inl e, s'')"
    | x s' where "m s = (Inr x, s')" and "f x s' = (Inl e, s'')"
  using assms by (auto simp: bnd_def split: prod.splits sum.splits)

subsection \<open>Relations kept by a program\<close>

text \<open>
  \<open>tracks R m\<close>: whatever \<open>m\<close> does, return or raise, its first and last state are
  related by \<open>R\<close>. Invariants and frame conditions are both of this form.
\<close>

definition tracks :: "('s \<Rightarrow> 's \<Rightarrow> bool) \<Rightarrow> ('s, 'a) prog \<Rightarrow> bool" where
  "tracks R m \<longleftrightarrow> (\<forall>s. R s (snd (m s)))"

definition keeps :: "('s \<Rightarrow> bool) \<Rightarrow> ('s, 'a) prog \<Rightarrow> bool" where
  "keeps I m \<longleftrightarrow> tracks (\<lambda>s t. I s \<longrightarrow> I t) m"

lemma tracksI: "(\<And>s. R s (snd (m s))) \<Longrightarrow> tracks R m"
  by (simp add: tracks_def)

lemma tracksD: "tracks R m \<Longrightarrow> m s = (r, s') \<Longrightarrow> R s s'"
  by (metis tracks_def snd_conv)

lemma keepsI: "(\<And>s. I s \<Longrightarrow> I (snd (m s))) \<Longrightarrow> keeps I m"
  by (simp add: keeps_def tracks_def)

lemma keepsD: "keeps I m \<Longrightarrow> I s \<Longrightarrow> m s = (r, s') \<Longrightarrow> I s'"
  by (metis keeps_def tracks_def snd_conv)

text \<open>
  The rules that walk through a program need the relation to be a preorder; they are proved
  once for every preorder on states.
\<close>

locale state_preorder =
  fixes R :: "'s \<Rightarrow> 's \<Rightarrow> bool"
  assumes refl: "R s s"
    and trans: "R s t \<Longrightarrow> R t u \<Longrightarrow> R s u"
begin

lemma t_ret: "tracks R (ret x)"
  by (simp add: tracks_def ret_def refl)

lemma t_raise: "tracks R (raise e)"
  by (simp add: tracks_def raise_def refl)

lemma t_gets: "tracks R (gets f)"
  by (simp add: tracks_def gets_def refl)

lemma t_require: "tracks R (require b e)"
  by (simp add: tracks_def run_require refl)

lemma t_required: "tracks R (required x e)"
  by (simp add: tracks_def run_required refl split: option.splits)

lemma t_lift_sum: "tracks R (lift_sum r)"
  by (simp add: tracks_def run_lift_sum refl)

lemma t_modify: "(\<And>s. R s (f s)) \<Longrightarrow> tracks R (modify f)"
  by (simp add: tracks_def modify_def)

lemma t_bnd: "tracks R m \<Longrightarrow> (\<And>x. tracks R (f x)) \<Longrightarrow> tracks R (bnd m f)"
  unfolding tracks_def bnd_def
  by (auto split: prod.splits sum.splits) (metis snd_conv trans)+

lemma t_handle: "tracks R m \<Longrightarrow> (\<And>e. tracks R (h e)) \<Longrightarrow> tracks R (handle_error m h)"
  unfolding tracks_def handle_error_def
  by (auto split: prod.splits sum.splits) (metis snd_conv trans)+

lemma t_if: "(b \<Longrightarrow> tracks R m) \<Longrightarrow> (\<not> b \<Longrightarrow> tracks R n) \<Longrightarrow> tracks R (if b then m else n)"
  by simp

lemma t_option:
  "(x = None \<Longrightarrow> tracks R m) \<Longrightarrow> (\<And>y. x = Some y \<Longrightarrow> tracks R (f y)) \<Longrightarrow>
   tracks R (case x of None \<Rightarrow> m | Some y \<Rightarrow> f y)"
  by (cases x) auto

lemma t_sum:
  "(\<And>e. x = Inl e \<Longrightarrow> tracks R (g e)) \<Longrightarrow> (\<And>y. x = Inr y \<Longrightarrow> tracks R (f y)) \<Longrightarrow>
   tracks R (case x of Inl e \<Rightarrow> g e | Inr y \<Rightarrow> f y)"
  by (cases x) auto

lemma t_prod: "(\<And>a b. x = (a, b) \<Longrightarrow> tracks R (f a b)) \<Longrightarrow> tracks R (case x of (a, b) \<Rightarrow> f a b)"
  by (cases x) auto

lemma t_let: "(\<And>x. x = t \<Longrightarrow> tracks R (f x)) \<Longrightarrow> tracks R (let x = t in f x)"
  by simp

lemma t_foreach: "(\<And>x. x \<in> set xs \<Longrightarrow> tracks R (f x)) \<Longrightarrow> tracks R (foreach xs f)"
  by (induction xs) (auto intro: t_ret t_bnd)

lemma t_map_prog: "(\<And>x. x \<in> set xs \<Longrightarrow> tracks R (f x)) \<Longrightarrow> tracks R (map_prog f xs)"
  by (induction xs) (auto intro!: t_ret t_bnd)

lemmas t_rules = t_ret t_raise t_gets t_require t_required t_lift_sum t_bnd t_handle
  t_if t_option t_sum t_prod t_let t_foreach t_map_prog

end

text \<open>Every invariant is such a preorder, so the same rules prove preservation.\<close>

lemma invariant_preorder: "state_preorder (\<lambda>s t. I s \<longrightarrow> I t)"
  by unfold_locales auto

lemmas keeps_rules =
  state_preorder.t_rules [OF invariant_preorder, folded keeps_def]

lemma keeps_modify: "(\<And>s. I s \<Longrightarrow> I (f s)) \<Longrightarrow> keeps I (modify f)"
  by (simp add: keeps_def tracks_def modify_def)

subsection \<open>Programs that cannot raise\<close>

definition returns :: "('s, 'a) prog \<Rightarrow> bool" where
  "returns m \<longleftrightarrow> (\<forall>s. \<exists>x t. m s = (Inr x, t))"

lemma returnsD: "returns m \<Longrightarrow> \<exists>x t. m s = (Inr x, t)"
  by (simp add: returns_def)

lemma returns_basic:
  "returns (ret x)" "returns (gets f)" "returns (modify g)"
  by (simp_all add: returns_def run_simps)

lemma returns_bnd: "returns m \<Longrightarrow> (\<And>x. returns (f x)) \<Longrightarrow> returns (bnd m f)"
  unfolding returns_def by (simp add: run_bnd) (metis (mono_tags, lifting) old.prod.case sum.simps(6))

lemma returns_option:
  "(x = None \<Longrightarrow> returns m) \<Longrightarrow> (\<And>y. x = Some y \<Longrightarrow> returns (f y)) \<Longrightarrow>
   returns (case x of None \<Rightarrow> m | Some y \<Rightarrow> f y)"
  by (cases x) auto

lemma returns_prod: "(\<And>a b. x = (a, b) \<Longrightarrow> returns (f a b)) \<Longrightarrow> returns (case x of (a, b) \<Rightarrow> f a b)"
  by (cases x) auto

lemma returns_let: "(\<And>x. x = t \<Longrightarrow> returns (f x)) \<Longrightarrow> returns (let x = t in f x)"
  by simp

lemma returns_if: "(b \<Longrightarrow> returns m) \<Longrightarrow> (\<not> b \<Longrightarrow> returns n) \<Longrightarrow> returns (if b then m else n)"
  by simp

lemma returns_foreach: "(\<And>x. x \<in> set xs \<Longrightarrow> returns (f x)) \<Longrightarrow> returns (foreach xs f)"
  by (induction xs) (auto intro: returns_basic returns_bnd)

lemmas returns_rules = returns_basic returns_bnd returns_option returns_prod returns_let returns_if
  returns_foreach

section \<open>JSON values\<close>

text \<open>
  Payload columns and provider messages are JSON. Python's \<open>bool\<close> is a subclass of
  \<open>int\<close>, so \<open>isinstance(True, int)\<close> holds and \<open>True == 1 == 1.0\<close>; the
  accessors below keep that.
\<close>

datatype json =
    JNull
  | JBool bool
  | JInt int
  | JFloat real
  | JStr string
  | JList "json list"
  | JObj "(string \<times> json) list"

type_synonym payload = "(string \<times> json) list"

definition dict_get :: "payload \<Rightarrow> string \<Rightarrow> json option" where
  "dict_get d k = map_of d k"

fun as_str :: "json option \<Rightarrow> string option" where
  "as_str (Some (JStr s)) = Some s"
| "as_str _ = None"

fun as_int :: "json option \<Rightarrow> int option" where
  "as_int (Some (JInt i)) = Some i"
| "as_int (Some (JBool b)) = Some (if b then 1 else 0)"
| "as_int _ = None"

fun as_obj :: "json option \<Rightarrow> payload option" where
  "as_obj (Some (JObj d)) = Some d"
| "as_obj _ = None"

fun equals_int :: "json option \<Rightarrow> int \<Rightarrow> bool" where
  "equals_int (Some (JInt i)) k = (i = k)"
| "equals_int (Some (JBool b)) k = ((if b then 1 else 0) = k)"
| "equals_int (Some (JFloat r)) k = (r = of_int k)"
| "equals_int _ k = False"

text \<open>Truth value of a possibly missing entry, as \<open>bool(d.get(k))\<close>.\<close>

fun truthy :: "json option \<Rightarrow> bool" where
  "truthy None = False"
| "truthy (Some JNull) = False"
| "truthy (Some (JBool b)) = b"
| "truthy (Some (JInt i)) = (i \<noteq> 0)"
| "truthy (Some (JFloat r)) = (r \<noteq> 0)"
| "truthy (Some (JStr s)) = (s \<noteq> [])"
| "truthy (Some (JList xs)) = (xs \<noteq> [])"
| "truthy (Some (JObj d)) = (d \<noteq> [])"

definition opt_json :: "string option \<Rightarrow> json" where
  "opt_json x = (case x of None \<Rightarrow> JNull | Some s \<Rightarrow> JStr s)"

section \<open>Text\<close>

text \<open>
  Text is a list of 8-bit characters. \<open>lower\<close> and \<open>upper\<close> fold the ASCII
  letters; whitespace is what \<open>str.isspace\<close> and the regular expression class
  \<open>\s\<close> accept among these characters.
\<close>

definition lower_char :: "char \<Rightarrow> char" where
  "lower_char c = (let n = of_char c :: nat in if 65 \<le> n \<and> n \<le> 90 then char_of (n + 32) else c)"

text \<open>The same on the bits of a character, which the kernel evaluates faster.\<close>

lemma lower_char_code [code]:
  "lower_char (Char b0 b1 b2 b3 b4 b5 b6 b7) =
    (if b6 \<and> \<not> b5 \<and> \<not> b7 \<and> (b0 \<or> b1 \<or> b2 \<or> b3 \<or> b4) \<and> \<not> (b3 \<and> b4 \<and> (b2 \<or> (b0 \<and> b1)))
     then Char b0 b1 b2 b3 b4 True b6 b7 else Char b0 b1 b2 b3 b4 b5 b6 b7)"
  by (cases b0; cases b1; cases b2; cases b3; cases b4; cases b5; cases b6; cases b7)
    (simp_all add: lower_char_def char_of_def bit_0)

definition lower :: "string \<Rightarrow> string" where
  "lower s = map lower_char s"

definition upper_char :: "char \<Rightarrow> char" where
  "upper_char c = (let n = of_char c :: nat in if 97 \<le> n \<and> n \<le> 122 then char_of (n - 32) else c)"

definition upper :: "string \<Rightarrow> string" where
  "upper s = map upper_char s"

definition is_space :: "char \<Rightarrow> bool" where
  "is_space c = (let n = of_char c :: nat in
     (9 \<le> n \<and> n \<le> 13) \<or> (28 \<le> n \<and> n \<le> 32) \<or> n = 133 \<or> n = 160)"

lemma is_space_code [code]:
  "is_space (Char b0 b1 b2 b3 b4 b5 b6 b7) =
    ((\<not> b7 \<and> \<not> b6 \<and> \<not> b5 \<and> \<not> b4 \<and> b3 \<and> (b0 \<or> b1 \<or> b2) \<and> \<not> (b2 \<and> b1)) \<or>
     (\<not> b7 \<and> \<not> b6 \<and> \<not> b5 \<and> b4 \<and> b3 \<and> b2) \<or>
     (\<not> b7 \<and> \<not> b6 \<and> b5 \<and> \<not> b4 \<and> \<not> b3 \<and> \<not> b2 \<and> \<not> b1 \<and> \<not> b0) \<or>
     (b7 \<and> \<not> b6 \<and> \<not> b5 \<and> \<not> b4 \<and> \<not> b3 \<and> b2 \<and> \<not> b1 \<and> b0) \<or>
     (b7 \<and> \<not> b6 \<and> b5 \<and> \<not> b4 \<and> \<not> b3 \<and> \<not> b2 \<and> \<not> b1 \<and> \<not> b0))"
  by (cases b0; cases b1; cases b2; cases b3; cases b4; cases b5; cases b6; cases b7)
    (simp_all add: is_space_def)

definition strip :: "string \<Rightarrow> string" where
  "strip s = rev (dropWhile is_space (rev (dropWhile is_space s)))"

fun starts_with :: "string \<Rightarrow> string \<Rightarrow> bool" where
  "starts_with [] s = True"
| "starts_with (p # ps) [] = False"
| "starts_with (p # ps) (c # cs) = (p = c \<and> starts_with ps cs)"

text \<open>\<open>needle in haystack\<close> on strings.\<close>

fun contains :: "string \<Rightarrow> string \<Rightarrow> bool" where
  "contains n [] = (n = [])"
| "contains n (c # cs) = (starts_with n (c # cs) \<or> contains n cs)"

definition any_in :: "string list \<Rightarrow> string \<Rightarrow> bool" where
  "any_in ts s = list_ex (\<lambda>t. contains t s) ts"

text \<open>Decimal numerals, as Python's \<open>str\<close> prints an integer.\<close>

fun show_nat :: "nat \<Rightarrow> string" where
  "show_nat n = (if n < 10 then [char_of (48 + n)] else show_nat (n div 10) @ [char_of (48 + n mod 10)])"

declare show_nat.simps [simp del]

definition show_int :: "int \<Rightarrow> string" where
  "show_int i = (if i < 0 then ''-'' @ show_nat (nat (- i)) else show_nat (nat i))"

definition join_with :: "string \<Rightarrow> string list \<Rightarrow> string" where
  "join_with sep xs = (case xs of [] \<Rightarrow> [] | y # ys \<Rightarrow> y @ concat (map (\<lambda>z. sep @ z) ys))"

lemma starts_with_append: "starts_with p s \<longleftrightarrow> (\<exists>t. s = p @ t)"
  by (induction p s rule: starts_with.induct) auto

lemma starts_with_take: "starts_with p s \<longleftrightarrow> take (length p) s = p"
  by (induction p s rule: starts_with.induct) auto

lemma contains_append: "contains n s \<longleftrightarrow> (\<exists>u v. s = u @ n @ v)"
proof (induction n s rule: contains.induct)
  case (1 n)
  then show ?case by auto
next
  case (2 n c cs)
  show ?case
  proof
    assume "contains n (c # cs)"
    then consider "starts_with n (c # cs)" | "contains n cs" by auto
    then show "\<exists>u v. c # cs = u @ n @ v"
    proof cases
      case 1
      then show ?thesis by (metis append_Nil starts_with_append)
    next
      case 2
      with "2.IH" show ?thesis by (metis append_Cons)
    qed
  next
    assume "\<exists>u v. c # cs = u @ n @ v"
    then obtain u v where uv: "c # cs = u @ n @ v" by blast
    show "contains n (c # cs)"
    proof (cases u)
      case Nil
      with uv have "starts_with n (c # cs)" by (metis append_Nil starts_with_append)
      then show ?thesis by simp
    next
      case (Cons a us)
      with uv "2.IH" show ?thesis by auto
    qed
  qed
qed

section \<open>Sorted lists\<close>

lemma sorted_map_fst:
  fixes k :: "'a \<Rightarrow> 'b::linorder \<times> 'c::linorder"
  shows "sorted (map (\<lambda>x. (f x, g x)) xs) \<Longrightarrow> sorted (map f xs)"
  by (induction xs) (auto simp: less_eq_prod_def)

lemma sorted_take_skipped:
  assumes "sorted (map f xs)" and "x \<in> set xs" and "x \<notin> set (take n xs)"
  shows "length (take n xs) = n \<and> (\<forall>y \<in> set (take n xs). f y \<le> f x)"
proof -
  have xs: "xs = take n xs @ drop n xs" by simp
  with assms have x: "x \<in> set (drop n xs)" by (metis Un_iff set_append)
  then have "n < length xs" by (metis drop_all empty_iff list.set(1) not_less)
  moreover have "f y \<le> f x" if "y \<in> set (take n xs)" for y
    using assms(1) that x by (subst (asm) xs) (simp add: sorted_append del: append_take_drop_id)
  ultimately show ?thesis by simp
qed

text \<open>\<open>list(dict.fromkeys(xs))\<close>: the first occurrence of each element, in order.\<close>

definition dedupe :: "'a list \<Rightarrow> 'a list" where
  "dedupe xs = rev (remdups (rev xs))"

lemma set_dedupe [simp]: "set (dedupe xs) = set xs"
  by (simp add: dedupe_def)

lemma distinct_dedupe [simp]: "distinct (dedupe xs)"
  by (simp add: dedupe_def)

section \<open>Tables\<close>

text \<open>
  A table is the list of its rows in insertion order. \<open>row_get\<close> is a primary key lookup,
  \<open>row_set\<close> the effect of assigning attributes of the row with that key, and
  \<open>select_first\<close> the row a filtered \<open>select\<close> returns.
\<close>

definition row_get :: "('r \<Rightarrow> string) \<Rightarrow> string \<Rightarrow> 'r list \<Rightarrow> 'r option" where
  "row_get rid i rs = List.find (\<lambda>r. rid r = i) rs"

definition row_set :: "('r \<Rightarrow> string) \<Rightarrow> string \<Rightarrow> ('r \<Rightarrow> 'r) \<Rightarrow> 'r list \<Rightarrow> 'r list" where
  "row_set rid i f rs = map (\<lambda>r. if rid r = i then f r else r) rs"

definition select_first :: "('r \<Rightarrow> bool) \<Rightarrow> 'r list \<Rightarrow> 'r option" where
  "select_first P rs = List.find P rs"

lemma select_first_Some: "select_first P rs = Some r \<Longrightarrow> r \<in> set rs \<and> P r"
  by (auto simp: select_first_def find_Some_iff)

lemma select_first_None: "select_first P rs = None \<longleftrightarrow> (\<forall>r \<in> set rs. \<not> P r)"
  by (auto simp: select_first_def find_None_iff)

lemma select_first_append:
  "select_first P (rs @ qs) = (case select_first P rs of None \<Rightarrow> select_first P qs | Some r \<Rightarrow> Some r)"
  by (induction rs) (auto simp: select_first_def)

lemma select_first_singleton [simp]: "select_first P [r] = (if P r then Some r else None)"
  by (simp add: select_first_def)

lemma select_first_Nil [simp]: "select_first P [] = None"
  by (simp add: select_first_def)

lemma row_get_Some: "row_get rid i rs = Some r \<Longrightarrow> r \<in> set rs \<and> rid r = i"
  by (auto simp: row_get_def find_Some_iff)

lemma row_get_None: "row_get rid i rs = None \<longleftrightarrow> i \<notin> rid ` set rs"
  by (auto simp: row_get_def find_None_iff)

lemma row_get_append:
  "row_get rid i (rs @ qs) = (case row_get rid i rs of None \<Rightarrow> row_get rid i qs | Some r \<Rightarrow> Some r)"
  by (induction rs) (auto simp: row_get_def)

lemma row_get_singleton [simp]: "row_get rid i [r] = (if rid r = i then Some r else None)"
  by (simp add: row_get_def)

lemma row_get_Nil [simp]: "row_get rid i [] = None"
  by (simp add: row_get_def)

lemma row_get_distinct:
  "distinct (map rid rs) \<Longrightarrow> r \<in> set rs \<Longrightarrow> row_get rid (rid r) rs = Some r"
  by (induction rs) (force simp: row_get_def)+

lemma filter_distinct_key:
  "distinct (map k rs) \<Longrightarrow> r \<in> set rs \<Longrightarrow> filter (\<lambda>q. k q = k r) rs = [r]"
proof (induction rs)
  case Nil
  then show ?case by simp
next
  case (Cons a rs)
  show ?case
  proof (cases "r = a")
    case True
    with Cons.prems have "filter (\<lambda>q. k q = k r) rs = []"
      unfolding filter_empty_conv by (metis distinct.simps(2) image_eqI list.set_map list.simps(9))
    with True show ?thesis by simp
  next
    case False
    with Cons.prems have "k a \<noteq> k r" and "r \<in> set rs" by auto
    with Cons show ?thesis by simp
  qed
qed

lemma set_row_set: "x \<in> set (row_set rid i f rs) \<longleftrightarrow>
    (\<exists>r \<in> set rs. x = (if rid r = i then f r else r))"
  unfolding row_set_def set_map image_iff by (rule refl)

lemma row_set_other: "i \<notin> rid ` set rs \<Longrightarrow> row_set rid i f rs = rs"
  by (induction rs) (auto simp: row_set_def)

lemma length_row_set [simp]: "length (row_set rid i f rs) = length rs"
  by (simp add: row_set_def)

lemma row_set_const:
  assumes "distinct (map rid rs)" and "row_get rid i rs = Some r"
  shows "row_set rid i f rs = row_set rid i (\<lambda>_. f r) rs"
proof -
  have "q = r" if "q \<in> set rs" "rid q = i" for q
    using that assms row_get_distinct [of rid rs q] by simp
  then show ?thesis by (simp add: row_set_def)
qed

lemma row_set_append: "row_set rid i f (rs @ qs) = row_set rid i f rs @ row_set rid i f qs"
  by (simp add: row_set_def)

lemma select_first_row_set:
  assumes "select_first P rs = Some r" and "\<And>q. P (f q) = P q"
  shows "select_first P (row_set rid (rid r) f rs) = Some (f r)"
  using assms by (induction rs) (auto simp: select_first_def row_set_def split: if_splits)

text \<open>
  The columns of a table that no operation assigns after a row is inserted are its identity;
  they include the primary key. Row updates that respect the identity keep lookups and
  uniqueness constraints intact.
\<close>

locale keyed_table =
  fixes rid :: "'r \<Rightarrow> string" and ident :: "'r \<Rightarrow> 'k"
  assumes ident_rid: "ident r = ident q \<Longrightarrow> rid r = rid q"
begin

definition stable :: "('r \<Rightarrow> 'r) \<Rightarrow> bool" where
  "stable f \<longleftrightarrow> (\<forall>r. ident (f r) = ident r)"

lemma stable_rid: "stable f \<Longrightarrow> rid (f r) = rid r"
  by (auto simp: stable_def intro: ident_rid)

lemma ident_row_set: "stable f \<Longrightarrow> map ident (row_set rid i f rs) = map ident rs"
  by (simp add: row_set_def stable_def)

lemma rid_row_set: "stable f \<Longrightarrow> map rid (row_set rid i f rs) = map rid rs"
  by (simp add: row_set_def stable_rid)

lemma get_set_same:
  "stable f \<Longrightarrow> row_get rid i (row_set rid i f rs) = map_option f (row_get rid i rs)"
  by (induction rs) (auto simp: row_get_def row_set_def stable_rid)

lemma get_set_other:
  "stable f \<Longrightarrow> i \<noteq> j \<Longrightarrow> row_get rid j (row_set rid i f rs) = row_get rid j rs"
  by (induction rs) (auto simp: row_get_def row_set_def stable_rid)

lemma get_set:
  "stable f \<Longrightarrow> row_get rid j (row_set rid i f rs) =
     (if i = j then map_option f (row_get rid j rs) else row_get rid j rs)"
  by (simp add: get_set_same get_set_other)

text \<open>A loop that assigns the selected rows one by one is one update of all of them.\<close>

lemma fold_row_set:
  "stable f \<Longrightarrow> distinct is \<Longrightarrow>
   fold (\<lambda>i. row_set rid i f) is rs = map (\<lambda>r. if rid r \<in> set is then f r else r) rs"
proof (induction "is" arbitrary: rs)
  case Nil
  then show ?case by simp
next
  case (Cons i "is")
  then have "fold (\<lambda>i. row_set rid i f) (i # is) rs
      = map (\<lambda>r. if rid r \<in> set is then f r else r) (row_set rid i f rs)" by simp
  also have "\<dots> = map (\<lambda>r. if rid r \<in> set (i # is) then f r else r) rs"
    using Cons.prems by (auto simp: row_set_def stable_rid)
  finally show ?case .
qed

lemma fold_selected:
  assumes "stable f" and "distinct (map rid rs)"
  shows "fold (\<lambda>i. row_set rid i f) (map rid (filter P rs)) rs = map (\<lambda>r. if P r then f r else r) rs"
proof -
  have "rid r \<in> rid ` set (filter P rs) \<longleftrightarrow> P r" if "r \<in> set rs" for r
    using that assms(2) by (auto simp: inj_on_eq_iff distinct_map)
  with assms fold_row_set [OF assms(1), of "map rid (filter P rs)" rs] show ?thesis
    by (simp add: distinct_map_filter)
qed

lemma row_set_overwrite:
  "stable f \<Longrightarrow> row_set rid i (\<lambda>_. c) (row_set rid i f rs) = row_set rid i (\<lambda>_. c) rs"
  by (simp add: row_set_def stable_rid)

lemma row_set_get:
  "distinct (map rid rs) \<Longrightarrow> row_get rid i rs = Some r \<Longrightarrow> P (f r) \<Longrightarrow>
   (\<And>q. q \<in> set rs \<Longrightarrow> P q) \<Longrightarrow> x \<in> set (row_set rid i f rs) \<Longrightarrow> P x"
  by (auto simp: set_row_set dest: row_get_distinct row_get_Some split: if_splits)

end

end
