(* ===== verification/Domain.thy ===== *)
theory Domain
  imports Prelude
begin

text \<open>
  The domain layer (\<open>domain/\<close>): the status enumerations, the truth-state machine
  \<open>transition_epistemic_status\<close>, tenant scopes, and the entities that carry behaviour
  (evidence, claims, hypotheses, decisions, asset versions, approvals, events). Identifiers
  (\<open>new_id\<close>) and the clock (\<open>utc_now\<close>) are arguments of the operations that draw them.
\<close>

section \<open>Enumerations (\<open>domain/enums.py\<close>)\<close>

datatype EpistemicStatus =
    OBSERVATION | FACT | DERIVED_FACT | HYPOTHESIS | ASSUMPTION | UNKNOWN
  | CONFLICT | REJECTED | INVALIDATED

datatype VerificationBasis =
    DETERMINISTIC_SOURCE | HUMAN_REVIEW | CALCULATION | MODEL_CONFIDENCE

datatype SourceTrust = UNTRUSTED_EXTERNAL | CONNECTOR | USER_PROVIDED | INTERNAL_SYSTEM

datatype CausalityClass =
    DIRECT_DETERMINISTIC_ATTRIBUTION | EXPERIMENTAL_CAUSAL_EVIDENCE
  | STRONG_OBSERVATIONAL_EVIDENCE | CORRELATION | UNKNOWN

datatype DecisionStatus = ACTIVE | SUPERSEDED | INVALIDATED

datatype ControllerVerdict = PASS | PASS_WITH_CONDITIONS | REVISE | BLOCK

datatype ExperimentStatus = DRAFT | RUNNING | COMPLETE | INVALIDATED

datatype PublicationStatus = DRAFT | APPROVAL_REQUIRED | APPROVED | PUBLISHED | BLOCKED

datatype PermissionMode =
    SUGGEST | PREPARE | EXECUTE_AFTER_APPROVAL | LIMITED_AUTOPILOT | POLICY_AUTOPILOT

datatype ApprovalStatus = PENDING | APPROVED | REJECTED | INVALIDATED

datatype ActionStatus = PROPOSED | APPROVAL_REQUIRED | APPROVED | EXECUTED | BLOCKED

datatype ExecutionStatus =
    PENDING | RUNNING | SUCCEEDED | FAILED | BLOCKED | UNKNOWN_EXTERNAL_OUTCOME

datatype JobStatus = QUEUED | PENDING | RUNNING | RETRY_WAIT | SUCCEEDED | FAILED

datatype OutboxStatus = PENDING | PUBLISHED | FAILED

text \<open>The text of a member is its name.\<close>

fun epistemic_value :: "EpistemicStatus \<Rightarrow> string" where
  "epistemic_value OBSERVATION = ''OBSERVATION''"
| "epistemic_value FACT = ''FACT''"
| "epistemic_value DERIVED_FACT = ''DERIVED_FACT''"
| "epistemic_value HYPOTHESIS = ''HYPOTHESIS''"
| "epistemic_value ASSUMPTION = ''ASSUMPTION''"
| "epistemic_value EpistemicStatus.UNKNOWN = ''UNKNOWN''"
| "epistemic_value CONFLICT = ''CONFLICT''"
| "epistemic_value EpistemicStatus.REJECTED = ''REJECTED''"
| "epistemic_value EpistemicStatus.INVALIDATED = ''INVALIDATED''"

section \<open>Truth-state transitions (\<open>domain/epistemic.py\<close>)\<close>

definition allowed_fact_sources :: "EpistemicStatus list" where
  "allowed_fact_sources = [OBSERVATION, DERIVED_FACT, ASSUMPTION]"

definition allowed_transitions :: "(EpistemicStatus \<times> EpistemicStatus) list" where
  "allowed_transitions =
    [(EpistemicStatus.UNKNOWN, OBSERVATION),
     (EpistemicStatus.UNKNOWN, ASSUMPTION),
     (EpistemicStatus.UNKNOWN, HYPOTHESIS),
     (OBSERVATION, FACT),
     (OBSERVATION, CONFLICT),
     (ASSUMPTION, FACT),
     (ASSUMPTION, EpistemicStatus.REJECTED),
     (HYPOTHESIS, EpistemicStatus.REJECTED),
     (HYPOTHESIS, EpistemicStatus.INVALIDATED),
     (FACT, EpistemicStatus.INVALIDATED),
     (DERIVED_FACT, FACT),
     (DERIVED_FACT, EpistemicStatus.INVALIDATED),
     (CONFLICT, EpistemicStatus.REJECTED),
     (CONFLICT, EpistemicStatus.INVALIDATED)]"

definition transition_epistemic_status ::
  "EpistemicStatus \<Rightarrow> EpistemicStatus \<Rightarrow> VerificationBasis \<Rightarrow> string list
     \<Rightarrow> py_error + EpistemicStatus" where
  "transition_epistemic_status current target basis evidence_ids =
    (if current = target then Inr target
     else if target = FACT \<and> basis = MODEL_CONFIDENCE then
       Inl (InvalidEpistemicTransition
         ''model confidence cannot promote any epistemic object to FACT'')
     else if target = FACT \<and> evidence_ids = [] then
       Inl (InvalidEpistemicTransition ''FACT promotion requires durable evidence references'')
     else if target = FACT \<and> current \<notin> set allowed_fact_sources then
       Inl (InvalidEpistemicTransition
         (epistemic_value current @ '' cannot transition directly to FACT''))
     else if (current, target) \<notin> set allowed_transitions then
       Inl (InvalidEpistemicTransition
         (''invalid epistemic transition: '' @ epistemic_value current @ '' -> ''
            @ epistemic_value target))
     else Inr target)"

section \<open>Tenant scope (\<open>domain/scope.py\<close>)\<close>

record TenantScope =
  organization_id :: string
  business_id :: string

definition assert_matches :: "'z TenantScope_scheme \<Rightarrow> string \<Rightarrow> string \<Rightarrow> py_error + unit" where
  "assert_matches scope org_id biz_id =
    (if org_id \<noteq> organization_id scope \<or> biz_id \<noteq> business_id scope
     then Inl (TenantScopeViolation
       (''object scope does not match repository scope: expected organization=''
          @ organization_id scope @ '' business='' @ business_id scope
          @ '', got organization='' @ org_id @ '' business='' @ biz_id))
     else Inr ())"

section \<open>Time (\<open>domain/time.py\<close>)\<close>

text \<open>
  Instants and durations are integers (microseconds). A Python \<open>datetime\<close> may lack a zone; the second
  component says whether it has one.
\<close>

type_synonym datetime = int
type_synonym timedelta = int

definition ensure_aware :: "datetime \<times> bool \<Rightarrow> py_error + datetime \<times> bool" where
  "ensure_aware v = (if \<not> snd v then Inl (ValueError ''datetime values must be timezone-aware'')
     else Inr v)"

section \<open>Entities (\<open>domain/entities.py\<close>)\<close>

text \<open>
  A versioned object lives in a tenant scope; the dataclass inheritance of the source is record
  extension. Where the source builds a tuple from a set, its order is not determined; the model
  takes the order of first occurrence and the lemmas speak about the elements only.
\<close>

record VersionedBusinessObject = TenantScope +
  object_id :: string
  version :: int
  created_at :: datetime
  updated_at :: datetime

record Evidence = VersionedBusinessObject +
  source_record_id :: string
  statement :: string
  status :: EpistemicStatus
  confidence :: "real option"
  occurred_at :: "datetime option"
  recorded_at :: datetime
  conflicts_with_evidence_ids :: "string list"

record Claim = VersionedBusinessObject +
  claim_statement :: string
  claim_status :: EpistemicStatus
  evidence_ids :: "string list"

record Hypothesis = VersionedBusinessObject +
  hypothesis_statement :: string
  hypothesis_status :: EpistemicStatus
  model_confidence :: "real option"
  hypothesis_evidence_ids :: "string list"

definition evidence_transition_to ::
  "Evidence \<Rightarrow> EpistemicStatus \<Rightarrow> VerificationBasis \<Rightarrow> string list \<Rightarrow> datetime
     \<Rightarrow> py_error + Evidence" where
  "evidence_transition_to ev target basis ids now =
    (case transition_epistemic_status (status ev) target basis ids of
       Inl e \<Rightarrow> Inl e
     | Inr new_status \<Rightarrow>
         Inr (ev\<lparr>status := new_status, version := version ev + 1, updated_at := now\<rparr>))"

definition mark_conflict :: "Evidence \<Rightarrow> string \<Rightarrow> datetime \<Rightarrow> Evidence" where
  "mark_conflict ev conflicting_evidence_id now =
    ev\<lparr>status := CONFLICT,
       conflicts_with_evidence_ids :=
         remdups (conflicts_with_evidence_ids ev @ [conflicting_evidence_id]),
       version := version ev + 1, updated_at := now\<rparr>"

definition claim_transition_to ::
  "Claim \<Rightarrow> EpistemicStatus \<Rightarrow> VerificationBasis \<Rightarrow> string list \<Rightarrow> datetime
     \<Rightarrow> py_error + Claim" where
  "claim_transition_to c target basis ids now =
    (case transition_epistemic_status (claim_status c) target basis ids of
       Inl e \<Rightarrow> Inl e
     | Inr new_status \<Rightarrow>
         Inr (c\<lparr>claim_status := new_status,
                evidence_ids := remdups (evidence_ids c @ ids),
                version := version c + 1, updated_at := now\<rparr>))"

definition promote_to_fact ::
  "Hypothesis \<Rightarrow> VerificationBasis \<Rightarrow> string list \<Rightarrow> string \<Rightarrow> datetime \<Rightarrow> py_error + Claim" where
  "promote_to_fact h basis ids new_id now =
    (case transition_epistemic_status (hypothesis_status h) FACT basis ids of
       Inl e \<Rightarrow> Inl e
     | Inr new_status \<Rightarrow>
         Inr \<lparr>organization_id = organization_id h, business_id = business_id h,
              object_id = new_id, version = 1, created_at = now, updated_at = now,
              claim_statement = hypothesis_statement h, claim_status = new_status,
              evidence_ids = ids\<rparr>)"

record Decision = VersionedBusinessObject +
  goal_problem :: string
  selected_action :: string
  expected_effect :: string
  decision_confidence :: "real option"
  reversibility :: string
  risk_class :: string
  decision_status :: DecisionStatus
  snapshot_id :: "string option"
  supersedes_decision_id :: "string option"
  next_checkpoint :: "string option"
  decision_evidence_ids :: "string list"
  assumption_ids :: "string list"
  known_unknown_ids :: "string list"

text \<open>Python's \<open>x or y\<close> on optional text: both a missing and an empty value fall through.\<close>

definition or_else :: "string option \<Rightarrow> string \<Rightarrow> string" where
  "or_else x y = (case x of None \<Rightarrow> y | Some v \<Rightarrow> if v = [] then y else v)"

definition supersede_with ::
  "Decision \<Rightarrow> string \<Rightarrow> string option \<Rightarrow> string option \<Rightarrow> string \<Rightarrow> string \<Rightarrow> datetime
     \<Rightarrow> py_error + Decision" where
  "supersede_with d action goal_problem' expected_effect' reason new_id now =
    (if action = [] then Inl (ValueError ''a superseding decision must include selected_action'')
     else Inr
       \<lparr>organization_id = organization_id d, business_id = business_id d,
        object_id = new_id, version = 1, created_at = now, updated_at = now,
        goal_problem = or_else goal_problem' (goal_problem d),
        selected_action = action,
        expected_effect = or_else expected_effect' (expected_effect d),
        decision_confidence = decision_confidence d,
        reversibility = reversibility d,
        risk_class = risk_class d,
        decision_status = ACTIVE,
        snapshot_id = snapshot_id d,
        supersedes_decision_id = Some (object_id d),
        next_checkpoint = Some reason,
        decision_evidence_ids = decision_evidence_ids d,
        assumption_ids = assumption_ids d,
        known_unknown_ids = known_unknown_ids d\<rparr>)"

record Asset = VersionedBusinessObject +
  creative_brief_id :: string
  asset_type :: string
  title :: string

record AssetVersion = TenantScope +
  asset_version_id :: string
  asset_id :: string
  version_number :: int
  body :: string
  created_by_user_id :: string
  provenance :: payload
  version_created_at :: datetime

definition next_for ::
  "Asset \<Rightarrow> string \<Rightarrow> string \<Rightarrow> AssetVersion option \<Rightarrow> payload option \<Rightarrow> string \<Rightarrow> datetime
     \<Rightarrow> AssetVersion" where
  "next_for asset text user previous prov new_id now =
    \<lparr>organization_id = organization_id asset, business_id = business_id asset,
     asset_version_id = new_id, asset_id = object_id asset,
     version_number = (case previous of None \<Rightarrow> 1 | Some p \<Rightarrow> version_number p + 1),
     body = text, created_by_user_id = user,
     provenance = (case prov of None \<Rightarrow> [] | Some p \<Rightarrow> p),
     version_created_at = now\<rparr>"

record Approval = TenantScope +
  approval_id :: string
  action_id :: string
  action_type :: string
  object_type :: string
  approved_object_id :: string
  object_version_id :: string
  object_version :: int
  approved_by_user_id :: string
  approval_status :: ApprovalStatus
  approval_created_at :: datetime

definition assert_valid_for ::
  "Approval \<Rightarrow> string \<Rightarrow> string \<Rightarrow> string \<Rightarrow> string \<Rightarrow> string \<Rightarrow> int \<Rightarrow> py_error + unit" where
  "assert_valid_for a act act_type obj_type obj obj_version_id obj_version =
    (if approval_status a \<noteq> ApprovalStatus.APPROVED
        \<or> action_id a \<noteq> act
        \<or> action_type a \<noteq> act_type
        \<or> object_type a \<noteq> obj_type
        \<or> approved_object_id a \<noteq> obj
        \<or> object_version_id a \<noteq> obj_version_id
        \<or> object_version a \<noteq> obj_version
     then Inl (ApprovalBindingError ''approval is bound to a different object/version/action'')
     else Inr ())"

definition is_valid_for ::
  "Approval \<Rightarrow> string \<Rightarrow> string \<Rightarrow> string \<Rightarrow> string \<Rightarrow> string \<Rightarrow> int \<Rightarrow> bool" where
  "is_valid_for a act act_type obj_type obj obj_version_id obj_version =
    (case assert_valid_for a act act_type obj_type obj obj_version_id obj_version of
       Inl _ \<Rightarrow> False | Inr _ \<Rightarrow> True)"

section \<open>Domain events (\<open>domain/events.py\<close>)\<close>

record DomainEvent = TenantScope +
  event_type :: string
  aggregate_type :: string
  aggregate_id :: string
  correlation_id :: string
  causation_id :: "string option"
  actor_user_id :: "string option"
  event_payload :: payload
  event_id :: string
  event_occurred_at :: datetime

definition child :: "DomainEvent \<Rightarrow> string \<Rightarrow> string \<Rightarrow> string \<Rightarrow> payload option \<Rightarrow> string \<Rightarrow> datetime
    \<Rightarrow> DomainEvent" where
  "child ev etype atype aid pl new_id now =
    \<lparr>organization_id = organization_id ev, business_id = business_id ev,
     event_type = etype, aggregate_type = atype, aggregate_id = aid,
     correlation_id = correlation_id ev, causation_id = Some (event_id ev),
     actor_user_id = actor_user_id ev,
     event_payload = (case pl of None \<Rightarrow> [] | Some p \<Rightarrow> p),
     event_id = new_id, event_occurred_at = now\<rparr>"

section \<open>The truth-state machine\<close>

text \<open>
  A step of the machine is any call that the guard accepts, with any basis and any evidence.
\<close>

inductive epistemic_step :: "EpistemicStatus \<Rightarrow> EpistemicStatus \<Rightarrow> bool" where
  step: "transition_epistemic_status s t basis ids = Inr u \<Longrightarrow> epistemic_step s u"

inductive epistemic_reaches :: "EpistemicStatus \<Rightarrow> EpistemicStatus \<Rightarrow> bool" where
  here: "epistemic_reaches s s"
| later: "epistemic_reaches s t \<Longrightarrow> epistemic_step t u \<Longrightarrow> epistemic_reaches s u"

inductive_cases epistemic_stepE: "epistemic_step s t"

lemmas epistemic_defs = transition_epistemic_status_def allowed_fact_sources_def
  allowed_transitions_def

lemma transition_result: "transition_epistemic_status s t basis ids = Inr u \<Longrightarrow> u = t"
  by (auto simp: transition_epistemic_status_def split: if_splits)

lemma transition_allowed:
  "transition_epistemic_status s t basis ids = Inr u \<Longrightarrow> s = t \<or> (s, t) \<in> set allowed_transitions"
  by (auto simp: transition_epistemic_status_def split: if_splits)

lemma allowed_transition_accepted:
  "(s, t) \<in> set allowed_transitions \<Longrightarrow> transition_epistemic_status s t HUMAN_REVIEW [''e''] = Inr t"
  by (auto simp: epistemic_defs)

lemma epistemic_step_iff: "epistemic_step s t \<longleftrightarrow> s = t \<or> (s, t) \<in> set allowed_transitions"
proof
  assume "epistemic_step s t"
  then show "s = t \<or> (s, t) \<in> set allowed_transitions"
    by (auto elim!: epistemic_stepE dest: transition_allowed transition_result)
next
  assume "s = t \<or> (s, t) \<in> set allowed_transitions"
  then show "epistemic_step s t"
  proof
    assume "s = t"
    then have "transition_epistemic_status s t HUMAN_REVIEW [] = Inr t"
      by (simp add: transition_epistemic_status_def)
    then show ?thesis by (rule epistemic_step.step)
  next
    assume "(s, t) \<in> set allowed_transitions"
    then show ?thesis by (blast intro: epistemic_step.step allowed_transition_accepted)
  qed
qed

lemma epistemic_step_closed:
  assumes "epistemic_reaches s t" and "s \<in> S"
    and closed: "\<And>u v. u \<in> S \<Longrightarrow> (u, v) \<in> set allowed_transitions \<Longrightarrow> v \<in> S"
  shows "t \<in> S"
  using assms(1,2)
  by (induction rule: epistemic_reaches.induct) (auto simp: epistemic_step_iff closed)

lemma epistemic_reaches_step:
  "epistemic_reaches s t \<Longrightarrow> (t, u) \<in> set allowed_transitions \<Longrightarrow> epistemic_reaches s u"
  by (auto intro: epistemic_reaches.later simp: epistemic_step_iff)

section \<open>Properties\<close>

text \<open>
  No call promotes an object to FACT on model confidence or without evidence: a successful
  transition to FACT either starts at FACT, or comes from an observation, a derived fact or an
  assumption, on a basis other than model confidence and with at least one evidence reference.
\<close>

theorem fact_promotion_needs_evidence:
  assumes "transition_epistemic_status s FACT basis ids = Inr t" and "s \<noteq> FACT"
  shows "basis \<noteq> MODEL_CONFIDENCE \<and> ids \<noteq> [] \<and> s \<in> {OBSERVATION, DERIVED_FACT, ASSUMPTION}"
  using assms by (auto simp: epistemic_defs split: if_splits)

theorem fact_promotion_needs_evidence_witness:
  "transition_epistemic_status OBSERVATION FACT HUMAN_REVIEW [''e1''] = Inr FACT \<and>
   HUMAN_REVIEW \<noteq> MODEL_CONFIDENCE"
proof -
  have h: "transition_epistemic_status OBSERVATION FACT HUMAN_REVIEW [''e1''] = Inr FACT"
    by (simp add: epistemic_defs)
  show ?thesis using h fact_promotion_needs_evidence [OF h] by simp
qed

text \<open>
  What a truth state can become over any sequence of transitions: a hypothesis can only end
  rejected or invalidated (never as a fact), rejected and invalidated objects never change
  again, and an unknown object reaches every state except DERIVED_FACT.
\<close>

theorem epistemic_reachability:
  "{t. epistemic_reaches HYPOTHESIS t} =
     {HYPOTHESIS, EpistemicStatus.REJECTED, EpistemicStatus.INVALIDATED} \<and>
   {t. epistemic_reaches EpistemicStatus.REJECTED t} = {EpistemicStatus.REJECTED} \<and>
   {t. epistemic_reaches EpistemicStatus.INVALIDATED t} = {EpistemicStatus.INVALIDATED} \<and>
   {t. epistemic_reaches EpistemicStatus.UNKNOWN t} = UNIV - {DERIVED_FACT}"
  (is "?H \<and> ?R \<and> ?I \<and> ?U")
proof (intro conjI)
  note reach = epistemic_reaches.here epistemic_reaches_step
  show ?H
    by (rule set_eqI, rule iffI)
      (auto dest!: epistemic_step_closed
          [where S = "{HYPOTHESIS, EpistemicStatus.REJECTED, EpistemicStatus.INVALIDATED}"]
        simp: allowed_transitions_def intro: reach)
  show ?R
    by (auto dest!: epistemic_step_closed [where S = "{EpistemicStatus.REJECTED}"]
        simp: allowed_transitions_def intro: reach)
  show ?I
    by (auto dest!: epistemic_step_closed [where S = "{EpistemicStatus.INVALIDATED}"]
        simp: allowed_transitions_def intro: reach)
  have into: "t \<noteq> DERIVED_FACT" if "epistemic_reaches EpistemicStatus.UNKNOWN t" for t
    using epistemic_step_closed [OF that, where S = "UNIV - {DERIVED_FACT}"]
    by (auto simp: allowed_transitions_def)
  have obs: "epistemic_reaches EpistemicStatus.UNKNOWN OBSERVATION"
    and ass: "epistemic_reaches EpistemicStatus.UNKNOWN ASSUMPTION"
    and hyp: "epistemic_reaches EpistemicStatus.UNKNOWN HYPOTHESIS"
    by (rule epistemic_reaches_step [OF epistemic_reaches.here], simp add: allowed_transitions_def)+
  have second: "epistemic_reaches EpistemicStatus.UNKNOWN FACT"
      "epistemic_reaches EpistemicStatus.UNKNOWN CONFLICT"
      "epistemic_reaches EpistemicStatus.UNKNOWN EpistemicStatus.REJECTED"
      "epistemic_reaches EpistemicStatus.UNKNOWN EpistemicStatus.INVALIDATED"
    using epistemic_reaches_step [OF obs] epistemic_reaches_step [OF hyp]
    by (auto simp: allowed_transitions_def)
  have onto: "epistemic_reaches EpistemicStatus.UNKNOWN t" if "t \<noteq> DERIVED_FACT" for t
    using that obs ass hyp second epistemic_reaches.here by (cases t) auto
  show ?U using into onto by blast
qed

text \<open>
  \<open>Hypothesis.promote_to_fact\<close> never turns an object whose status is HYPOTHESIS into a
  claim: whatever basis and evidence are offered, the call raises.
\<close>

lemma hypothesis_never_promoted:
  assumes "hypothesis_status h = HYPOTHESIS"
  shows "\<exists>m. promote_to_fact h basis ids nid now = Inl (InvalidEpistemicTransition m)"
  using assms by (auto simp: promote_to_fact_def epistemic_defs)

text \<open>
  An approval is valid for exactly one target: if it validates two descriptions of an
  action, an object and a version, the two descriptions are the same, and it is approved.
\<close>

theorem approval_binds_one_target:
  assumes "is_valid_for a act1 ty1 ot1 ob1 vi1 v1" and "is_valid_for a act2 ty2 ot2 ob2 vi2 v2"
  shows "act1 = act2 \<and> ty1 = ty2 \<and> ot1 = ot2 \<and> ob1 = ob2 \<and> vi1 = vi2 \<and> v1 = v2 \<and>
    approval_status a = ApprovalStatus.APPROVED"
  using assms by (auto simp: is_valid_for_def assert_valid_for_def split: if_splits)

definition sample_approval :: Approval where
  "sample_approval =
    \<lparr>organization_id = ''o'', business_id = ''b'', approval_id = ''ap'', action_id = ''a'',
     action_type = ''telegram.publish_text'', object_type = ''AssetVersion'',
     approved_object_id = ''asset'', object_version_id = ''v1'', object_version = 1,
     approved_by_user_id = ''u'', approval_status = ApprovalStatus.APPROVED,
     approval_created_at = 0\<rparr>"

theorem approval_binds_one_target_witness:
  "is_valid_for sample_approval ''a'' ''telegram.publish_text'' ''AssetVersion'' ''asset'' ''v1'' 1
   \<and> approval_status sample_approval = ApprovalStatus.APPROVED"
proof -
  have h: "is_valid_for sample_approval ''a'' ''telegram.publish_text'' ''AssetVersion''
      ''asset'' ''v1'' 1"
    by (simp add: is_valid_for_def assert_valid_for_def sample_approval_def)
  show ?thesis using h approval_binds_one_target [OF h h] by blast
qed

lemma evidence_transition_version:
  "evidence_transition_to ev target basis ids now = Inr ev' \<Longrightarrow>
     version ev' = version ev + 1 \<and> object_id ev' = object_id ev \<and> status ev' = target"
  by (auto simp: evidence_transition_to_def dest: transition_result split: sum.splits)

lemma mark_conflict_records:
  "set (conflicts_with_evidence_ids (mark_conflict ev i now)) =
     insert i (set (conflicts_with_evidence_ids ev))"
  by (auto simp: mark_conflict_def)

lemma claim_transition_accumulates:
  "claim_transition_to c target basis ids now = Inr c' \<Longrightarrow>
     set (evidence_ids c') = set (evidence_ids c) \<union> set ids \<and> version c' = version c + 1"
  by (auto simp: claim_transition_to_def split: sum.splits)

lemma supersede_keeps_lineage:
  "supersede_with d action gp ee reason nid now = Inr d' \<Longrightarrow>
     supersedes_decision_id d' = Some (object_id d) \<and> snapshot_id d' = snapshot_id d \<and>
     organization_id d' = organization_id d \<and> business_id d' = business_id d \<and>
     selected_action d' = action \<and> action \<noteq> []"
  by (auto simp: supersede_with_def split: if_splits)

end
