(* ===== verification/Security.thy ===== *)
theory Security
  imports Domain
begin

text \<open>
  The secret guard of the runtime (\<open>runtime/security.py\<close>): which keys and which text count
  as secret-like, the recursive check of payloads, and the redaction of error summaries. The
  regular expression is written out as the deterministic scan it denotes: a keyword (in any
  case), optional white space, an equals sign, optional white space, and a value that runs to the
  next comma, semicolon or white space.
\<close>

definition SECRET_KEY_FRAGMENTS :: "string list" where
  "SECRET_KEY_FRAGMENTS =
    [''api_key'', ''apikey'', ''credential'', ''password'', ''private_key'', ''secret'', ''token'']"

definition SAFE_TELEMETRY_KEYS :: "string list" where
  "SAFE_TELEMETRY_KEYS = [''input_tokens'', ''output_tokens'', ''total_tokens'', ''token_usage'']"

definition secret_key :: "string \<Rightarrow> bool" where
  "secret_key key \<longleftrightarrow>
     lower key \<notin> set SAFE_TELEMETRY_KEYS \<and> any_in SECRET_KEY_FRAGMENTS (lower key)"

section \<open>The regular expression \<open>SECRET_ASSIGNMENT\<close>\<close>

definition secret_words :: "string list" where
  "secret_words =
    [''api_key'', ''api-key'', ''apikey'', ''credential'', ''password'',
     ''private_key'', ''private-key'', ''privatekey'', ''secret'', ''token'']"

definition is_delim :: "char \<Rightarrow> bool" where
  "is_delim c \<longleftrightarrow> c = CHR '','' \<or> c = CHR '';'' \<or> is_space c"

definition match_word :: "string \<Rightarrow> (string \<times> string) option" where
  "match_word s =
    (case List.find (\<lambda>w. starts_with w (lower s)) secret_words of
       None \<Rightarrow> None
     | Some w \<Rightarrow> Some (take (length w) s, drop (length w) s))"

text \<open>Most positions are ruled out by their first character.\<close>

lemma match_word_code [code]:
  "match_word s =
    (case s of
       [] \<Rightarrow> None
     | c # cs \<Rightarrow>
        if lower_char c \<in> {CHR ''a'', CHR ''c'', CHR ''p'', CHR ''s'', CHR ''t''}
        then (case List.find (\<lambda>w. starts_with w (lower s)) secret_words of
                None \<Rightarrow> None
              | Some w \<Rightarrow> Some (take (length w) s, drop (length w) s))
        else None)"
  by (cases s) (auto simp: match_word_def secret_words_def lower_def)

text \<open>What must follow the keyword; the result is the text after the value.\<close>

definition match_tail :: "string \<Rightarrow> string option" where
  "match_tail r =
    (case dropWhile is_space r of
       [] \<Rightarrow> None
     | e # r2 \<Rightarrow>
        (if e \<noteq> CHR ''='' then None
         else (case dropWhile is_space r2 of
                 [] \<Rightarrow> None
               | c # v \<Rightarrow> if is_delim c then None
                          else Some (dropWhile (\<lambda>x. \<not> is_delim x) (c # v)))))"

definition match_assignment :: "string \<Rightarrow> (string \<times> string) option" where
  "match_assignment s =
    (case match_word s of
       None \<Rightarrow> None
     | Some (w, r) \<Rightarrow> map_option (\<lambda>rest. (w, rest)) (match_tail r))"

text \<open>\<open>SECRET_ASSIGNMENT.search(value)\<close>\<close>

fun secret_search :: "string \<Rightarrow> bool" where
  "secret_search [] = False"
| "secret_search (c # cs) = (match_assignment (c # cs) \<noteq> None \<or> secret_search cs)"

section \<open>The recursive check (\<open>assert_no_secrets\<close>)\<close>

text \<open>The first exception of a sequence of checks.\<close>

fun first_error :: "(py_error + unit) list \<Rightarrow> py_error + unit" where
  "first_error [] = Inr ()"
| "first_error (Inl e # xs) = Inl e"
| "first_error (Inr u # xs) = first_error xs"

lemma size_obj_member: "(k, v) \<in> set d \<Longrightarrow> size v < size (JObj d)"
  by (induction d) auto

lemma size_list_member: "(i, v) \<in> set (enumerate n xs) \<Longrightarrow> size v < size (JList xs)"
  by (induction xs arbitrary: n) force+

function assert_no_secrets :: "json \<Rightarrow> string \<Rightarrow> py_error + unit" where
  "assert_no_secrets (JObj d) path =
     first_error (map (\<lambda>(key, item).
       if secret_key key
       then Inl (SecretRejectedError (''secret-like key rejected at '' @ path @ ''.'' @ key))
       else assert_no_secrets item (path @ ''.'' @ key)) d)"
| "assert_no_secrets (JStr value) path =
     (if secret_search value
      then Inl (SecretRejectedError (''secret-like value rejected at '' @ path))
      else Inr ())"
| "assert_no_secrets (JList xs) path =
     first_error (map (\<lambda>(index, item).
       assert_no_secrets item (path @ ''['' @ show_nat index @ '']'')) (enumerate 0 xs))"
| "assert_no_secrets JNull path = Inr ()"
| "assert_no_secrets (JBool b) path = Inr ()"
| "assert_no_secrets (JInt i) path = Inr ()"
| "assert_no_secrets (JFloat r) path = Inr ()"
  by pat_completeness auto
termination
  by (relation "measure (\<lambda>(v, path). size v)") (auto simp del: json.size
      dest: size_obj_member size_list_member)

definition no_secrets :: "payload \<Rightarrow> py_error + unit" where
  "no_secrets d = assert_no_secrets (JObj d) ''payload''"

section \<open>Redaction (\<open>redacted_error_summary\<close>)\<close>

lemma match_tail_shorter: "match_tail r = Some rest \<Longrightarrow> length rest < length r"
proof -
  assume a: "match_tail r = Some rest"
  then obtain r2 c v where r2: "dropWhile is_space r = CHR ''='' # r2"
    and cv: "dropWhile is_space r2 = c # v" and rest: "rest = dropWhile (\<lambda>x. \<not> is_delim x) (c # v)"
    by (auto simp: match_tail_def split: list.splits if_splits)
  have "length rest \<le> length (c # v)" unfolding rest by (rule length_dropWhile_le)
  also have "\<dots> \<le> length r2" unfolding cv [symmetric] by (rule length_dropWhile_le)
  also have "\<dots> < length (dropWhile is_space r)" by (simp add: r2)
  also have "\<dots> \<le> length r" by (rule length_dropWhile_le)
  finally show ?thesis .
qed

lemma match_assignment_shorter: "match_assignment s = Some (w, rest) \<Longrightarrow> length rest < length s"
  by (auto simp: match_assignment_def match_word_def split: option.splits
      dest!: match_tail_shorter)

function redact_secrets :: "string \<Rightarrow> string" where
  "redact_secrets [] = []"
| "redact_secrets (c # cs) =
     (case match_assignment (c # cs) of
        None \<Rightarrow> c # redact_secrets cs
      | Some (w, rest) \<Rightarrow> w @ ''=[REDACTED]'' @ redact_secrets rest)"
  by pat_completeness auto
termination
  by (relation "measure length") (auto dest: match_assignment_shorter)

definition redact_summary :: "string \<Rightarrow> nat \<Rightarrow> string" where
  "redact_summary summary max_length =
    (let redacted = redact_secrets summary
     in if length redacted > max_length then take (max_length - 3) redacted @ ''...'' else redacted)"

definition redacted_error_summary :: "py_error \<Rightarrow> string" where
  "redacted_error_summary error =
    redact_summary (error_class_name error @ '': '' @ error_message error) 500"

section \<open>Facts about the scan\<close>

lemma is_space_lower [simp]: "is_space (lower_char c) = is_space c"
  by (simp add: is_space_def lower_char_def Let_def)

lemma lower_char_equals [simp]: "lower_char c = CHR ''='' \<longleftrightarrow> c = CHR ''=''"
proof (cases "65 \<le> (of_char c :: nat) \<and> (of_char c :: nat) \<le> 90")
  case True
  then have "of_char (lower_char c) = (of_char c :: nat) + 32"
    by (simp add: lower_char_def Let_def)
  moreover have "(of_char (CHR ''='') :: nat) = 61" by simp
  ultimately show ?thesis using True by auto
next
  case False
  then show ?thesis by (auto simp: lower_char_def Let_def)
qed

lemma word_chars: "list_all (\<lambda>w. w \<noteq> [] \<and> list_all (\<lambda>x. \<not> is_space x \<and> x \<noteq> CHR ''='') w) secret_words"
  by (simp add: secret_words_def is_space_def)

lemma word_nonempty: "w \<in> set secret_words \<Longrightarrow> w \<noteq> []"
  using word_chars by (simp add: list_all_iff)

lemma word_plain: "w \<in> set secret_words \<Longrightarrow> x \<in> set w \<Longrightarrow> \<not> is_space x \<and> x \<noteq> CHR ''=''"
  using word_chars by (simp add: list_all_iff)

lemma word_not_prefix:
  "list_all (\<lambda>w. list_all (\<lambda>v. starts_with v w \<longrightarrow> v = w) secret_words) secret_words"
  by (simp add: secret_words_def)

lemma in_set_tlD: "y \<in> set (tl w) \<Longrightarrow> y \<in> set w"
  by (cases w) auto

lemma starts_with_two:
  "starts_with v s \<Longrightarrow> starts_with w s \<Longrightarrow> length v \<le> length w \<Longrightarrow> starts_with v w"
  by (auto simp: starts_with_append append_eq_append_conv2)

lemma word_unique:
  assumes "v \<in> set secret_words" and "w \<in> set secret_words"
    and "starts_with v s" and "starts_with w s"
  shows "v = w"
proof -
  have same: "\<And>v w. v \<in> set secret_words \<Longrightarrow> w \<in> set secret_words \<Longrightarrow> starts_with v w \<Longrightarrow> v = w"
    using word_not_prefix by (simp add: list_all_iff)
  show ?thesis
  proof (cases "length v \<le> length w")
    case True
    then show ?thesis using same [OF assms(1,2)] starts_with_two [OF assms(3,4)] by blast
  next
    case False
    then show ?thesis using same [OF assms(2,1)] starts_with_two [OF assms(4,3)] by simp
  qed
qed

lemma match_word_iff:
  "match_word s = Some (u, r) \<longleftrightarrow>
     (\<exists>w \<in> set secret_words. starts_with w (lower s) \<and> u = take (length w) s \<and> r = drop (length w) s)"
proof
  assume "match_word s = Some (u, r)"
  then show "\<exists>w \<in> set secret_words. starts_with w (lower s) \<and> u = take (length w) s
      \<and> r = drop (length w) s"
    by (fastforce simp: match_word_def find_Some_iff in_set_conv_nth split: option.splits)
next
  assume "\<exists>w \<in> set secret_words. starts_with w (lower s) \<and> u = take (length w) s
      \<and> r = drop (length w) s"
  then obtain w where w: "w \<in> set secret_words" "starts_with w (lower s)"
    and ur: "u = take (length w) s" "r = drop (length w) s" by blast
  then obtain v where v: "List.find (\<lambda>w. starts_with w (lower s)) secret_words = Some v"
    by (cases "List.find (\<lambda>w. starts_with w (lower s)) secret_words") (auto simp: find_None_iff)
  then have "v \<in> set secret_words" "starts_with v (lower s)"
    by (auto simp: find_Some_iff)
  with w have "v = w" by (blast intro: word_unique)
  with v ur show "match_word s = Some (u, r)" by (simp add: match_word_def)
qed

lemma match_assignment_iff:
  "match_assignment s = Some (u, rest) \<longleftrightarrow>
     (\<exists>w \<in> set secret_words. starts_with w (lower s) \<and> u = take (length w) s
        \<and> match_tail (drop (length w) s) = Some rest)"
proof -
  have "match_assignment s = Some (u, rest) \<longleftrightarrow>
      (\<exists>r. match_word s = Some (u, r) \<and> match_tail r = Some rest)"
    by (auto simp: match_assignment_def split: option.splits)
  then show ?thesis by (auto simp: match_word_iff)
qed

lemma lower_Cons: "lower (c # cs) = lower_char c # lower cs"
  by (simp add: lower_def)

lemma no_word_starts:
  assumes "is_space c \<or> c = CHR ''=''"
  shows "match_assignment (c # cs) = None"
proof (rule ccontr)
  assume "match_assignment (c # cs) \<noteq> None"
  then obtain u rest where "match_assignment (c # cs) = Some (u, rest)" by auto
  then obtain w where w: "w \<in> set secret_words" "starts_with w (lower_char c # lower cs)"
    by (auto simp: match_assignment_iff lower_Cons)
  from w(2) word_nonempty [OF w(1)] have "lower_char c \<in> set w" by (cases w) simp_all
  from word_plain [OF w(1) this] assms show False by simp
qed

lemma match_starts:
  assumes "match_assignment (c # cs) = Some (u, rest)"
  shows "\<exists>u'. u = c # u'"
proof -
  from assms obtain w where w: "w \<in> set secret_words" and u: "u = take (length w) (c # cs)"
    by (auto simp: match_assignment_iff)
  from word_nonempty [OF w] u show ?thesis by (cases w) auto
qed

lemma redact_first: "\<exists>t. redact_secrets (c # cs) = c # t"
  using match_starts [of c cs] by (fastforce split: option.splits)

lemma redact_head: "redact_secrets t = c # u \<Longrightarrow> \<exists>t'. t = c # t'"
  using redact_first by (cases t) (simp, metis list.inject)

lemma redact_quiet: "is_space c \<or> c = CHR ''='' \<Longrightarrow> redact_secrets (c # cs) = c # redact_secrets cs"
  by (simp add: no_word_starts)

lemma dropWhile_redact: "dropWhile is_space (redact_secrets t) = redact_secrets (dropWhile is_space t)"
proof (induction t)
  case Nil
  then show ?case by simp
next
  case (Cons c t)
  show ?case
  proof (cases "is_space c")
    case True
    then show ?thesis using Cons by (simp add: redact_quiet del: redact_secrets.simps)
  next
    case False
    obtain u where "redact_secrets (c # t) = c # u" using redact_first by blast
    with False show ?thesis by (simp del: redact_secrets.simps)
  qed
qed

lemma match_tail_ok:
  "match_tail r \<noteq> None \<longleftrightarrow>
     (\<exists>r2 c v. dropWhile is_space r = CHR ''='' # r2 \<and> dropWhile is_space r2 = c # v \<and> \<not> is_delim c)"
proof (cases "dropWhile is_space r")
  case Nil
  then show ?thesis by (simp add: match_tail_def del: dropWhile_eq_Nil_conv)
next
  case (Cons e r2)
  then show ?thesis
    by (cases "dropWhile is_space r2") (auto simp: match_tail_def simp del: dropWhile_eq_Nil_conv)
qed

lemma match_tail_redact:
  assumes "match_tail (redact_secrets t) \<noteq> None"
  shows "match_tail t \<noteq> None"
proof -
  from assms obtain r2 c v where
    r2: "redact_secrets (dropWhile is_space t) = CHR ''='' # r2"
    and cv: "dropWhile is_space r2 = c # v" "\<not> is_delim c"
    unfolding match_tail_ok dropWhile_redact by blast
  from r2 obtain q where q: "dropWhile is_space t = CHR ''='' # q"
    using redact_head by blast
  with r2 have "r2 = redact_secrets q" by (simp add: redact_quiet del: redact_secrets.simps)
  with cv have "redact_secrets (dropWhile is_space q) = c # v" by (simp add: dropWhile_redact)
  then obtain v' where "dropWhile is_space q = c # v'"
    using redact_head by blast
  with q cv show ?thesis unfolding match_tail_ok by blast
qed

lemma match_tail_word_char:
  "\<not> is_space c \<Longrightarrow> c \<noteq> CHR ''='' \<Longrightarrow> match_tail (c # cs) = None"
  by (simp add: match_tail_def)

lemma lower_word_chars:
  assumes "w \<in> set secret_words" and "lower u = w" and "x \<in> set u"
  shows "\<not> is_space x \<and> x \<noteq> CHR ''=''"
proof -
  from assms(2,3) have "lower_char x \<in> set w" by (auto simp: lower_def)
  from word_plain [OF assms(1) this] show ?thesis by simp
qed

lemma matched_word:
  assumes "match_assignment s = Some (u, rest)"
  shows "\<exists>w \<in> set secret_words. lower u = w \<and> s = u @ drop (length u) s
    \<and> match_tail (drop (length u) s) = Some rest"
proof -
  from assms obtain w where w: "w \<in> set secret_words" "starts_with w (lower s)"
      "u = take (length w) s" "match_tail (drop (length w) s) = Some rest"
    by (auto simp: match_assignment_iff)
  from w(2) have len: "length w \<le> length s"
    by (auto simp: starts_with_append lower_def dest: arg_cong [where f = length])
  have "lower u = w" using w(2,3) by (simp add: starts_with_take lower_def take_map)
  moreover have "length u = length w" using len w(3) by simp
  ultimately show ?thesis using w by auto
qed

text \<open>
  A keyword followed by an assignment in the redacted text was already one in the original: the
  scan inserts text only after a keyword it has matched.
\<close>

lemma redact_reflects:
  assumes "\<forall>x \<in> set (take k (redact_secrets t)). x \<noteq> CHR ''=''"
    and "match_tail (drop k (redact_secrets t)) \<noteq> None"
  shows "take k t = take k (redact_secrets t) \<and> match_tail (drop k t) \<noteq> None"
  using assms
proof (induction t arbitrary: k rule: redact_secrets.induct)
  case 1
  then show ?case by (simp add: match_tail_def)
next
  case (2 c cs)
  show ?case
  proof (cases "match_assignment (c # cs)")
    case None
    show ?thesis
    proof (cases k)
      case 0
      with "2.prems" have "match_tail (redact_secrets (c # cs)) \<noteq> None" by simp
      then have "match_tail (c # cs) \<noteq> None" by (rule match_tail_redact)
      with 0 show ?thesis by simp
    next
      case (Suc k')
      with "2.prems" None "2.IH"(1) [OF None, of k'] show ?thesis by simp
    qed
  next
    case (Some p)
    obtain u rest where p: "p = (u, rest)" by (cases p)
    with Some have m: "match_assignment (c # cs) = Some (u, rest)" by simp
    from matched_word [OF m] obtain w where w: "w \<in> set secret_words" "lower u = w"
      and split: "c # cs = u @ drop (length u) (c # cs)"
      and tail: "match_tail (drop (length u) (c # cs)) = Some rest" by blast
    have red: "redact_secrets (c # cs) = u @ ''=[REDACTED]'' @ redact_secrets rest"
      using m by simp
    consider "k < length u" | "k = length u" | "length u < k" by linarith
    then show ?thesis
    proof cases
      case 1
      then have "drop k (redact_secrets (c # cs)) =
          u ! k # drop (Suc k) u @ ''=[REDACTED]'' @ redact_secrets rest"
        unfolding red by (simp add: Cons_nth_drop_Suc)
      moreover have "\<not> is_space (u ! k) \<and> u ! k \<noteq> CHR ''=''"
        using lower_word_chars [OF w] 1 by simp
      ultimately show ?thesis using "2.prems"(2) match_tail_word_char by metis
    next
      case 2
      then show ?thesis using split tail unfolding red by (metis append_eq_conv_conj option.distinct(1))
    next
      case 3
      then have "CHR ''='' \<in> set (take k (redact_secrets (c # cs)))"
        unfolding red by (auto simp: take_Cons' split: if_splits)
      with "2.prems"(1) show ?thesis by blast
    qed
  qed
qed

lemma redact_no_new_match:
  assumes "match_assignment (c # cs) = None"
  shows "match_assignment (c # redact_secrets cs) = None"
proof (rule ccontr)
  assume "match_assignment (c # redact_secrets cs) \<noteq> None"
  then obtain u rest where "match_assignment (c # redact_secrets cs) = Some (u, rest)" by auto
  then obtain w where w: "w \<in> set secret_words" "starts_with w (lower (c # redact_secrets cs))"
    and tail: "match_tail (drop (length w) (c # redact_secrets cs)) = Some rest"
    by (auto simp: match_assignment_iff)
  obtain x k where k: "length w = Suc k" and x: "w = x # tl w"
    using word_nonempty [OF w(1)] by (cases w) simp_all
  have low: "lower (take k (redact_secrets cs)) = tl w" "lower_char c = x"
    using w(2) k x by (auto simp: starts_with_take lower_def take_map)
  have plain: "\<forall>y \<in> set (take k (redact_secrets cs)). y \<noteq> CHR ''=''"
  proof
    fix y assume "y \<in> set (take k (redact_secrets cs))"
    then have "lower_char y \<in> set (lower (take k (redact_secrets cs)))" by (simp add: lower_def)
    then have "lower_char y \<in> set (tl w)" unfolding low(1) .
    then have "lower_char y \<in> set w" by (rule in_set_tlD)
    from word_plain [OF w(1) this] show "y \<noteq> CHR ''=''" by simp
  qed
  have "match_tail (drop k (redact_secrets cs)) \<noteq> None" using tail k by simp
  note reflected = redact_reflects [OF plain this]
  have same: "take k cs = take k (redact_secrets cs)" by (rule reflected [THEN conjunct1])
  have still: "match_tail (drop k cs) \<noteq> None" by (rule reflected [THEN conjunct2])
  have "lower (take (length w) (c # cs)) = w"
    using low x k same by (simp add: lower_def)
  then have "starts_with w (lower (c # cs))"
    unfolding starts_with_take lower_def take_map .
  moreover have "match_tail (drop (length w) (c # cs)) \<noteq> None" using still k by simp
  ultimately have "\<exists>u rest. match_assignment (c # cs) = Some (u, rest)"
    using w(1) unfolding match_assignment_iff by blast
  with assms show False by simp
qed

lemma match_tail_rest: "match_tail r = Some rest \<Longrightarrow> rest = [] \<or> is_delim (hd rest)"
  by (auto simp: match_tail_def split: list.splits if_splits)
    (metis dropWhile_eq_Nil_conv hd_dropWhile)

lemma rematch:
  assumes m: "match_assignment s = Some (u, rest)"
  shows "match_assignment (u @ ''=[REDACTED]'' @ redact_secrets rest) = Some (u, redact_secrets rest)"
proof -
  from matched_word [OF m] obtain w where w: "w \<in> set secret_words" "lower u = w"
    and tail: "match_tail (drop (length u) s) = Some rest" by blast
  have len: "length w = length u" using w(2) by (auto simp: lower_def)
  have stop: "dropWhile (\<lambda>x. \<not> is_delim x) (redact_secrets rest) = redact_secrets rest"
  proof (cases rest)
    case Nil
    then show ?thesis by simp
  next
    case (Cons c cs)
    with match_tail_rest [OF tail] have "is_delim c" by simp
    moreover obtain t where "redact_secrets (c # cs) = c # t" using redact_first by blast
    ultimately show ?thesis using Cons by (simp del: redact_secrets.simps)
  qed
  have quiet: "\<forall>x \<in> set ''[REDACTED]''. \<not> is_delim x"
    by (simp add: is_delim_def is_space_def)
  have "match_tail (''=[REDACTED]'' @ redact_secrets rest) = Some (redact_secrets rest)"
    using quiet stop by (simp add: match_tail_def is_space_def is_delim_def)
  then show ?thesis
    using w len unfolding match_assignment_iff
    by (intro bexI [of _ w]) (auto simp: starts_with_append lower_def)
qed

lemma redact_idem: "redact_secrets (redact_secrets t) = redact_secrets t"
proof (induction t rule: redact_secrets.induct)
  case 1
  then show ?case by simp
next
  case (2 c cs)
  show ?case
  proof (cases "match_assignment (c # cs)")
    case None
    with "2.IH"(1) [OF None] redact_no_new_match [OF None] show ?thesis by simp
  next
    case (Some p)
    obtain u rest where p: "p = (u, rest)" by (cases p)
    with Some have m: "match_assignment (c # cs) = Some (u, rest)" by simp
    obtain u' where u': "u = c # u'" using match_starts [OF m] by blast
    have "redact_secrets (u @ ''=[REDACTED]'' @ redact_secrets rest) =
        u @ ''=[REDACTED]'' @ redact_secrets (redact_secrets rest)"
      using rematch [OF m] by (simp add: u')
    with m "2.IH"(2) [OF Some p [symmetric]] show ?thesis by simp
  qed
qed

lemma redact_clean: "\<not> secret_search t \<Longrightarrow> redact_secrets t = t"
  by (induction t) (auto split: option.splits)

section \<open>Values that pass the check\<close>

text \<open>\<open>inside v w\<close>: the value \<open>w\<close> occurs in \<open>v\<close> at some depth.\<close>

inductive inside :: "json \<Rightarrow> json \<Rightarrow> bool" where
  itself: "inside v v"
| member: "(k, x) \<in> set d \<Longrightarrow> inside x w \<Longrightarrow> inside (JObj d) w"
| item: "x \<in> set xs \<Longrightarrow> inside x w \<Longrightarrow> inside (JList xs) w"

inductive_simps inside_JObj: "inside (JObj d) w"
inductive_simps inside_JList: "inside (JList xs) w"
inductive_simps inside_JStr [simp]: "inside (JStr t) w"
inductive_simps inside_JNull [simp]: "inside JNull w"
inductive_simps inside_JBool [simp]: "inside (JBool b) w"
inductive_simps inside_JInt [simp]: "inside (JInt i) w"
inductive_simps inside_JFloat [simp]: "inside (JFloat r) w"

definition secret_free :: "json \<Rightarrow> bool" where
  "secret_free v \<longleftrightarrow>
     (\<forall>d k x. inside v (JObj d) \<longrightarrow> (k, x) \<in> set d \<longrightarrow> \<not> secret_key k) \<and>
     (\<forall>t. inside v (JStr t) \<longrightarrow> \<not> secret_search t)"

lemma first_error_ok: "first_error xs = Inr () \<longleftrightarrow> (\<forall>x \<in> set xs. x = Inr ())"
  by (induction xs rule: first_error.induct) auto

lemma secret_free_JObj:
  "secret_free (JObj d) \<longleftrightarrow> (\<forall>(k, x) \<in> set d. \<not> secret_key k \<and> secret_free x)"
proof
  assume l: "secret_free (JObj d)"
  have "\<not> secret_key k \<and> secret_free x" if m: "(k, x) \<in> set d" for k x
    using l inside.member [OF m] m unfolding secret_free_def by (blast intro: inside.itself)
  then show "\<forall>(k, x) \<in> set d. \<not> secret_key k \<and> secret_free x" by blast
next
  assume r: "\<forall>(k, x) \<in> set d. \<not> secret_key k \<and> secret_free x"
  then have key: "\<not> secret_key k" and sub: "secret_free x" if "(k, x) \<in> set d" for k x
    using that by auto
  show "secret_free (JObj d)"
    unfolding secret_free_def inside_JObj
    using key sub [unfolded secret_free_def] by blast
qed

lemma secret_free_JList: "secret_free (JList xs) \<longleftrightarrow> (\<forall>x \<in> set xs. secret_free x)"
  unfolding secret_free_def inside_JList by blast

lemma set_enumerate_snd: "(\<forall>(i, x) \<in> set (enumerate n xs). P x) \<longleftrightarrow> (\<forall>x \<in> set xs. P x)"
  by (induction xs arbitrary: n) auto

lemma assert_no_secrets_iff: "assert_no_secrets v path = Inr () \<longleftrightarrow> secret_free v"
proof (induction v path rule: assert_no_secrets.induct)
  case (1 d path)
  have "assert_no_secrets (JObj d) path = Inr () \<longleftrightarrow>
      (\<forall>(k, x) \<in> set d. \<not> secret_key k \<and> assert_no_secrets x (path @ ''.'' @ k) = Inr ())"
    by (auto simp: first_error_ok split: if_splits)
  also have "\<dots> \<longleftrightarrow> (\<forall>(k, x) \<in> set d. \<not> secret_key k \<and> secret_free x)"
    using "1.IH" by fastforce
  finally show ?case by (simp add: secret_free_JObj)
next
  case (3 xs path)
  have "assert_no_secrets (JList xs) path = Inr () \<longleftrightarrow>
      (\<forall>(i, x) \<in> set (enumerate 0 xs). secret_free x)"
    using "3.IH" by (fastforce simp: first_error_ok)
  then show ?case by (simp add: secret_free_JList set_enumerate_snd)
qed (auto simp: secret_free_def)

lemma no_secrets_iff: "no_secrets d = Inr () \<longleftrightarrow> secret_free (JObj d)"
  by (simp add: no_secrets_def assert_no_secrets_iff del: assert_no_secrets.simps)

lemma assert_no_secrets_error:
  "assert_no_secrets v path = Inl e \<Longrightarrow> \<exists>m. e = SecretRejectedError m"
proof (induction v path arbitrary: e rule: assert_no_secrets.induct)
  case (1 d path)
  have first: "first_error xs = Inl e \<Longrightarrow> Inl e \<in> set xs" for xs e
    by (induction xs rule: first_error.induct) auto
  from "1.prems" first obtain k x where "(k, x) \<in> set d"
    and "Inl e = (if secret_key k
       then Inl (SecretRejectedError (''secret-like key rejected at '' @ path @ ''.'' @ k))
       else assert_no_secrets x (path @ ''.'' @ k))"
    by fastforce
  with "1.IH" show ?case by (metis sum.inject(1))
next
  case (3 xs path)
  have first: "first_error xs = Inl e \<Longrightarrow> Inl e \<in> set xs" for xs e
    by (induction xs rule: first_error.induct) auto
  from "3.prems" first obtain i x where "(i, x) \<in> set (enumerate 0 xs)"
    and "assert_no_secrets x (path @ ''['' @ show_nat i @ '']'') = Inl e"
    by fastforce
  with "3.IH" show ?case by blast
qed (auto split: if_splits)

section \<open>Properties\<close>

text \<open>
  \<open>assert_no_secrets\<close> accepts a value exactly when no key at any depth is secret-like and
  no text at any depth contains a secret assignment; when it rejects, it raises
  \<open>SecretRejectedError\<close> and nothing else.
\<close>

theorem assert_no_secrets_exact:
  "(assert_no_secrets v path = Inr () \<longleftrightarrow> secret_free v) \<and>
   (\<forall>e. assert_no_secrets v path = Inl e \<longrightarrow> (\<exists>m. e = SecretRejectedError m))"
  by (simp add: assert_no_secrets_iff) (blast dest: assert_no_secrets_error)

theorem assert_no_secrets_exact_witness:
  "assert_no_secrets (JObj [(''bot_token'', JInt 1)]) ''payload'' =
     Inl (SecretRejectedError ''secret-like key rejected at payload.bot_token'') \<and>
   \<not> secret_free (JObj [(''bot_token'', JInt 1)]) \<and>
   assert_no_secrets (JObj [(''input_tokens'', JInt 1)]) ''payload'' = Inr () \<and>
   secret_free (JObj [(''input_tokens'', JInt 1)])"
proof -
  have r: "assert_no_secrets (JObj [(''bot_token'', JInt 1)]) ''payload'' =
      Inl (SecretRejectedError ''secret-like key rejected at payload.bot_token'')" by code_simp
  have a: "assert_no_secrets (JObj [(''input_tokens'', JInt 1)]) ''payload'' = Inr ()" by code_simp
  show ?thesis
    using r a assert_no_secrets_exact [of "JObj [(''bot_token'', JInt 1)]" "''payload''"]
      assert_no_secrets_exact [of "JObj [(''input_tokens'', JInt 1)]" "''payload''"] by auto
qed

text \<open>
  Redaction is stable and bounded: redacting twice changes nothing more, text without a
  secret assignment is unchanged, and a stored error summary never exceeds 500 characters.
\<close>

theorem redaction_stable_and_bounded:
  "redact_secrets (redact_secrets t) = redact_secrets t \<and>
   (secret_search t \<or> redact_secrets t = t) \<and>
   length (redacted_error_summary e) \<le> 500"
  using redact_idem redact_clean
  by (auto simp: redacted_error_summary_def redact_summary_def Let_def)

end
