(* ===== verification/Store.thy ===== *)
theory Store
  imports Security "HOL-Library.Product_Lexorder"
begin

text \<open>
  The database session the runtime works in: the rows of the runtime tables
  (\<open>persistence/models.py\<close>), the session state that is visible to the code, and
  transactions.

  Sessions are created with \<open>autoflush=False\<close> (\<open>persistence/session.py\<close>). For the job
  table the model therefore keeps two images: \<open>jobs\<close>, the objects the code holds, and
  \<open>sql_jobs\<close>, what a \<open>SELECT\<close> of the same transaction sees, which catches up at a
  flush. \<open>unit_of_work\<close> records the tenant scopes of the objects in \<open>session.new\<close> and
  \<open>session.dirty\<close>. \<open>wakeups\<close> are the identifiers pushed to Redis and
  \<open>provider_log\<close> the requests sent to the provider: both have left the process, so no
  rollback removes them. \<open>uuids\<close> is the sequence of values \<open>uuid4\<close> will return.
\<close>

section \<open>Rows\<close>

text \<open>Every tenant table has a primary key and the two scope columns.\<close>

record scoped_row =
  rid :: string
  org :: string
  biz :: string

record job_row = scoped_row +
  job_type :: string
  job_status :: JobStatus
  job_payload :: payload
  payload_schema_version :: int
  attempt_count :: int
  max_attempts :: int
  available_at :: datetime
  started_at :: "datetime option"
  completed_at :: "datetime option"
  lease_owner :: "string option"
  lease_expires_at :: "datetime option"
  error_class :: "string option"
  error_summary :: "string option"
  job_correlation_id :: "string option"
  job_causation_id :: "string option"
  idempotency_key :: string
  job_created_at :: datetime

record outbox_row = scoped_row +
  outbox_event_type :: string
  outbox_aggregate_type :: string
  outbox_aggregate_id :: string
  outbox_payload :: payload
  outbox_status :: OutboxStatus
  outbox_occurred_at :: datetime
  outbox_correlation_id :: string
  outbox_causation_id :: "string option"
  outbox_created_at :: datetime
  published_at :: "datetime option"

record business_event_row = scoped_row +
  business_event_type :: string
  event_source_record_id :: "string option"
  event_time :: datetime
  event_recorded_at :: datetime
  business_event_payload :: payload
  event_correlation_id :: "string option"
  event_causation_id :: "string option"

record audit_row = scoped_row +
  audit_actor_user_id :: "string option"
  audit_action :: string
  audit_object_type :: string
  audit_object_id :: string
  audit_payload :: payload
  audit_correlation_id :: "string option"
  audit_causation_id :: "string option"

section \<open>The session\<close>

record store =
  jobs :: "job_row list"
  sql_jobs :: "job_row list"
  outbox_events :: "outbox_row list"
  business_events :: "business_event_row list"
  audit_logs :: "audit_row list"
  unit_of_work :: "(string \<times> string) list"
  uuids :: "nat \<Rightarrow> string"
  uuid_pos :: nat
  wakeups :: "string list"
  provider_log :: "json list"

definition new_id :: "('z store_scheme, string) prog" where
  "new_id s = (Inr (uuids s (uuid_pos s)), s\<lparr>uuid_pos := Suc (uuid_pos s)\<rparr>)"

definition flush :: "('z store_scheme, unit) prog" where
  "flush = modify (\<lambda>s. s\<lparr>sql_jobs := jobs s, unit_of_work := []\<rparr>)"

text \<open>An object of this scope enters \<open>session.new\<close> or \<open>session.dirty\<close>.\<close>

definition touch :: "string \<Rightarrow> string \<Rightarrow> ('z store_scheme, unit) prog" where
  "touch og bz = modify (\<lambda>s. s\<lparr>unit_of_work := unit_of_work s @ [(og, bz)]\<rparr>)"

definition enqueue :: "string \<Rightarrow> ('z store_scheme, unit) prog" where
  "enqueue job_id = modify (\<lambda>s. s\<lparr>wakeups := wakeups s @ [job_id]\<rparr>)"

definition check_scope ::
  "'y TenantScope_scheme \<Rightarrow> string \<Rightarrow> string \<Rightarrow> ('z store_scheme, unit) prog" where
  "check_scope scope og bz = lift_sum (assert_matches scope og bz)"

definition check_no_secrets :: "payload \<Rightarrow> ('z store_scheme, unit) prog" where
  "check_no_secrets d = lift_sum (no_secrets d)"

text \<open>The objects whose database image satisfies a condition.\<close>

definition sql_select_jobs :: "(job_row \<Rightarrow> bool) \<Rightarrow> 'z store_scheme \<Rightarrow> job_row list" where
  "sql_select_jobs P s = filter (\<lambda>j. list_ex (\<lambda>q. rid q = rid j \<and> P q) (sql_jobs s)) (jobs s)"

definition update_job :: "string \<Rightarrow> (job_row \<Rightarrow> job_row) \<Rightarrow> ('z store_scheme, unit) prog" where
  "update_job i f = modify (\<lambda>s. s\<lparr>jobs := row_set rid i f (jobs s)\<rparr>)"

definition add_audit :: "audit_row \<Rightarrow> ('z store_scheme, unit) prog" where
  "add_audit r = bnd (modify (\<lambda>s. s\<lparr>audit_logs := audit_logs s @ [r]\<rparr>)) (\<lambda>_. touch (org r) (biz r))"

definition add_outbox :: "outbox_row \<Rightarrow> ('z store_scheme, unit) prog" where
  "add_outbox r =
     bnd (modify (\<lambda>s. s\<lparr>outbox_events := outbox_events s @ [r]\<rparr>)) (\<lambda>_. touch (org r) (biz r))"

definition add_business_event :: "business_event_row \<Rightarrow> ('z store_scheme, unit) prog" where
  "add_business_event r =
     bnd (modify (\<lambda>s. s\<lparr>business_events := business_events s @ [r]\<rparr>)) (\<lambda>_. touch (org r) (biz r))"

section \<open>Transactions\<close>

text \<open>
  \<open>with session_factory() as session, session.begin()\<close>: a fresh session sees the committed
  rows; leaving the block normally flushes and commits; an exception rolls the tables back, and
  what was sent to Redis or to the provider stays sent.
\<close>

definition begin_session :: "'z store_scheme \<Rightarrow> 'z store_scheme" where
  "begin_session s = s\<lparr>sql_jobs := jobs s, unit_of_work := []\<rparr>"

definition roll_back :: "'z store_scheme \<Rightarrow> 'z store_scheme \<Rightarrow> 'z store_scheme" where
  "roll_back s0 s1 =
     s0\<lparr>wakeups := wakeups s1, provider_log := provider_log s1, uuid_pos := uuid_pos s1\<rparr>"

definition in_transaction :: "('z store_scheme, 'a) prog \<Rightarrow> ('z store_scheme, 'a) prog" where
  "in_transaction m s =
    (case m (begin_session s) of
       (Inr x, s1) \<Rightarrow> (Inr x, begin_session s1)
     | (Inl e, s1) \<Rightarrow> (Inl e, roll_back (begin_session s) s1))"

section \<open>The job table as a keyed table\<close>

text \<open>Columns of a job that no operation assigns after the insert.\<close>

definition job_ident :: "'z job_row_scheme \<Rightarrow> string \<times> string \<times> string \<times> string \<times> string" where
  "job_ident j = (rid j, org j, biz j, job_type j, idempotency_key j)"

interpretation jobtab: keyed_table "rid :: job_row \<Rightarrow> string" job_ident
  by unfold_locales (simp add: job_ident_def)

lemma begin_session_simps [simp]:
  "jobs (begin_session s) = jobs s" "sql_jobs (begin_session s) = jobs s"
  "unit_of_work (begin_session s) = []" "outbox_events (begin_session s) = outbox_events s"
  "business_events (begin_session s) = business_events s" "audit_logs (begin_session s) = audit_logs s"
  "uuids (begin_session s) = uuids s" "uuid_pos (begin_session s) = uuid_pos s"
  "wakeups (begin_session s) = wakeups s" "provider_log (begin_session s) = provider_log s"
  by (simp_all add: begin_session_def)

lemma roll_back_simps [simp]:
  "jobs (roll_back s t) = jobs s" "sql_jobs (roll_back s t) = sql_jobs s"
  "outbox_events (roll_back s t) = outbox_events s" "business_events (roll_back s t) = business_events s"
  "audit_logs (roll_back s t) = audit_logs s" "unit_of_work (roll_back s t) = unit_of_work s"
  "uuids (roll_back s t) = uuids s" "uuid_pos (roll_back s t) = uuid_pos t"
  "wakeups (roll_back s t) = wakeups t" "provider_log (roll_back s t) = provider_log t"
  by (simp_all add: roll_back_def)

lemma sql_select_synced:
  assumes "sql_jobs s = jobs s" and "distinct (map rid (jobs s))"
  shows "sql_select_jobs P s = filter P (jobs s)"
  unfolding sql_select_jobs_def
proof (rule filter_cong [OF refl])
  fix j assume j: "j \<in> set (jobs s)"
  have "q = j" if "q \<in> set (jobs s)" "rid q = rid j" for q
    using that j assms(2) by (metis row_get_distinct option.inject)
  with j show "list_ex (\<lambda>q. rid q = rid j \<and> P q) (sql_jobs s) = P j"
    unfolding assms(1) list_ex_iff by blast
qed

lemma run_new_id [run_simps]:
  "new_id s = (Inr (uuids s (uuid_pos s)), s\<lparr>uuid_pos := Suc (uuid_pos s)\<rparr>)"
  by (simp add: new_id_def)

lemma run_flush [run_simps]: "flush s = (Inr (), s\<lparr>sql_jobs := jobs s, unit_of_work := []\<rparr>)"
  by (simp add: flush_def modify_def)

lemma run_enqueue [run_simps]: "enqueue j s = (Inr (), s\<lparr>wakeups := wakeups s @ [j]\<rparr>)"
  by (simp add: enqueue_def modify_def)

lemma run_touch [run_simps]:
  "touch og bz s = (Inr (), s\<lparr>unit_of_work := unit_of_work s @ [(og, bz)]\<rparr>)"
  by (simp add: touch_def modify_def)

lemma run_update_job [run_simps]:
  "update_job i f s = (Inr (), s\<lparr>jobs := row_set rid i f (jobs s)\<rparr>)"
  by (simp add: update_job_def modify_def)

lemma run_check_scope [run_simps]: "check_scope scope og bz s = (assert_matches scope og bz, s)"
  by (simp add: check_scope_def run_lift_sum)

lemma run_check_no_secrets [run_simps]: "check_no_secrets d s = (no_secrets d, s)"
  by (simp add: check_no_secrets_def run_lift_sum)

end
