(* ===== verification/Runtime_Jobs.thy ===== *)
theory Runtime_Jobs
  imports Store
begin

text \<open>
  The durable job table (\<open>runtime/contracts.py\<close>, \<open>runtime/repositories.py\<close>): job types,
  creation by idempotency key, claiming under a lease, completion, retry and failure, the due
  scan, lease recovery and the outbox scan. The last sections give the invariant of the table and
  show that every operation keeps it.
\<close>

section \<open>Job types (\<open>runtime/contracts.py\<close>)\<close>

definition JOB_TYPE_AI_RUN_AGENT :: string where
  "JOB_TYPE_AI_RUN_AGENT = ''ai.run_agent''"
definition JOB_TYPE_AI_RUN_CONTROLLER :: string where
  "JOB_TYPE_AI_RUN_CONTROLLER = ''ai.run_controller''"
definition JOB_TYPE_WORKFLOW_ADVANCE :: string where
  "JOB_TYPE_WORKFLOW_ADVANCE = ''workflow.advance''"
definition JOB_TYPE_EXECUTION_TELEGRAM_PUBLISH :: string where
  "JOB_TYPE_EXECUTION_TELEGRAM_PUBLISH = ''execution.telegram_publish''"
definition JOB_TYPE_EXPERIMENT_CHECKPOINT :: string where
  "JOB_TYPE_EXPERIMENT_CHECKPOINT = ''experiment.checkpoint''"
definition JOB_TYPE_LEARNING_EVALUATE :: string where
  "JOB_TYPE_LEARNING_EVALUATE = ''learning.evaluate''"
definition JOB_TYPE_CONNECTOR_TELEGRAM_OBSERVE_UPDATES :: string where
  "JOB_TYPE_CONNECTOR_TELEGRAM_OBSERVE_UPDATES = ''connector.telegram.observe_updates''"
definition JOB_TYPE_ANALYTICS_NORMALIZE_CONNECTOR_OBSERVATION :: string where
  "JOB_TYPE_ANALYTICS_NORMALIZE_CONNECTOR_OBSERVATION = ''analytics.normalize_connector_observation''"
definition JOB_TYPE_ANALYTICS_CALCULATE_METRIC_VERSION :: string where
  "JOB_TYPE_ANALYTICS_CALCULATE_METRIC_VERSION = ''analytics.calculate_metric_version''"
definition JOB_TYPE_LEARNING_INTERPRET_CHECKPOINT :: string where
  "JOB_TYPE_LEARNING_INTERPRET_CHECKPOINT = ''learning.interpret_checkpoint''"
definition JOB_TYPE_LEARNING_RUN_GOVERNED :: string where
  "JOB_TYPE_LEARNING_RUN_GOVERNED = ''learning.run_governed_learning''"
definition JOB_TYPE_OUTBOX_DISPATCH :: string where
  "JOB_TYPE_OUTBOX_DISPATCH = ''outbox.dispatch''"
definition JOB_TYPE_RUNTIME_PROBE :: string where
  "JOB_TYPE_RUNTIME_PROBE = ''runtime.probe''"

definition PHASE6_JOB_TYPES :: "string list" where
  "PHASE6_JOB_TYPES =
    [JOB_TYPE_CONNECTOR_TELEGRAM_OBSERVE_UPDATES,
     JOB_TYPE_ANALYTICS_NORMALIZE_CONNECTOR_OBSERVATION,
     JOB_TYPE_ANALYTICS_CALCULATE_METRIC_VERSION,
     JOB_TYPE_LEARNING_INTERPRET_CHECKPOINT,
     JOB_TYPE_LEARNING_RUN_GOVERNED]"

definition CANONICAL_JOB_TYPES :: "string list" where
  "CANONICAL_JOB_TYPES =
    [JOB_TYPE_AI_RUN_AGENT, JOB_TYPE_AI_RUN_CONTROLLER, JOB_TYPE_WORKFLOW_ADVANCE,
     JOB_TYPE_EXECUTION_TELEGRAM_PUBLISH, JOB_TYPE_EXPERIMENT_CHECKPOINT,
     JOB_TYPE_LEARNING_EVALUATE] @ PHASE6_JOB_TYPES @ [JOB_TYPE_OUTBOX_DISPATCH]"

definition RESERVED_JOB_TYPES :: "string list" where
  "RESERVED_JOB_TYPES =
    filter (\<lambda>t. t \<notin> set ([JOB_TYPE_AI_RUN_AGENT, JOB_TYPE_AI_RUN_CONTROLLER,
      JOB_TYPE_WORKFLOW_ADVANCE, JOB_TYPE_EXECUTION_TELEGRAM_PUBLISH] @ PHASE6_JOB_TYPES
      @ [JOB_TYPE_OUTBOX_DISPATCH])) CANONICAL_JOB_TYPES"

definition EXECUTABLE_JOB_TYPES :: "string list" where
  "EXECUTABLE_JOB_TYPES =
    [JOB_TYPE_AI_RUN_AGENT, JOB_TYPE_AI_RUN_CONTROLLER, JOB_TYPE_WORKFLOW_ADVANCE,
     JOB_TYPE_EXECUTION_TELEGRAM_PUBLISH] @ PHASE6_JOB_TYPES
     @ [JOB_TYPE_OUTBOX_DISPATCH, JOB_TYPE_RUNTIME_PROBE]"

definition REGISTERED_JOB_TYPES :: "string list" where
  "REGISTERED_JOB_TYPES = CANONICAL_JOB_TYPES @ [JOB_TYPE_RUNTIME_PROBE]"

record RuntimeJobContext = TenantScope +
  ctx_job_id :: string
  ctx_job_type :: string
  ctx_attempt_count :: int
  ctx_correlation_id :: "string option"
  ctx_causation_id :: "string option"

section \<open>Operations (\<open>runtime/repositories.py\<close>)\<close>

definition create_job ::
  "'y TenantScope_scheme \<Rightarrow> string \<Rightarrow> payload \<Rightarrow> int \<Rightarrow> string \<Rightarrow> datetime \<Rightarrow> int
     \<Rightarrow> datetime option \<Rightarrow> string option \<Rightarrow> string option \<Rightarrow> ('z store_scheme, job_row) prog" where
  "create_job scope jtype pl schema_version key now max_att available correlation causation =
     bnd (require (jtype \<in> set REGISTERED_JOB_TYPES)
           (PermanentJobError (''unknown job type: '' @ jtype))) (\<lambda>_.
     bnd (require (1 \<le> schema_version)
           (PermanentJobError ''payload_schema_version must be positive'')) (\<lambda>_.
     bnd (require (1 \<le> max_att) (PermanentJobError ''max_attempts must be positive'')) (\<lambda>_.
     bnd (check_no_secrets pl) (\<lambda>_.
     bnd (gets (sql_select_jobs (\<lambda>j. org j = organization_id scope \<and> biz j = business_id scope
            \<and> job_type j = jtype \<and> idempotency_key j = key))) (\<lambda>found.
     (case found of
        j # _ \<Rightarrow> ret j
      | [] \<Rightarrow>
         bnd new_id (\<lambda>i.
         let job = \<lparr>rid = i, org = organization_id scope, biz = business_id scope,
                    job_type = jtype, job_status = QUEUED, job_payload = pl,
                    payload_schema_version = schema_version,
                    attempt_count = 0, max_attempts = max_att,
                    available_at = (case available of None \<Rightarrow> now | Some t \<Rightarrow> t),
                    started_at = None, completed_at = None,
                    lease_owner = None, lease_expires_at = None,
                    error_class = None, error_summary = None,
                    job_correlation_id = correlation, job_causation_id = causation,
                    idempotency_key = key, job_created_at = now\<rparr>
         in bnd (modify (\<lambda>s. s\<lparr>jobs := jobs s @ [job]\<rparr>)) (\<lambda>_.
            bnd flush (\<lambda>_. ret job)))))))))"

definition claimable :: "datetime \<Rightarrow> job_row \<Rightarrow> bool" where
  "claimable now j \<longleftrightarrow>
     (job_status j \<in> {QUEUED, RETRY_WAIT} \<and> available_at j \<le> now) \<or>
     (job_status j = JobStatus.RUNNING \<and>
        (case lease_expires_at j of None \<Rightarrow> False | Some t \<Rightarrow> t \<le> now))"

definition claimed_values :: "string \<Rightarrow> datetime \<Rightarrow> timedelta \<Rightarrow> job_row \<Rightarrow> job_row" where
  "claimed_values worker_id now lease_duration j =
     j\<lparr>job_status := JobStatus.RUNNING, attempt_count := attempt_count j + 1, started_at := Some now,
       completed_at := None, lease_owner := Some worker_id,
       lease_expires_at := Some (now + lease_duration)\<rparr>"

text \<open>One \<open>UPDATE ... WHERE ... RETURNING\<close>: it reads and writes the database image.\<close>

definition claim_job ::
  "string \<Rightarrow> string \<Rightarrow> datetime \<Rightarrow> timedelta \<Rightarrow> ('z store_scheme, job_row option) prog" where
  "claim_job job_id worker_id now lease_duration =
     bnd (gets (\<lambda>s. list_ex (\<lambda>j. rid j = job_id \<and> claimable now j) (sql_jobs s))) (\<lambda>found.
     if \<not> found then ret None
     else
       bnd (modify (\<lambda>s.
         s\<lparr>jobs := row_set rid job_id (claimed_values worker_id now lease_duration) (jobs s),
           sql_jobs := row_set rid job_id (claimed_values worker_id now lease_duration) (sql_jobs s)\<rparr>))
         (\<lambda>_. gets (\<lambda>s. row_get rid job_id (jobs s))))"

definition succeeded_values :: "datetime \<Rightarrow> job_row \<Rightarrow> job_row" where
  "succeeded_values now j =
     j\<lparr>job_status := JobStatus.SUCCEEDED, completed_at := Some now, lease_owner := None,
       lease_expires_at := None, error_class := None, error_summary := None\<rparr>"

definition mark_job_succeeded :: "string \<Rightarrow> datetime \<Rightarrow> ('z store_scheme, unit) prog" where
  "mark_job_succeeded job_id now = update_job job_id (succeeded_values now)"

definition failed_values ::
  "py_error \<Rightarrow> bool \<Rightarrow> datetime \<Rightarrow> timedelta \<Rightarrow> job_row \<Rightarrow> job_row" where
  "failed_values error retry now retry_backoff j =
    (let j1 = j\<lparr>error_class := Some (error_class_name error),
                error_summary := Some (redacted_error_summary error),
                lease_owner := None, lease_expires_at := None\<rparr>
     in if retry \<and> attempt_count j1 < max_attempts j1
        then j1\<lparr>job_status := RETRY_WAIT, available_at := now + retry_backoff, completed_at := None\<rparr>
        else j1\<lparr>job_status := JobStatus.FAILED, completed_at := Some now\<rparr>)"

definition mark_job_failed_or_retrying ::
  "string \<Rightarrow> py_error \<Rightarrow> bool \<Rightarrow> datetime \<Rightarrow> timedelta \<Rightarrow> ('z store_scheme, job_row) prog" where
  "mark_job_failed_or_retrying job_id error retry now retry_backoff =
     bnd (gets (\<lambda>s. row_get rid job_id (jobs s))) (\<lambda>found.
     bnd (required found (PermanentJobError (''job not found: '' @ job_id))) (\<lambda>job.
     bnd (update_job job_id (failed_values error retry now retry_backoff)) (\<lambda>_.
     ret (failed_values error retry now retry_backoff job))))"

definition due :: "datetime \<Rightarrow> job_row \<Rightarrow> bool" where
  "due now j \<longleftrightarrow> job_status j \<in> {QUEUED, RETRY_WAIT} \<and> available_at j \<le> now"

definition due_job_ids :: "datetime \<Rightarrow> nat \<Rightarrow> 'z store_scheme \<Rightarrow> string list" where
  "due_job_ids now limit s =
     map rid (take limit (sort_key (\<lambda>j. (available_at j, job_created_at j))
       (filter (due now) (sql_jobs s))))"

definition enqueue_due_jobs :: "datetime \<Rightarrow> nat \<Rightarrow> ('z store_scheme, nat) prog" where
  "enqueue_due_jobs now limit =
     bnd (gets (due_job_ids now limit)) (\<lambda>ids.
     bnd (foreach ids enqueue) (\<lambda>_. ret (length ids)))"

definition lease_expired :: "datetime \<Rightarrow> job_row \<Rightarrow> bool" where
  "lease_expired now j \<longleftrightarrow>
     job_status j = JobStatus.RUNNING \<and> (case lease_expires_at j of None \<Rightarrow> False | Some t \<Rightarrow> t \<le> now)"

definition recovered_values :: "datetime \<Rightarrow> job_row \<Rightarrow> job_row" where
  "recovered_values now j =
    (let j1 = j\<lparr>lease_owner := None, lease_expires_at := None\<rparr>
     in if max_attempts j1 \<le> attempt_count j1
        then j1\<lparr>job_status := JobStatus.FAILED, completed_at := Some now,
                error_class := Some (or_else (error_class j1) ''LeaseExpired''),
                error_summary := Some (or_else (error_summary j1) ''Lease expired at max attempts.'')\<rparr>
        else j1\<lparr>job_status := RETRY_WAIT, available_at := now\<rparr>)"

definition recover_expired_leases :: "datetime \<Rightarrow> ('z store_scheme, nat) prog" where
  "recover_expired_leases now =
     bnd (gets (sql_select_jobs (lease_expired now))) (\<lambda>expired.
     bnd (foreach expired (\<lambda>j. bnd (update_job (rid j) (recovered_values now))
                                   (\<lambda>_. touch (org j) (biz j)))) (\<lambda>_.
     ret (length expired)))"

definition enqueue_outbox_event :: "datetime \<Rightarrow> outbox_row \<Rightarrow> ('z store_scheme, unit) prog" where
  "enqueue_outbox_event now e =
     bnd (create_job \<lparr>organization_id = org e, business_id = biz e\<rparr> JOB_TYPE_OUTBOX_DISPATCH
            [(''outbox_event_id'', JStr (rid e))] 1 (''outbox:'' @ rid e) now 3 (Some now)
            (Some (outbox_correlation_id e)) (Some (rid e))) (\<lambda>job.
     enqueue (rid job))"

definition enqueue_pending_outbox :: "datetime \<Rightarrow> nat \<Rightarrow> ('z store_scheme, nat) prog" where
  "enqueue_pending_outbox now limit =
     bnd (gets (\<lambda>s. take limit (sort_key outbox_created_at
            (filter (\<lambda>e. outbox_status e = OutboxStatus.PENDING) (outbox_events s))))) (\<lambda>events.
     bnd (foreach events (enqueue_outbox_event now)) (\<lambda>_. ret (length events)))"

section \<open>The invariant of the job table\<close>

definition job_key :: "'z job_row_scheme \<Rightarrow> string \<times> string \<times> string \<times> string" where
  "job_key j = (org j, biz j, job_type j, idempotency_key j)"

definition job_ok :: "job_row \<Rightarrow> bool" where
  "job_ok j \<longleftrightarrow>
     job_type j \<in> set REGISTERED_JOB_TYPES \<and> 1 \<le> payload_schema_version j \<and>
     1 \<le> max_attempts j \<and> 0 \<le> attempt_count j \<and> secret_free (JObj (job_payload j)) \<and>
     job_status j \<noteq> JobStatus.PENDING \<and>
     (job_status j = QUEUED \<longleftrightarrow> attempt_count j = 0) \<and>
     (job_status j = JobStatus.RUNNING \<longleftrightarrow> lease_owner j \<noteq> None) \<and>
     (lease_owner j = None \<longleftrightarrow> lease_expires_at j = None) \<and>
     (job_status j \<in> {JobStatus.SUCCEEDED, JobStatus.FAILED} \<longleftrightarrow> completed_at j \<noteq> None) \<and>
     (job_status j = RETRY_WAIT \<longrightarrow> attempt_count j < max_attempts j) \<and>
     (case error_summary j of None \<Rightarrow> True | Some t \<Rightarrow> length t \<le> 500)"

definition ids_drawn :: "'z store_scheme \<Rightarrow> bool" where
  "ids_drawn s \<longleftrightarrow> inj (uuids s) \<and> rid ` set (jobs s) \<subseteq> uuids s ` {..<uuid_pos s}"

definition jobs_inv :: "'z store_scheme \<Rightarrow> bool" where
  "jobs_inv s \<longleftrightarrow>
     ids_drawn s \<and> (\<forall>j \<in> set (jobs s). job_ok j) \<and>
     distinct (map rid (jobs s)) \<and> distinct (map job_key (jobs s)) \<and>
     map job_ident (sql_jobs s) = map job_ident (jobs s)"

lemmas job_value_defs = claimed_values_def succeeded_values_def failed_values_def
  recovered_values_def

lemma job_values_ident:
  "job_ident (claimed_values w now l j) = job_ident j"
  "job_ident (succeeded_values now j) = job_ident j"
  "job_ident (failed_values e r now b j) = job_ident j"
  "job_ident (recovered_values now j) = job_ident j"
  by (simp_all add: job_ident_def job_value_defs Let_def)

lemma job_values_stable [simp]:
  "jobtab.stable (claimed_values w now l)" "jobtab.stable (succeeded_values now)"
  "jobtab.stable (failed_values e r now b)" "jobtab.stable (recovered_values now)"
  by (simp_all add: jobtab.stable_def job_values_ident)

lemma job_ident_key: "job_ident j = job_ident k \<Longrightarrow> job_key j = job_key k"
  by (simp add: job_ident_def job_key_def)

lemma stable_key: "jobtab.stable f \<Longrightarrow> job_key (f j) = job_key j"
  by (rule job_ident_key) (simp add: jobtab.stable_def)

lemma map_key_row_set: "jobtab.stable f \<Longrightarrow> map job_key (row_set rid i f js) = map job_key js"
  by (simp add: row_set_def stable_key)

lemma claimed_ok: "job_ok j \<Longrightarrow> claimable now j \<Longrightarrow> job_ok (claimed_values w now l j)"
  by (simp add: job_ok_def claimed_values_def)

lemma succeeded_ok: "job_ok j \<Longrightarrow> attempt_count j \<noteq> 0 \<Longrightarrow> job_ok (succeeded_values now j)"
  by (simp add: job_ok_def succeeded_values_def)

lemma redacted_length: "length (redacted_error_summary e) \<le> 500"
  by (auto simp: redacted_error_summary_def redact_summary_def Let_def)

lemma failed_ok: "job_ok j \<Longrightarrow> attempt_count j \<noteq> 0 \<Longrightarrow> job_ok (failed_values e r now b j)"
  using redacted_length [of e] by (auto simp: job_ok_def failed_values_def Let_def)

lemma recovered_ok:
  assumes "job_ok j" and "lease_expired now j"
  shows "job_ok (recovered_values now j)"
  using assms by (auto simp: job_ok_def recovered_values_def lease_expired_def Let_def or_else_def
      split: option.splits)

text \<open>Assigning the columns of one job keeps the invariant when the job itself stays in order.\<close>

lemma jobs_inv_update:
  assumes inv: "jobs_inv s" and st: "jobtab.stable f"
    and ok: "\<And>j. j \<in> set (jobs s) \<Longrightarrow> rid j = i \<Longrightarrow> job_ok (f j)"
  shows "jobs_inv (s\<lparr>jobs := row_set rid i f (jobs s)\<rparr>)"
proof -
  have "rid ` set (row_set rid i f (jobs s)) = rid ` set (jobs s)"
    using jobtab.rid_row_set [OF st] by (metis list.set_map)
  with inv ok st show ?thesis
    by (auto simp: jobs_inv_def ids_drawn_def jobtab.rid_row_set map_key_row_set
        jobtab.ident_row_set set_row_set)
qed

lemma jobs_inv_map:
  assumes inv: "jobs_inv s" and st: "jobtab.stable f"
    and ok: "\<And>j. j \<in> set (jobs s) \<Longrightarrow> job_ok (f j)"
  shows "jobs_inv (s\<lparr>jobs := map f (jobs s)\<rparr>)"
proof -
  have o: "rid \<circ> f = rid" "job_key \<circ> f = job_key" "job_ident \<circ> f = job_ident"
    using st by (auto simp: jobtab.stable_rid stable_key) (auto simp: jobtab.stable_def)
  then have "rid ` f ` set (jobs s) = rid ` set (jobs s)" by (metis image_comp)
  with inv ok o show ?thesis by (auto simp: jobs_inv_def ids_drawn_def)
qed

text \<open>The invariant only looks at the job images and the identifier supply.\<close>

lemma jobs_inv_cong:
  assumes "jobs t = jobs s" and "map job_ident (sql_jobs t) = map job_ident (sql_jobs s)"
    and "uuids t = uuids s" and "uuid_pos s \<le> uuid_pos t"
  shows "jobs_inv s \<Longrightarrow> jobs_inv t"
  using assms image_mono [of "{..<uuid_pos s}" "{..<uuid_pos t}" "uuids s"]
  unfolding jobs_inv_def ids_drawn_def by auto

lemma jobs_inv_synced: "jobs_inv s \<Longrightarrow> jobs_inv (s\<lparr>sql_jobs := jobs s\<rparr>)"
  by (simp add: jobs_inv_def ids_drawn_def)

lemma jobs_inv_begin: "jobs_inv s \<Longrightarrow> jobs_inv (begin_session s)"
  by (simp add: jobs_inv_def ids_drawn_def)

lemma jobs_inv_roll_back:
  "jobs_inv s \<Longrightarrow> uuid_pos s \<le> uuid_pos t \<Longrightarrow> jobs_inv (roll_back s t)"
  by (rule jobs_inv_cong [of _ s]) simp_all

lemma fresh_id: "ids_drawn s \<Longrightarrow> uuids s (uuid_pos s) \<notin> rid ` set (jobs s)"
  unfolding ids_drawn_def
proof
  assume h: "inj (uuids s) \<and> rid ` set (jobs s) \<subseteq> uuids s ` {..<uuid_pos s}"
    and "uuids s (uuid_pos s) \<in> rid ` set (jobs s)"
  then have "uuids s (uuid_pos s) \<in> uuids s ` {..<uuid_pos s}" by blast
  with h show False by (simp add: inj_image_mem_iff)
qed

lemma select_by_key_empty:
  assumes inv: "jobs_inv s" and none: "sql_select_jobs (\<lambda>j. org j = og \<and> biz j = bz
      \<and> job_type j = jt \<and> idempotency_key j = k) s = []"
  shows "(og, bz, jt, k) \<notin> job_key ` set (jobs s)"
proof
  assume "(og, bz, jt, k) \<in> job_key ` set (jobs s)"
  then obtain j where j: "j \<in> set (jobs s)" "job_key j = (og, bz, jt, k)" by force
  then have "job_ident j \<in> set (map job_ident (sql_jobs s))"
    using inv by (simp add: jobs_inv_def)
  then obtain q where "q \<in> set (sql_jobs s)" "job_ident q = job_ident j" by auto
  with j none show False
    by (auto simp: sql_select_jobs_def filter_empty_conv list_ex_iff job_ident_def job_key_def)
qed

lemma jobs_inv_insert:
  assumes inv: "jobs_inv s" and ok: "job_ok j" and i: "rid j = uuids s (uuid_pos s)"
    and key: "job_key j \<notin> job_key ` set (jobs s)"
  shows "jobs_inv (s\<lparr>uuid_pos := Suc (uuid_pos s), jobs := jobs s @ [j],
    sql_jobs := jobs s @ [j], unit_of_work := []\<rparr>)"
proof -
  have "rid j \<notin> rid ` set (jobs s)"
    using inv i fresh_id by (metis jobs_inv_def)
  with assms show ?thesis
    by (auto simp: jobs_inv_def ids_drawn_def lessThan_Suc)
qed

text \<open>The empty database, used by the concrete runs of this development.\<close>

definition empty_store :: store where
  "empty_store = \<lparr>jobs = [], sql_jobs = [], outbox_events = [], business_events = [],
     audit_logs = [], unit_of_work = [], uuids = (\<lambda>n. replicate n CHR ''i''), uuid_pos = 0,
     wakeups = [], provider_log = []\<rparr>"

lemma empty_store_inv: "jobs_inv empty_store"
proof -
  have "inj (\<lambda>n. replicate n CHR ''i'')"
    by (rule injI) (metis length_replicate)
  then show ?thesis by (simp add: empty_store_def jobs_inv_def ids_drawn_def)
qed

subsection \<open>Creation\<close>

text \<open>A run of \<open>create_job\<close> is one of three: it raises, it finds the job, or it inserts one.\<close>

definition new_job ::
  "'y TenantScope_scheme \<Rightarrow> string \<Rightarrow> payload \<Rightarrow> int \<Rightarrow> string \<Rightarrow> datetime \<Rightarrow> int
     \<Rightarrow> datetime option \<Rightarrow> string option \<Rightarrow> string option \<Rightarrow> string \<Rightarrow> job_row" where
  "new_job scope jtype pl schema_version key now max_att available correlation causation i =
     \<lparr>rid = i, org = organization_id scope, biz = business_id scope,
      job_type = jtype, job_status = QUEUED, job_payload = pl,
      payload_schema_version = schema_version, attempt_count = 0, max_attempts = max_att,
      available_at = (case available of None \<Rightarrow> now | Some t \<Rightarrow> t),
      started_at = None, completed_at = None, lease_owner = None, lease_expires_at = None,
      error_class = None, error_summary = None,
      job_correlation_id = correlation, job_causation_id = causation,
      idempotency_key = key, job_created_at = now\<rparr>"

definition create_job_accepts :: "string \<Rightarrow> payload \<Rightarrow> int \<Rightarrow> int \<Rightarrow> bool" where
  "create_job_accepts jtype pl schema_version max_att \<longleftrightarrow>
     jtype \<in> set REGISTERED_JOB_TYPES \<and> 1 \<le> schema_version \<and> 1 \<le> max_att \<and>
     secret_free (JObj pl)"

abbreviation find_job :: "'y TenantScope_scheme \<Rightarrow> string \<Rightarrow> string \<Rightarrow> 'z store_scheme \<Rightarrow> job_row list" where
  "find_job scope jtype key s \<equiv>
     sql_select_jobs (\<lambda>j. org j = organization_id scope \<and> biz j = business_id scope
       \<and> job_type j = jtype \<and> idempotency_key j = key) s"

lemma create_job_run:
  "create_job scope jtype pl sv key now mx av co ca s =
    (if \<not> create_job_accepts jtype pl sv mx
     then (fst (create_job scope jtype pl sv key now mx av co ca s), s)
     else case find_job scope jtype key s of
        j # _ \<Rightarrow> (Inr j, s)
      | [] \<Rightarrow>
         (let j = new_job scope jtype pl sv key now mx av co ca (uuids s (uuid_pos s))
          in (Inr j, s\<lparr>uuid_pos := Suc (uuid_pos s), jobs := jobs s @ [j],
                sql_jobs := jobs s @ [j], unit_of_work := []\<rparr>)))"
  by (auto simp: create_job_def create_job_accepts_def new_job_def run_simps Let_def
      no_secrets_iff [symmetric] split: list.splits sum.splits)

lemma create_job_result:
  assumes "create_job scope jtype pl sv key now mx av co ca s = (Inr j, t)"
  shows "create_job_accepts jtype pl sv mx \<and>
    ((\<exists>js. find_job scope jtype key s = j # js) \<and> t = s \<or>
     find_job scope jtype key s = [] \<and>
       j = new_job scope jtype pl sv key now mx av co ca (uuids s (uuid_pos s)) \<and>
       t = s\<lparr>uuid_pos := Suc (uuid_pos s), jobs := jobs s @ [j],
             sql_jobs := jobs s @ [j], unit_of_work := []\<rparr>)"
proof -
  have ok: "create_job_accepts jtype pl sv mx"
    using assms
    by (auto simp: create_job_def create_job_accepts_def run_simps no_secrets_iff [symmetric]
        split: if_splits sum.splits)
  with assms show ?thesis
    by (subst (asm) create_job_run) (auto simp: Let_def split: list.splits)
qed

lemma create_job_error:
  assumes "create_job scope jtype pl sv key now mx av co ca s = (Inl e, t)"
  shows "t = s"
proof (cases "create_job_accepts jtype pl sv mx")
  case True
  with assms show ?thesis
    by (subst (asm) create_job_run) (auto simp: Let_def split: list.splits)
next
  case False
  with assms show ?thesis
    by (subst (asm) create_job_run) auto
qed

lemma new_job_ok:
  "create_job_accepts jtype pl sv mx \<Longrightarrow> job_ok (new_job scope jtype pl sv key now mx av co ca i)"
  by (simp add: create_job_accepts_def job_ok_def new_job_def)

lemma new_job_key:
  "job_key (new_job scope jtype pl sv key now mx av co ca i) =
     (organization_id scope, business_id scope, jtype, key)"
  by (simp add: new_job_def job_key_def)

lemma new_job_rid [simp]: "rid (new_job scope jtype pl sv key now mx av co ca i) = i"
  by (simp add: new_job_def)

lemma new_job_status: "job_status (new_job scope jtype pl sv key now mx av co ca i) = QUEUED"
  by (simp add: new_job_def)

lemma create_job_inv:
  "keeps jobs_inv (create_job scope jtype pl sv key now mx av co ca)"
proof (rule keepsI)
  fix s :: "'z store_scheme"
  assume inv: "jobs_inv s"
  obtain r t where run: "create_job scope jtype pl sv key now mx av co ca s = (r, t)"
    by (cases "create_job scope jtype pl sv key now mx av co ca s")
  have "jobs_inv t"
  proof (cases r)
    case (Inl e)
    with run have "t = s" by (auto dest: create_job_error)
    with inv show ?thesis by simp
  next
    case (Inr j)
    with run have res: "create_job scope jtype pl sv key now mx av co ca s = (Inr j, t)" by simp
    from create_job_result [OF this] have ok: "create_job_accepts jtype pl sv mx"
      and cases: "t = s \<or> find_job scope jtype key s = [] \<and>
         j = new_job scope jtype pl sv key now mx av co ca (uuids s (uuid_pos s)) \<and>
         t = s\<lparr>uuid_pos := Suc (uuid_pos s), jobs := jobs s @ [j],
               sql_jobs := jobs s @ [j], unit_of_work := []\<rparr>" by auto
    from cases show ?thesis
    proof
      assume "t = s"
      with inv show ?thesis by simp
    next
      assume ins: "find_job scope jtype key s = [] \<and>
         j = new_job scope jtype pl sv key now mx av co ca (uuids s (uuid_pos s)) \<and>
         t = s\<lparr>uuid_pos := Suc (uuid_pos s), jobs := jobs s @ [j],
               sql_jobs := jobs s @ [j], unit_of_work := []\<rparr>"
      have key: "job_key j \<notin> job_key ` set (jobs s)"
        using ins select_by_key_empty [OF inv] by (simp add: new_job_key)
      have "job_ok j" "rid j = uuids s (uuid_pos s)"
        using ins new_job_ok [OF ok, of scope key now av co ca] by simp_all
      from jobs_inv_insert [OF inv this key] ins show ?thesis by metis
    qed
  qed
  with run show "jobs_inv (snd (create_job scope jtype pl sv key now mx av co ca s))" by simp
qed


lemma find_job_unique:
  assumes inv: "jobs_inv s" and found: "find_job scope jtype key s = j # js"
  shows "filter (\<lambda>q. job_key q = (organization_id scope, business_id scope, jtype, key)) (jobs s) = [j]"
proof -
  let ?k = "(organization_id scope, business_id scope, jtype, key)"
  from found have "j \<in> set (find_job scope jtype key s)" by simp
  then obtain q where j: "j \<in> set (jobs s)" and q: "q \<in> set (sql_jobs s)" "rid q = rid j" "job_key q = ?k"
    by (auto simp: sql_select_jobs_def list_ex_iff job_key_def)
  then have "job_ident q \<in> set (map job_ident (jobs s))"
    using inv unfolding jobs_inv_def by (metis image_eqI list.set_map)
  then obtain p where p: "p \<in> set (jobs s)" "job_ident p = job_ident q" by auto
  then have "rid p = rid j" using q(2) by (simp add: job_ident_def)
  then have "p = j"
    using p(1) j inv unfolding jobs_inv_def by (metis row_get_distinct option.inject)
  then have "job_key j = ?k" using p(2) q(3) by (metis job_ident_key)
  moreover have "filter (\<lambda>q. job_key q = job_key j) (jobs s) = [j]"
    using inv j unfolding jobs_inv_def by (intro filter_distinct_key) auto
  ultimately show ?thesis by simp
qed

lemma find_job_synced:
  assumes "sql_jobs s = jobs s" "jobs_inv s"
  shows "find_job scope jtype key s =
    filter (\<lambda>q. job_key q = (organization_id scope, business_id scope, jtype, key)) (jobs s)"
proof -
  have "find_job scope jtype key s = filter (\<lambda>j. org j = organization_id scope \<and>
      biz j = business_id scope \<and> job_type j = jtype \<and> idempotency_key j = key) (jobs s)"
    using assms by (intro sql_select_synced) (simp_all add: jobs_inv_def)
  also have "\<dots> = filter (\<lambda>q. job_key q = (organization_id scope, business_id scope, jtype, key)) (jobs s)"
    by (rule filter_cong [OF refl]) (auto simp: job_key_def)
  finally show ?thesis .
qed

lemma create_job_finds:
  assumes inv: "jobs_inv s"
    and run: "create_job scope jtype pl sv key now mx av co ca s = (Inr j, t)"
  shows "\<exists>js. find_job scope jtype key t = j # js"
proof -
  have inv': "jobs_inv t"
    using create_job_inv inv run by (rule keepsD)
  from create_job_result [OF run] consider
      "\<exists>js. find_job scope jtype key s = j # js" "t = s"
    | "find_job scope jtype key s = []"
      "j = new_job scope jtype pl sv key now mx av co ca (uuids s (uuid_pos s))"
      "t = s\<lparr>uuid_pos := Suc (uuid_pos s), jobs := jobs s @ [j],
             sql_jobs := jobs s @ [j], unit_of_work := []\<rparr>" by blast
  then show ?thesis
  proof cases
    case 1
    then show ?thesis by simp
  next
    case 2
    let ?k = "(organization_id scope, business_id scope, jtype, key)"
    have old: "filter (\<lambda>q. job_key q = ?k) (jobs s) = []"
      using select_by_key_empty [OF inv 2(1)] unfolding filter_empty_conv image_iff by metis
    have jt: "jobs t = jobs s @ [j]" and syn: "sql_jobs t = jobs t" using 2(3) by simp_all
    have "job_key j = ?k" using 2(2) by (simp add: new_job_key)
    then have "filter (\<lambda>q. job_key q = ?k) (jobs t) = [j]" by (simp add: jt old)
    with find_job_synced [OF syn inv', of scope jtype key] show ?thesis by simp
  qed
qed

text \<open>
  Creating a job is idempotent per scope, job type and idempotency key: a second
  request with the same key, whatever else it carries, returns the job of the first request,
  changes nothing, and the table holds exactly one job with that key.
\<close>

lemma create_job_idempotent:
  assumes inv: "jobs_inv s"
    and first: "create_job scope jtype pl sv key now mx av co ca s = (Inr j, t)"
    and ok: "create_job_accepts jtype pl' sv' mx'"
  shows "create_job scope jtype pl' sv' key now' mx' av' co' ca' t = (Inr j, t) \<and>
    filter (\<lambda>q. job_key q = (organization_id scope, business_id scope, jtype, key)) (jobs t) = [j] \<and>
    jobs_inv t"
proof -
  have inv': "jobs_inv t"
    using create_job_inv inv first by (rule keepsD)
  obtain js where found: "find_job scope jtype key t = j # js"
    using create_job_finds [OF inv first] by blast
  then have "create_job scope jtype pl' sv' key now' mx' av' co' ca' t = (Inr j, t)"
    using ok by (subst create_job_run) simp
  with inv' found show ?thesis
    using find_job_unique [OF inv' found] by simp
qed

theorem create_job_idempotent_witness:
  "let scope = \<lparr>organization_id = ''o'', business_id = ''b''\<rparr>;
       (r, t) = create_job scope ''runtime.probe'' [] 1 ''k'' 10 3 None None None empty_store
   in \<exists>j. r = Inr j \<and>
        create_job scope ''runtime.probe'' [(''n'', JInt 1)] 2 ''k'' 20 1 None None None t = (Inr j, t)"
proof -
  let ?scope = "\<lparr>organization_id = ''o'', business_id = ''b''\<rparr>"
  have acc: "create_job_accepts ''runtime.probe'' [] 1 3"
    and acc': "create_job_accepts ''runtime.probe'' [(''n'', JInt 1)] 2 1"
    by (simp_all add: create_job_accepts_def no_secrets_iff [symmetric]) code_simp+
  have "\<exists>j t. create_job ?scope ''runtime.probe'' [] 1 ''k'' 10 3 None None None empty_store = (Inr j, t)"
    using acc by (subst create_job_run) (simp add: sql_select_jobs_def empty_store_def Let_def)
  then obtain j t where run:
    "create_job ?scope ''runtime.probe'' [] 1 ''k'' 10 3 None None None empty_store = (Inr j, t)"
    by blast
  from create_job_idempotent [OF empty_store_inv run acc'] run show ?thesis by auto
qed

subsection \<open>Claiming\<close>

lemma jobs_inv_synced_get:
  assumes "jobs_inv s" "row_get rid i (jobs s) = Some j" "q \<in> set (jobs s)" "rid q = i"
  shows "q = j"
  using assms unfolding jobs_inv_def by (metis row_get_distinct option.inject)

text \<open>At the start of a transaction the two images agree, and claiming is a guarded update.\<close>

lemma claim_job_run:
  assumes inv: "jobs_inv s" and syn: "sql_jobs s = jobs s"
  shows "claim_job i w now l s =
    (case row_get rid i (jobs s) of
       None \<Rightarrow> (Inr None, s)
     | Some j \<Rightarrow>
         if claimable now j
         then (Inr (Some (claimed_values w now l j)),
               s\<lparr>jobs := row_set rid i (claimed_values w now l) (jobs s),
                 sql_jobs := row_set rid i (claimed_values w now l) (jobs s)\<rparr>)
         else (Inr None, s))"
proof (cases "row_get rid i (jobs s)")
  case None
  then have "\<not> list_ex (\<lambda>j. rid j = i \<and> claimable now j) (sql_jobs s)"
    by (auto simp: syn list_ex_iff row_get_None)
  with None show ?thesis by (simp add: claim_job_def run_simps)
next
  case (Some j)
  have "list_ex (\<lambda>j. rid j = i \<and> claimable now j) (sql_jobs s) \<longleftrightarrow> claimable now j"
    using row_get_Some [OF Some] jobs_inv_synced_get [OF inv Some]
    unfolding list_ex_iff syn by metis
  with Some show ?thesis
    by (simp add: claim_job_def run_simps jobtab.get_set_same syn)
qed

lemma claim_job_inv:
  assumes inv: "jobs_inv s" and syn: "sql_jobs s = jobs s"
    and run: "claim_job i w now l s = (r, t)"
  shows "jobs_inv t"
proof (cases "row_get rid i (jobs s)")
  case None
  with run inv show ?thesis by (simp add: claim_job_run [OF inv syn])
next
  case (Some j)
  have "jobs_inv (s\<lparr>jobs := row_set rid i (claimed_values w now l) (jobs s)\<rparr>)" if "claimable now j"
    using that jobs_inv_synced_get [OF inv Some] inv
    by (intro jobs_inv_update) (auto simp: jobs_inv_def intro: claimed_ok)
  with run inv Some show ?thesis
    by (auto simp: claim_job_run [OF inv syn] dest: jobs_inv_synced split: if_splits)
qed

text \<open>
  Claim C7. A claim gives an exclusive lease: the job becomes \<open>RUNNING\<close>, owned by the claiming
  worker, with one more attempt counted; no other row changes; and until the lease expires every
  later claim of the same job, by any worker, returns nothing and changes nothing.
\<close>

lemma claim_gives_exclusive_lease:
  assumes inv: "jobs_inv s" and syn: "sql_jobs s = jobs s"
    and run: "claim_job i w now l s = (Inr (Some j), t)"
  shows "(\<exists>j0. row_get rid i (jobs s) = Some j0 \<and> claimable now j0 \<and>
            attempt_count j = attempt_count j0 + 1) \<and>
    row_get rid i (jobs t) = Some j \<and> job_status j = JobStatus.RUNNING \<and>
    lease_owner j = Some w \<and> lease_expires_at j = Some (now + l) \<and>
    (\<forall>k. k \<noteq> i \<longrightarrow> row_get rid k (jobs t) = row_get rid k (jobs s)) \<and>
    (\<forall>w' now' l'. now' < now + l \<longrightarrow>
       claim_job i w' now' l' (begin_session t) = (Inr None, begin_session t))"
proof -
  have inv': "jobs_inv t" using claim_job_inv [OF inv syn run] .
  obtain j0 where j0: "row_get rid i (jobs s) = Some j0" "claimable now j0"
      "j = claimed_values w now l j0"
    and t: "jobs t = row_set rid i (claimed_values w now l) (jobs s)"
    using run by (auto simp: claim_job_run [OF inv syn] split: option.splits if_splits)
  have get: "row_get rid i (jobs t) = Some j"
    using j0 t by (simp add: jobtab.get_set_same)
  have "claim_job i w' now' l' (begin_session t) = (Inr None, begin_session t)"
    if "now' < now + l" for w' now' l'
    using that get j0(3) jobs_inv_begin [OF inv']
    by (simp add: claim_job_run claimable_def claimed_values_def)
  with j0 get show ?thesis
    by (auto simp: t jobtab.get_set_other claimed_values_def)
qed

text \<open>A one-job database, for the concrete runs.\<close>

definition sample_job :: job_row where
  "sample_job = new_job \<lparr>organization_id = ''o'', business_id = ''b''\<rparr> ''runtime.probe'' [] 1 ''k'' 10 1
     None None None []"

definition sample_store :: "job_row \<Rightarrow> store" where
  "sample_store j = empty_store\<lparr>jobs := [j], sql_jobs := [j], uuid_pos := 1\<rparr>"

lemma sample_store_inv: "job_ok j \<Longrightarrow> rid j = [] \<Longrightarrow> jobs_inv (sample_store j)"
  using empty_store_inv by (simp add: jobs_inv_def ids_drawn_def sample_store_def empty_store_def)

lemma sample_job_ok: "job_ok sample_job"
  unfolding sample_job_def
  by (rule new_job_ok, simp add: create_job_accepts_def no_secrets_iff [symmetric]) code_simp

lemma sample_job_rid [simp]: "rid sample_job = []"
  by (simp add: sample_job_def)

theorem claim_gives_exclusive_lease_witness:
  "\<exists>j t. claim_job [] ''w1'' 10 60 (sample_store sample_job) = (Inr (Some j), t) \<and>
     claim_job [] ''w2'' 69 60 (begin_session t) = (Inr None, begin_session t)"
proof -
  let ?s = "sample_store sample_job"
  have inv: "jobs_inv ?s" by (rule sample_store_inv [OF sample_job_ok sample_job_rid])
  have syn: "sql_jobs ?s = jobs ?s" by (simp add: sample_store_def)
  have "\<exists>j t. claim_job [] ''w1'' 10 60 ?s = (Inr (Some j), t)"
    by (simp add: claim_job_run [OF inv syn])
      (simp add: sample_store_def claimable_def sample_job_def new_job_def)
  then obtain j t where run: "claim_job [] ''w1'' 10 60 ?s = (Inr (Some j), t)" by blast
  from claim_gives_exclusive_lease [OF inv syn run] run show ?thesis by force
qed

text \<open>
  When a claim overruns the attempt limit. A claim counts an attempt beyond
  \<open>max_attempts\<close> exactly when it takes over a \<open>RUNNING\<close> job whose lease has expired and
  whose attempts were already used up: a claim of a queued or retrying job never does.
\<close>

lemma claim_overruns_only_expired_lease:
  assumes inv: "jobs_inv s" and syn: "sql_jobs s = jobs s"
    and run: "claim_job i w now l s = (Inr (Some j), t)"
  shows "\<exists>j0. row_get rid i (jobs s) = Some j0 \<and>
    (attempt_count j \<le> max_attempts j \<longleftrightarrow>
       \<not> (lease_expired now j0 \<and> max_attempts j0 \<le> attempt_count j0))"
proof -
  obtain j0 where j0: "row_get rid i (jobs s) = Some j0" "claimable now j0"
      "j = claimed_values w now l j0"
    using run by (auto simp: claim_job_run [OF inv syn] split: option.splits if_splits)
  have "job_ok j0"
    using row_get_Some [OF j0(1)] inv by (simp add: jobs_inv_def)
  with j0 show ?thesis
    by (auto simp: claimed_values_def claimable_def lease_expired_def job_ok_def split: option.splits)
qed

text \<open>
  The overrun is reachable: with \<open>max_attempts = 1\<close> the same delivery, processed again after
  the lease of the first attempt has run out and before the scheduler has looked, starts attempt 2.
\<close>

theorem claim_overruns_only_expired_lease_witness:
  "\<exists>j t. claim_job [] ''w2'' 70 60 (sample_store (claimed_values ''w1'' 10 60 sample_job))
      = (Inr (Some j), t) \<and> max_attempts j = 1 \<and> \<not> attempt_count j \<le> max_attempts j"
proof -
  let ?j = "claimed_values ''w1'' 10 60 sample_job"
  let ?s = "sample_store ?j"
  have j: "claimable 10 sample_job" "rid ?j = []" "max_attempts ?j = 1" "attempt_count ?j = 1"
      "job_status ?j = JobStatus.RUNNING" "lease_expires_at ?j = Some 70"
    by (simp_all add: claimable_def sample_job_def new_job_def claimed_values_def)
  have inv: "jobs_inv ?s"
    using claimed_ok [OF sample_job_ok j(1)] j(2) by (rule sample_store_inv)
  have syn: "sql_jobs ?s = jobs ?s" by (simp add: sample_store_def)
  have get: "row_get rid [] (jobs ?s) = Some ?j" using j(2) by (simp add: sample_store_def)
  then have run: "claim_job [] ''w2'' 70 60 ?s = (Inr (Some (claimed_values ''w2'' 70 60 ?j)),
      ?s\<lparr>jobs := row_set rid [] (claimed_values ''w2'' 70 60) (jobs ?s),
         sql_jobs := row_set rid [] (claimed_values ''w2'' 70 60) (jobs ?s)\<rparr>)"
    using j by (simp add: claim_job_run [OF inv syn] claimable_def)
  have mx: "max_attempts (claimed_values ''w2'' 70 60 ?j) = 1"
    using j(3) by (simp add: claimed_values_def)
  from claim_overruns_only_expired_lease [OF inv syn run] get j mx run show ?thesis
    by (auto simp: lease_expired_def)
qed

subsection \<open>Completion and failure\<close>

lemma mark_job_succeeded_inv:
  assumes inv: "jobs_inv s" and get: "row_get rid i (jobs s) = Some j" "attempt_count j \<noteq> 0"
  shows "jobs_inv (snd (mark_job_succeeded i now s))"
  using assms jobs_inv_synced_get [OF inv get(1)]
  by (simp add: mark_job_succeeded_def run_simps)
    (intro jobs_inv_update, auto simp: jobs_inv_def intro: succeeded_ok)

lemma mark_job_failed_or_retrying_run:
  "mark_job_failed_or_retrying i e retry now b s =
    (case row_get rid i (jobs s) of
       None \<Rightarrow> (Inl (PermanentJobError (''job not found: '' @ i)), s)
     | Some j \<Rightarrow> (Inr (failed_values e retry now b j),
                  s\<lparr>jobs := row_set rid i (failed_values e retry now b) (jobs s)\<rparr>))"
  by (simp add: mark_job_failed_or_retrying_def run_simps split: option.splits)

lemma mark_job_failed_or_retrying_inv:
  assumes inv: "jobs_inv s" and ok: "\<And>j. row_get rid i (jobs s) = Some j \<Longrightarrow> attempt_count j \<noteq> 0"
  shows "jobs_inv (snd (mark_job_failed_or_retrying i e retry now b s))"
proof (cases "row_get rid i (jobs s)")
  case None
  with inv show ?thesis by (simp add: mark_job_failed_or_retrying_run)
next
  case (Some j)
  have "jobs_inv (s\<lparr>jobs := row_set rid i (failed_values e retry now b) (jobs s)\<rparr>)"
    using ok Some inv jobs_inv_synced_get [OF inv Some]
    by (intro jobs_inv_update) (auto simp: jobs_inv_def intro: failed_ok)
  with Some show ?thesis by (simp add: mark_job_failed_or_retrying_run)
qed

text \<open>
  The outcome of a failed attempt, on every branch: with an existing job the lease is
  released, the error class and a redacted summary of at most 500 characters are stored, and the
  job waits for a retry after the backoff exactly when the error allows it and attempts are left,
  and is \<open>FAILED\<close> for good otherwise; a missing job is reported as an error and changes nothing.
\<close>

lemma failed_attempt_outcome:
  "case mark_job_failed_or_retrying i e retry now b s of
     (Inl err, t) \<Rightarrow> row_get rid i (jobs s) = None \<and> t = s \<and>
        err = PermanentJobError (''job not found: '' @ i)
   | (Inr j, t) \<Rightarrow> (\<exists>j0. row_get rid i (jobs s) = Some j0 \<and> row_get rid i (jobs t) = Some j \<and>
        (\<forall>k. k \<noteq> i \<longrightarrow> row_get rid k (jobs t) = row_get rid k (jobs s)) \<and>
        lease_owner j = None \<and> lease_expires_at j = None \<and>
        error_class j = Some (error_class_name e) \<and>
        (\<exists>x. error_summary j = Some x \<and> x = redacted_error_summary e \<and> length x \<le> 500) \<and>
        attempt_count j = attempt_count j0 \<and>
        (if retry \<and> attempt_count j0 < max_attempts j0
         then job_status j = RETRY_WAIT \<and> available_at j = now + b \<and> completed_at j = None
         else job_status j = JobStatus.FAILED \<and> completed_at j = Some now))"
proof (cases "row_get rid i (jobs s)")
  case None
  then show ?thesis by (simp add: mark_job_failed_or_retrying_run)
next
  case (Some j0)
  then show ?thesis
    using redacted_length [of e]
    by (auto simp: mark_job_failed_or_retrying_run jobtab.get_set_same jobtab.get_set_other
        failed_values_def Let_def)
qed

theorem failed_attempt_outcome_witness:
  "\<exists>j t. mark_job_failed_or_retrying [] (TransientJobError ''token=abc'') True 20 60
       (sample_store (claimed_values ''w1'' 10 60 sample_job)) = (Inr j, t) \<and>
     job_status j = JobStatus.FAILED \<and> completed_at j = Some 20 \<and> lease_owner j = None"
proof -
  let ?j = "claimed_values ''w1'' 10 60 sample_job"
  let ?s = "sample_store ?j"
  have j: "max_attempts ?j = 1" "attempt_count ?j = 1" "rid ?j = []"
    by (simp_all add: sample_job_def new_job_def claimed_values_def)
  then have get: "row_get rid [] (jobs ?s) = Some ?j" by (simp add: sample_store_def)
  obtain r t where run:
    "mark_job_failed_or_retrying [] (TransientJobError ''token=abc'') True 20 60 ?s = (r, t)"
    by (metis prod.exhaust)
  from failed_attempt_outcome [where i = "[]" and e = "TransientJobError ''token=abc''"
      and retry = True and now = 20 and b = 60 and s = ?s] get j
  show ?thesis unfolding run by (cases r) auto
qed

subsection \<open>Lease recovery\<close>

lemma foreach_modify_jobs:
  "foreach js (\<lambda>j. bnd (update_job (rid j) f) (\<lambda>_. touch (org j) (biz j))) s =
     (Inr (), s\<lparr>jobs := fold (\<lambda>i. row_set rid i f) (map rid js) (jobs s),
                unit_of_work := unit_of_work s @ map (\<lambda>j. (org j, biz j)) js\<rparr>)"
  by (induction js arbitrary: s) (simp_all add: run_simps)

lemma recover_expired_leases_run:
  assumes inv: "jobs_inv s" and syn: "sql_jobs s = jobs s"
  shows "recover_expired_leases now s =
    (Inr (length (filter (lease_expired now) (jobs s))),
     s\<lparr>jobs := map (\<lambda>j. if lease_expired now j then recovered_values now j else j) (jobs s),
       unit_of_work := unit_of_work s @
         map (\<lambda>j. (org j, biz j)) (filter (lease_expired now) (jobs s))\<rparr>)"
proof -
  have d: "distinct (map rid (jobs s))" using inv by (simp add: jobs_inv_def)
  show ?thesis
    by (simp add: recover_expired_leases_def run_simps sql_select_synced [OF syn d]
        foreach_modify_jobs jobtab.fold_selected [OF _ d])
qed

lemma recover_expired_leases_inv:
  assumes inv: "jobs_inv s" and syn: "sql_jobs s = jobs s"
  shows "jobs_inv (snd (recover_expired_leases now s))"
proof -
  have "jobs_inv (s\<lparr>jobs := map (\<lambda>j. if lease_expired now j then recovered_values now j else j) (jobs s)\<rparr>)"
    using inv recovered_ok
    by (intro jobs_inv_map) (auto simp: job_values_ident jobtab.stable_def jobs_inv_def)
  then show ?thesis
    by (simp add: recover_expired_leases_run [OF inv syn] jobs_inv_def ids_drawn_def)
qed

text \<open>
  Recovery leaves no expired lease behind and touches nothing else: the loop over the
  expired jobs is the simultaneous update of all of them, each to \<open>RETRY_WAIT\<close> when attempts
  are left and to \<open>FAILED\<close> with a reason otherwise; the result counts them, the invariant
  of the table is kept, and a second recovery at the same time finds nothing.
\<close>

lemma recovery_clears_expired_leases:
  assumes inv: "jobs_inv s" and syn: "sql_jobs s = jobs s"
    and run: "recover_expired_leases now s = (r, t)"
  shows "r = Inr (length (filter (lease_expired now) (jobs s))) \<and> jobs_inv t \<and>
    length (jobs t) = length (jobs s) \<and>
    (\<forall>n < length (jobs s). let j = jobs s ! n; j' = jobs t ! n in
       \<not> lease_expired now j' \<and>
       (if lease_expired now j
        then lease_owner j' = None \<and> attempt_count j' = attempt_count j \<and>
          (if attempt_count j < max_attempts j
           then job_status j' = RETRY_WAIT \<and> available_at j' = now
           else job_status j' = JobStatus.FAILED \<and> error_class j' \<noteq> None)
        else j' = j)) \<and>
    fst (recover_expired_leases now (begin_session t)) = Inr 0"
proof -
  have t: "r = Inr (length (filter (lease_expired now) (jobs s)))"
      "jobs t = map (\<lambda>j. if lease_expired now j then recovered_values now j else j) (jobs s)"
    using run by (auto simp: recover_expired_leases_run [OF inv syn])
  have inv': "jobs_inv t" using recover_expired_leases_inv [OF inv syn, of now] run by simp
  have rec: "\<not> lease_expired now (recovered_values now j)" for j
    by (simp add: lease_expired_def recovered_values_def Let_def)
  have "filter (lease_expired now) (jobs t) = []"
    by (auto simp: t(2) filter_empty_conv rec)
  then have "fst (recover_expired_leases now (begin_session t)) = Inr 0"
    using jobs_inv_begin [OF inv'] by (simp add: recover_expired_leases_run)
  with t inv' rec show ?thesis
    by (auto simp: Let_def recovered_values_def not_less)
qed

theorem recovery_clears_expired_leases_witness:
  "\<exists>t. recover_expired_leases 70 (sample_store (claimed_values ''w1'' 10 60 sample_job)) = (Inr 1, t) \<and>
     job_status (jobs t ! 0) = JobStatus.FAILED"
proof -
  let ?j = "claimed_values ''w1'' 10 60 sample_job"
  let ?s = "sample_store ?j"
  have j: "claimable 10 sample_job" "rid ?j = []" "max_attempts ?j = 1" "attempt_count ?j = 1"
      "lease_expired 70 ?j"
    by (simp_all add: claimable_def sample_job_def new_job_def claimed_values_def lease_expired_def)
  have inv: "jobs_inv ?s"
    using claimed_ok [OF sample_job_ok j(1)] j(2) by (rule sample_store_inv)
  have syn: "sql_jobs ?s = jobs ?s" and js: "jobs ?s = [?j]" by (simp_all add: sample_store_def)
  obtain r t where run: "recover_expired_leases 70 ?s = (r, t)" by (metis prod.exhaust)
  from recovery_clears_expired_leases [OF inv syn run] j run show ?thesis
    by (simp add: js Let_def)
qed

subsection \<open>The due scan and the outbox scan\<close>

lemma foreach_enqueue: "foreach ids enqueue s = (Inr (), s\<lparr>wakeups := wakeups s @ ids\<rparr>)"
  by (induction ids arbitrary: s) (simp_all add: run_simps)

lemma enqueue_due_jobs_run:
  "enqueue_due_jobs now limit s =
     (Inr (length (due_job_ids now limit s)), s\<lparr>wakeups := wakeups s @ due_job_ids now limit s\<rparr>)"
  by (simp add: enqueue_due_jobs_def run_simps foreach_enqueue)

lemma jobs_inv_wakeups [simp]: "jobs_inv (s\<lparr>wakeups := w\<rparr>) = jobs_inv s"
  by (simp add: jobs_inv_def ids_drawn_def)

lemma enqueue_due_jobs_inv: "keeps jobs_inv (enqueue_due_jobs now limit)"
  by (rule keepsI) (simp add: enqueue_due_jobs_run)

lemma enqueue_inv: "keeps jobs_inv (enqueue i)"
  by (rule keepsI) (simp add: run_enqueue)

lemma enqueue_pending_outbox_inv: "keeps jobs_inv (enqueue_pending_outbox now limit)"
  unfolding enqueue_pending_outbox_def enqueue_outbox_event_def
  by (intro keeps_rules create_job_inv enqueue_inv)

text \<open>
  The due scan wakes only jobs that can be claimed now, in the order of their
  availability, never more than the batch size, and skips a due job only when the batch is full
  of jobs that became available no later.
\<close>

lemma due_scan_sound_and_fair:
  assumes inv: "jobs_inv s" and syn: "sql_jobs s = jobs s"
  shows "length (due_job_ids now limit s) \<le> limit \<and>
    (\<forall>i \<in> set (due_job_ids now limit s). \<exists>j. row_get rid i (jobs s) = Some j \<and> claimable now j) \<and>
    sorted (map (\<lambda>i. available_at (the (row_get rid i (jobs s)))) (due_job_ids now limit s)) \<and>
    (\<forall>j \<in> set (jobs s). due now j \<and> rid j \<notin> set (due_job_ids now limit s) \<longrightarrow>
       length (due_job_ids now limit s) = limit \<and>
       (\<forall>i \<in> set (due_job_ids now limit s). available_at (the (row_get rid i (jobs s))) \<le> available_at j))"
proof -
  let ?key = "\<lambda>j :: job_row. (available_at j, job_created_at j)"
  let ?d = "sort_key ?key (filter (due now) (jobs s))"
  have ids: "due_job_ids now limit s = map rid (take limit ?d)" by (simp add: due_job_ids_def syn)
  have get: "row_get rid (rid j) (jobs s) = Some j" if "j \<in> set ?d" for j
    using that inv by (auto simp: jobs_inv_def intro: row_get_distinct)
  have cl: "claimable now j" if "j \<in> set ?d" for j
    using that by (auto simp: due_def claimable_def)
  have sorted: "sorted (map available_at ?d)"
    using sorted_sort_key [of ?key "filter (due now) (jobs s)"] by (rule sorted_map_fst)
  have av: "map (\<lambda>i. available_at (the (row_get rid i (jobs s)))) (due_job_ids now limit s)
      = take limit (map available_at ?d)"
    using get by (auto simp: ids take_map dest: in_set_takeD)
  have skip: "length (due_job_ids now limit s) = limit \<and>
      (\<forall>k \<in> set (take limit ?d). available_at k \<le> available_at j)"
    if "j \<in> set (jobs s)" "due now j" "rid j \<notin> set (due_job_ids now limit s)" for j
    using that sorted_take_skipped [OF sorted, of j limit] by (auto simp: ids)
  show ?thesis
  proof (intro conjI ballI impI)
    show "length (due_job_ids now limit s) \<le> limit" by (simp add: ids)
    show "sorted (map (\<lambda>i. available_at (the (row_get rid i (jobs s)))) (due_job_ids now limit s))"
      unfolding av using sorted by (rule sorted_wrt_take)
  next
    fix i assume "i \<in> set (due_job_ids now limit s)"
    then obtain k where k: "i = rid k" "k \<in> set ?d" by (auto simp: ids dest: in_set_takeD)
    then show "\<exists>j. row_get rid i (jobs s) = Some j \<and> claimable now j" using get cl by blast
  next
    fix j assume "j \<in> set (jobs s)" and "due now j \<and> rid j \<notin> set (due_job_ids now limit s)"
    with skip show "length (due_job_ids now limit s) = limit" by blast
  next
    fix j i assume j: "j \<in> set (jobs s)" "due now j \<and> rid j \<notin> set (due_job_ids now limit s)"
      and "i \<in> set (due_job_ids now limit s)"
    then obtain k where k: "i = rid k" "k \<in> set (take limit ?d)" by (auto simp: ids)
    then have "row_get rid i (jobs s) = Some k" using get by (metis in_set_takeD)
    moreover have "available_at k \<le> available_at j" using skip j k(2) by blast
    ultimately show "available_at (the (row_get rid i (jobs s))) \<le> available_at j" by simp
  qed
qed

theorem due_scan_sound_and_fair_witness:
  "due_job_ids 10 5 (sample_store sample_job) = [[]] \<and>
   (\<exists>j. row_get rid [] (jobs (sample_store sample_job)) = Some j \<and> claimable 10 j)"
proof -
  let ?s = "sample_store sample_job"
  have inv: "jobs_inv ?s" by (rule sample_store_inv [OF sample_job_ok sample_job_rid])
  have syn: "sql_jobs ?s = jobs ?s" by (simp add: sample_store_def)
  have "due_job_ids 10 5 ?s = [[]]"
    by (simp add: due_job_ids_def due_def sample_store_def sample_job_def new_job_def)
  with due_scan_sound_and_fair [OF inv syn, of 10 5] show ?thesis by simp
qed

end
