(* ===== verification/Runtime_Worker.thy ===== *)
theory Runtime_Worker
  imports Runtime_Jobs
begin

text \<open>
  The worker, its built-in handlers, the workflow dispatcher and the scheduler
  (\<open>runtime/handlers.py\<close>, \<open>runtime/worker.py\<close>, \<open>runtime/scheduler.py\<close>,
  \<open>application/workflow_dispatcher.py\<close>). A delivery is processed in up to three
  transactions: the claim, the attempt, and the recording of a failure. The handlers are a
  registry from job types to handlers; what the worker relies on is the contract
  \<open>job_handlers\<close>, which the registries of the program satisfy. The last part puts any number
  of workers, the scheduler, crashes and clients side by side as a step relation and shows the
  invariant of the job table over every interleaving.
\<close>

section \<open>Handlers (\<open>runtime/handlers.py\<close>)\<close>

text \<open>
  \<open>handle\<close> runs one attempt inside the attempt transaction; \<open>record_attempt_failure\<close> is
  optional and runs inside the failure transaction.
\<close>

record 'z job_handler =
  handle :: "RuntimeJobContext \<Rightarrow> payload \<Rightarrow> datetime \<Rightarrow> ('z store_scheme, unit) prog"
  record_attempt_failure ::
    "(job_row \<Rightarrow> py_error \<Rightarrow> bool \<Rightarrow> datetime \<Rightarrow> timedelta \<Rightarrow> ('z store_scheme, unit) prog) option"

type_synonym 'z registry = "string \<Rightarrow> 'z job_handler option"

definition published_values :: "datetime \<Rightarrow> outbox_row \<Rightarrow> outbox_row" where
  "published_values now e = e\<lparr>outbox_status := OutboxStatus.PUBLISHED, published_at := Some now\<rparr>"

definition OutboxDispatchHandler_handle ::
  "RuntimeJobContext \<Rightarrow> payload \<Rightarrow> datetime \<Rightarrow> ('z store_scheme, unit) prog" where
  "OutboxDispatchHandler_handle context pl now =
     bnd (check_no_secrets pl) (\<lambda>_.
     bnd (required (as_str (dict_get pl ''outbox_event_id''))
           (PermanentJobError ''outbox_event_id is required'')) (\<lambda>outbox_event_id.
     bnd (gets (\<lambda>s. row_get rid outbox_event_id (outbox_events s))) (\<lambda>found.
     bnd (required found (PermanentJobError (''outbox event not found: '' @ outbox_event_id))) (\<lambda>outbox_event.
     bnd (check_scope context (org outbox_event) (biz outbox_event)) (\<lambda>_.
     if outbox_status outbox_event = OutboxStatus.PUBLISHED then ret ()
     else
       bnd (modify (\<lambda>s. s\<lparr>outbox_events :=
              row_set rid outbox_event_id (published_values now) (outbox_events s)\<rparr>))
         (\<lambda>_. touch (org outbox_event) (biz outbox_event)))))))"

definition probe_event :: "string \<Rightarrow> string \<Rightarrow> string \<Rightarrow> RuntimeJobContext \<Rightarrow> datetime
    \<Rightarrow> ('z store_scheme, unit) prog" where
  "probe_event og bz etype context now =
     bnd new_id (\<lambda>i.
     add_business_event
       \<lparr>rid = i, org = og, biz = bz, business_event_type = etype, event_source_record_id = None,
        event_time = now, event_recorded_at = now,
        business_event_payload = [(''job_id'', JStr (ctx_job_id context))],
        event_correlation_id = ctx_correlation_id context,
        event_causation_id = ctx_causation_id context\<rparr>)"

text \<open>\<open>str(v)\<close>, with Python's \<open>repr\<close> of numbers with a fraction and of containers
  as an argument.\<close>

fun py_str :: "(json \<Rightarrow> string) \<Rightarrow> json \<Rightarrow> string" where
  "py_str py_repr JNull = ''None''"
| "py_str py_repr (JBool b) = (if b then ''True'' else ''False'')"
| "py_str py_repr (JInt i) = show_int i"
| "py_str py_repr (JStr s) = s"
| "py_str py_repr v = py_repr v"

definition RuntimeProbeHandler_handle ::
  "(json \<Rightarrow> string) \<Rightarrow> RuntimeJobContext \<Rightarrow> payload \<Rightarrow> datetime \<Rightarrow> ('z store_scheme, unit) prog" where
  "RuntimeProbeHandler_handle py_repr context pl now =
     bnd (check_no_secrets pl) (\<lambda>_.
     bnd (if dict_get pl ''write_business_event'' = Some (JBool True)
          then probe_event (organization_id context) (business_id context) ''runtime.probe'' context now
          else ret ()) (\<lambda>_.
     bnd (if dict_get pl ''escape_scope'' = Some (JBool True)
          then probe_event ''escaped-organization'' ''escaped-business'' ''runtime.scope_escape'' context now
          else ret ()) (\<lambda>_.
     let transient = TransientJobError ''deterministic transient probe failure''
     in if (case as_int (dict_get pl ''transient_until_attempt'') of
              None \<Rightarrow> False | Some n \<Rightarrow> ctx_attempt_count context \<le> n)
        then raise transient
        else
          (let outcome = (case dict_get pl ''outcome'' of None \<Rightarrow> JStr ''success'' | Some v \<Rightarrow> v)
           in if outcome = JStr ''success'' then ret ()
              else if outcome = JStr ''transient'' then raise transient
              else if outcome = JStr ''permanent''
              then raise (PermanentJobError ''deterministic permanent probe failure'')
              else if outcome = JStr ''permanent_secret_error''
              then raise (PermanentJobError ''provider returned token=placeholder-value'')
              else raise (PermanentJobError
                     (''unsupported runtime probe outcome: '' @ py_str py_repr outcome))))))"

definition default_handler_registry :: "(json \<Rightarrow> string) \<Rightarrow> 'z registry" where
  "default_handler_registry py_repr =
     [JOB_TYPE_OUTBOX_DISPATCH \<mapsto>
        \<lparr>handle = OutboxDispatchHandler_handle, record_attempt_failure = None\<rparr>,
      JOB_TYPE_RUNTIME_PROBE \<mapsto>
        \<lparr>handle = RuntimeProbeHandler_handle py_repr, record_attempt_failure = None\<rparr>]"

section \<open>The workflow dispatcher (\<open>application/workflow_dispatcher.py\<close>)\<close>

definition WorkflowAdvanceDispatcher_handle ::
  "(RuntimeJobContext \<Rightarrow> payload \<Rightarrow> datetime \<Rightarrow> ('z store_scheme, unit) prog) \<Rightarrow>
   (RuntimeJobContext \<Rightarrow> payload \<Rightarrow> datetime \<Rightarrow> ('z store_scheme, unit) prog) \<Rightarrow>
   RuntimeJobContext \<Rightarrow> payload \<Rightarrow> datetime \<Rightarrow> ('z store_scheme, unit) prog" where
  "WorkflowAdvanceDispatcher_handle decision_handler production_handler context pl now =
    (let has_decision = as_str (dict_get pl ''workflow_id'') \<noteq> None;
         has_production = as_str (dict_get pl ''production_workflow_id'') \<noteq> None
     in if has_decision = has_production
        then raise (PermanentJobError ''workflow.advance must bind exactly one governed workflow kind'')
        else if has_production then production_handler context pl now
        else decision_handler context pl now)"

section \<open>The worker (\<open>runtime/worker.py\<close>)\<close>

fun job_status_value :: "JobStatus \<Rightarrow> string" where
  "job_status_value QUEUED = ''QUEUED''"
| "job_status_value JobStatus.PENDING = ''PENDING''"
| "job_status_value JobStatus.RUNNING = ''RUNNING''"
| "job_status_value RETRY_WAIT = ''RETRY_WAIT''"
| "job_status_value JobStatus.SUCCEEDED = ''SUCCEEDED''"
| "job_status_value JobStatus.FAILED = ''FAILED''"

record JobAttemptResult =
  result_job_id :: string
  result_claimed :: bool
  result_status :: string

text \<open>\<open>AITransientProviderError\<close> is the only subclass of \<open>TransientJobError\<close>.\<close>

fun is_transient :: "py_error \<Rightarrow> bool" where
  "is_transient (TransientJobError m) = True"
| "is_transient (OtherError c m) = (c = ''AITransientProviderError'')"
| "is_transient _ = False"

definition assert_session_scope :: "'y TenantScope_scheme \<Rightarrow> ('z store_scheme, unit) prog" where
  "assert_session_scope scope =
     bnd (gets unit_of_work) (\<lambda>touched.
     foreach touched (\<lambda>(og, bz). check_scope scope og bz))"

definition job_context :: "job_row \<Rightarrow> RuntimeJobContext" where
  "job_context job =
     \<lparr>organization_id = org job, business_id = biz job, ctx_job_id = rid job,
      ctx_job_type = job_type job, ctx_attempt_count = attempt_count job,
      ctx_correlation_id = job_correlation_id job, ctx_causation_id = job_causation_id job\<rparr>"

definition worker_claim ::
  "string \<Rightarrow> timedelta \<Rightarrow> string \<Rightarrow> datetime \<Rightarrow> ('z store_scheme, job_row option) prog" where
  "worker_claim worker_id lease_duration job_id now =
     in_transaction (claim_job job_id worker_id now lease_duration)"

definition attempt_body ::
  "'z registry \<Rightarrow> string \<Rightarrow> string \<Rightarrow> datetime \<Rightarrow> ('z store_scheme, JobAttemptResult) prog" where
  "attempt_body handlers worker_id job_id now =
     bnd (gets (\<lambda>s. row_get rid job_id (jobs s))) (\<lambda>found.
     bnd (required found (PermanentJobError (''job not found: '' @ job_id))) (\<lambda>job.
     if job_status job \<noteq> JobStatus.RUNNING \<or> lease_owner job \<noteq> Some worker_id
     then ret \<lparr>result_job_id = job_id, result_claimed = False,
               result_status = job_status_value (job_status job)\<rparr>
     else
       bnd (required (handlers (job_type job))
             (PermanentJobError (''no executable handler for '' @ job_type job))) (\<lambda>handler.
       bnd (handle handler (job_context job) (job_payload job) now) (\<lambda>_.
       bnd (assert_session_scope (job_context job)) (\<lambda>_.
       bnd (mark_job_succeeded job_id now) (\<lambda>_.
       ret \<lparr>result_job_id = job_id, result_claimed = True,
            result_status = job_status_value JobStatus.SUCCEEDED\<rparr>))))))"

definition failure_body ::
  "'z registry \<Rightarrow> timedelta \<Rightarrow> string \<Rightarrow> py_error \<Rightarrow> bool \<Rightarrow> datetime
     \<Rightarrow> ('z store_scheme, JobAttemptResult) prog" where
  "failure_body handlers retry_backoff job_id error retry now =
     bnd (gets (\<lambda>s. row_get rid job_id (jobs s))) (\<lambda>existing_job.
     bnd (case existing_job of
            None \<Rightarrow> ret ()
          | Some job \<Rightarrow>
              (case handlers (job_type job) of
                 None \<Rightarrow> ret ()
               | Some handler \<Rightarrow>
                   (case record_attempt_failure handler of
                      None \<Rightarrow> ret ()
                    | Some recorder \<Rightarrow>
                        recorder job error (retry \<and> attempt_count job < max_attempts job) now
                          retry_backoff))) (\<lambda>_.
     bnd (mark_job_failed_or_retrying job_id error retry now retry_backoff) (\<lambda>job.
     ret \<lparr>result_job_id = job_id, result_claimed = True,
          result_status = job_status_value (job_status job)\<rparr>)))"

definition record_failure ::
  "'z registry \<Rightarrow> timedelta \<Rightarrow> string \<Rightarrow> py_error \<Rightarrow> bool \<Rightarrow> datetime
     \<Rightarrow> ('z store_scheme, JobAttemptResult) prog" where
  "record_failure handlers retry_backoff job_id error retry now =
     in_transaction (failure_body handlers retry_backoff job_id error retry now)"

text \<open>
  \<open>t0\<close>, \<open>t1\<close> and \<open>t2\<close> are the clock readings of the three transactions. Every
  exception is caught; only \<open>TransientJobError\<close> asks for a retry.
\<close>

definition process_job_id ::
  "'z registry \<Rightarrow> string \<Rightarrow> timedelta \<Rightarrow> timedelta \<Rightarrow> string \<Rightarrow> datetime \<Rightarrow> datetime \<Rightarrow> datetime
     \<Rightarrow> ('z store_scheme, JobAttemptResult) prog" where
  "process_job_id handlers worker_id lease_duration retry_backoff job_id t0 t1 t2 =
     bnd (worker_claim worker_id lease_duration job_id t0) (\<lambda>claimed.
     case claimed of
       None \<Rightarrow> ret \<lparr>result_job_id = job_id, result_claimed = False, result_status = ''not_claimed''\<rparr>
     | Some _ \<Rightarrow>
         handle_error
           (in_transaction (attempt_body handlers worker_id job_id t1))
           (\<lambda>error. record_failure handlers retry_backoff job_id error (is_transient error) t2))"

text \<open>\<open>delivered\<close> is what the queue hands over: nothing, or any identifier.\<close>

definition process_one_from_queue ::
  "'z registry \<Rightarrow> string \<Rightarrow> timedelta \<Rightarrow> timedelta \<Rightarrow> string option \<Rightarrow> datetime \<Rightarrow> datetime \<Rightarrow> datetime
     \<Rightarrow> ('z store_scheme, JobAttemptResult option) prog" where
  "process_one_from_queue handlers worker_id lease_duration retry_backoff delivered t0 t1 t2 =
    (case delivered of
       None \<Rightarrow> ret None
     | Some job_id \<Rightarrow>
         bnd (process_job_id handlers worker_id lease_duration retry_backoff job_id t0 t1 t2)
           (\<lambda>r. ret (Some r)))"

section \<open>The scheduler (\<open>runtime/scheduler.py\<close>)\<close>

record SchedulerRunResult =
  recovered_leases :: nat
  outbox_jobs_enqueued :: nat
  due_jobs_enqueued :: nat

definition run_once :: "nat \<Rightarrow> datetime \<Rightarrow> ('z store_scheme, SchedulerRunResult) prog" where
  "run_once batch_size now =
     in_transaction (
       bnd (recover_expired_leases now) (\<lambda>recovered.
       bnd (enqueue_pending_outbox now batch_size) (\<lambda>outbox_count.
       bnd (enqueue_due_jobs now batch_size) (\<lambda>due_count.
       ret \<lparr>recovered_leases = recovered, outbox_jobs_enqueued = outbox_count,
            due_jobs_enqueued = due_count\<rparr>))))"

section \<open>What the worker relies on\<close>

text \<open>
  A handler may insert queued jobs but leaves the rows of existing jobs alone, and keeps the job table
  in order. \<open>jobs_frame\<close> says this of two states of a run.
\<close>

definition jobs_frame :: "'z store_scheme \<Rightarrow> 'z store_scheme \<Rightarrow> bool" where
  "jobs_frame s t \<longleftrightarrow>
     uuids t = uuids s \<and> uuid_pos s \<le> uuid_pos t \<and> 
     (\<exists>new. jobs t = jobs s @ new \<and> (\<forall>j \<in> set new. job_status j = QUEUED)) \<and>
     (jobs_inv s \<longrightarrow> jobs_inv t)"

interpretation jf: state_preorder jobs_frame
proof
  fix s t u :: "'z store_scheme"
  show "jobs_frame s s" by (simp add: jobs_frame_def)
  assume "jobs_frame s t" "jobs_frame t u"
  then show "jobs_frame s u" by (auto simp: jobs_frame_def)
qed

lemma jobs_frame_same:
  assumes "jobs t = jobs s" "uuids t = uuids s" "uuid_pos s \<le> uuid_pos t"
    "sql_jobs t = sql_jobs s \<or> sql_jobs t = jobs s"
  shows "jobs_frame s t"
proof -
  have "jobs_inv t" if "jobs_inv s"
    using assms that by (intro jobs_inv_cong [of t s]) (auto simp: jobs_inv_def)
  with assms show ?thesis by (auto simp: jobs_frame_def)
qed

lemma jobs_frame_modify:
  "(\<And>s. jobs (f s) = jobs s \<and> uuids (f s) = uuids s \<and> uuid_pos (f s) = uuid_pos s \<and>
     sql_jobs (f s) = sql_jobs s) \<Longrightarrow> tracks jobs_frame (modify f)"
  by (rule jf.t_modify, rule jobs_frame_same) auto

lemma create_job_frame: "tracks jobs_frame (create_job scope jtype pl sv key now mx av co ca)"
proof (rule tracksI)
  fix s :: "'z store_scheme"
  obtain r t where run: "create_job scope jtype pl sv key now mx av co ca s = (r, t)"
    by (metis prod.exhaust)
  have "jobs_frame s t"
  proof (cases r)
    case (Inl e)
    with run create_job_error have "t = s" by blast
    then show ?thesis by (simp add: jf.refl)
  next
    case (Inr j)
    have "jobs_inv s \<longrightarrow> jobs_inv t" using create_job_inv run by (blast dest: keepsD)
    with create_job_result [OF run [unfolded Inr]] show ?thesis
      by (auto simp: jobs_frame_def new_job_status)
  qed
  with run show "jobs_frame s (snd (create_job scope jtype pl sv key now mx av co ca s))" by simp
qed

lemma new_id_frame: "tracks jobs_frame new_id"
  by (rule tracksI, rule jobs_frame_same) (auto simp: run_simps)

lemma flush_frame: "tracks jobs_frame flush"
  by (rule tracksI, rule jobs_frame_same) (auto simp: run_simps)

lemma touch_frame: "tracks jobs_frame (touch og bz)"
  unfolding touch_def by (rule jobs_frame_modify) auto

lemma enqueue_frame: "tracks jobs_frame (enqueue i)"
  unfolding enqueue_def by (rule jobs_frame_modify) auto

lemma check_scope_frame: "tracks jobs_frame (check_scope scope og bz)"
  unfolding check_scope_def by (rule jf.t_lift_sum)

lemma check_no_secrets_frame: "tracks jobs_frame (check_no_secrets pl)"
  unfolding check_no_secrets_def by (rule jf.t_lift_sum)

lemma add_audit_frame: "tracks jobs_frame (add_audit r)"
  unfolding add_audit_def by (intro jf.t_bnd touch_frame jobs_frame_modify) auto

lemma add_outbox_frame: "tracks jobs_frame (add_outbox r)"
  unfolding add_outbox_def by (intro jf.t_bnd touch_frame jobs_frame_modify) auto

lemma add_business_event_frame: "tracks jobs_frame (add_business_event r)"
  unfolding add_business_event_def by (intro jf.t_bnd touch_frame jobs_frame_modify) auto

lemmas frame_rules = jf.t_rules create_job_frame new_id_frame flush_frame touch_frame
  enqueue_frame check_scope_frame check_no_secrets_frame add_audit_frame add_outbox_frame
  add_business_event_frame

lemma OutboxDispatchHandler_frame: "tracks jobs_frame (OutboxDispatchHandler_handle context pl now)"
  unfolding OutboxDispatchHandler_handle_def by (intro frame_rules jobs_frame_modify) auto

lemma RuntimeProbeHandler_frame: "tracks jobs_frame (RuntimeProbeHandler_handle py_repr context pl now)"
  unfolding RuntimeProbeHandler_handle_def probe_event_def by (intro frame_rules)

lemma WorkflowAdvanceDispatcher_frame:
  assumes "tracks jobs_frame (decision_handler context pl now)"
    and "tracks jobs_frame (production_handler context pl now)"
  shows "tracks jobs_frame
    (WorkflowAdvanceDispatcher_handle decision_handler production_handler context pl now)"
  unfolding WorkflowAdvanceDispatcher_handle_def by (intro frame_rules assms)

lemma frame_get:
  "jobs_frame s t \<Longrightarrow> row_get rid i (jobs s) = Some j \<Longrightarrow> row_get rid i (jobs t) = Some j"
  by (auto simp: jobs_frame_def row_get_append)

lemma foreach_check_scope:
  "foreach xs (\<lambda>(og, bz). check_scope scope og bz) s = (Inr (), t) \<Longrightarrow>
   t = s \<and> set xs \<subseteq> {(organization_id scope, business_id scope)}"
  by (induction xs)
    (auto simp: run_simps assert_matches_def split: prod.splits sum.splits if_splits)

lemma assert_session_scope_ok:
  "assert_session_scope scope s = (Inr (), t) \<Longrightarrow>
   s = t \<and> set (unit_of_work t) \<subseteq> {(organization_id scope, business_id scope)}"
  using foreach_check_scope [of "unit_of_work s" scope s t]
  by (auto simp: assert_session_scope_def run_simps)

text \<open>The handler returned, and what it has not flushed lies in the scope of the job.\<close>

definition attempt_in_scope ::
  "'z registry \<Rightarrow> job_row \<Rightarrow> datetime \<Rightarrow> 'z store_scheme \<Rightarrow> 'z store_scheme \<Rightarrow> bool" where
  "attempt_in_scope handlers j now s t \<longleftrightarrow>
     (\<exists>h. handlers (job_type j) = Some h \<and> handle h (job_context j) (job_payload j) now s = (Inr (), t)) \<and>
     set (unit_of_work t) \<subseteq> {(org j, biz j)}"

text \<open>The claim transaction.\<close>

lemma worker_claim_none:
  assumes inv: "jobs_inv s" and no: "\<And>j. row_get rid i (jobs s) = Some j \<Longrightarrow> \<not> claimable now j"
  shows "worker_claim w l i now s = (Inr None, begin_session s)"
proof -
  have "claim_job i w now l (begin_session s) = (Inr None, begin_session s)"
    using no jobs_inv_begin [OF inv] by (auto simp: claim_job_run split: option.splits)
  then show ?thesis by (simp add: worker_claim_def in_transaction_def begin_session_def)
qed

lemma worker_claim_some:
  assumes inv: "jobs_inv s" and get: "row_get rid i (jobs s) = Some j" "claimable now j"
  obtains s1 where "worker_claim w l i now s = (Inr (Some (claimed_values w now l j)), s1)"
    "jobs s1 = row_set rid i (claimed_values w now l) (jobs s)" "jobs_inv s1"
    "outbox_events s1 = outbox_events s" "business_events s1 = business_events s"
    "audit_logs s1 = audit_logs s"
proof -
  have inv0: "jobs_inv (begin_session s)" using inv by (rule jobs_inv_begin)
  obtain u where run: "claim_job i w now l (begin_session s) = (Inr (Some (claimed_values w now l j)), u)"
    and u: "jobs u = row_set rid i (claimed_values w now l) (jobs s)"
      "outbox_events u = outbox_events s" "business_events u = business_events s"
      "audit_logs u = audit_logs s"
    using get by (simp add: claim_job_run [OF inv0])
  have "jobs_inv u" using claim_job_inv [OF inv0 _ run] by simp
  with run u that [of "begin_session u"] show thesis
    by (simp add: worker_claim_def in_transaction_def jobs_inv_begin)
qed

lemma jobs_update_once:
  assumes inv: "jobs_inv t" and t: "jobs t = row_set rid i f (js @ new)" and st: "jobtab.stable f"
    and get: "row_get rid i js = Some j"
  shows "jobs t = row_set rid i (\<lambda>_. f j) (js @ new)"
proof -
  have "map rid (js @ new) = map rid (jobs t)" using t st by (simp add: jobtab.rid_row_set)
  then have "distinct (map rid (js @ new))" using inv by (simp add: jobs_inv_def)
  moreover have "row_get rid i (js @ new) = Some j" using get by (simp add: row_get_append)
  ultimately show ?thesis unfolding t by (rule row_set_const)
qed

lemma process_claimed:
  assumes inv: "jobs_inv s" and get: "row_get rid i (jobs s) = Some j" "claimable t0 j"
    and run: "process_job_id handlers w l b i t0 t1 t2 s = (x, t)"
  obtains s1 j1 where "jobs_inv s1" "row_get rid i (jobs s1) = Some j1"
      "job_status j1 = JobStatus.RUNNING" "lease_owner j1 = Some w"
      "j1 = claimed_values w t0 l j" "jobs s1 = row_set rid i (claimed_values w t0 l) (jobs s)"
      "outbox_events s1 = outbox_events s" "business_events s1 = business_events s"
      "audit_logs s1 = audit_logs s"
      "handle_error (in_transaction (attempt_body handlers w i t1))
        (\<lambda>error. record_failure handlers b i error (is_transient error) t2) s1 = (x, t)"
proof -
  let ?j = "claimed_values w t0 l j"
  obtain s1 where claim: "worker_claim w l i t0 s = (Inr (Some ?j), s1)"
    and s1: "jobs s1 = row_set rid i (claimed_values w t0 l) (jobs s)" "jobs_inv s1"
      "outbox_events s1 = outbox_events s" "business_events s1 = business_events s"
      "audit_logs s1 = audit_logs s"
    using worker_claim_some [OF inv get] by metis
  have "row_get rid i (jobs s1) = Some ?j" "job_status ?j = JobStatus.RUNNING" "lease_owner ?j = Some w"
    using get(1) by (simp_all add: s1 jobtab.get_set_same) (simp_all add: claimed_values_def)
  moreover have "handle_error (in_transaction (attempt_body handlers w i t1))
      (\<lambda>error. record_failure handlers b i error (is_transient error) t2) s1 = (x, t)"
    using run claim by (simp add: process_job_id_def run_bnd)
  ultimately show thesis using that s1 by blast
qed

lemma process_not_claimed:
  assumes inv: "jobs_inv s" and no: "\<And>j. row_get rid i (jobs s) = Some j \<Longrightarrow> \<not> claimable t0 j"
  shows "process_job_id handlers w l b i t0 t1 t2 s =
    (Inr \<lparr>result_job_id = i, result_claimed = False, result_status = ''not_claimed''\<rparr>, begin_session s)"
  using worker_claim_none [OF assms] by (simp add: process_job_id_def run_simps)

locale job_handlers =
  fixes handlers :: "'z registry"
  assumes handle_frame:
      "handlers ty = Some h \<Longrightarrow> tracks jobs_frame (handle h context pl now)"
    and record_frame:
      "handlers ty = Some h \<Longrightarrow> record_attempt_failure h = Some recorder \<Longrightarrow>
       tracks jobs_frame (recorder job err will_retry now backoff)"
begin

lemma attempt_claimed:
  assumes inv: "jobs_inv s" and run: "attempt_body handlers w i now s = (Inr r, t)"
    and claimed: "result_claimed r"
  obtains j t0 where "row_get rid i (jobs s) = Some j" "job_status j = JobStatus.RUNNING"
    "lease_owner j = Some w" "jobs_frame s t0"
    "t = t0\<lparr>jobs := row_set rid i (succeeded_values now) (jobs t0)\<rparr>"
    "result_status r = ''SUCCEEDED''" "attempt_in_scope handlers j now s t0"
proof -
  from run obtain j where j: "row_get rid i (jobs s) = Some j"
    by (auto simp: attempt_body_def run_simps split: option.splits)
  with run claimed have st: "job_status j = JobStatus.RUNNING" "lease_owner j = Some w"
    by (auto simp: attempt_body_def run_simps split: if_splits)
  from run j st obtain h t1 where h: "handlers (job_type j) = Some h"
      "handle h (job_context j) (job_payload j) now s = (Inr (), t1)"
    and rest: "bnd (assert_session_scope (job_context j)) (\<lambda>_. bnd (mark_job_succeeded i now) (\<lambda>_.
       ret \<lparr>result_job_id = i, result_claimed = True,
            result_status = job_status_value JobStatus.SUCCEEDED\<rparr>)) t1 = (Inr r, t)"
    by (auto simp: attempt_body_def run_gets run_required run_bnd [of _ _ s]
        split: option.splits prod.splits sum.splits)
  have f: "jobs_frame s t1" using handle_frame [OF h(1)] h(2) by (rule tracksD)
  from rest obtain t0 where t0: "assert_session_scope (job_context j) t1 = (Inr (), t0)"
    and fin: "t = t0\<lparr>jobs := row_set rid i (succeeded_values now) (jobs t0)\<rparr>"
      "result_status r = ''SUCCEEDED''"
    by (elim bnd_okE) (auto simp: mark_job_succeeded_def run_simps)
  then have "t1 = t0" "set (unit_of_work t0) \<subseteq> {(org j, biz j)}"
    using assert_session_scope_ok [OF t0] by (simp_all add: job_context_def)
  with h have "attempt_in_scope handlers j now s t0" by (auto simp: attempt_in_scope_def)
  with j st fin f that \<open>t1 = t0\<close> show thesis by blast
qed

lemma attempt_inv:
  assumes inv: "jobs_inv s" and run: "attempt_body handlers w i now s = (Inr r, t)"
  shows "jobs_inv t"
proof (cases "result_claimed r")
  case False
  with run have "t = s"
    by (auto simp: attempt_body_def run_simps split: option.splits if_splits prod.splits sum.splits)
  with inv show ?thesis by simp
next
  case True
  from attempt_claimed [OF inv run True] obtain j t0 where j: "row_get rid i (jobs s) = Some j"
      "job_status j = JobStatus.RUNNING" "jobs_frame s t0"
    and t: "t = t0\<lparr>jobs := row_set rid i (succeeded_values now) (jobs t0)\<rparr>" by metis
  have "job_ok j" using inv row_get_Some [OF j(1)] by (simp add: jobs_inv_def)
  with j(2) have "attempt_count j \<noteq> 0" by (simp add: job_ok_def)
  moreover have "jobs_inv t0" "row_get rid i (jobs t0) = Some j"
    using inv j(3) frame_get [OF j(3,1)] by (simp_all add: jobs_frame_def)
  ultimately show ?thesis
    using mark_job_succeeded_inv [of t0 i j now] by (simp add: t mark_job_succeeded_def run_simps)
qed

lemma attempt_frame_err:
  assumes run: "attempt_body handlers w i now s = (Inl e, t)"
  shows "jobs_frame s t"
proof -
  have "tracks jobs_frame (bnd (handle h (job_context j) (job_payload j) now)
      (\<lambda>_. assert_session_scope (job_context j)))" if "handlers (job_type j) = Some h" for h j
    unfolding assert_session_scope_def by (intro frame_rules handle_frame [OF that])
  then have "jobs_frame s u" if "handlers (job_type j) = Some h"
      "bnd (handle h (job_context j) (job_payload j) now)
      (\<lambda>_. assert_session_scope (job_context j)) s = (Inl e, u)" for h j u
    using that tracksD by metis
  with run show ?thesis
    by (auto simp: attempt_body_def run_simps mark_job_succeeded_def jf.refl
        split: option.splits if_splits prod.splits sum.splits)
qed

lemma failure_outcome:
  assumes inv: "jobs_inv s" and run: "failure_body handlers b i error retry now s = (x, t)"
    and get: "row_get rid i (jobs s) = Some j"
  obtains (raised) e where "x = Inl e" "jobs_frame s t"
  | (recorded) r t0 where "x = Inr r" "jobs_frame s t0" "result_claimed r"
    "t = t0\<lparr>jobs := row_set rid i (failed_values error retry now b) (jobs t0)\<rparr>"
    "result_status r = job_status_value (job_status (failed_values error retry now b j))"
proof -
  let ?rec = "case handlers (job_type j) of None \<Rightarrow> ret () | Some handler \<Rightarrow>
       (case record_attempt_failure handler of None \<Rightarrow> ret () | Some recorder \<Rightarrow>
          recorder j error (retry \<and> attempt_count j < max_attempts j) now b)"
  obtain y t0 where rec: "?rec s = (y, t0)" by (metis prod.exhaust)
  have "tracks jobs_frame ?rec" by (intro frame_rules record_frame)
  then have f: "jobs_frame s t0" using rec by (rule tracksD)
  then have get0: "row_get rid i (jobs t0) = Some j" using get by (rule frame_get)
  show thesis
  proof (cases y)
    case (Inl e)
    with run rec get f raised show thesis by (auto simp: failure_body_def run_simps)
  next
    case (Inr u)
    have "x = Inr \<lparr>result_job_id = i, result_claimed = True,
          result_status = job_status_value (job_status (failed_values error retry now b j))\<rparr>"
      "t = t0\<lparr>jobs := row_set rid i (failed_values error retry now b) (jobs t0)\<rparr>"
      using run rec get get0 Inr
      by (auto simp: failure_body_def run_simps mark_job_failed_or_retrying_run)
    with f recorded show thesis by simp
  qed
qed

lemma failure_inv:
  assumes inv: "jobs_inv s" and run: "failure_body handlers b i error retry now s = (x, t)"
    and get: "row_get rid i (jobs s) = Some j" "attempt_count j \<noteq> 0"
  shows "jobs_inv t \<and> uuid_pos s \<le> uuid_pos t"
proof -
  from inv run get(1) show ?thesis
  proof (cases rule: failure_outcome)
    case (raised e)
    with inv show ?thesis by (simp add: jobs_frame_def)
  next
    case (recorded r t0)
    then have "row_get rid i (jobs t0) = Some j" "jobs_inv t0" "uuid_pos s \<le> uuid_pos t0"
      using frame_get [OF recorded(2) get(1)] inv by (simp_all add: jobs_frame_def)
    with recorded(4) get(2) mark_job_failed_or_retrying_inv [of t0 i error retry now b]
    show ?thesis by (simp add: mark_job_failed_or_retrying_run)
  qed
qed

text \<open>The attempt and the failure as transactions.\<close>

lemma attempt_transaction_inv:
  assumes inv: "jobs_inv s" and run: "in_transaction (attempt_body handlers w i now) s = (x, t)"
  shows "jobs_inv t"
proof -
  obtain y u where body: "attempt_body handlers w i now (begin_session s) = (y, u)"
    by (metis prod.exhaust)
  have inv0: "jobs_inv (begin_session s)" using inv by (rule jobs_inv_begin)
  show ?thesis
  proof (cases y)
    case (Inl e)
    with body have "jobs_frame (begin_session s) u" using attempt_frame_err by blast
    then have "uuid_pos (begin_session s) \<le> uuid_pos u" by (simp add: jobs_frame_def)
    with jobs_inv_roll_back [OF inv0] run body Inl show ?thesis by (auto simp: in_transaction_def)
  next
    case (Inr r)
    with attempt_inv [OF inv0] body have "jobs_inv u" by blast
    with run body Inr show ?thesis by (auto simp: in_transaction_def intro: jobs_inv_begin)
  qed
qed

lemma record_failure_inv:
  assumes inv: "jobs_inv s" and run: "record_failure handlers b i error retry now s = (x, t)"
    and get: "row_get rid i (jobs s) = Some j" "attempt_count j \<noteq> 0"
  shows "jobs_inv t"
proof -
  obtain y u where body: "failure_body handlers b i error retry now (begin_session s) = (y, u)"
    by (metis prod.exhaust)
  have inv0: "jobs_inv (begin_session s)" using inv by (rule jobs_inv_begin)
  have "jobs_inv u \<and> uuid_pos (begin_session s) \<le> uuid_pos u"
    using failure_inv [OF inv0 body _ get(2)] get(1) by simp
  with run body inv0 show ?thesis
    by (auto simp: record_failure_def in_transaction_def intro: jobs_inv_begin jobs_inv_roll_back
        split: sum.splits)
qed

lemma attempt_transaction_claimed:
  assumes inv: "jobs_inv s" and run: "in_transaction (attempt_body handlers w i now) s = (x, t)"
    and get: "row_get rid i (jobs s) = Some j" "job_status j = JobStatus.RUNNING" "lease_owner j = Some w"
  obtains (failed) e where "x = Inl e" "jobs t = jobs s" "outbox_events t = outbox_events s"
      "business_events t = business_events s" "audit_logs t = audit_logs s"
  | (succeeded) r new where "x = Inr r" "result_claimed r" "result_status r = ''SUCCEEDED''"
      "jobs t = row_set rid i (succeeded_values now) (jobs s @ new)"
      "\<exists>u. attempt_in_scope handlers j now (begin_session s) u"
proof -
  obtain y u where body: "attempt_body handlers w i now (begin_session s) = (y, u)"
    by (metis prod.exhaust)
  show thesis
  proof (cases y)
    case (Inl e)
    with run body failed show thesis by (auto simp: in_transaction_def)
  next
    case (Inr r)
    then have "result_claimed r"
      using body get
      by (auto simp: attempt_body_def run_simps split: option.splits if_splits prod.splits sum.splits)
    then obtain j' t0 where t0: "jobs_frame (begin_session s) t0"
        "u = t0\<lparr>jobs := row_set rid i (succeeded_values now) (jobs t0)\<rparr>" "result_status r = ''SUCCEEDED''"
        "attempt_in_scope handlers j' now (begin_session s) t0"
        "row_get rid i (jobs (begin_session s)) = Some j'"
      using attempt_claimed [OF jobs_inv_begin [OF inv] body [unfolded Inr]] by metis
    have "j' = j" using t0(5) get(1) by simp
    obtain new where "jobs t0 = jobs s @ new" using t0(1) by (auto simp: jobs_frame_def)
    moreover have "\<exists>u. attempt_in_scope handlers j now (begin_session s) u"
      using t0(4) \<open>j' = j\<close> by blast
    ultimately show thesis
      using t0 run body Inr \<open>result_claimed r\<close> succeeded [of r new] by (auto simp: in_transaction_def)
  qed
qed

lemma record_failure_outcome:
  assumes inv: "jobs_inv s" and run: "record_failure handlers b i error retry now s = (x, t)"
    and get: "row_get rid i (jobs s) = Some j"
  obtains (raised) e where "x = Inl e" "jobs t = jobs s"
  | (recorded) r new where "x = Inr r" "result_claimed r"
      "result_status r = job_status_value (job_status (failed_values error retry now b j))"
      "jobs t = row_set rid i (failed_values error retry now b) (jobs s @ new)"
proof -
  obtain y u where body: "failure_body handlers b i error retry now (begin_session s) = (y, u)"
    by (metis prod.exhaust)
  have "row_get rid i (jobs (begin_session s)) = Some j" using get by simp
  with jobs_inv_begin [OF inv] body show thesis
  proof (cases rule: failure_outcome)
    case (raised e)
    with run body that(1) show thesis by (auto simp: record_failure_def in_transaction_def)
  next
    case (recorded r t0)
    then obtain new where "jobs t0 = jobs s @ new" by (auto simp: jobs_frame_def)
    with recorded run body that(2) show thesis
      by (auto simp: record_failure_def in_transaction_def)
  qed
qed

lemma process_after_claim:
  assumes inv1: "jobs_inv s1" and get1: "row_get rid i (jobs s1) = Some j1"
    "job_status j1 = JobStatus.RUNNING" "lease_owner j1 = Some w"
    and run: "handle_error (in_transaction (attempt_body handlers w i t1))
      (\<lambda>error. record_failure handlers b i error (is_transient error) t2) s1 = (x, t)"
  obtains (attempted) r f new where "x = Inr r" "result_claimed r"
      "f = succeeded_values t1 \<or> (\<exists>e. f = failed_values e (is_transient e) t2 b)"
      "result_status r = job_status_value (job_status (f j1))"
      "jobs t = row_set rid i f (jobs s1 @ new)" "jobs_inv t"
  | (unrecorded) e where "x = Inl e" "jobs t = jobs s1" "jobs_inv t"
proof -
  obtain y s2 where att: "in_transaction (attempt_body handlers w i t1) s1 = (y, s2)"
    by (metis prod.exhaust)
  have inv2: "jobs_inv s2" using inv1 att by (rule attempt_transaction_inv)
  from inv1 att get1 show thesis
  proof (cases rule: attempt_transaction_claimed)
    case (succeeded r new)
    then have "x = Inr r" "t = s2" using run att by (simp_all add: handle_error_def)
    with succeeded inv2 that(1) [of r "succeeded_values t1" new] show thesis
      by (simp add: succeeded_values_def)
  next
    case (failed e)
    then have x: "record_failure handlers b i e (is_transient e) t2 s2 = (x, t)"
      using run att by (simp add: handle_error_def)
    have get2: "row_get rid i (jobs s2) = Some j1" using get1 failed by simp
    have "job_ok j1" using inv2 row_get_Some [OF get2] by (simp add: jobs_inv_def)
    then have "attempt_count j1 \<noteq> 0" using get1(2) by (simp add: job_ok_def)
    with record_failure_inv [OF inv2 x get2] have inv3: "jobs_inv t" by blast
    from inv2 x get2 show thesis
    proof (cases rule: record_failure_outcome)
      case (raised e')
      with failed inv3 that(2) show thesis by simp
    next
      case (recorded r new)
      with failed inv3 that(1) show thesis by auto
    qed
  qed
qed

lemma process_outcome:
  assumes inv: "jobs_inv s"
    and run: "process_job_id handlers w l b i t0 t1 t2 s = (x, t)"
  obtains (not_claimed) r where "x = Inr r" "\<not> result_claimed r" "t = begin_session s" "jobs_inv t"
      "\<And>j. row_get rid i (jobs s) = Some j \<Longrightarrow> \<not> claimable t0 j"
  | (attempted) r j j' new where "x = Inr r" "result_claimed r"
      "row_get rid i (jobs s) = Some j" "claimable t0 j"
      "j' = succeeded_values t1 (claimed_values w t0 l j) \<or>
       (\<exists>e. j' = failed_values e (is_transient e) t2 b (claimed_values w t0 l j))"
      "result_status r = job_status_value (job_status j')"
      "jobs t = row_set rid i (\<lambda>_. j') (jobs s @ new)" "jobs_inv t"
  | (unrecorded) e j where "x = Inl e" "row_get rid i (jobs s) = Some j" "claimable t0 j"
      "jobs t = row_set rid i (claimed_values w t0 l) (jobs s)" "jobs_inv t"
proof (cases "\<exists>j. row_get rid i (jobs s) = Some j \<and> claimable t0 j")
  case False
  then have "process_job_id handlers w l b i t0 t1 t2 s = (Inr \<lparr>result_job_id = i,
      result_claimed = False, result_status = ''not_claimed''\<rparr>, begin_session s)"
    using process_not_claimed [OF inv] by blast
  with False run jobs_inv_begin [OF inv] not_claimed show thesis by auto
next
  case True
  then obtain j where j: "row_get rid i (jobs s) = Some j" "claimable t0 j" by blast
  obtain s1 j1 where s1: "jobs_inv s1" "row_get rid i (jobs s1) = Some j1"
      "job_status j1 = JobStatus.RUNNING" "lease_owner j1 = Some w"
      "handle_error (in_transaction (attempt_body handlers w i t1))
        (\<lambda>error. record_failure handlers b i error (is_transient error) t2) s1 = (x, t)"
    and j1: "j1 = claimed_values w t0 l j"
    and js1: "jobs s1 = row_set rid i (claimed_values w t0 l) (jobs s)"
    by (rule process_claimed [OF inv j run]) blast
  from s1 show thesis
  proof (cases rule: process_after_claim)
    case (attempted r f new)
    then have st: "jobtab.stable f" by auto
    from jobs_update_once [OF attempted(6,5) st s1(2)]
    have "jobs t = row_set rid i (\<lambda>_. f j1) (jobs s @ new)"
      by (simp add: js1 row_set_append jobtab.row_set_overwrite)
    with attempted j j1 that(2) [of r j "f j1" new] show thesis by auto
  next
    case (unrecorded e)
    with js1 j that(3) show thesis by simp
  qed
qed

end

text \<open>The registry of the runtime package honours the contract.\<close>

interpretation runtime_handlers: job_handlers "default_handler_registry py_repr"
  by unfold_locales
    (auto simp: default_handler_registry_def intro: OutboxDispatchHandler_frame
      RuntimeProbeHandler_frame split: if_splits)

section \<open>Deliveries\<close>

text \<open>Probe jobs with a given payload, for the concrete runs.\<close>

definition probe_job :: "payload \<Rightarrow> job_row" where
  "probe_job pl = new_job \<lparr>organization_id = ''o'', business_id = ''b''\<rparr> ''runtime.probe'' pl 1 ''k'' 10 3
     None None None []"

lemma probe_job_ok: "job_ok (probe_job pl) = secret_free (JObj pl)"
proof -
  have "''runtime.probe'' \<in> set REGISTERED_JOB_TYPES" by code_simp
  then show ?thesis by (simp add: probe_job_def job_ok_def new_job_def)
qed

lemma probe_job_rid [simp]: "rid (probe_job pl) = []"
  by (simp add: probe_job_def)

lemma job_status_value_inj: "job_status_value a = job_status_value b \<Longrightarrow> a = b"
  by (cases a; cases b) simp_all

lemma row_get_const:
  assumes "row_get rid i js = Some j" and "rid j' = i"
  shows "row_get rid i (row_set rid i (\<lambda>_. j') (js @ new)) = Some j'"
  using assms by (induction js) (auto simp: row_get_def row_set_def split: if_splits)

lemma row_get_const_other:
  assumes "row_get rid k js = Some j" and "k \<noteq> i" and "rid j' = i"
  shows "row_get rid k (row_set rid i (\<lambda>_. j') (js @ new)) = Some j"
  using assms by (induction js) (auto simp: row_get_def row_set_def split: if_splits)

lemma attempted_values:
  assumes "j' = succeeded_values t1 (claimed_values w t0 l j) \<or>
     (\<exists>e. j' = failed_values e (is_transient e) t2 b (claimed_values w t0 l j))"
  shows "rid j' = rid j \<and> attempt_count j' = attempt_count j + 1 \<and> max_attempts j' = max_attempts j \<and>
    lease_owner j' = None \<and>
    (job_status j' = JobStatus.SUCCEEDED \<or> job_status j' = JobStatus.FAILED \<or>
     job_status j' = RETRY_WAIT \<and> attempt_count j' < max_attempts j' \<and> available_at j' = t2 + b)"
  using assms
  by (elim disjE exE; simp add: succeeded_values_def failed_values_def claimed_values_def Let_def)


lemma first_delivery:
  "case process_job_id (default_handler_registry (\<lambda>_. [])) ''w'' 60 60 [] 10 11 12 (sample_store sample_job) of
     (Inr r, t) \<Rightarrow> result_claimed r \<and> result_status r = ''SUCCEEDED'' | _ \<Rightarrow> False"
  by code_simp


text \<open>
  Duplicate deliveries are harmless: a job that has succeeded or failed is never run
  again, whatever its handler, whoever receives the delivery and whenever; nothing changes and
  nothing is sent.
\<close>

theorem completed_job_never_rerun:
  assumes inv: "jobs_inv s" and get: "row_get rid i (jobs s) = Some j"
    and completed: "job_status j = JobStatus.SUCCEEDED \<or> job_status j = JobStatus.FAILED"
  shows "process_job_id handlers w l b i t0 t1 t2 s =
    (Inr \<lparr>result_job_id = i, result_claimed = False, result_status = ''not_claimed''\<rparr>, begin_session s)"
proof -
  have "\<not> claimable t0 j" using completed by (auto simp: claimable_def)
  with get show ?thesis by (intro process_not_claimed [OF inv]) simp
qed

theorem completed_job_never_rerun_witness:
  "let s = sample_store (succeeded_values 20 (claimed_values ''w1'' 10 60 sample_job))
   in process_job_id (default_handler_registry (\<lambda>_. [])) ''w2'' 60 60 [] 99 99 99 s =
      (Inr \<lparr>result_job_id = [], result_claimed = False, result_status = ''not_claimed''\<rparr>, begin_session s)"
proof -
  let ?j = "succeeded_values 20 (claimed_values ''w1'' 10 60 sample_job)"
  have c: "claimable 10 sample_job" by (simp add: claimable_def sample_job_def new_job_def)
  have ok: "job_ok ?j"
    by (rule succeeded_ok [OF claimed_ok [OF sample_job_ok c]])
      (simp add: claimed_values_def sample_job_def new_job_def)
  have r: "rid ?j = []" by (simp add: succeeded_values_def claimed_values_def)
  have get: "row_get rid [] (jobs (sample_store ?j)) = Some ?j" using r by (simp add: sample_store_def)
  from completed_job_never_rerun [OF sample_store_inv [OF ok r] get] show ?thesis
    by (simp add: succeeded_values_def)
qed

definition no_recorder :: "'z registry \<Rightarrow> string \<Rightarrow> bool" where
  "no_recorder handlers ty \<longleftrightarrow>
     (case handlers ty of None \<Rightarrow> True | Some h \<Rightarrow> record_attempt_failure h = None)"

lemma default_no_recorder: "no_recorder (default_handler_registry py_repr) ty"
  by (simp add: no_recorder_def default_handler_registry_def)

lemma failure_without_recorder:
  assumes "row_get rid i (jobs s) = Some j"
    and "no_recorder handlers (job_type j)"
  shows "record_failure handlers b i e retry now s =
    (Inr \<lparr>result_job_id = i, result_claimed = True,
       result_status = job_status_value (job_status (failed_values e retry now b j))\<rparr>,
     begin_session (s\<lparr>jobs := row_set rid i (failed_values e retry now b) (jobs s)\<rparr>))"
  using assms by (auto simp: record_failure_def failure_body_def in_transaction_def run_simps
      mark_job_failed_or_retrying_run begin_session_def no_recorder_def split: option.splits)

text \<open>The three ways a delivery can end when the handler has no failure recorder.\<close>

lemma process_without_recorder:
  assumes handlers: "job_handlers handlers" and inv: "jobs_inv s"
    and run: "process_job_id handlers w l b i t0 t1 t2 s = (x, t)"
    and rec: "\<forall>j. row_get rid i (jobs s) = Some j \<longrightarrow> no_recorder handlers (job_type j)"
  obtains (not_claimed) "x = Inr \<lparr>result_job_id = i, result_claimed = False,
      result_status = ''not_claimed''\<rparr>" "t = begin_session s"
    "\<And>j. row_get rid i (jobs s) = Some j \<Longrightarrow> \<not> claimable t0 j"
  | (succeeded) r j v u where "x = Inr r" "result_claimed r" "result_status r = ''SUCCEEDED''"
    "row_get rid i (jobs s) = Some j"
    "attempt_in_scope handlers (claimed_values w t0 l j) t1 v u"
  | (failed) r j where "x = Inr r" "result_claimed r" "result_status r \<noteq> ''SUCCEEDED''"
    "row_get rid i (jobs s) = Some j"
    "outbox_events t = outbox_events s" "business_events t = business_events s"
    "audit_logs t = audit_logs s" "map job_ident (jobs t) = map job_ident (jobs s)"
proof (cases "\<exists>j. row_get rid i (jobs s) = Some j \<and> claimable t0 j")
  case False
  then have "process_job_id handlers w l b i t0 t1 t2 s = (Inr \<lparr>result_job_id = i,
      result_claimed = False, result_status = ''not_claimed''\<rparr>, begin_session s)"
    using process_not_claimed [OF inv] by blast
  with run False that(1) show thesis by auto
next
  case True
  then obtain j where j: "row_get rid i (jobs s) = Some j" "claimable t0 j" by blast
  obtain s1 j1 where s1: "jobs_inv s1" "row_get rid i (jobs s1) = Some j1"
      "job_status j1 = JobStatus.RUNNING" "lease_owner j1 = Some w"
      "handle_error (in_transaction (attempt_body handlers w i t1))
        (\<lambda>error. record_failure handlers b i error (is_transient error) t2) s1 = (x, t)"
    and j1: "j1 = claimed_values w t0 l j"
    and js1: "jobs s1 = row_set rid i (claimed_values w t0 l) (jobs s)"
    and tab1: "outbox_events s1 = outbox_events s" "business_events s1 = business_events s"
      "audit_logs s1 = audit_logs s"
    by (rule process_claimed [OF inv j run]) blast
  obtain y s2 where att: "in_transaction (attempt_body handlers w i t1) s1 = (y, s2)"
    by (metis prod.exhaust)
  show thesis
  proof (cases rule: job_handlers.attempt_transaction_claimed [OF handlers s1(1) att s1(2-4),
        case_names failed succeeded])
    case (succeeded r' new)
    with s1(5) att j j1 that(2) show thesis by (auto simp: handle_error_def)
  next
    case (failed e)
    then have rf: "record_failure handlers b i e (is_transient e) t2 s2 = (x, t)"
      using s1(5) att by (simp add: handle_error_def)
    have "row_get rid i (jobs s2) = Some j1" and ty: "job_type j1 = job_type j"
      using s1(2) failed j1 by (simp_all add: claimed_values_def)
    from failure_without_recorder [OF this(1)] rec j(1) ty rf
    have "t = begin_session (s2\<lparr>jobs :=
          row_set rid i (failed_values e (is_transient e) t2 b) (jobs s2)\<rparr>)"
      "x = Inr \<lparr>result_job_id = i, result_claimed = True, result_status =
         job_status_value (job_status (failed_values e (is_transient e) t2 b j1))\<rparr>" by simp_all
    with failed tab1 j that(3) show thesis
      by (simp add: js1 jobtab.ident_row_set failed_values_def Let_def)
  qed
qed

text \<open>
  A failed attempt leaves no trace but the job's own row: for a handler without a
  failure recorder, every row the attempt inserted or changed in any table of the runtime is
  rolled back.
\<close>

theorem failed_attempt_leaves_no_trace:
  assumes handlers: "job_handlers handlers" and inv: "jobs_inv s"
    and run: "process_job_id handlers w l b i t0 t1 t2 s = (Inr r, t)"
    and failed: "result_status r \<noteq> ''SUCCEEDED''"
    and rec: "\<forall>j. row_get rid i (jobs s) = Some j \<longrightarrow> no_recorder handlers (job_type j)"
  shows "outbox_events t = outbox_events s \<and> business_events t = business_events s \<and>
    audit_logs t = audit_logs s \<and> map job_ident (jobs t) = map job_ident (jobs s)"
  using handlers inv run rec failed by (cases rule: process_without_recorder) auto

lemma probe_permanent_raises:
  "dict_get pl ''outcome'' = Some (JStr ''permanent'') \<Longrightarrow>
   RuntimeProbeHandler_handle py_repr context pl now s \<noteq> (Inr (), t)"
  by (simp add: RuntimeProbeHandler_handle_def run_simps Let_def split: sum.splits prod.splits option.splits)

theorem failed_attempt_leaves_no_trace_witness:
  "\<exists>r t. process_job_id (default_handler_registry (\<lambda>_. [])) ''w'' 60 60 [] 10 11 12
      (sample_store (probe_job [(''write_business_event'', JBool True), (''outcome'', JStr ''permanent'')]))
      = (Inr r, t) \<and> result_claimed r \<and> result_status r \<noteq> ''SUCCEEDED'' \<and> business_events t = []"
proof -
  let ?j = "probe_job [(''write_business_event'', JBool True), (''outcome'', JStr ''permanent'')]"
  let ?s = "sample_store ?j" and ?h = "default_handler_registry (\<lambda>_. []) :: unit registry"
  have inv: "jobs_inv ?s"
    by (rule sample_store_inv) (simp_all add: probe_job_ok no_secrets_iff [symmetric], code_simp)
  have get: "row_get rid [] (jobs ?s) = Some ?j" by (simp add: sample_store_def)
  have c: "claimable 10 ?j" by (simp add: claimable_def probe_job_def new_job_def)
  obtain x t where run: "process_job_id ?h ''w'' 60 60 [] 10 11 12 ?s = (x, t)" by (metis prod.exhaust)
  have rec: "\<forall>j. row_get rid [] (jobs ?s) = Some j \<longrightarrow> no_recorder ?h (job_type j)"
    by (simp add: default_no_recorder)
  from runtime_handlers.job_handlers_axioms inv run rec
  have "\<exists>r. x = Inr r \<and> result_claimed r \<and> result_status r \<noteq> ''SUCCEEDED''"
  proof (cases rule: process_without_recorder)
    case (succeeded r j v u)
    let ?q = "claimed_values ''w'' 10 60 ?j"
    have "j = ?j" using succeeded(4) get by simp
    have d: "dict_get (job_payload ?q) ''outcome'' = Some (JStr ''permanent'')"
        "job_type ?q = JOB_TYPE_RUNTIME_PROBE"
      by (simp_all add: claimed_values_def probe_job_def new_job_def dict_get_def JOB_TYPE_RUNTIME_PROBE_def)
    have "RuntimeProbeHandler_handle (\<lambda>_. []) (job_context ?q) (job_payload ?q) 11 v = (Inr (), u)"
      using succeeded(5) \<open>j = ?j\<close> d(2) by (auto simp: attempt_in_scope_def default_handler_registry_def)
    with probe_permanent_raises [OF d(1)] have False by blast
    then show ?thesis ..
  qed (use get c in auto)
  then obtain r where r: "x = Inr r" "result_claimed r" "result_status r \<noteq> ''SUCCEEDED''" by blast
  from failed_attempt_leaves_no_trace [OF runtime_handlers.job_handlers_axioms inv run [unfolded r(1)] r(3) rec]
  show ?thesis using run r by (simp add: sample_store_def empty_store_def)
qed

lemma probe_escape_touches:
  assumes "RuntimeProbeHandler_handle py_repr context pl now s = (Inr (), t)"
    and "dict_get pl ''escape_scope'' = Some (JBool True)"
  shows "(''escaped-organization'', ''escaped-business'') \<in> set (unit_of_work t)"
  using assms
  by (auto simp: RuntimeProbeHandler_handle_def probe_event_def add_business_event_def run_simps Let_def
      split: sum.splits if_splits option.splits)

text \<open>
  An attempt that reaches outside its tenant does not succeed and leaves nothing
  behind: a probe job that adds an event to a foreign scope ends without success, whatever else its
  payload asks for, and no business event of either scope remains.
\<close>

theorem scope_escape_is_rolled_back:
  assumes inv: "jobs_inv s" and get: "row_get rid i (jobs s) = Some j"
    and probe: "job_type j = JOB_TYPE_RUNTIME_PROBE"
      "dict_get (job_payload j) ''escape_scope'' = Some (JBool True)"
      "(org j, biz j) \<noteq> (''escaped-organization'', ''escaped-business'')"
    and run: "process_job_id (default_handler_registry py_repr) w l b i t0 t1 t2 s = (x, t)"
  shows "\<exists>r. x = Inr r \<and> result_status r \<noteq> ''SUCCEEDED'' \<and> business_events t = business_events s"
proof -
  let ?h = "default_handler_registry py_repr :: 'a registry"
  have rec: "\<forall>q. row_get rid i (jobs s) = Some q \<longrightarrow> no_recorder ?h (job_type q)"
    by (simp add: default_no_recorder)
  from runtime_handlers.job_handlers_axioms inv run rec show ?thesis
  proof (cases rule: process_without_recorder)
    case (succeeded r j' v u)
    let ?j = "claimed_values w t0 l j'"
    have j: "job_type ?j = JOB_TYPE_RUNTIME_PROBE" "org ?j = org j" "biz ?j = biz j"
        "dict_get (job_payload ?j) ''escape_scope'' = Some (JBool True)"
      using succeeded(4) get probe by (auto simp: claimed_values_def)
    with succeeded(5) have "RuntimeProbeHandler_handle py_repr (job_context ?j) (job_payload ?j) t1 v
        = (Inr (), u)" and "set (unit_of_work u) \<subseteq> {(org j, biz j)}"
      by (auto simp: attempt_in_scope_def default_handler_registry_def)
    with probe_escape_touches [OF this(1) j(4)] probe(3) show ?thesis by auto
  qed auto
qed

theorem scope_escape_is_rolled_back_witness:
  "\<exists>r t. process_job_id (default_handler_registry (\<lambda>_. [])) ''w'' 60 60 [] 10 11 12
      (sample_store (probe_job [(''escape_scope'', JBool True)])) = (Inr r, t) \<and>
     result_status r \<noteq> ''SUCCEEDED'' \<and> business_events t = []"
proof -
  let ?j = "probe_job [(''escape_scope'', JBool True)]"
  let ?s = "sample_store ?j"
  obtain x t where run: "process_job_id (default_handler_registry (\<lambda>_. [])) ''w'' 60 60 [] 10 11 12 ?s = (x, t)"
    by (metis prod.exhaust)
  have inv: "jobs_inv ?s"
    by (rule sample_store_inv) (simp_all add: probe_job_ok no_secrets_iff [symmetric], code_simp)
  have get: "row_get rid [] (jobs ?s) = Some ?j" by (simp add: sample_store_def)
  have j: "job_type ?j = JOB_TYPE_RUNTIME_PROBE"
      "dict_get (job_payload ?j) ''escape_scope'' = Some (JBool True)"
      "(org ?j, biz ?j) \<noteq> (''escaped-organization'', ''escaped-business'')"
    by (simp_all add: probe_job_def new_job_def dict_get_def JOB_TYPE_RUNTIME_PROBE_def)
  from scope_escape_is_rolled_back [OF inv get j run] run show ?thesis
    by (auto simp: sample_store_def empty_store_def)
qed

end
