(* ===== verification/Runtime_System.thy ===== *)
theory Runtime_System
  imports Runtime_Worker
begin

text \<open>
  The runtime as a whole. The first part processes a sequence of deliveries and bounds the
  attempts. The second part is the step relation of the running system: every transaction of
  every worker, of the scheduler and of clients is one step, a worker may stop between any two of
  its transactions, and messages may be lost, repeated or reordered, because a delivery may name
  any job at any time.
\<close>

section \<open>Sequences of deliveries\<close>

type_synonym delivery = "string \<times> datetime \<times> datetime \<times> datetime"

definition process_deliveries ::
  "'z registry \<Rightarrow> string \<Rightarrow> timedelta \<Rightarrow> timedelta \<Rightarrow> delivery list
     \<Rightarrow> ('z store_scheme, JobAttemptResult list) prog" where
  "process_deliveries handlers w l b =
     map_prog (\<lambda>(i, t0, t1, t2). process_job_id handlers w l b i t0 t1 t2)"

definition attempts_of :: "string \<Rightarrow> JobAttemptResult list \<Rightarrow> nat" where
  "attempts_of i rs = length (filter (\<lambda>r. result_claimed r \<and> result_job_id r = i) rs)"

text \<open>Attempts a job can still use: none once it is completed.\<close>

definition attempts_left :: "job_row \<Rightarrow> int" where
  "attempts_left j =
    (if job_status j \<in> {QUEUED, RETRY_WAIT} then max_attempts j - attempt_count j else 0)"

lemma result_job_id_process:
  "process_job_id handlers w l b i t0 t1 t2 s = (Inr r, t) \<Longrightarrow> result_job_id r = i"
  by (auto simp: process_job_id_def record_failure_def attempt_body_def failure_body_def run_simps
      handle_error_def in_transaction_def worker_claim_def
      split: prod.splits sum.splits option.splits if_splits)

lemma job_ok_left: "job_ok j \<Longrightarrow> job_status j \<in> {QUEUED, RETRY_WAIT} \<Longrightarrow> 1 \<le> attempts_left j"
  by (auto simp: job_ok_def attempts_left_def)

lemma job_ok_left_nonneg: "job_ok j \<Longrightarrow> 0 \<le> attempts_left j"
  by (auto simp: job_ok_def attempts_left_def)

lemma delivery_uses_attempts:
  assumes h: "job_handlers handlers" and inv: "jobs_inv s"
    and run: "process_job_id handlers w l b k t0 t1 t2 s = (Inr r, t)"
    and get: "row_get rid i (jobs s) = Some j" and st: "job_status j \<noteq> JobStatus.RUNNING"
  shows "\<exists>j'. row_get rid i (jobs t) = Some j' \<and> job_status j' \<noteq> JobStatus.RUNNING \<and> jobs_inv t \<and>
     attempts_left j' + attempts_of i [r] \<le> attempts_left j"
proof (cases rule: job_handlers.process_outcome [OF h inv run, case_names not_claimed attempted unrecorded])
  case (not_claimed r')
  then show ?thesis using get st by (auto simp: attempts_of_def)
next
  case (attempted r' q q' new)
  have q': "rid q' = k" using attempted_values [OF attempted(5)] row_get_Some [OF attempted(3)] by simp
  show ?thesis
  proof (cases "k = i")
    case True
    then have "q = j" using attempted(3) get by simp
    moreover have "row_get rid i (jobs t) = Some q'"
      using row_get_const [OF attempted(3) q'] attempted(7) True by simp
    moreover have "job_status q \<in> {QUEUED, RETRY_WAIT}"
      using attempted(4) st \<open>q = j\<close> by (auto simp: claimable_def)
    ultimately show ?thesis
      using attempted(8) attempted_values [OF attempted(5)] job_ok_left [of q] inv row_get_Some [OF get]
      by (auto simp: attempts_left_def attempts_of_def jobs_inv_def)
  next
    case False
    then have "row_get rid i (jobs t) = Some j"
      using row_get_const_other [OF get _ q', of new] attempted(7) by simp
    with False st attempted(8) result_job_id_process [OF run] show ?thesis by (auto simp: attempts_of_def)
  qed
next
  case (unrecorded e q)
  then show ?thesis by simp
qed

lemma attempts_of_Cons: "attempts_of i (r # rs) = attempts_of i [r] + attempts_of i rs"
  by (simp add: attempts_of_def)

lemma deliveries_use_attempts:
  assumes h: "job_handlers handlers"
  shows "jobs_inv s \<Longrightarrow> process_deliveries handlers w l b ds s = (Inr rs, t) \<Longrightarrow>
    row_get rid i (jobs s) = Some j \<Longrightarrow> job_status j \<noteq> JobStatus.RUNNING \<Longrightarrow>
    \<exists>j'. row_get rid i (jobs t) = Some j' \<and> job_status j' \<noteq> JobStatus.RUNNING \<and> jobs_inv t \<and>
      attempts_left j' + attempts_of i rs \<le> attempts_left j"
proof (induction ds arbitrary: s rs j)
  case Nil
  then show ?case by (auto simp: process_deliveries_def run_simps attempts_of_def)
next
  case (Cons d ds)
  obtain k t0 t1 t2 where d: "d = (k, t0, t1, t2)" by (metis prod.exhaust)
  from Cons.prems(2) obtain r u rs' where
      r: "process_job_id handlers w l b k t0 t1 t2 s = (Inr r, u)"
    and rs': "process_deliveries handlers w l b ds u = (Inr rs', t)" "rs = r # rs'"
    by (auto simp: process_deliveries_def d run_ret elim!: bnd_okE)
  from delivery_uses_attempts [OF h Cons.prems(1) r Cons.prems(3,4)] obtain j1 where
    j1: "row_get rid i (jobs u) = Some j1" "job_status j1 \<noteq> JobStatus.RUNNING" "jobs_inv u"
      "attempts_left j1 + attempts_of i [r] \<le> attempts_left j" by blast
  from Cons.IH [OF j1(3) rs'(1) j1(1,2)] j1(4) show ?case
    by (auto simp: rs'(2) attempts_of_Cons [of i r rs'])
qed

text \<open>
  Claim C30. However often a job is delivered, in whatever order with other jobs and at whatever
  times, a worker whose transactions all run to the end starts at most \<open>max_attempts\<close>
  attempts of it in total: the attempts already counted plus the attempts of the sequence never
  exceed the limit.
\<close>

theorem attempts_bounded:
  assumes h: "job_handlers handlers" and inv: "jobs_inv s"
    and run: "process_deliveries handlers w l b ds s = (Inr rs, t)"
    and get: "row_get rid i (jobs s) = Some j" and st: "job_status j \<in> {QUEUED, RETRY_WAIT}"
  shows "attempt_count j + attempts_of i rs \<le> max_attempts j"
proof -
  have "job_status j \<noteq> JobStatus.RUNNING" using st by auto
  from deliveries_use_attempts [OF h inv run get this] obtain j' where
    j': "row_get rid i (jobs t) = Some j'" "jobs_inv t" "attempts_left j' + attempts_of i rs \<le> attempts_left j"
    by blast
  have "job_ok j'" using row_get_Some [OF j'(1)] j'(2) by (simp add: jobs_inv_def)
  from job_ok_left_nonneg [OF this] j'(3) st show ?thesis by (simp add: attempts_left_def)
qed

lemma two_deliveries:
  "case process_deliveries (default_handler_registry (\<lambda>_. [])) ''w'' 60 60 [([], 10, 11, 12), ([], 80, 81, 82)]
      (sample_store sample_job) of (Inr rs, t) \<Rightarrow> attempts_of [] rs = 1 | _ \<Rightarrow> False"
  by code_simp

theorem attempts_bounded_witness:
  "\<exists>rs t. process_deliveries (default_handler_registry (\<lambda>_. [])) ''w'' 60 60
      [([], 10, 11, 12), ([], 80, 81, 82)] (sample_store sample_job) = (Inr rs, t) \<and>
     attempts_of [] rs = 1 \<and> attempt_count sample_job + attempts_of [] rs \<le> max_attempts sample_job"
proof -
  let ?s = "sample_store sample_job"
  obtain rs t where run: "process_deliveries (default_handler_registry (\<lambda>_. [])) ''w'' 60 60
      [([], 10, 11, 12), ([], 80, 81, 82)] ?s = (Inr rs, t)" and n: "attempts_of [] rs = 1"
    using two_deliveries by (auto split: prod.splits sum.splits)
  have get: "row_get rid [] (jobs ?s) = Some sample_job" by (simp add: sample_store_def)
  have st: "job_status sample_job \<in> {QUEUED, RETRY_WAIT}" by (simp add: sample_job_def new_job_def)
  from attempts_bounded [OF runtime_handlers.job_handlers_axioms
      sample_store_inv [OF sample_job_ok sample_job_rid] run get st] run n show ?thesis by blast
qed

section \<open>The running system\<close>

text \<open>
  Between its transactions a worker holds the identifier it has claimed, or the exception it
  has to record.
\<close>

datatype phase = Claimed | Failing py_error

record 'd system =
  db :: 'd
  inflight :: "(string \<times> string \<times> phase) list"

inductive runtime_step ::
  "'z registry \<Rightarrow> timedelta \<Rightarrow> timedelta \<Rightarrow> 'z store_scheme system \<Rightarrow> 'z store_scheme system \<Rightarrow> bool"
  for handlers :: "'z registry" and lease :: timedelta and backoff :: timedelta where
  claim: "worker_claim w lease i now (db x) = (Inr (Some j), d) \<Longrightarrow>
    runtime_step handlers lease backoff x (x\<lparr>db := d, inflight := (w, i, Claimed) # inflight x\<rparr>)"
| claim_nothing: "worker_claim w lease i now (db x) = (Inr None, d) \<Longrightarrow>
    runtime_step handlers lease backoff x (x\<lparr>db := d\<rparr>)"
| attempt: "(w, i, Claimed) \<in> set (inflight x) \<Longrightarrow>
    in_transaction (attempt_body handlers w i now) (db x) = (Inr r, d) \<Longrightarrow>
    runtime_step handlers lease backoff x
      (x\<lparr>db := d, inflight := remove1 (w, i, Claimed) (inflight x)\<rparr>)"
| attempt_raises: "(w, i, Claimed) \<in> set (inflight x) \<Longrightarrow>
    in_transaction (attempt_body handlers w i now) (db x) = (Inl e, d) \<Longrightarrow>
    runtime_step handlers lease backoff x
      (x\<lparr>db := d, inflight := (w, i, Failing e) # remove1 (w, i, Claimed) (inflight x)\<rparr>)"
| fail: "(w, i, Failing e) \<in> set (inflight x) \<Longrightarrow>
    record_failure handlers backoff i e (is_transient e) now (db x) = (r, d) \<Longrightarrow>
    runtime_step handlers lease backoff x
      (x\<lparr>db := d, inflight := remove1 (w, i, Failing e) (inflight x)\<rparr>)"
| schedule: "run_once batch now (db x) = (r, d) \<Longrightarrow>
    runtime_step handlers lease backoff x (x\<lparr>db := d\<rparr>)"
| request: "in_transaction (create_job (scope :: TenantScope) jtype pl sv key now mx av co ca) (db x) = (r, d) \<Longrightarrow>
    runtime_step handlers lease backoff x (x\<lparr>db := d\<rparr>)"
| crash: "a \<in> set (inflight x) \<Longrightarrow>
    runtime_step handlers lease backoff x (x\<lparr>inflight := remove1 a (inflight x)\<rparr>)"

definition runtime_reaches ::
  "'z registry \<Rightarrow> timedelta \<Rightarrow> timedelta \<Rightarrow> 'z store_scheme system \<Rightarrow> 'z store_scheme system \<Rightarrow> bool" where
  "runtime_reaches handlers lease backoff = (runtime_step handlers lease backoff)\<^sup>*\<^sup>*"

text \<open>What a transaction may do to the jobs that exist: keep them, never uncount an attempt.\<close>

definition jobs_persist :: "'z store_scheme \<Rightarrow> 'z store_scheme \<Rightarrow> bool" where
  "jobs_persist s t \<longleftrightarrow> (\<forall>i j. row_get rid i (jobs s) = Some j \<longrightarrow>
     (\<exists>j'. row_get rid i (jobs t) = Some j' \<and> job_ident j' = job_ident j \<and>
        attempt_count j \<le> attempt_count j'))"

definition system_inv :: "'z store_scheme system \<Rightarrow> bool" where
  "system_inv x \<longleftrightarrow> jobs_inv (db x) \<and>
     (\<forall>(w, i, p) \<in> set (inflight x). \<exists>j. row_get rid i (jobs (db x)) = Some j \<and> attempt_count j \<noteq> 0)"

lemma persist_refl: "jobs_persist s s"
  by (simp add: jobs_persist_def)

lemma persist_trans: "jobs_persist s t \<Longrightarrow> jobs_persist t u \<Longrightarrow> jobs_persist s u"
  unfolding jobs_persist_def
proof (intro allI impI)
  fix i j
  assume st: "\<forall>i j. row_get rid i (jobs s) = Some j \<longrightarrow> (\<exists>j'. row_get rid i (jobs t) = Some j' \<and>
      job_ident j' = job_ident j \<and> attempt_count j \<le> attempt_count j')"
    and tu: "\<forall>i j. row_get rid i (jobs t) = Some j \<longrightarrow> (\<exists>j'. row_get rid i (jobs u) = Some j' \<and>
      job_ident j' = job_ident j \<and> attempt_count j \<le> attempt_count j')"
    and "row_get rid i (jobs s) = Some j"
  then obtain j1 where j1: "row_get rid i (jobs t) = Some j1" "job_ident j1 = job_ident j"
      "attempt_count j \<le> attempt_count j1" by blast
  with tu obtain j2 where "row_get rid i (jobs u) = Some j2" "job_ident j2 = job_ident j1"
      "attempt_count j1 \<le> attempt_count j2" by blast
  with j1 show "\<exists>j'. row_get rid i (jobs u) = Some j' \<and> job_ident j' = job_ident j \<and>
      attempt_count j \<le> attempt_count j'" by auto
qed

lemma persist_append_set:
  assumes "jobs t = row_set rid i f (jobs s @ new)" and "jobtab.stable f"
    and "\<And>j. attempt_count j \<le> attempt_count (f j)"
  shows "jobs_persist s t"
  using assms by (auto simp: jobs_persist_def row_set_append row_get_append jobtab.get_set
      jobtab.stable_def split: option.splits)

lemma persist_append: "jobs t = jobs s @ new \<Longrightarrow> jobs_persist s t"
  by (auto simp: jobs_persist_def row_get_append)

lemma persist_same: "jobs t = jobs s \<Longrightarrow> jobs_persist s t"
  by (simp add: jobs_persist_def)

lemma attempt_count_values:
  "attempt_count (claimed_values w now l j) = attempt_count j + 1"
  "attempt_count (succeeded_values now j) = attempt_count j"
  "attempt_count (failed_values e r now b j) = attempt_count j"
  "attempt_count (recovered_values now j) = attempt_count j"
  by (simp_all add: job_value_defs Let_def)

text \<open>Each transaction keeps the invariant of the table and every job in it.\<close>

definition sound_change :: "'z store_scheme \<Rightarrow> 'z store_scheme \<Rightarrow> bool" where
  "sound_change s t \<longleftrightarrow> jobs_inv t \<and> jobs_persist s t"

lemma claim_sound:
  assumes inv: "jobs_inv s" and run: "worker_claim w l i now s = (r, t)"
  shows "sound_change s t"
proof (cases "\<exists>j. row_get rid i (jobs s) = Some j \<and> claimable now j")
  case False
  then have "t = begin_session s" using worker_claim_none [OF inv] run by auto
  then show ?thesis using jobs_inv_begin [OF inv] by (simp add: sound_change_def persist_same)
next
  case True
  then obtain j where j: "row_get rid i (jobs s) = Some j" "claimable now j" by blast
  obtain s1 where "worker_claim w l i now s = (Inr (Some (claimed_values w now l j)), s1)"
    "jobs s1 = row_set rid i (claimed_values w now l) (jobs s)" "jobs_inv s1"
    using worker_claim_some [OF inv j] by metis
  with run persist_append_set [of t i "claimed_values w now l" s "[]"] show ?thesis
    by (simp add: sound_change_def attempt_count_values)
qed

lemma claim_claims:
  assumes inv: "jobs_inv s" and run: "worker_claim w l i now s = (Inr (Some j), t)"
  shows "row_get rid i (jobs t) = Some j \<and> attempt_count j \<noteq> 0"
proof -
  obtain j0 where j0: "row_get rid i (jobs s) = Some j0" "claimable now j0"
    using worker_claim_none [OF inv, of i now w l] run by force
  obtain s1 where "worker_claim w l i now s = (Inr (Some (claimed_values w now l j0)), s1)"
    "jobs s1 = row_set rid i (claimed_values w now l) (jobs s)"
    using worker_claim_some [OF inv j0] by metis
  moreover have "0 \<le> attempt_count j0"
    using inv row_get_Some [OF j0(1)] by (simp add: jobs_inv_def job_ok_def)
  ultimately show ?thesis
    using run j0 by (simp add: jobtab.get_set_same) (simp add: claimed_values_def)
qed

context job_handlers
begin

lemma attempt_sound:
  assumes inv: "jobs_inv s" and run: "in_transaction (attempt_body handlers w i now) s = (x, t)"
  shows "sound_change s t"
proof -
  have inv': "jobs_inv t" using inv run by (rule attempt_transaction_inv)
  obtain y u where body: "attempt_body handlers w i now (begin_session s) = (y, u)"
    by (metis prod.exhaust)
  have "jobs_persist s t"
  proof (cases y)
    case (Inl e)
    with body run show ?thesis by (intro persist_same) (auto simp: in_transaction_def)
  next
    case (Inr r)
    show ?thesis
    proof (cases "result_claimed r")
      case True
      from attempt_claimed [OF jobs_inv_begin [OF inv] body [unfolded Inr] True] obtain t0 where
        t0: "jobs_frame (begin_session s) t0"
          "u = t0\<lparr>jobs := row_set rid i (succeeded_values now) (jobs t0)\<rparr>" by metis
      then obtain new where "jobs t0 = jobs s @ new" by (auto simp: jobs_frame_def)
      with t0 body run Inr show ?thesis
        by (intro persist_append_set [of t i "succeeded_values now" s new])
          (auto simp: in_transaction_def attempt_count_values)
    next
      case False
      with body Inr have "u = begin_session s"
        by (auto simp: attempt_body_def run_simps split: option.splits if_splits prod.splits sum.splits)
      with body run Inr show ?thesis by (intro persist_same) (auto simp: in_transaction_def)
    qed
  qed
  with inv' show ?thesis by (simp add: sound_change_def)
qed

lemma failure_sound:
  assumes inv: "jobs_inv s" and run: "record_failure handlers b i e retry now s = (x, t)"
    and get: "row_get rid i (jobs s) = Some j" "attempt_count j \<noteq> 0"
  shows "sound_change s t"
proof -
  have inv': "jobs_inv t" using inv run get by (rule record_failure_inv)
  from inv run get(1) have "jobs_persist s t"
  proof (cases rule: record_failure_outcome)
    case (raised e')
    then show ?thesis by (simp add: persist_same)
  next
    case (recorded r new)
    then show ?thesis by (auto intro: persist_append_set simp: attempt_count_values)
  qed
  with inv' show ?thesis by (simp add: sound_change_def)
qed

end

text \<open>The scheduler and a request.\<close>

lemma scheduler_body_frame:
  "tracks jobs_frame (bnd (enqueue_pending_outbox now n) (\<lambda>outbox_count.
     bnd (enqueue_due_jobs now n) (\<lambda>due_count.
     ret \<lparr>recovered_leases = recovered, outbox_jobs_enqueued = outbox_count,
          due_jobs_enqueued = due_count\<rparr>)))"
  unfolding enqueue_pending_outbox_def enqueue_due_jobs_def enqueue_outbox_event_def
  by (intro frame_rules)

lemma run_once_outcome:
  assumes inv: "jobs_inv s" and run: "run_once n now s = (x, t)"
  obtains (raised) e where "x = Inl e" "jobs t = jobs s" "jobs_inv t"
  | (finished) r new where "x = Inr r" "jobs_inv t"
      "recovered_leases r = length (filter (lease_expired now) (jobs s))"
      "jobs t = map (\<lambda>j. if lease_expired now j then recovered_values now j else j) (jobs s) @ new"
      "\<forall>j \<in> set new. job_status j = QUEUED"
proof -
  let ?s0 = "begin_session s" and ?n = "length (filter (lease_expired now) (jobs s))"
  have inv0: "jobs_inv ?s0" and syn: "sql_jobs ?s0 = jobs ?s0" using inv by (simp_all add: jobs_inv_begin)
  obtain s1 where s1: "recover_expired_leases now ?s0 = (Inr ?n, s1)" "uuid_pos s1 = uuid_pos s"
      "jobs s1 = map (\<lambda>j. if lease_expired now j then recovered_values now j else j) (jobs s)" "jobs_inv s1"
    using recover_expired_leases_run [OF inv0 syn, of now] recover_expired_leases_inv [OF inv0 syn, of now]
    by auto
  let ?rest = "bnd (enqueue_pending_outbox now n) (\<lambda>outbox_count. bnd (enqueue_due_jobs now n) (\<lambda>due_count.
     ret \<lparr>recovered_leases = ?n, outbox_jobs_enqueued = outbox_count, due_jobs_enqueued = due_count\<rparr>))"
  obtain y u where rest: "?rest s1 = (y, u)" by (metis prod.exhaust)
  have f: "jobs_frame s1 u" using scheduler_body_frame rest by (rule tracksD)
  have xt: "(x, t) = (case y of Inr r \<Rightarrow> (Inr r, begin_session u) | Inl e \<Rightarrow> (Inl e, roll_back ?s0 u))"
    using run rest s1(1) by (auto simp: run_once_def in_transaction_def run_bnd [of "recover_expired_leases now"]
        split: sum.splits)
  show thesis
  proof (cases y)
    case (Inl e)
    have "uuid_pos ?s0 \<le> uuid_pos u" using f s1(2) by (simp add: jobs_frame_def)
    with jobs_inv_roll_back [OF inv0] xt Inl raised show thesis by simp
  next
    case (Inr r)
    have "recovered_leases r = ?n" using rest [unfolded Inr] by (elim bnd_okE) (auto simp: run_ret)
    moreover have "jobs_inv (begin_session u)" using f s1(4) by (simp add: jobs_frame_def jobs_inv_begin)
    ultimately show thesis using xt Inr f s1(3) finished by (auto simp: jobs_frame_def)
  qed
qed

lemma schedule_sound:
  assumes inv: "jobs_inv s" and run: "run_once n now s = (x, t)"
  shows "sound_change s t"
  using inv run
proof (cases rule: run_once_outcome)
  case (raised e)
  then show ?thesis by (simp add: sound_change_def persist_same)
next
  case (finished r new)
  let ?f = "\<lambda>j. if lease_expired now j then recovered_values now j else j"
  have st: "jobtab.stable ?f" by (auto simp: jobtab.stable_def job_values_ident)
  have "row_get rid i (map ?f js) = map_option ?f (row_get rid i js)" for i js
    using jobtab.stable_rid [OF st] by (induction js) (simp_all add: row_get_def)
  then have "jobs_persist s t"
    by (auto simp: jobs_persist_def finished(4) row_get_append job_values_ident attempt_count_values)
  with finished show ?thesis by (simp add: sound_change_def)
qed

lemma request_sound:
  assumes inv: "jobs_inv s"
    and run: "in_transaction (create_job scope jtype pl sv key now mx av co ca) s = (x, t)"
  shows "sound_change s t"
proof -
  obtain y u where body: "create_job scope jtype pl sv key now mx av co ca (begin_session s) = (y, u)"
    by (metis prod.exhaust)
  have f: "jobs_frame (begin_session s) u" using create_job_frame body by (rule tracksD)
  have inv0: "jobs_inv (begin_session s)" using inv by (rule jobs_inv_begin)
  show ?thesis
  proof (cases y)
    case (Inl e)
    with f body run jobs_inv_roll_back [OF inv0] show ?thesis
      by (auto simp: in_transaction_def jobs_frame_def sound_change_def intro: persist_same)
  next
    case (Inr j)
    then have t: "t = begin_session u" using body run by (simp add: in_transaction_def)
    from f obtain new where "jobs u = jobs s @ new" by (auto simp: jobs_frame_def)
    with f t inv0 show ?thesis
      by (auto simp: sound_change_def jobs_frame_def jobs_inv_begin intro: persist_append)
  qed
qed

text \<open>Every step keeps the invariant and every job.\<close>

lemma system_inv_change:
  assumes "system_inv x" "sound_change (db x) d"
    and "\<And>w i p. (w, i, p) \<in> set new \<Longrightarrow> (w, i, p) \<in> set (inflight x) \<or>
      (\<exists>j. row_get rid i (jobs d) = Some j \<and> attempt_count j \<noteq> 0)"
  shows "system_inv (x\<lparr>db := d, inflight := new\<rparr>)"
proof -
  have "\<exists>j. row_get rid i (jobs d) = Some j \<and> attempt_count j \<noteq> 0" if a: "(w, i, p) \<in> set new" for w i p
  proof (cases "(w, i, p) \<in> set (inflight x)")
    case True
    then obtain j where j: "row_get rid i (jobs (db x)) = Some j" "attempt_count j \<noteq> 0"
      using assms(1) by (auto simp: system_inv_def)
    then have "job_ok j" using assms(1) row_get_Some [OF j(1)] by (simp add: system_inv_def jobs_inv_def)
    then have "0 \<le> attempt_count j" by (simp add: job_ok_def)
    moreover obtain j' where "row_get rid i (jobs d) = Some j'" "attempt_count j \<le> attempt_count j'"
      using assms(2) j(1) unfolding sound_change_def jobs_persist_def by blast
    ultimately show ?thesis using j(2) by (metis antisym)
  next
    case False
    with assms(3) [OF a] show ?thesis by blast
  qed
  then show ?thesis using assms(2) by (auto simp: system_inv_def sound_change_def)
qed

lemma system_inv_shrink:
  assumes "system_inv x" "sound_change (db x) d" "set new \<subseteq> set (inflight x)"
  shows "system_inv (x\<lparr>db := d, inflight := new\<rparr>) \<and> jobs_persist (db x) d"
  using assms system_inv_change [OF assms(1,2), of new] by (auto simp: sound_change_def)

lemma system_inv_grow:
  assumes "system_inv x" "sound_change (db x) d" "set new \<subseteq> set (inflight x)"
    and "row_get rid i (jobs d) = Some j" "attempt_count j \<noteq> 0"
  shows "system_inv (x\<lparr>db := d, inflight := (w, i, p) # new\<rparr>) \<and> jobs_persist (db x) d"
  using assms system_inv_change [OF assms(1,2), of "(w, i, p) # new"] by (auto simp: sound_change_def)

lemma step_sound:
  assumes h: "job_handlers handlers" and inv: "system_inv x"
    and step: "runtime_step handlers lease backoff x y"
  shows "system_inv y \<and> jobs_persist (db x) (db y)"
proof -
  have ji: "jobs_inv (db x)" using inv by (simp add: system_inv_def)
  have held: "\<exists>j. row_get rid i (jobs (db x)) = Some j \<and> attempt_count j \<noteq> 0"
    if "(w, i, p) \<in> set (inflight x)" for w i p
    using inv that by (auto simp: system_inv_def)
  note shrink = system_inv_shrink [OF inv] and grow = system_inv_grow [OF inv]
  from step show ?thesis
  proof (cases rule: runtime_step.cases)
    case (claim w i now j d)
    then show ?thesis
      using grow [OF claim_sound [OF ji claim(2)], of "inflight x" i j w Claimed]
        claim_claims [OF ji claim(2)] by simp
  next
    case (claim_nothing w i now d)
    then show ?thesis using shrink [OF claim_sound [OF ji claim_nothing(2)], of "inflight x"] by simp
  next
    case (attempt w i now r d)
    then show ?thesis
      using shrink [OF job_handlers.attempt_sound [OF h ji attempt(3)] set_remove1_subset] by simp
  next
    case (attempt_raises w i now e d)
    from held [OF attempt_raises(2)] obtain j where j: "row_get rid i (jobs (db x)) = Some j"
        "attempt_count j \<noteq> 0" by blast
    have "jobs d = jobs (db x)"
      using attempt_raises(3) by (auto simp: in_transaction_def split: prod.splits sum.splits)
    with j attempt_raises(1) show ?thesis
      using grow [OF job_handlers.attempt_sound [OF h ji attempt_raises(3)] set_remove1_subset] by simp
  next
    case (fail w i e now r d)
    from held [OF fail(2)] obtain j where "row_get rid i (jobs (db x)) = Some j" "attempt_count j \<noteq> 0"
      by blast
    from shrink [OF job_handlers.failure_sound [OF h ji fail(3) this] set_remove1_subset] fail(1)
    show ?thesis by simp
  next
    case (schedule batch now r d)
    then show ?thesis using shrink [OF schedule_sound [OF ji schedule(2)], of "inflight x"] by simp
  next
    case (request scope jtype pl sv key now mx av co ca r d)
    then show ?thesis using shrink [OF request_sound [OF ji request(2)], of "inflight x"] by simp
  next
    case (crash a)
    with inv set_remove1_subset [of a "inflight x"] show ?thesis
      by (auto simp: system_inv_def persist_refl)
  qed
qed


lemma claimed_delivery:
  "case worker_claim ''w'' 60 [] 10 (sample_store sample_job) of (Inr (Some j), d) \<Rightarrow> True | _ \<Rightarrow> False"
  by code_simp


section \<open>Completed jobs\<close>

abbreviation completed :: "job_row \<Rightarrow> bool" where
  "completed j \<equiv> job_status j = JobStatus.SUCCEEDED \<or> job_status j = JobStatus.FAILED"

lemma claim_keeps_completed:
  assumes inv: "jobs_inv s" and run: "worker_claim w l k now s = (r, t)"
    and get: "row_get rid i (jobs s) = Some j" and c: "completed j"
  shows "row_get rid i (jobs t) = Some j"
proof (cases "\<exists>q. row_get rid k (jobs s) = Some q \<and> claimable now q")
  case False
  then have "t = begin_session s" using worker_claim_none [OF inv] run by auto
  with get show ?thesis by simp
next
  case True
  then obtain q where q: "row_get rid k (jobs s) = Some q" "claimable now q" by blast
  then have "k \<noteq> i" using get c by (auto simp: claimable_def)
  moreover obtain s1 where "worker_claim w l k now s = (Inr (Some (claimed_values w now l q)), s1)"
    "jobs s1 = row_set rid k (claimed_values w now l) (jobs s)"
    using worker_claim_some [OF inv q] by metis
  ultimately show ?thesis using run get by (simp add: jobtab.get_set_other)
qed

lemma attempt_keeps_completed:
  assumes h: "job_handlers handlers" and inv: "jobs_inv s"
    and run: "in_transaction (attempt_body handlers w k now) s = (x, t)"
    and get: "row_get rid i (jobs s) = Some j" and c: "completed j"
  shows "row_get rid i (jobs t) = Some j"
proof -
  obtain y u where body: "attempt_body handlers w k now (begin_session s) = (y, u)"
    by (metis prod.exhaust)
  show ?thesis
  proof (cases "\<exists>r. y = Inr r \<and> result_claimed r")
    case True
    then obtain r where r: "y = Inr r" "result_claimed r" by blast
    from job_handlers.attempt_claimed [OF h jobs_inv_begin [OF inv] body [unfolded r(1)] r(2)]
    obtain q t0 where q: "row_get rid k (jobs s) = Some q" "job_status q = JobStatus.RUNNING"
        "jobs_frame (begin_session s) t0" "u = t0\<lparr>jobs := row_set rid k (succeeded_values now) (jobs t0)\<rparr>"
      by (metis begin_session_simps(1))
    then have "k \<noteq> i" using get c by auto
    moreover have "row_get rid i (jobs t0) = Some j" using frame_get [OF q(3)] get by simp
    ultimately show ?thesis using run body r q(4) by (auto simp: in_transaction_def jobtab.get_set_other)
  next
    case False
    then have "jobs t = jobs s"
      using run body
      by (auto simp: in_transaction_def attempt_body_def run_simps
          split: option.splits if_splits prod.splits sum.splits)
    with get show ?thesis by simp
  qed
qed

lemma failure_keeps_others:
  assumes h: "job_handlers handlers" and inv: "jobs_inv s"
    and run: "record_failure handlers b k e retry now s = (x, t)" and "k \<noteq> i"
    and get: "row_get rid i (jobs s) = Some j"
  shows "row_get rid i (jobs t) = Some j"
proof (cases "row_get rid k (jobs s)")
  case None
  then have "jobs t = jobs s"
    using run by (auto simp: record_failure_def in_transaction_def failure_body_def run_simps
        mark_job_failed_or_retrying_run)
  with get show ?thesis by simp
next
  case (Some q)
  show ?thesis
  proof (cases rule: job_handlers.record_failure_outcome [OF h inv run Some, case_names raised recorded])
    case (raised e')
    with get show ?thesis by simp
  next
    case (recorded r new)
    with get \<open>k \<noteq> i\<close> show ?thesis by (simp add: row_set_append row_get_append jobtab.get_set_other)
  qed
qed

lemma schedule_keeps_completed:
  assumes inv: "jobs_inv s" and run: "run_once n now s = (x, t)"
    and get: "row_get rid i (jobs s) = Some j" and c: "completed j"
  shows "row_get rid i (jobs t) = Some j"
  using inv run
proof (cases rule: run_once_outcome)
  case (raised e)
  with get show ?thesis by simp
next
  case (finished r new)
  let ?f = "\<lambda>j. if lease_expired now j then recovered_values now j else j"
  have st: "jobtab.stable ?f" by (auto simp: jobtab.stable_def job_values_ident)
  have "row_get rid i (map ?f js) = map_option ?f (row_get rid i js)" for js
    using jobtab.stable_rid [OF st] by (induction js) (simp_all add: row_get_def)
  with get c finished(4) show ?thesis by (auto simp: row_get_append lease_expired_def)
qed

lemma request_keeps_jobs:
  assumes run: "in_transaction (create_job scope jtype pl sv key now mx av co ca) s = (x, t)"
    and get: "row_get rid i (jobs s) = Some j"
  shows "row_get rid i (jobs t) = Some j"
proof -
  obtain y u where body: "create_job scope jtype pl sv key now mx av co ca (begin_session s) = (y, u)"
    by (metis prod.exhaust)
  have "jobs_frame (begin_session s) u" using create_job_frame body by (rule tracksD)
  then have "row_get rid i (jobs u) = Some j" using get frame_get by fastforce
  with body run get show ?thesis by (auto simp: in_transaction_def split: sum.splits)
qed


text \<open>
  That exception is reachable with two workers, and it undoes a success: worker
  \<open>w1\<close> fails its first attempt and stalls before recording it; its lease runs out, worker
  \<open>w2\<close> claims the job and succeeds; then \<open>w1\<close> records its failure, and the succeeded job
  waits for a retry.
\<close>

definition stale_registry :: "unit registry" where
  "stale_registry = default_handler_registry (\<lambda>_. [])"

definition stale_error :: py_error where
  "stale_error = TransientJobError ''deterministic transient probe failure''"

definition stale_db0 :: store where
  "stale_db0 = sample_store (probe_job [(''transient_until_attempt'', JInt 1)])"
definition stale_db1 :: store where
  "stale_db1 = snd (worker_claim ''w1'' 60 [] 10 stale_db0)"
definition stale_db2 :: store where
  "stale_db2 = snd (in_transaction (attempt_body stale_registry ''w1'' [] 11) stale_db1)"
definition stale_db3 :: store where
  "stale_db3 = snd (worker_claim ''w2'' 60 [] 70 stale_db2)"
definition stale_db4 :: store where
  "stale_db4 = snd (in_transaction (attempt_body stale_registry ''w2'' [] 71) stale_db3)"

lemma stale_runs:
  "case fst (worker_claim ''w1'' 60 [] 10 stale_db0) of Inr (Some j) \<Rightarrow> True | _ \<Rightarrow> False"
  "fst (in_transaction (attempt_body stale_registry ''w1'' [] 11) stale_db1) = Inl stale_error"
  "case fst (worker_claim ''w2'' 60 [] 70 stale_db2) of Inr (Some j) \<Rightarrow> True | _ \<Rightarrow> False"
  "case fst (in_transaction (attempt_body stale_registry ''w2'' [] 71) stale_db3) of
     Inr r \<Rightarrow> True | _ \<Rightarrow> False"
  "case row_get rid [] (jobs stale_db4) of None \<Rightarrow> False
   | Some j \<Rightarrow> job_status j = JobStatus.SUCCEEDED \<and> attempt_count j = 2 \<and> max_attempts j = 3"
  by code_simp+

abbreviation stale_step :: "store system \<Rightarrow> store system \<Rightarrow> bool" where
  "stale_step \<equiv> runtime_step stale_registry 60 60"

lemma stale_trace:
  "runtime_reaches stale_registry 60 60 \<lparr>db = stale_db0, inflight = []\<rparr>
     \<lparr>db = stale_db4, inflight = [(''w1'', [], Failing stale_error)]\<rparr>"
proof -
  let ?f = "(''w1'', [], Failing stale_error)"
  obtain j1 where "worker_claim ''w1'' 60 [] 10 stale_db0 = (Inr (Some j1), stale_db1)"
    using stale_runs(1) by (auto simp: stale_db1_def prod_eq_iff split: sum.splits option.splits)
  then have 1: "stale_step \<lparr>db = stale_db0, inflight = []\<rparr>
      \<lparr>db = stale_db1, inflight = [(''w1'', [], Claimed)]\<rparr>"
    using runtime_step.claim [where x = "\<lparr>db = stale_db0, inflight = []\<rparr>"] by fastforce
  have "in_transaction (attempt_body stale_registry ''w1'' [] 11) stale_db1 = (Inl stale_error, stale_db2)"
    using stale_runs(2) by (simp add: stale_db2_def prod_eq_iff)
  then have 2: "stale_step \<lparr>db = stale_db1, inflight = [(''w1'', [], Claimed)]\<rparr>
      \<lparr>db = stale_db2, inflight = [?f]\<rparr>"
    using runtime_step.attempt_raises [where x = "\<lparr>db = stale_db1, inflight = [(''w1'', [], Claimed)]\<rparr>"]
    by fastforce
  obtain j3 where "worker_claim ''w2'' 60 [] 70 stale_db2 = (Inr (Some j3), stale_db3)"
    using stale_runs(3) by (auto simp: stale_db3_def prod_eq_iff split: sum.splits option.splits)
  then have 3: "stale_step \<lparr>db = stale_db2, inflight = [?f]\<rparr>
      \<lparr>db = stale_db3, inflight = [(''w2'', [], Claimed), ?f]\<rparr>"
    using runtime_step.claim [where x = "\<lparr>db = stale_db2, inflight = [?f]\<rparr>"] by fastforce
  obtain r4 where "in_transaction (attempt_body stale_registry ''w2'' [] 71) stale_db3 = (Inr r4, stale_db4)"
    using stale_runs(4) by (auto simp: stale_db4_def prod_eq_iff split: sum.splits)
  then have 4: "stale_step \<lparr>db = stale_db3, inflight = [(''w2'', [], Claimed), ?f]\<rparr>
      \<lparr>db = stale_db4, inflight = [?f]\<rparr>"
    using runtime_step.attempt [where x = "\<lparr>db = stale_db3, inflight = [(''w2'', [], Claimed), ?f]\<rparr>"]
    by fastforce
  from 1 2 3 4 show ?thesis unfolding runtime_reaches_def
    by (meson rtranclp.rtrancl_into_rtrancl rtranclp.rtrancl_refl)
qed

lemma stale_db0_inv: "jobs_inv stale_db0"
  unfolding stale_db0_def
  by (rule sample_store_inv) (simp_all add: probe_job_ok no_secrets_iff [symmetric], code_simp)

lemma stale_db4_inv: "jobs_inv stale_db4"
proof -
  have "system_inv \<lparr>db = stale_db0, inflight = []\<rparr>" by (simp add: system_inv_def stale_db0_inv)
  with stale_trace have "system_inv \<lparr>db = stale_db4, inflight = [(''w1'', [], Failing stale_error)]\<rparr>"
    unfolding runtime_reaches_def
    by (induction rule: rtranclp_induct)
      (auto simp: stale_registry_def dest: step_sound [OF runtime_handlers.job_handlers_axioms])
  then show ?thesis by (simp add: system_inv_def)
qed


end
