(* ===== verification/Execution_Store.thy ===== *)
theory Execution_Store
  imports Runtime_System
begin

text \<open>
  The tables of governed execution (\<open>persistence/execution_models.py\<close> and the rows of
  \<open>persistence/models.py\<close>, \<open>persistence/production_models.py\<close> and
  \<open>persistence/phase6_models.py\<close> that execution reads or writes), and the accessors of
  \<open>execution/service.py\<close>. The execution database extends the runtime store, so every
  operation of the runtime works on it unchanged.

  In these operations every \<open>SELECT\<close> of a table comes after a flush of whatever was added to
  it, so one image per table is enough; a filtered \<open>SELECT\<close> returns the first matching row
  in insertion order.
\<close>

section \<open>Enumerations\<close>

datatype PermissionOutcome = BLOCKED | APPROVAL_REQUIRED | ALLOWED

datatype ExecutionControllerType = SECURITY | PRIVACY | PLATFORM | EXECUTION | COST

datatype ProductionWorkflowStatus =
    DECISION_APPROVAL_VERIFIED | CONTENT_STRATEGY_RUNNING | CONTENT_STRATEGY_READY | BRIEF_READY
  | PRODUCTION_RUNNING | ASSET_VERSION_READY | ASSET_CONTROLLERS_RUNNING | BLOCKED
  | REVISION_REQUIRED | PRODUCTION_READY | READY_FOR_ACTION_PROPOSAL | ESCALATED

fun permission_outcome_value :: "PermissionOutcome \<Rightarrow> string" where
  "permission_outcome_value PermissionOutcome.BLOCKED = ''BLOCKED''"
| "permission_outcome_value PermissionOutcome.APPROVAL_REQUIRED = ''APPROVAL_REQUIRED''"
| "permission_outcome_value ALLOWED = ''ALLOWED''"

section \<open>Rows\<close>

record channel_row = scoped_row +
  channel_provider :: string
  channel_handle :: string
  channel_capabilities :: payload
  channel_created_at :: datetime

record membership_row = scoped_row +
  member_user_id :: string
  member_role :: string

record policy_row = scoped_row +
  policy_action_type :: string
  policy_mode :: PermissionMode
  requires_approval :: bool
  public_visibility :: bool

record asset_version_row = scoped_row +
  av_asset_id :: string
  av_version_number :: int
  av_body :: string
  av_created_by_user_id :: "string option"
  av_provenance :: payload
  av_created_at :: datetime

record production_workflow_row = scoped_row +
  pw_decision_id :: string
  pw_decision_version :: int
  pw_decision_approval_id :: string
  pw_snapshot_id :: string
  pw_launch_id :: "string option"
  pw_status :: ProductionWorkflowStatus
  pw_revision_count :: int
  pw_max_revision_rounds :: int
  pw_creative_brief_id :: "string option"
  pw_asset_id :: "string option"
  pw_final_asset_version_id :: "string option"
  pw_correlation_id :: "string option"
  pw_causation_id :: "string option"
  pw_created_at :: datetime
  pw_version :: int

record rights_row = scoped_row +
  rights_asset_version_id :: string
  rights_origin :: string
  rights_generated_by_agent_run_id :: "string option"
  rights_model_provider :: "string option"
  rights_model_name :: "string option"
  rights_related_source_asset_ids :: "string list"
  rights_permission_scope :: "string option"
  rights_consent_ref :: "string option"
  rights_publication_restrictions :: "string list"
  rights_license_expires_at :: "datetime option"
  rights_provenance :: payload
  rights_created_at :: datetime

record experiment_row = scoped_row +
  experiment_decision_id :: string
  experiment_hypothesis_id :: "string option"
  experiment_metric :: string
  experiment_status :: ExperimentStatus
  experiment_causality_class :: CausalityClass

record checkpoint_binding_row = scoped_row +
  cb_decision_id :: string
  cb_experiment_id :: string
  cb_metric_key :: string
  cb_experiment_rule_id :: string
  cb_schema_version :: int
  cb_source_window_anchor :: string
  cb_window_seconds :: int
  cb_grace_seconds :: int
  cb_success_operator :: string
  cb_success_value :: real
  cb_weak_signal_operator :: string
  cb_weak_signal_value :: real
  cb_failure_operator :: string
  cb_failure_value :: real
  cb_coverage_requirement :: string
  cb_attribution_method :: string
  cb_next_action_on_success :: string
  cb_next_action_on_weak_signal :: string
  cb_next_action_on_failure :: string
  cb_contract_hash :: string
  cb_created_at :: datetime

record connector_account_row = scoped_row +
  acc_channel_id :: string
  acc_provider :: string
  acc_secret_ref :: string
  acc_target_chat_id :: string
  acc_status :: string
  acc_auth_healthy :: bool
  acc_write_capability :: bool
  acc_capabilities :: payload
  acc_last_checked_at :: "datetime option"
  acc_last_error_class :: "string option"
  acc_updated_at :: datetime

record action_row = scoped_row +
  action_type :: string
  target_object_type :: string
  target_object_id :: string
  target_object_version_id :: string
  target_object_version :: int
  action_status :: ActionStatus
  action_idempotency_key :: string

record action_detail_row = scoped_row +
  detail_action_id :: string
  detail_production_workflow_id :: string
  detail_decision_id :: string
  detail_asset_version_id :: string
  detail_provider :: string
  detail_channel_id :: string
  detail_connector_account_id :: string
  detail_target_chat_id :: string
  delivery_payload :: payload
  delivery_payload_hash :: string
  detail_correlation_id :: "string option"
  detail_causation_id :: "string option"

record controller_review_row = scoped_row +
  review_action_id :: string
  review_controller_type :: ExecutionControllerType
  review_verdict :: ControllerVerdict
  review_reason :: string
  review_conditions :: "string list"

record permission_row = scoped_row +
  perm_action_id :: string
  perm_policy_id :: "string option"
  perm_outcome :: PermissionOutcome
  perm_reason :: string

record control_row = scoped_row +
  automation_paused :: bool
  execution_paused :: bool
  revoke_all_write_capabilities :: bool
  control_updated_by_user_id :: "string option"
  control_updated_at :: datetime

record approval_row = scoped_row +
  appr_action_id :: string
  appr_action_type :: string
  appr_object_type :: string
  appr_object_id :: string
  appr_object_version_id :: string
  appr_object_version :: int
  appr_approved_by_user_id :: string
  appr_status :: ApprovalStatus
  appr_created_at :: datetime

record execution_row = scoped_row +
  exec_action_id :: string
  exec_approval_id :: "string option"
  exec_status :: ExecutionStatus
  exec_idempotency_key :: string
  exec_external_reference :: "string option"

record external_reference_row = scoped_row +
  ref_provider :: string
  ref_connector_account_id :: string
  ref_channel_id :: string
  ref_external_object_type :: string
  ref_external_id :: string
  ref_external_parent_id :: "string option"
  ref_action_id :: string
  ref_execution_id :: string

record publication_row = scoped_row +
  pub_asset_version_id :: string
  pub_channel_id :: string
  pub_status :: PublicationStatus
  pub_published_at :: "datetime option"

record publication_link_row = scoped_row +
  link_publication_id :: string
  link_action_id :: string
  link_execution_id :: string
  link_external_reference_id :: string

section \<open>The execution database\<close>

record exec_store = store +
  channels :: "channel_row list"
  memberships :: "membership_row list"
  permission_policies :: "policy_row list"
  asset_versions :: "asset_version_row list"
  production_workflows :: "production_workflow_row list"
  asset_rights :: "rights_row list"
  experiments :: "experiment_row list"
  checkpoint_bindings :: "checkpoint_binding_row list"
  connector_accounts :: "connector_account_row list"
  actions :: "action_row list"
  action_details :: "action_detail_row list"
  controller_reviews :: "controller_review_row list"
  permission_evaluations :: "permission_row list"
  global_controls :: "control_row list"
  approvals :: "approval_row list"
  executions :: "execution_row list"
  external_references :: "external_reference_row list"
  publications :: "publication_row list"
  publication_links :: "publication_link_row list"

text \<open>Assignments to attributes of loaded rows.\<close>

definition update_action :: "string \<Rightarrow> (action_row \<Rightarrow> action_row) \<Rightarrow> ('z exec_store_scheme, unit) prog" where
  "update_action i f = modify (\<lambda>s. s\<lparr>actions := row_set rid i f (actions s)\<rparr>)"

definition update_execution ::
  "string \<Rightarrow> (execution_row \<Rightarrow> execution_row) \<Rightarrow> ('z exec_store_scheme, unit) prog" where
  "update_execution i f = modify (\<lambda>s. s\<lparr>executions := row_set rid i f (executions s)\<rparr>)"

definition update_experiment ::
  "string \<Rightarrow> (experiment_row \<Rightarrow> experiment_row) \<Rightarrow> ('z exec_store_scheme, unit) prog" where
  "update_experiment i f = modify (\<lambda>s. s\<lparr>experiments := row_set rid i f (experiments s)\<rparr>)"

definition set_action_status :: "ActionStatus \<Rightarrow> action_row \<Rightarrow> ('z exec_store_scheme, unit) prog" where
  "set_action_status st a =
     bnd (update_action (rid a) (\<lambda>r. r\<lparr>action_status := st\<rparr>)) (\<lambda>_. touch (org a) (biz a))"

definition set_execution_status ::
  "ExecutionStatus \<Rightarrow> execution_row \<Rightarrow> ('z exec_store_scheme, unit) prog" where
  "set_execution_status st e =
     bnd (update_execution (rid e) (\<lambda>r. r\<lparr>exec_status := st\<rparr>)) (\<lambda>_. touch (org e) (biz e))"

section \<open>Accessors (\<open>execution/service.py\<close>)\<close>

definition action_detail ::
  "string \<Rightarrow> ('z exec_store_scheme, action_detail_row) prog" where
  "action_detail aid =
     bnd (gets (\<lambda>s. select_first (\<lambda>d. detail_action_id d = aid) (action_details s))) (\<lambda>found.
     required found (PermanentJobError ''ActionProposal detail not found''))"

definition permission_evaluation ::
  "string \<Rightarrow> ('z exec_store_scheme, permission_row) prog" where
  "permission_evaluation aid =
     bnd (gets (\<lambda>s. select_first (\<lambda>p. perm_action_id p = aid) (permission_evaluations s))) (\<lambda>found.
     required found (PermanentJobError ''Permission evaluation not found''))"

definition global_control :: "string \<Rightarrow> 'z exec_store_scheme \<Rightarrow> control_row option" where
  "global_control bz s = select_first (\<lambda>c. biz c = bz) (global_controls s)"

definition execution_approval :: "execution_row \<Rightarrow> ('z exec_store_scheme, approval_row) prog" where
  "execution_approval e =
     bnd (required (exec_approval_id e) (PermanentJobError ''Execution has no approval binding'')) (\<lambda>aid.
     bnd (gets (\<lambda>s. row_get rid aid (approvals s))) (\<lambda>found.
     required found (PermanentJobError ''Execution approval not found'')))"

definition approval_matches_action :: "approval_row \<Rightarrow> action_row \<Rightarrow> bool" where
  "approval_matches_action p a \<longleftrightarrow>
     appr_action_id p = rid a \<and> appr_action_type p = action_type a \<and>
     appr_object_type p = target_object_type a \<and> appr_object_id p = target_object_id a \<and>
     appr_object_version_id p = target_object_version_id a \<and>
     appr_object_version p = target_object_version a"

definition assert_owner ::
  "'y TenantScope_scheme \<Rightarrow> string \<Rightarrow> ('z exec_store_scheme, unit) prog" where
  "assert_owner scope user_id =
     bnd (gets (\<lambda>s. select_first (\<lambda>m. org m = organization_id scope \<and> biz m = business_id scope
            \<and> member_user_id m = user_id) (memberships s))) (\<lambda>membership.
     require (case membership of None \<Rightarrow> False | Some m \<Rightarrow> upper (member_role m) = ''OWNER'')
       (PermanentJobError ''owner authority is required''))"

definition channel_for_scope ::
  "'y TenantScope_scheme \<Rightarrow> string \<Rightarrow> ('z exec_store_scheme, channel_row) prog" where
  "channel_for_scope scope channel_id =
     bnd (gets (\<lambda>s. row_get rid channel_id (channels s))) (\<lambda>found.
     bnd (required found (PermanentJobError (''Channel not found: '' @ channel_id))) (\<lambda>channel.
     bnd (check_scope scope (org channel) (biz channel)) (\<lambda>_. ret channel)))"

definition audit ::
  "'y TenantScope_scheme \<Rightarrow> string \<Rightarrow> string \<Rightarrow> string \<Rightarrow> payload \<Rightarrow> string option \<Rightarrow> string \<Rightarrow> string option
     \<Rightarrow> ('z store_scheme, unit) prog" where
  "audit scope act obj_type obj_id pl actor correlation causation =
     bnd (check_no_secrets pl) (\<lambda>_.
     bnd new_id (\<lambda>i.
     add_audit \<lparr>rid = i, org = organization_id scope, biz = business_id scope,
       audit_actor_user_id = actor, audit_action = act, audit_object_type = obj_type,
       audit_object_id = obj_id, audit_payload = pl,
       audit_correlation_id = Some correlation, audit_causation_id = causation\<rparr>))"

definition outbox ::
  "'y TenantScope_scheme \<Rightarrow> string \<Rightarrow> string \<Rightarrow> string \<Rightarrow> payload \<Rightarrow> datetime \<Rightarrow> string \<Rightarrow> string option
     \<Rightarrow> ('z store_scheme, unit) prog" where
  "outbox scope ev_type agg_type agg_id pl now correlation causation =
     bnd (check_no_secrets pl) (\<lambda>_.
     bnd new_id (\<lambda>i.
     add_outbox \<lparr>rid = i, org = organization_id scope, biz = business_id scope,
       outbox_event_type = ev_type, outbox_aggregate_type = agg_type,
       outbox_aggregate_id = agg_id, outbox_payload = pl,
       outbox_status = OutboxStatus.PENDING, outbox_occurred_at = now,
       outbox_correlation_id = correlation, outbox_causation_id = causation,
       outbox_created_at = now, published_at = None\<rparr>))"

section \<open>Payload hashes\<close>

text \<open>
  \<open>json.dumps(payload, ensure_ascii=False, sort_keys=True, separators=(",", ":"))\<close>. How
  Python prints a number with a fraction is an argument, as is the digest: \<open>hash_env\<close> holds
  \<open>float.__repr__\<close> and the hexadecimal SHA-256 of the encoded text.
\<close>

record hash_env =
  float_repr :: "real \<Rightarrow> string"
  sha256_hex :: "string \<Rightarrow> string"

definition hex_digit :: "nat \<Rightarrow> char" where
  "hex_digit n = (if n < 10 then char_of (48 + n) else char_of (87 + n))"

definition json_escape :: "char \<Rightarrow> string" where
  "json_escape c =
    (let n = of_char c :: nat in
     if n = 34 then [char_of (92::nat), char_of (34::nat)]
     else if n = 92 then [char_of (92::nat), char_of (92::nat)]
     else if n = 10 then [char_of (92::nat), CHR ''n'']
     else if n = 13 then [char_of (92::nat), CHR ''r'']
     else if n = 9 then [char_of (92::nat), CHR ''t'']
     else if n = 8 then [char_of (92::nat), CHR ''b'']
     else if n = 12 then [char_of (92::nat), CHR ''f'']
     else if n < 32 then [char_of (92::nat), CHR ''u'', CHR ''0'', CHR ''0'',
                          hex_digit (n div 16), hex_digit (n mod 16)]
     else [c])"

definition json_string :: "string \<Rightarrow> string" where
  "json_string s = [char_of (34::nat)] @ concat (map json_escape s) @ [char_of (34::nat)]"

fun json_dumps :: "(real \<Rightarrow> string) \<Rightarrow> json \<Rightarrow> string" where
  "json_dumps fr JNull = ''null''"
| "json_dumps fr (JBool b) = (if b then ''true'' else ''false'')"
| "json_dumps fr (JInt i) = show_int i"
| "json_dumps fr (JFloat r) = fr r"
| "json_dumps fr (JStr s) = json_string s"
| "json_dumps fr (JList xs) = ''['' @ join_with '','' (map (json_dumps fr) xs) @ '']''"
| "json_dumps fr (JObj d) =
     ''{'' @ join_with '','' (map (\<lambda>kv. json_string (fst kv) @ '':'' @ snd kv)
       (sort_key fst (map (\<lambda>kv. (fst kv, json_dumps fr (snd kv))) d))) @ ''}''"

definition payload_hash :: "hash_env \<Rightarrow> payload \<Rightarrow> string" where
  "payload_hash env pl = sha256_hex env (json_dumps (float_repr env) (JObj pl))"

definition TELEGRAM_PUBLISH_ACTION :: string where
  "TELEGRAM_PUBLISH_ACTION = ''telegram.publish_text''"

definition action_key :: "hash_env \<Rightarrow> string \<Rightarrow> string \<Rightarrow> string \<Rightarrow> string \<Rightarrow> string \<Rightarrow> string" where
  "action_key env workflow_id version_id account_id chat hsh =
     sha256_hex env (join_with ''|'' [TELEGRAM_PUBLISH_ACTION, workflow_id, version_id,
       account_id, chat, hsh])"

end
