(* ===== verification/Telegram.thy ===== *)
theory Telegram
  imports Execution_Store
begin

text \<open>
  The Telegram connectors (\<open>execution/contracts.py\<close>, \<open>execution/telegram.py\<close>). The
  Telegram service is the argument \<open>api\<close>: what it answers to a request may depend on every
  request sent before. Every request that leaves the process is appended to
  \<open>provider_log\<close>. The interface the execution handler uses is the locale
  \<open>telegram_port\<close>, interpreted on the HTTP connector and on the fake.
\<close>

section \<open>Contracts (\<open>execution/contracts.py\<close>)\<close>

definition TELEGRAM_SECRET_REF :: string where
  "TELEGRAM_SECRET_REF = ''telegram.bot_token''"

record ConnectorReadiness =
  auth_healthy :: bool
  write_capability :: bool
  capabilities :: payload
  bot_identity :: "string option"
  readiness_error_class :: "string option"

record TelegramPublishTextCommand =
  cmd_chat_id :: string
  cmd_text :: string
  cmd_disable_notification :: bool
  cmd_protect_content :: bool

record TelegramPublishResult =
  result_message_id :: string
  result_chat_id :: string

record 'z telegram_connector =
  check_readiness :: "string \<Rightarrow> ('z store_scheme, ConnectorReadiness) prog"
  publish_text :: "TelegramPublishTextCommand \<Rightarrow> ('z store_scheme, TelegramPublishResult) prog"

section \<open>The HTTP connector (\<open>execution/telegram.py\<close>)\<close>

text \<open>
  What \<open>urlopen\<close>, reading and decoding can give: an HTTP error status, a transport failure
  (\<open>URLError\<close>, \<open>TimeoutError\<close>, \<open>OSError\<close>), a protocol failure of
  \<open>http.client\<close> (an \<open>HTTPException\<close> such as \<open>IncompleteRead\<close>, which is none of
  the former), text that is not JSON, or a JSON value.
\<close>

datatype http_outcome =
    HttpStatus int
  | TransportFailure
  | ProtocolFailure string
  | Undecodable
  | Decoded json

type_synonym telegram_api = "json list \<Rightarrow> string \<Rightarrow> payload \<Rightarrow> http_outcome"

text \<open>The exceptions of \<open>_request\<close> before its callers translate them.\<close>

datatype request_error =
    RHTTPError int
  | RTransport
  | RProtocol string
  | RValueError
  | RRejected string

definition resolve :: "string option \<Rightarrow> string \<Rightarrow> request_error + string" where
  "resolve telegram_bot_token secret_ref =
    (if secret_ref \<noteq> TELEGRAM_SECRET_REF then Inl (RRejected ''TELEGRAM_SECRET_REF_UNSUPPORTED'')
     else (case telegram_bot_token of
         None \<Rightarrow> Inl (RRejected ''TELEGRAM_CREDENTIAL_UNAVAILABLE'')
       | Some v \<Rightarrow>
           if strip v = [] then Inl (RRejected ''TELEGRAM_CREDENTIAL_UNAVAILABLE'')
           else Inr (strip v)))"

definition log_entry :: "string \<Rightarrow> payload \<Rightarrow> json" where
  "log_entry method pl = JList [JStr method, JObj pl]"

fun py_int_str :: "json \<Rightarrow> string option" where
  "py_int_str (JInt i) = Some (show_int i)"
| "py_int_str (JBool b) = Some (if b then ''True'' else ''False'')"
| "py_int_str _ = None"

text \<open>\<open>str(v)\<close> of a value that is an \<open>int\<close> or a \<open>str\<close>, nothing otherwise.\<close>

definition id_text :: "json option \<Rightarrow> string option" where
  "id_text v = (case v of None \<Rightarrow> None | Some (JStr s) \<Rightarrow> Some s | Some w \<Rightarrow> py_int_str w)"

fun decode_reply :: "http_outcome \<Rightarrow> request_error + payload" where
  "decode_reply (HttpStatus code) = Inl (RHTTPError code)"
| "decode_reply TransportFailure = Inl RTransport"
| "decode_reply (ProtocolFailure c) = Inl (RProtocol c)"
| "decode_reply Undecodable = Inl RValueError"
| "decode_reply (Decoded (JObj d)) =
    (if dict_get d ''ok'' \<noteq> Some (JBool True)
     then (case dict_get d ''error_code'' of
             Some v \<Rightarrow> (case py_int_str v of
                 Some c \<Rightarrow> Inl (RRejected (''TELEGRAM_API_'' @ c))
               | None \<Rightarrow> Inl (RRejected ''TELEGRAM_API_REJECTED''))
           | None \<Rightarrow> Inl (RRejected ''TELEGRAM_API_REJECTED''))
     else (case as_obj (dict_get d ''result'') of
             Some r \<Rightarrow> Inr r
           | None \<Rightarrow> Inl RValueError))"
| "decode_reply (Decoded _) = Inl RValueError"

definition request ::
  "telegram_api \<Rightarrow> string option \<Rightarrow> string \<Rightarrow> string \<Rightarrow> payload
     \<Rightarrow> ('z store_scheme, request_error + payload) prog" where
  "request api token secret_ref method pl =
    (case resolve token secret_ref of
       Inl e \<Rightarrow> ret (Inl e)
     | Inr _ \<Rightarrow>
         bnd (gets (\<lambda>s. api (provider_log s) method pl)) (\<lambda>outcome.
         bnd (modify (\<lambda>s. s\<lparr>provider_log := provider_log s @ [log_entry method pl]\<rparr>)) (\<lambda>_.
         ret (decode_reply outcome))))"

fun read_error :: "request_error \<Rightarrow> py_error" where
  "read_error (RHTTPError code) = TelegramConnectorRejected (''TELEGRAM_HTTP_'' @ show_int code)"
| "read_error RTransport = TelegramConnectorRejected ''TELEGRAM_READ_UNAVAILABLE''"
| "read_error (RProtocol c) = OtherError c []"
| "read_error RValueError = TelegramConnectorRejected ''TELEGRAM_INVALID_RESPONSE''"
| "read_error (RRejected m) = TelegramConnectorRejected m"

fun write_error :: "request_error \<Rightarrow> py_error" where
  "write_error (RHTTPError code) = TelegramConnectorRejected (''TELEGRAM_HTTP_'' @ show_int code)"
| "write_error RTransport = TelegramAmbiguousOutcome ''TELEGRAM_TRANSPORT_AMBIGUOUS''"
| "write_error (RProtocol c) = OtherError c []"
| "write_error RValueError = TelegramAmbiguousOutcome ''TELEGRAM_RESPONSE_AMBIGUOUS''"
| "write_error (RRejected m) = TelegramConnectorRejected m"

definition read_call ::
  "telegram_api \<Rightarrow> string option \<Rightarrow> string \<Rightarrow> string \<Rightarrow> payload \<Rightarrow> ('z store_scheme, payload) prog" where
  "read_call api token secret_ref method pl =
     bnd (request api token secret_ref method pl) (\<lambda>r.
     case r of Inl e \<Rightarrow> raise (read_error e) | Inr d \<Rightarrow> ret d)"

definition write_call ::
  "telegram_api \<Rightarrow> string option \<Rightarrow> string \<Rightarrow> string \<Rightarrow> payload \<Rightarrow> ('z store_scheme, payload) prog" where
  "write_call api token secret_ref method pl =
     bnd (request api token secret_ref method pl) (\<lambda>r.
     case r of Inl e \<Rightarrow> raise (write_error e) | Inr d \<Rightarrow> ret d)"

definition not_ready :: "string \<Rightarrow> ConnectorReadiness" where
  "not_ready e = \<lparr>auth_healthy = False, write_capability = False, capabilities = [],
     bot_identity = None, readiness_error_class = Some e\<rparr>"

definition member_readiness :: "string \<Rightarrow> payload \<Rightarrow> ConnectorReadiness" where
  "member_readiness bot_id member =
    (let status = dict_get member ''status'';
         can_post = dict_get member ''can_post_messages'';
         creator = (status = Some (JStr ''creator''));
         administrator = (status = Some (JStr ''administrator''));
         write = (creator \<or> (administrator \<and> can_post = Some (JBool True)))
     in \<lparr>auth_healthy = True, write_capability = write,
         capabilities = [(''send_message'', JBool True), (''can_post_messages'', JBool write),
           (''member_status'', JStr (case as_str status of None \<Rightarrow> ''unknown'' | Some x \<Rightarrow> x))],
         bot_identity = Some bot_id,
         readiness_error_class = (if write then None else Some ''TELEGRAM_WRITE_FORBIDDEN'')\<rparr>)"

definition http_check_readiness ::
  "telegram_api \<Rightarrow> string option \<Rightarrow> string \<Rightarrow> string \<Rightarrow> ('z store_scheme, ConnectorReadiness) prog" where
  "http_check_readiness api token secret_ref chat =
     handle_error
       (bnd (read_call api token secret_ref ''getMe'' []) (\<lambda>me.
        case id_text (dict_get me ''id'') of
          None \<Rightarrow> ret (not_ready ''TELEGRAM_INVALID_BOT_IDENTITY'')
        | Some bot_id \<Rightarrow>
            bnd (read_call api token secret_ref ''getChatMember''
                   [(''chat_id'', JStr chat), (''user_id'', the (dict_get me ''id''))]) (\<lambda>member.
            ret (member_readiness bot_id member))))
       (\<lambda>error. case error of
          TelegramConnectorRejected m \<Rightarrow> ret (not_ready m)
        | _ \<Rightarrow> raise error)"

definition send_payload :: "TelegramPublishTextCommand \<Rightarrow> payload" where
  "send_payload command =
     [(''chat_id'', JStr (cmd_chat_id command)), (''text'', JStr (cmd_text command)),
      (''disable_notification'', JBool (cmd_disable_notification command)),
      (''protect_content'', JBool (cmd_protect_content command))]"

definition sent :: "TelegramPublishTextCommand \<Rightarrow> json" where
  "sent command = log_entry ''sendMessage'' (send_payload command)"

definition http_publish_text ::
  "telegram_api \<Rightarrow> string option \<Rightarrow> string \<Rightarrow> TelegramPublishTextCommand
     \<Rightarrow> ('z store_scheme, TelegramPublishResult) prog" where
  "http_publish_text api token secret_ref command =
     bnd (write_call api token secret_ref ''sendMessage'' (send_payload command)) (\<lambda>result.
     case id_text (dict_get result ''message_id'') of
       None \<Rightarrow> raise (TelegramAmbiguousOutcome ''TELEGRAM_RESPONSE_MISSING_MESSAGE_ID'')
     | Some message_id \<Rightarrow>
         ret \<lparr>result_message_id = message_id,
              result_chat_id =
                (case as_obj (dict_get result ''chat'') of
                   None \<Rightarrow> cmd_chat_id command
                 | Some chat \<Rightarrow> (case id_text (dict_get chat ''id'') of
                       None \<Rightarrow> cmd_chat_id command
                     | Some c \<Rightarrow> c))\<rparr>)"

definition TelegramHttpConnector ::
  "telegram_api \<Rightarrow> string option \<Rightarrow> string \<Rightarrow> 'z telegram_connector" where
  "TelegramHttpConnector api token secret_ref =
     \<lparr>check_readiness = http_check_readiness api token secret_ref,
      publish_text = http_publish_text api token secret_ref\<rparr>"

section \<open>The fake connector\<close>

text \<open>Its list \<open>calls\<close> is the log of sent commands.\<close>

definition fake_publish_text ::
  "string \<Rightarrow> string option \<Rightarrow> TelegramPublishTextCommand \<Rightarrow> ('z store_scheme, TelegramPublishResult) prog" where
  "fake_publish_text message_id fail_mode command =
     bnd (modify (\<lambda>s. s\<lparr>provider_log := provider_log s @ [sent command]\<rparr>)) (\<lambda>_.
     if fail_mode = Some ''rejected'' then raise (TelegramConnectorRejected ''TELEGRAM_FAKE_REJECTED'')
     else if fail_mode = Some ''ambiguous''
     then raise (TelegramAmbiguousOutcome ''TELEGRAM_FAKE_AMBIGUOUS'')
     else ret \<lparr>result_message_id = message_id, result_chat_id = cmd_chat_id command\<rparr>)"

definition FakeTelegramConnector ::
  "string \<Rightarrow> ConnectorReadiness \<Rightarrow> string option \<Rightarrow> 'z telegram_connector" where
  "FakeTelegramConnector message_id readiness fail_mode =
     \<lparr>check_readiness = (\<lambda>chat. ret readiness),
      publish_text = fake_publish_text message_id fail_mode\<rparr>"

definition fake_ready :: ConnectorReadiness where
  "fake_ready = \<lparr>auth_healthy = True, write_capability = True,
     capabilities = [(''send_message'', JBool True), (''can_post_messages'', JBool True)],
     bot_identity = Some ''fake-bot'', readiness_error_class = None\<rparr>"

section \<open>The interface\<close>

text \<open>
  A connector touches nothing but the provider log. Publishing sends the command at most once; it
  has sent it when it returns and when it reports an ambiguous outcome.
\<close>

locale telegram_port =
  fixes connector :: "'z telegram_connector"
  assumes readiness_log: "\<exists>l. snd (check_readiness connector chat s) = s\<lparr>provider_log := provider_log s @ l\<rparr>"
    and publish_log: "snd (publish_text connector command s) = s \<or>
      snd (publish_text connector command s) = s\<lparr>provider_log := provider_log s @ [sent command]\<rparr>"
    and publish_sent: "publish_text connector command s = (Inr r, t) \<Longrightarrow>
      t = s\<lparr>provider_log := provider_log s @ [sent command]\<rparr>"
    and ambiguous_sent: "publish_text connector command s = (Inl (TelegramAmbiguousOutcome m), t) \<Longrightarrow>
      t = s\<lparr>provider_log := provider_log s @ [sent command]\<rparr>"
begin

lemma publish_frame: "tracks jobs_frame (publish_text connector command)"
proof (rule tracksI)
  fix s :: "'z store_scheme"
  show "jobs_frame s (snd (publish_text connector command s))"
    using publish_log [of command s] by (auto intro!: jobs_frame_same)
qed

lemma readiness_frame: "tracks jobs_frame (check_readiness connector chat)"
proof (rule tracksI)
  fix s :: "'z store_scheme"
  show "jobs_frame s (snd (check_readiness connector chat s))"
    using readiness_log [of chat s] by (auto intro!: jobs_frame_same)
qed

lemma publish_cases:
  obtains (returned) r where "publish_text connector command s =
      (Inr r, s\<lparr>provider_log := provider_log s @ [sent command]\<rparr>)"
  | (ambiguous) m where "publish_text connector command s =
      (Inl (TelegramAmbiguousOutcome m), s\<lparr>provider_log := provider_log s @ [sent command]\<rparr>)"
  | (raised) e where "fst (publish_text connector command s) = Inl e"
      "\<And>m. e \<noteq> TelegramAmbiguousOutcome m"
      "snd (publish_text connector command s) = s \<or>
       snd (publish_text connector command s) = s\<lparr>provider_log := provider_log s @ [sent command]\<rparr>"
proof -
  obtain x t where p: "publish_text connector command s = (x, t)" by (metis prod.exhaust)
  show thesis
  proof (cases x)
    case (Inr r)
    with p publish_sent returned show thesis by metis
  next
    case (Inl e)
    show thesis
    proof (cases "\<exists>m. e = TelegramAmbiguousOutcome m")
      case True
      with p Inl ambiguous_sent ambiguous show thesis by metis
    next
      case False
      with p Inl publish_log [of command s] raised show thesis by simp
    qed
  qed
qed

end

lemma request_run:
  "request api token secret_ref method pl s =
    (case resolve token secret_ref of
       Inl e \<Rightarrow> (Inr (Inl e), s)
     | Inr _ \<Rightarrow> (Inr (decode_reply (api (provider_log s) method pl)),
                s\<lparr>provider_log := provider_log s @ [log_entry method pl]\<rparr>))"
  by (simp add: request_def run_simps split: sum.splits)

lemma write_call_run:
  "write_call api token secret_ref method pl s =
    (case resolve token secret_ref of
       Inl e \<Rightarrow> (Inl (write_error e), s)
     | Inr _ \<Rightarrow> ((case decode_reply (api (provider_log s) method pl) of
                    Inl e \<Rightarrow> Inl (write_error e) | Inr d \<Rightarrow> Inr d),
                s\<lparr>provider_log := provider_log s @ [log_entry method pl]\<rparr>))"
  by (simp add: write_call_def request_run run_simps split: sum.splits)

lemma read_call_log: "\<exists>l. snd (read_call api token secret_ref method pl s) = s\<lparr>provider_log := provider_log s @ l\<rparr>"
  by (auto simp: read_call_def request_run run_simps split: sum.splits intro: exI [of _ "[]"])

lemma resolve_rejects: "resolve token secret_ref = Inl e \<Longrightarrow> \<exists>m. e = RRejected m"
  by (auto simp: resolve_def split: if_splits option.splits)

definition only_log :: "'z store_scheme \<Rightarrow> 'z store_scheme \<Rightarrow> bool" where
  "only_log s t \<longleftrightarrow> (\<exists>l. t = s\<lparr>provider_log := provider_log s @ l\<rparr>)"

interpretation ol: state_preorder only_log
proof
  fix s t u :: "'z store_scheme"
  show "only_log s s" by (auto simp: only_log_def intro: exI [of _ "[]"])
  assume "only_log s t" "only_log t u"
  then show "only_log s u" by (auto simp: only_log_def)
qed

lemma read_call_only_log: "tracks only_log (read_call api token secret_ref method pl)"
  using read_call_log by (auto simp: tracks_def only_log_def)

lemma http_readiness_only_log: "tracks only_log (http_check_readiness api token secret_ref chat)"
  unfolding http_check_readiness_def
  by (intro ol.t_handle ol.t_bnd ol.t_option ol.t_ret read_call_only_log)
    (auto intro: ol.t_ret ol.t_raise split: py_error.splits)

lemma http_readiness_log:
  "\<exists>l. snd (http_check_readiness api token secret_ref chat s) = s\<lparr>provider_log := provider_log s @ l\<rparr>"
  by (rule tracksD [OF http_readiness_only_log surjective_pairing, unfolded only_log_def])

interpretation http: telegram_port "TelegramHttpConnector api token secret_ref"
proof
  fix chat command s t r m
  show "\<exists>l. snd (check_readiness (TelegramHttpConnector api token secret_ref) chat s) =
      s\<lparr>provider_log := provider_log s @ l\<rparr>"
    by (simp add: TelegramHttpConnector_def) (rule http_readiness_log)
  let ?p = "publish_text (TelegramHttpConnector api token secret_ref) command"
  show "snd (?p s) = s \<or> snd (?p s) = s\<lparr>provider_log := provider_log s @ [sent command]\<rparr>"
    and "?p s = (Inr r, t) \<Longrightarrow> t = s\<lparr>provider_log := provider_log s @ [sent command]\<rparr>"
    and "?p s = (Inl (TelegramAmbiguousOutcome m), t) \<Longrightarrow>
      t = s\<lparr>provider_log := provider_log s @ [sent command]\<rparr>"
    by (auto simp: TelegramHttpConnector_def http_publish_text_def write_call_run sent_def run_simps
        dest: resolve_rejects split: sum.splits option.splits)
qed

interpretation fake: telegram_port "FakeTelegramConnector message_id readiness fail_mode"
  by unfold_locales
    (auto simp: FakeTelegramConnector_def fake_publish_text_def run_simps split: if_splits
      intro: exI [of _ "[]"])

end
