(* ===== verification/Execution_Governance.thy ===== *)
theory Execution_Governance
  imports Telegram
begin

text \<open>
  The deterministic execution controllers (\<open>execution/governance.py\<close>) and the permission
  evaluation of \<open>execution/service.py\<close>. The controllers only read the database, so they are
  functions of its state.
\<close>

section \<open>Reviews\<close>

record DeterministicExecutionReview =
  rv_controller_type :: ExecutionControllerType
  rv_verdict :: ControllerVerdict
  rv_reason :: string
  rv_conditions :: "string list"

definition verdict :: "ExecutionControllerType \<Rightarrow> ControllerVerdict \<Rightarrow> string \<Rightarrow> DeterministicExecutionReview" where
  "verdict ct v reason = \<lparr>rv_controller_type = ct, rv_verdict = v, rv_reason = reason, rv_conditions = []\<rparr>"

definition security_review :: "action_detail_row \<Rightarrow> DeterministicExecutionReview" where
  "security_review detail =
    (case no_secrets (delivery_payload detail) of
       Inl _ \<Rightarrow> verdict SECURITY BLOCK ''Secret-like material is forbidden in execution payloads.''
     | Inr _ \<Rightarrow> verdict SECURITY PASS ''Execution payload contains no secret-like material.'')"

definition privacy_review ::
  "'z exec_store_scheme \<Rightarrow> action_detail_row \<Rightarrow> datetime \<Rightarrow> DeterministicExecutionReview" where
  "privacy_review s detail now =
    (case select_first (\<lambda>r. rights_asset_version_id r = detail_asset_version_id detail) (asset_rights s) of
       None \<Rightarrow> verdict PRIVACY BLOCK ''Asset rights/provenance is required before public execution.''
     | Some rights \<Rightarrow>
         if rights_publication_restrictions rights \<noteq> []
         then verdict PRIVACY BLOCK ''Asset has unresolved publication restrictions.''
         else if (case rights_license_expires_at rights of None \<Rightarrow> False | Some t \<Rightarrow> t \<le> now)
         then verdict PRIVACY BLOCK ''Asset license has expired.''
         else if truthy (dict_get (rights_provenance rights) ''customer_content'') \<and>
                 (case rights_consent_ref rights of None \<Rightarrow> True | Some r \<Rightarrow> r = [])
         then verdict PRIVACY BLOCK ''Customer content requires an explicit consent reference.''
         else verdict PRIVACY PASS ''Rights/provenance permits public execution.'')"

definition platform_review ::
  "action_detail_row \<Rightarrow> connector_account_row \<Rightarrow> DeterministicExecutionReview" where
  "platform_review detail account =
    (if detail_provider detail \<noteq> ''telegram'' \<or> acc_provider account \<noteq> ''telegram''
     then verdict PLATFORM BLOCK ''Only Telegram text publication is supported in Phase 5/6.''
     else if (case as_str (dict_get (delivery_payload detail) ''text'') of
                None \<Rightarrow> True | Some t \<Rightarrow> t = [] \<or> 4096 < length t)
     then verdict PLATFORM BLOCK ''Telegram text must contain between 1 and 4096 characters.''
     else if acc_status account \<noteq> ''READY'' \<or> \<not> acc_auth_healthy account \<or> \<not> acc_write_capability account
          \<or> dict_get (acc_capabilities account) ''can_post_messages'' \<noteq> Some (JBool True)
     then verdict PLATFORM BLOCK ''Telegram connector is not ready for channel publication.''
     else if detail_target_chat_id detail \<noteq> acc_target_chat_id account
     then verdict PLATFORM BLOCK ''Action target does not match the governed connector target.''
     else verdict PLATFORM PASS ''Telegram target and connector readiness are valid.'')"

definition exact_version_binding :: "action_row \<Rightarrow> asset_version_row \<Rightarrow> bool" where
  "exact_version_binding action asset_v \<longleftrightarrow>
     target_object_type action = ''AssetVersion'' \<and> target_object_id action = av_asset_id asset_v \<and>
     target_object_version_id action = rid asset_v \<and>
     target_object_version action = av_version_number asset_v"

definition experiment_review ::
  "'z exec_store_scheme \<Rightarrow> action_detail_row \<Rightarrow> DeterministicExecutionReview" where
  "experiment_review s detail =
    (case select_first (\<lambda>e. experiment_decision_id e = detail_decision_id detail) (experiments s) of
       None \<Rightarrow> verdict EXECUTION PASS
         ''Action is exact-bound to the current production-ready asset version.''
     | Some experiment \<Rightarrow>
         if experiment_status experiment \<noteq> ExperimentStatus.DRAFT
         then verdict EXECUTION BLOCK
           ''Governed Experiment must be DRAFT before first external execution.''
         else
          (case select_first (\<lambda>c. cb_experiment_id c = rid experiment) (checkpoint_bindings s) of
             None \<Rightarrow> verdict EXECUTION BLOCK
               ''Governed Experiment is missing its pre-execution typed checkpoint.''
           | Some checkpoint \<Rightarrow>
               if cb_decision_id checkpoint \<noteq> detail_decision_id detail
                 \<or> cb_metric_key checkpoint \<noteq> experiment_metric experiment
               then verdict EXECUTION BLOCK
                 ''Governed Experiment checkpoint binding is inconsistent.''
               else verdict EXECUTION PASS
                 ''Action is exact-bound to the current production-ready asset version.''))"

definition execution_review ::
  "'z exec_store_scheme \<Rightarrow> action_row \<Rightarrow> action_detail_row \<Rightarrow> DeterministicExecutionReview" where
  "execution_review s action detail =
    (case (row_get rid (detail_production_workflow_id detail) (production_workflows s),
           row_get rid (detail_asset_version_id detail) (asset_versions s)) of
       (Some workflow, Some asset_v) \<Rightarrow>
         if pw_status workflow \<noteq> READY_FOR_ACTION_PROPOSAL
         then verdict EXECUTION BLOCK ''Production workflow is not ready for an action proposal.''
         else if pw_final_asset_version_id workflow \<noteq> Some (rid asset_v)
         then verdict EXECUTION BLOCK ''Action does not reference the final production asset version.''
         else if \<not> exact_version_binding action asset_v
         then verdict EXECUTION BLOCK ''Action exact-version binding is invalid.''
         else experiment_review s detail
     | _ \<Rightarrow> verdict EXECUTION BLOCK ''Production provenance is incomplete.'')"

definition cost_review :: DeterministicExecutionReview where
  "cost_review = verdict COST PASS ''This Phase 5/6 action contract creates no discretionary spend.''"

definition evaluate_execution_controllers ::
  "'z exec_store_scheme \<Rightarrow> action_row \<Rightarrow> action_detail_row \<Rightarrow> connector_account_row \<Rightarrow> datetime
     \<Rightarrow> DeterministicExecutionReview list" where
  "evaluate_execution_controllers s action detail account now =
     [security_review detail, privacy_review s detail now, platform_review detail account,
      execution_review s action detail, cost_review]"

definition reviews_pass :: "DeterministicExecutionReview list \<Rightarrow> bool" where
  "reviews_pass reviews = list_all (\<lambda>r. rv_verdict r = PASS) reviews"

section \<open>Permission\<close>

definition permission_verdict ::
  "control_row option \<Rightarrow> policy_row \<Rightarrow> DeterministicExecutionReview list \<Rightarrow> PermissionOutcome \<times> string" where
  "permission_verdict control policy reviews =
    (if (case control of None \<Rightarrow> False
         | Some c \<Rightarrow> automation_paused c \<or> execution_paused c \<or> revoke_all_write_capabilities c)
     then (PermissionOutcome.BLOCKED, ''Global execution control blocks external writes.'')
     else if \<not> reviews_pass reviews
     then (PermissionOutcome.BLOCKED, ''One or more execution controllers blocked the action.'')
     else if requires_approval policy \<or> public_visibility policy
     then (PermissionOutcome.APPROVAL_REQUIRED, ''Public Telegram publication requires explicit owner approval.'')
     else (PermissionOutcome.BLOCKED, ''Phase 5 does not permit approval bypass or autopilot.''))"

definition evaluate_permission ::
  "'y TenantScope_scheme \<Rightarrow> action_row \<Rightarrow> policy_row \<Rightarrow> DeterministicExecutionReview list
     \<Rightarrow> ('z exec_store_scheme, permission_row) prog" where
  "evaluate_permission scope action policy reviews =
     bnd (gets (global_control (business_id scope))) (\<lambda>control.
     bnd new_id (\<lambda>i.
     let (outcome, reason) = permission_verdict control policy reviews;
         evaluation = \<lparr>rid = i, org = organization_id scope, biz = business_id scope,
           perm_action_id = rid action, perm_policy_id = Some (rid policy),
           perm_outcome = outcome, perm_reason = reason\<rparr>
     in bnd (modify (\<lambda>s. s\<lparr>permission_evaluations := permission_evaluations s @ [evaluation]\<rparr>)) (\<lambda>_.
        bnd flush (\<lambda>_. ret evaluation))))"

end
