(* ===== verification/Execution.thy ===== *)
theory Execution
  imports Execution_Governance
begin

text \<open>
  Governed execution (\<open>execution/service.py\<close>): connector registration, action proposals,
  approval, the global controls and the Telegram execution handler.
\<close>

section \<open>Connector accounts and policies\<close>

definition account_values ::
  "string \<Rightarrow> string \<Rightarrow> ConnectorReadiness \<Rightarrow> datetime \<Rightarrow> connector_account_row \<Rightarrow> connector_account_row" where
  "account_values secret_ref target_chat readiness now a =
     a\<lparr>acc_secret_ref := secret_ref, acc_target_chat_id := target_chat,
       acc_auth_healthy := auth_healthy readiness, acc_write_capability := write_capability readiness,
       acc_capabilities := capabilities readiness,
       acc_status := (if auth_healthy readiness \<and> write_capability readiness then ''READY'' else ''UNAVAILABLE''),
       acc_last_checked_at := Some now, acc_last_error_class := readiness_error_class readiness,
       acc_updated_at := now\<rparr>"

definition probe_and_register_telegram_connector ::
  "'y TenantScope_scheme \<Rightarrow> string \<Rightarrow> string \<Rightarrow> 'z exec_store_ext telegram_connector \<Rightarrow> datetime \<Rightarrow> string
     \<Rightarrow> ('z exec_store_scheme, connector_account_row) prog" where
  "probe_and_register_telegram_connector scope channel_id target_chat connector now secret_ref =
     bnd (channel_for_scope scope channel_id) (\<lambda>channel.
     bnd (require (channel_provider channel = ''telegram'')
           (PermanentJobError ''Phase 5 connector registration requires a Telegram channel'')) (\<lambda>_.
     bnd (check_readiness connector target_chat) (\<lambda>readiness.
     bnd (gets (\<lambda>s. select_first (\<lambda>a. biz a = business_id scope \<and> acc_channel_id a = channel_id
            \<and> acc_provider a = ''telegram'') (connector_accounts s))) (\<lambda>existing.
     case existing of
       Some a \<Rightarrow>
         bnd (modify (\<lambda>s. s\<lparr>connector_accounts :=
                row_set rid (rid a) (account_values secret_ref target_chat readiness now)
                  (connector_accounts s)\<rparr>)) (\<lambda>_.
         bnd (touch (org a) (biz a)) (\<lambda>_.
         bnd flush (\<lambda>_. ret (account_values secret_ref target_chat readiness now a))))
     | None \<Rightarrow>
         bnd new_id (\<lambda>i.
         let account = account_values secret_ref target_chat readiness now
               \<lparr>rid = i, org = organization_id scope, biz = business_id scope,
                acc_channel_id = channel_id, acc_provider = ''telegram'',
                acc_secret_ref = secret_ref, acc_target_chat_id = target_chat,
                acc_status = ''UNAVAILABLE'', acc_auth_healthy = False,
                acc_write_capability = False, acc_capabilities = [],
                acc_last_checked_at = Some now, acc_last_error_class = None, acc_updated_at = now\<rparr>
         in bnd (modify (\<lambda>s. s\<lparr>connector_accounts := connector_accounts s @ [account]\<rparr>)) (\<lambda>_.
            bnd flush (\<lambda>_. ret account)))))))"

definition ensure_default_telegram_permission_policy ::
  "'y TenantScope_scheme \<Rightarrow> ('z exec_store_scheme, policy_row) prog" where
  "ensure_default_telegram_permission_policy scope =
     bnd (gets (\<lambda>s. select_first (\<lambda>p. org p = organization_id scope \<and> biz p = business_id scope
            \<and> policy_action_type p = TELEGRAM_PUBLISH_ACTION) (permission_policies s))) (\<lambda>existing.
     case existing of
       Some p \<Rightarrow> ret p
     | None \<Rightarrow>
         bnd new_id (\<lambda>i.
         let policy = \<lparr>rid = i, org = organization_id scope, biz = business_id scope,
               policy_action_type = TELEGRAM_PUBLISH_ACTION, policy_mode = EXECUTE_AFTER_APPROVAL,
               requires_approval = True, public_visibility = True\<rparr>
         in bnd (modify (\<lambda>s. s\<lparr>permission_policies := permission_policies s @ [policy]\<rparr>)) (\<lambda>_.
            bnd flush (\<lambda>_. ret policy))))"

section \<open>Action proposals\<close>

record ActionProposalResult =
  proposal_action :: action_row
  proposal_detail :: action_detail_row
  proposal_permission :: permission_row
  proposal_created :: bool

definition materialize_reviews ::
  "'y TenantScope_scheme \<Rightarrow> action_row \<Rightarrow> DeterministicExecutionReview list
     \<Rightarrow> ('z exec_store_scheme, unit) prog" where
  "materialize_reviews scope action reviews =
     bnd (foreach reviews (\<lambda>review.
       bnd new_id (\<lambda>i.
       modify (\<lambda>s. s\<lparr>controller_reviews := controller_reviews s @
         [\<lparr>rid = i, org = organization_id scope, biz = business_id scope,
           review_action_id = rid action, review_controller_type = rv_controller_type review,
           review_verdict = rv_verdict review, review_reason = rv_reason review,
           review_conditions = rv_conditions review\<rparr>]\<rparr>)))) (\<lambda>_. flush)"

definition proposal_payload :: "string \<Rightarrow> payload" where
  "proposal_payload txt =
     [(''text'', JStr txt), (''disable_notification'', JBool False), (''protect_content'', JBool False)]"

text \<open>The rows of a new proposal, its reviews, its permission and its audit trail.\<close>

definition insert_action_proposal ::
  "'y TenantScope_scheme \<Rightarrow> production_workflow_row \<Rightarrow> asset_version_row \<Rightarrow> connector_account_row
     \<Rightarrow> string \<Rightarrow> string \<Rightarrow> datetime \<Rightarrow> string option \<Rightarrow> ('z exec_store_scheme, ActionProposalResult) prog" where
  "insert_action_proposal scope workflow asset_v account hsh key now correlation =
     bnd new_id (\<lambda>action_id.
     let action = \<lparr>rid = action_id, org = organization_id scope, biz = business_id scope,
           action_type = TELEGRAM_PUBLISH_ACTION, target_object_type = ''AssetVersion'',
           target_object_id = av_asset_id asset_v, target_object_version_id = rid asset_v,
           target_object_version = av_version_number asset_v, action_status = PROPOSED,
           action_idempotency_key = key\<rparr>
     in bnd (modify (\<lambda>s. s\<lparr>actions := actions s @ [action]\<rparr>)) (\<lambda>_.
     bnd flush (\<lambda>_.
     bnd new_id (\<lambda>detail_id.
     let detail = \<lparr>rid = detail_id, org = organization_id scope, biz = business_id scope,
           detail_action_id = action_id, detail_production_workflow_id = rid workflow,
           detail_decision_id = pw_decision_id workflow, detail_asset_version_id = rid asset_v,
           detail_provider = ''telegram'', detail_channel_id = acc_channel_id account,
           detail_connector_account_id = rid account, detail_target_chat_id = acc_target_chat_id account,
           delivery_payload = proposal_payload (av_body asset_v), delivery_payload_hash = hsh,
           detail_correlation_id = correlation, detail_causation_id = Some (rid workflow)\<rparr>
     in bnd (modify (\<lambda>s. s\<lparr>action_details := action_details s @ [detail]\<rparr>)) (\<lambda>_.
     bnd flush (\<lambda>_.
     bnd (gets (\<lambda>s. evaluate_execution_controllers s action detail account now)) (\<lambda>reviews.
     bnd (materialize_reviews scope action reviews) (\<lambda>_.
     bnd (ensure_default_telegram_permission_policy scope) (\<lambda>policy.
     bnd (evaluate_permission scope action policy reviews) (\<lambda>permission.
     let status = (if perm_outcome permission = PermissionOutcome.BLOCKED then ActionStatus.BLOCKED
                   else ActionStatus.APPROVAL_REQUIRED)
     in bnd (set_action_status status action) (\<lambda>_.
     bnd (audit scope ''ACTION_PROPOSED'' ''ActionProposal'' action_id
            [(''action_type'', JStr TELEGRAM_PUBLISH_ACTION), (''asset_version_id'', JStr (rid asset_v)),
             (''asset_version'', JInt (av_version_number asset_v)),
             (''connector_account_id'', JStr (rid account)), (''delivery_payload_hash'', JStr hsh)]
            None (or_else correlation action_id) (Some (rid workflow))) (\<lambda>_.
     bnd (audit scope ''PERMISSION_EVALUATED'' ''ActionProposal'' action_id
            [(''outcome'', JStr (permission_outcome_value (perm_outcome permission)))]
            None (or_else correlation action_id) (Some action_id)) (\<lambda>_.
     bnd flush (\<lambda>_.
     ret \<lparr>proposal_action = action\<lparr>action_status := status\<rparr>, proposal_detail = detail,
          proposal_permission = permission, proposal_created = True\<rparr>))))))))))))))"

definition create_action_proposal ::
  "hash_env \<Rightarrow> 'y TenantScope_scheme \<Rightarrow> string \<Rightarrow> string \<Rightarrow> datetime \<Rightarrow> string option
     \<Rightarrow> ('z exec_store_scheme, ActionProposalResult) prog" where
  "create_action_proposal env scope workflow_id account_id now correlation =
     bnd (gets (\<lambda>s. row_get rid workflow_id (production_workflows s))) (\<lambda>wf.
     bnd (required wf (PermanentJobError (''ProductionWorkflow not found: '' @ workflow_id))) (\<lambda>workflow.
     bnd (check_scope scope (org workflow) (biz workflow)) (\<lambda>_.
     bnd (require (pw_status workflow = READY_FOR_ACTION_PROPOSAL)
           (PermanentJobError ''production workflow is not ready for an action proposal'')) (\<lambda>_.
     bnd (required (pw_final_asset_version_id workflow)
           (PermanentJobError ''production workflow has no final asset version'')) (\<lambda>final_id.
     bnd (gets (\<lambda>s. row_get rid final_id (asset_versions s))) (\<lambda>av.
     bnd (required av (PermanentJobError ''final AssetVersion not found'')) (\<lambda>asset_v.
     bnd (check_scope scope (org asset_v) (biz asset_v)) (\<lambda>_.
     bnd (gets (\<lambda>s. row_get rid account_id (connector_accounts s))) (\<lambda>acc.
     bnd (required acc (PermanentJobError (''ConnectorAccount not found: '' @ account_id))) (\<lambda>account.
     bnd (check_scope scope (org account) (biz account)) (\<lambda>_.
     bnd (check_no_secrets (proposal_payload (av_body asset_v))) (\<lambda>_.
     let hsh = payload_hash env (proposal_payload (av_body asset_v));
         key = action_key env (rid workflow) (rid asset_v) (rid account) (acc_target_chat_id account) hsh
     in bnd (gets (\<lambda>s. select_first (\<lambda>a. action_idempotency_key a = key) (actions s))) (\<lambda>existing.
     case existing of
       Some a \<Rightarrow>
         bnd (action_detail (rid a)) (\<lambda>detail.
         bnd (permission_evaluation (rid a)) (\<lambda>permission.
         ret \<lparr>proposal_action = a, proposal_detail = detail, proposal_permission = permission,
              proposal_created = False\<rparr>))
     | None \<Rightarrow> insert_action_proposal scope workflow asset_v account hsh key now correlation)))))))))))))"

section \<open>Binding and preflight\<close>

text \<open>\<open>_assert_current_action_binding\<close>: the reason it raises with, nothing when it returns.\<close>

definition binding_error ::
  "hash_env \<Rightarrow> 'z exec_store_scheme \<Rightarrow> action_row \<Rightarrow> action_detail_row \<Rightarrow> string option" where
  "binding_error env s action detail =
    (case (row_get rid (detail_production_workflow_id detail) (production_workflows s),
           row_get rid (detail_asset_version_id detail) (asset_versions s)) of
       (Some workflow, Some asset_v) \<Rightarrow>
         if pw_status workflow \<noteq> READY_FOR_ACTION_PROPOSAL
         then Some ''production workflow is no longer execution-ready''
         else if pw_final_asset_version_id workflow \<noteq> Some (detail_asset_version_id detail)
         then Some ''ActionProposal is stale against final AssetVersion''
         else if \<not> exact_version_binding action asset_v
         then Some ''ActionProposal exact-version binding changed''
         else if dict_get (delivery_payload detail) ''text'' \<noteq> Some (JStr (av_body asset_v))
         then Some ''ActionProposal payload differs from immutable AssetVersion''
         else if payload_hash env (delivery_payload detail) \<noteq> delivery_payload_hash detail
         then Some ''ActionProposal payload hash mismatch''
         else None
     | _ \<Rightarrow> Some ''production binding no longer exists'')"

definition assert_current_action_binding ::
  "hash_env \<Rightarrow> action_row \<Rightarrow> action_detail_row \<Rightarrow> ('z exec_store_scheme, unit) prog" where
  "assert_current_action_binding env action detail =
     bnd (gets (\<lambda>s. binding_error env s action detail)) (\<lambda>e.
     case e of None \<Rightarrow> ret () | Some m \<Rightarrow> raise (PermanentJobError m))"

text \<open>The part of \<open>_preflight_block_reason\<close> after the permission has been read.\<close>

definition preflight_checks ::
  "hash_env \<Rightarrow> 'z exec_store_scheme \<Rightarrow> permission_row \<Rightarrow> action_row \<Rightarrow> action_detail_row
     \<Rightarrow> approval_row \<Rightarrow> connector_account_row \<Rightarrow> string option" where
  "preflight_checks env s permission action detail approval account =
    (let control = global_control (biz action) s;
         paused = (\<lambda>f. case control of None \<Rightarrow> False | Some c \<Rightarrow> f c)
     in if perm_outcome permission \<noteq> PermissionOutcome.APPROVAL_REQUIRED
        then Some ''permission_not_execution_eligible''
        else if select_first (\<lambda>r. review_action_id r = rid action \<and> review_verdict r \<noteq> PASS)
                  (controller_reviews s) \<noteq> None
        then Some ''execution_controller_not_passed''
        else if paused revoke_all_write_capabilities
        then Some ''blocked_by_revoke_all_write_capabilities''
        else if paused execution_paused then Some ''blocked_by_global_execution_pause''
        else if paused automation_paused then Some ''blocked_by_automation_pause''
        else if appr_status approval \<noteq> ApprovalStatus.APPROVED then Some ''approval_not_active''
        else if \<not> approval_matches_action approval action then Some ''stale_or_mismatched_approval''
        else if binding_error env s action detail \<noteq> None then Some ''stale_or_mismatched_asset_version''
        else if acc_status account \<noteq> ''READY'' \<or> \<not> acc_auth_healthy account
                \<or> \<not> acc_write_capability account
        then Some ''connector_not_ready''
        else if acc_target_chat_id account \<noteq> detail_target_chat_id detail
        then Some ''connector_target_changed''
        else if (case select_first (\<lambda>e. experiment_decision_id e = detail_decision_id detail)
                        (experiments s) of
                   None \<Rightarrow> False | Some e \<Rightarrow> experiment_status e \<noteq> ExperimentStatus.DRAFT)
        then Some ''experiment_not_draft''
        else if payload_hash env (delivery_payload detail) \<noteq> delivery_payload_hash detail
        then Some ''action_payload_hash_mismatch''
        else None)"

definition preflight_block_reason ::
  "hash_env \<Rightarrow> action_row \<Rightarrow> action_detail_row \<Rightarrow> approval_row \<Rightarrow> connector_account_row
     \<Rightarrow> ('z exec_store_scheme, string option) prog" where
  "preflight_block_reason env action detail approval account =
     bnd (permission_evaluation (rid action)) (\<lambda>permission.
     gets (\<lambda>s. preflight_checks env s permission action detail approval account))"

section \<open>Approval\<close>

record ApprovalExecutionResult =
  approved_approval :: approval_row
  approved_execution :: execution_row
  approved_job_id :: string
  approved_created :: bool

text \<open>The active approval of the exact version, or a new one.\<close>

definition obtain_approval ::
  "'y TenantScope_scheme \<Rightarrow> action_row \<Rightarrow> action_detail_row \<Rightarrow> string \<Rightarrow> datetime
     \<Rightarrow> ('z exec_store_scheme, approval_row \<times> bool) prog" where
  "obtain_approval scope action detail user_id now =
     bnd (gets (\<lambda>s. select_first (\<lambda>p. appr_action_id p = rid action \<and>
            appr_action_type p = action_type action \<and>
            appr_object_version_id p = target_object_version_id action \<and>
            appr_status p = ApprovalStatus.APPROVED) (approvals s))) (\<lambda>existing.
     case existing of
       Some p \<Rightarrow> ret (p, False)
     | None \<Rightarrow>
         bnd new_id (\<lambda>i.
         let approval = \<lparr>rid = i, org = organization_id scope, biz = business_id scope,
               appr_action_id = rid action, appr_action_type = action_type action,
               appr_object_type = target_object_type action, appr_object_id = target_object_id action,
               appr_object_version_id = target_object_version_id action,
               appr_object_version = target_object_version action,
               appr_approved_by_user_id = user_id, appr_status = ApprovalStatus.APPROVED,
               appr_created_at = now\<rparr>
         in bnd (modify (\<lambda>s. s\<lparr>approvals := approvals s @ [approval]\<rparr>)) (\<lambda>_.
            bnd flush (\<lambda>_.
            bnd (audit scope ''ACTION_APPROVED'' ''ActionProposal'' (rid action)
                   [(''approval_id'', JStr i), (''asset_version_id'', JStr (target_object_version_id action)),
                    (''asset_version'', JInt (target_object_version action))]
                   (Some user_id) (or_else (detail_correlation_id detail) (rid action)) (Some (rid action))) (\<lambda>_.
            ret (approval, True))))))"

definition obtain_execution ::
  "'y TenantScope_scheme \<Rightarrow> action_row \<Rightarrow> approval_row \<Rightarrow> ('z exec_store_scheme, execution_row) prog" where
  "obtain_execution scope action approval =
     bnd (gets (\<lambda>s. select_first (\<lambda>e. exec_action_id e = rid action) (executions s))) (\<lambda>existing.
     case existing of
       Some e \<Rightarrow> ret e
     | None \<Rightarrow>
         bnd new_id (\<lambda>i.
         let execution = \<lparr>rid = i, org = organization_id scope, biz = business_id scope,
               exec_action_id = rid action, exec_approval_id = Some (rid approval),
               exec_status = ExecutionStatus.PENDING, exec_idempotency_key = ''execution:'' @ rid action,
               exec_external_reference = None\<rparr>
         in bnd (modify (\<lambda>s. s\<lparr>executions := executions s @ [execution]\<rparr>)) (\<lambda>_.
            bnd flush (\<lambda>_. ret execution))))"

definition approve_action_proposal ::
  "hash_env \<Rightarrow> 'y TenantScope_scheme \<Rightarrow> string \<Rightarrow> string \<Rightarrow> datetime
     \<Rightarrow> ('z exec_store_scheme, ApprovalExecutionResult) prog" where
  "approve_action_proposal env scope aid user_id now =
     bnd (gets (\<lambda>s. row_get rid aid (actions s))) (\<lambda>found.
     bnd (required found (PermanentJobError (''ActionProposal not found: '' @ aid))) (\<lambda>action.
     bnd (check_scope scope (org action) (biz action)) (\<lambda>_.
     bnd (assert_owner scope user_id) (\<lambda>_.
     bnd (require (action_status action \<in> {ActionStatus.APPROVAL_REQUIRED, ActionStatus.APPROVED})
           (PermanentJobError ''ActionProposal is not approval-eligible'')) (\<lambda>_.
     bnd (action_detail (rid action)) (\<lambda>detail.
     bnd (permission_evaluation (rid action)) (\<lambda>permission.
     bnd (require (perm_outcome permission = PermissionOutcome.APPROVAL_REQUIRED)
           (PermanentJobError ''Permission Engine did not require owner approval'')) (\<lambda>_.
     bnd (assert_current_action_binding env action detail) (\<lambda>_.
     bnd (obtain_approval scope action detail user_id now) (\<lambda>(approval, created).
     bnd (set_action_status ActionStatus.APPROVED action) (\<lambda>_.
     bnd (obtain_execution scope action approval) (\<lambda>execution.
     bnd (create_job scope JOB_TYPE_EXECUTION_TELEGRAM_PUBLISH
            [(''payload_schema_version'', JInt 1), (''action_id'', JStr (rid action)),
             (''execution_id'', JStr (rid execution))]
            1 (''telegram-execution:'' @ rid execution) now 1 None
            (Some (or_else (detail_correlation_id detail) (rid action))) (Some (rid approval))) (\<lambda>job.
     bnd (enqueue (rid job)) (\<lambda>_.
     bnd flush (\<lambda>_.
     ret \<lparr>approved_approval = approval, approved_execution = execution, approved_job_id = rid job,
          approved_created = created\<rparr>)))))))))))))))"

section \<open>Global controls\<close>

definition control_values ::
  "string \<Rightarrow> datetime \<Rightarrow> bool option \<Rightarrow> bool option \<Rightarrow> bool option \<Rightarrow> control_row \<Rightarrow> control_row" where
  "control_values user_id now automation execution revoke c =
     c\<lparr>automation_paused := (case automation of None \<Rightarrow> automation_paused c | Some b \<Rightarrow> b),
       execution_paused := (case execution of None \<Rightarrow> execution_paused c | Some b \<Rightarrow> b),
       revoke_all_write_capabilities :=
         (case revoke of None \<Rightarrow> revoke_all_write_capabilities c | Some b \<Rightarrow> b),
       control_updated_by_user_id := Some user_id, control_updated_at := now\<rparr>"

definition set_global_execution_controls ::
  "'y TenantScope_scheme \<Rightarrow> string \<Rightarrow> datetime \<Rightarrow> bool option \<Rightarrow> bool option \<Rightarrow> bool option
     \<Rightarrow> ('z exec_store_scheme, control_row) prog" where
  "set_global_execution_controls scope user_id now automation execution revoke =
     bnd (assert_owner scope user_id) (\<lambda>_.
     bnd (gets (global_control (business_id scope))) (\<lambda>existing.
     case existing of
       Some c \<Rightarrow>
         bnd (modify (\<lambda>s. s\<lparr>global_controls := row_set rid (rid c)
                (control_values user_id now automation execution revoke) (global_controls s)\<rparr>)) (\<lambda>_.
         bnd (touch (org c) (biz c)) (\<lambda>_.
         bnd flush (\<lambda>_. ret (control_values user_id now automation execution revoke c))))
     | None \<Rightarrow>
         bnd new_id (\<lambda>i.
         let control = control_values user_id now automation execution revoke
               \<lparr>rid = i, org = organization_id scope, biz = business_id scope,
                automation_paused = False, execution_paused = False,
                revoke_all_write_capabilities = False,
                control_updated_by_user_id = Some user_id, control_updated_at = now\<rparr>
         in bnd (modify (\<lambda>s. s\<lparr>global_controls := global_controls s @ [control]\<rparr>)) (\<lambda>_.
            bnd flush (\<lambda>_. ret control)))))"

section \<open>The Telegram execution handler\<close>

text \<open>
  The two unique constraints of \<open>external_references\<close>: the flush after the insert raises
  \<open>IntegrityError\<close> when a row with the same provider, account, object type and external
  identifier, or with the same execution, exists.
\<close>

definition insert_external_reference ::
  "external_reference_row \<Rightarrow> ('z exec_store_scheme, unit) prog" where
  "insert_external_reference r =
     bnd (gets (\<lambda>s. select_first (\<lambda>q.
            (ref_provider q = ref_provider r \<and> ref_connector_account_id q = ref_connector_account_id r \<and>
             ref_external_object_type q = ref_external_object_type r \<and> ref_external_id q = ref_external_id r)
            \<or> ref_execution_id q = ref_execution_id r) (external_references s))) (\<lambda>clash.
     if clash \<noteq> None then raise (OtherError ''IntegrityError'' ''uq_external_reference'')
     else bnd (modify (\<lambda>s. s\<lparr>external_references := external_references s @ [r]\<rparr>)) (\<lambda>_. flush))"

definition correlation_of :: "action_row \<Rightarrow> action_detail_row \<Rightarrow> string" where
  "correlation_of action detail = or_else (detail_correlation_id detail) (rid action)"

definition execution_audit ::
  "RuntimeJobContext \<Rightarrow> string \<Rightarrow> payload \<Rightarrow> action_row \<Rightarrow> action_detail_row \<Rightarrow> execution_row
     \<Rightarrow> approval_row \<Rightarrow> ('z exec_store_scheme, unit) prog" where
  "execution_audit context act pl action detail execution approval =
     audit context act ''Execution'' (rid execution) pl None (correlation_of action detail)
       (Some (rid approval))"

definition block_execution ::
  "RuntimeJobContext \<Rightarrow> string \<Rightarrow> action_row \<Rightarrow> action_detail_row \<Rightarrow> execution_row \<Rightarrow> approval_row
     \<Rightarrow> ('z exec_store_scheme, unit) prog" where
  "block_execution context reason action detail execution approval =
     bnd (set_execution_status ExecutionStatus.BLOCKED execution) (\<lambda>_.
     bnd (set_action_status ActionStatus.BLOCKED action) (\<lambda>_.
     bnd (execution_audit context ''EXECUTION_BLOCKED'' [(''reason'', JStr reason)]
            action detail execution approval) (\<lambda>_.
     flush)))"

definition adopt_reference ::
  "action_row \<Rightarrow> execution_row \<Rightarrow> external_reference_row \<Rightarrow> ('z exec_store_scheme, unit) prog" where
  "adopt_reference action execution reference =
     bnd (update_execution (rid execution) (\<lambda>e. e\<lparr>exec_status := ExecutionStatus.SUCCEEDED,
            exec_external_reference := Some (ref_external_id reference)\<rparr>)) (\<lambda>_.
     bnd (touch (org execution) (biz execution)) (\<lambda>_.
     bnd (set_action_status EXECUTED action) (\<lambda>_. flush)))"

definition publish_command :: "action_detail_row \<Rightarrow> string \<Rightarrow> TelegramPublishTextCommand" where
  "publish_command detail txt =
     \<lparr>cmd_chat_id = detail_target_chat_id detail, cmd_text = txt,
      cmd_disable_notification = truthy (dict_get (delivery_payload detail) ''disable_notification''),
      cmd_protect_content = truthy (dict_get (delivery_payload detail) ''protect_content'')\<rparr>"

definition start_experiment ::
  "RuntimeJobContext \<Rightarrow> string \<Rightarrow> action_row \<Rightarrow> action_detail_row \<Rightarrow> execution_row
     \<Rightarrow> ('z exec_store_scheme, unit) prog" where
  "start_experiment context publication_id action detail execution =
     bnd (gets (\<lambda>s. select_first (\<lambda>e. experiment_decision_id e = detail_decision_id detail)
            (experiments s))) (\<lambda>found.
     case found of
       None \<Rightarrow> ret ()
     | Some experiment \<Rightarrow>
         bnd (update_experiment (rid experiment) (\<lambda>e. e\<lparr>experiment_status := ExperimentStatus.RUNNING\<rparr>)) (\<lambda>_.
         bnd (touch (org experiment) (biz experiment)) (\<lambda>_.
         audit context ''EXPERIMENT_STARTED'' ''Experiment'' (rid experiment)
           [(''publication_id'', JStr publication_id), (''action_id'', JStr (rid action))]
           None (correlation_of action detail) (Some (rid execution)))))"

text \<open>What follows a successful send: the publication and its reference, then the outcome.\<close>

definition insert_publication ::
  "RuntimeJobContext \<Rightarrow> datetime \<Rightarrow> TelegramPublishResult \<Rightarrow> action_row \<Rightarrow> action_detail_row \<Rightarrow> execution_row
     \<Rightarrow> connector_account_row \<Rightarrow> ('z exec_store_scheme, string \<times> string) prog" where
  "insert_publication context now result action detail execution account =
     bnd new_id (\<lambda>publication_id.
     bnd (modify (\<lambda>s. s\<lparr>publications := publications s @
            [\<lparr>rid = publication_id, org = organization_id context, biz = business_id context,
              pub_asset_version_id = detail_asset_version_id detail,
              pub_channel_id = detail_channel_id detail,
              pub_status = PublicationStatus.PUBLISHED, pub_published_at = Some now\<rparr>]\<rparr>)) (\<lambda>_.
     bnd flush (\<lambda>_.
     bnd new_id (\<lambda>reference_id.
     bnd (insert_external_reference
            \<lparr>rid = reference_id, org = organization_id context, biz = business_id context,
             ref_provider = ''telegram'', ref_connector_account_id = rid account,
             ref_channel_id = detail_channel_id detail, ref_external_object_type = ''message'',
             ref_external_id = result_message_id result,
             ref_external_parent_id = Some (result_chat_id result),
             ref_action_id = rid action, ref_execution_id = rid execution\<rparr>) (\<lambda>_.
     bnd new_id (\<lambda>link_id.
     bnd (modify (\<lambda>s. s\<lparr>publication_links := publication_links s @
            [\<lparr>rid = link_id, org = organization_id context, biz = business_id context,
              link_publication_id = publication_id, link_action_id = rid action,
              link_execution_id = rid execution, link_external_reference_id = reference_id\<rparr>]\<rparr>)) (\<lambda>_.
     bnd (touch (organization_id context) (business_id context)) (\<lambda>_.
     bnd (start_experiment context publication_id action detail execution) (\<lambda>_.
     ret (publication_id, reference_id))))))))))"

definition finish_execution ::
  "RuntimeJobContext \<Rightarrow> datetime \<Rightarrow> TelegramPublishResult \<Rightarrow> string \<Rightarrow> string \<Rightarrow> action_row
     \<Rightarrow> action_detail_row \<Rightarrow> execution_row \<Rightarrow> approval_row \<Rightarrow> ('z exec_store_scheme, unit) prog" where
  "finish_execution context now result publication_id reference_id action detail execution approval =
     bnd (update_execution (rid execution) (\<lambda>e. e\<lparr>exec_status := ExecutionStatus.SUCCEEDED,
            exec_external_reference := Some (result_message_id result)\<rparr>)) (\<lambda>_.
     bnd (touch (org execution) (biz execution)) (\<lambda>_.
     bnd (set_action_status EXECUTED action) (\<lambda>_.
     bnd (execution_audit context ''EXECUTION_SUCCEEDED''
            [(''provider'', JStr ''telegram''), (''publication_id'', JStr publication_id),
             (''external_reference_id'', JStr reference_id)] action detail execution approval) (\<lambda>_.
     bnd (outbox context ''telegram.publication.executed'' ''Publication'' publication_id
            [(''action_id'', JStr (rid action)), (''execution_id'', JStr (rid execution)),
             (''publication_id'', JStr publication_id), (''external_reference_id'', JStr reference_id)]
            now (correlation_of action detail) (Some (rid execution))) (\<lambda>_.
     flush)))))"

definition record_publication ::
  "RuntimeJobContext \<Rightarrow> datetime \<Rightarrow> TelegramPublishResult \<Rightarrow> action_row \<Rightarrow> action_detail_row \<Rightarrow> execution_row
     \<Rightarrow> approval_row \<Rightarrow> connector_account_row \<Rightarrow> ('z exec_store_scheme, unit) prog" where
  "record_publication context now result action detail execution approval account =
     bnd (insert_publication context now result action detail execution account)
       (\<lambda>(publication_id, reference_id).
          finish_execution context now result publication_id reference_id action detail execution approval)"

text \<open>The send itself and its outcomes.\<close>

definition start_execution ::
  "RuntimeJobContext \<Rightarrow> action_row \<Rightarrow> action_detail_row \<Rightarrow> execution_row \<Rightarrow> approval_row
     \<Rightarrow> ('z exec_store_scheme, unit) prog" where
  "start_execution context action detail execution approval =
     bnd (set_execution_status ExecutionStatus.RUNNING execution) (\<lambda>_.
     bnd (execution_audit context ''EXECUTION_STARTED''
            [(''provider'', JStr ''telegram''), (''action_id'', JStr (rid action)),
             (''delivery_payload_hash'', JStr (delivery_payload_hash detail))]
            action detail execution approval) (\<lambda>_.
     flush))"

definition record_ambiguous ::
  "RuntimeJobContext \<Rightarrow> string \<Rightarrow> action_row \<Rightarrow> action_detail_row \<Rightarrow> execution_row \<Rightarrow> approval_row
     \<Rightarrow> ('z exec_store_scheme, unit) prog" where
  "record_ambiguous context m action detail execution approval =
     bnd (set_execution_status UNKNOWN_EXTERNAL_OUTCOME execution) (\<lambda>_.
     bnd (execution_audit context ''EXECUTION_UNKNOWN_EXTERNAL_OUTCOME''
            [(''error_class'', JStr m)] action detail execution approval) (\<lambda>_.
     flush))"

definition record_rejected ::
  "RuntimeJobContext \<Rightarrow> string \<Rightarrow> action_row \<Rightarrow> action_detail_row \<Rightarrow> execution_row \<Rightarrow> approval_row
     \<Rightarrow> ('z exec_store_scheme, unit) prog" where
  "record_rejected context m action detail execution approval =
     bnd (set_execution_status ExecutionStatus.FAILED execution) (\<lambda>_.
     bnd (set_action_status ActionStatus.BLOCKED action) (\<lambda>_.
     bnd (execution_audit context ''EXECUTION_FAILED_SAFE''
            [(''error_class'', JStr m)] action detail execution approval) (\<lambda>_.
     flush)))"

definition send_and_record ::
  "'z exec_store_ext telegram_connector \<Rightarrow> RuntimeJobContext \<Rightarrow> datetime \<Rightarrow> string \<Rightarrow> action_row
     \<Rightarrow> action_detail_row \<Rightarrow> execution_row \<Rightarrow> approval_row \<Rightarrow> connector_account_row
     \<Rightarrow> ('z exec_store_scheme, unit) prog" where
  "send_and_record connector context now txt action detail execution approval account =
     bnd (start_execution context action detail execution approval) (\<lambda>_.
     bnd (handle_error
           (bnd (publish_text connector (publish_command detail txt)) (\<lambda>r. ret (Some r)))
           (\<lambda>error. case error of
              TelegramAmbiguousOutcome m \<Rightarrow>
                bnd (record_ambiguous context m action detail execution approval) (\<lambda>_. ret None)
            | TelegramConnectorRejected m \<Rightarrow>
                bnd (record_rejected context m action detail execution approval) (\<lambda>_. ret None)
            | _ \<Rightarrow> raise error)) (\<lambda>outcome.
     case outcome of
       None \<Rightarrow> ret ()
     | Some result \<Rightarrow>
         record_publication context now result action detail execution approval account))"

definition after_preflight ::
  "'z exec_store_ext telegram_connector \<Rightarrow> RuntimeJobContext \<Rightarrow> datetime \<Rightarrow> action_row \<Rightarrow> action_detail_row
     \<Rightarrow> execution_row \<Rightarrow> approval_row \<Rightarrow> connector_account_row \<Rightarrow> string option
     \<Rightarrow> ('z exec_store_scheme, unit) prog" where
  "after_preflight connector context now action detail execution approval account block_reason =
    (case block_reason of
       Some reason \<Rightarrow> block_execution context reason action detail execution approval
     | None \<Rightarrow>
         bnd (gets (\<lambda>s. select_first (\<lambda>r. ref_execution_id r = rid execution)
                (external_references s))) (\<lambda>existing.
         case existing of
           Some reference \<Rightarrow> adopt_reference action execution reference
         | None \<Rightarrow>
             bnd (required (as_str (dict_get (delivery_payload detail) ''text''))
                   (PermanentJobError ''governed Telegram text payload is invalid'')) (\<lambda>txt.
             send_and_record connector context now txt action detail execution approval account)))"

definition execute_action ::
  "hash_env \<Rightarrow> 'z exec_store_ext telegram_connector \<Rightarrow> RuntimeJobContext \<Rightarrow> datetime \<Rightarrow> action_row
     \<Rightarrow> execution_row \<Rightarrow> ('z exec_store_scheme, unit) prog" where
  "execute_action env connector context now action execution =
     bnd (action_detail (rid action)) (\<lambda>detail.
     bnd (execution_approval execution) (\<lambda>approval.
     bnd (gets (\<lambda>s. row_get rid (detail_connector_account_id detail) (connector_accounts s))) (\<lambda>acc.
     bnd (required acc (PermanentJobError ''ConnectorAccount not found during execution'')) (\<lambda>account.
     bnd (preflight_block_reason env action detail approval account)
       (after_preflight connector context now action detail execution approval account)))))"

definition dispatch_execution ::
  "hash_env \<Rightarrow> 'z exec_store_ext telegram_connector \<Rightarrow> RuntimeJobContext \<Rightarrow> datetime
     \<Rightarrow> action_row option \<times> execution_row option \<Rightarrow> ('z exec_store_scheme, unit) prog" where
  "dispatch_execution env connector context now found =
    (case found of
       (Some action, Some execution) \<Rightarrow>
         bnd (check_scope context (org action) (biz action)) (\<lambda>_.
         bnd (check_scope context (org execution) (biz execution)) (\<lambda>_.
         bnd (require (exec_action_id execution = rid action)
               (PermanentJobError ''Execution is not bound to ActionProposal'')) (\<lambda>_.
         if exec_status execution \<in> {ExecutionStatus.SUCCEEDED, UNKNOWN_EXTERNAL_OUTCOME}
         then ret ()
         else execute_action env connector context now action execution)))
     | _ \<Rightarrow> raise (PermanentJobError ''ActionProposal or Execution not found''))"

definition TelegramExecutionHandler_handle ::
  "hash_env \<Rightarrow> 'z exec_store_ext telegram_connector \<Rightarrow> RuntimeJobContext \<Rightarrow> payload \<Rightarrow> datetime
     \<Rightarrow> ('z exec_store_scheme, unit) prog" where
  "TelegramExecutionHandler_handle env connector context pl now =
     bnd (check_no_secrets pl) (\<lambda>_.
     bnd (require (equals_int (dict_get pl ''payload_schema_version'') 1)
           (PermanentJobError ''Telegram execution payload_schema_version must be 1'')) (\<lambda>_.
     bnd (required (as_str (dict_get pl ''action_id''))
           (PermanentJobError ''action_id and execution_id are required'')) (\<lambda>aid.
     bnd (required (as_str (dict_get pl ''execution_id''))
           (PermanentJobError ''action_id and execution_id are required'')) (\<lambda>eid.
     bnd (gets (\<lambda>s. (row_get rid aid (actions s), row_get rid eid (executions s))))
       (dispatch_execution env connector context now)))))"

end
