(* ===== verification/Execution_Safety.thy ===== *)
theory Execution_Safety
  imports Execution
begin

text \<open>
  What governed execution guarantees: nothing is sent unless every gate is open, what is sent is
  the approved text, each execution is sent at most once unless the provider has refused it, and
  the outcome of every send is recorded. The handler is shown to honour the contract of the
  runtime, for every connector that honours \<open>telegram_port\<close>.
\<close>

section \<open>Frames\<close>

text \<open>The handler leaves existing jobs alone.\<close>

lemma exec_modify_frame:
  "(\<And>s. jobs (f s) = jobs s \<and> uuids (f s) = uuids s \<and> uuid_pos (f s) = uuid_pos s \<and>
     sql_jobs (f s) = sql_jobs s) \<Longrightarrow> tracks jobs_frame (modify f)"
  by (rule jobs_frame_modify)

lemmas exec_primitive_defs = update_action_def update_execution_def update_experiment_def
  set_action_status_def set_execution_status_def action_detail_def permission_evaluation_def
  execution_approval_def assert_owner_def channel_for_scope_def audit_def outbox_def

lemma audit_frame: "tracks jobs_frame (audit scope act ot oid pl actor co ca)"
  unfolding audit_def by (intro frame_rules)

lemma outbox_frame: "tracks jobs_frame (outbox scope et ag aid pl now co ca)"
  unfolding outbox_def by (intro frame_rules)

lemma set_action_status_frame: "tracks jobs_frame (set_action_status st a)"
  unfolding set_action_status_def update_action_def by (intro frame_rules exec_modify_frame) simp

lemma set_execution_status_frame: "tracks jobs_frame (set_execution_status st e)"
  unfolding set_execution_status_def update_execution_def by (intro frame_rules exec_modify_frame) simp

lemma update_execution_frame: "tracks jobs_frame (update_execution i f)"
  unfolding update_execution_def by (rule exec_modify_frame) simp

lemma update_experiment_frame: "tracks jobs_frame (update_experiment i f)"
  unfolding update_experiment_def by (rule exec_modify_frame) simp

lemma execution_audit_frame: "tracks jobs_frame (execution_audit context act pl a d e p)"
  unfolding execution_audit_def by (rule audit_frame)

lemmas exec_frames = frame_rules audit_frame outbox_frame set_action_status_frame
  set_execution_status_frame update_execution_frame update_experiment_frame execution_audit_frame

lemma insert_external_reference_frame: "tracks jobs_frame (insert_external_reference r)"
  unfolding insert_external_reference_def by (intro exec_frames exec_modify_frame) simp

lemma start_experiment_frame: "tracks jobs_frame (start_experiment context pid a d e)"
  unfolding start_experiment_def by (intro exec_frames)

lemma record_publication_frame: "tracks jobs_frame (record_publication context now r a d e p c)"
  unfolding record_publication_def insert_publication_def finish_execution_def
  by (intro exec_frames insert_external_reference_frame start_experiment_frame exec_modify_frame) simp_all

section \<open>The provider log\<close>

text \<open>Only \<open>publish_text\<close> appends to the provider log; everything else leaves it alone.\<close>

definition same_log :: "'z store_scheme \<Rightarrow> 'z store_scheme \<Rightarrow> bool" where
  "same_log s t \<longleftrightarrow> provider_log t = provider_log s"

interpretation sl: state_preorder same_log
  by unfold_locales (simp_all add: same_log_def)

lemma log_modify: "(\<And>s. provider_log (f s) = provider_log s) \<Longrightarrow> tracks same_log (modify f)"
  by (rule sl.t_modify) (simp add: same_log_def)

lemma log_primitives:
  "tracks same_log new_id" "tracks same_log flush" "tracks same_log (touch og bz)"
  "tracks same_log (enqueue i)" "tracks same_log (check_scope scope og bz)"
  "tracks same_log (check_no_secrets pl)" "tracks same_log (add_audit r)"
  "tracks same_log (add_outbox q)"
  by (auto simp: tracks_def same_log_def run_simps add_audit_def add_outbox_def)

lemmas log_rules = sl.t_rules log_primitives

lemma log_audit: "tracks same_log (audit scope act ot oid pl actor co ca)"
  unfolding audit_def by (intro log_rules)

lemma log_outbox: "tracks same_log (outbox scope et ag aid pl now co ca)"
  unfolding outbox_def by (intro log_rules)

lemma log_updates:
  "tracks same_log (update_execution i f)" "tracks same_log (update_experiment i g)"
  "tracks same_log (update_action i h)" "tracks same_log (set_action_status st a)"
  "tracks same_log (set_execution_status st' e)"
  "tracks same_log (execution_audit context act pl a d e p)"
  unfolding update_execution_def update_experiment_def update_action_def set_action_status_def
    set_execution_status_def execution_audit_def
  by (intro log_rules log_modify log_audit; simp)+

lemma log_block: "tracks same_log (block_execution context reason a d e p)"
  unfolding block_execution_def by (intro log_rules log_updates)

lemma log_adopt: "tracks same_log (adopt_reference a e r)"
  unfolding adopt_reference_def by (intro log_rules log_updates)

lemma log_record: "tracks same_log (record_publication context now r a d e p c)"
  unfolding record_publication_def insert_publication_def finish_execution_def
    insert_external_reference_def start_experiment_def
  by (intro log_rules log_updates log_audit log_outbox log_modify; simp)

section \<open>The handler, step by step\<close>

text \<open>The part of the handler before \<open>execute_action\<close> only reads.\<close>

definition handler_opens ::
  "RuntimeJobContext \<Rightarrow> payload \<Rightarrow> 'z exec_store_scheme \<Rightarrow> action_row \<Rightarrow> execution_row \<Rightarrow> bool" where
  "handler_opens context pl s action execution \<longleftrightarrow>
     dict_get pl ''action_id'' = Some (JStr (rid action)) \<and>
     dict_get pl ''execution_id'' = Some (JStr (rid execution)) \<and>
     row_get rid (rid action) (actions s) = Some action \<and>
     row_get rid (rid execution) (executions s) = Some execution \<and>
     org action = organization_id context \<and> biz action = business_id context \<and>
     org execution = organization_id context \<and> biz execution = business_id context \<and>
     exec_action_id execution = rid action \<and>
     exec_status execution \<notin> {ExecutionStatus.SUCCEEDED, UNKNOWN_EXTERNAL_OUTCOME}"

lemma as_str_Some: "as_str v = Some x \<longleftrightarrow> v = Some (JStr x)"
  by (cases v rule: as_str.cases) auto

lemma assert_matches_ok: "assert_matches scope og bz = Inr u \<longleftrightarrow> og = organization_id scope \<and> bz = business_id scope"
  by (auto simp: assert_matches_def)

interpretation ro: state_preorder "(=)"
  by unfold_locales simp_all

lemma reads:
  "tracks (=) (check_scope scope og bz)" "tracks (=) (check_no_secrets pl)"
  "tracks (=) (action_detail aid)" "tracks (=) (permission_evaluation aid)"
  "tracks (=) (execution_approval e)" "tracks (=) (assert_owner scope user)"
  "tracks (=) (channel_for_scope scope cid)" "tracks (=) (preflight_block_reason env a d p c)"
  unfolding check_scope_def check_no_secrets_def action_detail_def permission_evaluation_def
    execution_approval_def assert_owner_def channel_for_scope_def preflight_block_reason_def
  by (intro ro.t_rules)+

text \<open>A run that has changed the state has passed every read before the change.\<close>

lemma read_stepE:
  assumes "bnd m f s = (x, t)" and "t \<noteq> s" and "tracks (=) m"
  obtains y where "m s = (Inr y, s)" "f y s = (x, t)"
proof -
  obtain r u where m: "m s = (r, u)" by (metis prod.exhaust)
  have "s = u" using assms(3) m by (rule tracksD)
  with assms(1,2) m that show thesis by (cases r) (auto simp: run_bnd)
qed

lemma handler_rejects:
  assumes "\<not> (no_secrets pl = Inr () \<and> equals_int (dict_get pl ''payload_schema_version'') 1 \<and>
    as_str (dict_get pl ''action_id'') \<noteq> None \<and> as_str (dict_get pl ''execution_id'') \<noteq> None)"
  shows "snd (TelegramExecutionHandler_handle env connector context pl now s) = s"
proof (cases "no_secrets pl")
  case (Inl e)
  then show ?thesis unfolding TelegramExecutionHandler_handle_def by (simp add: run_simps)
next
  case (Inr u)
  then have ok: "no_secrets pl = Inr ()" by simp
  show ?thesis
  proof (cases "equals_int (dict_get pl ''payload_schema_version'') 1")
    case False
    with ok show ?thesis unfolding TelegramExecutionHandler_handle_def by (simp add: run_simps)
  next
    case True
    with ok assms show ?thesis unfolding TelegramExecutionHandler_handle_def
      by (cases "as_str (dict_get pl ''action_id'')"; cases "as_str (dict_get pl ''execution_id'')")
        (simp_all add: run_bnd run_check_no_secrets run_require run_required)
  qed
qed

lemma handler_run:
  "no_secrets pl = Inr () \<Longrightarrow> equals_int (dict_get pl ''payload_schema_version'') 1 \<Longrightarrow>
   as_str (dict_get pl ''action_id'') = Some aid \<Longrightarrow> as_str (dict_get pl ''execution_id'') = Some eid \<Longrightarrow>
   TelegramExecutionHandler_handle env connector context pl now s =
     dispatch_execution env connector context now
       (row_get rid aid (actions s), row_get rid eid (executions s)) s"
  unfolding TelegramExecutionHandler_handle_def by (simp add: run_simps)

lemma dispatch_run:
  "dispatch_execution env connector context now (Some action, Some execution) s =
    (case assert_matches context (org action) (biz action) of Inl e \<Rightarrow> (Inl e, s) | Inr _ \<Rightarrow>
     case assert_matches context (org execution) (biz execution) of Inl e \<Rightarrow> (Inl e, s) | Inr _ \<Rightarrow>
       if exec_action_id execution \<noteq> rid action
       then (Inl (PermanentJobError ''Execution is not bound to ActionProposal''), s)
       else if exec_status execution \<in> {ExecutionStatus.SUCCEEDED, UNKNOWN_EXTERNAL_OUTCOME}
       then (Inr (), s)
       else execute_action env connector context now action execution s)"
  by (simp add: dispatch_execution_def run_simps split: sum.splits)

lemma handler_cases:
  assumes run: "TelegramExecutionHandler_handle env connector context pl now s = (x, t)"
  obtains (idle) "t = s"
  | (opened) action execution where "handler_opens context pl s action execution"
      "execute_action env connector context now action execution s = (x, t)"
proof (cases "t = s")
  case False
  have "no_secrets pl = Inr () \<and> equals_int (dict_get pl ''payload_schema_version'') 1 \<and>
    as_str (dict_get pl ''action_id'') \<noteq> None \<and> as_str (dict_get pl ''execution_id'') \<noteq> None"
    using handler_rejects [of pl env connector "context" now s] run False by force
  then obtain aid eid where ok: "no_secrets pl = Inr ()" "equals_int (dict_get pl ''payload_schema_version'') 1"
    and strs: "as_str (dict_get pl ''action_id'') = Some aid" "as_str (dict_get pl ''execution_id'') = Some eid"
    by blast
  then have d: "dispatch_execution env connector context now
      (row_get rid aid (actions s), row_get rid eid (executions s)) s = (x, t)"
    and ids: "dict_get pl ''action_id'' = Some (JStr aid)" "dict_get pl ''execution_id'' = Some (JStr eid)"
    using run by (simp_all add: handler_run as_str_Some)
  from d False obtain action execution where
      rows: "row_get rid aid (actions s) = Some action" "row_get rid eid (executions s) = Some execution"
    by (auto simp: dispatch_execution_def run_raise split: option.splits)
  have "rid action = aid" "rid execution = eid" using row_get_Some [OF rows(1)] row_get_Some [OF rows(2)] by simp_all
  moreover have "org action = organization_id context" "biz action = business_id context"
      "org execution = organization_id context" "biz execution = business_id context"
      "exec_action_id execution = rid action"
      "exec_status execution \<notin> {ExecutionStatus.SUCCEEDED, UNKNOWN_EXTERNAL_OUTCOME}"
      "execute_action env connector context now action execution s = (x, t)"
    using d False rows by (simp_all add: dispatch_run assert_matches_def split: if_splits)
  ultimately show thesis using ids rows by (intro opened [of action execution]) (simp_all add: handler_opens_def)
qed (rule idle)

text \<open>Every gate between an opened execution and the send.\<close>

definition gates_open ::
  "hash_env \<Rightarrow> 'z exec_store_scheme \<Rightarrow> action_row \<Rightarrow> execution_row \<Rightarrow> action_detail_row \<Rightarrow> approval_row
     \<Rightarrow> connector_account_row \<Rightarrow> string \<Rightarrow> bool" where
  "gates_open env s action execution detail approval account msg \<longleftrightarrow>
     select_first (\<lambda>d. detail_action_id d = rid action) (action_details s) = Some detail \<and>
     exec_approval_id execution = Some (rid approval) \<and>
     row_get rid (rid approval) (approvals s) = Some approval \<and>
     row_get rid (detail_connector_account_id detail) (connector_accounts s) = Some account \<and>
     (\<exists>permission. select_first (\<lambda>p. perm_action_id p = rid action) (permission_evaluations s) = Some permission \<and>
        preflight_checks env s permission action detail approval account = None) \<and>
     select_first (\<lambda>r. ref_execution_id r = rid execution) (external_references s) = None \<and>
     dict_get (delivery_payload detail) ''text'' = Some (JStr msg)"

lemma read_runs:
  "action_detail aid s = (case select_first (\<lambda>d. detail_action_id d = aid) (action_details s) of
     None \<Rightarrow> (Inl (PermanentJobError ''ActionProposal detail not found''), s) | Some d \<Rightarrow> (Inr d, s))"
  "permission_evaluation aid s = (case select_first (\<lambda>p. perm_action_id p = aid) (permission_evaluations s) of
     None \<Rightarrow> (Inl (PermanentJobError ''Permission evaluation not found''), s) | Some p \<Rightarrow> (Inr p, s))"
  "execution_approval e s = (case exec_approval_id e of
     None \<Rightarrow> (Inl (PermanentJobError ''Execution has no approval binding''), s)
   | Some i \<Rightarrow> (case row_get rid i (approvals s) of
       None \<Rightarrow> (Inl (PermanentJobError ''Execution approval not found''), s) | Some p \<Rightarrow> (Inr p, s)))"
  by (simp_all add: action_detail_def permission_evaluation_def execution_approval_def run_simps
      split: option.splits)

lemma execute_cases:
  assumes run: "execute_action env connector context now action execution s = (x, t)"
  obtains (idle) "t = s"
  | (blocked) detail approval reason where
      "block_execution context reason action detail execution approval s = (x, t)"
  | (adopted) reference where "reference \<in> set (external_references s)"
      "ref_execution_id reference = rid execution" "adopt_reference action execution reference s = (x, t)"
  | (sending) detail approval account msg where
      "gates_open env s action execution detail approval account msg"
      "send_and_record connector context now msg action detail execution approval account s = (x, t)"
proof (cases "t = s")
  case False
  note step = read_stepE [OF _ False]
  from run obtain detail where detail: "action_detail (rid action) s = (Inr detail, s)" and 1:
    "bnd (execution_approval execution) (\<lambda>approval.
     bnd (gets (\<lambda>s. row_get rid (detail_connector_account_id detail) (connector_accounts s))) (\<lambda>acc.
     bnd (required acc (PermanentJobError ''ConnectorAccount not found during execution'')) (\<lambda>account.
     bnd (preflight_block_reason env action detail approval account) (\<lambda>block_reason.
       after_preflight connector context now action detail execution approval account block_reason)))) s = (x, t)"
    unfolding execute_action_def by (rule step) (rule reads)
  from 1 obtain approval where approval: "execution_approval execution s = (Inr approval, s)" and 2:
    "bnd (gets (\<lambda>s. row_get rid (detail_connector_account_id detail) (connector_accounts s))) (\<lambda>acc.
     bnd (required acc (PermanentJobError ''ConnectorAccount not found during execution'')) (\<lambda>account.
     bnd (preflight_block_reason env action detail approval account) (\<lambda>block_reason.
       after_preflight connector context now action detail execution approval account block_reason))) s = (x, t)"
    by (rule step) (rule reads)
  from 2 False obtain account where
    account: "row_get rid (detail_connector_account_id detail) (connector_accounts s) = Some account" and 3:
    "bnd (preflight_block_reason env action detail approval account) (\<lambda>block_reason.
       after_preflight connector context now action detail execution approval account block_reason) s = (x, t)"
    by (auto simp: run_bnd [of "gets f" for f] run_gets run_bnd [of "required v e" for v e] run_required
        split: option.splits)
  from 3 obtain reason where pre: "preflight_block_reason env action detail approval account s = (Inr reason, s)"
    and 4: "after_preflight connector context now action detail execution approval account reason s = (x, t)"
    by (rule step) (rule reads)
  show thesis
  proof (cases reason)
    case (Some m)
    with 4 blocked show thesis by (simp add: after_preflight_def)
  next
    case None
    show thesis
    proof (cases "select_first (\<lambda>r. ref_execution_id r = rid execution) (external_references s)")
      case (Some reference)
      with 4 None have "adopt_reference action execution reference s = (x, t)"
        by (simp add: after_preflight_def run_bnd run_gets)
      with select_first_Some [OF Some] adopted show thesis by blast
    next
      case no_ref: None
      from 4 None no_ref False obtain msg where
        msg: "as_str (dict_get (delivery_payload detail) ''text'') = Some msg"
          "send_and_record connector context now msg action detail execution approval account s = (x, t)"
        by (auto simp: after_preflight_def run_bnd run_gets run_required split: option.splits)
      have "gates_open env s action execution detail approval account msg"
        using detail approval account pre None no_ref msg(1)
        by (auto simp: gates_open_def read_runs preflight_block_reason_def run_bnd run_gets as_str_Some
            dest: row_get_Some split: option.splits)
      with msg(2) sending show thesis by blast
    qed
  qed
qed (rule idle)

text \<open>Conversely, an opened execution with open gates reaches the send.\<close>

lemma execute_open:
  assumes gates: "gates_open env s action execution detail approval account msg"
  shows "execute_action env connector context now action execution s =
    send_and_record connector context now msg action detail execution approval account s"
proof -
  obtain permission where
    p: "select_first (\<lambda>p. perm_action_id p = rid action) (permission_evaluations s) = Some permission"
      "preflight_checks env s permission action detail approval account = None"
    using gates by (auto simp: gates_open_def)
  then have "preflight_block_reason env action detail approval account s = (Inr None, s)"
    by (simp add: preflight_block_reason_def run_bnd read_runs run_gets)
  with gates show ?thesis
    by (simp add: execute_action_def gates_open_def run_bnd read_runs run_gets run_required after_preflight_def)
qed

lemma handler_open:
  assumes opens: "handler_opens context pl s action execution"
    and pl: "no_secrets pl = Inr ()" "equals_int (dict_get pl ''payload_schema_version'') 1"
    and gates: "gates_open env s action execution detail approval account msg"
  shows "TelegramExecutionHandler_handle env connector context pl now s =
    send_and_record connector context now msg action detail execution approval account s"
proof -
  have ids: "as_str (dict_get pl ''action_id'') = Some (rid action)"
      "as_str (dict_get pl ''execution_id'') = Some (rid execution)"
    and rows: "row_get rid (rid action) (actions s) = Some action"
      "row_get rid (rid execution) (executions s) = Some execution"
    using opens by (simp_all add: handler_opens_def)
  have "TelegramExecutionHandler_handle env connector context pl now s =
      dispatch_execution env connector context now (Some action, Some execution) s"
    by (simp only: handler_run [OF pl ids] rows)
  also have "\<dots> = execute_action env connector context now action execution s"
    using opens by (simp add: dispatch_run handler_opens_def assert_matches_def)
  finally show ?thesis using execute_open [OF gates] by simp
qed

section \<open>Sending\<close>

lemma log_start: "tracks same_log (start_execution context a d e p)"
  unfolding start_execution_def by (intro log_rules log_updates)

lemma log_failures:
  "tracks same_log (record_ambiguous context m a d e p)"
  "tracks same_log (record_rejected context m a d e p)"
  unfolding record_ambiguous_def record_rejected_def by (intro log_rules log_updates)+

lemma audit_ok: "no_secrets pl = Inr () \<Longrightarrow> \<exists>t. audit scope act ot oid pl actor co ca s = (Inr (), t)"
  by (simp add: audit_def add_audit_def run_simps)

lemma start_ok:
  assumes "no_secrets [(''provider'', JStr ''telegram''), (''action_id'', JStr (rid action)),
    (''delivery_payload_hash'', JStr (delivery_payload_hash detail))] = Inr ()"
  shows "\<exists>u. start_execution context action detail execution approval s = (Inr (), u)"
proof -
  obtain s1 where s1: "set_execution_status ExecutionStatus.RUNNING execution s = (Inr (), s1)"
    by (simp add: set_execution_status_def update_execution_def run_simps)
  obtain s2 where "execution_audit context ''EXECUTION_STARTED'' [(''provider'', JStr ''telegram''),
      (''action_id'', JStr (rid action)), (''delivery_payload_hash'', JStr (delivery_payload_hash detail))]
      action detail execution approval s1 = (Inr (), s2)"
    unfolding execution_audit_def using audit_ok [OF assms] by blast
  with s1 show ?thesis by (simp add: start_execution_def run_bnd run_flush)
qed

locale exec_port = telegram_port connector for connector :: "'z exec_store_ext telegram_connector"
begin

text \<open>The outcomes of the step that sends.\<close>

lemma send_cases:
  assumes run: "send_and_record connector context now msg action detail execution approval account s = (x, t)"
  obtains (not_started) e where "x = Inl e" "start_execution context action detail execution approval s = (Inl e, t)"
  | (published) u r where "start_execution context action detail execution approval s = (Inr (), u)"
      "record_publication context now r action detail execution approval account
        (u\<lparr>provider_log := provider_log u @ [sent (publish_command detail msg)]\<rparr>) = (x, t)"
  | (ambiguous) u m where "start_execution context action detail execution approval s = (Inr (), u)"
      "record_ambiguous context m action detail execution approval
        (u\<lparr>provider_log := provider_log u @ [sent (publish_command detail msg)]\<rparr>) = (x, t)"
  | (rejected) u v m where "start_execution context action detail execution approval s = (Inr (), u)"
      "v = u \<or> v = u\<lparr>provider_log := provider_log u @ [sent (publish_command detail msg)]\<rparr>"
      "record_rejected context m action detail execution approval v = (x, t)"
      "publish_text connector (publish_command detail msg) u = (Inl (TelegramConnectorRejected m), v)"
  | (escaped) u e where "start_execution context action detail execution approval s = (Inr (), u)"
      "x = Inl e" "t = u \<or> t = u\<lparr>provider_log := provider_log u @ [sent (publish_command detail msg)]\<rparr>"
      "publish_text connector (publish_command detail msg) u = (Inl e, t)"
proof -
  obtain y u where start: "start_execution context action detail execution approval s = (y, u)"
    by (metis prod.exhaust)
  show thesis
  proof (cases y)
    case (Inl e)
    with start run not_started show thesis by (auto simp: send_and_record_def run_bnd)
  next
    case (Inr w)
    with start have start': "start_execution context action detail execution approval s = (Inr (), u)" by simp
    let ?c = "publish_command detail msg"
    show thesis
    proof (cases rule: publish_cases [of ?c u, case_names ret amb raised])
      case (ret r)
      with run start' published show thesis
        by (simp add: send_and_record_def run_bnd run_ret handle_error_def)
    next
      case (amb m)
      then have "bnd (bnd (record_ambiguous context m action detail execution approval) (\<lambda>_. ret None))
          (\<lambda>outcome. case outcome of None \<Rightarrow> ret () | Some result \<Rightarrow>
             record_publication context now result action detail execution approval account)
          (u\<lparr>provider_log := provider_log u @ [sent ?c]\<rparr>) = (x, t)"
        using run start' by (simp add: send_and_record_def run_bnd handle_error_def)
      then have "record_ambiguous context m action detail execution approval
          (u\<lparr>provider_log := provider_log u @ [sent ?c]\<rparr>) = (x, t)"
        by (auto simp: run_bnd run_ret split: prod.splits sum.splits)
      with start' ambiguous show thesis by blast
    next
      case (raised e)
      then obtain v where v: "publish_text connector ?c u = (Inl e, v)"
          "v = u \<or> v = u\<lparr>provider_log := provider_log u @ [sent ?c]\<rparr>"
        by (metis prod.collapse)
      show thesis
      proof (cases "\<exists>m. e = TelegramConnectorRejected m")
        case True
        then obtain m where m: "e = TelegramConnectorRejected m" by blast
        with v run start' have "record_rejected context m action detail execution approval v = (x, t)"
          by (auto simp: send_and_record_def run_bnd run_ret handle_error_def split: prod.splits sum.splits)
        with start' v m rejected show thesis by blast
      next
        case False
        with raised(2) v(1) run start' have "x = Inl e" "t = v"
          by (auto simp: send_and_record_def run_bnd run_raise handle_error_def split: py_error.splits)
        with start' v escaped show thesis by blast
      qed
    qed
  qed
qed

lemma send_log:
  assumes run: "send_and_record connector context now msg action detail execution approval account s = (x, t)"
  shows "provider_log t = provider_log s \<or>
    provider_log t = provider_log s @ [sent (publish_command detail msg)]"
  using run
proof (cases rule: send_cases)
  case (not_started e)
  with log_start show ?thesis by (metis tracksD same_log_def)
next
  case (published u r)
  have "same_log s u" using log_start published(1) by (rule tracksD)
  moreover have "same_log (u\<lparr>provider_log := provider_log u @ [sent (publish_command detail msg)]\<rparr>) t"
    using log_record published(2) by (rule tracksD)
  ultimately show ?thesis by (simp add: same_log_def)
next
  case (ambiguous u m)
  have "same_log s u" using log_start ambiguous(1) by (rule tracksD)
  moreover have "same_log (u\<lparr>provider_log := provider_log u @ [sent (publish_command detail msg)]\<rparr>) t"
    using log_failures(1) ambiguous(2) by (rule tracksD)
  ultimately show ?thesis by (simp add: same_log_def)
next
  case (rejected u v m)
  have "same_log s u" using log_start rejected(1) by (rule tracksD)
  moreover have "same_log v t" using log_failures(2) rejected(3) by (rule tracksD)
  ultimately show ?thesis using rejected(2) by (auto simp: same_log_def)
next
  case (escaped u e)
  have "same_log s u" using log_start escaped(1) by (rule tracksD)
  with escaped(3) show ?thesis by (auto simp: same_log_def)
qed

lemma handle_sends:
  assumes run: "TelegramExecutionHandler_handle env connector context pl now s = (x, t)"
    and sent: "provider_log t \<noteq> provider_log s"
  obtains action execution detail approval account msg where
    "handler_opens context pl s action execution"
    "gates_open env s action execution detail approval account msg"
    "send_and_record connector context now msg action detail execution approval account s = (x, t)"
    "provider_log t = provider_log s @ [sent (publish_command detail msg)]"
  using run
proof (cases rule: handler_cases)
  case idle
  with sent show thesis by simp
next
  case (opened action execution)
  from opened(2) show thesis
  proof (cases rule: execute_cases)
    case idle
    with sent show thesis by simp
  next
    case (blocked detail approval reason)
    have "same_log s t" using log_block blocked by (rule tracksD)
    with sent show thesis by (simp add: same_log_def)
  next
    case (adopted reference)
    have "same_log s t" using log_adopt adopted(3) by (rule tracksD)
    with sent show thesis by (simp add: same_log_def)
  next
    case (sending detail approval account msg)
    with send_log [OF sending(2)] sent opened(1) that show thesis by blast
  qed
qed

text \<open>The handler honours the contract of the runtime.\<close>

lemma handler_frame: "tracks jobs_frame (TelegramExecutionHandler_handle env connector context pl now)"
proof -
  have start: "tracks jobs_frame (start_execution context a d e p)" for a d e p
    unfolding start_execution_def by (intro exec_frames)
  have fail: "tracks jobs_frame (record_ambiguous context m a d e p)"
      "tracks jobs_frame (record_rejected context m a d e p)" for m a d e p
    unfolding record_ambiguous_def record_rejected_def by (intro exec_frames)+
  have send: "tracks jobs_frame (send_and_record connector context now msg a d e p c)" for msg a d e p c
    unfolding send_and_record_def
    by (intro jf.t_bnd start jf.t_handle publish_frame jf.t_option jf.t_ret record_publication_frame)
      (auto intro: jf.t_bnd fail jf.t_ret jf.t_raise split: py_error.splits)
  have after: "tracks jobs_frame (after_preflight connector context now a d e p c reason)" for a d e p c reason
    unfolding after_preflight_def block_execution_def adopt_reference_def
    by (intro exec_frames send)
  have "tracks jobs_frame (execute_action env connector context now a e)" for a e
    unfolding execute_action_def action_detail_def execution_approval_def preflight_block_reason_def
      permission_evaluation_def
    by (intro exec_frames after)
  then show ?thesis
    unfolding TelegramExecutionHandler_handle_def dispatch_execution_def by (intro exec_frames)
qed

end

text \<open>Both connectors of the program qualify.\<close>

interpretation http_exec: exec_port "TelegramHttpConnector api token secret_ref"
  by (rule exec_port.intro) (rule http.telegram_port_axioms)

interpretation fake_exec: exec_port "FakeTelegramConnector message_id readiness fail_mode"
  by (rule exec_port.intro) (rule fake.telegram_port_axioms)

section \<open>What a send requires\<close>

text \<open>
  The abstract specification of an authorised send, stated over the rows of the database and
  without reference to the order in which the code checks them: an active approval of exactly
  this action and asset version; a permission evaluation that asked for approval, and no
  controller that objected; no emergency control switched on; a production result that is final
  and is the version the action targets, with an unchanged payload; a connector that is ready
  and still points at the target of the action; no experiment on the decision that has started;
  and nothing published for this execution.
\<close>

definition send_authorised ::
  "hash_env \<Rightarrow> 'z exec_store_scheme \<Rightarrow> action_row \<Rightarrow> execution_row \<Rightarrow> action_detail_row \<Rightarrow> approval_row
     \<Rightarrow> connector_account_row \<Rightarrow> production_workflow_row \<Rightarrow> asset_version_row \<Rightarrow> bool" where
  "send_authorised env s action execution detail approval account workflow asset_v \<longleftrightarrow>
     exec_approval_id execution = Some (rid approval) \<and>
     row_get rid (rid approval) (approvals s) = Some approval \<and>
     appr_status approval = ApprovalStatus.APPROVED \<and> approval_matches_action approval action \<and>
     (\<exists>permission. select_first (\<lambda>p. perm_action_id p = rid action) (permission_evaluations s) = Some permission \<and>
        perm_outcome permission = PermissionOutcome.APPROVAL_REQUIRED) \<and>
     (\<forall>r \<in> set (controller_reviews s). review_action_id r = rid action \<longrightarrow> review_verdict r = PASS) \<and>
     (case global_control (biz action) s of None \<Rightarrow> True
      | Some c \<Rightarrow> \<not> automation_paused c \<and> \<not> execution_paused c \<and> \<not> revoke_all_write_capabilities c) \<and>
     row_get rid (detail_production_workflow_id detail) (production_workflows s) = Some workflow \<and>
     pw_status workflow = READY_FOR_ACTION_PROPOSAL \<and>
     row_get rid (detail_asset_version_id detail) (asset_versions s) = Some asset_v \<and>
     pw_final_asset_version_id workflow = Some (rid asset_v) \<and> exact_version_binding action asset_v \<and>
     payload_hash env (delivery_payload detail) = delivery_payload_hash detail \<and>
     row_get rid (detail_connector_account_id detail) (connector_accounts s) = Some account \<and>
     acc_status account = ''READY'' \<and> acc_auth_healthy account \<and> acc_write_capability account \<and>
     acc_target_chat_id account = detail_target_chat_id detail \<and>
     (\<forall>e. select_first (\<lambda>e. experiment_decision_id e = detail_decision_id detail) (experiments s) = Some e \<longrightarrow>
        experiment_status e = ExperimentStatus.DRAFT) \<and>
     (\<forall>r \<in> set (external_references s). ref_execution_id r \<noteq> rid execution)"

lemma preflight_passed:
  assumes "preflight_checks env s permission action detail approval account = None"
  shows "perm_outcome permission = PermissionOutcome.APPROVAL_REQUIRED"
    "\<forall>r \<in> set (controller_reviews s). review_action_id r = rid action \<longrightarrow> review_verdict r = PASS"
    "case global_control (biz action) s of None \<Rightarrow> True
      | Some c \<Rightarrow> \<not> automation_paused c \<and> \<not> execution_paused c \<and> \<not> revoke_all_write_capabilities c"
    "appr_status approval = ApprovalStatus.APPROVED" "approval_matches_action approval action"
    "binding_error env s action detail = None"
    "acc_status account = ''READY''" "acc_auth_healthy account" "acc_write_capability account"
    "acc_target_chat_id account = detail_target_chat_id detail"
    "\<forall>e. select_first (\<lambda>e. experiment_decision_id e = detail_decision_id detail) (experiments s) = Some e \<longrightarrow>
        experiment_status e = ExperimentStatus.DRAFT"
  using assms by (auto simp: preflight_checks_def Let_def select_first_None dest: select_first_Some
      split: if_splits option.splits)

lemma binding_holds:
  assumes "binding_error env s action detail = None"
  obtains workflow asset_v where
    "row_get rid (detail_production_workflow_id detail) (production_workflows s) = Some workflow"
    "pw_status workflow = READY_FOR_ACTION_PROPOSAL"
    "row_get rid (detail_asset_version_id detail) (asset_versions s) = Some asset_v"
    "pw_final_asset_version_id workflow = Some (rid asset_v)" "exact_version_binding action asset_v"
    "dict_get (delivery_payload detail) ''text'' = Some (JStr (av_body asset_v))"
    "payload_hash env (delivery_payload detail) = delivery_payload_hash detail"
  using assms row_get_Some unfolding binding_error_def
  by (fastforce split: option.splits if_splits)

lemma gates_authorise:
  assumes gates: "gates_open env s action execution detail approval account msg"
  obtains workflow asset_v where
    "send_authorised env s action execution detail approval account workflow asset_v"
    "msg = av_body asset_v"
proof -
  from gates obtain permission where
    p: "select_first (\<lambda>p. perm_action_id p = rid action) (permission_evaluations s) = Some permission"
      "preflight_checks env s permission action detail approval account = None"
    by (auto simp: gates_open_def)
  note pre = preflight_passed [OF p(2)]
  obtain workflow asset_v where b:
    "row_get rid (detail_production_workflow_id detail) (production_workflows s) = Some workflow"
    "pw_status workflow = READY_FOR_ACTION_PROPOSAL"
    "row_get rid (detail_asset_version_id detail) (asset_versions s) = Some asset_v"
    "pw_final_asset_version_id workflow = Some (rid asset_v)" "exact_version_binding action asset_v"
    "dict_get (delivery_payload detail) ''text'' = Some (JStr (av_body asset_v))"
    "payload_hash env (delivery_payload detail) = delivery_payload_hash detail"
    using binding_holds [OF pre(6)] by blast
  have g: "exec_approval_id execution = Some (rid approval)"
      "row_get rid (rid approval) (approvals s) = Some approval"
      "row_get rid (detail_connector_account_id detail) (connector_accounts s) = Some account"
      "\<forall>r \<in> set (external_references s). ref_execution_id r \<noteq> rid execution"
      "msg = av_body asset_v"
    using gates b(6) by (simp_all add: gates_open_def select_first_None)
  show thesis
  proof (rule that [of workflow asset_v])
    show "send_authorised env s action execution detail approval account workflow asset_v"
      unfolding send_authorised_def using pre b(1-5,7) g(1-4) p(1) by (intro conjI exI [of _ permission])
  qed (rule g(5))
qed

text \<open>
  Claim C1. Nothing is sent without authority. Whenever an execution attempt sends anything,
  through any connector that honours the port, it sends exactly one message, to the chat of the
  governed connector account, with exactly the text of the final asset version; and at that moment
  the whole specification \<open>send_authorised\<close> holds of the database, for rows in the tenant of
  the job.
\<close>

theorem governed_send:
  assumes port: "telegram_port connector"
    and run: "TelegramExecutionHandler_handle env connector context pl now s = (x, t)"
    and sent: "provider_log t \<noteq> provider_log s"
  shows "\<exists>action execution detail approval account workflow asset_v command.
    handler_opens context pl s action execution \<and>
    send_authorised env s action execution detail approval account workflow asset_v \<and>
    provider_log t = provider_log s @ [sent command] \<and>
    cmd_chat_id command = acc_target_chat_id account \<and> cmd_text command = av_body asset_v"
proof -
  obtain action execution detail approval account msg where
      h: "handler_opens context pl s action execution"
        "gates_open env s action execution detail approval account msg"
        "provider_log t = provider_log s @ [sent (publish_command detail msg)]"
    using exec_port.handle_sends [OF exec_port.intro [OF port] run sent] by metis
  from h(2) obtain workflow asset_v where
      w: "send_authorised env s action execution detail approval account workflow asset_v" "msg = av_body asset_v"
    by (rule gates_authorise)
  then have "acc_target_chat_id account = detail_target_chat_id detail"
    by (simp add: send_authorised_def)
  with h w show ?thesis
    by (intro exI [of _ action] exI [of _ execution] exI [of _ detail] exI [of _ approval]
        exI [of _ account] exI [of _ workflow] exI [of _ asset_v] exI [of _ "publish_command detail msg"])
      (simp add: publish_command_def)
qed

subsection \<open>A concrete execution\<close>

text \<open>One approved proposal, ready to run.\<close>

definition demo_env :: hash_env where
  "demo_env = \<lparr>float_repr = (\<lambda>_. []), sha256_hex = (\<lambda>_. ''h'')\<rparr>"

definition demo_action :: action_row where
  "demo_action = \<lparr>rid = ''ac'', org = ''o'', biz = ''b'', action_type = TELEGRAM_PUBLISH_ACTION,
     target_object_type = ''AssetVersion'', target_object_id = ''a'', target_object_version_id = ''av'',
     target_object_version = 1, action_status = ActionStatus.APPROVED, action_idempotency_key = ''k''\<rparr>"

definition demo_execution :: execution_row where
  "demo_execution = \<lparr>rid = ''ex'', org = ''o'', biz = ''b'', exec_action_id = ''ac'',
     exec_approval_id = Some ''ap'', exec_status = ExecutionStatus.PENDING,
     exec_idempotency_key = ''execution:ac'', exec_external_reference = None\<rparr>"

definition demo_detail :: action_detail_row where
  "demo_detail = \<lparr>rid = ''de'', org = ''o'', biz = ''b'', detail_action_id = ''ac'',
     detail_production_workflow_id = ''wf'', detail_decision_id = ''d'', detail_asset_version_id = ''av'',
     detail_provider = ''telegram'', detail_channel_id = ''ch'', detail_connector_account_id = ''co'',
     detail_target_chat_id = ''-1'', delivery_payload = proposal_payload ''hi'',
     delivery_payload_hash = ''h'', detail_correlation_id = None, detail_causation_id = None\<rparr>"

definition demo_approval :: approval_row where
  "demo_approval = \<lparr>rid = ''ap'', org = ''o'', biz = ''b'', appr_action_id = ''ac'',
     appr_action_type = TELEGRAM_PUBLISH_ACTION, appr_object_type = ''AssetVersion'',
     appr_object_id = ''a'', appr_object_version_id = ''av'', appr_object_version = 1,
     appr_approved_by_user_id = ''u'', appr_status = ApprovalStatus.APPROVED, appr_created_at = 0\<rparr>"

definition demo_account :: connector_account_row where
  "demo_account = \<lparr>rid = ''co'', org = ''o'', biz = ''b'', acc_channel_id = ''ch'',
     acc_provider = ''telegram'', acc_secret_ref = TELEGRAM_SECRET_REF, acc_target_chat_id = ''-1'',
     acc_status = ''READY'', acc_auth_healthy = True, acc_write_capability = True,
     acc_capabilities = [(''can_post_messages'', JBool True)], acc_last_checked_at = None,
     acc_last_error_class = None, acc_updated_at = 0\<rparr>"

definition demo_workflow :: production_workflow_row where
  "demo_workflow = \<lparr>rid = ''wf'', org = ''o'', biz = ''b'', pw_decision_id = ''d'',
     pw_decision_version = 1, pw_decision_approval_id = ''da'', pw_snapshot_id = ''sn'', pw_launch_id = None,
     pw_status = READY_FOR_ACTION_PROPOSAL, pw_revision_count = 0, pw_max_revision_rounds = 2,
     pw_creative_brief_id = Some ''cb'', pw_asset_id = Some ''a'', pw_final_asset_version_id = Some ''av'',
     pw_correlation_id = None, pw_causation_id = Some ''d'', pw_created_at = 0, pw_version = 1\<rparr>"

definition demo_version :: asset_version_row where
  "demo_version = \<lparr>rid = ''av'', org = ''o'', biz = ''b'', av_asset_id = ''a'', av_version_number = 1,
     av_body = ''hi'', av_created_by_user_id = None, av_provenance = [], av_created_at = 0\<rparr>"

definition demo_permission :: permission_row where
  "demo_permission = \<lparr>rid = ''pe'', org = ''o'', biz = ''b'', perm_action_id = ''ac'', perm_policy_id = None,
     perm_outcome = PermissionOutcome.APPROVAL_REQUIRED, perm_reason = []\<rparr>"

definition demo_db :: exec_store where
  "demo_db = \<lparr>jobs = [], sql_jobs = [], outbox_events = [], business_events = [], audit_logs = [],
     unit_of_work = [], uuids = (\<lambda>n. replicate n CHR ''i''), uuid_pos = 0, wakeups = [], provider_log = [],
     channels = [], memberships = [\<lparr>rid = ''m'', org = ''o'', biz = ''b'', member_user_id = ''u'',
       member_role = ''Owner''\<rparr>], permission_policies = [],
     asset_versions = [demo_version], production_workflows = [demo_workflow], asset_rights = [],
     experiments = [], checkpoint_bindings = [], connector_accounts = [demo_account],
     actions = [demo_action], action_details = [demo_detail], controller_reviews = [],
     permission_evaluations = [demo_permission], global_controls = [], approvals = [demo_approval],
     executions = [demo_execution], external_references = [], publications = [],
     publication_links = []\<rparr>"

definition demo_context :: RuntimeJobContext where
  "demo_context = \<lparr>organization_id = ''o'', business_id = ''b'', ctx_job_id = ''j'',
     ctx_job_type = JOB_TYPE_EXECUTION_TELEGRAM_PUBLISH, ctx_attempt_count = 1,
     ctx_correlation_id = None, ctx_causation_id = None\<rparr>"

definition demo_payload :: payload where
  "demo_payload = [(''payload_schema_version'', JInt 1), (''action_id'', JStr ''ac''),
     (''execution_id'', JStr ''ex'')]"

abbreviation demo_fake :: "string option \<Rightarrow> unit exec_store_ext telegram_connector" where
  "demo_fake fail_mode \<equiv> FakeTelegramConnector ''7'' fake_ready fail_mode"

lemmas demo_row_defs = demo_action_def demo_execution_def demo_detail_def demo_approval_def
  demo_account_def demo_workflow_def demo_version_def demo_permission_def

lemma demo_opens: "handler_opens demo_context demo_payload demo_db demo_action demo_execution"
  by (simp add: handler_opens_def demo_payload_def demo_db_def demo_context_def dict_get_def)
    (simp add: demo_row_defs)

lemma demo_payload_ok:
  "no_secrets demo_payload = Inr ()" "equals_int (dict_get demo_payload ''payload_schema_version'') 1"
  by code_simp+

lemma demo_gates:
  "gates_open demo_env demo_db demo_action demo_execution demo_detail demo_approval demo_account ''hi''"
proof -
  have "preflight_checks demo_env demo_db demo_permission demo_action demo_detail demo_approval demo_account = None"
    by (simp add: preflight_checks_def binding_error_def global_control_def approval_matches_action_def
        exact_version_binding_def payload_hash_def demo_db_def demo_env_def demo_row_defs proposal_payload_def
        dict_get_def Let_def)
  then show ?thesis
    by (simp add: gates_open_def demo_db_def demo_row_defs proposal_payload_def dict_get_def)
qed

lemma demo_start:
  "\<exists>u. start_execution demo_context demo_action demo_detail demo_execution demo_approval demo_db = (Inr (), u) \<and>
     provider_log u = []"
proof -
  have "no_secrets [(''provider'', JStr ''telegram''), (''action_id'', JStr (rid demo_action)),
      (''delivery_payload_hash'', JStr (delivery_payload_hash demo_detail))] = Inr ()" by code_simp
  from start_ok [OF this] obtain u where
    u: "start_execution demo_context demo_action demo_detail demo_execution demo_approval demo_db = (Inr (), u)"
    by blast
  have "same_log demo_db u" using log_start u by (rule tracksD)
  with u show ?thesis by (simp add: same_log_def demo_db_def)
qed

text \<open>An opened execution with open gates does send.\<close>

lemma demo_sends:
  assumes "TelegramExecutionHandler_handle demo_env (demo_fake m) demo_context demo_payload now demo_db = (x, t)"
  shows "provider_log t = [sent (publish_command demo_detail ''hi'')]"
proof -
  have run: "send_and_record (demo_fake m) demo_context now ''hi'' demo_action demo_detail demo_execution
      demo_approval demo_account demo_db = (x, t)"
    using assms by (subst (asm) handler_open [OF demo_opens demo_payload_ok demo_gates])
  obtain u where u: "start_execution demo_context demo_action demo_detail demo_execution demo_approval demo_db
      = (Inr (), u)" "provider_log u = []" using demo_start by blast
  let ?v = "u\<lparr>provider_log := provider_log u @ [sent (publish_command demo_detail ''hi'')]\<rparr>"
  have p: "snd (publish_text (demo_fake m) (publish_command demo_detail ''hi'') u) = ?v"
    by (simp add: FakeTelegramConnector_def fake_publish_text_def run_simps)
  from run have "same_log ?v t"
  proof (cases rule: fake_exec.send_cases)
    case (not_started e)
    with u show ?thesis by simp
  next
    case (published w r)
    with u have "record_publication demo_context now r demo_action demo_detail demo_execution
        demo_approval demo_account ?v = (x, t)" by simp
    with log_record show ?thesis by (rule tracksD)
  next
    case (ambiguous w e)
    with u have "record_ambiguous demo_context e demo_action demo_detail demo_execution demo_approval ?v = (x, t)"
      by simp
    with log_failures(1) show ?thesis by (rule tracksD)
  next
    case (rejected w v e)
    with u p have "record_rejected demo_context e demo_action demo_detail demo_execution demo_approval ?v = (x, t)"
      by simp
    with log_failures(2) show ?thesis by (rule tracksD)
  next
    case (escaped w e)
    with u p show ?thesis by (simp add: same_log_def)
  qed
  with u(2) show ?thesis by (simp add: same_log_def)
qed

theorem governed_send_witness:
  "\<exists>x t action asset_v command. TelegramExecutionHandler_handle demo_env (demo_fake None) demo_context
      demo_payload 9 demo_db = (x, t) \<and> handler_opens demo_context demo_payload demo_db action demo_execution \<and>
     provider_log t = [sent command] \<and> cmd_text command = av_body (asset_v :: asset_version_row)"
proof -
  obtain x t where run: "TelegramExecutionHandler_handle demo_env (demo_fake None) demo_context
      demo_payload 9 demo_db = (x, t)" by (metis prod.exhaust)
  have sent: "provider_log t \<noteq> provider_log demo_db"
    using demo_sends [OF run] by (simp add: demo_db_def)
  have empty: "provider_log demo_db = []" by (simp add: demo_db_def)
  from governed_send [OF fake.telegram_port_axioms run sent] obtain asset_v :: asset_version_row and command where
    "provider_log t = provider_log demo_db @ [sent command]" "cmd_text command = av_body asset_v" by blast
  with run demo_opens empty show ?thesis by auto
qed

section \<open>The outcome of a send\<close>

text \<open>Executions are assigned only where the handler records an outcome.\<close>

definition exec_ident :: "execution_row \<Rightarrow> string \<times> string \<times> string \<times> string \<times> string option" where
  "exec_ident e = (rid e, org e, biz e, exec_action_id e, exec_approval_id e)"

interpretation exectab: keyed_table "rid :: execution_row \<Rightarrow> string" exec_ident
  by unfold_locales (simp add: exec_ident_def)

lemma exec_values_stable [simp]:
  "exectab.stable (\<lambda>e. e\<lparr>exec_status := st\<rparr>)"
  "exectab.stable (\<lambda>e. e\<lparr>exec_status := st, exec_external_reference := r\<rparr>)"
  by (simp_all add: exectab.stable_def exec_ident_def)

definition same_exec :: "'z exec_store_scheme \<Rightarrow> 'z exec_store_scheme \<Rightarrow> bool" where
  "same_exec s t \<longleftrightarrow> executions t = executions s"

interpretation se: state_preorder same_exec
  by unfold_locales (simp_all add: same_exec_def)

lemma exec_modify: "(\<And>s. executions (f s) = executions s) \<Longrightarrow> tracks same_exec (modify f)"
  by (rule se.t_modify) (simp add: same_exec_def)

lemma exec_primitives:
  "tracks same_exec new_id" "tracks same_exec flush" "tracks same_exec (touch og bz)"
  "tracks same_exec (check_no_secrets pl)" "tracks same_exec (add_audit r)"
  "tracks same_exec (add_outbox q)"
  by (auto simp: tracks_def same_exec_def run_simps add_audit_def add_outbox_def)

lemmas exec_rules = se.t_rules exec_primitives

lemma exec_audits:
  "tracks same_exec (audit scope act ot oid pl actor co ca)"
  "tracks same_exec (outbox scope et ag aid pl' now co' ca')"
  "tracks same_exec (execution_audit context act' pl'' a d e p)"
  "tracks same_exec (set_action_status st a)"
  unfolding audit_def outbox_def execution_audit_def set_action_status_def update_action_def
  by (intro exec_rules exec_modify; simp)+

lemma exec_insert: "tracks same_exec (insert_publication context now r a d e c)"
  unfolding insert_publication_def insert_external_reference_def start_experiment_def update_experiment_def
  by (intro exec_rules exec_audits exec_modify; simp)

lemma set_execution_status_run:
  "set_execution_status st e s = (Inr (), s\<lparr>executions := row_set rid (rid e) (\<lambda>r. r\<lparr>exec_status := st\<rparr>) (executions s),
     unit_of_work := unit_of_work s @ [(org e, biz e)]\<rparr>)"
  by (simp add: set_execution_status_def update_execution_def run_simps)

text \<open>After an assignment, whatever follows leaves the executions alone.\<close>

lemma bnd_modify: "bnd (modify f) g s = g () (f s)"
  by (simp add: run_bnd run_modify)

lemma assign_then:
  assumes "bnd (set_execution_status st e) (\<lambda>_. m) s = (x, t)" and "tracks same_exec m"
  shows "executions t = row_set rid (rid e) (\<lambda>r. r\<lparr>exec_status := st\<rparr>) (executions s)"
proof -
  let ?s1 = "s\<lparr>executions := row_set rid (rid e) (\<lambda>r. r\<lparr>exec_status := st\<rparr>) (executions s),
     unit_of_work := unit_of_work s @ [(org e, biz e)]\<rparr>"
  have "m ?s1 = (x, t)" using assms(1) by (simp add: run_bnd set_execution_status_run)
  with assms(2) have "same_exec ?s1 t" by (rule tracksD)
  then show ?thesis by (simp add: same_exec_def)
qed

lemma start_executions:
  "start_execution context a d e p s = (x, t) \<Longrightarrow>
   executions t = row_set rid (rid e) (\<lambda>r. r\<lparr>exec_status := ExecutionStatus.RUNNING\<rparr>) (executions s)"
  unfolding start_execution_def by (erule assign_then) (intro exec_rules exec_audits)

lemma ambiguous_executions:
  "record_ambiguous context m a d e p s = (x, t) \<Longrightarrow>
   executions t = row_set rid (rid e) (\<lambda>r. r\<lparr>exec_status := UNKNOWN_EXTERNAL_OUTCOME\<rparr>) (executions s)"
  unfolding record_ambiguous_def by (erule assign_then) (intro exec_rules exec_audits)

lemma rejected_executions:
  "record_rejected context m a d e p s = (x, t) \<Longrightarrow>
   executions t = row_set rid (rid e) (\<lambda>r. r\<lparr>exec_status := ExecutionStatus.FAILED\<rparr>) (executions s)"
  unfolding record_rejected_def by (erule assign_then) (intro exec_rules exec_audits)

lemma finish_executions:
  assumes "finish_execution context now r pid rfid a d e p s = (x, t)"
  shows "executions t = row_set rid (rid e) (\<lambda>q. q\<lparr>exec_status := ExecutionStatus.SUCCEEDED,
      exec_external_reference := Some (result_message_id r)\<rparr>) (executions s)"
proof -
  let ?s1 = "s\<lparr>executions := row_set rid (rid e) (\<lambda>q. q\<lparr>exec_status := ExecutionStatus.SUCCEEDED,
      exec_external_reference := Some (result_message_id r)\<rparr>) (executions s)\<rparr>"
  let ?m = "bnd (touch (org e) (biz e)) (\<lambda>_. bnd (set_action_status EXECUTED a) (\<lambda>_.
     bnd (execution_audit context ''EXECUTION_SUCCEEDED''
            [(''provider'', JStr ''telegram''), (''publication_id'', JStr pid),
             (''external_reference_id'', JStr rfid)] a d e p) (\<lambda>_.
     bnd (outbox context ''telegram.publication.executed'' ''Publication'' pid
            [(''action_id'', JStr (rid a)), (''execution_id'', JStr (rid e)),
             (''publication_id'', JStr pid), (''external_reference_id'', JStr rfid)]
            now (correlation_of a d) (Some (rid e))) (\<lambda>_. flush))))"
  have run: "?m ?s1 = (x, t)"
    using assms by (simp only: finish_execution_def update_execution_def bnd_modify)
  have "tracks same_exec ?m" by (intro exec_rules exec_audits)
  then have "same_exec ?s1 t" using run by (rule tracksD)
  then show ?thesis by (simp add: same_exec_def)
qed

lemma record_executions:
  assumes "record_publication context now r a d e p c s = (Inr u, t)"
  shows "executions t = row_set rid (rid e) (\<lambda>q. q\<lparr>exec_status := ExecutionStatus.SUCCEEDED,
      exec_external_reference := Some (result_message_id r)\<rparr>) (executions s)"
proof -
  from assms obtain pid rfid s1 where ins: "insert_publication context now r a d e c s = (Inr (pid, rfid), s1)"
    and fin: "finish_execution context now r pid rfid a d e p s1 = (Inr u, t)"
    unfolding record_publication_def by (elim bnd_okE) (auto split: prod.splits)
  have "same_exec s s1" using exec_insert ins by (rule tracksD)
  with finish_executions [OF fin] show ?thesis by (simp add: same_exec_def)
qed


lemma record_ambiguous_ok:
  assumes "no_secrets [(''error_class'', JStr m)] = Inr ()"
  shows "\<exists>t. record_ambiguous context m action detail execution approval s = (Inr (), t)"
proof -
  obtain s1 where s1: "set_execution_status UNKNOWN_EXTERNAL_OUTCOME execution s = (Inr (), s1)"
    by (simp add: set_execution_status_run)
  obtain s2 where "execution_audit context ''EXECUTION_UNKNOWN_EXTERNAL_OUTCOME'' [(''error_class'', JStr m)]
      action detail execution approval s1 = (Inr (), s2)"
    unfolding execution_audit_def using audit_ok [OF assms] by blast
  with s1 show ?thesis by (simp add: record_ambiguous_def run_bnd run_flush)
qed

lemma demo_ambiguous:
  "\<exists>t. TelegramExecutionHandler_handle demo_env (demo_fake (Some ''ambiguous'')) demo_context demo_payload now
     demo_db = (Inr (), t)"
proof -
  let ?c = "publish_command demo_detail ''hi''"
  obtain u where u: "start_execution demo_context demo_action demo_detail demo_execution demo_approval demo_db
      = (Inr (), u)" using demo_start by blast
  have pub: "publish_text (demo_fake (Some ''ambiguous'')) ?c u =
      (Inl (TelegramAmbiguousOutcome ''TELEGRAM_FAKE_AMBIGUOUS''), u\<lparr>provider_log := provider_log u @ [sent ?c]\<rparr>)"
    by (simp add: FakeTelegramConnector_def fake_publish_text_def run_simps)
  have "no_secrets [(''error_class'', JStr ''TELEGRAM_FAKE_AMBIGUOUS'')] = Inr ()" by code_simp
  from record_ambiguous_ok [OF this]
  obtain t where "record_ambiguous demo_context ''TELEGRAM_FAKE_AMBIGUOUS'' demo_action demo_detail
      demo_execution demo_approval (u\<lparr>provider_log := provider_log u @ [sent ?c]\<rparr>) = (Inr (), t)" by blast
  then show ?thesis
    unfolding handler_open [OF demo_opens demo_payload_ok demo_gates] send_and_record_def
    using u pub by (simp add: run_bnd handle_error_def run_ret)
qed


text \<open>
  Claim C2. No second send: once an execution is recorded as succeeded or as an unknown external
  outcome, or has an external reference, no later attempt for it sends anything, whatever the
  connector, the job and the time; for the first two it changes nothing at all.
\<close>

theorem settled_execution_never_resends:
  assumes port: "telegram_port connector"
    and row: "dict_get pl ''execution_id'' = Some (JStr eid)" "row_get rid eid (executions s) = Some e"
    and settled: "exec_status e \<in> {ExecutionStatus.SUCCEEDED, UNKNOWN_EXTERNAL_OUTCOME} \<or>
      (\<exists>r \<in> set (external_references s). ref_execution_id r = eid)"
    and run: "TelegramExecutionHandler_handle env connector context pl now s = (x, t)"
  shows "provider_log t = provider_log s \<and>
    (if exec_status e \<in> {ExecutionStatus.SUCCEEDED, UNKNOWN_EXTERNAL_OUTCOME} then t = s else True)"
proof -
  have "t = s" if st: "exec_status e \<in> {ExecutionStatus.SUCCEEDED, UNKNOWN_EXTERNAL_OUTCOME}"
    using run
  proof (cases rule: handler_cases)
    case (opened action execution)
    with row st show ?thesis by (auto simp: handler_opens_def)
  qed
  moreover have "provider_log t = provider_log s"
  proof (rule ccontr)
    assume sent: "provider_log t \<noteq> provider_log s"
    obtain action execution detail approval account msg where
        o: "handler_opens context pl s action execution"
          "gates_open env s action execution detail approval account msg"
      using exec_port.handle_sends [OF exec_port.intro [OF port] run sent] by metis
    then have "rid execution = eid" "execution = e" using row by (auto simp: handler_opens_def)
    with o settled show False by (auto simp: handler_opens_def gates_open_def select_first_None)
  qed
  ultimately show ?thesis by simp
qed

theorem settled_execution_never_resends_witness:
  "let s = demo_db\<lparr>executions := [demo_execution\<lparr>exec_status := UNKNOWN_EXTERNAL_OUTCOME\<rparr>]\<rparr>
   in snd (TelegramExecutionHandler_handle demo_env (demo_fake None) demo_context demo_payload 9 s) = s"
proof -
  let ?e = "demo_execution\<lparr>exec_status := UNKNOWN_EXTERNAL_OUTCOME\<rparr>"
  let ?s = "demo_db\<lparr>executions := [?e]\<rparr>"
  obtain x t where run: "TelegramExecutionHandler_handle demo_env (demo_fake None) demo_context demo_payload 9 ?s
      = (x, t)" by (metis prod.exhaust)
  have row: "dict_get demo_payload ''execution_id'' = Some (JStr ''ex'')"
      "row_get rid ''ex'' (executions ?s) = Some ?e"
    by (simp_all add: demo_payload_def dict_get_def demo_execution_def)
  have st: "exec_status ?e \<in> {ExecutionStatus.SUCCEEDED, UNKNOWN_EXTERNAL_OUTCOME} \<or>
      (\<exists>r \<in> set (external_references ?s). ref_execution_id r = ''ex'')" by simp
  from settled_execution_never_resends [OF fake.telegram_port_axioms row st run] run show ?thesis by simp
qed

end
