(* ===== verification/Execution_Flow.thy ===== *)
theory Execution_Flow
  imports Execution_Safety
begin

text \<open>
  The flow around the send: the emergency controls, what the controllers and the permission
  engine decide, proposals and approvals, and what a raised send leaves behind. The last section
  composes the Telegram handler into the registry of the worker.
\<close>

section \<open>Emergency controls\<close>

lemma control_is_set:
  assumes "set_global_execution_controls scope user now a e r s = (Inr c, t)"
  shows "global_control (business_id scope) t = Some c"
    and "case a of None \<Rightarrow> True | Some b \<Rightarrow> automation_paused c = b"
    and "case e of None \<Rightarrow> True | Some b \<Rightarrow> execution_paused c = b"
    and "case r of None \<Rightarrow> True | Some b \<Rightarrow> revoke_all_write_capabilities c = b"
proof -
  have biz: "biz (control_values user now a e r q) = biz q" for q by (simp add: control_values_def)
  have run: "(case select_first (\<lambda>q. biz q = business_id scope) (global_controls s) of
      Some q \<Rightarrow> c = control_values user now a e r q \<and>
        global_controls t = row_set rid (rid q) (control_values user now a e r) (global_controls s)
    | None \<Rightarrow> (\<exists>q. c = control_values user now a e r q \<and> biz q = business_id scope) \<and>
        global_controls t = global_controls s @ [c])"
    using assms unfolding set_global_execution_controls_def
    by (auto simp: run_bnd assert_owner_def run_gets run_require global_control_def run_modify run_touch
        run_flush run_ret run_new_id Let_def split: option.splits if_splits)
  show "global_control (business_id scope) t = Some c"
    using run select_first_row_set [where f = "control_values user now a e r" and
        P = "\<lambda>q. biz q = business_id scope" and rs = "global_controls s"] biz
    by (auto simp: global_control_def select_first_append split: option.splits)
  obtain q where q: "c = control_values user now a e r q" using run by (auto split: option.splits)
  show "case a of None \<Rightarrow> True | Some b \<Rightarrow> automation_paused c = b"
    and "case e of None \<Rightarrow> True | Some b \<Rightarrow> execution_paused c = b"
    and "case r of None \<Rightarrow> True | Some b \<Rightarrow> revoke_all_write_capabilities c = b"
    unfolding q control_values_def by (simp_all split: option.split)
qed


lemma demo_owner: "assert_owner demo_context ''u'' demo_db = (Inr (), demo_db)"
proof -
  have "upper ''Owner'' = ''OWNER''" by code_simp
  then show ?thesis
    by (simp add: assert_owner_def run_simps demo_db_def demo_context_def select_first_def)
qed


section \<open>Controllers and permission\<close>

text \<open>What the five controllers ask for, as one condition on the database.\<close>

definition controllers_satisfied ::
  "'z exec_store_scheme \<Rightarrow> action_row \<Rightarrow> action_detail_row \<Rightarrow> connector_account_row \<Rightarrow> datetime \<Rightarrow> bool" where
  "controllers_satisfied s action detail account now \<longleftrightarrow>
     secret_free (JObj (delivery_payload detail)) \<and>
     (\<exists>rights. select_first (\<lambda>r. rights_asset_version_id r = detail_asset_version_id detail) (asset_rights s)
          = Some rights \<and>
        rights_publication_restrictions rights = [] \<and>
        (\<forall>t. rights_license_expires_at rights = Some t \<longrightarrow> now < t) \<and>
        (truthy (dict_get (rights_provenance rights) ''customer_content'') \<longrightarrow>
           (\<exists>c. rights_consent_ref rights = Some c \<and> c \<noteq> []))) \<and>
     detail_provider detail = ''telegram'' \<and> acc_provider account = ''telegram'' \<and>
     (\<exists>t. dict_get (delivery_payload detail) ''text'' = Some (JStr t) \<and> 1 \<le> length t \<and> length t \<le> 4096) \<and>
     acc_status account = ''READY'' \<and> acc_auth_healthy account \<and> acc_write_capability account \<and>
     dict_get (acc_capabilities account) ''can_post_messages'' = Some (JBool True) \<and>
     detail_target_chat_id detail = acc_target_chat_id account \<and>
     (\<exists>workflow asset_v. row_get rid (detail_production_workflow_id detail) (production_workflows s) = Some workflow \<and>
        row_get rid (detail_asset_version_id detail) (asset_versions s) = Some asset_v \<and>
        pw_status workflow = READY_FOR_ACTION_PROPOSAL \<and>
        pw_final_asset_version_id workflow = Some (rid asset_v) \<and> exact_version_binding action asset_v) \<and>
     (\<forall>experiment. select_first (\<lambda>e. experiment_decision_id e = detail_decision_id detail) (experiments s)
          = Some experiment \<longrightarrow>
        experiment_status experiment = ExperimentStatus.DRAFT \<and>
        (\<exists>checkpoint. select_first (\<lambda>c. cb_experiment_id c = rid experiment) (checkpoint_bindings s)
             = Some checkpoint \<and>
           cb_decision_id checkpoint = detail_decision_id detail \<and>
           cb_metric_key checkpoint = experiment_metric experiment))"

lemma security_passes: "rv_verdict (security_review detail) = PASS \<longleftrightarrow> secret_free (JObj (delivery_payload detail))"
  by (auto simp: security_review_def verdict_def no_secrets_iff [symmetric] split: sum.splits)

lemma privacy_passes:
  "rv_verdict (privacy_review s detail now) = PASS \<longleftrightarrow>
    (\<exists>rights. select_first (\<lambda>r. rights_asset_version_id r = detail_asset_version_id detail) (asset_rights s)
          = Some rights \<and>
        rights_publication_restrictions rights = [] \<and>
        (\<forall>t. rights_license_expires_at rights = Some t \<longrightarrow> now < t) \<and>
        (truthy (dict_get (rights_provenance rights) ''customer_content'') \<longrightarrow>
           (\<exists>c. rights_consent_ref rights = Some c \<and> c \<noteq> [])))"
  by (auto simp: privacy_review_def verdict_def split: option.splits)

lemma platform_passes:
  "rv_verdict (platform_review detail account) = PASS \<longleftrightarrow>
     detail_provider detail = ''telegram'' \<and> acc_provider account = ''telegram'' \<and>
     (\<exists>t. dict_get (delivery_payload detail) ''text'' = Some (JStr t) \<and> 1 \<le> length t \<and> length t \<le> 4096) \<and>
     acc_status account = ''READY'' \<and> acc_auth_healthy account \<and> acc_write_capability account \<and>
     dict_get (acc_capabilities account) ''can_post_messages'' = Some (JBool True) \<and>
     detail_target_chat_id detail = acc_target_chat_id account"
proof (cases "as_str (dict_get (delivery_payload detail) ''text'')")
  case None
  then have "\<nexists>t. dict_get (delivery_payload detail) ''text'' = Some (JStr t)" by auto
  with None show ?thesis by (simp add: platform_review_def verdict_def)
next
  case (Some t)
  then have "dict_get (delivery_payload detail) ''text'' = Some (JStr t)" by (simp add: as_str_Some)
  with Some show ?thesis by (auto simp: platform_review_def verdict_def Suc_le_eq)
qed

lemma execution_passes:
  "rv_verdict (execution_review s action detail) = PASS \<longleftrightarrow>
     (\<exists>workflow asset_v. row_get rid (detail_production_workflow_id detail) (production_workflows s) = Some workflow \<and>
        row_get rid (detail_asset_version_id detail) (asset_versions s) = Some asset_v \<and>
        pw_status workflow = READY_FOR_ACTION_PROPOSAL \<and>
        pw_final_asset_version_id workflow = Some (rid asset_v) \<and> exact_version_binding action asset_v) \<and>
     (\<forall>experiment. select_first (\<lambda>e. experiment_decision_id e = detail_decision_id detail) (experiments s)
          = Some experiment \<longrightarrow>
        experiment_status experiment = ExperimentStatus.DRAFT \<and>
        (\<exists>checkpoint. select_first (\<lambda>c. cb_experiment_id c = rid experiment) (checkpoint_bindings s)
             = Some checkpoint \<and>
           cb_decision_id checkpoint = detail_decision_id detail \<and>
           cb_metric_key checkpoint = experiment_metric experiment))"
  by (auto simp: execution_review_def experiment_review_def verdict_def split: option.splits)

lemma reviews_pass_iff:
  "reviews_pass (evaluate_execution_controllers s action detail account now) \<longleftrightarrow>
   controllers_satisfied s action detail account now"
proof -
  have "rv_verdict cost_review = PASS" by (simp add: cost_review_def verdict_def)
  then have "reviews_pass (evaluate_execution_controllers s action detail account now) \<longleftrightarrow>
      rv_verdict (security_review detail) = PASS \<and> rv_verdict (privacy_review s detail now) = PASS \<and>
      rv_verdict (platform_review detail account) = PASS \<and> rv_verdict (execution_review s action detail) = PASS"
    by (simp add: reviews_pass_def evaluate_execution_controllers_def)
  then show ?thesis
    unfolding security_passes privacy_passes platform_passes execution_passes controllers_satisfied_def
    by blast
qed

text \<open>
  The permission engine never lets an action through without an owner: for the reviews
  of the controllers, its outcome is never \<open>ALLOWED\<close>, and it is \<open>APPROVAL_REQUIRED\<close>
  exactly when no emergency control is on, every controller is satisfied, and the policy asks for
  approval or concerns a public action; in every other case the action is blocked.
\<close>

theorem permission_outcome_exact:
  "case evaluate_permission scope action policy
      (evaluate_execution_controllers s action detail account now) s of
     (Inl err, t) \<Rightarrow> False
   | (Inr p, t) \<Rightarrow> perm_action_id p = rid action \<and> p \<in> set (permission_evaluations t) \<and>
      perm_outcome p = (if (case global_control (business_id scope) s of None \<Rightarrow> True | Some c \<Rightarrow>
            \<not> automation_paused c \<and> \<not> execution_paused c \<and> \<not> revoke_all_write_capabilities c) \<and>
          controllers_satisfied s action detail account now \<and>
          (requires_approval policy \<or> public_visibility policy)
        then PermissionOutcome.APPROVAL_REQUIRED else PermissionOutcome.BLOCKED)"
  by (simp add: evaluate_permission_def run_simps Let_def permission_verdict_def reviews_pass_iff
      split: prod.splits option.splits)

section \<open>Proposals\<close>

text \<open>The tables a proposal is made of; the steps in between leave them alone.\<close>

definition same_proposals :: "'z exec_store_scheme \<Rightarrow> 'z exec_store_scheme \<Rightarrow> bool" where
  "same_proposals s t \<longleftrightarrow> production_workflows t = production_workflows s \<and>
     asset_versions t = asset_versions s \<and> connector_accounts t = connector_accounts s \<and>
     actions t = actions s \<and> action_details t = action_details s \<and>
     permission_evaluations t = permission_evaluations s"

interpretation sp: state_preorder same_proposals
  by unfold_locales (simp_all add: same_proposals_def)

lemma sp_modify: "(\<And>s. same_proposals s (f s)) \<Longrightarrow> tracks same_proposals (modify f)"
  by (rule sp.t_modify)

lemma sp_primitives:
  "tracks same_proposals new_id" "tracks same_proposals flush" "tracks same_proposals (check_no_secrets pl)"
  "tracks same_proposals (add_audit r)"
  by (auto simp: tracks_def same_proposals_def run_simps add_audit_def check_no_secrets_def)

lemmas sp_rules = sp.t_rules sp_primitives

lemma sp_steps:
  "tracks same_proposals (materialize_reviews scope action reviews)"
  "tracks same_proposals (ensure_default_telegram_permission_policy scope)"
  "tracks same_proposals (audit scope act ot oid pl actor co ca)"
  unfolding materialize_reviews_def ensure_default_telegram_permission_policy_def audit_def
  by (intro sp_rules sp_modify; simp add: same_proposals_def)+

lemma sp_results:
  "materialize_reviews scope action reviews s = (Inr u, t) \<Longrightarrow> same_proposals s t"
  "ensure_default_telegram_permission_policy scope s = (Inr q, t) \<Longrightarrow> same_proposals s t"
  "audit scope act ot oid pl actor co ca s = (Inr v, t) \<Longrightarrow> same_proposals s t"
  by (rule tracksD [OF sp_steps(1)] tracksD [OF sp_steps(2)] tracksD [OF sp_steps(3)], assumption)+

lemma evaluate_permission_run:
  assumes "evaluate_permission scope action policy reviews s = (Inr q, t)"
  shows "perm_action_id q = rid action \<and> same_proposals (s\<lparr>permission_evaluations := permission_evaluations s @ [q]\<rparr>) t"
  using assms by (auto simp: evaluate_permission_def run_simps Let_def same_proposals_def split: prod.splits)

lemma set_action_status_result:
  "set_action_status st a s = (Inr u, t) \<Longrightarrow>
   same_proposals (s\<lparr>actions := row_set rid (rid a) (\<lambda>r. r\<lparr>action_status := st\<rparr>) (actions s)\<rparr>) t"
  by (auto simp: set_action_status_def update_action_def run_simps same_proposals_def)

text \<open>What a proposal that was inserted looks like in the database.\<close>

definition proposal_of ::
  "production_workflow_row \<Rightarrow> asset_version_row \<Rightarrow> connector_account_row \<Rightarrow> string \<Rightarrow> string
     \<Rightarrow> action_row \<Rightarrow> action_detail_row \<Rightarrow> permission_row \<Rightarrow> bool" where
  "proposal_of workflow asset_v account hsh key action detail permission \<longleftrightarrow>
     action_type action = TELEGRAM_PUBLISH_ACTION \<and> action_idempotency_key action = key \<and>
     exact_version_binding action asset_v \<and>
     action_status action = (if perm_outcome permission = PermissionOutcome.BLOCKED
       then ActionStatus.BLOCKED else ActionStatus.APPROVAL_REQUIRED) \<and>
     detail_action_id detail = rid action \<and> perm_action_id permission = rid action \<and>
     detail_production_workflow_id detail = rid workflow \<and> detail_asset_version_id detail = rid asset_v \<and>
     detail_connector_account_id detail = rid account \<and>
     detail_target_chat_id detail = acc_target_chat_id account \<and>
     delivery_payload detail = proposal_payload (av_body asset_v) \<and> delivery_payload_hash detail = hsh"

lemma insert_proposal_run:
  assumes run: "insert_action_proposal scope workflow asset_v account hsh key now co s = (Inr p, t)"
  shows "proposal_created p \<and> rid (proposal_action p) = uuids s (uuid_pos s) \<and>
    proposal_of workflow asset_v account hsh key (proposal_action p) (proposal_detail p) (proposal_permission p) \<and>
    production_workflows t = production_workflows s \<and> asset_versions t = asset_versions s \<and>
    connector_accounts t = connector_accounts s \<and>
    actions t = row_set rid (rid (proposal_action p))
      (\<lambda>r. r\<lparr>action_status := action_status (proposal_action p)\<rparr>)
      (actions s @ [(proposal_action p)\<lparr>action_status := PROPOSED\<rparr>]) \<and>
    action_details t = action_details s @ [proposal_detail p] \<and>
    permission_evaluations t = permission_evaluations s @ [proposal_permission p]"
  using run unfolding insert_action_proposal_def Let_def
  apply (elim bnd_okE)
  apply (drule sp_results evaluate_permission_run set_action_status_result)+
  apply (clarsimp simp only: run_simps prod.inject sum.inject)
  apply (simp add: same_proposals_def proposal_of_def exact_version_binding_def)
  done

text \<open>What a proposal reads, and what it does once the reads have gone through.\<close>

definition proposal_inputs ::
  "'y TenantScope_scheme \<Rightarrow> string \<Rightarrow> string \<Rightarrow> 'z exec_store_scheme
     \<Rightarrow> production_workflow_row \<Rightarrow> asset_version_row \<Rightarrow> connector_account_row \<Rightarrow> bool" where
  "proposal_inputs scope wid cid s workflow asset_v account \<longleftrightarrow>
     row_get rid wid (production_workflows s) = Some workflow \<and>
     org workflow = organization_id scope \<and> biz workflow = business_id scope \<and>
     pw_status workflow = READY_FOR_ACTION_PROPOSAL \<and>
     (\<exists>final_id. pw_final_asset_version_id workflow = Some final_id \<and>
        row_get rid final_id (asset_versions s) = Some asset_v) \<and>
     org asset_v = organization_id scope \<and> biz asset_v = business_id scope \<and>
     row_get rid cid (connector_accounts s) = Some account \<and>
     org account = organization_id scope \<and> biz account = business_id scope \<and>
     no_secrets (proposal_payload (av_body asset_v)) = Inr ()"

definition proposal_hash :: "hash_env \<Rightarrow> asset_version_row \<Rightarrow> string" where
  "proposal_hash env asset_v = payload_hash env (proposal_payload (av_body asset_v))"

definition proposal_key ::
  "hash_env \<Rightarrow> production_workflow_row \<Rightarrow> asset_version_row \<Rightarrow> connector_account_row \<Rightarrow> string" where
  "proposal_key env workflow asset_v account =
     action_key env (rid workflow) (rid asset_v) (rid account) (acc_target_chat_id account)
       (proposal_hash env asset_v)"

definition existing_proposal :: "action_row \<Rightarrow> ('z exec_store_scheme, ActionProposalResult) prog" where
  "existing_proposal a =
     bnd (action_detail (rid a)) (\<lambda>detail.
     bnd (permission_evaluation (rid a)) (\<lambda>permission.
     ret \<lparr>proposal_action = a, proposal_detail = detail, proposal_permission = permission,
          proposal_created = False\<rparr>))"

lemma create_proposal_open:
  assumes "proposal_inputs scope wid cid s workflow asset_v account"
  shows "create_action_proposal env scope wid cid now co s =
    (case select_first (\<lambda>a. action_idempotency_key a = proposal_key env workflow asset_v account) (actions s) of
       Some a \<Rightarrow> existing_proposal a s
     | None \<Rightarrow> insert_action_proposal scope workflow asset_v account (proposal_hash env asset_v)
         (proposal_key env workflow asset_v account) now co s)"
  using assms
  by (auto simp: create_action_proposal_def proposal_inputs_def run_bnd run_gets run_required run_require
      check_scope_def check_no_secrets_def run_lift_sum assert_matches_def Let_def existing_proposal_def
      proposal_key_def proposal_hash_def split: option.split)

lemma create_proposal_inputs:
  assumes "create_action_proposal env scope wid cid now co s = (Inr p, t)"
  obtains workflow asset_v account where "proposal_inputs scope wid cid s workflow asset_v account"
  using assms unfolding create_action_proposal_def
  by (auto elim!: bnd_okE simp: run_gets run_required run_require check_scope_def check_no_secrets_def
      run_lift_sum assert_matches_ok Let_def proposal_inputs_def split: option.splits if_splits)

lemma existing_proposal_run:
  "existing_proposal a s = (Inr p, t) \<longleftrightarrow> t = s \<and> \<not> proposal_created p \<and> proposal_action p = a \<and>
     select_first (\<lambda>d. detail_action_id d = rid a) (action_details s) = Some (proposal_detail p) \<and>
     select_first (\<lambda>q. perm_action_id q = rid a) (permission_evaluations s) = Some (proposal_permission p)"
  by (cases p) (auto simp: existing_proposal_def action_detail_def permission_evaluation_def run_simps
      split: option.splits)

text \<open>
  Proposals are idempotent and exact. Asking twice for a proposal of the same workflow
  and account returns the action of the first request and changes nothing the second time, so a
  retried request never creates a second publication. A proposal that was created is bound to
  the final version of the workflow: the binding check passes in the state left behind, the
  payload is the immutable body of that version, and the action waits for approval unless the
  permission engine has blocked it. The hypothesis is that the identifier drawn for the action
  is not in use.
\<close>

theorem proposal_idempotent:
  assumes run: "create_action_proposal env scope wid cid now co s = (Inr p, t)"
    and fresh: "\<forall>d \<in> set (action_details s). detail_action_id d \<noteq> uuids s (uuid_pos s)"
      "\<forall>q \<in> set (permission_evaluations s). perm_action_id q \<noteq> uuids s (uuid_pos s)"
      "\<forall>a \<in> set (actions s). rid a \<noteq> uuids s (uuid_pos s)"
  shows "create_action_proposal env scope wid cid now' co' t = (Inr (p\<lparr>proposal_created := False\<rparr>), t) \<and>
    (if proposal_created p
     then binding_error env t (proposal_action p) (proposal_detail p) = None \<and>
       action_status (proposal_action p) = (if perm_outcome (proposal_permission p) = PermissionOutcome.BLOCKED
         then ActionStatus.BLOCKED else ActionStatus.APPROVAL_REQUIRED)
     else t = s)"
proof -
  obtain workflow asset_v account where inp: "proposal_inputs scope wid cid s workflow asset_v account"
    using run by (rule create_proposal_inputs)
  let ?key = "proposal_key env workflow asset_v account"
  note opened = create_proposal_open [OF inp, of env now co]
  show ?thesis
  proof (cases "select_first (\<lambda>a. action_idempotency_key a = ?key) (actions s)")
    case (Some a)
    then have e: "existing_proposal a s = (Inr p, t)" using run opened by simp
    then have "t = s" "p\<lparr>proposal_created := False\<rparr> = p" "\<not> proposal_created p"
      by (auto simp: existing_proposal_run)
    with e Some create_proposal_open [OF inp, of env now' co'] show ?thesis by simp
  next
    case None
    then have ins: "insert_action_proposal scope workflow asset_v account (proposal_hash env asset_v) ?key now co s
        = (Inr p, t)" using run opened by simp
    note r = insert_proposal_run [OF ins]
    have old: "row_set rid (uuids s (uuid_pos s)) f (actions s) = actions s" for f
      using fresh(3) by (intro row_set_other) auto
    have acts: "actions t = actions s @ [proposal_action p]"
      using r by (simp add: row_set_append old) (simp add: row_set_def)
    have inp': "proposal_inputs scope wid cid t workflow asset_v account"
      using inp r by (simp add: proposal_inputs_def)
    have "select_first (\<lambda>a. action_idempotency_key a = ?key) (actions t) = Some (proposal_action p)"
      unfolding acts select_first_append using None r by (simp add: proposal_of_def)
    moreover have "select_first (\<lambda>d. detail_action_id d = rid (proposal_action p)) (action_details t)
        = Some (proposal_detail p)"
      using r fresh(1) by (simp add: select_first_append proposal_of_def select_first_None split: option.split)
        (meson select_first_Some)
    moreover have "select_first (\<lambda>q. perm_action_id q = rid (proposal_action p)) (permission_evaluations t)
        = Some (proposal_permission p)"
      using r fresh(2) by (simp add: select_first_append proposal_of_def select_first_None split: option.split)
        (meson select_first_Some)
    ultimately have again: "create_action_proposal env scope wid cid now' co' t =
        (Inr (p\<lparr>proposal_created := False\<rparr>), t)"
      by (simp add: create_proposal_open [OF inp'] existing_proposal_run)
    have ids: "rid workflow = wid" "pw_final_asset_version_id workflow = Some (rid asset_v)"
        "row_get rid (rid asset_v) (asset_versions s) = Some asset_v"
      using inp by (auto simp: proposal_inputs_def dest: row_get_Some)
    have "binding_error env t (proposal_action p) (proposal_detail p) = None"
      using r inp ids
      by (simp add: binding_error_def proposal_of_def proposal_inputs_def proposal_payload_def dict_get_def
          proposal_hash_def)
    with again r show ?thesis by (simp add: proposal_of_def)
  qed
qed

lemma returns_store:
  "returns new_id" "returns flush" "returns (touch og bz)" "returns (enqueue i)" "returns (add_audit r)"
  by (simp_all add: returns_def run_simps add_audit_def)

lemma returns_audit: "no_secrets pl = Inr () \<Longrightarrow> returns (audit scope act ot oid pl actor co ca)"
  by (simp add: returns_def audit_ok)

lemma returns_insert_proposal:
  assumes "no_secrets [(''action_type'', JStr TELEGRAM_PUBLISH_ACTION), (''asset_version_id'', JStr (rid asset_v)),
      (''asset_version'', JInt (av_version_number asset_v)), (''connector_account_id'', JStr (rid account)),
      (''delivery_payload_hash'', JStr hsh)] = Inr ()"
  shows "returns (insert_action_proposal scope workflow asset_v account hsh key now co)"
proof -
  have "no_secrets [(''outcome'', JStr (permission_outcome_value x))] = Inr ()" for x
    by (cases x; hypsubst) code_simp+
  with assms show ?thesis
    unfolding insert_action_proposal_def materialize_reviews_def ensure_default_telegram_permission_policy_def
      evaluate_permission_def set_action_status_def update_action_def
    by (intro returns_rules returns_store returns_audit)
qed

lemma proposal_idempotent_witness:
  "\<exists>p t. create_action_proposal demo_env demo_context ''wf'' ''co'' 5 None demo_db = (Inr p, t) \<and>
     create_action_proposal demo_env demo_context ''wf'' ''co'' 6 None t = (Inr (p\<lparr>proposal_created := False\<rparr>), t) \<and>
     proposal_created p \<and> binding_error demo_env t (proposal_action p) (proposal_detail p) = None"
proof -
  have "no_secrets (proposal_payload (av_body demo_version)) = Inr ()" by code_simp
  then have inp: "proposal_inputs demo_context ''wf'' ''co'' demo_db demo_workflow demo_version demo_account"
    by (simp add: proposal_inputs_def demo_db_def demo_context_def demo_row_defs)
  have key: "proposal_key demo_env demo_workflow demo_version demo_account = ''h''"
    by (simp add: proposal_key_def action_key_def demo_env_def)
  have "no_secrets [(''action_type'', JStr TELEGRAM_PUBLISH_ACTION), (''asset_version_id'', JStr (rid demo_version)),
      (''asset_version'', JInt (av_version_number demo_version)),
      (''connector_account_id'', JStr (rid demo_account)),
      (''delivery_payload_hash'', JStr (proposal_hash demo_env demo_version))] = Inr ()" by code_simp
  then obtain p t where ins: "insert_action_proposal demo_context demo_workflow demo_version demo_account
      (proposal_hash demo_env demo_version) ''h'' 5 None demo_db = (Inr p, t)"
    using returnsD [OF returns_insert_proposal] by blast
  have "select_first (\<lambda>a. action_idempotency_key a = ''h'') (actions demo_db) = None"
    by (simp add: demo_db_def demo_action_def)
  then have run: "create_action_proposal demo_env demo_context ''wf'' ''co'' 5 None demo_db = (Inr p, t)"
    using ins by (simp add: create_proposal_open [OF inp] key)
  have "proposal_created p" using insert_proposal_run [OF ins] by simp
  with proposal_idempotent [OF run, of 6 None] run show ?thesis
    by (simp add: demo_db_def demo_detail_def demo_permission_def demo_action_def)
qed

section \<open>Approvals\<close>

text \<open>The tables an approval only reads, and the provider log.\<close>

definition same_binding :: "'z exec_store_scheme \<Rightarrow> 'z exec_store_scheme \<Rightarrow> bool" where
  "same_binding s t \<longleftrightarrow> memberships t = memberships s \<and> action_details t = action_details s \<and>
     permission_evaluations t = permission_evaluations s \<and> production_workflows t = production_workflows s \<and>
     asset_versions t = asset_versions s \<and> provider_log t = provider_log s"

interpretation sb: state_preorder same_binding
  by unfold_locales (simp_all add: same_binding_def)

definition approval_for :: "action_row \<Rightarrow> approval_row \<Rightarrow> bool" where
  "approval_for action p \<longleftrightarrow> appr_action_id p = rid action \<and> appr_action_type p = action_type action \<and>
     appr_object_version_id p = target_object_version_id action \<and> appr_status p = ApprovalStatus.APPROVED"

lemma obtain_approval_run:
  assumes "obtain_approval scope action detail user now s = (Inr (p, c), t)"
  shows "select_first (approval_for action) (approvals t) = Some p \<and> same_binding s t \<and>
    actions t = actions s \<and> executions t = executions s \<and> jobs t = jobs s \<and> jobs_frame s t"
proof -
  have "tracks jobs_frame (obtain_approval scope action detail user now)"
    unfolding obtain_approval_def by (intro exec_frames exec_modify_frame) simp
  then have "jobs_frame s t" using assms by (rule tracksD)
  with assms show ?thesis
    by (auto simp: obtain_approval_def run_simps audit_def check_no_secrets_def add_audit_def Let_def
        same_binding_def approval_for_def [abs_def] select_first_append split: option.splits sum.splits)
qed

lemma obtain_approval_again:
  "select_first (approval_for action) (approvals s) = Some p \<Longrightarrow>
   obtain_approval scope action detail user now s = (Inr (p, False), s)"
  by (simp add: obtain_approval_def run_simps approval_for_def [abs_def])

lemma obtain_execution_run:
  assumes "obtain_execution scope action approval s = (Inr e, t)"
  shows "select_first (\<lambda>e. exec_action_id e = rid action) (executions t) = Some e \<and> same_binding s t \<and>
    actions t = actions s \<and> approvals t = approvals s \<and> jobs t = jobs s \<and> jobs_frame s t"
proof -
  have "tracks jobs_frame (obtain_execution scope action approval)"
    unfolding obtain_execution_def by (intro exec_frames exec_modify_frame) simp
  then have "jobs_frame s t" using assms by (rule tracksD)
  with assms show ?thesis
    by (auto simp: obtain_execution_def run_simps Let_def same_binding_def select_first_append
        split: option.splits)
qed

lemma obtain_execution_again:
  "select_first (\<lambda>e. exec_action_id e = rid action) (executions s) = Some e \<Longrightarrow>
   obtain_execution scope action approval s = (Inr e, s)"
  by (simp add: obtain_execution_def run_simps)

abbreviation execution_job_payload :: "string \<Rightarrow> execution_row \<Rightarrow> payload" where
  "execution_job_payload aid execution \<equiv> [(''payload_schema_version'', JInt 1), (''action_id'', JStr aid),
     (''execution_id'', JStr (rid execution))]"

text \<open>What must hold for an approval to go through.\<close>

definition approvable ::
  "hash_env \<Rightarrow> 'y TenantScope_scheme \<Rightarrow> string \<Rightarrow> string \<Rightarrow> 'z exec_store_scheme \<Rightarrow> action_row
     \<Rightarrow> action_detail_row \<Rightarrow> bool" where
  "approvable env scope aid user s action detail \<longleftrightarrow>
     row_get rid aid (actions s) = Some action \<and>
     org action = organization_id scope \<and> biz action = business_id scope \<and>
     (\<exists>m. select_first (\<lambda>m. org m = organization_id scope \<and> biz m = business_id scope
          \<and> member_user_id m = user) (memberships s) = Some m \<and> upper (member_role m) = ''OWNER'') \<and>
     action_status action \<in> {ActionStatus.APPROVAL_REQUIRED, ActionStatus.APPROVED} \<and>
     select_first (\<lambda>d. detail_action_id d = aid) (action_details s) = Some detail \<and>
     (\<exists>q. select_first (\<lambda>q. perm_action_id q = aid) (permission_evaluations s) = Some q \<and>
        perm_outcome q = PermissionOutcome.APPROVAL_REQUIRED) \<and>
     binding_error env s action detail = None"

lemma approve_open:
  assumes "approvable env scope aid user s action detail"
  shows "approve_action_proposal env scope aid user now s =
     bnd (obtain_approval scope action detail user now) (\<lambda>(approval, created).
     bnd (set_action_status ActionStatus.APPROVED action) (\<lambda>_.
     bnd (obtain_execution scope action approval) (\<lambda>execution.
     bnd (create_job scope JOB_TYPE_EXECUTION_TELEGRAM_PUBLISH (execution_job_payload aid execution)
            1 (''telegram-execution:'' @ rid execution) now 1 None
            (Some (or_else (detail_correlation_id detail) aid)) (Some (rid approval))) (\<lambda>job.
     bnd (enqueue (rid job)) (\<lambda>_.
     bnd flush (\<lambda>_.
     ret \<lparr>approved_approval = approval, approved_execution = execution, approved_job_id = rid job,
          approved_created = created\<rparr>)))))) s"
proof -
  have "rid action = aid" using assms by (auto simp: approvable_def dest: row_get_Some)
  with assms show ?thesis
    by (auto simp: approve_action_proposal_def approvable_def run_bnd [of "gets f" for f]
        run_bnd [of "required a b" for a b] run_bnd [of "require a b" for a b]
        run_bnd [of "lift_sum a" for a] bnd_assoc
        assert_owner_def check_scope_def assert_matches_def action_detail_def permission_evaluation_def
        assert_current_action_binding_def run_gets run_required run_require run_lift_sum)
qed

lemma approve_needs:
  assumes "approve_action_proposal env scope aid user now s = (Inr r, t)"
  obtains action detail where "approvable env scope aid user s action detail"
proof -
  have "\<exists>action detail. approvable env scope aid user s action detail"
    using assms unfolding approve_action_proposal_def
    by (elim bnd_okE)
      (auto simp: approvable_def assert_owner_def check_scope_def assert_matches_ok action_detail_def
        permission_evaluation_def assert_current_action_binding_def run_simps
        dest!: row_get_Some split: option.splits if_splits)
  with that show thesis by blast
qed

definition action_ident :: "action_row \<Rightarrow> string \<times> string \<times> string \<times> string \<times> string" where
  "action_ident a = (rid a, org a, biz a, target_object_version_id a, action_idempotency_key a)"

interpretation actiontab: keyed_table "rid :: action_row \<Rightarrow> string" action_ident
  by unfold_locales (simp add: action_ident_def)

lemma action_status_stable [simp]: "actiontab.stable (\<lambda>q. q\<lparr>action_status := st\<rparr>)"
  by (simp add: actiontab.stable_def action_ident_def)

text \<open>An approval, step by step: the states in between and the job it leaves behind.\<close>

lemma approve_steps:
  assumes inv: "jobs_inv s" and ok: "approvable env scope aid user s action detail"
    and run: "approve_action_proposal env scope aid user now s = (Inr r, t)"
  shows "same_binding s t \<and> jobs_frame s t \<and> sql_jobs t = jobs t \<and>
    row_get rid aid (actions t) = Some (action\<lparr>action_status := ActionStatus.APPROVED\<rparr>) \<and>
    select_first (approval_for action) (approvals t) = Some (approved_approval r) \<and>
    select_first (\<lambda>e. exec_action_id e = aid) (executions t) = Some (approved_execution r) \<and>
    (\<exists>j. find_job scope JOB_TYPE_EXECUTION_TELEGRAM_PUBLISH
        (''telegram-execution:'' @ rid (approved_execution r)) t = [j] \<and> rid j = approved_job_id r \<and>
      create_job_accepts JOB_TYPE_EXECUTION_TELEGRAM_PUBLISH (execution_job_payload aid (approved_execution r)) 1 1)"
proof -
  have aid: "rid action = aid" using ok by (auto simp: approvable_def dest: row_get_Some)
  let ?key = "''telegram-execution:'' @ rid (approved_execution r)"
  let ?job = "create_job scope JOB_TYPE_EXECUTION_TELEGRAM_PUBLISH (execution_job_payload aid (approved_execution r))
      1 ?key now 1 None (Some (or_else (detail_correlation_id detail) aid)) (Some (rid (approved_approval r)))"
  obtain s1 s2 s3 s4 j where
      s1: "obtain_approval scope action detail user now s = (Inr (approved_approval r, approved_created r), s1)"
    and s2: "s2 = s1\<lparr>actions := row_set rid aid (\<lambda>q. q\<lparr>action_status := ActionStatus.APPROVED\<rparr>) (actions s1),
        unit_of_work := unit_of_work s1 @ [(org action, biz action)]\<rparr>"
    and s3: "obtain_execution scope action (approved_approval r) s2 = (Inr (approved_execution r), s3)"
    and s4: "?job s3 = (Inr j, s4)" and j: "approved_job_id r = rid j"
    and t: "t = s4\<lparr>wakeups := wakeups s4 @ [rid j], sql_jobs := jobs s4, unit_of_work := []\<rparr>"
    using run unfolding approve_open [OF ok]
    by (auto elim!: bnd_okE simp: set_action_status_def update_action_def run_modify run_touch run_enqueue
        run_flush run_ret aid split: prod.splits)
  note a = obtain_approval_run [OF s1] and e = obtain_execution_run [OF s3, unfolded aid]
  have f2: "jobs_frame s1 s2" by (rule jobs_frame_same) (simp_all add: s2)
  have f4: "jobs_frame s3 s4" using create_job_frame s4 by (rule tracksD)
  have ft: "jobs_frame s4 t" by (rule jobs_frame_same) (simp_all add: t)
  have frame: "jobs_frame s t" "jobs_inv s3"
    using a e f2 f4 ft inv by (meson jf.trans, auto simp: jobs_frame_def)
  then have invt: "jobs_inv t" using inv by (simp add: jobs_frame_def)
  note c = create_job_result [OF s4]
  obtain js where found: "find_job scope JOB_TYPE_EXECUTION_TELEGRAM_PUBLISH ?key s4 = j # js"
    using create_job_finds [OF frame(2) s4] by blast
  have inv4: "jobs_inv s4" using f4 frame(2) by (simp add: jobs_frame_def)
  have one: "find_job scope JOB_TYPE_EXECUTION_TELEGRAM_PUBLISH ?key t = [j]"
    using find_job_unique [OF inv4 found] by (subst find_job_synced) (simp_all add: t invt [unfolded t])
  have act: "row_get rid aid (actions t) = Some (action\<lparr>action_status := ActionStatus.APPROVED\<rparr>)"
    using ok a e c by (auto simp: t s2 approvable_def actiontab.get_set_same)
  have "same_binding s t" using a e c by (auto simp: same_binding_def s2 t)
  moreover have "approvals t = approvals s1" "executions t = executions s3" "sql_jobs t = jobs t"
    using e c by (auto simp: s2 t)
  ultimately show ?thesis using frame a e one act c j by simp
qed


lemma demo_inv: "jobs_inv demo_db"
  by (auto simp: jobs_inv_def ids_drawn_def demo_db_def inj_on_def)

lemma demo_approvable: "approvable demo_env demo_context ''ac'' ''u'' demo_db demo_action demo_detail"
proof -
  have "upper ''Owner'' = ''OWNER''" by code_simp
  then show ?thesis
    by (simp add: approvable_def binding_error_def exact_version_binding_def payload_hash_def dict_get_def
        proposal_payload_def demo_env_def demo_db_def demo_context_def demo_row_defs)
qed


section \<open>Sends that raise\<close>

text \<open>
  A send whose attempt raises is forgotten. The attempt runs in one transaction with the
  provider call inside it: when an exception escapes after the message has gone out, the provider
  has the message, but the rollback takes back the start of the execution, every audit row and the
  external reference, and the execution stays open, so the database does not know of the send.
  The decision record asks for \<open>UNKNOWN_EXTERNAL_OUTCOME\<close> whenever a response failure
  leaves the outcome open; the witness is a truncated HTTP response, which the connector does not
  translate.
\<close>

theorem raised_send_is_forgotten:
  assumes port: "telegram_port connector"
    and run: "in_transaction (TelegramExecutionHandler_handle env connector context pl now) s = (Inl e, t)"
    and sent: "provider_log t \<noteq> provider_log s"
  shows "(\<exists>command. provider_log t = provider_log s @ [sent command]) \<and>
    executions t = executions s \<and> external_references t = external_references s \<and>
    audit_logs t = audit_logs s \<and> publications t = publications s \<and>
    (\<exists>eid execution. dict_get pl ''execution_id'' = Some (JStr eid) \<and>
       row_get rid eid (executions t) = Some execution \<and>
       exec_status execution \<notin> {ExecutionStatus.SUCCEEDED, UNKNOWN_EXTERNAL_OUTCOME})"
proof -
  let ?s = "begin_session s"
  obtain u where u: "TelegramExecutionHandler_handle env connector context pl now ?s = (Inl e, u)"
      "t = roll_back ?s u"
    using run by (auto simp: in_transaction_def split: prod.splits sum.splits)
  have log: "provider_log ?s = provider_log s" "provider_log t = provider_log u"
    by (simp_all add: begin_session_def u(2) roll_back_def)
  with sent have "provider_log u \<noteq> provider_log ?s" by simp
  with port u(1) obtain action execution command where
      o: "handler_opens context pl ?s action execution" "provider_log u = provider_log ?s @ [command]"
      "\<exists>c. command = sent c"
    by (metis exec_port.handle_sends exec_port.intro)
  have "row_get rid (rid execution) (executions t) = Some execution"
    using o(1) by (simp add: u(2) roll_back_def handler_opens_def)
  with o log show ?thesis
    by (auto simp: u(2) roll_back_def begin_session_def handler_opens_def)
qed

abbreviation truncated :: "unit exec_store_ext telegram_connector" where
  "truncated \<equiv> TelegramHttpConnector (\<lambda>_ _ _. ProtocolFailure ''IncompleteRead'') (Some ''tok'') TELEGRAM_SECRET_REF"

lemma raised_send_is_forgotten_witness:
  "\<exists>t e. in_transaction (TelegramExecutionHandler_handle demo_env truncated demo_context demo_payload 9) demo_db
      = (Inl (OtherError ''IncompleteRead'' []), t) \<and>
    provider_log t \<noteq> provider_log demo_db \<and> audit_logs t = [] \<and>
    row_get rid ''ex'' (executions t) = Some e \<and> exec_status e = ExecutionStatus.PENDING"
proof -
  let ?c = "publish_command demo_detail ''hi''"
  have start: "begin_session demo_db = demo_db" by (simp add: begin_session_def demo_db_def)
  obtain u where u: "start_execution demo_context demo_action demo_detail demo_execution demo_approval demo_db
      = (Inr (), u)" "provider_log u = []" using demo_start by blast
  have res: "resolve (Some ''tok'') TELEGRAM_SECRET_REF = Inr ''tok''" by code_simp
  have pub: "publish_text truncated ?c u =
      (Inl (OtherError ''IncompleteRead'' []), u\<lparr>provider_log := provider_log u @ [sent ?c]\<rparr>)"
    by (simp add: TelegramHttpConnector_def http_publish_text_def run_bnd write_call_run res sent_def)
  have "TelegramExecutionHandler_handle demo_env truncated demo_context demo_payload 9 demo_db =
      (Inl (OtherError ''IncompleteRead'' []), u\<lparr>provider_log := provider_log u @ [sent ?c]\<rparr>)"
    unfolding handler_open [OF demo_opens demo_payload_ok demo_gates] send_and_record_def
    using u pub by (simp add: run_bnd handle_error_def run_raise)
  then obtain t where run: "in_transaction (TelegramExecutionHandler_handle demo_env truncated demo_context
      demo_payload 9) demo_db = (Inl (OtherError ''IncompleteRead'' []), t)"
    and t: "provider_log t = [sent ?c]"
    by (simp add: in_transaction_def start roll_back_def u(2))
  have sent: "provider_log t \<noteq> provider_log demo_db" using t by (simp add: demo_db_def)
  from raised_send_is_forgotten [OF http.telegram_port_axioms run sent] run sent show ?thesis
    by (auto simp: demo_db_def demo_execution_def)
qed

end
