(* ===== verification/Analytics_Store.thy ===== *)
theory Analytics_Store
  imports Execution_Flow
begin

text \<open>
  The data of the analytics loop: the checkpoint contract (\<open>analytics/contracts.py\<close>), the
  rows of \<open>persistence/phase6_models.py\<close> and of the observation tables, the database that
  holds them, and the helpers of \<open>analytics/phase6.py\<close> that only compute.
\<close>

section \<open>Time and text\<close>

text \<open>\<open>timedelta(seconds=n)\<close> on instants counted in microseconds.\<close>

definition seconds :: "int \<Rightarrow> timedelta" where
  "seconds n = n * 1000000"

definition pad :: "nat \<Rightarrow> int \<Rightarrow> string" where
  "pad w n = replicate (w - length (show_int n)) CHR ''0'' @ show_int n"

text \<open>The proleptic Gregorian date of a day counted from 1970-01-01.\<close>

definition civil_date :: "int \<Rightarrow> int \<times> int \<times> int" where
  "civil_date days =
    (let z = days + 719468;
         era = z div 146097;
         doe = z mod 146097;
         yoe = (doe - doe div 1460 + doe div 36524 - doe div 146096) div 365;
         doy = doe - (365 * yoe + yoe div 4 - yoe div 100);
         mp = (5 * doy + 2) div 153;
         m = (if mp < 10 then mp + 3 else mp - 9)
     in (yoe + era * 400 + (if m \<le> 2 then 1 else 0), m, doy - (153 * mp + 2) div 5 + 1))"

text \<open>\<open>datetime.isoformat()\<close> of an instant in UTC.\<close>

definition isoformat :: "datetime \<Rightarrow> string" where
  "isoformat t =
    (let (y, m, d) = civil_date (t div 86400000000);
         us = t mod 86400000000;
         sec = us div 1000000;
         micro = us mod 1000000
     in pad 4 y @ ''-'' @ pad 2 m @ ''-'' @ pad 2 d @ ''T'' @ pad 2 (sec div 3600) @ '':'' @
        pad 2 (sec div 60 mod 60) @ '':'' @ pad 2 (sec mod 60) @
        (if micro = 0 then [] else ''.'' @ pad 6 micro) @ ''+00:00'')"

text \<open>
  \<open>datetime.fromtimestamp(n, tz=UTC)\<close>: the years 1 to 9999 can be represented, other values
  raise.
\<close>

definition fromtimestamp :: "int \<Rightarrow> py_error + datetime" where
  "fromtimestamp n =
    (if -62135596800 \<le> n \<and> n \<le> 253402300799 then Inr (seconds n)
     else Inl (ValueError ''year is out of range''))"

section \<open>The checkpoint contract (\<open>analytics/contracts.py\<close>)\<close>

record TypedThreshold =
  threshold_operator :: string
  threshold_value :: real

record Phase6CheckpointSpec =
  spec_schema_version :: int
  spec_metric_key :: string
  spec_window_seconds :: int
  spec_grace_seconds :: int
  spec_success :: TypedThreshold
  spec_weak_signal :: TypedThreshold
  spec_failure :: TypedThreshold
  spec_coverage_requirement :: string
  spec_attribution_method :: string
  spec_next_action_on_success :: string
  spec_next_action_on_weak_signal :: string
  spec_next_action_on_failure :: string

text \<open>The field constraints of the two models.\<close>

definition threshold_fields :: "TypedThreshold \<Rightarrow> bool" where
  "threshold_fields t \<longleftrightarrow>
     threshold_operator t \<in> set [''GTE'', ''GT'', ''LTE'', ''LT'', ''EQ''] \<and> 0 \<le> threshold_value t"

definition spec_fields :: "Phase6CheckpointSpec \<Rightarrow> bool" where
  "spec_fields p \<longleftrightarrow>
     spec_schema_version p = 1 \<and> spec_metric_key p = ''telegram_reaction_changes'' \<and>
     1 \<le> spec_window_seconds p \<and> spec_window_seconds p \<le> 86400 \<and>
     0 \<le> spec_grace_seconds p \<and> spec_grace_seconds p \<le> 3600 \<and>
     threshold_fields (spec_success p) \<and> threshold_fields (spec_weak_signal p) \<and>
     threshold_fields (spec_failure p) \<and>
     spec_coverage_requirement p = ''COMPLETE'' \<and>
     spec_attribution_method p = ''telegram_message_lineage'' \<and>
     spec_next_action_on_success p \<noteq> [] \<and> spec_next_action_on_weak_signal p \<noteq> [] \<and>
     spec_next_action_on_failure p \<noteq> []"

text \<open>The validator that runs after the fields have been checked.\<close>

definition first_slice_thresholds_are_deterministic ::
  "Phase6CheckpointSpec \<Rightarrow> py_error + Phase6CheckpointSpec" where
  "first_slice_thresholds_are_deterministic p =
    (if threshold_operator (spec_success p) \<noteq> ''GTE'' \<or> threshold_operator (spec_weak_signal p) \<noteq> ''GTE''
     then Inl (ValueError ''reaction-count success and weak-signal thresholds must use GTE'')
     else if threshold_operator (spec_failure p) \<noteq> ''EQ'' \<or> threshold_value (spec_failure p) \<noteq> 0
     then Inl (ValueError ''reaction-count failure threshold must be EQ 0'')
     else if \<not> (threshold_value (spec_success p) > threshold_value (spec_weak_signal p)
                 \<and> threshold_value (spec_weak_signal p) > 0)
     then Inl (ValueError ''success must be greater than weak signal, which must be positive'')
     else Inr p)"

text \<open>An object of the class exists when both have passed.\<close>

definition spec_valid :: "Phase6CheckpointSpec \<Rightarrow> bool" where
  "spec_valid p \<longleftrightarrow> spec_fields p \<and> first_slice_thresholds_are_deterministic p = Inr p"

definition threshold_payload :: "TypedThreshold \<Rightarrow> json" where
  "threshold_payload t = JObj [(''operator'', JStr (threshold_operator t)), (''value'', JFloat (threshold_value t))]"

definition canonical_payload :: "Phase6CheckpointSpec \<Rightarrow> payload" where
  "canonical_payload p =
     [(''schema_version'', JInt (spec_schema_version p)), (''metric_key'', JStr (spec_metric_key p)),
      (''window_seconds'', JInt (spec_window_seconds p)), (''grace_seconds'', JInt (spec_grace_seconds p)),
      (''success'', threshold_payload (spec_success p)),
      (''weak_signal'', threshold_payload (spec_weak_signal p)),
      (''failure'', threshold_payload (spec_failure p)),
      (''coverage_requirement'', JStr (spec_coverage_requirement p)),
      (''attribution_method'', JStr (spec_attribution_method p)),
      (''next_action_on_success'', JStr (spec_next_action_on_success p)),
      (''next_action_on_weak_signal'', JStr (spec_next_action_on_weak_signal p)),
      (''next_action_on_failure'', JStr (spec_next_action_on_failure p))]"

definition contract_hash :: "hash_env \<Rightarrow> Phase6CheckpointSpec \<Rightarrow> string" where
  "contract_hash env p = payload_hash env (canonical_payload p)"

section \<open>Rows\<close>

record source_row = scoped_row +
  src_provider :: string
  src_external_id :: string
  src_source_type :: string
  src_trust :: SourceTrust
  src_payload :: payload
  src_occurred_at :: "datetime option"
  src_ingested_at :: datetime

record evidence_row = scoped_row +
  ev_source_record_id :: string
  ev_statement :: string
  ev_status :: EpistemicStatus
  ev_confidence :: "real option"
  ev_occurred_at :: "datetime option"
  ev_recorded_at :: datetime
  ev_conflicts_with :: "string list"

record observation_state_row = scoped_row +
  os_connector_account_id :: string
  os_observation_mode :: string
  os_last_update_id :: "int option"
  os_coverage_started_at :: datetime
  os_last_successful_ingest_at :: "datetime option"
  os_freshness_status :: string
  os_gap_detected :: bool
  os_allowed_update_types :: "string list"
  os_updated_at :: datetime

record observation_row = scoped_row +
  ob_connector_account_id :: string
  ob_provider :: string
  ob_event_identity :: string
  ob_event_type :: string
  ob_external_object_id :: "string option"
  ob_external_parent_id :: "string option"
  ob_event_time :: datetime
  ob_ingested_at :: datetime
  ob_raw_payload :: payload
  ob_payload_hash :: string
  ob_trust_class :: SourceTrust

record observation_link_row = scoped_row +
  ol_observation_id :: string
  ol_source_record_id :: string
  ol_business_event_id :: string
  ol_evidence_id :: string
  ol_publication_id :: "string option"

record metric_row = scoped_row +
  mv_checkpoint_definition_id :: string
  mv_metric_key :: string
  mv_subject_type :: string
  mv_subject_id :: string
  mv_source_provider :: string
  mv_source_connector_account_id :: string
  mv_version_number :: int
  mv_value_numeric :: "real option"
  mv_value_type :: string
  mv_availability_status :: string
  mv_coverage_status :: string
  mv_source_window_start :: datetime
  mv_source_window_end :: datetime
  mv_included_business_event_ids :: "string list"
  mv_excluded_event_rule_version :: string
  mv_calculation_version :: string
  mv_calculated_at :: datetime
  mv_previous_metric_version_id :: "string option"
  mv_derivation_hash :: string
  mv_evidence_id :: string

record experiment_result_row = scoped_row +
  er_experiment_id :: string
  er_result_class :: string
  er_observed_value :: string
  er_interpreted_at :: datetime

record result_detail_row = scoped_row +
  rd_experiment_result_id :: string
  rd_checkpoint_definition_id :: string
  rd_metric_version_id :: string
  rd_result_class :: string
  rd_checkpoint_contract_hash :: string
  rd_source_coverage_status :: string

record learning_review_row = scoped_row +
  lr_experiment_result_id :: string
  lr_controller_type :: string
  lr_verdict :: ControllerVerdict
  lr_reason :: string
  lr_limits :: "string list"
  lr_causality_ceiling :: CausalityClass

record learning_row = scoped_row +
  le_decision_id :: "string option"
  le_experiment_id :: "string option"
  le_statement :: string
  le_evidence_ids :: "string list"
  le_causality_class :: CausalityClass
  le_confidence :: "real option"

record learning_detail_row = scoped_row +
  ld_learning_id :: string
  ld_experiment_result_id :: string
  ld_metric_version_ids :: "string list"
  ld_interpretation_class :: string
  ld_limits :: "string list"
  ld_controller_review_ids :: "string list"

record analytics_store = exec_store +
  source_records :: "source_row list"
  evidence :: "evidence_row list"
  observation_states :: "observation_state_row list"
  observations :: "observation_row list"
  observation_links :: "observation_link_row list"
  metric_versions :: "metric_row list"
  experiment_results :: "experiment_result_row list"
  result_details :: "result_detail_row list"
  learning_reviews :: "learning_review_row list"
  learnings :: "learning_row list"
  learning_details :: "learning_detail_row list"

section \<open>Audit and outbox rows\<close>

text \<open>\<open>_audit\<close> and \<open>_outbox\<close> of this module do not screen the payload and do not flush.\<close>

definition analytics_audit ::
  "'y TenantScope_scheme \<Rightarrow> string \<Rightarrow> string \<Rightarrow> string \<Rightarrow> payload \<Rightarrow> string \<Rightarrow> string option
     \<Rightarrow> ('z store_scheme, unit) prog" where
  "analytics_audit scope act obj_type obj_id pl correlation causation =
     bnd new_id (\<lambda>i.
     add_audit \<lparr>rid = i, org = organization_id scope, biz = business_id scope,
       audit_actor_user_id = None, audit_action = act, audit_object_type = obj_type,
       audit_object_id = obj_id, audit_payload = pl,
       audit_correlation_id = Some correlation, audit_causation_id = causation\<rparr>)"

definition analytics_outbox ::
  "'y TenantScope_scheme \<Rightarrow> string \<Rightarrow> string \<Rightarrow> string \<Rightarrow> payload \<Rightarrow> datetime \<Rightarrow> string \<Rightarrow> string option
     \<Rightarrow> ('z store_scheme, unit) prog" where
  "analytics_outbox scope ev_type agg_type agg_id pl now correlation causation =
     bnd new_id (\<lambda>i.
     add_outbox \<lparr>rid = i, org = organization_id scope, biz = business_id scope,
       outbox_event_type = ev_type, outbox_aggregate_type = agg_type,
       outbox_aggregate_id = agg_id, outbox_payload = pl, outbox_status = OutboxStatus.PENDING,
       outbox_occurred_at = now, outbox_correlation_id = correlation,
       outbox_causation_id = causation, outbox_created_at = now, published_at = None\<rparr>)"

section \<open>Telegram updates\<close>

definition TELEGRAM_ALLOWED_UPDATES :: "string list" where
  "TELEGRAM_ALLOWED_UPDATES = [''channel_post'', ''message_reaction'', ''message_reaction_count'']"

definition REACTION_EVENT_TYPES :: "string list" where
  "REACTION_EVENT_TYPES = [''telegram.message_reaction'', ''telegram.message_reaction_count'']"

definition METRIC_CALCULATION_VERSION :: string where
  "METRIC_CALCULATION_VERSION = ''phase6.telegram_reaction_changes.v1''"

definition EXCLUDED_EVENT_RULE_VERSION :: string where
  "EXCLUDED_EVENT_RULE_VERSION = ''phase6.reaction_change.event_identity.v1''"

definition TELEGRAM_RETENTION_GAP :: timedelta where
  "TELEGRAM_RETENTION_GAP = seconds (23 * 3600)"

fun event_type_among :: "string list \<Rightarrow> payload \<Rightarrow> py_error + string" where
  "event_type_among [] update = Inl (PermanentJobError ''Telegram update class is not allowed in Phase 6'')"
| "event_type_among (key # keys) update =
    (case dict_get update key of
       None \<Rightarrow> event_type_among keys update
     | Some (JObj _) \<Rightarrow> Inr key
     | Some _ \<Rightarrow> Inl (PermanentJobError ''Telegram update payload is invalid''))"

definition telegram_event_type :: "payload \<Rightarrow> py_error + string" where
  "telegram_event_type update = event_type_among TELEGRAM_ALLOWED_UPDATES update"

definition telegram_event_identity ::
  "payload \<Rightarrow> string \<Rightarrow> py_error + datetime \<times> string option \<times> string option" where
  "telegram_event_identity update ev_type =
    (case as_obj (dict_get update ev_type) of
       None \<Rightarrow> Inl (PermanentJobError ''Telegram event body is invalid'')
     | Some event_body \<Rightarrow>
         (case as_int (dict_get event_body ''date'') of
            None \<Rightarrow> Inl (PermanentJobError ''Telegram event_time is required'')
          | Some raw_date \<Rightarrow>
              (case fromtimestamp raw_date of
                 Inl e \<Rightarrow> Inl e
               | Inr t \<Rightarrow> Inr (t, id_text (dict_get event_body ''message_id''),
                   (case as_obj (dict_get event_body ''chat'') of
                      None \<Rightarrow> None
                    | Some chat \<Rightarrow> id_text (dict_get chat ''id''))))))"

text \<open>\<open>str(update_id)\<close> of an identifier that is an \<open>int\<close>.\<close>

definition update_identity :: "payload \<Rightarrow> string option" where
  "update_identity update =
    (case dict_get update ''update_id'' of None \<Rightarrow> None | Some v \<Rightarrow> py_int_str v)"

definition update_sort_key :: "payload \<Rightarrow> py_error + int" where
  "update_sort_key update =
    (case as_int (dict_get update ''update_id'') of
       None \<Rightarrow> Inl (PermanentJobError ''Telegram update_id is invalid'')
     | Some i \<Rightarrow> Inr i)"

text \<open>
  \<open>_hash_payload\<close>; every value it is given here is plain JSON, so \<open>default=str\<close> is
  never used.
\<close>

definition hash_payload :: "hash_env \<Rightarrow> payload \<Rightarrow> string" where
  "hash_payload env pl = payload_hash env pl"

definition matches :: "string \<Rightarrow> real \<Rightarrow> real \<Rightarrow> py_error + bool" where
  "matches op_name v threshold =
    (if op_name = ''GTE'' then Inr (threshold \<le> v)
     else if op_name = ''GT'' then Inr (threshold < v)
     else if op_name = ''LTE'' then Inr (v \<le> threshold)
     else if op_name = ''LT'' then Inr (v < threshold)
     else if op_name = ''EQ'' then Inr (v = threshold)
     else Inl (PermanentJobError ''unsupported typed checkpoint operator''))"

end
