(* ===== verification/Observation.thy ===== *)
theory Observation
  imports Analytics_Store
begin

text \<open>
  Observing what happened to a publication (\<open>connectors/telegram_observation.py\<close> and the first
  half of \<open>analytics/phase6.py\<close>): the connector that polls for updates, the configuration of the
  poll, the ingestion of one update, its normalisation into a source record, a business event and
  a piece of evidence, and the handlers that do this for a job.
\<close>

section \<open>The observation connector\<close>

record 'z observation_connector =
  get_updates :: "int option \<Rightarrow> string list \<Rightarrow> int \<Rightarrow> ('z store_scheme, payload list) prog"

text \<open>\<open>_token\<close>: the stripped bot token of the settings.\<close>

definition observation_token :: "string option \<Rightarrow> py_error + string" where
  "observation_token telegram_bot_token =
    (case telegram_bot_token of
       None \<Rightarrow> Inl (TelegramObservationUnavailable ''TELEGRAM_CREDENTIAL_UNAVAILABLE'')
     | Some v \<Rightarrow>
         if strip v = [] then Inl (TelegramObservationUnavailable ''TELEGRAM_CREDENTIAL_UNAVAILABLE'')
         else Inr (strip v))"

primrec all_objects :: "json list \<Rightarrow> py_error + payload list" where
  "all_objects [] = Inr []"
| "all_objects (item # items) =
    (case item of
       JObj d \<Rightarrow> (case all_objects items of Inl e \<Rightarrow> Inl e | Inr ds \<Rightarrow> Inr (d # ds))
     | _ \<Rightarrow> Inl (TelegramObservationUnavailable ''TELEGRAM_OBSERVATION_INVALID_UPDATE''))"

definition decode_updates :: "json \<Rightarrow> py_error + payload list" where
  "decode_updates decoded =
    (case decoded of
       JObj d \<Rightarrow>
         if dict_get d ''ok'' \<noteq> Some (JBool True)
         then Inl (TelegramObservationUnavailable (''TELEGRAM_OBSERVATION_API_'' @
                (case dict_get d ''error_code'' of
                   None \<Rightarrow> ''REJECTED''
                 | Some v \<Rightarrow> (case py_int_str v of None \<Rightarrow> ''REJECTED'' | Some c \<Rightarrow> c))))
         else (case dict_get d ''result'' of
             Some (JList items) \<Rightarrow> all_objects items
           | _ \<Rightarrow> Inl (TelegramObservationUnavailable ''TELEGRAM_OBSERVATION_INVALID_RESULT''))
     | _ \<Rightarrow> Inl (TelegramObservationUnavailable ''TELEGRAM_OBSERVATION_API_REJECTED''))"

text \<open>What the HTTP exchange ended in; a protocol failure is not one of the exceptions the code names.\<close>

fun updates_of_outcome :: "http_outcome \<Rightarrow> py_error + payload list" where
  "updates_of_outcome (HttpStatus code) =
     Inl (TelegramObservationUnavailable (''TELEGRAM_OBSERVATION_HTTP_'' @ show_int code))"
| "updates_of_outcome TransportFailure =
     Inl (TelegramObservationUnavailable ''TELEGRAM_OBSERVATION_UNAVAILABLE'')"
| "updates_of_outcome (ProtocolFailure c) = Inl (OtherError c [])"
| "updates_of_outcome Undecodable =
     Inl (TelegramObservationUnavailable ''TELEGRAM_OBSERVATION_INVALID_RESPONSE'')"
| "updates_of_outcome (Decoded j) = decode_updates j"

definition http_get_updates ::
  "telegram_api \<Rightarrow> string option \<Rightarrow> int option \<Rightarrow> string list \<Rightarrow> int \<Rightarrow> ('z store_scheme, payload list) prog" where
  "http_get_updates api token offset allowed_updates timeout_seconds =
     bnd (lift_sum (observation_token token)) (\<lambda>_.
     let pl = [(''timeout'', JInt timeout_seconds), (''allowed_updates'', JList (map JStr allowed_updates))] @
           (case offset of None \<Rightarrow> [] | Some n \<Rightarrow> [(''offset'', JInt n)])
     in bnd (gets (\<lambda>s. api (provider_log s) ''getUpdates'' pl)) (\<lambda>outcome.
        bnd (modify (\<lambda>s. s\<lparr>provider_log := provider_log s @ [log_entry ''getUpdates'' pl]\<rparr>)) (\<lambda>_.
        lift_sum (updates_of_outcome outcome))))"

definition TelegramHttpObservationConnector :: "telegram_api \<Rightarrow> string option \<Rightarrow> 'z observation_connector" where
  "TelegramHttpObservationConnector api token = \<lparr>get_updates = http_get_updates api token\<rparr>"

definition fake_delivers :: "bool \<Rightarrow> int option \<Rightarrow> string list \<Rightarrow> payload \<Rightarrow> bool" where
  "fake_delivers ignore_offset offset allowed_updates update =
    (case as_int (dict_get update ''update_id'') of
       None \<Rightarrow> False
     | Some i \<Rightarrow>
         (ignore_offset \<or> (case offset of None \<Rightarrow> True | Some n \<Rightarrow> n \<le> i)) \<and>
         list_ex (\<lambda>key. dict_get update key \<noteq> None) allowed_updates)"

text \<open>Its list \<open>calls\<close> is the log of polls.\<close>

definition FakeTelegramObservationConnector :: "payload list \<Rightarrow> bool \<Rightarrow> 'z observation_connector" where
  "FakeTelegramObservationConnector updates ignore_offset =
     \<lparr>get_updates = (\<lambda>offset allowed_updates timeout_seconds.
        bnd (modify (\<lambda>s. s\<lparr>provider_log := provider_log s @ [log_entry ''getUpdates''
               [(''offset'', case offset of None \<Rightarrow> JNull | Some n \<Rightarrow> JInt n),
                (''allowed_updates'', JList (map JStr allowed_updates)),
                (''timeout_seconds'', JInt timeout_seconds)]]\<rparr>)) (\<lambda>_.
        ret (filter (fake_delivers ignore_offset offset allowed_updates) updates)))\<rparr>"

section \<open>Configuration and jobs\<close>

definition update_observation_state ::
  "string \<Rightarrow> (observation_state_row \<Rightarrow> observation_state_row) \<Rightarrow> ('z analytics_store_scheme, unit) prog" where
  "update_observation_state i f =
     modify (\<lambda>s. s\<lparr>observation_states := row_set rid i f (observation_states s)\<rparr>)"

definition observation_state :: "string \<Rightarrow> 'z analytics_store_scheme \<Rightarrow> observation_state_row option" where
  "observation_state account_id s =
     select_first (\<lambda>r. os_connector_account_id r = account_id) (observation_states s)"

definition configure_telegram_observation ::
  "'y TenantScope_scheme \<Rightarrow> string \<Rightarrow> datetime \<Rightarrow> string list
     \<Rightarrow> ('z analytics_store_scheme, observation_state_row) prog" where
  "configure_telegram_observation scope account_id now allowed_update_types =
     bnd (gets (\<lambda>s. row_get rid account_id (connector_accounts s))) (\<lambda>acc.
     bnd (required acc (PermanentJobError ''ConnectorAccount not found for Telegram observation'')) (\<lambda>account.
     bnd (check_scope scope (org account) (biz account)) (\<lambda>_.
     bnd (require (acc_provider account = ''telegram'' \<and> acc_auth_healthy account)
           (PermanentJobError ''Telegram connector is not observation-ready'')) (\<lambda>_.
     bnd (require (set allowed_update_types \<subseteq> set TELEGRAM_ALLOWED_UPDATES)
           (PermanentJobError ''unsupported Telegram observation update type'')) (\<lambda>_.
     bnd (gets (observation_state (rid account))) (\<lambda>existing.
     case existing of
       Some state \<Rightarrow>
         let f = (\<lambda>r. r\<lparr>os_allowed_update_types := allowed_update_types, os_updated_at := now\<rparr>)
         in bnd (update_observation_state (rid state) f) (\<lambda>_.
            bnd (touch (org state) (biz state)) (\<lambda>_.
            bnd flush (\<lambda>_. ret (f state))))
     | None \<Rightarrow>
         bnd new_id (\<lambda>i.
         let state = \<lparr>rid = i, org = organization_id scope, biz = business_id scope,
               os_connector_account_id = rid account, os_observation_mode = ''LONG_POLL'',
               os_last_update_id = None, os_coverage_started_at = now,
               os_last_successful_ingest_at = None, os_freshness_status = ''UNKNOWN'',
               os_gap_detected = False, os_allowed_update_types = allowed_update_types,
               os_updated_at = now\<rparr>
         in bnd (modify (\<lambda>s. s\<lparr>observation_states := observation_states s @ [state]\<rparr>)) (\<lambda>_.
            bnd flush (\<lambda>_. ret state)))))))))"

definition enqueue_telegram_observation_job ::
  "'y TenantScope_scheme \<Rightarrow> string \<Rightarrow> datetime \<Rightarrow> string \<Rightarrow> ('z store_scheme, string) prog" where
  "enqueue_telegram_observation_job scope account_id now cycle_id =
     bnd (create_job scope JOB_TYPE_CONNECTOR_TELEGRAM_OBSERVE_UPDATES
            [(''payload_schema_version'', JInt 1), (''connector_account_id'', JStr account_id)]
            1 (''telegram-observe:'' @ account_id @ '':'' @ cycle_id) now 3 None
            (Some (''telegram-observe:'' @ account_id)) None) (\<lambda>job.
     bnd (enqueue (rid job)) (\<lambda>_. ret (rid job)))"

section \<open>Ingestion of one update\<close>

definition publication_for_observation :: "'z analytics_store_scheme \<Rightarrow> observation_row \<Rightarrow> string option" where
  "publication_for_observation s observation =
    (case ob_external_object_id observation of
       None \<Rightarrow> None
     | Some oid \<Rightarrow>
         (case select_first (\<lambda>r. ref_connector_account_id r = ob_connector_account_id observation \<and>
                 ref_provider r = ''telegram'' \<and> ref_external_object_type r = ''message'' \<and>
                 ref_external_id r = oid) (external_references s) of
            None \<Rightarrow> None
          | Some external \<Rightarrow>
              if ob_external_parent_id observation \<noteq> None \<and> ref_external_parent_id external \<noteq> None \<and>
                 ob_external_parent_id observation \<noteq> ref_external_parent_id external
              then None
              else map_option link_publication_id
                (select_first (\<lambda>l. link_external_reference_id l = rid external) (publication_links s))))"

text \<open>The rows of a new observation: source record, business event, evidence and the link.\<close>

definition insert_normalized ::
  "'y TenantScope_scheme \<Rightarrow> observation_row \<Rightarrow> string option
     \<Rightarrow> ('z analytics_store_scheme, business_event_row \<times> evidence_row \<times> string option) prog" where
  "insert_normalized scope observation publication_id =
     bnd new_id (\<lambda>sid.
     let source = \<lparr>rid = sid, org = organization_id scope, biz = business_id scope,
           src_provider = ''telegram'',
           src_external_id = ob_connector_account_id observation @ '':'' @ ob_event_identity observation,
           src_source_type = ob_event_type observation, src_trust = UNTRUSTED_EXTERNAL,
           src_payload = [(''connector_observation_id'', JStr (rid observation)),
             (''payload_hash'', JStr (ob_payload_hash observation))],
           src_occurred_at = Some (ob_event_time observation), src_ingested_at = ob_ingested_at observation\<rparr>
     in bnd (modify (\<lambda>s. s\<lparr>source_records := source_records s @ [source]\<rparr>)) (\<lambda>_.
     bnd flush (\<lambda>_.
     bnd new_id (\<lambda>eid.
     let event = \<lparr>rid = eid, org = organization_id scope, biz = business_id scope,
           business_event_type = ''telegram.'' @ ob_event_type observation,
           event_source_record_id = Some sid, event_time = ob_event_time observation,
           event_recorded_at = ob_ingested_at observation,
           business_event_payload =
             [(''provider'', JStr ''telegram''), (''connector_observation_id'', JStr (rid observation)),
              (''provider_event_identity'', JStr (ob_event_identity observation)),
              (''message_id'', opt_json (ob_external_object_id observation)),
              (''chat_id'', opt_json (ob_external_parent_id observation)),
              (''publication_id'', opt_json publication_id),
              (''payload_hash'', JStr (ob_payload_hash observation))],
           event_correlation_id = Some (''telegram-update:'' @ ob_event_identity observation),
           event_causation_id = Some (rid observation)\<rparr>
     in bnd (add_business_event event) (\<lambda>_.
     bnd flush (\<lambda>_.
     bnd new_id (\<lambda>vid.
     let ev = \<lparr>rid = vid, org = organization_id scope, biz = business_id scope,
           ev_source_record_id = sid,
           ev_statement = ''Telegram '' @ ob_event_type observation @ '' observed for message '' @
             or_else (ob_external_object_id observation) ''unknown'' @ ''.'',
           ev_status = EpistemicStatus.OBSERVATION, ev_confidence = None,
           ev_occurred_at = Some (ob_event_time observation),
           ev_recorded_at = ob_ingested_at observation, ev_conflicts_with = []\<rparr>
     in bnd (modify (\<lambda>s. s\<lparr>evidence := evidence s @ [ev]\<rparr>)) (\<lambda>_.
     bnd flush (\<lambda>_.
     bnd new_id (\<lambda>lid.
     bnd (modify (\<lambda>s. s\<lparr>observation_links := observation_links s @
            [\<lparr>rid = lid, org = organization_id scope, biz = business_id scope,
              ol_observation_id = rid observation, ol_source_record_id = sid,
              ol_business_event_id = eid, ol_evidence_id = vid,
              ol_publication_id = publication_id\<rparr>]\<rparr>)) (\<lambda>_.
     bnd flush (\<lambda>_.
     ret (event, ev, publication_id)))))))))))))"

definition normalize_observation ::
  "'y TenantScope_scheme \<Rightarrow> observation_row
     \<Rightarrow> ('z analytics_store_scheme, business_event_row \<times> evidence_row \<times> string option) prog" where
  "normalize_observation scope observation =
     bnd (gets (\<lambda>s. select_first (\<lambda>l. ol_observation_id l = rid observation) (observation_links s))) (\<lambda>existing.
     case existing of
       Some link \<Rightarrow>
         bnd (gets (\<lambda>s. (row_get rid (ol_business_event_id link) (business_events s),
                         row_get rid (ol_evidence_id link) (evidence s)))) (\<lambda>rows.
         case rows of
           (Some event, Some ev) \<Rightarrow> ret (event, ev, ol_publication_id link)
         | _ \<Rightarrow> raise (PermanentJobError ''normalized observation link is incomplete''))
     | None \<Rightarrow>
         bnd (gets (\<lambda>s. publication_for_observation s observation)) (\<lambda>publication_id.
         insert_normalized scope observation publication_id))"

record ObservationIngestResult =
  ingest_observation :: observation_row
  ingest_business_event :: business_event_row
  ingest_evidence :: evidence_row
  ingest_publication_id :: "string option"
  ingest_created :: bool

text \<open>
  The identity, event type, event time, message and chat of an update, or the exception its
  validation raises.
\<close>

definition parse_update ::
  "payload \<Rightarrow> py_error + string \<times> string \<times> datetime \<times> string option \<times> string option" where
  "parse_update update =
    (case update_identity update of
       None \<Rightarrow> Inl (PermanentJobError ''Telegram update_id is required'')
     | Some identity \<Rightarrow>
         (case telegram_event_type update of
            Inl e \<Rightarrow> Inl e
          | Inr ev_type \<Rightarrow>
              (case telegram_event_identity update ev_type of
                 Inl e \<Rightarrow> Inl e
               | Inr (t, message_id, chat_id) \<Rightarrow> Inr (identity, ev_type, t, message_id, chat_id))))"

definition ingest_telegram_update ::
  "hash_env \<Rightarrow> 'y TenantScope_scheme \<Rightarrow> string \<Rightarrow> payload \<Rightarrow> datetime
     \<Rightarrow> ('z analytics_store_scheme, ObservationIngestResult) prog" where
  "ingest_telegram_update env scope account_id update ingested_at =
     bnd (gets (\<lambda>s. row_get rid account_id (connector_accounts s))) (\<lambda>acc.
     bnd (required acc (PermanentJobError ''ConnectorAccount not found during Telegram ingestion'')) (\<lambda>account.
     bnd (check_scope scope (org account) (biz account)) (\<lambda>_.
     bnd (lift_sum (parse_update update)) (\<lambda>(identity, ev_type, t, message_id, chat_id).
     bnd (gets (\<lambda>s. select_first (\<lambda>q. ob_connector_account_id q = rid account \<and>
            ob_event_identity q = identity) (observations s))) (\<lambda>existing.
     case existing of
       Some q \<Rightarrow>
         bnd (normalize_observation scope q) (\<lambda>(event, ev, publication_id).
         ret \<lparr>ingest_observation = q, ingest_business_event = event, ingest_evidence = ev,
              ingest_publication_id = publication_id, ingest_created = False\<rparr>)
     | None \<Rightarrow>
         bnd new_id (\<lambda>i.
         let q = \<lparr>rid = i, org = organization_id scope, biz = business_id scope,
               ob_connector_account_id = rid account, ob_provider = ''telegram'',
               ob_event_identity = identity, ob_event_type = ev_type,
               ob_external_object_id = message_id, ob_external_parent_id = chat_id,
               ob_event_time = t, ob_ingested_at = ingested_at, ob_raw_payload = update,
               ob_payload_hash = hash_payload env update, ob_trust_class = UNTRUSTED_EXTERNAL\<rparr>
         in bnd (modify (\<lambda>s. s\<lparr>observations := observations s @ [q]\<rparr>)) (\<lambda>_.
            bnd flush (\<lambda>_.
            bnd (normalize_observation scope q) (\<lambda>(event, ev, publication_id).
            ret \<lparr>ingest_observation = q, ingest_business_event = event, ingest_evidence = ev,
                 ingest_publication_id = publication_id, ingest_created = True\<rparr>)))))))))"

section \<open>The observation handler\<close>

definition publication_ids_for_account :: "'z analytics_store_scheme \<Rightarrow> string \<Rightarrow> string list" where
  "publication_ids_for_account s account_id =
     concat (map (\<lambda>reference.
         case select_first (\<lambda>l. link_external_reference_id l = rid reference) (publication_links s) of
           None \<Rightarrow> [] | Some link \<Rightarrow> [link_publication_id link])
       (filter (\<lambda>r. ref_connector_account_id r = account_id \<and> ref_provider r = ''telegram'' \<and>
          ref_external_object_type r = ''message'') (external_references s)))"

text \<open>\<open>sorted(updates, key=_update_sort_key)\<close>: the first invalid identifier raises.\<close>

definition sort_updates :: "payload list \<Rightarrow> py_error + payload list" where
  "sort_updates updates =
    (if list_all (\<lambda>u. as_int (dict_get u ''update_id'') \<noteq> None) updates
     then Inr (sort_key (\<lambda>u. the (as_int (dict_get u ''update_id''))) updates)
     else Inl (PermanentJobError ''Telegram update_id is invalid''))"

fun ingest_all ::
  "hash_env \<Rightarrow> 'y TenantScope_scheme \<Rightarrow> string \<Rightarrow> datetime \<Rightarrow> payload list \<Rightarrow> string list \<Rightarrow> int option
     \<Rightarrow> ('z analytics_store_scheme, string list \<times> int option) prog" where
  "ingest_all env scope account_id now [] publication_ids max_update_id = ret (publication_ids, max_update_id)"
| "ingest_all env scope account_id now (update # updates) publication_ids max_update_id =
     bnd (required (as_int (dict_get update ''update_id''))
           (PermanentJobError ''Telegram update_id is invalid'')) (\<lambda>update_id.
     bnd (ingest_telegram_update env scope account_id update now) (\<lambda>ingested.
     ingest_all env scope account_id now updates
       (case ingest_publication_id ingested of None \<Rightarrow> publication_ids | Some p \<Rightarrow> p # publication_ids)
       (case max_update_id of
          None \<Rightarrow> Some update_id
        | Some m \<Rightarrow> if m < update_id then Some update_id else Some m)))"

definition poll_updates ::
  "'z observation_connector \<Rightarrow> observation_state_row \<Rightarrow> ('z store_scheme, payload list) prog" where
  "poll_updates connector state =
     handle_error
       (get_updates connector (map_option (\<lambda>n. n + 1) (os_last_update_id state))
          (os_allowed_update_types state) 0)
       (\<lambda>error. case error of
          TelegramObservationUnavailable m \<Rightarrow> raise (TransientJobError m)
        | _ \<Rightarrow> raise error)"

definition ingest_gap :: "datetime \<Rightarrow> observation_state_row \<Rightarrow> bool" where
  "ingest_gap now state =
    (case os_last_successful_ingest_at state of
       None \<Rightarrow> False | Some t \<Rightarrow> now - t > TELEGRAM_RETENTION_GAP)"

definition ingested_values :: "datetime \<Rightarrow> int option \<Rightarrow> observation_state_row \<Rightarrow> observation_state_row" where
  "ingested_values now max_update_id r =
     r\<lparr>os_last_update_id := max_update_id, os_last_successful_ingest_at := Some now,
       os_freshness_status := ''FRESH'', os_updated_at := now\<rparr>"

definition enqueue_metric_job ::
  "RuntimeJobContext \<Rightarrow> datetime \<Rightarrow> string \<Rightarrow> ('z store_scheme, unit) prog" where
  "enqueue_metric_job context now publication_id =
     bnd (create_job context JOB_TYPE_ANALYTICS_CALCULATE_METRIC_VERSION
            [(''payload_schema_version'', JInt 1), (''publication_id'', JStr publication_id)]
            1 (''metric:'' @ publication_id @ '':observation-job:'' @ ctx_job_id context) now 2 None
            (ctx_correlation_id context) (Some (ctx_job_id context))) (\<lambda>job.
     enqueue (rid job))"

text \<open>From the poll to the jobs it leaves behind, for a state that has passed the checks.\<close>

definition observe_updates ::
  "hash_env \<Rightarrow> ('z analytics_store_ext exec_store_ext) observation_connector \<Rightarrow> RuntimeJobContext \<Rightarrow> datetime
     \<Rightarrow> string \<Rightarrow> observation_state_row \<Rightarrow> ('z analytics_store_scheme, unit) prog" where
  "observe_updates env connector context now account_id state =
     bnd (if ingest_gap now state
          then bnd (update_observation_state (rid state) (\<lambda>r. r\<lparr>os_gap_detected := True\<rparr>))
                 (\<lambda>_. touch (org state) (biz state))
          else ret ()) (\<lambda>_.
     bnd (poll_updates connector state) (\<lambda>updates.
     bnd (gets (\<lambda>s. publication_ids_for_account s account_id)) (\<lambda>known.
     bnd (lift_sum (sort_updates updates)) (\<lambda>ordered.
     bnd (ingest_all env context account_id now ordered known (os_last_update_id state)) (\<lambda>(publication_ids, max_update_id).
     bnd (update_observation_state (rid state) (ingested_values now max_update_id)) (\<lambda>_.
     bnd (touch (org state) (biz state)) (\<lambda>_.
     bnd flush (\<lambda>_.
     foreach (sort (remdups publication_ids)) (enqueue_metric_job context now)))))))))"

definition TelegramObservationHandler_handle ::
  "hash_env \<Rightarrow> ('z analytics_store_ext exec_store_ext) observation_connector \<Rightarrow> RuntimeJobContext \<Rightarrow> payload
     \<Rightarrow> datetime \<Rightarrow> ('z analytics_store_scheme, unit) prog" where
  "TelegramObservationHandler_handle env connector context pl now =
     bnd (require (equals_int (dict_get pl ''payload_schema_version'') 1)
           (PermanentJobError ''Telegram observation payload_schema_version must be 1'')) (\<lambda>_.
     bnd (required (as_str (dict_get pl ''connector_account_id''))
           (PermanentJobError ''connector_account_id is required'')) (\<lambda>account_id.
     bnd (gets (observation_state account_id)) (\<lambda>found.
     bnd (required found (PermanentJobError ''Telegram observation state is not configured'')) (\<lambda>state.
     bnd (check_scope context (org state) (biz state)) (\<lambda>_.
     bnd (require (os_observation_mode state = ''LONG_POLL'')
           (PermanentJobError ''unsupported Telegram observation mode'')) (\<lambda>_.
     observe_updates env connector context now account_id state))))))"

definition NormalizeConnectorObservationHandler_handle ::
  "RuntimeJobContext \<Rightarrow> payload \<Rightarrow> datetime \<Rightarrow> ('z analytics_store_scheme, unit) prog" where
  "NormalizeConnectorObservationHandler_handle context pl now =
     bnd (require (equals_int (dict_get pl ''payload_schema_version'') 1)
           (PermanentJobError ''normalization payload_schema_version must be 1'')) (\<lambda>_.
     bnd (required (as_str (dict_get pl ''observation_id''))
           (PermanentJobError ''observation_id is required'')) (\<lambda>observation_id.
     bnd (gets (\<lambda>s. row_get rid observation_id (observations s))) (\<lambda>found.
     bnd (required found (PermanentJobError ''ConnectorObservation not found'')) (\<lambda>observation.
     bnd (check_scope context (org observation) (biz observation)) (\<lambda>_.
     bnd (normalize_observation context observation) (\<lambda>_. ret ()))))))"

end
