(* ===== verification/Analytics.thy ===== *)
theory Analytics
  imports Observation
begin

text \<open>
  The second half of \<open>analytics/phase6.py\<close>: metric versions calculated from the observed
  events, the interpretation of a checkpoint, and the governed learning that follows from it, with
  the handlers of the three jobs and their registry.
\<close>

section \<open>Metric versions\<close>

text \<open>The lineage of a publication: its checkpoint and its external reference.\<close>

definition checkpoint_context_for_publication ::
  "'z analytics_store_scheme \<Rightarrow> string \<Rightarrow> py_error + checkpoint_binding_row \<times> external_reference_row" where
  "checkpoint_context_for_publication s pid =
    (case select_first (\<lambda>l. link_publication_id l = pid) (publication_links s) of
       None \<Rightarrow> Inl (PermanentJobError ''Publication execution lineage is missing'')
     | Some link \<Rightarrow>
         (case (row_get rid (link_external_reference_id link) (external_references s),
                select_first (\<lambda>d. detail_action_id d = link_action_id link) (action_details s)) of
            (Some external, Some detail) \<Rightarrow>
              (case select_first (\<lambda>e. experiment_decision_id e = detail_decision_id detail) (experiments s) of
                 None \<Rightarrow> Inl (PermanentJobError ''Phase 6 Publication has no Experiment'')
               | Some experiment \<Rightarrow>
                   (case select_first (\<lambda>c. cb_experiment_id c = rid experiment) (checkpoint_bindings s) of
                      None \<Rightarrow> Inl (PermanentJobError ''Phase 6 Publication has no typed checkpoint'')
                    | Some checkpoint \<Rightarrow> Inr (checkpoint, external)))
          | _ \<Rightarrow> Inl (PermanentJobError ''Publication external/action lineage is incomplete'')))"

definition metric_coverage ::
  "observation_state_row option \<Rightarrow> datetime \<Rightarrow> datetime \<Rightarrow> int \<Rightarrow> datetime \<Rightarrow> string \<times> string" where
  "metric_coverage state window_start window_end grace_seconds now =
    (case state of
       None \<Rightarrow> (''UNAVAILABLE'', ''UNAVAILABLE'')
     | Some st \<Rightarrow>
         (case os_last_successful_ingest_at st of
            None \<Rightarrow> (''UNAVAILABLE'', ''UNAVAILABLE'')
          | Some ingest_at \<Rightarrow>
              if os_coverage_started_at st > window_start then (''UNAVAILABLE'', ''UNAVAILABLE'')
              else if os_gap_detected st then (''PARTIAL'', ''PARTIAL'')
              else if now - ingest_at > TELEGRAM_RETENTION_GAP then (''STALE'', ''STALE'')
              else if ingest_at < window_end + seconds grace_seconds then (''PARTIAL'', ''PARTIAL'')
              else (''AVAILABLE'', ''COMPLETE'')))"

definition counted_event ::
  "'y TenantScope_scheme \<Rightarrow> string \<Rightarrow> datetime \<Rightarrow> datetime \<Rightarrow> business_event_row \<Rightarrow> bool" where
  "counted_event scope pid window_start window_end e \<longleftrightarrow>
     org e = organization_id scope \<and> biz e = business_id scope \<and>
     business_event_type e \<in> set REACTION_EVENT_TYPES \<and>
     window_start \<le> event_time e \<and> event_time e \<le> window_end \<and>
     dict_get (business_event_payload e) ''publication_id'' = Some (JStr pid)"

definition counted_events ::
  "'y TenantScope_scheme \<Rightarrow> string \<Rightarrow> datetime \<Rightarrow> datetime \<Rightarrow> 'z store_scheme \<Rightarrow> business_event_row list" where
  "counted_events scope pid window_start window_end s =
     sort_key (\<lambda>e. (event_time e, rid e))
       (filter (counted_event scope pid window_start window_end) (business_events s))"

definition derivation ::
  "checkpoint_binding_row \<Rightarrow> string \<Rightarrow> string list \<Rightarrow> string \<Rightarrow> string \<Rightarrow> datetime \<Rightarrow> datetime
     \<Rightarrow> observation_state_row option \<Rightarrow> payload" where
  "derivation checkpoint pid event_ids availability coverage window_start window_end state =
     [(''metric_key'', JStr (cb_metric_key checkpoint)), (''publication_id'', JStr pid),
      (''checkpoint_contract_hash'', JStr (cb_contract_hash checkpoint)),
      (''event_ids'', JList (map JStr event_ids)), (''availability'', JStr availability),
      (''coverage'', JStr coverage), (''source_window_start'', JStr (isoformat window_start)),
      (''source_window_end'', JStr (isoformat window_end)),
      (''last_successful_ingest_at'',
        (case state of None \<Rightarrow> JNull
         | Some st \<Rightarrow> (case os_last_successful_ingest_at st of
              None \<Rightarrow> JNull | Some t \<Rightarrow> JStr (isoformat t)))),
      (''calculation_version'', JStr METRIC_CALCULATION_VERSION)]"

text \<open>\<open>order_by(version_number.desc()).limit(1)\<close>.\<close>

definition latest_metric ::
  "'y TenantScope_scheme \<Rightarrow> string \<Rightarrow> string \<Rightarrow> 'z analytics_store_scheme \<Rightarrow> metric_row option" where
  "latest_metric scope key pid s =
    (case rev (sort_key mv_version_number (filter (\<lambda>m. biz m = business_id scope \<and> mv_metric_key m = key \<and>
        mv_subject_type m = ''Publication'' \<and> mv_subject_id m = pid) (metric_versions s))) of
       [] \<Rightarrow> None | m # _ \<Rightarrow> Some m)"

record MetricCalculationResult =
  calculated_metric :: metric_row
  calculated_created :: bool

text \<open>The rows of a new version.\<close>

definition insert_metric_version ::
  "'y TenantScope_scheme \<Rightarrow> checkpoint_binding_row \<Rightarrow> external_reference_row \<Rightarrow> string \<Rightarrow> string list
     \<Rightarrow> string \<Rightarrow> string \<Rightarrow> datetime \<Rightarrow> datetime \<Rightarrow> string \<Rightarrow> metric_row option \<Rightarrow> datetime
     \<Rightarrow> ('z analytics_store_scheme, MetricCalculationResult) prog" where
  "insert_metric_version scope checkpoint external pid event_ids availability coverage window_start window_end
       hsh latest now =
     bnd new_id (\<lambda>metric_id.
     bnd new_id (\<lambda>sid.
     let source = \<lparr>rid = sid, org = organization_id scope, biz = business_id scope,
           src_provider = ''launch_os'', src_external_id = ''metric:'' @ metric_id,
           src_source_type = ''metric_version'', src_trust = INTERNAL_SYSTEM,
           src_payload = [(''metric_version_id'', JStr metric_id), (''derivation_hash'', JStr hsh),
             (''included_business_event_ids'', JList (map JStr event_ids))],
           src_occurred_at = Some now, src_ingested_at = now\<rparr>
     in bnd (modify (\<lambda>s. s\<lparr>source_records := source_records s @ [source]\<rparr>)) (\<lambda>_.
     bnd flush (\<lambda>_.
     bnd new_id (\<lambda>vid.
     let ev = \<lparr>rid = vid, org = organization_id scope, biz = business_id scope,
           ev_source_record_id = sid,
           ev_statement = cb_metric_key checkpoint @ '' for Publication '' @ pid @ '': availability='' @
             availability @ '', observed_count='' @ show_nat (length event_ids) @ ''.'',
           ev_status = (if availability = ''AVAILABLE'' then EpistemicStatus.DERIVED_FACT
             else EpistemicStatus.UNKNOWN),
           ev_confidence = None, ev_occurred_at = Some window_end, ev_recorded_at = now,
           ev_conflicts_with = []\<rparr>
     in bnd (modify (\<lambda>s. s\<lparr>evidence := evidence s @ [ev]\<rparr>)) (\<lambda>_.
     bnd flush (\<lambda>_.
     let metric = \<lparr>rid = metric_id, org = organization_id scope, biz = business_id scope,
           mv_checkpoint_definition_id = rid checkpoint, mv_metric_key = cb_metric_key checkpoint,
           mv_subject_type = ''Publication'', mv_subject_id = pid, mv_source_provider = ''telegram'',
           mv_source_connector_account_id = ref_connector_account_id external,
           mv_version_number = (case latest of None \<Rightarrow> 1 | Some m \<Rightarrow> mv_version_number m + 1),
           mv_value_numeric = (if availability = ''AVAILABLE'' \<or> event_ids \<noteq> []
             then Some (real (length event_ids)) else None),
           mv_value_type = ''COUNT'', mv_availability_status = availability,
           mv_coverage_status = coverage, mv_source_window_start = window_start,
           mv_source_window_end = window_end, mv_included_business_event_ids = event_ids,
           mv_excluded_event_rule_version = EXCLUDED_EVENT_RULE_VERSION,
           mv_calculation_version = METRIC_CALCULATION_VERSION, mv_calculated_at = now,
           mv_previous_metric_version_id = map_option rid latest, mv_derivation_hash = hsh,
           mv_evidence_id = vid\<rparr>
     in bnd (modify (\<lambda>s. s\<lparr>metric_versions := metric_versions s @ [metric]\<rparr>)) (\<lambda>_.
     bnd flush (\<lambda>_.
     bnd (analytics_audit scope ''METRIC_VERSION_CALCULATED'' ''MetricVersion'' metric_id
            [(''metric_key'', JStr (mv_metric_key metric)), (''publication_id'', JStr pid),
             (''version_number'', JInt (mv_version_number metric)),
             (''availability_status'', JStr availability), (''coverage_status'', JStr coverage)]
            (''metric:'' @ pid) (Some pid)) (\<lambda>_.
     bnd (analytics_outbox scope ''metric.version.calculated'' ''MetricVersion'' metric_id
            [(''publication_id'', JStr pid), (''metric_key'', JStr (mv_metric_key metric)),
             (''availability_status'', JStr availability)]
            now (''metric:'' @ pid) (Some pid)) (\<lambda>_.
     ret \<lparr>calculated_metric = metric, calculated_created = True\<rparr>)))))))))))"

definition calculate_metric_version ::
  "hash_env \<Rightarrow> 'y TenantScope_scheme \<Rightarrow> string \<Rightarrow> datetime
     \<Rightarrow> ('z analytics_store_scheme, MetricCalculationResult) prog" where
  "calculate_metric_version env scope pid now =
     bnd (gets (\<lambda>s. case row_get rid pid (publications s) of
            None \<Rightarrow> None
          | Some p \<Rightarrow> map_option (\<lambda>t. (p, t)) (pub_published_at p))) (\<lambda>found.
     bnd (required found (PermanentJobError ''published Publication is required for metric calculation''))
       (\<lambda>(publication, window_start).
     bnd (check_scope scope (org publication) (biz publication)) (\<lambda>_.
     bnd (gets (\<lambda>s. checkpoint_context_for_publication s (rid publication))) (\<lambda>lineage.
     bnd (lift_sum lineage) (\<lambda>(checkpoint, external).
     bnd (require (cb_metric_key checkpoint = ''telegram_reaction_changes'')
           (PermanentJobError ''unsupported Phase 6 metric key'')) (\<lambda>_.
     bnd (gets (observation_state (ref_connector_account_id external))) (\<lambda>state.
     let window_end = window_start + seconds (cb_window_seconds checkpoint);
         (availability, coverage) =
           metric_coverage state window_start window_end (cb_grace_seconds checkpoint) now
     in bnd (gets (\<lambda>s. map rid (counted_events scope (rid publication) window_start window_end s))) (\<lambda>event_ids.
     let hsh = hash_payload env (derivation checkpoint (rid publication) event_ids availability coverage
           window_start window_end state)
     in bnd (gets (latest_metric scope (cb_metric_key checkpoint) (rid publication))) (\<lambda>latest.
     case latest of
       Some m \<Rightarrow>
         if mv_derivation_hash m = hsh
         then ret \<lparr>calculated_metric = m, calculated_created = False\<rparr>
         else insert_metric_version scope checkpoint external (rid publication) event_ids availability
                coverage window_start window_end hsh latest now
     | None \<Rightarrow> insert_metric_version scope checkpoint external (rid publication) event_ids availability
                coverage window_start window_end hsh latest now)))))))))"

definition CalculateMetricVersionHandler_handle ::
  "hash_env \<Rightarrow> RuntimeJobContext \<Rightarrow> payload \<Rightarrow> datetime \<Rightarrow> ('z analytics_store_scheme, unit) prog" where
  "CalculateMetricVersionHandler_handle env context pl now =
     bnd (require (equals_int (dict_get pl ''payload_schema_version'') 1)
           (PermanentJobError ''metric payload_schema_version must be 1'')) (\<lambda>_.
     bnd (required (as_str (dict_get pl ''publication_id''))
           (PermanentJobError ''publication_id is required'')) (\<lambda>pid.
     bnd (calculate_metric_version env context pid now) (\<lambda>_. ret ())))"

definition enqueue_checkpoint_interpretation_job ::
  "'y TenantScope_scheme \<Rightarrow> string \<Rightarrow> datetime \<Rightarrow> ('z analytics_store_scheme, string) prog" where
  "enqueue_checkpoint_interpretation_job scope mid now =
     bnd (gets (\<lambda>s. row_get rid mid (metric_versions s))) (\<lambda>found.
     bnd (required found (PermanentJobError ''MetricVersion not found for checkpoint interpretation'')) (\<lambda>metric.
     bnd (check_scope scope (org metric) (biz metric)) (\<lambda>_.
     bnd (create_job scope JOB_TYPE_LEARNING_INTERPRET_CHECKPOINT
            [(''payload_schema_version'', JInt 1), (''metric_version_id'', JStr (rid metric))]
            1 (''checkpoint-interpret:'' @ rid metric) now 2 None
            (Some (''checkpoint:'' @ rid metric)) (Some (rid metric))) (\<lambda>job.
     bnd (enqueue (rid job)) (\<lambda>_. ret (rid job))))))"

end
