(* ===== verification/Learning.thy ===== *)
theory Learning
  imports Analytics
begin

text \<open>
  The interpretation of a checkpoint and the governed learning that follows
  (\<open>analytics/phase6.py\<close>), with their handlers and the registry of the analytics jobs.
\<close>

section \<open>Interpretation\<close>

text \<open>The class of a metric under its checkpoint, or the exception its interpretation raises.\<close>

definition classify_checkpoint :: "checkpoint_binding_row \<Rightarrow> metric_row \<Rightarrow> py_error + string" where
  "classify_checkpoint checkpoint metric =
    (if mv_availability_status metric \<noteq> ''AVAILABLE'' \<or> mv_coverage_status metric \<noteq> ''COMPLETE''
     then Inr ''INSUFFICIENT_DATA''
     else case mv_value_numeric metric of
         None \<Rightarrow> Inl (PermanentJobError ''available MetricVersion requires a numeric value'')
       | Some v \<Rightarrow>
           (case matches (cb_success_operator checkpoint) v (cb_success_value checkpoint) of
              Inl e \<Rightarrow> Inl e
            | Inr succeeded \<Rightarrow> if succeeded then Inr ''SUCCESS'' else
           (case matches (cb_weak_signal_operator checkpoint) v (cb_weak_signal_value checkpoint) of
              Inl e \<Rightarrow> Inl e
            | Inr weak \<Rightarrow> if weak then Inr ''WEAK_SIGNAL'' else
           (case matches (cb_failure_operator checkpoint) v (cb_failure_value checkpoint) of
              Inl e \<Rightarrow> Inl e
            | Inr failed \<Rightarrow> if failed then Inr ''FAILURE''
                else Inl (PermanentJobError ''typed checkpoint conditions are non-exhaustive'')))))"

text \<open>
  \<open>json.dumps(..., sort_keys=True)\<close> with the default separators; non-ASCII characters are
  escaped.
\<close>

definition json_ascii :: "string \<Rightarrow> string" where
  "json_ascii t =
     [char_of (34::nat)] @ concat (map (\<lambda>c. if 127 \<le> (of_char c :: nat)
       then [char_of (92::nat), CHR ''u'', CHR ''0'', CHR ''0'', hex_digit (of_char c div 16), hex_digit (of_char c mod 16)]
       else json_escape c) t) @ [char_of (34::nat)]"

definition observed_value :: "hash_env \<Rightarrow> metric_row \<Rightarrow> string" where
  "observed_value env metric =
     ''{'' @ json_ascii ''availability_status'' @ '': '' @ json_ascii (mv_availability_status metric) @ '', '' @
     json_ascii ''metric_version_id'' @ '': '' @ json_ascii (rid metric) @ '', '' @
     json_ascii ''value_numeric'' @ '': '' @
     (case mv_value_numeric metric of None \<Rightarrow> ''null'' | Some v \<Rightarrow> float_repr env v) @ ''}''"

record CheckpointInterpretationResult =
  interpreted_result :: experiment_result_row
  interpreted_detail :: result_detail_row
  interpreted_created :: bool

text \<open>The rows of a new result, the completed experiment and the audit trail.\<close>

definition insert_experiment_result ::
  "hash_env \<Rightarrow> 'y TenantScope_scheme \<Rightarrow> metric_row \<Rightarrow> checkpoint_binding_row \<Rightarrow> experiment_row \<Rightarrow> string
     \<Rightarrow> datetime \<Rightarrow> ('z analytics_store_scheme, CheckpointInterpretationResult) prog" where
  "insert_experiment_result env scope metric checkpoint experiment cls now =
     bnd new_id (\<lambda>result_id.
     let result = \<lparr>rid = result_id, org = organization_id scope, biz = business_id scope,
           er_experiment_id = cb_experiment_id checkpoint, er_result_class = cls,
           er_observed_value = observed_value env metric, er_interpreted_at = now\<rparr>
     in bnd (modify (\<lambda>s. s\<lparr>experiment_results := experiment_results s @ [result]\<rparr>)) (\<lambda>_.
     bnd flush (\<lambda>_.
     bnd new_id (\<lambda>detail_id.
     let detail = \<lparr>rid = detail_id, org = organization_id scope, biz = business_id scope,
           rd_experiment_result_id = result_id, rd_checkpoint_definition_id = rid checkpoint,
           rd_metric_version_id = rid metric, rd_result_class = cls,
           rd_checkpoint_contract_hash = cb_contract_hash checkpoint,
           rd_source_coverage_status = mv_coverage_status metric\<rparr>
     in bnd (modify (\<lambda>s. s\<lparr>result_details := result_details s @ [detail]\<rparr>)) (\<lambda>_.
     bnd flush (\<lambda>_.
     bnd (update_experiment (rid experiment) (\<lambda>e. e\<lparr>experiment_status := ExperimentStatus.COMPLETE\<rparr>)) (\<lambda>_.
     bnd (touch (org experiment) (biz experiment)) (\<lambda>_.
     bnd (analytics_audit scope ''EXPERIMENT_COMPLETED'' ''Experiment'' (rid experiment)
            [(''experiment_result_id'', JStr result_id), (''metric_version_id'', JStr (rid metric)),
             (''result_class'', JStr cls)]
            (''checkpoint:'' @ cb_experiment_id checkpoint) (Some result_id)) (\<lambda>_.
     bnd (analytics_audit scope ''CHECKPOINT_INTERPRETED'' ''ExperimentResult'' result_id
            [(''metric_version_id'', JStr (rid metric)), (''result_class'', JStr cls),
             (''checkpoint_contract_hash'', JStr (cb_contract_hash checkpoint))]
            (''checkpoint:'' @ cb_experiment_id checkpoint) (Some (rid metric))) (\<lambda>_.
     bnd (analytics_outbox scope ''experiment.checkpoint.interpreted'' ''ExperimentResult'' result_id
            [(''metric_version_id'', JStr (rid metric)), (''result_class'', JStr cls)]
            now (''checkpoint:'' @ cb_experiment_id checkpoint) (Some (rid metric))) (\<lambda>_.
     ret \<lparr>interpreted_result = result, interpreted_detail = detail, interpreted_created = True\<rparr>)))))))))))"

definition interpret_checkpoint ::
  "hash_env \<Rightarrow> 'y TenantScope_scheme \<Rightarrow> string \<Rightarrow> datetime
     \<Rightarrow> ('z analytics_store_scheme, CheckpointInterpretationResult) prog" where
  "interpret_checkpoint env scope mid now =
     bnd (gets (\<lambda>s. row_get rid mid (metric_versions s))) (\<lambda>found.
     bnd (required found (PermanentJobError ''MetricVersion not found'')) (\<lambda>metric.
     bnd (check_scope scope (org metric) (biz metric)) (\<lambda>_.
     bnd (gets (\<lambda>s. select_first (\<lambda>d. rd_metric_version_id d = rid metric) (result_details s))) (\<lambda>existing.
     case existing of
       Some detail \<Rightarrow>
         bnd (gets (\<lambda>s. row_get rid (rd_experiment_result_id detail) (experiment_results s))) (\<lambda>r.
         bnd (required r (PermanentJobError ''ExperimentResult detail points to missing result'')) (\<lambda>result.
         ret \<lparr>interpreted_result = result, interpreted_detail = detail, interpreted_created = False\<rparr>))
     | None \<Rightarrow>
         bnd (gets (\<lambda>s. row_get rid (mv_checkpoint_definition_id metric) (checkpoint_bindings s))) (\<lambda>c.
         bnd (required c (PermanentJobError ''CheckpointDefinition not found'')) (\<lambda>checkpoint.
         bnd (gets (\<lambda>s. row_get rid (cb_experiment_id checkpoint) (experiments s))) (\<lambda>e.
         bnd (required e (PermanentJobError ''Experiment not found for checkpoint interpretation'')) (\<lambda>experiment.
         bnd (require (experiment_status experiment = ExperimentStatus.RUNNING)
               (PermanentJobError ''Experiment must be RUNNING before checkpoint interpretation'')) (\<lambda>_.
         bnd (lift_sum (classify_checkpoint checkpoint metric)) (\<lambda>cls.
         insert_experiment_result env scope metric checkpoint experiment cls now))))))))))"

definition InterpretCheckpointHandler_handle ::
  "hash_env \<Rightarrow> RuntimeJobContext \<Rightarrow> payload \<Rightarrow> datetime \<Rightarrow> ('z analytics_store_scheme, unit) prog" where
  "InterpretCheckpointHandler_handle env context pl now =
     bnd (require (equals_int (dict_get pl ''payload_schema_version'') 1)
           (PermanentJobError ''checkpoint payload_schema_version must be 1'')) (\<lambda>_.
     bnd (required (as_str (dict_get pl ''metric_version_id''))
           (PermanentJobError ''metric_version_id is required'')) (\<lambda>mid.
     bnd (interpret_checkpoint env context mid now) (\<lambda>interpreted.
     bnd (create_job context JOB_TYPE_LEARNING_RUN_GOVERNED
            [(''payload_schema_version'', JInt 1),
             (''experiment_result_id'', JStr (rid (interpreted_result interpreted)))]
            1 (''governed-learning:'' @ rid (interpreted_result interpreted)) now 2 None
            (ctx_correlation_id context) (Some (rid (interpreted_result interpreted)))) (\<lambda>job.
     enqueue (rid job)))))"

section \<open>Governed learning\<close>

definition insufficient :: "experiment_result_row \<Rightarrow> bool" where
  "insufficient result \<longleftrightarrow> er_result_class result = ''INSUFFICIENT_DATA''"

definition causality_ceiling :: "experiment_result_row \<Rightarrow> CausalityClass" where
  "causality_ceiling result =
     (if insufficient result then CausalityClass.UNKNOWN else DIRECT_DETERMINISTIC_ATTRIBUTION)"

definition learning_review ::
  "'y TenantScope_scheme \<Rightarrow> experiment_result_row \<Rightarrow> string \<Rightarrow> ControllerVerdict \<Rightarrow> string \<Rightarrow> string
     \<Rightarrow> string \<Rightarrow> learning_review_row" where
  "learning_review scope result controller vd reason limit i =
     \<lparr>rid = i, org = organization_id scope, biz = business_id scope,
      lr_experiment_result_id = rid result, lr_controller_type = controller, lr_verdict = vd,
      lr_reason = reason, lr_limits = [limit], lr_causality_ceiling = causality_ceiling result\<rparr>"

definition new_learning_reviews ::
  "'y TenantScope_scheme \<Rightarrow> experiment_result_row \<Rightarrow> string \<Rightarrow> string \<Rightarrow> string \<Rightarrow> learning_review_row list" where
  "new_learning_reviews scope result i1 i2 i3 =
     [learning_review scope result ''attribution''
        (if insufficient result then PASS_WITH_CONDITIONS else PASS)
        (if insufficient result then ''Coverage is insufficient for outcome attribution.''
         else ''Observed reaction events are exact-bound to the Telegram message lineage.'')
        ''Message lineage does not establish that wording caused engagement or sales.'' i1,
      learning_review scope result ''learning'' PASS_WITH_CONDITIONS
        ''Learning is bounded to the exact metric version and checkpoint result.''
        ''Do not generalize this result beyond the measured publication and window.'' i2,
      learning_review scope result ''stability'' PASS_WITH_CONDITIONS
        ''One publication is a narrow trace and cannot establish a stable business rule.''
        ''Single-publication trace; require repeated evidence before broad adaptation.'' i3]"

definition materialize_learning_reviews ::
  "'y TenantScope_scheme \<Rightarrow> experiment_result_row \<Rightarrow> ('z analytics_store_scheme, learning_review_row list) prog" where
  "materialize_learning_reviews scope result =
     bnd (gets (\<lambda>s. filter (\<lambda>r. lr_experiment_result_id r = rid result) (learning_reviews s))) (\<lambda>existing.
     if existing \<noteq> []
     then bnd (require (set (map lr_controller_type existing) = {''attribution'', ''learning'', ''stability''})
                (PermanentJobError ''Learning controller set is incomplete'')) (\<lambda>_. ret existing)
     else
       bnd new_id (\<lambda>i1. bnd new_id (\<lambda>i2. bnd new_id (\<lambda>i3.
       let reviews = new_learning_reviews scope result i1 i2 i3
       in bnd (modify (\<lambda>s. s\<lparr>learning_reviews := learning_reviews s @ reviews\<rparr>)) (\<lambda>_.
          bnd flush (\<lambda>_. ret reviews))))))"

fun causality_value :: "CausalityClass \<Rightarrow> string" where
  "causality_value DIRECT_DETERMINISTIC_ATTRIBUTION = ''DIRECT_DETERMINISTIC_ATTRIBUTION''"
| "causality_value EXPERIMENTAL_CAUSAL_EVIDENCE = ''EXPERIMENTAL_CAUSAL_EVIDENCE''"
| "causality_value STRONG_OBSERVATIONAL_EVIDENCE = ''STRONG_OBSERVATIONAL_EVIDENCE''"
| "causality_value CORRELATION = ''CORRELATION''"
| "causality_value CausalityClass.UNKNOWN = ''UNKNOWN''"

text \<open>\<open>int(metric.value_numeric or 0)\<close>.\<close>

definition whole_value :: "metric_row \<Rightarrow> int" where
  "whole_value metric =
    (case mv_value_numeric metric of None \<Rightarrow> 0 | Some v \<Rightarrow> if 0 \<le> v then \<lfloor>v\<rfloor> else \<lceil>v\<rceil>)"

definition learning_statement :: "string \<Rightarrow> metric_row \<Rightarrow> string" where
  "learning_statement cls metric =
    (if cls = ''INSUFFICIENT_DATA''
     then ''Telegram observation coverage is insufficient to classify the predefined publication checkpoint.''
     else ''The exact Telegram publication recorded '' @ show_int (whole_value metric) @
       '' observed reaction-change events and met '' @
       (if cls = ''SUCCESS'' then ''the predefined success threshold.''
        else if cls = ''WEAK_SIGNAL'' then ''only the predefined weak-signal threshold.''
        else ''the predefined failure threshold.''))"

definition event_evidence_ids :: "'z analytics_store_scheme \<Rightarrow> metric_row \<Rightarrow> string list" where
  "event_evidence_ids s metric =
     map ol_evidence_id (filter (\<lambda>l. ol_business_event_id l \<in> set (mv_included_business_event_ids metric))
       (observation_links s))"

record GovernedLearningResult =
  governed_learning :: learning_row
  governed_detail :: learning_detail_row
  governed_reviews :: "learning_review_row list"
  governed_created :: bool

definition insert_learning ::
  "'y TenantScope_scheme \<Rightarrow> experiment_result_row \<Rightarrow> metric_row \<Rightarrow> checkpoint_binding_row \<Rightarrow> experiment_row
     \<Rightarrow> learning_review_row list \<Rightarrow> datetime \<Rightarrow> ('z analytics_store_scheme, GovernedLearningResult) prog" where
  "insert_learning scope result metric checkpoint experiment reviews now =
     bnd (gets (\<lambda>s. event_evidence_ids s metric)) (\<lambda>events.
     bnd new_id (\<lambda>learning_id.
     let limits = dedupe (concat (map lr_limits reviews));
         learning = \<lparr>rid = learning_id, org = organization_id scope, biz = business_id scope,
           le_decision_id = Some (cb_decision_id checkpoint), le_experiment_id = Some (rid experiment),
           le_statement = learning_statement (er_result_class result) metric,
           le_evidence_ids = dedupe (mv_evidence_id metric # events),
           le_causality_class = (if er_result_class result = ''INSUFFICIENT_DATA'' then CausalityClass.UNKNOWN
             else DIRECT_DETERMINISTIC_ATTRIBUTION),
           le_confidence = None\<rparr>
     in bnd (modify (\<lambda>s. s\<lparr>learnings := learnings s @ [learning]\<rparr>)) (\<lambda>_.
     bnd flush (\<lambda>_.
     bnd new_id (\<lambda>detail_id.
     let detail = \<lparr>rid = detail_id, org = organization_id scope, biz = business_id scope,
           ld_learning_id = learning_id, ld_experiment_result_id = rid result,
           ld_metric_version_ids = [rid metric], ld_interpretation_class = er_result_class result,
           ld_limits = limits, ld_controller_review_ids = map rid reviews\<rparr>
     in bnd (modify (\<lambda>s. s\<lparr>learning_details := learning_details s @ [detail]\<rparr>)) (\<lambda>_.
     bnd flush (\<lambda>_.
     bnd (analytics_audit scope ''LEARNING_MATERIALIZED'' ''Learning'' learning_id
            [(''experiment_result_id'', JStr (rid result)), (''metric_version_id'', JStr (rid metric)),
             (''result_class'', JStr (er_result_class result)),
             (''causality_class'', JStr (causality_value (le_causality_class learning))),
             (''limits'', JList (map JStr limits))]
            (''learning:'' @ rid experiment) (Some (rid result))) (\<lambda>_.
     bnd (analytics_outbox scope ''learning.materialized'' ''Learning'' learning_id
            [(''experiment_result_id'', JStr (rid result)), (''metric_version_id'', JStr (rid metric)),
             (''result_class'', JStr (er_result_class result))]
            now (''learning:'' @ rid experiment) (Some (rid result))) (\<lambda>_.
     ret \<lparr>governed_learning = learning, governed_detail = detail, governed_reviews = reviews,
          governed_created = True\<rparr>)))))))))"

definition create_governed_learning ::
  "'y TenantScope_scheme \<Rightarrow> string \<Rightarrow> datetime \<Rightarrow> ('z analytics_store_scheme, GovernedLearningResult) prog" where
  "create_governed_learning scope result_id now =
     bnd (gets (\<lambda>s. row_get rid result_id (experiment_results s))) (\<lambda>found.
     bnd (required found (PermanentJobError ''ExperimentResult not found for Learning'')) (\<lambda>result.
     bnd (check_scope scope (org result) (biz result)) (\<lambda>_.
     bnd (gets (\<lambda>s. select_first (\<lambda>d. ld_experiment_result_id d = rid result) (learning_details s))) (\<lambda>existing.
     case existing of
       Some detail \<Rightarrow>
         bnd (gets (\<lambda>s. row_get rid (ld_learning_id detail) (learnings s))) (\<lambda>l.
         bnd (required l (PermanentJobError ''Learning detail points to missing Learning'')) (\<lambda>learning.
         bnd (gets (\<lambda>s. filter (\<lambda>r. lr_experiment_result_id r = rid result) (learning_reviews s))) (\<lambda>reviews.
         ret \<lparr>governed_learning = learning, governed_detail = detail, governed_reviews = reviews,
              governed_created = False\<rparr>)))
     | None \<Rightarrow>
         bnd (gets (\<lambda>s. select_first (\<lambda>d. rd_experiment_result_id d = rid result) (result_details s))) (\<lambda>d.
         bnd (required d (PermanentJobError ''ExperimentResult provenance detail is required'')) (\<lambda>detail.
         bnd (gets (\<lambda>s. (row_get rid (rd_metric_version_id detail) (metric_versions s),
                row_get rid (rd_checkpoint_definition_id detail) (checkpoint_bindings s),
                row_get rid (er_experiment_id result) (experiments s)))) (\<lambda>inputs.
         case inputs of
           (Some metric, Some checkpoint, Some experiment) \<Rightarrow>
             bnd (materialize_learning_reviews scope result) (\<lambda>reviews.
             bnd (require (\<not> list_ex (\<lambda>r. lr_verdict r = BLOCK) reviews)
                   (PermanentJobError ''Learning governance blocked materialization'')) (\<lambda>_.
             insert_learning scope result metric checkpoint experiment reviews now))
         | _ \<Rightarrow> raise (PermanentJobError ''Learning deterministic inputs are incomplete'')))))))) "

definition GovernedLearningHandler_handle ::
  "RuntimeJobContext \<Rightarrow> payload \<Rightarrow> datetime \<Rightarrow> ('z analytics_store_scheme, unit) prog" where
  "GovernedLearningHandler_handle context pl now =
     bnd (require (equals_int (dict_get pl ''payload_schema_version'') 1)
           (PermanentJobError ''learning payload_schema_version must be 1'')) (\<lambda>_.
     bnd (required (as_str (dict_get pl ''experiment_result_id''))
           (PermanentJobError ''experiment_result_id is required'')) (\<lambda>result_id.
     bnd (create_governed_learning context result_id now) (\<lambda>_. ret ())))"

section \<open>The registry of the analytics jobs\<close>

definition phase6_handler_registry ::
  "hash_env \<Rightarrow> ('z analytics_store_ext exec_store_ext) observation_connector option
     \<Rightarrow> ('z analytics_store_ext exec_store_ext) registry" where
  "phase6_handler_registry env connector =
     [JOB_TYPE_ANALYTICS_NORMALIZE_CONNECTOR_OBSERVATION \<mapsto>
        \<lparr>handle = NormalizeConnectorObservationHandler_handle, record_attempt_failure = None\<rparr>,
      JOB_TYPE_ANALYTICS_CALCULATE_METRIC_VERSION \<mapsto>
        \<lparr>handle = CalculateMetricVersionHandler_handle env, record_attempt_failure = None\<rparr>,
      JOB_TYPE_LEARNING_INTERPRET_CHECKPOINT \<mapsto>
        \<lparr>handle = InterpretCheckpointHandler_handle env, record_attempt_failure = None\<rparr>,
      JOB_TYPE_LEARNING_RUN_GOVERNED \<mapsto>
        \<lparr>handle = GovernedLearningHandler_handle, record_attempt_failure = None\<rparr>] ++
     (case connector of
        None \<Rightarrow> Map.empty
      | Some c \<Rightarrow> [JOB_TYPE_CONNECTOR_TELEGRAM_OBSERVE_UPDATES \<mapsto>
          \<lparr>handle = TelegramObservationHandler_handle env c, record_attempt_failure = None\<rparr>])"

end
