(* ===== verification/Adaptation.thy ===== *)
theory Adaptation
  imports Learning
begin

text \<open>
  How a learning changes the next decision (\<open>application/phase6.py\<close>): the typed checkpoint that
  is bound to a decision before anything is published, the intent that a decision workflow carries,
  and the handler step that turns the intent into the checkpoint and the lineage of the successor.
\<close>

section \<open>Decisions\<close>

datatype DecisionWorkflowStatus =
    SNAPSHOT_READY | SPECIALISTS_RUNNING | SPECIALISTS_READY | CHIEF_RUNNING | DECISION_CANDIDATE_READY
  | CONTROLLERS_RUNNING | BLOCKED | REVISION_REQUIRED | CANDIDATE_ACCEPTED | FINAL_DECISION_MATERIALIZED
  | AWAITING_DECISION_APPROVAL | APPROVED_FOR_PRODUCTION | ESCALATED

record decision_row = scoped_row +
  dc_version :: int
  dc_goal_problem :: string
  dc_selected_action :: string
  dc_expected_effect :: string
  dc_confidence :: "real option"
  dc_reversibility :: string
  dc_risk_class :: string
  dc_status :: string
  dc_snapshot_id :: "string option"
  dc_supersedes_decision_id :: "string option"
  dc_next_checkpoint :: "string option"
  dc_evidence_ids :: "string list"
  dc_assumption_ids :: "string list"
  dc_known_unknown_ids :: "string list"
  dc_source_candidate_id :: "string option"
  dc_why_alternatives_not_selected :: "string list"
  dc_hypotheses :: "payload list"
  dc_assumptions :: "payload list"
  dc_experiment_proposal :: payload
  dc_required_assets :: "string list"
  dc_required_actions :: "string list"

record experiment_rule_row = scoped_row +
  ru_experiment_id :: string
  ru_baseline :: string
  ru_segment :: string
  ru_treatment :: string
  ru_metric :: string
  ru_window :: string
  ru_attribution_method :: string
  ru_success_threshold :: string
  ru_weak_signal_threshold :: string
  ru_failure_threshold :: string
  ru_next_action_on_success :: string
  ru_next_action_on_weak_signal :: string
  ru_next_action_on_failure :: string

record decision_workflow_row = scoped_row +
  dw_launch_id :: "string option"
  dw_snapshot_id :: string
  dw_status :: DecisionWorkflowStatus
  dw_revision_count :: int
  dw_max_revision_rounds :: int
  dw_final_decision_id :: "string option"
  dw_final_approval_id :: "string option"
  dw_correlation_id :: "string option"
  dw_causation_id :: "string option"

record phase6_intent_row = scoped_row +
  in_workflow_id :: string
  in_checkpoint_spec :: payload
  in_checkpoint_spec_hash :: string
  in_prior_decision_id :: "string option"
  in_learning_id :: "string option"
  in_created_at :: datetime

record decision_learning_link_row = scoped_row +
  dl_decision_id :: string
  dl_prior_decision_id :: string
  dl_learning_id :: string
  dl_created_at :: datetime

record decision_store = analytics_store +
  decisions :: "decision_row list"
  experiment_rules :: "experiment_rule_row list"
  decision_workflows :: "decision_workflow_row list"
  phase6_intents :: "phase6_intent_row list"
  decision_learning_links :: "decision_learning_link_row list"

section \<open>The checkpoint of a decision\<close>

definition bound_checkpoint_hash :: "hash_env \<Rightarrow> Phase6CheckpointSpec \<Rightarrow> string \<Rightarrow> string \<Rightarrow> string" where
  "bound_checkpoint_hash env spec experiment_id rule_id =
     payload_hash env [(''spec'', JObj (canonical_payload spec)), (''experiment_id'', JStr experiment_id),
       (''experiment_rule_id'', JStr rule_id)]"

definition checkpoint_of ::
  "'y TenantScope_scheme \<Rightarrow> Phase6CheckpointSpec \<Rightarrow> string \<Rightarrow> string \<Rightarrow> string \<Rightarrow> string \<Rightarrow> datetime \<Rightarrow> string
     \<Rightarrow> checkpoint_binding_row" where
  "checkpoint_of scope spec decision_id experiment_id rule_id bound_hash now i =
     \<lparr>rid = i, org = organization_id scope, biz = business_id scope, cb_decision_id = decision_id,
      cb_experiment_id = experiment_id, cb_metric_key = spec_metric_key spec, cb_experiment_rule_id = rule_id,
      cb_schema_version = spec_schema_version spec, cb_source_window_anchor = ''PUBLICATION_TIME'',
      cb_window_seconds = spec_window_seconds spec, cb_grace_seconds = spec_grace_seconds spec,
      cb_success_operator = threshold_operator (spec_success spec),
      cb_success_value = threshold_value (spec_success spec),
      cb_weak_signal_operator = threshold_operator (spec_weak_signal spec),
      cb_weak_signal_value = threshold_value (spec_weak_signal spec),
      cb_failure_operator = threshold_operator (spec_failure spec),
      cb_failure_value = threshold_value (spec_failure spec),
      cb_coverage_requirement = spec_coverage_requirement spec,
      cb_attribution_method = spec_attribution_method spec,
      cb_next_action_on_success = spec_next_action_on_success spec,
      cb_next_action_on_weak_signal = spec_next_action_on_weak_signal spec,
      cb_next_action_on_failure = spec_next_action_on_failure spec,
      cb_contract_hash = bound_hash, cb_created_at = now\<rparr>"

definition create_checkpoint_definition_for_decision ::
  "hash_env \<Rightarrow> 'y TenantScope_scheme \<Rightarrow> string \<Rightarrow> Phase6CheckpointSpec \<Rightarrow> datetime
     \<Rightarrow> ('z decision_store_scheme, checkpoint_binding_row) prog" where
  "create_checkpoint_definition_for_decision env scope decision_id spec now =
     bnd (gets (\<lambda>s. row_get rid decision_id (decisions s))) (\<lambda>d.
     bnd (required d (PermanentJobError ''Decision not found for Phase 6 checkpoint'')) (\<lambda>decision.
     bnd (check_scope scope (org decision) (biz decision)) (\<lambda>_.
     bnd (gets (\<lambda>s. select_first (\<lambda>e. experiment_decision_id e = rid decision) (experiments s))) (\<lambda>e.
     bnd (required e (PermanentJobError ''Phase 6 governed Decision requires an Experiment'')) (\<lambda>experiment.
     bnd (gets (\<lambda>s. select_first (\<lambda>r. ru_experiment_id r = rid experiment) (experiment_rules s))) (\<lambda>r.
     bnd (required r (PermanentJobError ''Phase 6 governed Experiment requires an ExperimentRule'')) (\<lambda>rule.
     bnd (require (\<not> (experiment_metric experiment \<noteq> spec_metric_key spec \<or> ru_metric rule \<noteq> spec_metric_key spec))
           (PermanentJobError ''typed checkpoint metric must match the Experiment metric'')) (\<lambda>_.
     let bound_hash = bound_checkpoint_hash env spec (rid experiment) (rid rule)
     in bnd (gets (\<lambda>s. select_first (\<lambda>c. cb_experiment_id c = rid experiment) (checkpoint_bindings s))) (\<lambda>existing.
     case existing of
       Some c \<Rightarrow>
         bnd (require (cb_contract_hash c = bound_hash)
               (PermanentJobError ''immutable checkpoint definition already exists'')) (\<lambda>_. ret c)
     | None \<Rightarrow>
         bnd (gets (\<lambda>s. select_first (\<lambda>a. detail_decision_id a = rid decision) (action_details s))) (\<lambda>executed_intent.
         bnd (require (executed_intent = None)
               (PermanentJobError ''checkpoint cannot be retrofitted after ActionProposal creation'')) (\<lambda>_.
         bnd new_id (\<lambda>i.
         let checkpoint = checkpoint_of scope spec (rid decision) (rid experiment) (rid rule) bound_hash now i
         in bnd (modify (\<lambda>s. s\<lparr>checkpoint_bindings := checkpoint_bindings s @ [checkpoint]\<rparr>)) (\<lambda>_.
            bnd flush (\<lambda>_. ret checkpoint))))))))))))))"

section \<open>The intent of a workflow\<close>

definition register_intent ::
  "hash_env \<Rightarrow> 'y TenantScope_scheme \<Rightarrow> string \<Rightarrow> Phase6CheckpointSpec \<Rightarrow> string option \<Rightarrow> string option \<Rightarrow> datetime
     \<Rightarrow> ('z decision_store_scheme, phase6_intent_row) prog" where
  "register_intent env scope workflow_id spec prior_decision_id learning_id now =
     bnd (gets (\<lambda>s. select_first (\<lambda>i. in_workflow_id i = workflow_id) (phase6_intents s))) (\<lambda>existing.
     case existing of
       Some i \<Rightarrow>
         bnd (require (\<not> (in_checkpoint_spec_hash i \<noteq> contract_hash env spec \<or>
                in_prior_decision_id i \<noteq> prior_decision_id \<or> in_learning_id i \<noteq> learning_id))
               (PermanentJobError ''Phase 6 Decision intent is immutable'')) (\<lambda>_. ret i)
     | None \<Rightarrow>
         bnd new_id (\<lambda>i.
         let intent = \<lparr>rid = i, org = organization_id scope, biz = business_id scope, in_workflow_id = workflow_id,
               in_checkpoint_spec = canonical_payload spec, in_checkpoint_spec_hash = contract_hash env spec,
               in_prior_decision_id = prior_decision_id, in_learning_id = learning_id, in_created_at = now\<rparr>
         in bnd (modify (\<lambda>s. s\<lparr>phase6_intents := phase6_intents s @ [intent]\<rparr>)) (\<lambda>_.
            bnd flush (\<lambda>_. ret intent))))"

text \<open>The lineage of a successor: the decision it supersedes and the learning it follows from.\<close>

definition bind_successor ::
  "'y TenantScope_scheme \<Rightarrow> string \<Rightarrow> string \<Rightarrow> decision_row \<Rightarrow> datetime \<Rightarrow> ('z decision_store_scheme, unit) prog" where
  "bind_successor scope prior_decision_id learning_id decision now =
     bnd (gets (\<lambda>s. row_get rid learning_id (learnings s))) (\<lambda>l.
     bnd (require (\<exists>learning. l = Some learning \<and> le_decision_id learning = Some prior_decision_id)
           (PermanentJobError ''Phase 6 adaptation Learning binding is invalid'')) (\<lambda>_.
     bnd (require (dc_supersedes_decision_id decision \<in> {None, Some prior_decision_id})
           (PermanentJobError ''successor Decision already supersedes a different Decision'')) (\<lambda>_.
     bnd (modify (\<lambda>s. s\<lparr>decisions := row_set rid (rid decision)
            (\<lambda>d. d\<lparr>dc_supersedes_decision_id := Some prior_decision_id\<rparr>) (decisions s)\<rparr>)) (\<lambda>_.
     bnd (touch (org decision) (biz decision)) (\<lambda>_.
     bnd (gets (\<lambda>s. select_first (\<lambda>k. dl_decision_id k = rid decision) (decision_learning_links s))) (\<lambda>existing.
     bnd (if existing = None
          then bnd new_id (\<lambda>i.
               modify (\<lambda>s. s\<lparr>decision_learning_links := decision_learning_links s @
                 [\<lparr>rid = i, org = organization_id scope, biz = business_id scope, dl_decision_id = rid decision,
                   dl_prior_decision_id = prior_decision_id, dl_learning_id = learning_id, dl_created_at = now\<rparr>]\<rparr>))
          else ret ()) (\<lambda>_.
     flush)))))))"

text \<open>
  \<open>Phase6CheckpointSpec.model_validate\<close> belongs to the validation library; \<open>validate\<close> stands
  for it.
\<close>

definition materialize_phase6_intent ::
  "hash_env \<Rightarrow> (payload \<Rightarrow> py_error + Phase6CheckpointSpec) \<Rightarrow> 'y TenantScope_scheme \<Rightarrow> string \<Rightarrow> datetime
     \<Rightarrow> ('z decision_store_scheme, unit) prog" where
  "materialize_phase6_intent env validate scope workflow_id now =
     bnd (gets (\<lambda>s. select_first (\<lambda>i. in_workflow_id i = workflow_id) (phase6_intents s))) (\<lambda>found.
     case found of
       None \<Rightarrow> ret ()
     | Some intent \<Rightarrow>
         bnd (gets (\<lambda>s. row_get rid workflow_id (decision_workflows s))) (\<lambda>workflow.
         case Option.bind workflow dw_final_decision_id of
           None \<Rightarrow> ret ()
         | Some final_id \<Rightarrow>
             bnd (check_scope scope (org intent) (biz intent)) (\<lambda>_.
             bnd (gets (\<lambda>s. row_get rid final_id (decisions s))) (\<lambda>d.
             bnd (required d (PermanentJobError ''Phase 6 workflow final Decision is missing'')) (\<lambda>decision.
             bnd (lift_sum (validate (in_checkpoint_spec intent))) (\<lambda>spec.
             bnd (create_checkpoint_definition_for_decision env scope (rid decision) spec now) (\<lambda>_.
             case (in_prior_decision_id intent, in_learning_id intent) of
               (None, None) \<Rightarrow> ret ()
             | (Some prior, Some learning_id) \<Rightarrow> bind_successor scope prior learning_id decision now
             | _ \<Rightarrow> raise (PermanentJobError ''Phase 6 adaptation binding is incomplete''))))))))"

text \<open>The handler of the decision workflow, given the guarded handler it delegates to.\<close>

definition Phase6DecisionWorkflowAdvanceHandler_handle ::
  "hash_env \<Rightarrow> (payload \<Rightarrow> py_error + Phase6CheckpointSpec)
     \<Rightarrow> (RuntimeJobContext \<Rightarrow> payload \<Rightarrow> datetime \<Rightarrow> ('z decision_store_scheme, unit) prog)
     \<Rightarrow> RuntimeJobContext \<Rightarrow> payload \<Rightarrow> datetime \<Rightarrow> ('z decision_store_scheme, unit) prog" where
  "Phase6DecisionWorkflowAdvanceHandler_handle env validate delegate context pl now =
     bnd (delegate context pl now) (\<lambda>_.
     case as_str (dict_get pl ''workflow_id'') of
       None \<Rightarrow> ret ()
     | Some workflow_id \<Rightarrow> materialize_phase6_intent env validate context workflow_id now)"

end
