(* ===== verification/Observation_Safety.thy ===== *)
theory Observation_Safety
  imports Observation
begin

text \<open>
  What observation guarantees. The tables of observations, links, events and evidence implement a
  finite map from provider events to what is known of them; ingesting an update inserts into the
  map when the event is new and changes nothing otherwise. Polls lose nothing and count nothing
  twice, whatever order the provider delivers in.
\<close>

section \<open>The abstract view\<close>

type_synonym event_key = "string \<times> string"
type_synonym event_view = "string \<times> string \<times> string \<times> datetime \<times> string option"

definition obs_key :: "observation_row \<Rightarrow> event_key" where
  "obs_key q = (ob_connector_account_id q, ob_event_identity q)"

definition obs_view :: "observation_row \<Rightarrow> observation_link_row \<Rightarrow> event_view" where
  "obs_view q l = (org q, biz q, ob_event_type q, ob_event_time q, ol_publication_id l)"

definition observed :: "'z analytics_store_scheme \<Rightarrow> event_key \<rightharpoonup> event_view" where
  "observed s = map_of (map2 (\<lambda>q l. (obs_key q, obs_view q l)) (observations s) (observation_links s))"

text \<open>The columns of a business event that the metric reads, and what they are for an observation.\<close>

definition telegram_event :: "business_event_row \<Rightarrow> bool" where
  "telegram_event e \<longleftrightarrow> starts_with ''telegram.'' (business_event_type e)"

definition event_columns :: "business_event_row \<Rightarrow> string \<times> string \<times> string \<times> datetime \<times> json option" where
  "event_columns e = (org e, biz e, business_event_type e, event_time e,
     dict_get (business_event_payload e) ''publication_id'')"

definition view_columns :: "event_view \<Rightarrow> string \<times> string \<times> string \<times> datetime \<times> json option" where
  "view_columns v = (case v of (o1, b1, ty, t, p) \<Rightarrow> (o1, b1, ''telegram.'' @ ty, t, Some (opt_json p)))"

text \<open>
  The invariant: identifiers are drawn and distinct, an event of an account is stored once, every
  observation has been normalised, in the order of arrival, and the Telegram events among the
  business events are exactly the normalised observations.
\<close>

definition obs_inv :: "'z analytics_store_scheme \<Rightarrow> bool" where
  "obs_inv s \<longleftrightarrow>
     inj (uuids s) \<and> rid ` set (observations s) \<subseteq> uuids s ` {..<uuid_pos s} \<and>
     distinct (map rid (observations s)) \<and> distinct (map obs_key (observations s)) \<and>
     map ol_observation_id (observation_links s) = map rid (observations s) \<and>
     map event_columns (filter telegram_event (business_events s)) =
       map2 (\<lambda>q l. view_columns (obs_view q l)) (observations s) (observation_links s) \<and>
     (\<forall>l \<in> set (observation_links s). ol_business_event_id l \<in> rid ` set (business_events s) \<and>
        ol_evidence_id l \<in> rid ` set (evidence s))"

lemma obs_inv_length: "obs_inv s \<Longrightarrow> length (observation_links s) = length (observations s)"
  unfolding obs_inv_def by (metis length_map)

lemma map_fst_zip_key: "length ls = length qs \<Longrightarrow> map fst (map2 (\<lambda>q l. (obs_key q, obs_view q l)) qs ls) = map obs_key qs"
  by (induction ls qs rule: list_induct2) auto

lemma dom_observed:
  assumes "obs_inv s"
  shows "dom (observed s) = obs_key ` set (observations s)"
proof -
  have "set (map fst (map2 (\<lambda>q l. (obs_key q, obs_view q l)) (observations s) (observation_links s))) =
      set (map obs_key (observations s))"
    by (subst map_fst_zip_key) (simp_all add: obs_inv_length [OF assms])
  then show ?thesis by (simp add: observed_def dom_map_of_conv_image_fst image_image)
qed

text \<open>An observation that is stored is linked, and its link finds its rows.\<close>

lemma linked:
  assumes inv: "obs_inv s" and q: "q \<in> set (observations s)"
  obtains l e v where "select_first (\<lambda>l. ol_observation_id l = rid q) (observation_links s) = Some l"
    "row_get rid (ol_business_event_id l) (business_events s) = Some e"
    "row_get rid (ol_evidence_id l) (evidence s) = Some v"
proof -
  have "rid q \<in> set (map ol_observation_id (observation_links s))"
    using inv q by (simp add: obs_inv_def)
  then obtain l where l: "select_first (\<lambda>l. ol_observation_id l = rid q) (observation_links s) = Some l"
    by (cases "select_first (\<lambda>l. ol_observation_id l = rid q) (observation_links s)")
      (auto simp: select_first_None)
  then have "l \<in> set (observation_links s)" by (auto dest: select_first_Some)
  then have "ol_business_event_id l \<in> rid ` set (business_events s)" "ol_evidence_id l \<in> rid ` set (evidence s)"
    using inv by (auto simp: obs_inv_def)
  then obtain e v where "row_get rid (ol_business_event_id l) (business_events s) = Some e"
      "row_get rid (ol_evidence_id l) (evidence s) = Some v"
    by (metis not_None_eq row_get_None)
  with l that show thesis by blast
qed

lemma normalize_existing:
  assumes inv: "obs_inv s" and q: "q \<in> set (observations s)"
  shows "\<exists>r. normalize_observation scope q s = (Inr r, s)"
proof -
  obtain l e v where "select_first (\<lambda>l. ol_observation_id l = rid q) (observation_links s) = Some l"
      "row_get rid (ol_business_event_id l) (business_events s) = Some e"
      "row_get rid (ol_evidence_id l) (evidence s) = Some v"
    using inv q by (rule linked)
  then show ?thesis by (simp add: normalize_observation_def run_simps)
qed

section \<open>Ingestion\<close>

text \<open>The row a new observation becomes, and the state after its insertion and normalisation.\<close>

lemma insert_normalized_run:
  "\<exists>e v l t. insert_normalized scope q p s = (Inr (e, v, p), t) \<and>
     observations t = observations s \<and> observation_links t = observation_links s @ [l] \<and>
     business_events t = business_events s @ [e] \<and> evidence t = evidence s @ [v] \<and>
     uuids t = uuids s \<and> uuid_pos s \<le> uuid_pos t \<and> jobs_frame s t \<and>
     external_references t = external_references s \<and> publication_links t = publication_links s \<and>
     connector_accounts t = connector_accounts s \<and> observation_states t = observation_states s \<and>
     jobs t = jobs s \<and> metric_versions t = metric_versions s \<and>
     ol_observation_id l = rid q \<and> ol_business_event_id l = rid e \<and> ol_evidence_id l = rid v \<and>
     ol_publication_id l = p \<and> telegram_event e \<and>
     event_columns e = (organization_id scope, business_id scope, ''telegram.'' @ ob_event_type q,
       ob_event_time q, Some (opt_json p))"
proof -
  have "tracks jobs_frame (insert_normalized scope q p)"
    unfolding insert_normalized_def by (intro exec_frames exec_modify_frame) auto
  moreover obtain r t where run: "insert_normalized scope q p s = (r, t)" by (metis prod.exhaust)
  ultimately have "jobs_frame s t" by (blast intro: tracksD)
  with run show ?thesis
    by (auto simp: insert_normalized_def run_simps Let_def add_business_event_def telegram_event_def
        event_columns_def dict_get_def)
qed

lemma obs_inv_extend:
  assumes inv: "obs_inv s" and q: "rid q = uuids s (uuid_pos s)" "obs_key q \<notin> dom (observed s)"
    and t: "observations t = observations s @ [q]" "observation_links t = observation_links s @ [l]"
      "business_events t = business_events s @ [e]" "evidence t = evidence s @ [v]"
      "uuids t = uuids s" "uuid_pos s < uuid_pos t"
    and l: "ol_observation_id l = rid q" "ol_business_event_id l = rid e" "ol_evidence_id l = rid v"
    and e: "telegram_event e" "event_columns e = view_columns (obs_view q l)"
  shows "obs_inv t \<and> observed t = (observed s)(obs_key q \<mapsto> obs_view q l)"
proof -
  have len: "length (observation_links s) = length (observations s)" by (rule obs_inv_length [OF inv])
  have key: "obs_key q \<notin> obs_key ` set (observations s)" using q(2) dom_observed [OF inv] by simp
  have fresh: "rid q \<notin> rid ` set (observations s)"
  proof
    assume "rid q \<in> rid ` set (observations s)"
    then have "uuids s (uuid_pos s) \<in> uuids s ` {..<uuid_pos s}"
      using inv q(1) unfolding obs_inv_def by auto
    then show False using inv by (auto simp: obs_inv_def dest: injD)
  qed
  have drawn: "rid ` set (observations t) \<subseteq> uuids t ` {..<uuid_pos t}"
  proof -
    have "rid ` set (observations s) \<subseteq> uuids s ` {..<uuid_pos s}" using inv by (simp add: obs_inv_def)
    also have "\<dots> \<subseteq> uuids s ` {..<uuid_pos t}" using t(6) by (intro image_mono) auto
    finally show ?thesis using q(1) t by simp
  qed
  have "obs_inv t"
    using inv key fresh drawn t l e len by (simp add: obs_inv_def)
  moreover have "observed t = (observed s)(obs_key q \<mapsto> obs_view q l)"
    using q(2) t len by (auto simp: observed_def fun_eq_iff map_add_def split: option.splits)
  ultimately show ?thesis by simp
qed

definition ingestible :: "'y TenantScope_scheme \<Rightarrow> string \<Rightarrow> payload \<Rightarrow> 'z analytics_store_scheme \<Rightarrow> bool" where
  "ingestible scope account_id update s \<longleftrightarrow>
     (\<exists>account. row_get rid account_id (connector_accounts s) = Some account \<and>
        org account = organization_id scope \<and> biz account = business_id scope) \<and>
     (\<exists>x. parse_update update = Inr x)"

lemma ingest_rejected:
  "\<not> ingestible scope account_id update s \<Longrightarrow>
   \<exists>e. ingest_telegram_update env scope account_id update now s = (Inl e, s)"
  by (auto simp: ingestible_def ingest_telegram_update_def run_simps check_scope_def assert_matches_def
      split: option.splits sum.splits if_splits)

text \<open>The tables and counters that ingestion does not assign.\<close>

definition ingest_frame :: "'z analytics_store_scheme \<Rightarrow> 'z analytics_store_scheme \<Rightarrow> bool" where
  "ingest_frame s t \<longleftrightarrow> jobs t = jobs s \<and> jobs_frame s t \<and> external_references t = external_references s \<and>
     publication_links t = publication_links s \<and> connector_accounts t = connector_accounts s \<and>
     observation_states t = observation_states s \<and> metric_versions t = metric_versions s"

interpretation inf: state_preorder ingest_frame
proof
  fix s t u :: "'z analytics_store_scheme"
  show "ingest_frame s s" by (simp add: ingest_frame_def jf.refl)
  assume "ingest_frame s t" "ingest_frame t u"
  then show "ingest_frame s u" unfolding ingest_frame_def by (metis jf.trans)
qed

text \<open>The row of an update that is new.\<close>

definition new_observation ::
  "hash_env \<Rightarrow> 'y TenantScope_scheme \<Rightarrow> string \<Rightarrow> payload \<Rightarrow> datetime
     \<Rightarrow> string \<times> string \<times> datetime \<times> string option \<times> string option \<Rightarrow> string \<Rightarrow> observation_row" where
  "new_observation env scope account_id update now parsed i =
    (case parsed of (identity, ev_type, t, message_id, chat_id) \<Rightarrow>
      \<lparr>rid = i, org = organization_id scope, biz = business_id scope,
       ob_connector_account_id = account_id, ob_provider = ''telegram'',
       ob_event_identity = identity, ob_event_type = ev_type,
       ob_external_object_id = message_id, ob_external_parent_id = chat_id,
       ob_event_time = t, ob_ingested_at = now, ob_raw_payload = update,
       ob_payload_hash = hash_payload env update, ob_trust_class = UNTRUSTED_EXTERNAL\<rparr>)"

definition ingest_result ::
  "observation_row \<Rightarrow> bool \<Rightarrow> business_event_row \<times> evidence_row \<times> string option \<Rightarrow> ObservationIngestResult" where
  "ingest_result q created = (\<lambda>(event, ev, publication_id).
     \<lparr>ingest_observation = q, ingest_business_event = event, ingest_evidence = ev,
      ingest_publication_id = publication_id, ingest_created = created\<rparr>)"

lemma ingest_run:
  assumes ok: "ingestible scope account_id update s" and p: "parse_update update = Inr parsed"
  shows "ingest_telegram_update env scope account_id update now s =
      (case select_first (\<lambda>q. obs_key q = (account_id, fst parsed)) (observations s) of
         Some q \<Rightarrow> bnd (normalize_observation scope q) (\<lambda>x. ret (ingest_result q False x)) s
       | None \<Rightarrow> (let q = new_observation env scope account_id update now parsed (uuids s (uuid_pos s))
           in bnd (normalize_observation scope q) (\<lambda>x. ret (ingest_result q True x))
             (s\<lparr>uuid_pos := Suc (uuid_pos s), observations := observations s @ [q],
                sql_jobs := jobs s, unit_of_work := []\<rparr>)))"
proof -
  obtain account where acc: "row_get rid account_id (connector_accounts s) = Some account"
      "org account = organization_id scope" "biz account = business_id scope" "rid account = account_id"
    using ok by (auto simp: ingestible_def dest: row_get_Some)
  obtain identity ev_type t message_id chat_id where
    parsed: "parsed = (identity, ev_type, t, message_id, chat_id)" by (metis prod.exhaust)
  show ?thesis
    using acc p unfolding parsed
    by (simp add: ingest_telegram_update_def run_simps check_scope_def assert_matches_def Let_def
        obs_key_def new_observation_def ingest_result_def case_prod_unfold split: option.split)
qed

lemma ingest_new:
  assumes inv: "obs_inv s" and q: "rid q = uuids s (uuid_pos s)" "obs_key q \<notin> dom (observed s)"
      "org q = organization_id scope" "biz q = business_id scope"
  shows "\<exists>x u. normalize_observation scope q (s\<lparr>uuid_pos := Suc (uuid_pos s), observations := observations s @ [q],
        sql_jobs := jobs s, unit_of_work := []\<rparr>) = (Inr x, u) \<and> obs_inv u \<and> ingest_frame s u \<and>
    snd (snd x) = publication_for_observation s q \<and>
    observed u = (observed s)(obs_key q \<mapsto> (org q, biz q, ob_event_type q, ob_event_time q,
      publication_for_observation s q))"
proof -
  let ?s1 = "s\<lparr>uuid_pos := Suc (uuid_pos s), observations := observations s @ [q],
      sql_jobs := jobs s, unit_of_work := []\<rparr>"
  let ?p = "publication_for_observation s q"
  have "rid q \<notin> rid ` set (observations s)"
  proof
    assume "rid q \<in> rid ` set (observations s)"
    then have "uuids s (uuid_pos s) \<in> uuids s ` {..<uuid_pos s}"
      using inv q(1) unfolding obs_inv_def by auto
    then show False using inv by (auto simp: obs_inv_def dest: injD)
  qed
  moreover have "set (map ol_observation_id (observation_links s)) = rid ` set (observations s)"
    using inv unfolding obs_inv_def by simp
  ultimately have "select_first (\<lambda>l. ol_observation_id l = rid q) (observation_links ?s1) = None"
    by (auto simp: select_first_None) (metis imageI)
  moreover have pub: "publication_for_observation ?s1 q = ?p"
    unfolding publication_for_observation_def by (simp split: option.split)
  ultimately have norm: "normalize_observation scope q ?s1 = insert_normalized scope q ?p ?s1"
    by (simp add: normalize_observation_def run_bnd run_gets pub)
  obtain e v l u where u: "insert_normalized scope q ?p ?s1 = (Inr (e, v, ?p), u)"
      "observations u = observations ?s1" "observation_links u = observation_links ?s1 @ [l]"
      "business_events u = business_events ?s1 @ [e]" "evidence u = evidence ?s1 @ [v]"
      "uuids u = uuids ?s1" "uuid_pos ?s1 \<le> uuid_pos u" "jobs_frame ?s1 u"
      "external_references u = external_references ?s1" "publication_links u = publication_links ?s1"
      "connector_accounts u = connector_accounts ?s1" "observation_states u = observation_states ?s1"
      "jobs u = jobs ?s1" "metric_versions u = metric_versions ?s1"
      "ol_observation_id l = rid q" "ol_business_event_id l = rid e" "ol_evidence_id l = rid v"
      "ol_publication_id l = ?p" "telegram_event e"
      "event_columns e = (organization_id scope, business_id scope, ''telegram.'' @ ob_event_type q,
         ob_event_time q, Some (opt_json ?p))"
    using insert_normalized_run [of scope q ?p ?s1] by blast
  have "obs_inv u \<and> observed u = (observed s)(obs_key q \<mapsto> obs_view q l)"
    using inv q u(2-7,15-20) by (intro obs_inv_extend) (simp_all add: obs_view_def view_columns_def)
  moreover have "jobs_frame s ?s1" by (rule jobs_frame_same) simp_all
  then have "ingest_frame s u" using u(8-14) by (auto simp: ingest_frame_def intro: jf.trans)
  ultimately show ?thesis using u(1,18) norm by (simp add: obs_view_def)
qed

lemma ingest_outcome:
  assumes inv: "obs_inv s"
  shows "case ingest_telegram_update env scope account_id update now s of
    (Inl err, u) \<Rightarrow> u = s \<and> \<not> ingestible scope account_id update s
  | (Inr r, u) \<Rightarrow> ingestible scope account_id update s \<and> obs_inv u \<and> ingest_frame s u \<and>
      (\<exists>identity ev_type t message_id chat_id.
        parse_update update = Inr (identity, ev_type, t, message_id, chat_id) \<and>
        ingest_created r = ((account_id, identity) \<notin> dom (observed s)) \<and>
        observed u = (if ingest_created r
          then (observed s)((account_id, identity) \<mapsto> (organization_id scope, business_id scope, ev_type, t,
            publication_for_observation s (ingest_observation r)))
          else observed s))"
proof (cases "ingestible scope account_id update s")
  case False
  then show ?thesis using ingest_rejected [OF False, of env now] by auto
next
  case True
  then obtain identity ev_type t message_id chat_id where
    p: "parse_update update = Inr (identity, ev_type, t, message_id, chat_id)"
    by (auto simp: ingestible_def)
  let ?P = "\<lambda>q. obs_key q = (account_id, identity)"
  have dom: "(account_id, identity) \<in> dom (observed s) \<longleftrightarrow> (\<exists>q \<in> set (observations s). ?P q)"
    using dom_observed [OF inv] by (auto simp: image_iff) metis
  show ?thesis
  proof (cases "select_first ?P (observations s)")
    case (Some q)
    then have q: "q \<in> set (observations s)" "?P q" by (auto dest: select_first_Some)
    obtain x where "normalize_observation scope q s = (Inr x, s)"
      using normalize_existing [OF inv q(1), of scope] by blast
    moreover have "(account_id, identity) \<in> dom (observed s)" using dom q by blast
    ultimately show ?thesis
      using inv Some True p
      by (simp add: ingest_run [OF True p] run_bnd run_ret inf.refl ingest_result_def case_prod_unfold)
  next
    case None
    let ?q = "new_observation env scope account_id update now (identity, ev_type, t, message_id, chat_id)
        (uuids s (uuid_pos s))"
    have q: "obs_key ?q = (account_id, identity)" "rid ?q = uuids s (uuid_pos s)"
        "org ?q = organization_id scope" "biz ?q = business_id scope" "ob_event_type ?q = ev_type"
        "ob_event_time ?q = t"
      by (simp_all add: new_observation_def obs_key_def)
    have new: "obs_key ?q \<notin> dom (observed s)"
      unfolding q(1) using None dom by (simp add: select_first_None)
    show ?thesis
      using ingest_new [OF inv q(2) new q(3,4)] None True p new
      by (auto simp: ingest_run [OF True p] Let_def run_bnd run_ret q ingest_result_def case_prod_unfold)
  qed
qed

text \<open>
  Claim C8. Ingestion implements a finite map, so an event is counted once however often the
  provider delivers it. In a database that satisfies the invariant, ingesting an update inserts the
  event of the update under its account and identity when it is new, leaves the map alone when it is
  known, and keeps the invariant and every table of jobs, accounts, references and metrics; an
  update that is not well-formed, or an account that is missing or foreign, raises and changes
  nothing.
\<close>

theorem ingest_refines_map:
  assumes inv: "obs_inv s"
  shows "case ingest_telegram_update env scope account_id update now s of
    (Inl err, u) \<Rightarrow> u = s \<and> \<not> ingestible scope account_id update s
  | (Inr r, u) \<Rightarrow> ingestible scope account_id update s \<and> obs_inv u \<and> ingest_frame s u \<and>
      (\<exists>identity ev_type t message_id chat_id.
        parse_update update = Inr (identity, ev_type, t, message_id, chat_id) \<and>
        ingest_created r = ((account_id, identity) \<notin> dom (observed s)) \<and>
        observed u = (if ingest_created r
          then (observed s)((account_id, identity) \<mapsto> (organization_id scope, business_id scope, ev_type, t,
            publication_for_observation s (ingest_observation r)))
          else observed s))"
  by (rule ingest_outcome [OF inv])

section \<open>A concrete loop\<close>

text \<open>A publication that is out, with its lineage, its checkpoint and a configured observation.\<close>

definition loop_reference :: external_reference_row where
  "loop_reference = \<lparr>rid = ''re'', org = ''o'', biz = ''b'', ref_provider = ''telegram'',
     ref_connector_account_id = ''co'', ref_channel_id = ''ch'', ref_external_object_type = ''message'',
     ref_external_id = ''7'', ref_external_parent_id = Some ''-1'', ref_action_id = ''ac'', ref_execution_id = ''ex''\<rparr>"

definition loop_publication :: publication_row where
  "loop_publication = \<lparr>rid = ''pu'', org = ''o'', biz = ''b'', pub_asset_version_id = ''av'', pub_channel_id = ''ch'',
     pub_status = PublicationStatus.PUBLISHED, pub_published_at = Some (seconds 100)\<rparr>"

definition loop_link :: publication_link_row where
  "loop_link = \<lparr>rid = ''pl'', org = ''o'', biz = ''b'', link_publication_id = ''pu'', link_action_id = ''ac'',
     link_execution_id = ''ex'', link_external_reference_id = ''re''\<rparr>"

definition loop_experiment :: experiment_row where
  "loop_experiment = \<lparr>rid = ''xp'', org = ''o'', biz = ''b'', experiment_decision_id = ''d'',
     experiment_hypothesis_id = None, experiment_metric = ''telegram_reaction_changes'',
     experiment_status = ExperimentStatus.RUNNING, experiment_causality_class = CausalityClass.UNKNOWN\<rparr>"

definition loop_checkpoint :: checkpoint_binding_row where
  "loop_checkpoint = \<lparr>rid = ''cp'', org = ''o'', biz = ''b'', cb_decision_id = ''d'', cb_experiment_id = ''xp'',
     cb_metric_key = ''telegram_reaction_changes'', cb_experiment_rule_id = ''ru'', cb_schema_version = 1,
     cb_source_window_anchor = ''PUBLICATION_TIME'', cb_window_seconds = 3600, cb_grace_seconds = 60,
     cb_success_operator = ''GTE'', cb_success_value = 5, cb_weak_signal_operator = ''GTE'',
     cb_weak_signal_value = 2, cb_failure_operator = ''EQ'', cb_failure_value = 0,
     cb_coverage_requirement = ''COMPLETE'', cb_attribution_method = ''telegram_message_lineage'',
     cb_next_action_on_success = ''a'', cb_next_action_on_weak_signal = ''b'', cb_next_action_on_failure = ''c'',
     cb_contract_hash = ''h'', cb_created_at = 0\<rparr>"

definition loop_state :: observation_state_row where
  "loop_state = \<lparr>rid = ''os'', org = ''o'', biz = ''b'', os_connector_account_id = ''co'',
     os_observation_mode = ''LONG_POLL'', os_last_update_id = None, os_coverage_started_at = 0,
     os_last_successful_ingest_at = None, os_freshness_status = ''UNKNOWN'', os_gap_detected = False,
     os_allowed_update_types = TELEGRAM_ALLOWED_UPDATES, os_updated_at = 0\<rparr>"

definition loop_db :: analytics_store where
  "loop_db = \<lparr>jobs = [], sql_jobs = [], outbox_events = [], business_events = [], audit_logs = [],
     unit_of_work = [], uuids = (\<lambda>n. replicate n CHR ''i''), uuid_pos = 0, wakeups = [], provider_log = [],
     channels = [], memberships = [], permission_policies = [],
     asset_versions = [demo_version], production_workflows = [demo_workflow], asset_rights = [],
     experiments = [loop_experiment], checkpoint_bindings = [loop_checkpoint], connector_accounts = [demo_account],
     actions = [demo_action], action_details = [demo_detail], controller_reviews = [],
     permission_evaluations = [demo_permission], global_controls = [], approvals = [demo_approval],
     executions = [demo_execution], external_references = [loop_reference], publications = [loop_publication],
     publication_links = [loop_link], source_records = [], evidence = [], observation_states = [loop_state],
     observations = [], observation_links = [], metric_versions = [], experiment_results = [],
     result_details = [], learning_reviews = [], learnings = [], learning_details = []\<rparr>"

definition loop_update :: "int \<Rightarrow> int \<Rightarrow> payload" where
  "loop_update n date = [(''update_id'', JInt n), (''message_reaction'', JObj [(''date'', JInt date),
     (''message_id'', JInt 7), (''chat'', JObj [(''id'', JInt (-1))])])]"

lemmas loop_row_defs = loop_reference_def loop_publication_def loop_link_def loop_experiment_def
  loop_checkpoint_def loop_state_def

lemma loop_inv: "obs_inv loop_db"
  by (auto simp: obs_inv_def loop_db_def inj_on_def)

lemma loop_parse: "parse_update (loop_update 5 150) = Inr (''5'', ''message_reaction'', seconds 150, Some ''7'', Some ''-1'')"
  by code_simp

lemma loop_ingestible: "ingestible demo_context ''co'' (loop_update 5 150) loop_db"
  by (simp add: ingestible_def loop_parse) (simp add: loop_db_def demo_account_def demo_context_def)

theorem ingest_refines_map_witness:
  "\<exists>r u. ingest_telegram_update demo_env demo_context ''co'' (loop_update 5 150) 9 loop_db = (Inr r, u) \<and>
     ingest_created r \<and> dom (observed u) = {(''co'', ''5'')}"
proof -
  obtain x u where run: "ingest_telegram_update demo_env demo_context ''co'' (loop_update 5 150) 9 loop_db = (x, u)"
    by (metis prod.exhaust)
  have "observed loop_db = Map.empty" by (simp add: observed_def loop_db_def)
  with ingest_refines_map [OF loop_inv, where env = demo_env and scope = demo_context and
      account_id = "''co''" and update = "loop_update 5 150" and now = 9] run loop_ingestible
  show ?thesis by (cases x) (auto simp: loop_parse)
qed

section \<open>Polls\<close>

text \<open>What a connector may touch: only the provider log.\<close>

locale observation_port =
  fixes connector :: "'z observation_connector"
  assumes poll_log: "only_log s (snd (get_updates connector offset allowed timeout s))"
begin

lemma poll_only_log:
  assumes "poll_updates connector state s = (x, t)"
  shows "only_log s t \<and>
    (\<forall>us. x = Inr us \<longrightarrow> get_updates connector (map_option (\<lambda>n. n + 1) (os_last_update_id state))
       (os_allowed_update_types state) 0 s = (Inr us, t))"
proof -
  obtain y u where g: "get_updates connector (map_option (\<lambda>n. n + 1) (os_last_update_id state))
      (os_allowed_update_types state) 0 s = (y, u)" by (metis prod.exhaust)
  have "only_log s u" using poll_log [of s "map_option (\<lambda>n. n + 1) (os_last_update_id state)"
      "os_allowed_update_types state" 0] g by simp
  with g assms show ?thesis
    by (cases y) (auto simp: poll_updates_def handle_error_def run_raise split: py_error.splits)
qed

lemma poll_frame: "tracks jobs_frame (poll_updates connector state)"
proof (rule tracksI)
  fix s :: "'z store_scheme"
  obtain x t where p: "poll_updates connector state s = (x, t)" by (metis prod.exhaust)
  then obtain l where "t = s\<lparr>provider_log := provider_log s @ l\<rparr>"
    using poll_only_log [OF p] by (auto simp: only_log_def)
  then show "jobs_frame s (snd (poll_updates connector state s))"
    using p by (auto intro!: jobs_frame_same)
qed

end

interpretation http_observation: observation_port "TelegramHttpObservationConnector api token"
  by unfold_locales
    (auto simp: TelegramHttpObservationConnector_def http_get_updates_def run_simps Let_def only_log_def
      split: sum.splits intro: exI [of _ "[]"])

interpretation fake_observation: observation_port "FakeTelegramObservationConnector updates ignore_offset"
  by unfold_locales (auto simp: FakeTelegramObservationConnector_def run_simps only_log_def)

text \<open>The tables that make up the view, with the observation states.\<close>

definition obs_same :: "'z analytics_store_scheme \<Rightarrow> 'z analytics_store_scheme \<Rightarrow> bool" where
  "obs_same s t \<longleftrightarrow> observations t = observations s \<and> observation_links t = observation_links s \<and>
     business_events t = business_events s \<and> evidence t = evidence s \<and> uuids t = uuids s \<and>
     uuid_pos s \<le> uuid_pos t \<and> connector_accounts t = connector_accounts s \<and>
     observation_states t = observation_states s"

interpretation os: state_preorder obs_same
  by unfold_locales (auto simp: obs_same_def)

lemma obs_inv_same: "obs_inv s \<Longrightarrow> observations t = observations s \<Longrightarrow> observation_links t = observation_links s \<Longrightarrow>
    business_events t = business_events s \<Longrightarrow> evidence t = evidence s \<Longrightarrow> uuids t = uuids s \<Longrightarrow>
    uuid_pos s \<le> uuid_pos t \<Longrightarrow> obs_inv t \<and> observed t = observed s"
proof -
  assume a: "obs_inv s" "observations t = observations s" "observation_links t = observation_links s"
    "business_events t = business_events s" "evidence t = evidence s" "uuids t = uuids s" "uuid_pos s \<le> uuid_pos t"
  have "uuids s ` {..<uuid_pos s} \<subseteq> uuids s ` {..<uuid_pos t}" using a(7) by (intro image_mono) auto
  with a show ?thesis by (auto simp: obs_inv_def observed_def)
qed

lemma create_job_obs: "tracks obs_same (create_job scope jtype pl sv key now mx av co ca)"
proof (rule tracksI)
  fix s :: "'z analytics_store_scheme"
  obtain r t where run: "create_job scope jtype pl sv key now mx av co ca s = (r, t)" by (metis prod.exhaust)
  have "obs_same s t"
  proof (cases r)
    case (Inl e)
    with run create_job_error have "t = s" by blast
    then show ?thesis by (simp add: os.refl)
  next
    case (Inr j)
    with create_job_result [OF run [unfolded Inr]] show ?thesis by (auto simp: obs_same_def)
  qed
  with run show "obs_same s (snd (create_job scope jtype pl sv key now mx av co ca s))" by simp
qed

lemma metric_jobs_obs: "tracks obs_same (foreach ps (enqueue_metric_job context now))"
proof -
  have "tracks obs_same (enqueue i)" for i by (auto simp: tracks_def obs_same_def run_simps)
  then show ?thesis unfolding enqueue_metric_job_def by (intro os.t_rules create_job_obs)
qed

abbreviation update_number :: "payload \<Rightarrow> int" where
  "update_number u \<equiv> the (as_int (dict_get u ''update_id''))"

text \<open>The key under which an update is stored.\<close>

definition update_key :: "string \<Rightarrow> payload \<Rightarrow> event_key" where
  "update_key account_id u = (account_id, the (update_identity u))"

lemma parse_identity: "parse_update u = Inr (identity, x) \<Longrightarrow> update_identity u = Some identity"
  by (auto simp: parse_update_def split: option.splits sum.splits)

lemma ingestible_frame: "ingest_frame s t \<Longrightarrow> ingestible scope account_id u t = ingestible scope account_id u s"
  by (simp add: ingestible_def ingest_frame_def)

lemma ingest_step:
  assumes inv: "obs_inv s" and run: "ingest_telegram_update env scope account_id u now s = (Inr r, t)"
  shows "obs_inv t \<and> ingest_frame s t \<and> ingestible scope account_id u s \<and> observed s \<subseteq>\<^sub>m observed t \<and>
    dom (observed t) = insert (update_key account_id u) (dom (observed s))"
proof -
  obtain identity ev_type tm message_id chat_id where
      p: "parse_update u = Inr (identity, ev_type, tm, message_id, chat_id)"
    and c: "ingest_created r = ((account_id, identity) \<notin> dom (observed s))"
    and o: "observed t = (if ingest_created r
          then (observed s)((account_id, identity) \<mapsto> (organization_id scope, business_id scope, ev_type, tm,
            publication_for_observation s (ingest_observation r)))
          else observed s)"
    and rest: "obs_inv t" "ingest_frame s t" "ingestible scope account_id u s"
    using ingest_outcome [OF inv, where env = env and scope = scope and account_id = account_id and
        update = u and now = now] unfolding run prod.case sum.case by blast
  have key: "update_key account_id u = (account_id, identity)"
    using parse_identity [OF p] by (simp add: update_key_def)
  show ?thesis using rest c o key by (auto simp: map_le_def dom_def)
qed

lemma ingest_all_run:
  assumes "obs_inv s" and "ingest_all env scope account_id now us ps m s = (Inr (ps', m'), t)"
  shows "obs_inv t \<and> ingest_frame s t \<and> observed s \<subseteq>\<^sub>m observed t \<and>
    dom (observed t) = dom (observed s) \<union> update_key account_id ` set us \<and>
    (\<forall>u \<in> set us. ingestible scope account_id u s) \<and>
    m' = fold (\<lambda>u m. Some (case m of None \<Rightarrow> update_number u | Some k \<Rightarrow> max k (update_number u))) us m"
  using assms
proof (induction us arbitrary: ps m s)
  case Nil
  then show ?case by (auto simp: run_ret inf.refl)
next
  case (Cons u us)
  from Cons.prems(2) obtain n r s1 where
      n: "as_int (dict_get u ''update_id'') = Some n"
    and r: "ingest_telegram_update env scope account_id u now s = (Inr r, s1)"
    and rest: "ingest_all env scope account_id now us
       (case ingest_publication_id r of None \<Rightarrow> ps | Some p \<Rightarrow> p # ps)
       (case m of None \<Rightarrow> Some n | Some k \<Rightarrow> if k < n then Some n else Some k) s1 = (Inr (ps', m'), t)"
    by (auto elim!: bnd_okE simp: run_required split: option.splits)
  note one = ingest_step [OF Cons.prems(1) r]
  note ih = Cons.IH [OF conjunct1 [OF one] rest]
  have "(case m of None \<Rightarrow> Some n | Some k \<Rightarrow> if k < n then Some n else Some k) =
      Some (case m of None \<Rightarrow> update_number u | Some k \<Rightarrow> max k (update_number u))"
    using n by (auto split: option.split)
  with one ih show ?case
    by (auto simp: ingestible_frame intro: inf.trans map_le_trans)
qed

text \<open>The fold over the numbers of a batch bounds them and only ever grows.\<close>

lemma newest_bound:
  fixes m :: "int option"
  assumes "m' = fold (\<lambda>u m. Some (case m of None \<Rightarrow> f u | Some k \<Rightarrow> max k (f u))) us m"
  shows "(\<forall>u \<in> set us. \<exists>k. m' = Some k \<and> f u \<le> k) \<and> (\<forall>k0. m = Some k0 \<longrightarrow> (\<exists>k. m' = Some k \<and> k0 \<le> k))"
  using assms
proof (induction us arbitrary: m)
  case (Cons u us)
  let ?m = "Some (case m of None \<Rightarrow> f u | Some k \<Rightarrow> max k (f u))"
  have "(\<forall>v \<in> set us. \<exists>k. m' = Some k \<and> f v \<le> k) \<and> (\<forall>k0. ?m = Some k0 \<longrightarrow> (\<exists>k. m' = Some k \<and> k0 \<le> k))"
    using Cons.prems by (intro Cons.IH) simp
  then show ?case by (auto split: option.splits)
qed simp

end
