(* ===== verification/Analytics_Safety.thy ===== *)
theory Analytics_Safety
  imports Learning Observation_Safety
begin

text \<open>
  What the metric versions, the interpretation of a checkpoint and the learning that follows
  guarantee: a version counts the known events of its window, once each; versions of a publication
  form a chain and recalculation adds none; a metric falls into exactly one class, with one gap; and
  a learning never claims more than its data allow.
\<close>

section \<open>What a metric counts\<close>

text \<open>The known events that a metric of a publication and a window has to count.\<close>

definition reactions ::
  "'y TenantScope_scheme \<Rightarrow> string \<Rightarrow> datetime \<Rightarrow> datetime \<Rightarrow> 'z analytics_store_scheme \<Rightarrow> event_key set" where
  "reactions scope pid window_start window_end s =
     {k. \<exists>ty t. observed s k = Some (organization_id scope, business_id scope, ty, t, Some pid) \<and>
        ty \<in> {''message_reaction'', ''message_reaction_count''} \<and> window_start \<le> t \<and> t \<le> window_end}"

definition counted_columns ::
  "'y TenantScope_scheme \<Rightarrow> string \<Rightarrow> datetime \<Rightarrow> datetime
     \<Rightarrow> string \<times> string \<times> string \<times> datetime \<times> json option \<Rightarrow> bool" where
  "counted_columns scope pid window_start window_end = (\<lambda>(o1, b1, ty, t, p).
     o1 = organization_id scope \<and> b1 = business_id scope \<and> ty \<in> set REACTION_EVENT_TYPES \<and>
     window_start \<le> t \<and> t \<le> window_end \<and> p = Some (JStr pid))"

lemma counted_event_columns:
  "counted_event scope pid ws we e \<longleftrightarrow> telegram_event e \<and> counted_columns scope pid ws we (event_columns e)"
  by (auto simp: counted_event_def counted_columns_def event_columns_def telegram_event_def REACTION_EVENT_TYPES_def)

lemma counted_view:
  "counted_columns scope pid ws we (view_columns v) \<longleftrightarrow>
   (\<exists>ty t. v = (organization_id scope, business_id scope, ty, t, Some pid) \<and>
      ty \<in> {''message_reaction'', ''message_reaction_count''} \<and> ws \<le> t \<and> t \<le> we)"
  by (cases v) (auto simp: counted_columns_def view_columns_def REACTION_EVENT_TYPES_def opt_json_def
      split: option.splits)

abbreviation entries :: "'z analytics_store_scheme \<Rightarrow> (event_key \<times> event_view) list" where
  "entries s \<equiv> map2 (\<lambda>q l. (obs_key q, obs_view q l)) (observations s) (observation_links s)"

lemma entries_distinct: "obs_inv s \<Longrightarrow> distinct (map fst (entries s))"
proof -
  assume inv: "obs_inv s"
  then have "distinct (map obs_key (observations s))" by (simp add: obs_inv_def)
  then show ?thesis by (subst map_fst_zip_key [OF obs_inv_length [OF inv]])
qed

lemma observed_entries: "obs_inv s \<Longrightarrow> observed s k = Some v \<longleftrightarrow> (k, v) \<in> set (entries s)"
  unfolding observed_def by (rule map_of_eq_Some_iff [OF entries_distinct])

lemma view_entries:
  "map (\<lambda>kv. view_columns (snd kv)) (entries s) =
   map2 (\<lambda>q l. view_columns (obs_view q l)) (observations s) (observation_links s)"
  by (simp only: map_map comp_def case_prod_unfold snd_conv)

lemma counted_length:
  assumes inv: "obs_inv s"
  shows "length (counted_events scope pid ws we s) = card (reactions scope pid ws we s)"
proof -
  let ?C = "counted_columns scope pid ws we"
  let ?D = "\<lambda>kv :: event_key \<times> event_view. ?C (view_columns (snd kv))"
  have "filter (counted_event scope pid ws we) (business_events s) =
      filter (\<lambda>e. ?C (event_columns e)) (filter telegram_event (business_events s))"
    by (simp add: counted_event_columns conj_commute cong: filter_cong)
  then have "length (counted_events scope pid ws we s) =
      length (filter ?C (map event_columns (filter telegram_event (business_events s))))"
    by (simp add: counted_events_def filter_map comp_def)
  also have "map event_columns (filter telegram_event (business_events s)) = map (\<lambda>kv. view_columns (snd kv)) (entries s)"
  proof -
    have "map event_columns (filter telegram_event (business_events s)) =
        map2 (\<lambda>q l. view_columns (obs_view q l)) (observations s) (observation_links s)"
      using inv unfolding obs_inv_def by (elim conjE)
    then show ?thesis by (rule trans) (rule view_entries [symmetric])
  qed
  also have "length (filter ?C \<dots>) = length (filter ?D (entries s))"
    by (simp only: filter_map length_map comp_def)
  also have "\<dots> = card (fst ` set (filter ?D (entries s)))"
    using distinct_card [OF distinct_map_filter [OF entries_distinct [OF inv], of ?D]]
    by (simp only: list.set_map length_map)
  also have "fst ` set (filter ?D (entries s)) = {k. \<exists>v. (k, v) \<in> set (entries s) \<and> ?C (view_columns v)}"
    by (simp only: set_filter) force
  also have "\<dots> = reactions scope pid ws we s"
    by (simp only: observed_entries [OF inv, symmetric] counted_view reactions_def) blast
  finally show ?thesis .
qed

section \<open>Calculating a version\<close>

text \<open>The tables that a calculation reads and does not assign.\<close>

definition metric_inputs :: "'z analytics_store_scheme \<Rightarrow> 'z analytics_store_scheme \<Rightarrow> bool" where
  "metric_inputs s t \<longleftrightarrow> publications t = publications s \<and> publication_links t = publication_links s \<and>
     external_references t = external_references s \<and> action_details t = action_details s \<and>
     experiments t = experiments s \<and> checkpoint_bindings t = checkpoint_bindings s \<and>
     observation_states t = observation_states s \<and> business_events t = business_events s \<and>
     observations t = observations s \<and> observation_links t = observation_links s \<and>
     uuids t = uuids s \<and> uuid_pos s \<le> uuid_pos t \<and> set (evidence s) \<subseteq> set (evidence t)"

text \<open>What the new row of a version says.\<close>

definition metric_says ::
  "'y TenantScope_scheme \<Rightarrow> checkpoint_binding_row \<Rightarrow> string \<Rightarrow> string list \<Rightarrow> string \<Rightarrow> string \<Rightarrow> datetime
     \<Rightarrow> datetime \<Rightarrow> string \<Rightarrow> metric_row option \<Rightarrow> metric_row \<Rightarrow> bool" where
  "metric_says scope c pid ids av cov ws we h latest m \<longleftrightarrow>
     org m = organization_id scope \<and> biz m = business_id scope \<and>
     mv_checkpoint_definition_id m = rid c \<and> mv_metric_key m = cb_metric_key c \<and>
     mv_subject_type m = ''Publication'' \<and> mv_subject_id m = pid \<and>
     mv_version_number m = (case latest of None \<Rightarrow> 1 | Some l \<Rightarrow> mv_version_number l + 1) \<and>
     mv_previous_metric_version_id m = map_option rid latest \<and>
     mv_value_numeric m = (if av = ''AVAILABLE'' \<or> ids \<noteq> [] then Some (real (length ids)) else None) \<and>
     mv_availability_status m = av \<and> mv_coverage_status m = cov \<and>
     mv_source_window_start m = ws \<and> mv_source_window_end m = we \<and>
     mv_included_business_event_ids m = ids \<and> mv_derivation_hash m = h"

lemma insert_metric_run:
  "\<exists>m t. insert_metric_version scope c x pid ids av cov ws we h latest now s =
       (Inr \<lparr>calculated_metric = m, calculated_created = True\<rparr>, t) \<and>
     metric_versions t = metric_versions s @ [m] \<and> metric_inputs s t \<and>
     metric_says scope c pid ids av cov ws we h latest m"
  by (auto simp: insert_metric_version_def run_simps Let_def analytics_audit_def analytics_outbox_def
      metric_inputs_def metric_says_def add_audit_def add_outbox_def)

text \<open>What a calculation finds before it looks at the latest version.\<close>

definition metric_basis ::
  "'y TenantScope_scheme \<Rightarrow> string \<Rightarrow> 'z analytics_store_scheme
     \<Rightarrow> (datetime \<times> checkpoint_binding_row \<times> external_reference_row) option" where
  "metric_basis scope pid s =
    (case row_get rid pid (publications s) of
       None \<Rightarrow> None
     | Some p \<Rightarrow>
         (case (pub_published_at p, checkpoint_context_for_publication s pid) of
            (Some ws, Inr (c, x)) \<Rightarrow>
              if assert_matches scope (org p) (biz p) = Inr () \<and> cb_metric_key c = ''telegram_reaction_changes''
              then Some (ws, c, x) else None
          | _ \<Rightarrow> None))"

definition metric_coverage_of ::
  "'z analytics_store_scheme \<Rightarrow> datetime \<Rightarrow> checkpoint_binding_row \<Rightarrow> external_reference_row \<Rightarrow> datetime
     \<Rightarrow> string \<times> string" where
  "metric_coverage_of s ws c x now =
     metric_coverage (observation_state (ref_connector_account_id x) s) ws (ws + seconds (cb_window_seconds c))
       (cb_grace_seconds c) now"

lemma calculate_run:
  "calculate_metric_version env scope pid now s =
    (case metric_basis scope pid s of
       None \<Rightarrow> (Inl (projl (fst (calculate_metric_version env scope pid now s))), s)
     | Some (ws, c, x) \<Rightarrow>
         let we = ws + seconds (cb_window_seconds c);
             (av, cov) = metric_coverage_of s ws c x now;
             ids = map rid (counted_events scope pid ws we s);
             h = hash_payload env (derivation c pid ids av cov ws we
               (observation_state (ref_connector_account_id x) s));
             latest = latest_metric scope (cb_metric_key c) pid s
         in if map_option mv_derivation_hash latest = Some h
            then (Inr \<lparr>calculated_metric = the latest, calculated_created = False\<rparr>, s)
            else insert_metric_version scope c x pid ids av cov ws we h latest now s)"
  by (auto simp: calculate_metric_version_def metric_basis_def metric_coverage_of_def run_simps Let_def
      dest!: row_get_Some split: option.splits sum.splits prod.splits)

lemma metric_basis_same: "metric_inputs s t \<Longrightarrow> metric_basis scope pid t = metric_basis scope pid s"
proof -
  assume "metric_inputs s t"
  then have e: "publications t = publications s" "publication_links t = publication_links s"
      "external_references t = external_references s" "action_details t = action_details s"
      "experiments t = experiments s" "checkpoint_bindings t = checkpoint_bindings s"
    by (simp_all add: metric_inputs_def)
  show ?thesis unfolding metric_basis_def checkpoint_context_for_publication_def e ..
qed

lemma counted_same: "metric_inputs s t \<Longrightarrow> counted_events scope pid ws we t = counted_events scope pid ws we s"
  by (simp add: metric_inputs_def counted_events_def)

lemma state_same: "metric_inputs s t \<Longrightarrow> observation_state i t = observation_state i s"
  by (simp add: metric_inputs_def observation_state_def)

lemma metric_inputs_refl: "metric_inputs s s"
  by (simp add: metric_inputs_def)

lemma metric_inputs_obs:
  assumes "obs_inv s" and "metric_inputs s t"
  shows "obs_inv t \<and> observed t = observed s"
proof -
  have "uuids s ` {..<uuid_pos s} \<subseteq> uuids s ` {..<uuid_pos t}"
    using assms(2) by (intro image_mono) (auto simp: metric_inputs_def)
  moreover have "rid ` set (evidence s) \<subseteq> rid ` set (evidence t)"
    using assms(2) by (intro image_mono) (simp add: metric_inputs_def)
  ultimately show ?thesis using assms by (auto simp: obs_inv_def observed_def metric_inputs_def)
qed

text \<open>A calculation that returns: what it was based on, and its two outcomes.\<close>

lemma calculate_outcome:
  assumes "calculate_metric_version env scope pid now s = (Inr r, t)"
  obtains ws c x av cov ids h latest where
    "metric_basis scope pid s = Some (ws, c, x)" "metric_coverage_of s ws c x now = (av, cov)"
    "ids = map rid (counted_events scope pid ws (ws + seconds (cb_window_seconds c)) s)"
    "h = hash_payload env (derivation c pid ids av cov ws (ws + seconds (cb_window_seconds c))
       (observation_state (ref_connector_account_id x) s))"
    "latest = latest_metric scope (cb_metric_key c) pid s" "metric_inputs s t"
    "t = s \<and> \<not> calculated_created r \<and> latest = Some (calculated_metric r) \<and> mv_derivation_hash (calculated_metric r) = h \<or>
     metric_versions t = metric_versions s @ [calculated_metric r] \<and> calculated_created r \<and>
       metric_says scope c pid ids av cov ws (ws + seconds (cb_window_seconds c)) h latest (calculated_metric r)"
proof (cases "metric_basis scope pid s")
  case None
  with assms show thesis by (subst (asm) calculate_run) simp
next
  case (Some b)
  obtain ws c x where b: "b = (ws, c, x)" by (metis prod.exhaust)
  obtain av cov where cov: "metric_coverage_of s ws c x now = (av, cov)" by (metis prod.exhaust)
  define we where "we = ws + seconds (cb_window_seconds c)"
  define ids where "ids = map rid (counted_events scope pid ws we s)"
  define h where "h = hash_payload env (derivation c pid ids av cov ws we
       (observation_state (ref_connector_account_id x) s))"
  define latest where "latest = latest_metric scope (cb_metric_key c) pid s"
  have "calculate_metric_version env scope pid now s =
     (if map_option mv_derivation_hash latest = Some h
      then (Inr \<lparr>calculated_metric = the latest, calculated_created = False\<rparr>, s)
      else insert_metric_version scope c x pid ids av cov ws we h latest now s)"
    by (subst calculate_run) (simp only: Some b cov Let_def we_def ids_def h_def latest_def option.case prod.case)
  note run = trans [OF this [symmetric] assms]
  show thesis
  proof (cases "map_option mv_derivation_hash latest = Some h")
    case True
    with run have "t = s" "r = \<lparr>calculated_metric = the latest, calculated_created = False\<rparr>" by auto
    with True show thesis
      by (intro that [OF Some [unfolded b] cov ids_def [unfolded we_def] h_def [unfolded we_def] latest_def])
        (auto simp: metric_inputs_refl)
  next
    case False
    obtain m u where m: "insert_metric_version scope c x pid ids av cov ws we h latest now s =
         (Inr \<lparr>calculated_metric = m, calculated_created = True\<rparr>, u)"
        "metric_versions u = metric_versions s @ [m]" "metric_inputs s u"
        "metric_says scope c pid ids av cov ws we h latest m"
      using insert_metric_run [of scope c x pid ids av cov ws we h latest now s] by blast
    have "insert_metric_version scope c x pid ids av cov ws we h latest now s = (Inr r, t)"
      using run unfolding if_not_P [OF False] .
    with m(1) have "t = u" "r = \<lparr>calculated_metric = m, calculated_created = True\<rparr>" by auto
    with m show thesis
      by (intro that [OF Some [unfolded b] cov ids_def [unfolded we_def] h_def [unfolded we_def] latest_def])
        (auto simp: we_def)
  qed
qed

text \<open>
  Claim C22. A metric version counts what was observed. A version that is calculated from a
  database satisfying the observation invariant holds the number of distinct provider events known
  of its publication that are reactions inside the window, each counted once; it is called
  available only when observation has covered the whole window and its grace period without a gap,
  and the map of known events is left alone.
\<close>

theorem metric_counts_reactions:
  assumes inv: "obs_inv s" and run: "calculate_metric_version env scope pid now s = (Inr r, t)"
    and new: "calculated_created r"
  shows "\<exists>ws c x. metric_basis scope pid s = Some (ws, c, x) \<and>
    mv_source_window_start (calculated_metric r) = ws \<and>
    mv_source_window_end (calculated_metric r) = ws + seconds (cb_window_seconds c) \<and>
    length (mv_included_business_event_ids (calculated_metric r)) =
      card (reactions scope pid ws (ws + seconds (cb_window_seconds c)) s) \<and>
    (mv_availability_status (calculated_metric r) = ''AVAILABLE'' \<longrightarrow>
      mv_value_numeric (calculated_metric r) =
        Some (real (card (reactions scope pid ws (ws + seconds (cb_window_seconds c)) s))) \<and>
      (\<exists>st last. observation_state (ref_connector_account_id x) s = Some st \<and>
        os_last_successful_ingest_at st = Some last \<and> \<not> os_gap_detected st \<and>
        os_coverage_started_at st \<le> ws \<and> now - last \<le> TELEGRAM_RETENTION_GAP \<and>
        ws + seconds (cb_window_seconds c) + seconds (cb_grace_seconds c) \<le> last)) \<and>
    obs_inv t \<and> observed t = observed s"
proof -
  from run obtain ws c x av cov ids h latest where
      b: "metric_basis scope pid s = Some (ws, c, x)" and cov: "metric_coverage_of s ws c x now = (av, cov)"
    and ids: "ids = map rid (counted_events scope pid ws (ws + seconds (cb_window_seconds c)) s)"
    and same: "metric_inputs s t"
    and m: "metric_says scope c pid ids av cov ws (ws + seconds (cb_window_seconds c)) h latest (calculated_metric r)"
    using new by (elim calculate_outcome) auto
  have len: "length ids = card (reactions scope pid ws (ws + seconds (cb_window_seconds c)) s)"
    using counted_length [OF inv] by (simp add: ids)
  have "\<exists>st last. observation_state (ref_connector_account_id x) s = Some st \<and>
        os_last_successful_ingest_at st = Some last \<and> \<not> os_gap_detected st \<and>
        os_coverage_started_at st \<le> ws \<and> now - last \<le> TELEGRAM_RETENTION_GAP \<and>
        ws + seconds (cb_window_seconds c) + seconds (cb_grace_seconds c) \<le> last" if "av = ''AVAILABLE''"
    using cov that by (auto simp: metric_coverage_of_def metric_coverage_def split: option.splits if_splits)
  then show ?thesis
    using b m len metric_inputs_obs [OF inv same] by (auto simp: metric_says_def)
qed

section \<open>The chain of versions\<close>

definition versions_of :: "string \<Rightarrow> string \<Rightarrow> string \<Rightarrow> 'z analytics_store_scheme \<Rightarrow> metric_row list" where
  "versions_of b key pid s = filter (\<lambda>m. biz m = b \<and> mv_metric_key m = key \<and>
     mv_subject_type m = ''Publication'' \<and> mv_subject_id m = pid) (metric_versions s)"

text \<open>Numbered from one in the order of calculation, each naming its predecessor.\<close>

definition chained :: "metric_row list \<Rightarrow> bool" where
  "chained ms \<longleftrightarrow> (\<forall>i < length ms. mv_version_number (ms ! i) = int i + 1 \<and>
     mv_previous_metric_version_id (ms ! i) = (if i = 0 then None else Some (rid (ms ! (i - 1)))))"

definition metric_chain :: "'z analytics_store_scheme \<Rightarrow> bool" where
  "metric_chain s \<longleftrightarrow> (\<forall>b key pid. chained (versions_of b key pid s))"

lemma chained_sorted: "chained ms \<Longrightarrow> sorted (map mv_version_number ms)"
  by (auto simp: chained_def sorted_iff_nth_mono)

lemma chained_append:
  assumes "chained ms" and "mv_version_number m = (if ms = [] then 1 else mv_version_number (last ms) + 1)"
    and "mv_previous_metric_version_id m = (if ms = [] then None else Some (rid (last ms)))"
  shows "chained (ms @ [m])"
  using assms by (auto simp: chained_def nth_append last_conv_nth less_Suc_eq)

text \<open>In a chain the latest version is the last one.\<close>

lemma latest_last:
  assumes "metric_chain s"
  shows "latest_metric scope key pid s =
    (if versions_of (business_id scope) key pid s = [] then None
     else Some (last (versions_of (business_id scope) key pid s)))"
proof -
  let ?ms = "versions_of (business_id scope) key pid s"
  have "sorted (map mv_version_number ?ms)"
    using assms by (intro chained_sorted) (simp add: metric_chain_def)
  then have "sort_key mv_version_number ?ms = ?ms" by (rule sort_key_id_if_sorted)
  then have "latest_metric scope key pid s = (case rev ?ms of [] \<Rightarrow> None | m # _ \<Rightarrow> Some m)"
    by (simp add: latest_metric_def versions_of_def)
  then show ?thesis by (cases ?ms rule: rev_cases) simp_all
qed

lemma versions_append:
  assumes "metric_versions t = metric_versions s @ [m]" and "mv_subject_type m = ''Publication''"
  shows "versions_of b key pid t = versions_of b key pid s @
    (if b = biz m \<and> key = mv_metric_key m \<and> pid = mv_subject_id m then [m] else [])"
  using assms by (auto simp: versions_of_def)

lemma chain_grows:
  assumes chain: "metric_chain s" and t: "metric_versions t = metric_versions s @ [m]"
    and m: "metric_says scope c pid ids av cov ws we h (latest_metric scope (cb_metric_key c) pid s) m"
  shows "metric_chain t \<and> latest_metric scope (cb_metric_key c) pid t = Some m"
proof -
  let ?ms = "versions_of (business_id scope) (cb_metric_key c) pid s"
  have sub: "mv_subject_type m = ''Publication''" "biz m = business_id scope" "mv_metric_key m = cb_metric_key c"
      "mv_subject_id m = pid" using m by (simp_all add: metric_says_def)
  note app = versions_append [OF t sub(1)]
  have "chained (?ms @ [m])"
    using chain m by (intro chained_append)
      (simp_all add: metric_chain_def metric_says_def latest_last [OF chain])
  then have "metric_chain t" using chain by (auto simp: metric_chain_def app sub)
  moreover have "versions_of (business_id scope) (cb_metric_key c) pid t = ?ms @ [m]" by (simp add: app sub)
  ultimately show ?thesis by (simp add: latest_last)
qed

text \<open>
  Metric versions are append-only and recalculation is idempotent. A calculation keeps
  every stored version, adds at most one, and keeps the chain of each publication: numbered from one
  without a gap, each version naming the one before it. Calculating again from the state it leaves
  returns the same version and changes nothing at all.
\<close>

theorem metric_versions_chained:
  assumes chain: "metric_chain s" and run: "calculate_metric_version env scope pid now s = (Inr r, t)"
  shows "metric_chain t \<and> metric_versions t = metric_versions s @ (if calculated_created r then [calculated_metric r] else []) \<and>
    calculate_metric_version env scope pid now t = (Inr (r\<lparr>calculated_created := False\<rparr>), t)"
proof -
  from run obtain ws c x av cov ids h latest where
      b: "metric_basis scope pid s = Some (ws, c, x)" and cov: "metric_coverage_of s ws c x now = (av, cov)"
    and ids: "ids = map rid (counted_events scope pid ws (ws + seconds (cb_window_seconds c)) s)"
    and h: "h = hash_payload env (derivation c pid ids av cov ws (ws + seconds (cb_window_seconds c))
       (observation_state (ref_connector_account_id x) s))"
    and l: "latest = latest_metric scope (cb_metric_key c) pid s" and same: "metric_inputs s t"
    and out: "t = s \<and> \<not> calculated_created r \<and> latest = Some (calculated_metric r) \<and>
        mv_derivation_hash (calculated_metric r) = h \<or>
      metric_versions t = metric_versions s @ [calculated_metric r] \<and> calculated_created r \<and>
       metric_says scope c pid ids av cov ws (ws + seconds (cb_window_seconds c)) h latest (calculated_metric r)"
    by (rule calculate_outcome)
  have grown: "metric_chain t \<and> latest_metric scope (cb_metric_key c) pid t = Some (calculated_metric r) \<and>
      mv_derivation_hash (calculated_metric r) = h"
    using out
  proof
    assume "t = s \<and> \<not> calculated_created r \<and> latest = Some (calculated_metric r) \<and>
        mv_derivation_hash (calculated_metric r) = h"
    then show ?thesis using chain l by simp
  next
    assume a: "metric_versions t = metric_versions s @ [calculated_metric r] \<and> calculated_created r \<and>
       metric_says scope c pid ids av cov ws (ws + seconds (cb_window_seconds c)) h latest (calculated_metric r)"
    then have "mv_derivation_hash (calculated_metric r) = h" by (simp add: metric_says_def)
    then show ?thesis using a chain_grows [OF chain] unfolding l by blast
  qed
  have "calculate_metric_version env scope pid now t =
      (Inr \<lparr>calculated_metric = calculated_metric r, calculated_created = False\<rparr>, t)"
    using grown cov by (subst calculate_run)
      (simp add: metric_basis_same [OF same] b metric_coverage_of_def state_same [OF same] Let_def
        counted_same [OF same] h [symmetric, unfolded ids])
  then show ?thesis using grown out by auto
qed

section \<open>A measured publication\<close>

text \<open>One reaction to the publication has been observed, and the window is over and covered.\<close>

definition seen_reaction :: observation_row where
  "seen_reaction = \<lparr>rid = [], org = ''o'', biz = ''b'', ob_connector_account_id = ''co'', ob_provider = ''telegram'',
     ob_event_identity = ''5'', ob_event_type = ''message_reaction'', ob_external_object_id = Some ''7'',
     ob_external_parent_id = Some ''-1'', ob_event_time = seconds 150, ob_ingested_at = seconds 160,
     ob_raw_payload = loop_update 5 150, ob_payload_hash = ''p'', ob_trust_class = UNTRUSTED_EXTERNAL\<rparr>"

definition seen_link :: observation_link_row where
  "seen_link = \<lparr>rid = ''iiii'', org = ''o'', biz = ''b'', ol_observation_id = [], ol_source_record_id = ''i'',
     ol_business_event_id = ''ii'', ol_evidence_id = ''iii'', ol_publication_id = Some ''pu''\<rparr>"

definition seen_event :: business_event_row where
  "seen_event = \<lparr>rid = ''ii'', org = ''o'', biz = ''b'', business_event_type = ''telegram.message_reaction'',
     event_source_record_id = Some ''i'', event_time = seconds 150, event_recorded_at = seconds 160,
     business_event_payload = [(''publication_id'', JStr ''pu'')],
     event_correlation_id = Some ''telegram-update:5'', event_causation_id = Some []\<rparr>"

definition seen_evidence :: evidence_row where
  "seen_evidence = \<lparr>rid = ''iii'', org = ''o'', biz = ''b'', ev_source_record_id = ''i'', ev_statement = ''seen'',
     ev_status = EpistemicStatus.OBSERVATION, ev_confidence = None, ev_occurred_at = Some (seconds 150),
     ev_recorded_at = seconds 160, ev_conflicts_with = []\<rparr>"

definition measured_db :: analytics_store where
  "measured_db = loop_db\<lparr>observations := [seen_reaction], observation_links := [seen_link],
     business_events := [seen_event], evidence := [seen_evidence], uuid_pos := 5,
     observation_states := [loop_state\<lparr>os_last_successful_ingest_at := Some (seconds 4000)\<rparr>]\<rparr>"

lemmas seen_defs = seen_reaction_def seen_link_def seen_event_def seen_evidence_def

lemma measured_inv: "obs_inv measured_db"
proof -
  have "telegram_event seen_event" by (simp add: telegram_event_def seen_event_def)
  moreover have "[] \<in> (\<lambda>n. replicate n CHR ''i'') ` {..<5}" by (rule image_eqI [of _ _ 0]) auto
  ultimately show ?thesis
    by (simp add: obs_inv_def measured_db_def loop_db_def inj_on_def)
      (simp add: seen_defs event_columns_def view_columns_def obs_view_def dict_get_def opt_json_def)
qed

lemma measured_chain: "metric_chain measured_db"
  by (simp add: metric_chain_def versions_of_def chained_def measured_db_def loop_db_def)

lemma measured_basis:
  "metric_basis demo_context ''pu'' measured_db = Some (seconds 100, loop_checkpoint, loop_reference)"
  by (simp add: metric_basis_def checkpoint_context_for_publication_def measured_db_def loop_db_def loop_row_defs
      demo_detail_def demo_context_def assert_matches_def)

lemma measured_run:
  "\<exists>r t. calculate_metric_version demo_env demo_context ''pu'' (seconds 4000) measured_db = (Inr r, t) \<and>
     calculated_created r \<and> mv_availability_status (calculated_metric r) = ''AVAILABLE'' \<and>
     mv_value_numeric (calculated_metric r) = Some 1"
proof -
  have cov: "metric_coverage_of measured_db (seconds 100) loop_checkpoint loop_reference (seconds 4000) =
      (''AVAILABLE'', ''COMPLETE'')"
    by (simp add: metric_coverage_of_def metric_coverage_def observation_state_def measured_db_def loop_db_def
        loop_row_defs seconds_def TELEGRAM_RETENTION_GAP_def)
  have count: "map rid (counted_events demo_context ''pu'' (seconds 100)
      (seconds 100 + seconds (cb_window_seconds loop_checkpoint)) measured_db) = [''ii'']"
    by (simp add: counted_events_def counted_event_def measured_db_def loop_db_def seen_event_def
        loop_checkpoint_def seconds_def demo_context_def REACTION_EVENT_TYPES_def dict_get_def)
  have none: "latest_metric demo_context key ''pu'' measured_db = None" for key
    by (simp add: latest_metric_def measured_db_def loop_db_def)
  obtain m t where "insert_metric_version demo_context loop_checkpoint loop_reference ''pu'' [''ii''] ''AVAILABLE''
      ''COMPLETE'' (seconds 100) (seconds 100 + seconds (cb_window_seconds loop_checkpoint))
      (hash_payload demo_env (derivation loop_checkpoint ''pu'' [''ii''] ''AVAILABLE'' ''COMPLETE'' (seconds 100)
        (seconds 100 + seconds (cb_window_seconds loop_checkpoint))
        (observation_state (ref_connector_account_id loop_reference) measured_db))) None (seconds 4000) measured_db =
       (Inr \<lparr>calculated_metric = m, calculated_created = True\<rparr>, t)"
    "mv_availability_status m = ''AVAILABLE''" "mv_value_numeric m = Some 1"
    using insert_metric_run [of demo_context loop_checkpoint loop_reference "''pu''" "[''ii'']" "''AVAILABLE''"
        "''COMPLETE''" "seconds 100" "seconds 100 + seconds (cb_window_seconds loop_checkpoint)" _ None
        "seconds 4000" measured_db]
    by (fastforce simp: metric_says_def)
  then show ?thesis
    by (subst calculate_run) (simp only: measured_basis option.case prod.case cov count none Let_def, simp)
qed

theorem metric_counts_reactions_witness:
  "\<exists>r t. calculate_metric_version demo_env demo_context ''pu'' (seconds 4000) measured_db = (Inr r, t) \<and>
     card (reactions demo_context ''pu'' (seconds 100) (seconds 3700) measured_db) = 1 \<and>
     length (mv_included_business_event_ids (calculated_metric r)) = 1"
proof -
  obtain r t where run: "calculate_metric_version demo_env demo_context ''pu'' (seconds 4000) measured_db = (Inr r, t)"
      "calculated_created r" "mv_availability_status (calculated_metric r) = ''AVAILABLE''"
      "mv_value_numeric (calculated_metric r) = Some 1"
    using measured_run by blast
  have "seconds 100 + seconds (cb_window_seconds loop_checkpoint) = seconds 3700"
    by (simp add: loop_checkpoint_def seconds_def)
  with metric_counts_reactions [OF measured_inv run(1,2)] run(3,4)
  have "card (reactions demo_context ''pu'' (seconds 100) (seconds 3700) measured_db) = 1 \<and>
     length (mv_included_business_event_ids (calculated_metric r)) = 1"
    by (simp add: measured_basis)
  with run(1) show ?thesis by blast
qed

theorem metric_versions_chained_witness:
  "\<exists>r t. calculate_metric_version demo_env demo_context ''pu'' (seconds 4000) measured_db = (Inr r, t) \<and>
     length (metric_versions t) = 1 \<and> metric_chain t \<and>
     calculate_metric_version demo_env demo_context ''pu'' (seconds 4000) t =
       (Inr (r\<lparr>calculated_created := False\<rparr>), t)"
proof -
  obtain r t where run: "calculate_metric_version demo_env demo_context ''pu'' (seconds 4000) measured_db = (Inr r, t)"
      "calculated_created r"
    using measured_run by blast
  moreover have "metric_versions measured_db = []" by (simp add: measured_db_def loop_db_def)
  ultimately show ?thesis using metric_versions_chained [OF measured_chain run(1)] by simp
qed

end
