(* ===== verification/Learning_Safety.thy ===== *)
theory Learning_Safety
  imports Analytics_Safety
begin

text \<open>
  What interpretation and learning guarantee: an experiment is interpreted once, by the class its
  checkpoint gives the metric, and a learning is created once per result, behind three controllers,
  and claims no more causality than the data allow.
\<close>

section \<open>Identifiers\<close>

definition drawn :: "'z analytics_store_scheme \<Rightarrow> 'r scoped_row_scheme list \<Rightarrow> bool" where
  "drawn s rows \<longleftrightarrow> rid ` set rows \<subseteq> uuids s ` {..<uuid_pos s}"

definition ids_inv :: "'z analytics_store_scheme \<Rightarrow> bool" where
  "ids_inv s \<longleftrightarrow> inj (uuids s) \<and> drawn s (experiment_results s) \<and> drawn s (learnings s)"

lemma drawn_fresh:
  assumes "inj (uuids s)" and "drawn s rows" and "uuid_pos s \<le> n"
  shows "row_get rid (uuids s n) rows = None"
proof -
  have "uuids s n \<notin> uuids s ` {..<uuid_pos s}" using assms(1,3) by (auto dest: injD)
  with assms(2) show ?thesis by (auto simp: row_get_None drawn_def)
qed

lemma drawn_grow:
  assumes "drawn s rows" and "uuids t = uuids s" and "uuid_pos s \<le> uuid_pos t"
  shows "drawn t rows"
  using assms unfolding drawn_def by (auto dest!: subsetD) 

section \<open>Interpretation\<close>

text \<open>The tables that interpretation leaves alone.\<close>

lemma insert_result_run:
  "\<exists>result detail t. insert_experiment_result env scope metric c e cls now s =
       (Inr \<lparr>interpreted_result = result, interpreted_detail = detail, interpreted_created = True\<rparr>, t) \<and>
     experiment_results t = experiment_results s @ [result] \<and> result_details t = result_details s @ [detail] \<and>
     experiments t = row_set rid (rid e) (\<lambda>e. e\<lparr>experiment_status := ExperimentStatus.COMPLETE\<rparr>) (experiments s) \<and>
     rid result = uuids s (uuid_pos s) \<and> er_experiment_id result = cb_experiment_id c \<and>
     er_result_class result = cls \<and> rd_experiment_result_id detail = rid result \<and>
     rd_metric_version_id detail = rid metric \<and> rd_checkpoint_definition_id detail = rid c \<and>
     rd_result_class detail = cls \<and> metric_versions t = metric_versions s \<and>
     checkpoint_bindings t = checkpoint_bindings s \<and> learnings t = learnings s \<and>
     uuids t = uuids s \<and> uuid_pos s < uuid_pos t"
  by (auto simp: insert_experiment_result_def run_simps Let_def analytics_audit_def analytics_outbox_def
      add_audit_def add_outbox_def update_experiment_def)

text \<open>
  Interpretation after the reads that lead to it: what it finds for a metric without a result.
\<close>

definition interpretable ::
  "'z analytics_store_scheme \<Rightarrow> metric_row \<Rightarrow> checkpoint_binding_row \<Rightarrow> experiment_row \<Rightarrow> string \<Rightarrow> bool" where
  "interpretable s metric c e cls \<longleftrightarrow>
     row_get rid (mv_checkpoint_definition_id metric) (checkpoint_bindings s) = Some c \<and>
     row_get rid (cb_experiment_id c) (experiments s) = Some e \<and>
     experiment_status e = ExperimentStatus.RUNNING \<and> classify_checkpoint c metric = Inr cls"

lemma interpret_new:
  assumes "interpret_checkpoint env scope mid now s = (Inr r, t)" and "interpreted_created r"
  obtains metric c e cls where "row_get rid mid (metric_versions s) = Some metric"
    "assert_matches scope (org metric) (biz metric) = Inr ()"
    "select_first (\<lambda>d. rd_metric_version_id d = rid metric) (result_details s) = None"
    "interpretable s metric c e cls" "insert_experiment_result env scope metric c e cls now s = (Inr r, t)"
  using assms unfolding interpret_checkpoint_def interpretable_def
  by (auto elim!: bnd_okE simp: run_gets run_required run_require run_check_scope run_lift_sum run_ret
      split: option.splits if_splits)

lemma interpret_stuck:
  assumes "row_get rid mid (metric_versions s) = Some metric"
    and "select_first (\<lambda>d. rd_metric_version_id d = rid metric) (result_details s) = None"
    and "\<nexists>c e cls. interpretable s metric c e cls"
  shows "\<exists>err. interpret_checkpoint env scope mid now s = (Inl err, s)"
  using assms unfolding interpret_checkpoint_def interpretable_def
  by (auto simp: run_simps split: option.splits sum.splits)

lemma interpret_again:
  assumes "row_get rid mid (metric_versions s) = Some metric"
    and "assert_matches scope (org metric) (biz metric) = Inr ()"
    and "select_first (\<lambda>d. rd_metric_version_id d = rid metric) (result_details s) = Some d"
    and "row_get rid (rd_experiment_result_id d) (experiment_results s) = Some result"
  shows "interpret_checkpoint env scope mid now s =
    (Inr \<lparr>interpreted_result = result, interpreted_detail = d, interpreted_created = False\<rparr>, s)"
  using assms by (simp add: interpret_checkpoint_def run_simps)

lemma completed_row:
  "row_get rid i rows = Some e \<Longrightarrow> (\<And>x. rid (f x) = rid x) \<Longrightarrow> row_get rid i (row_set rid (rid e) f rows) = Some (f e)"
  by (induction rows) (auto simp: row_get_def row_set_def split: if_splits)


section \<open>Learning\<close>

lemma learning_review_simps [simp]:
  "lr_experiment_result_id (learning_review scope result ct vd reason limit i) = rid result"
  "lr_controller_type (learning_review scope result ct vd reason limit i) = ct"
  "lr_causality_ceiling (learning_review scope result ct vd reason limit i) = causality_ceiling result"
  by (simp_all add: learning_review_def)

lemma new_reviews_simps:
  "filter (\<lambda>r. lr_experiment_result_id r = rid result) (new_learning_reviews scope result i1 i2 i3) =
     new_learning_reviews scope result i1 i2 i3"
  "map lr_controller_type (new_learning_reviews scope result i1 i2 i3) = [''attribution'', ''learning'', ''stability'']"
  "\<forall>r \<in> set (new_learning_reviews scope result i1 i2 i3). lr_causality_ceiling r = causality_ceiling result"
  by (simp_all add: new_learning_reviews_def)

lemma materialize_reviews_run:
  assumes "materialize_learning_reviews scope result s = (Inr reviews, t)"
  shows "filter (\<lambda>r. lr_experiment_result_id r = rid result) (learning_reviews t) = reviews \<and>
    set (map lr_controller_type reviews) = {''attribution'', ''learning'', ''stability''} \<and>
    learnings t = learnings s \<and> learning_details t = learning_details s \<and>
    experiment_results t = experiment_results s \<and> uuids t = uuids s \<and> uuid_pos s \<le> uuid_pos t"
proof (cases "filter (\<lambda>r. lr_experiment_result_id r = rid result) (learning_reviews s) = []")
  case True
  let ?u = "\<lambda>n. uuids s (uuid_pos s + n)"
  have "reviews = new_learning_reviews scope result (?u 0) (?u 1) (?u 2) \<and>
      t = s\<lparr>uuid_pos := uuid_pos s + 3, learning_reviews := learning_reviews s @ reviews, sql_jobs := jobs s,
        unit_of_work := []\<rparr>"
    using assms True by (auto simp: materialize_learning_reviews_def run_simps Let_def eval_nat_numeral)
  with True show ?thesis
    using new_reviews_simps(1,2) [where scope = scope and result = result and ?i1.0 = "?u 0" and ?i2.0 = "?u 1" and ?i3.0 = "?u 2"] by simp
next
  case False
  with assms have "set (map lr_controller_type (filter (\<lambda>r. lr_experiment_result_id r = rid result)
        (learning_reviews s))) = {''attribution'', ''learning'', ''stability''}"
      "filter (\<lambda>r. lr_experiment_result_id r = rid result) (learning_reviews s) = reviews \<and> s = t"
    by (simp_all add: materialize_learning_reviews_def run_gets run_bnd run_require run_ret split: if_splits)
      (elim conjE, simp)
  then show ?thesis by (elim conjE) (simp only: simp_thms order_refl)
qed

text \<open>What a new learning says of its result.\<close>

definition learning_says ::
  "experiment_result_row \<Rightarrow> metric_row \<Rightarrow> checkpoint_binding_row \<Rightarrow> learning_review_row list
     \<Rightarrow> learning_row \<Rightarrow> learning_detail_row \<Rightarrow> bool" where
  "learning_says result metric c reviews l d \<longleftrightarrow>
     le_decision_id l = Some (cb_decision_id c) \<and> le_causality_class l = causality_ceiling result \<and>
     le_confidence l = None \<and> mv_evidence_id metric \<in> set (le_evidence_ids l) \<and> distinct (le_evidence_ids l) \<and>
     le_statement l = learning_statement (er_result_class result) metric \<and>
     ld_learning_id d = rid l \<and> ld_experiment_result_id d = rid result \<and>
     ld_metric_version_ids d = [rid metric] \<and> ld_interpretation_class d = er_result_class result \<and>
     set (ld_limits d) = (\<Union>r \<in> set reviews. set (lr_limits r)) \<and> distinct (ld_limits d) \<and>
     ld_controller_review_ids d = map rid reviews"

lemma insert_learning_run:
  "\<exists>l d t. insert_learning scope result metric c e reviews now s =
       (Inr \<lparr>governed_learning = l, governed_detail = d, governed_reviews = reviews, governed_created = True\<rparr>, t) \<and>
     learnings t = learnings s @ [l] \<and> learning_details t = learning_details s @ [d] \<and>
     learning_reviews t = learning_reviews s \<and> experiment_results t = experiment_results s \<and>
     rid l = uuids s (uuid_pos s) \<and> learning_says result metric c reviews l d"
  by (auto simp: insert_learning_def run_simps Let_def analytics_audit_def analytics_outbox_def
      add_audit_def add_outbox_def learning_says_def causality_ceiling_def insufficient_def)

lemma learning_new:
  assumes "create_governed_learning scope result_id now s = (Inr r, t)" and "governed_created r"
  obtains result d metric c e reviews u where "row_get rid result_id (experiment_results s) = Some result"
    "assert_matches scope (org result) (biz result) = Inr ()"
    "select_first (\<lambda>d. ld_experiment_result_id d = rid result) (learning_details s) = None"
    "select_first (\<lambda>d. rd_experiment_result_id d = rid result) (result_details s) = Some d"
    "row_get rid (rd_metric_version_id d) (metric_versions s) = Some metric"
    "row_get rid (rd_checkpoint_definition_id d) (checkpoint_bindings s) = Some c"
    "materialize_learning_reviews scope result s = (Inr reviews, u)"
    "\<forall>r \<in> set reviews. lr_verdict r \<noteq> BLOCK"
    "insert_learning scope result metric c e reviews now u = (Inr r, t)"
  using assms unfolding create_governed_learning_def
  by (auto elim!: bnd_okE simp: run_gets run_required run_require run_check_scope run_ret run_raise list_ex_iff
      split: option.splits if_splits prod.splits)

text \<open>
  Claim C36. Learning is governed and created once. A learning that is created rests on a result
  with its metric and checkpoint; three controllers have reviewed the result and none blocked it; its
  causality is unknown when the data were insufficient and direct attribution otherwise, never the
  evidence of an experiment; it cites the evidence of the metric, carries no confidence, and keeps
  the limits of every review. Asking again returns the same learning and changes nothing.
\<close>

theorem learning_governed:
  assumes inv: "ids_inv s" and run: "create_governed_learning scope result_id now s = (Inr r, t)"
    and new: "governed_created r"
  shows "\<exists>result metric c. row_get rid result_id (experiment_results s) = Some result \<and>
    learnings t = learnings s @ [governed_learning r] \<and>
    learning_says result metric c (governed_reviews r) (governed_learning r) (governed_detail r) \<and>
    metric \<in> set (metric_versions s) \<and> c \<in> set (checkpoint_bindings s) \<and>
    set (map lr_controller_type (governed_reviews r)) = {''attribution'', ''learning'', ''stability''} \<and>
    (\<forall>q \<in> set (governed_reviews r). lr_verdict q \<noteq> BLOCK) \<and>
    create_governed_learning scope result_id now' t = (Inr (r\<lparr>governed_created := False\<rparr>), t)"
proof -
  obtain result d metric c e reviews u where f: "row_get rid result_id (experiment_results s) = Some result"
    "assert_matches scope (org result) (biz result) = Inr ()"
    "select_first (\<lambda>d. ld_experiment_result_id d = rid result) (learning_details s) = None"
    "select_first (\<lambda>d. rd_experiment_result_id d = rid result) (result_details s) = Some d"
    "row_get rid (rd_metric_version_id d) (metric_versions s) = Some metric"
    "row_get rid (rd_checkpoint_definition_id d) (checkpoint_bindings s) = Some c"
    "materialize_learning_reviews scope result s = (Inr reviews, u)"
    "\<forall>r \<in> set reviews. lr_verdict r \<noteq> BLOCK"
    "insert_learning scope result metric c e reviews now u = (Inr r, t)"
    using run new by (rule learning_new)
  note u = materialize_reviews_run [OF f(7)]
  obtain l d' where r: "r = \<lparr>governed_learning = l, governed_detail = d', governed_reviews = reviews, governed_created = True\<rparr>"
      "learnings t = learnings u @ [l]" "learning_details t = learning_details u @ [d']"
      "learning_reviews t = learning_reviews u" "experiment_results t = experiment_results u"
      "rid l = uuids u (uuid_pos u)" "learning_says result metric c reviews l d'"
    using insert_learning_run [of scope result metric c e reviews now u] f(9) by auto
  have fresh: "row_get rid (rid l) (learnings s) = None"
    using inv u by (simp add: r(6) ids_inv_def drawn_fresh)
  have d': "ld_learning_id d' = rid l" "ld_experiment_result_id d' = rid result"
    using r(7) by (simp_all add: learning_says_def)
  have "create_governed_learning scope result_id now' t = (Inr (r\<lparr>governed_created := False\<rparr>), t)"
    using f(1-3) u r fresh d'
    by (simp add: create_governed_learning_def run_simps select_first_append row_get_append)
  moreover have "metric \<in> set (metric_versions s)" "c \<in> set (checkpoint_bindings s)"
    using f(5,6) by (auto dest: row_get_Some)
  ultimately show ?thesis using f(1,8) u r by auto
qed

section \<open>A concrete result\<close>

definition six_reactions :: metric_row where
  "six_reactions = \<lparr>rid = ''mv'', org = ''o'', biz = ''b'', mv_checkpoint_definition_id = ''cp'',
     mv_metric_key = ''telegram_reaction_changes'', mv_subject_type = ''Publication'', mv_subject_id = ''pu'',
     mv_source_provider = ''telegram'', mv_source_connector_account_id = ''co'', mv_version_number = 1,
     mv_value_numeric = Some 6, mv_value_type = ''COUNT'', mv_availability_status = ''AVAILABLE'',
     mv_coverage_status = ''COMPLETE'', mv_source_window_start = seconds 100, mv_source_window_end = seconds 3700,
     mv_included_business_event_ids = [''ii''], mv_excluded_event_rule_version = EXCLUDED_EVENT_RULE_VERSION,
     mv_calculation_version = METRIC_CALCULATION_VERSION, mv_calculated_at = seconds 4000,
     mv_previous_metric_version_id = None, mv_derivation_hash = ''h'', mv_evidence_id = ''iii''\<rparr>"

definition ready_db :: analytics_store where
  "ready_db = measured_db\<lparr>metric_versions := [six_reactions]\<rparr>"

definition success_result :: experiment_result_row where
  "success_result = \<lparr>rid = ''i'', org = ''o'', biz = ''b'', er_experiment_id = ''xp'', er_result_class = ''SUCCESS'',
     er_observed_value = ''6'', er_interpreted_at = 9\<rparr>"

definition success_detail :: result_detail_row where
  "success_detail = \<lparr>rid = ''rd'', org = ''o'', biz = ''b'', rd_experiment_result_id = ''i'',
     rd_checkpoint_definition_id = ''cp'', rd_metric_version_id = ''mv'', rd_result_class = ''SUCCESS'',
     rd_checkpoint_contract_hash = ''h'', rd_source_coverage_status = ''COMPLETE''\<rparr>"

definition result_db :: analytics_store where
  "result_db = ready_db\<lparr>experiment_results := [success_result], result_details := [success_detail]\<rparr>"

lemma ready_ids: "ids_inv ready_db"
  by (simp add: ids_inv_def drawn_def ready_db_def measured_db_def loop_db_def inj_on_def)

lemma result_ids: "ids_inv result_db"
proof -
  have "''i'' \<in> (\<lambda>n. replicate n CHR ''i'') ` {..<5}" by (rule image_eqI [of _ _ 1]) auto
  then show ?thesis
    by (simp add: ids_inv_def drawn_def result_db_def ready_db_def measured_db_def loop_db_def inj_on_def
        success_result_def)
qed

lemma ready_interpretable: "interpretable ready_db six_reactions loop_checkpoint loop_experiment ''SUCCESS''"
  by (simp add: interpretable_def ready_db_def measured_db_def loop_db_def loop_row_defs six_reactions_def
      classify_checkpoint_def matches_def)


theorem learning_governed_witness:
  "\<exists>r t. create_governed_learning demo_context ''i'' 9 result_db = (Inr r, t) \<and>
     le_causality_class (governed_learning r) = DIRECT_DETERMINISTIC_ATTRIBUTION \<and>
     create_governed_learning demo_context ''i'' 10 t = (Inr (r\<lparr>governed_created := False\<rparr>), t)"
proof -
  have tabs: "row_get rid ''i'' (experiment_results result_db) = Some success_result"
      "learning_details result_db = []" "learning_reviews result_db = []" "result_details result_db = [success_detail]"
      "row_get rid ''mv'' (metric_versions result_db) = Some six_reactions"
      "row_get rid ''cp'' (checkpoint_bindings result_db) = Some loop_checkpoint"
      "row_get rid ''xp'' (experiments result_db) = Some loop_experiment"
    by (simp_all add: result_db_def ready_db_def measured_db_def loop_db_def six_reactions_def success_result_def
        loop_row_defs)
  have f: "rid success_result = ''i''" "er_experiment_id success_result = ''xp''"
      "rd_experiment_result_id success_detail = ''i''" "rd_metric_version_id success_detail = ''mv''"
      "rd_checkpoint_definition_id success_detail = ''cp''" "\<not> insufficient success_result"
      "assert_matches demo_context (org success_result) (biz success_result) = Inr ()"
    by (simp_all add: success_result_def success_detail_def insufficient_def demo_context_def assert_matches_def)
  obtain reviews u where mat: "materialize_learning_reviews demo_context success_result result_db = (Inr reviews, u)"
      "\<not> list_ex (\<lambda>r. lr_verdict r = BLOCK) reviews"
    by (simp add: materialize_learning_reviews_def run_simps tabs Let_def new_learning_reviews_def learning_review_def)
  then have "create_governed_learning demo_context ''i'' 9 result_db =
      insert_learning demo_context success_result six_reactions loop_checkpoint loop_experiment reviews 9 u"
    by (simp add: create_governed_learning_def run_simps tabs f)
  then obtain r t where run: "create_governed_learning demo_context ''i'' 9 result_db = (Inr r, t)"
      "governed_created r"
    using insert_learning_run [of demo_context success_result six_reactions loop_checkpoint loop_experiment reviews 9 u]
    by auto
  from learning_governed [OF result_ids run, of 10] tabs(1) f(6)
  have "le_causality_class (governed_learning r) = DIRECT_DETERMINISTIC_ATTRIBUTION \<and>
     create_governed_learning demo_context ''i'' 10 t = (Inr (r\<lparr>governed_created := False\<rparr>), t)"
    by (auto simp: learning_says_def causality_ceiling_def)
  with run(1) show ?thesis by blast
qed

end
