(* ===== verification/Adaptation_Safety.thy ===== *)
theory Adaptation_Safety
  imports Adaptation Learning_Safety
begin

text \<open>
  What the checkpoint of a decision guarantees: it is bound before anything is proposed for
  publication and never changes, it classifies every count except those below the weak signal, and
  turning the intent of a workflow into a checkpoint and a lineage can be repeated without effect.
\<close>

section \<open>Creating a checkpoint\<close>

text \<open>What the creation of a checkpoint reads before it looks for one.\<close>

definition checkpoint_basis ::
  "'y TenantScope_scheme \<Rightarrow> string \<Rightarrow> Phase6CheckpointSpec \<Rightarrow> 'z decision_store_scheme
     \<Rightarrow> (experiment_row \<times> experiment_rule_row) option" where
  "checkpoint_basis scope decision_id spec s =
    (case row_get rid decision_id (decisions s) of
       None \<Rightarrow> None
     | Some d \<Rightarrow>
         (case select_first (\<lambda>e. experiment_decision_id e = decision_id) (experiments s) of
            None \<Rightarrow> None
          | Some e \<Rightarrow>
              (case select_first (\<lambda>r. ru_experiment_id r = rid e) (experiment_rules s) of
                 None \<Rightarrow> None
               | Some r \<Rightarrow>
                   if assert_matches scope (org d) (biz d) = Inr () \<and>
                      experiment_metric e = spec_metric_key spec \<and> ru_metric r = spec_metric_key spec
                   then Some (e, r) else None)))"

abbreviation checkpoint_for :: "string \<Rightarrow> 'z decision_store_scheme \<Rightarrow> checkpoint_binding_row option" where
  "checkpoint_for experiment_id s \<equiv> select_first (\<lambda>c. cb_experiment_id c = experiment_id) (checkpoint_bindings s)"

abbreviation proposed :: "string \<Rightarrow> 'z decision_store_scheme \<Rightarrow> bool" where
  "proposed decision_id s \<equiv> select_first (\<lambda>a. detail_decision_id a = decision_id) (action_details s) \<noteq> None"

lemma create_checkpoint_run:
  assumes "checkpoint_basis scope did spec s = Some (e, r)"
  shows "create_checkpoint_definition_for_decision env scope did spec now s =
    (case checkpoint_for (rid e) s of
       Some c \<Rightarrow> if cb_contract_hash c = bound_checkpoint_hash env spec (rid e) (rid r) then (Inr c, s)
                 else (Inl (PermanentJobError ''immutable checkpoint definition already exists''), s)
     | None \<Rightarrow>
         if proposed did s
         then (Inl (PermanentJobError ''checkpoint cannot be retrofitted after ActionProposal creation''), s)
         else (let c = checkpoint_of scope spec did (rid e) (rid r) (bound_checkpoint_hash env spec (rid e) (rid r)) now
                     (uuids s (uuid_pos s))
               in (Inr c, s\<lparr>uuid_pos := Suc (uuid_pos s), checkpoint_bindings := checkpoint_bindings s @ [c],
                    sql_jobs := jobs s, unit_of_work := []\<rparr>)))"
  using assms
  by (auto simp: checkpoint_basis_def create_checkpoint_definition_for_decision_def run_simps Let_def
      dest!: row_get_Some split: option.splits if_splits)

lemma create_checkpoint_stuck:
  assumes "checkpoint_basis scope did spec s = None"
  shows "\<exists>err. create_checkpoint_definition_for_decision env scope did spec now s = (Inl err, s)"
  using assms
  by (auto simp: checkpoint_basis_def create_checkpoint_definition_for_decision_def run_simps Let_def
      dest!: row_get_Some split: option.splits if_splits sum.splits)

lemma create_checkpoint_outcome:
  assumes "create_checkpoint_definition_for_decision env scope did spec now s = (Inr c, t)"
  obtains e r where "checkpoint_basis scope did spec s = Some (e, r)"
    "cb_contract_hash c = bound_checkpoint_hash env spec (rid e) (rid r)" "cb_experiment_id c = rid e"
    "checkpoint_for (rid e) s = Some c \<and> t = s \<or>
     checkpoint_for (rid e) s = None \<and> \<not> proposed did s \<and>
       c = checkpoint_of scope spec did (rid e) (rid r) (cb_contract_hash c) now (uuids s (uuid_pos s)) \<and>
       t = s\<lparr>uuid_pos := Suc (uuid_pos s), checkpoint_bindings := checkpoint_bindings s @ [c],
             sql_jobs := jobs s, unit_of_work := []\<rparr>"
proof (cases "checkpoint_basis scope did spec s")
  case None
  then show thesis using create_checkpoint_stuck [OF None, of env now] assms by auto
next
  case (Some er)
  obtain e r where er: "er = (e, r)" by (cases er)
  note run = create_checkpoint_run [OF Some [unfolded er], of env now]
  show thesis
  proof (rule that [OF Some [unfolded er]])
    show "cb_contract_hash c = bound_checkpoint_hash env spec (rid e) (rid r)"
      using assms run by (auto simp: Let_def checkpoint_of_def split: option.splits if_splits)
    show "cb_experiment_id c = rid e"
      using assms run by (auto simp: Let_def checkpoint_of_def split: option.splits if_splits dest: select_first_Some)
    show "checkpoint_for (rid e) s = Some c \<and> t = s \<or>
     checkpoint_for (rid e) s = None \<and> \<not> proposed did s \<and>
       c = checkpoint_of scope spec did (rid e) (rid r) (cb_contract_hash c) now (uuids s (uuid_pos s)) \<and>
       t = s\<lparr>uuid_pos := Suc (uuid_pos s), checkpoint_bindings := checkpoint_bindings s @ [c],
             sql_jobs := jobs s, unit_of_work := []\<rparr>"
      using assms run by (auto simp: Let_def checkpoint_of_def split: option.splits if_splits)
  qed
qed

text \<open>After a checkpoint has been returned, it is the one found for its experiment.\<close>

lemma created_checkpoint_found:
  assumes "create_checkpoint_definition_for_decision env scope did spec now s = (Inr c, t)"
    and "spec_metric_key spec' = spec_metric_key spec"
  obtains e r where "checkpoint_basis scope did spec' t = Some (e, r)" "checkpoint_for (rid e) t = Some c"
    "cb_contract_hash c = bound_checkpoint_hash env spec (rid e) (rid r)"
proof -
  obtain e r where c: "checkpoint_basis scope did spec s = Some (e, r)"
    "cb_contract_hash c = bound_checkpoint_hash env spec (rid e) (rid r)" "cb_experiment_id c = rid e"
    and out: "checkpoint_for (rid e) s = Some c \<and> t = s \<or>
     checkpoint_for (rid e) s = None \<and> \<not> proposed did s \<and>
       c = checkpoint_of scope spec did (rid e) (rid r) (cb_contract_hash c) now (uuids s (uuid_pos s)) \<and>
       t = s\<lparr>uuid_pos := Suc (uuid_pos s), checkpoint_bindings := checkpoint_bindings s @ [c],
             sql_jobs := jobs s, unit_of_work := []\<rparr>"
    using assms(1) by (rule create_checkpoint_outcome)
  have same: "decisions t = decisions s" "experiments t = experiments s" "experiment_rules t = experiment_rules s"
    using out by auto
  have "checkpoint_basis scope did spec' t = checkpoint_basis scope did spec s"
    unfolding checkpoint_basis_def assms(2) same ..
  moreover have "checkpoint_for (rid e) t = Some c"
    using out c(3) by (auto simp: select_first_append)
  ultimately show thesis using that c by simp
qed

text \<open>
  Claim C37. A checkpoint is bound before publication is proposed and never changes. A call that
  returns has either found the checkpoint of the experiment unchanged, or added it while no action
  was proposed for the decision; after that, asking for any other valid contract of the decision
  raises and changes nothing unless it has the same bound hash, in which case the first checkpoint is
  returned and nothing changes.
\<close>

theorem checkpoint_immutable:
  assumes run: "create_checkpoint_definition_for_decision env scope did spec now s = (Inr c, t)"
    and valid: "spec_valid spec" "spec_valid spec'"
  shows "(c \<in> set (checkpoint_bindings s) \<and> t = s \<or>
      \<not> proposed did s \<and> checkpoint_bindings t = checkpoint_bindings s @ [c]) \<and>
    (\<exists>hsh. create_checkpoint_definition_for_decision env scope did spec' now' t =
      (if cb_contract_hash c = bound_checkpoint_hash env spec' (cb_experiment_id c) hsh then (Inr c, t)
       else (Inl (PermanentJobError ''immutable checkpoint definition already exists''), t)))"
proof -
  have "spec_metric_key spec' = spec_metric_key spec" using valid by (simp add: spec_valid_def spec_fields_def)
  with run obtain e r where c: "checkpoint_basis scope did spec' t = Some (e, r)" "checkpoint_for (rid e) t = Some c"
    by (rule created_checkpoint_found)
  have "cb_experiment_id c = rid e" using c(2) by (auto dest: select_first_Some)
  then have "create_checkpoint_definition_for_decision env scope did spec' now' t =
      (if cb_contract_hash c = bound_checkpoint_hash env spec' (cb_experiment_id c) (rid r) then (Inr c, t)
       else (Inl (PermanentJobError ''immutable checkpoint definition already exists''), t))"
    using create_checkpoint_run [OF c(1), of env now'] c(2) by simp
  moreover have "c \<in> set (checkpoint_bindings s) \<and> t = s \<or>
      \<not> proposed did s \<and> checkpoint_bindings t = checkpoint_bindings s @ [c]"
    using run by (elim create_checkpoint_outcome) (auto dest: select_first_Some)
  ultimately show ?thesis by blast
qed

text \<open>
  Where a checkpoint classifies and where it cannot. A checkpoint created from a valid
  contract gives a covered count of reactions the class SUCCESS from the success value on, WEAK_SIGNAL
  from the weak-signal value on, and FAILURE at zero; every count strictly between zero and the
  weak-signal value raises. So every count has a class if and only if the weak-signal value is at most
  one, and the contract admits larger ones.
\<close>

theorem checkpoint_classes:
  assumes run: "create_checkpoint_definition_for_decision env scope did spec now s = (Inr c, t)"
    and valid: "spec_valid spec" and new: "c \<notin> set (checkpoint_bindings s)"
  shows "(\<forall>m (n::nat). mv_availability_status m = ''AVAILABLE'' \<and> mv_coverage_status m = ''COMPLETE'' \<and>
        mv_value_numeric m = Some (real n) \<longrightarrow>
      classify_checkpoint c m =
        (if threshold_value (spec_success spec) \<le> real n then Inr ''SUCCESS''
         else if threshold_value (spec_weak_signal spec) \<le> real n then Inr ''WEAK_SIGNAL''
         else if n = 0 then Inr ''FAILURE''
         else Inl (PermanentJobError ''typed checkpoint conditions are non-exhaustive''))) \<and>
    ((\<forall>m (n::nat). mv_availability_status m = ''AVAILABLE'' \<and> mv_coverage_status m = ''COMPLETE'' \<and>
        mv_value_numeric m = Some (real n) \<longrightarrow> (\<exists>cls. classify_checkpoint c m = Inr cls)) \<longleftrightarrow>
     threshold_value (spec_weak_signal spec) \<le> 1)"
    (is "?classes \<and> (?total \<longleftrightarrow> _)")
proof -
  obtain did' e r h i where c: "c = checkpoint_of scope spec did' e r h now i"
    using run new by (elim create_checkpoint_outcome) (auto dest: select_first_Some)
  have v: "threshold_operator (spec_success spec) = ''GTE''" "threshold_operator (spec_weak_signal spec) = ''GTE''"
      "threshold_operator (spec_failure spec) = ''EQ''" "threshold_value (spec_failure spec) = 0"
      "threshold_value (spec_weak_signal spec) > 0"
      "threshold_value (spec_success spec) > threshold_value (spec_weak_signal spec)"
    using valid by (auto simp: spec_valid_def first_slice_thresholds_are_deterministic_def split: if_splits)
  have cls: ?classes
    by (simp add: classify_checkpoint_def c checkpoint_of_def v matches_def)
  have "?total \<longleftrightarrow> threshold_value (spec_weak_signal spec) \<le> 1"
  proof
    assume tot: ?total
    define m where "m = (undefined :: metric_row)\<lparr>mv_availability_status := ''AVAILABLE'',
      mv_coverage_status := ''COMPLETE'', mv_value_numeric := Some 1\<rparr>"
    have m: "mv_availability_status m = ''AVAILABLE'' \<and> mv_coverage_status m = ''COMPLETE'' \<and>
        mv_value_numeric m = Some (real 1)" by (simp add: m_def)
    obtain x where "classify_checkpoint c m = Inr x" using tot m by blast
    then show "threshold_value (spec_weak_signal spec) \<le> 1"
      using cls [rule_format, OF m] v(6) by (simp split: if_splits)
  next
    assume w: "threshold_value (spec_weak_signal spec) \<le> 1"
    have "threshold_value (spec_weak_signal spec) \<le> real n" if "n \<noteq> 0" for n
      using w that by linarith
    then show ?total using cls by simp
  qed
  with cls show ?thesis by blast
qed

section \<open>Turning the intent into a lineage\<close>

text \<open>What a successful run finds: the intent, the final decision and its contract.\<close>

lemma materialize_found:
  assumes "select_first (\<lambda>i. in_workflow_id i = wid) (phase6_intents s) = Some intent"
    and "row_get rid wid (decision_workflows s) = Some w" "dw_final_decision_id w = Some final_id"
    and "row_get rid final_id (decisions s) = Some d" "validate (in_checkpoint_spec intent) = Inr spec"
    and "assert_matches scope (org intent) (biz intent) = Inr ()"
  shows "materialize_phase6_intent env validate scope wid now s =
    bnd (create_checkpoint_definition_for_decision env scope final_id spec now) (\<lambda>_.
      case (in_prior_decision_id intent, in_learning_id intent) of
        (None, None) \<Rightarrow> ret ()
      | (Some prior, Some lid) \<Rightarrow> bind_successor scope prior lid d now
      | _ \<Rightarrow> raise (PermanentJobError ''Phase 6 adaptation binding is incomplete'')) s"
proof -
  have "rid d = final_id" using assms(4) by (auto dest: row_get_Some)
  with assms show ?thesis by (simp add: materialize_phase6_intent_def run_simps)
qed

lemma bind_successor_run:
  assumes "bind_successor scope prior lid d now s = (Inr (), t)"
  shows "(\<exists>learning. row_get rid lid (learnings s) = Some learning \<and> le_decision_id learning = Some prior) \<and>
    dc_supersedes_decision_id d \<in> {None, Some prior} \<and>
    decisions t = row_set rid (rid d) (\<lambda>d. d\<lparr>dc_supersedes_decision_id := Some prior\<rparr>) (decisions s) \<and>
    (case select_first (\<lambda>k. dl_decision_id k = rid d) (decision_learning_links s) of
       Some _ \<Rightarrow> decision_learning_links t = decision_learning_links s
     | None \<Rightarrow> \<exists>k. decision_learning_links t = decision_learning_links s @ [k] \<and>
         dl_decision_id k = rid d \<and> dl_prior_decision_id k = prior \<and> dl_learning_id k = lid) \<and>
    learnings t = learnings s \<and> phase6_intents t = phase6_intents s \<and> decision_workflows t = decision_workflows s \<and>
    experiments t = experiments s \<and> experiment_rules t = experiment_rules s \<and>
    checkpoint_bindings t = checkpoint_bindings s \<and> sql_jobs t = jobs t \<and> unit_of_work t = []"
  using assms
  by (auto simp: bind_successor_def run_simps split: if_splits)

lemma bind_successor_again:
  assumes "row_get rid lid (learnings s) = Some learning" "le_decision_id learning = Some prior"
    and "dc_supersedes_decision_id d = Some prior"
    and "row_set rid (rid d) (\<lambda>d. d\<lparr>dc_supersedes_decision_id := Some prior\<rparr>) (decisions s) = decisions s"
    and "select_first (\<lambda>k. dl_decision_id k = rid d) (decision_learning_links s) = Some k"
    and "sql_jobs s = jobs s" "unit_of_work s = []"
  shows "bind_successor scope prior lid d now s = (Inr (), s)"
  using assms by (simp add: bind_successor_def run_simps)

lemma row_set_twice: "(\<And>x. rid (f x) = rid x) \<Longrightarrow> (\<And>x. f (f x) = f x) \<Longrightarrow>
    row_set rid i f (row_set rid i f rows) = row_set rid i f rows"
  by (simp add: row_set_def)


section \<open>A concrete successor\<close>

definition plan_spec :: Phase6CheckpointSpec where
  "plan_spec = \<lparr>spec_schema_version = 1, spec_metric_key = ''telegram_reaction_changes'', spec_window_seconds = 3600,
     spec_grace_seconds = 60, spec_success = \<lparr>threshold_operator = ''GTE'', threshold_value = 5\<rparr>,
     spec_weak_signal = \<lparr>threshold_operator = ''GTE'', threshold_value = 2\<rparr>,
     spec_failure = \<lparr>threshold_operator = ''EQ'', threshold_value = 0\<rparr>,
     spec_coverage_requirement = ''COMPLETE'', spec_attribution_method = ''telegram_message_lineage'',
     spec_next_action_on_success = ''a'', spec_next_action_on_weak_signal = ''b'', spec_next_action_on_failure = ''c''\<rparr>"

definition plan_decision :: decision_row where
  "plan_decision = \<lparr>rid = ''d'', org = ''o'', biz = ''b'', dc_version = 1, dc_goal_problem = ''g'',
     dc_selected_action = ''a'', dc_expected_effect = ''x'', dc_confidence = None, dc_reversibility = ''easy'',
     dc_risk_class = ''LOW'', dc_status = ''AWAITING_DECISION_APPROVAL'', dc_snapshot_id = None,
     dc_supersedes_decision_id = None, dc_next_checkpoint = None, dc_evidence_ids = [], dc_assumption_ids = [],
     dc_known_unknown_ids = [], dc_source_candidate_id = None, dc_why_alternatives_not_selected = [],
     dc_hypotheses = [], dc_assumptions = [], dc_experiment_proposal = [], dc_required_assets = [],
     dc_required_actions = []\<rparr>"

definition plan_rule :: experiment_rule_row where
  "plan_rule = \<lparr>rid = ''ru'', org = ''o'', biz = ''b'', ru_experiment_id = ''xp'', ru_baseline = ''-'', ru_segment = ''-'',
     ru_treatment = ''-'', ru_metric = ''telegram_reaction_changes'', ru_window = ''-'', ru_attribution_method = ''-'',
     ru_success_threshold = ''-'', ru_weak_signal_threshold = ''-'', ru_failure_threshold = ''-'',
     ru_next_action_on_success = ''-'', ru_next_action_on_weak_signal = ''-'', ru_next_action_on_failure = ''-''\<rparr>"

definition plan_workflow :: decision_workflow_row where
  "plan_workflow = \<lparr>rid = ''w'', org = ''o'', biz = ''b'', dw_launch_id = None, dw_snapshot_id = ''sn'',
     dw_status = AWAITING_DECISION_APPROVAL, dw_revision_count = 0, dw_max_revision_rounds = 2,
     dw_final_decision_id = Some ''d'', dw_final_approval_id = None, dw_correlation_id = None, dw_causation_id = None\<rparr>"

definition plan_intent :: phase6_intent_row where
  "plan_intent = \<lparr>rid = ''in'', org = ''o'', biz = ''b'', in_workflow_id = ''w'',
     in_checkpoint_spec = canonical_payload plan_spec, in_checkpoint_spec_hash = ''h'',
     in_prior_decision_id = Some ''p'', in_learning_id = Some ''le'', in_created_at = 0\<rparr>"

definition plan_learning :: learning_row where
  "plan_learning = \<lparr>rid = ''le'', org = ''o'', biz = ''b'', le_decision_id = Some ''p'', le_experiment_id = None,
     le_statement = ''s'', le_evidence_ids = [], le_causality_class = CausalityClass.UNKNOWN, le_confidence = None\<rparr>"

definition plan_db :: decision_store where
  "plan_db = analytics_store.extend
     (loop_db\<lparr>checkpoint_bindings := [], action_details := [], learnings := [plan_learning]\<rparr>)
     (decision_store.fields [plan_decision] [plan_rule] [plan_workflow] [plan_intent] [])"

lemmas plan_defs = plan_db_def loop_db_def analytics_store.defs decision_store.defs plan_decision_def plan_rule_def
  plan_workflow_def plan_intent_def plan_learning_def loop_experiment_def

lemma plan_valid: "spec_valid plan_spec"
  by (simp add: spec_valid_def spec_fields_def threshold_fields_def plan_spec_def
      first_slice_thresholds_are_deterministic_def)

lemma plan_basis: "checkpoint_basis demo_context ''d'' plan_spec plan_db = Some (loop_experiment, plan_rule)"
  by (simp add: checkpoint_basis_def plan_defs plan_spec_def demo_context_def assert_matches_def)

lemma plan_create:
  "\<exists>c t. create_checkpoint_definition_for_decision demo_env demo_context ''d'' plan_spec 9 plan_db = (Inr c, t) \<and>
     c \<notin> set (checkpoint_bindings plan_db)"
  by (subst create_checkpoint_run [OF plan_basis]) (simp add: Let_def plan_defs)

theorem checkpoint_immutable_witness:
  "\<exists>c t. create_checkpoint_definition_for_decision demo_env demo_context ''d'' plan_spec 9 plan_db = (Inr c, t) \<and>
     checkpoint_bindings t = [c]"
proof -
  obtain c t where run: "create_checkpoint_definition_for_decision demo_env demo_context ''d'' plan_spec 9 plan_db = (Inr c, t)"
    using plan_create by blast
  moreover have "checkpoint_bindings plan_db = []" by (simp add: plan_defs)
  ultimately show ?thesis using checkpoint_immutable [OF run plan_valid plan_valid] by auto
qed

theorem checkpoint_classes_witness:
  "\<exists>c t. create_checkpoint_definition_for_decision demo_env demo_context ''d'' plan_spec 9 plan_db = (Inr c, t) \<and>
     classify_checkpoint c (six_reactions\<lparr>mv_value_numeric := Some 1\<rparr>) =
       Inl (PermanentJobError ''typed checkpoint conditions are non-exhaustive'')"
proof -
  obtain c t where run: "create_checkpoint_definition_for_decision demo_env demo_context ''d'' plan_spec 9 plan_db = (Inr c, t)"
    and new: "c \<notin> set (checkpoint_bindings plan_db)" using plan_create by blast
  let ?m = "six_reactions\<lparr>mv_value_numeric := Some 1\<rparr>"
  have "mv_availability_status ?m = ''AVAILABLE'' \<and> mv_coverage_status ?m = ''COMPLETE'' \<and>
      mv_value_numeric ?m = Some (real 1)"
    by (simp add: six_reactions_def)
  note cls = conjunct1 [OF checkpoint_classes [OF run plan_valid new], rule_format, OF this]
  have "classify_checkpoint c ?m = Inl (PermanentJobError ''typed checkpoint conditions are non-exhaustive'')"
    unfolding cls by (simp add: plan_spec_def)
  with run show ?thesis by blast
qed

lemma plan_materialize:
  "\<exists>t. materialize_phase6_intent demo_env (\<lambda>_. Inr plan_spec) demo_context ''w'' 9 plan_db = (Inr (), t)"
proof -
  have f: "select_first (\<lambda>i. in_workflow_id i = ''w'') (phase6_intents plan_db) = Some plan_intent"
      "row_get rid ''w'' (decision_workflows plan_db) = Some plan_workflow"
      "dw_final_decision_id plan_workflow = Some ''d''" "row_get rid ''d'' (decisions plan_db) = Some plan_decision"
      "assert_matches demo_context (org plan_intent) (biz plan_intent) = Inr ()"
      "checkpoint_bindings plan_db = []" "action_details plan_db = []" "decision_learning_links plan_db = []"
      "row_get rid ''le'' (learnings plan_db) = Some plan_learning" "le_decision_id plan_learning = Some ''p''"
      "in_prior_decision_id plan_intent = Some ''p''" "in_learning_id plan_intent = Some ''le''"
      "dc_supersedes_decision_id plan_decision = None"
    by (simp_all add: plan_defs demo_context_def assert_matches_def)
  show ?thesis
    by (subst materialize_found [where validate = "\<lambda>_. Inr plan_spec" and intent = plan_intent and w = plan_workflow
          and d = plan_decision and spec = plan_spec and ?final_id = "''d''"])
      (simp_all add: f run_bnd create_checkpoint_run [OF plan_basis] Let_def bind_successor_def run_simps)
qed


end
