(* ===== verification/Observation_Polls.thy ===== *)
theory Observation_Polls
  imports Observation_Safety "HOL-Library.Multiset"
begin

text \<open>
  One poll of the provider as the worker runs it: the observation handler inside its transaction.
  A poll that returns has stored every update it was given and moved the cursor past them; a poll
  that raises has stored none; and the order in which the provider delivers makes no difference.
\<close>

section \<open>One poll\<close>

text \<open>Recording a gap, when there is one, touches the row of the account only.\<close>

lemma gap_step:
  assumes st: "observation_state account_id s = Some state"
    and run: "(if ingest_gap now state
          then bnd (update_observation_state (rid state) (\<lambda>r. r\<lparr>os_gap_detected := True\<rparr>))
                 (\<lambda>_. touch (org state) (biz state))
          else ret ()) s = (Inr (), t)"
  shows "observations t = observations s \<and> observation_links t = observation_links s \<and>
    business_events t = business_events s \<and> evidence t = evidence s \<and> uuids t = uuids s \<and>
    uuid_pos t = uuid_pos s \<and> provider_log t = provider_log s \<and>
    (\<exists>g. observation_state account_id t = Some (state\<lparr>os_gap_detected := g\<rparr>))"
proof (cases "ingest_gap now state")
  case True
  then have t: "t = s\<lparr>observation_states := row_set rid (rid state) (\<lambda>r. r\<lparr>os_gap_detected := True\<rparr>)
      (observation_states s), unit_of_work := unit_of_work s @ [(org state, biz state)]\<rparr>"
    using run by (simp add: run_simps update_observation_state_def)
  have "observation_state account_id t = Some (state\<lparr>os_gap_detected := True\<rparr>)"
    using st unfolding observation_state_def t by (simp add: select_first_row_set)
  then show ?thesis unfolding t by auto
next
  case False
  then have "t = s" using run by (simp add: run_ret)
  moreover have "observation_state account_id s = Some (state\<lparr>os_gap_detected := os_gap_detected state\<rparr>)"
    using st by simp
  ultimately show ?thesis by blast
qed

text \<open>A poll stores the updates it is handed and moves the cursor.\<close>

definition polled ::
  "('z analytics_store_ext exec_store_ext) observation_connector \<Rightarrow> string \<Rightarrow> observation_state_row
     \<Rightarrow> 'z analytics_store_scheme \<Rightarrow> payload list \<Rightarrow> 'z analytics_store_scheme \<Rightarrow> bool" where
  "polled connector account_id state s us t \<longleftrightarrow>
     (\<exists>u v. provider_log u = provider_log s \<and> only_log u v \<and>
        get_updates connector (map_option (\<lambda>n. n + 1) (os_last_update_id state))
          (os_allowed_update_types state) 0 u = (Inr us, v)) \<and>
     (\<forall>u \<in> set us. \<exists>x. parse_update u = Inr x) \<and>
     obs_inv t \<and> observed s \<subseteq>\<^sub>m observed t \<and>
     dom (observed t) = dom (observed s) \<union> update_key account_id ` set us \<and>
     (\<exists>state'. observation_state account_id t = Some state' \<and>
        (\<forall>u \<in> set us. \<exists>k. os_last_update_id state' = Some k \<and> update_number u \<le> k) \<and>
        (\<forall>k0. os_last_update_id state = Some k0 \<longrightarrow> (\<exists>k. os_last_update_id state' = Some k \<and> k0 \<le> k)))"

lemma observe_polled:
  assumes port: "observation_port connector" and inv: "obs_inv s"
    and st: "observation_state account_id s = Some state"
    and run: "observe_updates env connector context now account_id state s = (Inr (), t)"
  shows "\<exists>us. polled connector account_id state s us t"
proof -
  from run obtain s1 us s2 ordered ps m s3 s4 where
      gap: "(if ingest_gap now state
          then bnd (update_observation_state (rid state) (\<lambda>r. r\<lparr>os_gap_detected := True\<rparr>))
                 (\<lambda>_. touch (org state) (biz state))
          else ret ()) s = (Inr (), s1)"
    and poll: "poll_updates connector state s1 = (Inr us, s2)"
    and ord: "sort_updates us = Inr ordered"
    and ing: "ingest_all env context account_id now ordered (publication_ids_for_account s2 account_id)
        (os_last_update_id state) s2 = (Inr (ps, m), s3)"
    and upd: "s4 = s3\<lparr>observation_states := row_set rid (rid state) (ingested_values now m) (observation_states s3),
        sql_jobs := jobs s3, unit_of_work := []\<rparr>"
    and jobs: "foreach (sort (remdups ps)) (enqueue_metric_job context now) s4 = (Inr (), t)"
    unfolding observe_updates_def
    by (elim bnd_okE) (auto simp: run_gets run_lift_sum run_modify run_touch run_flush
        update_observation_state_def split: prod.splits elim!: bnd_okE)
  note g = gap_step [OF st gap]
  note p = observation_port.poll_only_log [OF port poll]
  then obtain l where s2: "s2 = s1\<lparr>provider_log := provider_log s1 @ l\<rparr>" by (auto simp: only_log_def)
  have set: "set ordered = set us" using ord by (auto simp: sort_updates_def split: if_splits)
  have inv2: "obs_inv s2 \<and> observed s2 = observed s"
    using g by (intro obs_inv_same [OF inv]) (auto simp: s2)
  note i = ingest_all_run [OF conjunct1 [OF inv2] ing]
  have inv4: "obs_inv s4 \<and> observed s4 = observed s3"
    using i by (intro obs_inv_same) (auto simp: upd)
  have same: "obs_same s4 t" using metric_jobs_obs jobs by (rule tracksD)
  then have invt: "obs_inv t \<and> observed t = observed s4"
    using inv4 by (intro obs_inv_same) (auto simp: obs_same_def)
  obtain gd where "observation_state account_id s3 = Some (state\<lparr>os_gap_detected := gd\<rparr>)"
    using g i by (auto simp: observation_state_def s2 ingest_frame_def)
  then have "observation_state account_id s4 = Some (ingested_values now m (state\<lparr>os_gap_detected := gd\<rparr>))"
    unfolding observation_state_def upd
    using select_first_row_set [where rid = rid and f = "ingested_values now m" and r = "state\<lparr>os_gap_detected := gd\<rparr>"]
    by (simp add: ingested_values_def)
  then have st': "observation_state account_id t = Some (ingested_values now m (state\<lparr>os_gap_detected := gd\<rparr>))"
    using same by (simp add: obs_same_def observation_state_def)
  have "\<exists>u v. provider_log u = provider_log s \<and> only_log u v \<and>
        get_updates connector (map_option (\<lambda>n. n + 1) (os_last_update_id state))
          (os_allowed_update_types state) 0 u = (Inr us, v)"
    using g p by metis
  moreover have "(\<forall>u \<in> set ordered. \<exists>k. m = Some k \<and> update_number u \<le> k) \<and>
      (\<forall>k0. os_last_update_id state = Some k0 \<longrightarrow> (\<exists>k. m = Some k \<and> k0 \<le> k))"
    using i by (intro newest_bound) blast
  ultimately have "polled connector account_id state s us t"
    using invt inv4 inv2 i set st' by (simp add: polled_def ingested_values_def ingestible_def)
  then show ?thesis by blast
qed

text \<open>
  Claim C21. A poll loses nothing. When the observation handler returns, every update the provider
  handed over in that poll is in the map of known events, what was known before is unchanged, and
  the cursor has moved past all of them and not back; when it raises, the map and the cursor are as
  they were, so the next poll asks for the same updates again. A poll that returns was handed
  well-formed updates only: one malformed update makes the poll raise, and every later one as long
  as the provider keeps it at the cursor.
\<close>

theorem poll_loses_nothing:
  assumes port: "observation_port connector" and inv: "obs_inv s"
    and run: "in_transaction (TelegramObservationHandler_handle env connector context pl now) s = (r, t)"
  shows "case r of
      Inl e \<Rightarrow> observed t = observed s \<and> observation_states t = observation_states s
    | Inr _ \<Rightarrow> \<exists>account_id state us. as_str (dict_get pl ''connector_account_id'') = Some account_id \<and>
        observation_state account_id s = Some state \<and> polled connector account_id state s us t"
proof (cases r)
  case (Inl e)
  with run show ?thesis
    by (auto simp: in_transaction_def roll_back_def begin_session_def observed_def split: prod.splits sum.splits)
next
  case (Inr x)
  let ?s = "begin_session s"
  from run Inr obtain u where
      h: "TelegramObservationHandler_handle env connector context pl now ?s = (Inr x, u)" and t: "t = begin_session u"
    by (auto simp: in_transaction_def split: prod.splits sum.splits)
  from h obtain account_id state where
      a: "as_str (dict_get pl ''connector_account_id'') = Some account_id"
      "observation_state account_id ?s = Some state"
      "observe_updates env connector context now account_id state ?s = (Inr (), u)"
    unfolding TelegramObservationHandler_handle_def
    by (auto elim!: bnd_okE simp: run_require run_required run_gets run_check_scope split: if_splits option.splits)
  have "obs_inv ?s" using obs_inv_same [OF inv, of ?s] by (simp add: begin_session_def)
  from observe_polled [OF port this a(2,3)] obtain us where "polled connector account_id state ?s us u" by blast
  then have "polled connector account_id state s us t"
    using obs_inv_same [of u t] by (simp add: polled_def t begin_session_def observed_def observation_state_def)
  moreover have "observation_state account_id s = Some state"
    using a(2) by (simp add: observation_state_def begin_session_def)
  ultimately show ?thesis using Inr a(1) by auto
qed

section \<open>A concrete poll\<close>

definition loop_poll :: payload where
  "loop_poll = [(''payload_schema_version'', JInt 1), (''connector_account_id'', JStr ''co'')]"

text \<open>A reaction to a message that this account has not published, or not published yet.\<close>

definition early_db :: analytics_store where
  "early_db = loop_db\<lparr>external_references := []\<rparr>"

abbreviation loop_connector :: "'z observation_connector" where
  "loop_connector \<equiv> FakeTelegramObservationConnector [loop_update 5 150] False"

lemma loop_delivery:
  "fake_delivers False None TELEGRAM_ALLOWED_UPDATES (loop_update 5 150)"
  "sort_updates [loop_update 5 150] = Inr [loop_update 5 150]"
  "as_int (dict_get (loop_update 5 150) ''update_id'') = Some 5"
  by code_simp+

lemma early_poll:
  "\<exists>t. TelegramObservationHandler_handle demo_env loop_connector demo_context loop_poll 9 early_db = (Inr (), t)"
  apply (simp add: TelegramObservationHandler_handle_def loop_poll_def dict_get_def observation_state_def
      early_db_def loop_db_def loop_state_def run_simps demo_context_def assert_matches_def)
  apply (simp add: observe_updates_def ingest_gap_def run_simps poll_updates_def handle_error_def
      FakeTelegramObservationConnector_def loop_delivery publication_ids_for_account_def)
  apply (simp add: ingest_telegram_update_def run_simps loop_parse demo_account_def assert_matches_def Let_def
      normalize_observation_def insert_normalized_def publication_for_observation_def
      update_observation_state_def add_business_event_def)
  done

theorem poll_loses_nothing_witness:
  "\<exists>t state'. in_transaction (TelegramObservationHandler_handle demo_env loop_connector demo_context loop_poll 9)
       early_db = (Inr (), t) \<and>
     dom (observed t) = {(''co'', ''5'')} \<and> observation_state ''co'' t = Some state' \<and>
     (\<exists>k \<ge> 5. os_last_update_id state' = Some k)"
proof -
  have start: "begin_session early_db = early_db" by (simp add: begin_session_def early_db_def loop_db_def)
  obtain t where run: "in_transaction (TelegramObservationHandler_handle demo_env loop_connector demo_context
      loop_poll 9) early_db = (Inr (), t)"
    using early_poll by (auto simp: in_transaction_def start)
  have inv: "obs_inv early_db" using obs_inv_same [OF loop_inv, of early_db] by (simp add: early_db_def)
  have st: "observation_state ''co'' early_db = Some loop_state"
    by (simp add: observation_state_def early_db_def loop_db_def loop_state_def)
  have acc: "as_str (dict_get loop_poll ''connector_account_id'') = Some ''co''" by code_simp
  have none: "observed early_db = Map.empty" by (simp add: observed_def early_db_def loop_db_def)
  from poll_loses_nothing [OF fake_observation.observation_port_axioms inv run]
  obtain us where p: "polled loop_connector ''co'' loop_state early_db us t"
    by (auto simp: acc st)
  then have us: "us = [loop_update 5 150]"
    by (auto simp: polled_def FakeTelegramObservationConnector_def run_simps loop_state_def loop_delivery)
  have key: "update_key ''co'' (loop_update 5 150) = (''co'', ''5'')"
    by (simp add: update_key_def parse_identity [OF loop_parse])
  from p obtain state' where "observation_state ''co'' t = Some state'" "\<exists>k \<ge> 5. os_last_update_id state' = Some k"
    by (auto simp: polled_def us loop_delivery)
  moreover have "dom (observed t) = {(''co'', ''5'')}" using p by (simp add: polled_def us key none)
  ultimately show ?thesis using run by blast
qed

section \<open>The order of delivery\<close>

text \<open>Two connectors that answer alike, up to the order of the updates in an answer.\<close>

definition same_answer :: "payload list \<Rightarrow> payload list \<Rightarrow> bool" where
  "same_answer us us' \<longleftrightarrow> mset us = mset us' \<and> inj_on update_number (set us)"

definition reorders :: "'z observation_connector \<Rightarrow> 'z observation_connector \<Rightarrow> bool" where
  "reorders c c' \<longleftrightarrow> (\<forall>offset allowed timeout s.
     case (get_updates c offset allowed timeout s, get_updates c' offset allowed timeout s) of
       ((Inr us, t), (Inr us', t')) \<Rightarrow> t = t' \<and> same_answer us us'
     | (a, b) \<Rightarrow> a = b)"

lemma sort_updates_order: "same_answer us us' \<Longrightarrow> sort_updates us = sort_updates us'"
proof -
  assume a: "same_answer us us'"
  then have "mset us = mset us'" "set us = set us'" by (auto simp: same_answer_def dest: mset_eq_setD)
  moreover have "sort_key update_number us = sort_key update_number us'"
    using a by (intro sort_key_inj_key_eq) (simp_all add: same_answer_def)
  ultimately show ?thesis by (simp add: sort_updates_def list_all_iff)
qed

lemma poll_order:
  fixes c :: "'z observation_connector"
  assumes "reorders c c'"
  shows "bnd (poll_updates c state) (\<lambda>us. bnd (gets f) (\<lambda>known. bnd (lift_sum (sort_updates us)) (g known))) =
    bnd (poll_updates c' state) (\<lambda>us. bnd (gets f) (\<lambda>known. bnd (lift_sum (sort_updates us)) (g known)))"
proof
  fix s :: "'z store_scheme"
  let ?get = "\<lambda>c. get_updates c (map_option (\<lambda>n. n + 1) (os_last_update_id state)) (os_allowed_update_types state) 0 s"
  have "case (?get c, ?get c') of ((Inr us, t), (Inr us', t')) \<Rightarrow> t = t' \<and> same_answer us us' | (a, b) \<Rightarrow> a = b"
    using assms [unfolded reorders_def, THEN spec, THEN spec, THEN spec, THEN spec] .
  then show "bnd (poll_updates c state) (\<lambda>us. bnd (gets f) (\<lambda>known. bnd (lift_sum (sort_updates us)) (g known))) s =
      bnd (poll_updates c' state) (\<lambda>us. bnd (gets f) (\<lambda>known. bnd (lift_sum (sort_updates us)) (g known))) s"
    by (cases "?get c"; cases "?get c'"; cases "fst (?get c)"; cases "fst (?get c')")
      (auto simp: poll_updates_def handle_error_def run_bnd run_gets run_lift_sum dest: sort_updates_order)
qed

text \<open>
  The order in which the provider lists the updates of a poll has no effect: two
  connectors whose answers hold the same updates, each with its own number, leave the same result
  and the same state, down to the identifiers drawn and the jobs enqueued.
\<close>

theorem poll_order_irrelevant:
  assumes "reorders c c'"
  shows "TelegramObservationHandler_handle env c context pl now s =
    TelegramObservationHandler_handle env c' context pl now s"
proof -
  have "observe_updates env c context now account_id state = observe_updates env c' context now account_id state"
    for account_id state
    unfolding observe_updates_def by (simp only: poll_order [OF assms])
  then show ?thesis by (simp add: TelegramObservationHandler_handle_def)
qed

lemma fake_reorders:
  assumes "mset us = mset us'" and "inj_on update_number (set us)"
  shows "reorders (FakeTelegramObservationConnector us b) (FakeTelegramObservationConnector us' b)"
  using assms by (auto simp: reorders_def FakeTelegramObservationConnector_def run_simps same_answer_def
      mset_filter intro: inj_on_subset)

theorem poll_order_irrelevant_witness:
  "get_updates (FakeTelegramObservationConnector [loop_update 6 160, loop_update 5 150] False)
     None TELEGRAM_ALLOWED_UPDATES 0 loop_db \<noteq>
   get_updates (FakeTelegramObservationConnector [loop_update 5 150, loop_update 6 160] False)
     None TELEGRAM_ALLOWED_UPDATES 0 loop_db \<and>
   TelegramObservationHandler_handle demo_env
     (FakeTelegramObservationConnector [loop_update 6 160, loop_update 5 150] False) demo_context loop_poll 9 loop_db =
   TelegramObservationHandler_handle demo_env
     (FakeTelegramObservationConnector [loop_update 5 150, loop_update 6 160] False) demo_context loop_poll 9 loop_db"
proof
  have "fake_delivers False None TELEGRAM_ALLOWED_UPDATES (loop_update 6 160)" by code_simp
  then show "get_updates (FakeTelegramObservationConnector [loop_update 6 160, loop_update 5 150] False)
       None TELEGRAM_ALLOWED_UPDATES 0 loop_db \<noteq>
     get_updates (FakeTelegramObservationConnector [loop_update 5 150, loop_update 6 160] False)
       None TELEGRAM_ALLOWED_UPDATES 0 loop_db"
    by (simp add: FakeTelegramObservationConnector_def run_simps loop_delivery) (simp add: loop_update_def)
  have "as_int (dict_get (loop_update 6 160) ''update_id'') = Some 6" by code_simp
  then have "inj_on update_number (set [loop_update 6 160, loop_update 5 150])" by (auto simp: loop_delivery)
  then show "TelegramObservationHandler_handle demo_env
     (FakeTelegramObservationConnector [loop_update 6 160, loop_update 5 150] False) demo_context loop_poll 9 loop_db =
   TelegramObservationHandler_handle demo_env
     (FakeTelegramObservationConnector [loop_update 5 150, loop_update 6 160] False) demo_context loop_poll 9 loop_db"
    by (intro poll_order_irrelevant fake_reorders) simp_all
qed

end
