(* ===== verification/Decision_Governance.thy ===== *)
theory Decision_Governance
  imports Store
begin

text \<open>
  The rules that resolve the reviews of a decision candidate (\<open>application/decision_governance.py\<close>,
  with the outcome rule of \<open>application/decision_workflow.py\<close> that they tighten): the search for
  statements that derive human worth from business results, the exception for a controller that only
  asks for more information, and the order of the verdicts.
\<close>

section \<open>Python's text operations\<close>

text \<open>\<open>text.find(term, start)\<close>; \<open>-1\<close> is \<open>None\<close>.\<close>

fun find_in :: "string \<Rightarrow> string \<Rightarrow> nat \<Rightarrow> nat option" where
  "find_in needle [] i = (if needle = [] then Some i else None)"
| "find_in needle (c # cs) i = (if starts_with needle (c # cs) then Some i else find_in needle cs (Suc i))"

definition str_find :: "string \<Rightarrow> string \<Rightarrow> nat \<Rightarrow> nat option" where
  "str_find needle s start = (if length s < start then None else find_in needle (drop start s) start)"

text \<open>\<open>re.sub(r"\s+", " ", text)\<close>.\<close>

fun collapse_spaces :: "string \<Rightarrow> string" where
  "collapse_spaces [] = []"
| "collapse_spaces (c # cs) =
     (if is_space c
      then (case cs of [] \<Rightarrow> '' '' | d # _ \<Rightarrow> if is_space d then collapse_spaces cs else CHR '' '' # collapse_spaces cs)
      else c # collapse_spaces cs)"

text \<open>\<open>text.split()\<close>.\<close>

fun words :: "string \<Rightarrow> string list" where
  "words [] = []"
| "words (c # cs) =
     (if is_space c then words cs
      else (case cs of
          [] \<Rightarrow> [[c]]
        | d # _ \<Rightarrow> if is_space d then [c] # words cs
            else (case words cs of [] \<Rightarrow> [[c]] | w # ws \<Rightarrow> (c # w) # ws)))"

text \<open>\<open>repr\<close> of text, and \<open>str\<close> of a decoded JSON value.\<close>

definition repr_char :: "char \<Rightarrow> char \<Rightarrow> string" where
  "repr_char quote c =
    (let n = of_char c :: nat; b = char_of (92::nat);
         hex = (\<lambda>d. if d < 10 then char_of (48 + d) else char_of (87 + d)) :: nat \<Rightarrow> char
     in if c = b then [b, b] else if c = quote then [b, quote]
        else if n = 10 then [b, CHR ''n''] else if n = 13 then [b, CHR ''r''] else if n = 9 then [b, CHR ''t'']
        else if n < 32 \<or> (127 \<le> n \<and> n \<le> 160) \<or> n = 173 then [b, CHR ''x'', hex (n div 16), hex (n mod 16)]
        else [c])"

definition repr_str :: "string \<Rightarrow> string" where
  "repr_str s =
    (let single = char_of (39::nat); double = char_of (34::nat);
         quote = (if single \<in> set s \<and> double \<notin> set s then double else single)
     in [quote] @ concat (map (repr_char quote) s) @ [quote])"

fun py_repr :: "(real \<Rightarrow> string) \<Rightarrow> json \<Rightarrow> string" where
  "py_repr fr JNull = ''None''"
| "py_repr fr (JBool b) = (if b then ''True'' else ''False'')"
| "py_repr fr (JInt i) = show_int i"
| "py_repr fr (JFloat r) = fr r"
| "py_repr fr (JStr s) = repr_str s"
| "py_repr fr (JList xs) = ''['' @ join_with '', '' (map (py_repr fr) xs) @ '']''"
| "py_repr fr (JObj d) =
     ''{'' @ join_with '', '' (map (\<lambda>kv. repr_str (fst kv) @ '': '' @ py_repr fr (snd kv)) d) @ ''}''"

definition py_str :: "(real \<Rightarrow> string) \<Rightarrow> json \<Rightarrow> string" where
  "py_str fr v = (case v of JStr s \<Rightarrow> s | _ \<Rightarrow> py_repr fr v)"

section \<open>Reviews and candidates\<close>

record decision_review_row = scoped_row +
  dr_decision_id :: "string option"
  dr_asset_version_id :: "string option"
  dr_controller_name :: string
  dr_verdict :: string
  dr_reason :: string
  dr_decision_candidate_id :: "string option"
  dr_agent_run_id :: "string option"
  dr_snapshot_id :: "string option"
  dr_controller_type :: "string option"
  dr_contract_key :: "string option"
  dr_contract_version :: "int option"
  dr_instruction_version :: "string option"
  dr_output_schema_version :: "int option"
  dr_context_hash :: "string option"
  dr_context_manifest :: payload
  dr_severity :: "string option"
  dr_issues :: "string list"
  dr_required_changes :: "string list"
  dr_evidence_refs :: "payload list"
  dr_conditions :: "string list"
  dr_correlation_id :: "string option"
  dr_causation_id :: "string option"

text \<open>\<open>ControllerVerdict(value)\<close>.\<close>

definition parse_verdict :: "string \<Rightarrow> py_error + ControllerVerdict" where
  "parse_verdict v =
    (if v = ''PASS'' then Inr PASS
     else if v = ''PASS_WITH_CONDITIONS'' then Inr PASS_WITH_CONDITIONS
     else if v = ''REVISE'' then Inr REVISE
     else if v = ''BLOCK'' then Inr BLOCK
     else Inl (ValueError (repr_str v @ '' is not a valid ControllerVerdict'')))"

text \<open>A comprehension over reviews: the first invalid verdict raises.\<close>

fun parse_verdicts :: "decision_review_row list \<Rightarrow> py_error + ControllerVerdict list" where
  "parse_verdicts [] = Inr []"
| "parse_verdicts (r # rs) =
    (case parse_verdict (dr_verdict r) of
       Inl e \<Rightarrow> Inl e
     | Inr v \<Rightarrow> (case parse_verdicts rs of Inl e \<Rightarrow> Inl e | Inr vs \<Rightarrow> Inr (v # vs)))"

section \<open>Statements about human worth\<close>

definition BUSINESS_TERMS :: "string list" where
  "BUSINESS_TERMS = [''sales'', ''sale'', ''revenue'', ''conversion'', ''reach'', ''price'', ''performance'',
     ''result'', ''results'', ''rejection'', ''non-purchase'', ''non purchase'', ''discipline'', ''success'', ''failure'']"

definition MAPPING_TERMS :: "string list" where
  "MAPPING_TERMS = [''show'', ''shows'', ''prove'', ''proves'', ''mean'', ''means'', ''reflect'', ''reflects'',
     ''determine'', ''determines'', ''indicate'', ''indicates'', ''demonstrate'', ''demonstrates'', ''reveal'', ''reveals'']"

definition WORTH_TERMS :: "string list" where
  "WORTH_TERMS = [''human value'', ''real value'', ''personal value'', ''your value'', ''self-worth'', ''self worth'',
     ''worth'', ''rank'', ''not ready'', ''readiness'', ''personal correctness'', ''something wrong with you'',
     ''failure as a person'']"

definition NEGATION_TERMS :: "string list" where
  "NEGATION_TERMS = [''not'', ''never'', ''no'', ''doesn'' @ [char_of (39::nat)] @ ''t'', ''does not'', ''do not'', ''cannot'']"

fun strings :: "json \<Rightarrow> string list" where
  "strings (JStr s) = [s]"
| "strings (JObj d) = concat (map (\<lambda>kv. strings (snd kv)) d)"
| "strings (JList xs) = concat (map strings xs)"
| "strings _ = []"

lemma find_in_Some:
  "find_in needle s i = Some j \<Longrightarrow> i \<le> j \<and> j \<le> i + length s \<and> starts_with needle (drop (j - i) s) \<and>
     (\<forall>k. i \<le> k \<and> k < j \<longrightarrow> \<not> starts_with needle (drop (k - i) s))"
proof (induction needle s i rule: find_in.induct)
  case (1 needle i)
  then show ?case by (auto split: if_splits)
next
  case (2 needle c cs i)
  show ?case
  proof (cases "starts_with needle (c # cs)")
    case True
    with 2 show ?thesis by auto
  next
    case False
    with 2 have ih: "Suc i \<le> j \<and> j \<le> Suc i + length cs \<and> starts_with needle (drop (j - Suc i) cs) \<and>
       (\<forall>k. Suc i \<le> k \<and> k < j \<longrightarrow> \<not> starts_with needle (drop (k - Suc i) cs))" by auto
    have "\<not> starts_with needle (drop (k - i) (c # cs))" if "i \<le> k" "k < j" for k
      using that ih False by (cases "k = i") (auto simp: drop_Cons' Suc_diff_le)
    moreover have "starts_with needle (drop (j - i) (c # cs))" using ih by (auto simp: drop_Cons' Suc_diff_le)
    ultimately show ?thesis using ih by auto
  qed
qed

lemma find_in_None: "find_in needle s i = None \<Longrightarrow> j \<le> length s \<Longrightarrow> \<not> starts_with needle (drop j s)"
proof (induction needle s i arbitrary: j rule: find_in.induct)
  case (1 needle i)
  then show ?case by (cases needle) (auto split: if_splits)
next
  case (2 needle c cs i)
  then show ?case by (cases j) (auto split: if_splits)
qed

lemma str_find_Some:
  "str_find needle s start = Some i \<Longrightarrow> start \<le> i \<and> i \<le> length s \<and> starts_with needle (drop i s) \<and>
     (\<forall>k. start \<le> k \<and> k < i \<longrightarrow> \<not> starts_with needle (drop k s))"
  by (auto simp: str_find_def split: if_splits dest!: find_in_Some)

lemma str_find_None: "str_find needle s start = None \<Longrightarrow> start \<le> i \<Longrightarrow> i \<le> length s \<Longrightarrow> \<not> starts_with needle (drop i s)"
  using find_in_None [of needle "drop start s" start "i - start"] by (auto simp: str_find_def split: if_splits)

text \<open>The loop of \<open>_term_positions\<close> for one of the texts it looks for.\<close>

function occurrences :: "string \<Rightarrow> string \<Rightarrow> nat \<Rightarrow> nat list" where
  "occurrences s needle start =
    (case str_find needle s start of None \<Rightarrow> [] | Some i \<Rightarrow> i # occurrences s needle (Suc i))"
  by pat_completeness auto
termination
  by (relation "measure (\<lambda>(s, needle, start). Suc (length s) - start)") (auto dest!: str_find_Some)

declare occurrences.simps [simp del]

definition term_positions :: "string \<Rightarrow> string list \<Rightarrow> nat list" where
  "term_positions s needles = sort (concat (map (\<lambda>needle. occurrences s needle 0) needles))"

definition negated_between :: "string \<Rightarrow> nat \<Rightarrow> nat \<Rightarrow> bool" where
  "negated_between s business_start mapping_start =
    (let first = max business_start (mapping_start - 18);
         prefix = take (mapping_start - first) (drop first s)
     in list_ex (\<lambda>t. t \<in> set (words prefix)) [''not'', ''never'', ''no''] \<or>
        any_in (drop 3 NEGATION_TERMS) prefix)"

definition normal_text :: "string \<Rightarrow> string" where
  "normal_text v = strip (collapse_spaces (lower v))"

definition has_directional_worth_mapping :: "string \<Rightarrow> bool" where
  "has_directional_worth_mapping v =
    (let s = normal_text v;
         worth_positions = term_positions s WORTH_TERMS
     in list_ex (\<lambda>business_start.
          list_ex (\<lambda>mapping_start.
              \<not> mapping_start \<le> business_start \<and> \<not> negated_between s business_start mapping_start \<and>
              list_ex (\<lambda>worth_start. business_start < mapping_start \<and> mapping_start < worth_start \<and>
                worth_start - business_start \<le> 180) worth_positions)
            (term_positions s MAPPING_TERMS))
        (term_positions s BUSINESS_TERMS))"

definition contains_human_worth_violation :: "payload \<Rightarrow> bool" where
  "contains_human_worth_violation pl = list_ex has_directional_worth_mapping (strings (JObj pl))"

section \<open>The outcome of a set of reviews\<close>

text \<open>\<open>by_type.get(controller)\<close>: a later review of the same controller replaces an earlier one.\<close>

definition review_by_type :: "string \<Rightarrow> decision_review_row list \<Rightarrow> decision_review_row option" where
  "review_by_type controller reviews = List.find (\<lambda>r. dr_controller_type r = Some controller) (rev reviews)"

definition mandatory_conditions :: "decision_review_row \<Rightarrow> string list" where
  "mandatory_conditions r =
     dedupe (map strip (filter (\<lambda>v. strip v \<noteq> []) (dr_conditions r @ dr_required_changes r)))"

definition is_low_risk_reversible_without_critical_unknown :: "(real \<Rightarrow> string) \<Rightarrow> payload \<Rightarrow> bool" where
  "is_low_risk_reversible_without_critical_unknown fr pl =
    (let risk_class = upper (case dict_get pl ''risk_class'' of None \<Rightarrow> [] | Some v \<Rightarrow> py_str fr v);
         reversibility = lower (case dict_get pl ''reversibility'' of None \<Rightarrow> [] | Some v \<Rightarrow> py_str fr v);
         unknowns = (case dict_get pl ''unknowns'' of Some (JList xs) \<Rightarrow> xs | _ \<Rightarrow> []);
         has_critical_unknown = list_ex (\<lambda>item. case item of
             JObj d \<Rightarrow> truthy (dict_get d ''critical'') | _ \<Rightarrow> False) unknowns;
         easily_reversible = contains ''easy'' reversibility \<or>
           (contains ''reversible'' reversibility \<and> \<not> contains ''irreversible'' reversibility)
     in risk_class = ''LOW'' \<and> easily_reversible \<and> \<not> has_critical_unknown)"

definition missing_terms :: "string list" where
  "missing_terms = [''missing'', ''unknown'', ''information'', ''need more data'', ''needs more data'',
     ''insufficient data'', ''evidence gap'']"

definition hard_terms :: "string list" where
  "hard_terms = [''security'', ''privacy'', ''illegal'', ''permission'', ''constitutional'', ''human worth'',
     ''manipulation'', ''deceptive'', ''coercive'']"

definition missing_info_only :: "decision_review_row \<Rightarrow> bool" where
  "missing_info_only r =
    (let s = lower (join_with '' '' (dr_reason r # dr_issues r @ dr_required_changes r))
     in any_in missing_terms s \<and> \<not> any_in hard_terms s)"

text \<open>The identifier of the one review that may be left out, when its conditions hold.\<close>

definition ignored_review_ids ::
  "(real \<Rightarrow> string) \<Rightarrow> payload \<Rightarrow> decision_review_row list \<Rightarrow> py_error + string list" where
  "ignored_review_ids fr pl reviews =
    (case review_by_type ''anti_analysis_paralysis'' reviews of
       None \<Rightarrow> Inr []
     | Some r \<Rightarrow>
         if is_low_risk_reversible_without_critical_unknown fr pl
         then (case parse_verdict (dr_verdict r) of
             Inl e \<Rightarrow> Inl e
           | Inr v \<Rightarrow> Inr (if v \<in> {BLOCK, REVISE} \<and> missing_info_only r then [rid r] else []))
         else Inr [])"

definition resolve_verdicts :: "decision_review_row list \<Rightarrow> ControllerVerdict list \<Rightarrow> ControllerVerdict" where
  "resolve_verdicts effective verdicts =
    (if BLOCK \<in> set verdicts then BLOCK
     else if REVISE \<in> set verdicts then REVISE
     else if list_ex (\<lambda>(r, v). v = PASS_WITH_CONDITIONS \<and> mandatory_conditions r \<noteq> []) (zip effective verdicts)
     then PASS_WITH_CONDITIONS
     else PASS)"

definition governed_controller_outcome ::
  "(real \<Rightarrow> string) \<Rightarrow> payload \<Rightarrow> decision_review_row list \<Rightarrow> py_error + ControllerVerdict" where
  "governed_controller_outcome fr pl reviews =
    (if contains_human_worth_violation pl \<and>
        (case review_by_type ''constitutional'' reviews of None \<Rightarrow> True | Some r \<Rightarrow> dr_verdict r \<noteq> ''BLOCK'')
     then Inl (PermanentJobError ''Constitutional Controller must BLOCK deterministic human-worth violations'')
     else
      (case ignored_review_ids fr pl reviews of
         Inl e \<Rightarrow> Inl e
       | Inr ignored \<Rightarrow>
           let effective = filter (\<lambda>r. rid r \<notin> set ignored) reviews
           in (case parse_verdicts effective of
                 Inl e \<Rightarrow> Inl e
               | Inr verdicts \<Rightarrow> Inr (resolve_verdicts effective verdicts))))"

text \<open>The rule of \<open>decision_workflow.py\<close> that the guarded handler replaces.\<close>

definition controller_outcome :: "decision_review_row list \<Rightarrow> py_error + ControllerVerdict" where
  "controller_outcome reviews =
    (case parse_verdicts reviews of
       Inl e \<Rightarrow> Inl e
     | Inr verdicts \<Rightarrow>
         Inr (if BLOCK \<in> set verdicts then BLOCK
              else if REVISE \<in> set verdicts then REVISE
              else if PASS_WITH_CONDITIONS \<in> set verdicts then PASS_WITH_CONDITIONS
              else PASS))"

section \<open>The search is exact\<close>

definition occurs_at :: "string \<Rightarrow> string list \<Rightarrow> nat \<Rightarrow> bool" where
  "occurs_at s needles i \<longleftrightarrow> i \<le> length s \<and> (\<exists>needle \<in> set needles. starts_with needle (drop i s))"

lemma occurrences_step:
  "occurrences s needle start = (case str_find needle s start of None \<Rightarrow> [] | Some i \<Rightarrow> i # occurrences s needle (Suc i))"
  by (rule occurrences.simps)

lemma set_occurrences:
  "set (occurrences s needle start) = {i. start \<le> i \<and> i \<le> length s \<and> starts_with needle (drop i s)}"
proof (induction s needle start rule: occurrences.induct)
  case (1 s needle start)
  show ?case
  proof (cases "str_find needle s start")
    case None
    then show ?thesis using str_find_None [OF None] by (subst occurrences_step) auto
  next
    case (Some i)
    note i = str_find_Some [OF Some]
    have "set (occurrences s needle start) = insert i {j. Suc i \<le> j \<and> j \<le> length s \<and> starts_with needle (drop j s)}"
      using 1 [OF Some] Some by (subst occurrences_step) simp
    also have "\<dots> = {j. start \<le> j \<and> j \<le> length s \<and> starts_with needle (drop j s)}"
      using i by (auto simp: Suc_le_eq)
    finally show ?thesis .
  qed
qed

lemma set_term_positions: "set (term_positions s needles) = {i. occurs_at s needles i}"
  by (auto simp: term_positions_def set_occurrences occurs_at_def)

text \<open>
  The search for statements about human worth is exact. A text is flagged if and only if,
  after lower-casing and collapsing whitespace, it has a business word, a mapping word after it and a
  worth word after that, the last at most 180 characters behind the first, with no negation in the
  18 characters before the mapping word; the scanning loops end and miss no position, overlapping
  occurrences included.
\<close>

theorem worth_mapping_exact:
  "has_directional_worth_mapping v \<longleftrightarrow>
    (\<exists>b m w. occurs_at (normal_text v) BUSINESS_TERMS b \<and> occurs_at (normal_text v) MAPPING_TERMS m \<and>
       occurs_at (normal_text v) WORTH_TERMS w \<and> b < m \<and> m < w \<and> w \<le> b + 180 \<and>
       \<not> negated_between (normal_text v) b m)"
  by (simp only: has_directional_worth_mapping_def Let_def list_ex_iff set_term_positions mem_Collect_eq Bex_def
      not_le le_diff_conv add.commute [of 180]) blast

section \<open>What reviews can and cannot do\<close>

text \<open>The one review that governance leaves out: a controller against analysis paralysis that only misses information.\<close>

definition set_aside :: "(real \<Rightarrow> string) \<Rightarrow> payload \<Rightarrow> decision_review_row list \<Rightarrow> decision_review_row \<Rightarrow> bool" where
  "set_aside fr pl reviews r \<longleftrightarrow>
     review_by_type ''anti_analysis_paralysis'' reviews = Some r \<and>
     is_low_risk_reversible_without_critical_unknown fr pl \<and>
     dr_verdict r \<in> {''BLOCK'', ''REVISE''} \<and> missing_info_only r"

lemma review_by_type_Some:
  "review_by_type controller reviews = Some r \<Longrightarrow> r \<in> set reviews \<and> dr_controller_type r = Some controller"
  by (simp add: review_by_type_def find_Some_iff) (metis length_rev nth_mem set_rev)

lemma parse_verdict_iff [simp]:
  "parse_verdict v = Inr PASS \<longleftrightarrow> v = ''PASS''"
  "parse_verdict v = Inr PASS_WITH_CONDITIONS \<longleftrightarrow> v = ''PASS_WITH_CONDITIONS''"
  "parse_verdict v = Inr REVISE \<longleftrightarrow> v = ''REVISE''"
  "parse_verdict v = Inr BLOCK \<longleftrightarrow> v = ''BLOCK''"
  by (auto simp: parse_verdict_def)

lemma parse_verdict_values [simp]:
  "parse_verdict ''BLOCK'' = Inr BLOCK" "parse_verdict ''REVISE'' = Inr REVISE"
  "parse_verdict ''PASS'' = Inr PASS" "parse_verdict ''PASS_WITH_CONDITIONS'' = Inr PASS_WITH_CONDITIONS"
  by (simp_all add: parse_verdict_def)

lemma parse_verdicts_zip:
  "parse_verdicts rs = Inr vs \<Longrightarrow> length vs = length rs \<and> (\<forall>(r, v) \<in> set (zip rs vs). parse_verdict (dr_verdict r) = Inr v)"
  by (induction rs arbitrary: vs) (auto split: sum.splits)

lemma parse_verdicts_ok: "(\<forall>r \<in> set rs. \<exists>v. parse_verdict (dr_verdict r) = Inr v) \<Longrightarrow> \<exists>vs. parse_verdicts rs = Inr vs"
  by (induction rs) (auto split: sum.splits)

lemma effective_reviews:
  assumes ids: "distinct (map rid reviews)" and ig: "ignored_review_ids fr pl reviews = Inr ignored"
  shows "filter (\<lambda>r. rid r \<notin> set ignored) reviews = filter (\<lambda>r. \<not> set_aside fr pl reviews r) reviews"
proof (rule filter_cong [OF refl])
  fix r assume r: "r \<in> set reviews"
  have "rid r \<in> set ignored \<longleftrightarrow> (\<exists>q \<in> set reviews. set_aside fr pl reviews q \<and> rid q = rid r)"
    using ig review_by_type_Some [of "''anti_analysis_paralysis''" reviews]
    by (auto simp: ignored_review_ids_def set_aside_def split: option.splits if_splits sum.splits)
  then show "rid r \<notin> set ignored \<longleftrightarrow> \<not> set_aside fr pl reviews r"
    using ids r by (metis distinct_map inj_onD)
qed

text \<open>What an outcome says about the reviews that count.\<close>

definition outcome_means ::
  "(decision_review_row \<Rightarrow> bool) \<Rightarrow> decision_review_row list \<Rightarrow> ControllerVerdict \<Rightarrow> bool" where
  "outcome_means counts reviews v \<longleftrightarrow>
    (let has = (\<lambda>x. \<exists>r \<in> set reviews. counts r \<and> dr_verdict r = x) in
     case v of
       BLOCK \<Rightarrow> has ''BLOCK''
     | REVISE \<Rightarrow> \<not> has ''BLOCK'' \<and> has ''REVISE''
     | PASS_WITH_CONDITIONS \<Rightarrow> \<not> has ''BLOCK'' \<and> \<not> has ''REVISE'' \<and>
         (\<exists>r \<in> set reviews. counts r \<and> dr_verdict r = ''PASS_WITH_CONDITIONS'' \<and> mandatory_conditions r \<noteq> [])
     | PASS \<Rightarrow> (\<forall>r \<in> set reviews. counts r \<longrightarrow> dr_verdict r = ''PASS'' \<or>
         dr_verdict r = ''PASS_WITH_CONDITIONS'' \<and> mandatory_conditions r = []))"

lemma resolve_means:
  assumes "parse_verdicts rs = Inr vs"
  shows "outcome_means (\<lambda>_. True) rs (resolve_verdicts rs vs)"
proof -
  note z = parse_verdicts_zip [OF assms]
  have in_zip: "(\<exists>v. (r, v) \<in> set (zip rs vs))" if "r \<in> set rs" for r
    using that z by (metis in_set_impl_in_set_zip1)
  have val: "v \<in> set vs \<longleftrightarrow> (\<exists>r \<in> set rs. parse_verdict (dr_verdict r) = Inr v)" for v
  proof
    assume "v \<in> set vs"
    then obtain r where "(r, v) \<in> set (zip rs vs)" using z by (metis in_set_impl_in_set_zip2)
    then show "\<exists>r \<in> set rs. parse_verdict (dr_verdict r) = Inr v" using z by (auto dest: set_zip_leftD)
  next
    assume "\<exists>r \<in> set rs. parse_verdict (dr_verdict r) = Inr v"
    then obtain r w where "parse_verdict (dr_verdict r) = Inr v" "(r, w) \<in> set (zip rs vs)" using in_zip by blast
    moreover from this z have "parse_verdict (dr_verdict r) = Inr w" by auto
    ultimately show "v \<in> set vs" by (auto dest: set_zip_rightD)
  qed
  have cond: "list_ex (\<lambda>(r, v). v = PASS_WITH_CONDITIONS \<and> mandatory_conditions r \<noteq> []) (zip rs vs) \<longleftrightarrow>
      (\<exists>r \<in> set rs. dr_verdict r = ''PASS_WITH_CONDITIONS'' \<and> mandatory_conditions r \<noteq> [])"
    using z in_zip by (fastforce simp: list_ex_iff dest: set_zip_leftD)
  have some: "dr_verdict r \<in> {''PASS'', ''PASS_WITH_CONDITIONS'', ''REVISE'', ''BLOCK''}" if mem: "r \<in> set rs" for r
  proof -
    obtain v where "(r, v) \<in> set (zip rs vs)" using in_zip [OF mem] by blast
    with z have "parse_verdict (dr_verdict r) = Inr v" by auto
    then show ?thesis by (cases v) auto
  qed
  show ?thesis
    using val [of BLOCK] val [of REVISE] cond some
    by (auto simp: outcome_means_def resolve_verdicts_def Let_def)
qed

lemma outcome_means_filter: "outcome_means (\<lambda>_. True) (filter P rs) v = outcome_means P rs v"
  by (cases v) (auto simp: outcome_means_def Let_def)

text \<open>The guard on statements about human worth.\<close>

definition worth_unblocked :: "payload \<Rightarrow> decision_review_row list \<Rightarrow> bool" where
  "worth_unblocked pl reviews \<longleftrightarrow> contains_human_worth_violation pl \<and>
     (\<forall>r. review_by_type ''constitutional'' reviews = Some r \<longrightarrow> dr_verdict r \<noteq> ''BLOCK'')"

lemma governed_outcome:
  assumes ids: "distinct (map rid reviews)"
    and run: "governed_controller_outcome fr pl reviews = Inr v"
  shows "\<not> worth_unblocked pl reviews \<and> outcome_means (\<lambda>r. \<not> set_aside fr pl reviews r) reviews v"
proof -
  from run obtain ignored vs where ig: "ignored_review_ids fr pl reviews = Inr ignored"
    and vs: "parse_verdicts (filter (\<lambda>r. rid r \<notin> set ignored) reviews) = Inr vs"
    and v: "v = resolve_verdicts (filter (\<lambda>r. rid r \<notin> set ignored) reviews) vs"
    and w: "\<not> worth_unblocked pl reviews"
    by (auto simp: governed_controller_outcome_def worth_unblocked_def Let_def split: if_splits sum.splits option.splits)
  have "outcome_means (\<lambda>_. True) (filter (\<lambda>r. rid r \<notin> set ignored) reviews) v"
    unfolding v by (rule resolve_means [OF vs])
  then show ?thesis using w by (simp add: effective_reviews [OF ids ig] outcome_means_filter)
qed

text \<open>
  Claim C27. The outcome of a set of reviews is exactly determined. For reviews with valid verdicts,
  governance raises only when a statement about human worth is not blocked by the constitutional
  controller; otherwise the outcome is BLOCK when a review that counts blocks, REVISE when one asks
  for revision and none blocks, PASS_WITH_CONDITIONS when only a mandatory condition is left, and PASS
  only when every review that counts passes or passes without a condition. The only review that does
  not count is one of the controller against analysis paralysis, on a low-risk reversible candidate
  without a critical unknown, that asks for information and names no hard reason.
\<close>

theorem governed_outcome_exact:
  assumes ids: "distinct (map rid reviews)"
    and valid: "\<And>r. r \<in> set reviews \<Longrightarrow> \<exists>v. parse_verdict (dr_verdict r) = Inr v"
  shows "case governed_controller_outcome fr pl reviews of
      Inl e \<Rightarrow> worth_unblocked pl reviews
    | Inr v \<Rightarrow> \<not> worth_unblocked pl reviews \<and> outcome_means (\<lambda>r. \<not> set_aside fr pl reviews r) reviews v"
proof (cases "governed_controller_outcome fr pl reviews")
  case (Inr v)
  then show ?thesis using governed_outcome [OF ids Inr] by simp
next
  case (Inl e)
  have "worth_unblocked pl reviews"
  proof (rule ccontr)
    assume w: "\<not> worth_unblocked pl reviews"
    have "\<exists>ignored. ignored_review_ids fr pl reviews = Inr ignored"
      using valid review_by_type_Some [of "''anti_analysis_paralysis''" reviews]
      by (fastforce simp: ignored_review_ids_def split: option.split sum.split)
    then obtain ignored where ig: "ignored_review_ids fr pl reviews = Inr ignored" by blast
    obtain vs where "parse_verdicts (filter (\<lambda>r. rid r \<notin> set ignored) reviews) = Inr vs"
      using parse_verdicts_ok [of "filter (\<lambda>r. rid r \<notin> set ignored) reviews"] valid by auto
    with ig w Inl show False
      by (auto simp: governed_controller_outcome_def worth_unblocked_def Let_def split: if_splits option.splits)
  qed
  with Inl show ?thesis by simp
qed

text \<open>
  Claim C28. A candidate that derives human worth from business results is never accepted or revised.
  Whatever the reviews say, and whether or not their verdicts are valid, the outcome for such a
  candidate is an exception or BLOCK.
\<close>

theorem human_worth_never_passes:
  assumes viol: "contains_human_worth_violation pl" and ids: "distinct (map rid reviews)"
  shows "case governed_controller_outcome fr pl reviews of Inl e \<Rightarrow> True | Inr v \<Rightarrow> v = BLOCK"
proof (cases "governed_controller_outcome fr pl reviews")
  case (Inr v)
  note out = governed_outcome [OF ids Inr]
  then obtain r where r: "review_by_type ''constitutional'' reviews = Some r" "dr_verdict r = ''BLOCK''"
    using viol by (auto simp: worth_unblocked_def)
  then have "r \<in> set reviews" "dr_controller_type r = Some ''constitutional''" by (auto dest: review_by_type_Some)
  moreover from this have "\<not> set_aside fr pl reviews r" by (auto simp: set_aside_def dest: review_by_type_Some)
  ultimately show ?thesis using out r(2) Inr by (cases v) (auto simp: outcome_means_def Let_def)
qed simp

section \<open>A concrete candidate\<close>

definition review_of :: "string \<Rightarrow> string \<Rightarrow> string \<Rightarrow> string \<Rightarrow> decision_review_row" where
  "review_of i controller vd reason = \<lparr>rid = i, org = ''o'', biz = ''b'', dr_decision_id = None,
     dr_asset_version_id = None, dr_controller_name = controller, dr_verdict = vd, dr_reason = reason,
     dr_decision_candidate_id = Some ''ca'', dr_agent_run_id = None, dr_snapshot_id = None,
     dr_controller_type = Some controller, dr_contract_key = None, dr_contract_version = None,
     dr_instruction_version = None, dr_output_schema_version = None, dr_context_hash = None,
     dr_context_manifest = [], dr_severity = None, dr_issues = [], dr_required_changes = [],
     dr_evidence_refs = [], dr_conditions = [], dr_correlation_id = None, dr_causation_id = None\<rparr>"

definition worth_payload :: payload where
  "worth_payload = [(''why'', JList [JStr ''Your Sales show your worth.''])]"

definition calm_payload :: payload where
  "calm_payload = [(''risk_class'', JStr ''low''), (''reversibility'', JStr ''Easy to undo''),
     (''why'', JList [JStr ''Sales do not show your worth.''])]"

definition calm_reviews :: "decision_review_row list" where
  "calm_reviews = [review_of ''r1'' ''constitutional'' ''PASS'' ''fine'',
     review_of ''r2'' ''anti_analysis_paralysis'' ''REVISE'' ''Missing data'']"

lemma worth_examples:
  "contains_human_worth_violation worth_payload" "\<not> contains_human_worth_violation calm_payload"
  by code_simp+

lemma calm_set_aside: "governed_controller_outcome (\<lambda>_. []) calm_payload calm_reviews = Inr PASS"
  by code_simp

theorem governed_outcome_exact_witness:
  "governed_controller_outcome (\<lambda>_. []) calm_payload calm_reviews = Inr PASS \<and>
   outcome_means (\<lambda>r. \<not> set_aside (\<lambda>_. []) calm_payload calm_reviews r) calm_reviews PASS"
proof -
  have "case governed_controller_outcome (\<lambda>_. []) calm_payload calm_reviews of
      Inl e \<Rightarrow> worth_unblocked calm_payload calm_reviews
    | Inr v \<Rightarrow> \<not> worth_unblocked calm_payload calm_reviews \<and>
        outcome_means (\<lambda>r. \<not> set_aside (\<lambda>_. []) calm_payload calm_reviews r) calm_reviews v"
    by (rule governed_outcome_exact) (auto simp: calm_reviews_def review_of_def)
  then show ?thesis using calm_set_aside by simp
qed

theorem human_worth_never_passes_witness:
  "governed_controller_outcome (\<lambda>_. []) worth_payload [review_of ''r1'' ''constitutional'' ''BLOCK'' ''worth''] = Inr BLOCK"
proof -
  let ?rs = "[review_of ''r1'' ''constitutional'' ''BLOCK'' ''worth'']"
  have "\<exists>v. governed_controller_outcome (\<lambda>_. []) worth_payload ?rs = Inr v"
    by (simp add: governed_controller_outcome_def ignored_review_ids_def review_by_type_def review_of_def)
  moreover have "case governed_controller_outcome (\<lambda>_. []) worth_payload ?rs of Inl e \<Rightarrow> True | Inr v \<Rightarrow> v = BLOCK"
    using worth_examples by (intro human_worth_never_passes) (simp_all add: review_of_def)
  ultimately show ?thesis by auto
qed

end
