(* ===== verification/Commands.thy ===== *)
theory Commands
  imports Agent_Runs
begin

text \<open>
  The tables of a business and the commands that write them (\<open>application/commands.py\<close>,
  \<open>persistence/repositories.py\<close>): every command adds its row, the event of the outbox and, where the
  code keeps one, the audit entry; and the snapshot of everything a business knows that a decision is
  taken from. \<open>now\<close> is the reading of \<open>utc_now\<close>.
\<close>

section \<open>Rows\<close>

record organization_row =
  organization_row_id :: string
  organization_name :: string

record business_row =
  bz_id :: string
  bz_organization_id :: string
  bz_name :: string
  bz_timezone :: string
  bz_version :: int
  bz_created_at :: datetime

record launch_row = scoped_row +
  la_campaign_id :: string
  la_offer_id :: string
  la_goal_id :: string
  la_channel_id :: string
  la_snapshot_id :: "string option"
  la_status :: string

record goal_row = scoped_row +
  go_title :: string
  go_target :: string
  go_metric :: "string option"
  go_created_at :: datetime

record constraint_row = scoped_row +
  cn_category :: string
  cn_rule :: string
  cn_created_at :: datetime

record product_row = scoped_row +
  pr_name :: string
  pr_description :: string
  pr_created_at :: datetime

record offer_row = scoped_row +
  of_product_id :: string
  of_name :: string
  of_description :: string
  of_price_descriptor :: "string option"
  of_created_at :: datetime

record claim_row = scoped_row +
  cl_statement :: string
  cl_status :: string
  cl_evidence_ids :: "string list"
  cl_created_at :: datetime

record hypothesis_row = scoped_row +
  hy_statement :: string
  hy_status :: string
  hy_model_confidence :: "real option"
  hy_evidence_ids :: "string list"
  hy_created_at :: datetime

record information_need_row = scoped_row +
  ne_question :: string
  ne_critical :: bool
  ne_created_at :: datetime

record business_snapshot_row = scoped_row +
  sn_version :: int
  sn_reason :: string
  sn_payload :: payload
  sn_created_at :: datetime

record business_store = agent_store +
  organizations :: "organization_row list"
  businesses :: "business_row list"
  launches :: "launch_row list"
  goals :: "goal_row list"
  constraints :: "constraint_row list"
  products :: "product_row list"
  offers :: "offer_row list"
  claims :: "claim_row list"
  hypotheses :: "hypothesis_row list"
  information_needs :: "information_need_row list"
  business_snapshots :: "business_snapshot_row list"

section \<open>Events and audit\<close>

record CommandContext = TenantScope +
  cc_actor_user_id :: "string option"
  cc_correlation_id :: string
  cc_causation_id :: "string option"

text \<open>The primary key of an audit entry has a default; it is drawn here, with the entry.\<close>

definition append_audit ::
  "CommandContext \<Rightarrow> string \<Rightarrow> string \<Rightarrow> string \<Rightarrow> payload \<Rightarrow> ('z store_scheme, unit) prog" where
  "append_audit context act obj_type obj_id pl =
     bnd new_id (\<lambda>i.
     add_audit \<lparr>rid = i, org = organization_id context, biz = business_id context,
       audit_actor_user_id = cc_actor_user_id context, audit_action = act, audit_object_type = obj_type,
       audit_object_id = obj_id, audit_payload = pl, audit_correlation_id = Some (cc_correlation_id context),
       audit_causation_id = cc_causation_id context\<rparr>)"

definition command_event ::
  "CommandContext \<Rightarrow> string \<Rightarrow> string \<Rightarrow> string \<Rightarrow> payload \<Rightarrow> string \<Rightarrow> datetime \<Rightarrow> DomainEvent" where
  "command_event context ev_type agg_type agg_id pl i now =
     \<lparr>organization_id = organization_id context, business_id = business_id context, event_type = ev_type,
      aggregate_type = agg_type, aggregate_id = agg_id, correlation_id = cc_correlation_id context,
      causation_id = cc_causation_id context, actor_user_id = cc_actor_user_id context,
      event_payload = pl, event_id = i, event_occurred_at = now\<rparr>"

definition append_outbox_event :: "DomainEvent \<Rightarrow> datetime \<Rightarrow> ('z store_scheme, unit) prog" where
  "append_outbox_event ev now =
     add_outbox \<lparr>rid = event_id ev, org = organization_id ev, biz = business_id ev,
       outbox_event_type = event_type ev, outbox_aggregate_type = aggregate_type ev,
       outbox_aggregate_id = aggregate_id ev, outbox_payload = event_payload ev,
       outbox_status = OutboxStatus.PENDING, outbox_occurred_at = event_occurred_at ev,
       outbox_correlation_id = correlation_id ev, outbox_causation_id = causation_id ev,
       outbox_created_at = now, published_at = None\<rparr>"

text \<open>\<open>event = _event(...); append_outbox_event(session, event)\<close>.\<close>

definition emit ::
  "CommandContext \<Rightarrow> string \<Rightarrow> string \<Rightarrow> string \<Rightarrow> payload \<Rightarrow> datetime \<Rightarrow> ('z store_scheme, DomainEvent) prog" where
  "emit context ev_type agg_type agg_id pl now =
     bnd new_id (\<lambda>i.
     let ev = command_event context ev_type agg_type agg_id pl i now
     in bnd (append_outbox_event ev now) (\<lambda>_. ret ev))"

section \<open>Commands\<close>

definition create_organization :: "string \<Rightarrow> ('z business_store_scheme, organization_row) prog" where
  "create_organization name =
     bnd new_id (\<lambda>i.
     let row = \<lparr>organization_row_id = i, organization_name = name\<rparr>
     in bnd (modify (\<lambda>s. s\<lparr>organizations := organizations s @ [row]\<rparr>)) (\<lambda>_.
        bnd flush (\<lambda>_. ret row)))"

definition create_business ::
  "string \<Rightarrow> string \<Rightarrow> string \<Rightarrow> string option \<Rightarrow> string option \<Rightarrow> datetime
     \<Rightarrow> ('z business_store_scheme, business_row \<times> DomainEvent) prog" where
  "create_business og name timezone actor correlation now =
     bnd new_id (\<lambda>i.
     bnd (if or_else correlation [] = [] then new_id else ret (or_else correlation [])) (\<lambda>cid.
     let context = \<lparr>organization_id = og, business_id = i, cc_actor_user_id = actor, cc_correlation_id = cid,
           cc_causation_id = None\<rparr>;
         row = \<lparr>bz_id = i, bz_organization_id = og, bz_name = name, bz_timezone = timezone, bz_version = 1,
           bz_created_at = now\<rparr>
     in bnd (modify (\<lambda>s. s\<lparr>businesses := businesses s @ [row]\<rparr>)) (\<lambda>_.
        bnd flush (\<lambda>_.
        bnd (emit context ''business.created'' ''Business'' i
               [(''name'', JStr name), (''timezone'', JStr timezone)] now) (\<lambda>ev.
        bnd (append_audit context ''create_business'' ''Business'' i []) (\<lambda>_.
        bnd flush (\<lambda>_. ret (row, ev))))))))"

definition create_goal ::
  "CommandContext \<Rightarrow> string \<Rightarrow> string \<Rightarrow> string option \<Rightarrow> datetime
     \<Rightarrow> ('z business_store_scheme, goal_row \<times> DomainEvent) prog" where
  "create_goal context ttl target metric now =
     bnd new_id (\<lambda>i.
     let row = \<lparr>rid = i, org = organization_id context, biz = business_id context, go_title = ttl,
           go_target = target, go_metric = metric, go_created_at = now\<rparr>
     in bnd (check_scope context (org row) (biz row)) (\<lambda>_.
        bnd (modify (\<lambda>s. s\<lparr>goals := goals s @ [row]\<rparr>)) (\<lambda>_.
        bnd (touch (org row) (biz row)) (\<lambda>_.
        bnd (emit context ''goal.created'' ''Goal'' i [(''title'', JStr ttl), (''metric'', opt_json metric)] now) (\<lambda>ev.
        bnd (append_audit context ''create_goal'' ''Goal'' i []) (\<lambda>_.
        ret (row, ev)))))))"

definition create_source_record ::
  "CommandContext \<Rightarrow> string \<Rightarrow> string \<Rightarrow> string \<Rightarrow> payload \<Rightarrow> SourceTrust \<Rightarrow> datetime
     \<Rightarrow> ('z business_store_scheme, source_row \<times> DomainEvent) prog" where
  "create_source_record context provider external_id source_type pl trust now =
     bnd new_id (\<lambda>i.
     let row = \<lparr>rid = i, org = organization_id context, biz = business_id context, src_provider = provider,
           src_external_id = external_id, src_source_type = source_type, src_trust = trust, src_payload = pl,
           src_occurred_at = Some now, src_ingested_at = now\<rparr>
     in bnd (check_scope context (org row) (biz row)) (\<lambda>_.
        bnd (modify (\<lambda>s. s\<lparr>source_records := source_records s @ [row]\<rparr>)) (\<lambda>_.
        bnd (touch (org row) (biz row)) (\<lambda>_.
        bnd (emit context ''source_record.created'' ''SourceRecord'' i
               [(''provider'', JStr provider), (''external_id'', JStr external_id)] now) (\<lambda>ev.
        ret (row, ev))))))"

text \<open>
  The reference policy of \<open>persistence/repositories.py\<close>: the source record of a piece of evidence
  has to be visible in the scope of the evidence.
\<close>

definition source_record_visible :: "'y TenantScope_scheme \<Rightarrow> string \<Rightarrow> 'z business_store_scheme \<Rightarrow> bool" where
  "source_record_visible scope i s =
     list_ex (\<lambda>r. rid r = i \<and> org r = organization_id scope \<and> biz r = business_id scope) (source_records s)"

definition create_evidence ::
  "CommandContext \<Rightarrow> string \<Rightarrow> string \<Rightarrow> EpistemicStatus \<Rightarrow> real option \<Rightarrow> datetime
     \<Rightarrow> ('z business_store_scheme, evidence_row \<times> DomainEvent) prog" where
  "create_evidence context sid txt st conf now =
     bnd new_id (\<lambda>i.
     let row = \<lparr>rid = i, org = organization_id context, biz = business_id context,
           ev_source_record_id = sid, ev_statement = txt, ev_status = st,
           ev_confidence = conf, ev_occurred_at = None, ev_recorded_at = now, ev_conflicts_with = []\<rparr>
     in bnd (check_scope context (org row) (biz row)) (\<lambda>_.
        bnd flush (\<lambda>_.
        bnd (gets (source_record_visible context sid)) (\<lambda>visible.
        bnd (require visible (TenantScopeViolation
               (''EvidenceModel.source_record_id references an object outside '' @
                ''the current tenant/business scope''))) (\<lambda>_.
        bnd (modify (\<lambda>s. s\<lparr>evidence := evidence s @ [row]\<rparr>)) (\<lambda>_.
        bnd (touch (org row) (biz row)) (\<lambda>_.
        bnd (emit context ''evidence.created'' ''Evidence'' i [(''status'', JStr (epistemic_value st))] now) (\<lambda>ev.
        ret (row, ev)))))))))"

definition create_business_snapshot ::
  "CommandContext \<Rightarrow> string \<Rightarrow> payload \<Rightarrow> datetime
     \<Rightarrow> ('z business_store_scheme, business_snapshot_row \<times> DomainEvent) prog" where
  "create_business_snapshot context reason pl now =
     bnd new_id (\<lambda>i.
     let row = \<lparr>rid = i, org = organization_id context, biz = business_id context, sn_version = 1,
           sn_reason = reason, sn_payload = pl, sn_created_at = now\<rparr>
     in bnd (modify (\<lambda>s. s\<lparr>business_snapshots := business_snapshots s @ [row]\<rparr>)) (\<lambda>_.
        bnd (touch (org row) (biz row)) (\<lambda>_.
        bnd (emit context ''business_snapshot.created'' ''BusinessSnapshot'' i [(''reason'', JStr reason)] now) (\<lambda>ev.
        bnd (append_audit context ''create_business_snapshot'' ''BusinessSnapshot'' i []) (\<lambda>_.
        ret (row, ev))))))"

definition approve_action ::
  "CommandContext \<Rightarrow> action_row \<Rightarrow> string \<Rightarrow> datetime \<Rightarrow> ('z business_store_scheme, approval_row \<times> DomainEvent) prog" where
  "approve_action context action user_id now =
     bnd (check_scope context (org action) (biz action)) (\<lambda>_.
     bnd new_id (\<lambda>i.
     let approval = \<lparr>rid = i, org = organization_id context, biz = business_id context,
           appr_action_id = rid action, appr_action_type = action_type action,
           appr_object_type = target_object_type action, appr_object_id = target_object_id action,
           appr_object_version_id = target_object_version_id action,
           appr_object_version = target_object_version action, appr_approved_by_user_id = user_id,
           appr_status = ApprovalStatus.APPROVED, appr_created_at = now\<rparr>
     in bnd (modify (\<lambda>s. s\<lparr>approvals := approvals s @ [approval]\<rparr>)) (\<lambda>_.
        bnd (touch (org approval) (biz approval)) (\<lambda>_.
        bnd (set_action_status ActionStatus.APPROVED action) (\<lambda>_.
        bnd (emit context ''approval.created'' ''Approval'' i
               [(''action_id'', JStr (rid action)), (''action_type'', JStr (appr_action_type approval)),
                (''object_type'', JStr (appr_object_type approval)), (''object_id'', JStr (appr_object_id approval)),
                (''object_version_id'', JStr (appr_object_version_id approval)),
                (''object_version'', JInt (appr_object_version approval))] now) (\<lambda>ev.
        bnd (append_audit context ''approve_action'' (appr_object_type approval) (appr_object_id approval)
               [(''object_version'', JInt (appr_object_version approval))]) (\<lambda>_.
        ret (approval, ev))))))))"

definition create_business_event ::
  "CommandContext \<Rightarrow> string \<Rightarrow> datetime \<Rightarrow> datetime \<Rightarrow> payload \<Rightarrow> datetime
     \<Rightarrow> ('z business_store_scheme, business_event_row \<times> DomainEvent) prog" where
  "create_business_event context ev_type t_occurred t_recorded pl now =
     bnd new_id (\<lambda>i.
     let row = \<lparr>rid = i, org = organization_id context, biz = business_id context,
           business_event_type = ev_type, event_source_record_id = None, event_time = t_occurred,
           event_recorded_at = t_recorded, business_event_payload = pl,
           event_correlation_id = Some (cc_correlation_id context), event_causation_id = cc_causation_id context\<rparr>
     in bnd (check_scope context (org row) (biz row)) (\<lambda>_.
        bnd (add_business_event row) (\<lambda>_.
        bnd (emit context ''business_event.recorded'' ''BusinessEvent'' i
               [(''business_event_type'', JStr ev_type)] now) (\<lambda>ev.
        ret (row, ev)))))"

section \<open>The snapshot of a business (\<open>application/decision_workflow.py\<close>)\<close>

text \<open>\<open>_scoped_select(...).order_by(column, id)\<close>.\<close>

definition scoped_select ::
  "'y TenantScope_scheme \<Rightarrow> ('r scoped_row_scheme \<Rightarrow> datetime) \<Rightarrow> 'r scoped_row_scheme list
     \<Rightarrow> 'r scoped_row_scheme list" where
  "scoped_select scope column rows =
     sort_key (\<lambda>r. (column r, rid r))
       (filter (\<lambda>r. org r = organization_id scope \<and> biz r = business_id scope) rows)"

definition opt_float :: "real option \<Rightarrow> json" where
  "opt_float x = (case x of None \<Rightarrow> JNull | Some r \<Rightarrow> JFloat r)"

definition evidence_item :: "evidence_row \<Rightarrow> json" where
  "evidence_item r = JObj
    [(''id'', JStr (rid r)), (''source_record_id'', JStr (ev_source_record_id r)),
     (''statement'', JStr (ev_statement r)), (''status'', JStr (epistemic_value (ev_status r))),
     (''confidence'', opt_float (ev_confidence r)),
     (''occurred_at'', opt_json (map_option isoformat (ev_occurred_at r))),
     (''recorded_at'', JStr (isoformat (ev_recorded_at r))),
     (''conflicts_with_evidence_ids'', JList (map JStr (ev_conflicts_with r)))]"

definition launch_item :: "launch_row \<Rightarrow> json" where
  "launch_item l = JObj
    [(''id'', JStr (rid l)), (''campaign_id'', JStr (la_campaign_id l)), (''offer_id'', JStr (la_offer_id l)),
     (''goal_id'', JStr (la_goal_id l)), (''channel_id'', JStr (la_channel_id l)), (''status'', JStr (la_status l))]"

text \<open>The launch of the snapshot: absent rows are left out, rows of another tenant are refused.\<close>

definition snapshot_launch ::
  "'y TenantScope_scheme \<Rightarrow> string option \<Rightarrow> 'z business_store_scheme \<Rightarrow> py_error + json" where
  "snapshot_launch scope launch_id s =
    (case Option.bind launch_id (\<lambda>i. row_get rid i (launches s)) of
       None \<Rightarrow> Inr JNull
     | Some l \<Rightarrow> (case assert_matches scope (org l) (biz l) of Inl e \<Rightarrow> Inl e | Inr _ \<Rightarrow> Inr (launch_item l)))"

definition business_item :: "business_row \<Rightarrow> json" where
  "business_item b = JObj
    [(''id'', JStr (bz_id b)), (''name'', JStr (bz_name b)), (''timezone'', JStr (bz_timezone b)),
     (''version'', JInt (bz_version b))]"

text \<open>The lists of the snapshot, each with the rows of the tenant in the order they were created.\<close>

definition snapshot_lists :: "'y TenantScope_scheme \<Rightarrow> 'z business_store_scheme \<Rightarrow> payload" where
  "snapshot_lists scope s =
    [(''goals'', JList (map (\<lambda>r. JObj [(''id'', JStr (rid r)), (''title'', JStr (go_title r)),
        (''target'', JStr (go_target r)), (''metric'', opt_json (go_metric r))])
        (scoped_select scope go_created_at (goals s)))),
     (''constraints'', JList (map (\<lambda>r. JObj [(''id'', JStr (rid r)), (''category'', JStr (cn_category r)),
        (''rule'', JStr (cn_rule r))]) (scoped_select scope cn_created_at (constraints s)))),
     (''products'', JList (map (\<lambda>r. JObj [(''id'', JStr (rid r)), (''name'', JStr (pr_name r)),
        (''description'', JStr (pr_description r))]) (scoped_select scope pr_created_at (products s)))),
     (''offers'', JList (map (\<lambda>r. JObj [(''id'', JStr (rid r)), (''product_id'', JStr (of_product_id r)),
        (''name'', JStr (of_name r)), (''description'', JStr (of_description r)),
        (''price_descriptor'', opt_json (of_price_descriptor r))]) (scoped_select scope of_created_at (offers s)))),
     (''channels'', JList (map (\<lambda>r. JObj [(''id'', JStr (rid r)), (''provider'', JStr (channel_provider r)),
        (''handle'', JStr (channel_handle r)), (''capabilities'', JObj (channel_capabilities r))])
        (scoped_select scope channel_created_at (channels s)))),
     (''claims'', JList (map (\<lambda>r. JObj [(''id'', JStr (rid r)), (''statement'', JStr (cl_statement r)),
        (''status'', JStr (cl_status r)), (''evidence_ids'', JList (map JStr (cl_evidence_ids r)))])
        (scoped_select scope cl_created_at (claims s)))),
     (''hypotheses'', JList (map (\<lambda>r. JObj [(''id'', JStr (rid r)), (''statement'', JStr (hy_statement r)),
        (''status'', JStr (hy_status r)), (''model_confidence'', opt_float (hy_model_confidence r)),
        (''evidence_ids'', JList (map JStr (hy_evidence_ids r)))])
        (scoped_select scope hy_created_at (hypotheses s)))),
     (''information_needs'', JList (map (\<lambda>r. JObj [(''id'', JStr (rid r)), (''question'', JStr (ne_question r)),
        (''critical'', JBool (ne_critical r))]) (scoped_select scope ne_created_at (information_needs s)))),
     (''evidence'', JList (map evidence_item (scoped_select scope ev_recorded_at (evidence s)))),
     (''conflicts'', JList (map (\<lambda>r. JObj [(''evidence_id'', JStr (rid r)),
        (''conflicts_with'', JList (map JStr (ev_conflicts_with r)))])
        (filter (\<lambda>r. ev_conflicts_with r \<noteq> []) (scoped_select scope ev_recorded_at (evidence s)))))]"

definition snapshot_payload ::
  "'y TenantScope_scheme \<Rightarrow> string option \<Rightarrow> 'z business_store_scheme \<Rightarrow> py_error + payload" where
  "snapshot_payload scope launch_id s =
    (case row_get bz_id (business_id scope) (businesses s) of
       None \<Rightarrow> Inl (PermanentJobError ''Business not found for snapshot'')
     | Some b \<Rightarrow>
        (case assert_matches scope (bz_organization_id b) (bz_id b) of
           Inl e \<Rightarrow> Inl e
         | Inr _ \<Rightarrow>
            (case snapshot_launch scope launch_id s of
               Inl e \<Rightarrow> Inl e
             | Inr launch \<Rightarrow>
                 let pl = [(''schema_name'', JStr ''Phase3BusinessSnapshotPayload''), (''schema_version'', JInt 1),
                       (''business'', business_item b), (''launch'', launch)] @ snapshot_lists scope s
                 in (case no_secrets pl of Inl e \<Rightarrow> Inl e | Inr _ \<Rightarrow> Inr pl))))"

definition get_snapshot ::
  "'y TenantScope_scheme \<Rightarrow> string \<Rightarrow> 'z business_store_scheme \<Rightarrow> py_error + business_snapshot_row" where
  "get_snapshot scope i s =
    (case row_get rid i (business_snapshots s) of
       None \<Rightarrow> Inl (PermanentJobError ''BusinessSnapshot not found'')
     | Some sn \<Rightarrow> (case assert_matches scope (org sn) (biz sn) of Inl e \<Rightarrow> Inl e | Inr _ \<Rightarrow> Inr sn))"

end
