(* ===== verification/Agent_Schemas.thy ===== *)
theory Agent_Schemas
  imports Commands
begin

text \<open>
  The structured outputs of the agents of a decision (\<open>ai_runtime/schemas.py\<close>): the fields of each
  class, what \<open>model_dump(mode="json")\<close> makes of them, and the constraints and validators the classes
  declare. That parsing enforces them is the business of the validation library: the parsers are
  arguments of the model, collected in \<open>workflow_env\<close>, and \<open>schemas_checked\<close> and
  \<open>dumps_parse\<close> state what is relied on.
\<close>

section \<open>Classes\<close>

datatype RiskClass = LOW | MEDIUM | HIGH | UNKNOWN

fun risk_value :: "RiskClass \<Rightarrow> string" where
  "risk_value LOW = ''LOW''"
| "risk_value MEDIUM = ''MEDIUM''"
| "risk_value HIGH = ''HIGH''"
| "risk_value RiskClass.UNKNOWN = ''UNKNOWN''"

fun verdict_value :: "ControllerVerdict \<Rightarrow> string" where
  "verdict_value PASS = ''PASS''"
| "verdict_value PASS_WITH_CONDITIONS = ''PASS_WITH_CONDITIONS''"
| "verdict_value REVISE = ''REVISE''"
| "verdict_value BLOCK = ''BLOCK''"

record EvidenceReference =
  er_evidence_id :: string
  er_epistemic_status :: EpistemicStatus
  er_note :: string

record FactUsage =
  fu_statement :: string
  fu_evidence_ref :: string
  fu_epistemic_status :: EpistemicStatus

text \<open>\<open>HypothesisStatement\<close> and \<open>AssumptionStatement\<close> have the same fields.\<close>

record Supposition =
  su_statement :: string
  su_evidence_ref :: "string option"
  su_confidence :: real

record UnknownStatement =
  us_question :: string
  us_critical :: bool

record ConflictStatement =
  cs_statement :: string
  cs_evidence_refs :: "string list"

record SpecialistContribution =
  sc_role :: string
  sc_observations :: "string list"
  sc_facts_used :: "FactUsage list"
  sc_hypotheses :: "Supposition list"
  sc_assumptions :: "Supposition list"
  sc_recommendations :: "string list"
  sc_risks :: "string list"
  sc_unknowns :: "UnknownStatement list"
  sc_conflicts :: "ConflictStatement list"
  sc_confidence :: real
  sc_evidence_refs :: "EvidenceReference list"

record DecisionAlternativeOutput =
  ao_action :: string
  ao_rejection_reason :: string

record ExperimentProposal =
  xp_hypothesis :: string
  xp_baseline :: string
  xp_segment :: string
  xp_treatment :: string
  xp_metric :: string
  xp_window :: string
  xp_attribution_method :: string
  xp_success_threshold :: string
  xp_weak_signal_threshold :: string
  xp_failure_threshold :: string
  xp_next_action_on_success :: string
  xp_next_action_on_weak_signal :: string
  xp_next_action_on_failure :: string

record DecisionCandidate =
  dcd_goal :: string
  dcd_problem :: string
  dcd_selected_action :: string
  dcd_why :: "string list"
  dcd_evidence_refs :: "EvidenceReference list"
  dcd_alternatives :: "DecisionAlternativeOutput list"
  dcd_why_alternatives_not_selected :: "string list"
  dcd_hypotheses :: "Supposition list"
  dcd_assumptions :: "Supposition list"
  dcd_unknowns :: "UnknownStatement list"
  dcd_expected_effect :: string
  dcd_confidence :: real
  dcd_reversibility :: string
  dcd_risk_class :: RiskClass
  dcd_experiment_proposal :: "ExperimentProposal option"
  dcd_required_assets :: "string list"
  dcd_required_actions :: "string list"
  dcd_next_checkpoint :: string

record ControllerReviewOutput =
  co_controller_type :: string
  co_verdict :: ControllerVerdict
  co_issues :: "string list"
  co_required_changes :: "string list"
  co_severity :: RiskClass
  co_evidence_refs :: "EvidenceReference list"

section \<open>Dumps\<close>

abbreviation jstrs :: "string list \<Rightarrow> json" where
  "jstrs xs \<equiv> JList (map JStr xs)"

definition dump_evidence_ref :: "EvidenceReference \<Rightarrow> payload" where
  "dump_evidence_ref r =
    [(''evidence_id'', JStr (er_evidence_id r)), (''epistemic_status'', JStr (epistemic_value (er_epistemic_status r))),
     (''note'', JStr (er_note r))]"

definition dump_fact :: "FactUsage \<Rightarrow> payload" where
  "dump_fact f =
    [(''statement'', JStr (fu_statement f)), (''evidence_ref'', JStr (fu_evidence_ref f)),
     (''epistemic_status'', JStr (epistemic_value (fu_epistemic_status f)))]"

definition dump_supposition :: "Supposition \<Rightarrow> payload" where
  "dump_supposition h =
    [(''statement'', JStr (su_statement h)), (''evidence_ref'', opt_json (su_evidence_ref h)),
     (''confidence'', JFloat (su_confidence h))]"

definition dump_unknown :: "UnknownStatement \<Rightarrow> payload" where
  "dump_unknown u = [(''question'', JStr (us_question u)), (''critical'', JBool (us_critical u))]"

definition dump_conflict :: "ConflictStatement \<Rightarrow> payload" where
  "dump_conflict c = [(''statement'', JStr (cs_statement c)), (''evidence_refs'', jstrs (cs_evidence_refs c))]"

definition dump_specialist :: "SpecialistContribution \<Rightarrow> payload" where
  "dump_specialist c =
    [(''schema_name'', JStr ''SpecialistContribution''), (''schema_version'', JInt 1), (''role'', JStr (sc_role c)),
     (''observations'', jstrs (sc_observations c)),
     (''facts_used'', JList (map (\<lambda>f. JObj (dump_fact f)) (sc_facts_used c))),
     (''hypotheses'', JList (map (\<lambda>h. JObj (dump_supposition h)) (sc_hypotheses c))),
     (''assumptions'', JList (map (\<lambda>h. JObj (dump_supposition h)) (sc_assumptions c))),
     (''recommendations'', jstrs (sc_recommendations c)), (''risks'', jstrs (sc_risks c)),
     (''unknowns'', JList (map (\<lambda>u. JObj (dump_unknown u)) (sc_unknowns c))),
     (''conflicts'', JList (map (\<lambda>x. JObj (dump_conflict x)) (sc_conflicts c))),
     (''confidence'', JFloat (sc_confidence c)),
     (''evidence_refs'', JList (map (\<lambda>r. JObj (dump_evidence_ref r)) (sc_evidence_refs c)))]"

definition dump_alternative :: "DecisionAlternativeOutput \<Rightarrow> payload" where
  "dump_alternative a = [(''action'', JStr (ao_action a)), (''rejection_reason'', JStr (ao_rejection_reason a))]"

definition dump_experiment :: "ExperimentProposal \<Rightarrow> payload" where
  "dump_experiment x =
    [(''hypothesis'', JStr (xp_hypothesis x)), (''baseline'', JStr (xp_baseline x)), (''segment'', JStr (xp_segment x)),
     (''treatment'', JStr (xp_treatment x)), (''metric'', JStr (xp_metric x)), (''window'', JStr (xp_window x)),
     (''attribution_method'', JStr (xp_attribution_method x)),
     (''success_threshold'', JStr (xp_success_threshold x)),
     (''weak_signal_threshold'', JStr (xp_weak_signal_threshold x)),
     (''failure_threshold'', JStr (xp_failure_threshold x)),
     (''next_action_on_success'', JStr (xp_next_action_on_success x)),
     (''next_action_on_weak_signal'', JStr (xp_next_action_on_weak_signal x)),
     (''next_action_on_failure'', JStr (xp_next_action_on_failure x))]"

definition dump_candidate :: "DecisionCandidate \<Rightarrow> payload" where
  "dump_candidate c =
    [(''schema_name'', JStr ''DecisionCandidate''), (''schema_version'', JInt 1), (''goal'', JStr (dcd_goal c)),
     (''problem'', JStr (dcd_problem c)), (''selected_action'', JStr (dcd_selected_action c)),
     (''why'', jstrs (dcd_why c)),
     (''evidence_refs'', JList (map (\<lambda>r. JObj (dump_evidence_ref r)) (dcd_evidence_refs c))),
     (''alternatives'', JList (map (\<lambda>a. JObj (dump_alternative a)) (dcd_alternatives c))),
     (''why_alternatives_not_selected'', jstrs (dcd_why_alternatives_not_selected c)),
     (''hypotheses'', JList (map (\<lambda>h. JObj (dump_supposition h)) (dcd_hypotheses c))),
     (''assumptions'', JList (map (\<lambda>h. JObj (dump_supposition h)) (dcd_assumptions c))),
     (''unknowns'', JList (map (\<lambda>u. JObj (dump_unknown u)) (dcd_unknowns c))),
     (''expected_effect'', JStr (dcd_expected_effect c)), (''confidence'', JFloat (dcd_confidence c)),
     (''reversibility'', JStr (dcd_reversibility c)), (''risk_class'', JStr (risk_value (dcd_risk_class c))),
     (''experiment_proposal'', (case dcd_experiment_proposal c of None \<Rightarrow> JNull | Some x \<Rightarrow> JObj (dump_experiment x))),
     (''required_assets'', jstrs (dcd_required_assets c)), (''required_actions'', jstrs (dcd_required_actions c)),
     (''next_checkpoint'', JStr (dcd_next_checkpoint c))]"

section \<open>Declared constraints\<close>

definition confident :: "real \<Rightarrow> bool" where
  "confident x \<longleftrightarrow> 0 \<le> x \<and> x \<le> 1"

definition valid_evidence_ref :: "EvidenceReference \<Rightarrow> bool" where
  "valid_evidence_ref r \<longleftrightarrow> er_evidence_id r \<noteq> [] \<and> er_note r \<noteq> []"

text \<open>The validator \<open>_must_be_fact_like\<close> and the two lengths.\<close>

definition valid_fact :: "FactUsage \<Rightarrow> bool" where
  "valid_fact f \<longleftrightarrow> fu_statement f \<noteq> [] \<and> fu_evidence_ref f \<noteq> [] \<and>
     fu_epistemic_status f \<in> {OBSERVATION, FACT, DERIVED_FACT}"

definition valid_supposition :: "Supposition \<Rightarrow> bool" where
  "valid_supposition h \<longleftrightarrow> su_statement h \<noteq> [] \<and> confident (su_confidence h)"

text \<open>With the validator \<open>_evidence_refs_cover_facts\<close>.\<close>

definition valid_specialist :: "SpecialistContribution \<Rightarrow> bool" where
  "valid_specialist c \<longleftrightarrow>
     sc_role c \<noteq> [] \<and> sc_observations c \<noteq> [] \<and> list_all valid_fact (sc_facts_used c) \<and>
     list_all valid_supposition (sc_hypotheses c) \<and> list_all valid_supposition (sc_assumptions c) \<and>
     list_all (\<lambda>u. us_question u \<noteq> []) (sc_unknowns c) \<and>
     list_all (\<lambda>x. cs_statement x \<noteq> [] \<and> cs_evidence_refs x \<noteq> []) (sc_conflicts c) \<and>
     confident (sc_confidence c) \<and> list_all valid_evidence_ref (sc_evidence_refs c) \<and>
     list_all (\<lambda>f. fu_evidence_ref f \<in> set (map er_evidence_id (sc_evidence_refs c))) (sc_facts_used c)"

definition valid_experiment :: "ExperimentProposal \<Rightarrow> bool" where
  "valid_experiment x \<longleftrightarrow>
     [] \<notin> set [xp_hypothesis x, xp_baseline x, xp_segment x, xp_treatment x, xp_metric x, xp_window x,
       xp_attribution_method x, xp_success_threshold x, xp_weak_signal_threshold x, xp_failure_threshold x,
       xp_next_action_on_success x, xp_next_action_on_weak_signal x, xp_next_action_on_failure x]"

definition valid_candidate :: "DecisionCandidate \<Rightarrow> bool" where
  "valid_candidate c \<longleftrightarrow>
     dcd_goal c \<noteq> [] \<and> dcd_problem c \<noteq> [] \<and> dcd_selected_action c \<noteq> [] \<and> dcd_why c \<noteq> [] \<and>
     list_all valid_evidence_ref (dcd_evidence_refs c) \<and> dcd_alternatives c \<noteq> [] \<and>
     list_all (\<lambda>a. ao_action a \<noteq> [] \<and> ao_rejection_reason a \<noteq> []) (dcd_alternatives c) \<and>
     list_all valid_supposition (dcd_hypotheses c) \<and> list_all valid_supposition (dcd_assumptions c) \<and>
     list_all (\<lambda>u. us_question u \<noteq> []) (dcd_unknowns c) \<and> dcd_expected_effect c \<noteq> [] \<and>
     confident (dcd_confidence c) \<and> dcd_reversibility c \<noteq> [] \<and>
     (case dcd_experiment_proposal c of None \<Rightarrow> True | Some x \<Rightarrow> valid_experiment x) \<and>
     dcd_next_checkpoint c \<noteq> []"

definition valid_review :: "ControllerReviewOutput \<Rightarrow> bool" where
  "valid_review r \<longleftrightarrow> co_controller_type r \<noteq> [] \<and> list_all valid_evidence_ref (co_evidence_refs r)"

section \<open>Parsers\<close>

text \<open>\<open>Model.model_validate\<close>; the left result is the message of the \<open>ValidationError\<close>.\<close>

record workflow_env = agent_env +
  validate_specialist :: "payload \<Rightarrow> string + SpecialistContribution"
  validate_candidate :: "payload \<Rightarrow> string + DecisionCandidate"
  validate_review :: "payload \<Rightarrow> string + ControllerReviewOutput"

text \<open>
  What the workflow relies on: an object that was parsed satisfies what its class declares, and the
  dump of a candidate that was parsed parses to the same candidate.
\<close>

definition schemas_checked :: "'e workflow_env_scheme \<Rightarrow> bool" where
  "schemas_checked env \<longleftrightarrow>
     (\<forall>pl x. validate_specialist env pl = Inr x \<longrightarrow> valid_specialist x) \<and>
     (\<forall>pl c. validate_candidate env pl = Inr c \<longrightarrow> valid_candidate c) \<and>
     (\<forall>pl r. validate_review env pl = Inr r \<longrightarrow> valid_review r)"

definition dumps_parse :: "'e workflow_env_scheme \<Rightarrow> bool" where
  "dumps_parse env \<longleftrightarrow>
     (\<forall>pl c. validate_candidate env pl = Inr c \<longrightarrow> validate_candidate env (dump_candidate c) = Inr c)"

end
