(* ===== verification/Decision_Workflow.thy ===== *)
theory Decision_Workflow
  imports Agent_Schemas
begin

text \<open>
  The decision workflow (\<open>application/decision_workflow.py\<close>) and its guarded variant
  (\<open>application/decision_governance.py\<close>): specialists analyse a snapshot, the chief proposes a
  candidate, seven controllers review it, and the outcome of the reviews blocks it, sends it back for
  a bounded number of revisions or turns it into a decision that waits for the owner. Each advance is
  one job; the clock and \<open>utc_now\<close> give one reading \<open>now\<close>.
\<close>

section \<open>Rows\<close>

datatype DecisionCandidateStatus =
    CANDIDATE | UNDER_REVIEW | REVISION_REQUIRED | BLOCKED | ACCEPTED | MATERIALIZED

record specialist_contribution_row = scoped_row +
  sp_workflow_id :: string
  sp_snapshot_id :: string
  sp_agent_run_id :: string
  sp_contract_key :: string
  sp_contract_version :: int
  sp_instruction_version :: string
  sp_schema_version :: int
  sp_role :: string
  sp_payload :: payload
  sp_evidence_refs :: "payload list"
  sp_context_hash :: string
  sp_context_manifest :: payload
  sp_correlation_id :: "string option"
  sp_causation_id :: "string option"
  sp_created_at :: datetime

record decision_candidate_row = scoped_row +
  ca_workflow_id :: string
  ca_snapshot_id :: string
  ca_chief_agent_run_id :: string
  ca_previous_candidate_id :: "string option"
  ca_version_number :: int
  ca_revision_round :: int
  ca_status :: DecisionCandidateStatus
  ca_schema_version :: int
  ca_selected_action :: string
  ca_payload :: payload
  ca_evidence_refs :: "payload list"
  ca_specialist_contribution_ids :: "string list"
  ca_controller_review_ids :: "string list"
  ca_context_hash :: string
  ca_context_manifest :: payload
  ca_correlation_id :: "string option"
  ca_causation_id :: "string option"
  ca_created_at :: datetime

record decision_alternative_row = scoped_row +
  al_decision_id :: string
  al_action :: string
  al_rejection_reason :: string

record decision_approval_row = scoped_row +
  da_workflow_id :: string
  da_decision_id :: string
  da_candidate_id :: string
  da_action_type :: string
  da_object_type :: string
  da_object_id :: string
  da_object_version_id :: string
  da_object_version :: int
  da_approved_by_user_id :: string
  da_status :: ApprovalStatus
  da_correlation_id :: string
  da_causation_id :: "string option"
  da_created_at :: datetime

record workflow_store = business_store +
  specialist_contributions :: "specialist_contribution_row list"
  decision_candidates :: "decision_candidate_row list"
  decision_reviews :: "decision_review_row list"
  decision_alternatives :: "decision_alternative_row list"
  decision_approvals :: "decision_approval_row list"

abbreviation scope_of :: "'w decision_workflow_row_scheme \<Rightarrow> TenantScope" where
  "scope_of flow \<equiv> \<lparr>organization_id = org flow, business_id = biz flow\<rparr>"

definition update_workflow ::
  "decision_workflow_row \<Rightarrow> (decision_workflow_row \<Rightarrow> decision_workflow_row) \<Rightarrow> ('z workflow_store_scheme, unit) prog" where
  "update_workflow flow f =
     bnd (modify (\<lambda>s. s\<lparr>decision_workflows := row_set rid (rid flow) f (decision_workflows s)\<rparr>)) (\<lambda>_.
     touch (org flow) (biz flow))"

definition set_workflow_status ::
  "DecisionWorkflowStatus \<Rightarrow> decision_workflow_row \<Rightarrow> ('z workflow_store_scheme, unit) prog" where
  "set_workflow_status st flow = update_workflow flow (\<lambda>w. w\<lparr>dw_status := st\<rparr>)"

definition set_candidate_status ::
  "DecisionCandidateStatus \<Rightarrow> decision_candidate_row \<Rightarrow> ('z workflow_store_scheme, unit) prog" where
  "set_candidate_status st c =
     bnd (modify (\<lambda>s. s\<lparr>decision_candidates := row_set rid (rid c) (\<lambda>r. r\<lparr>ca_status := st\<rparr>) (decision_candidates s)\<rparr>)) (\<lambda>_.
     touch (org c) (biz c))"

text \<open>A read that may raise.\<close>

abbreviation query :: "('s \<Rightarrow> py_error + 'a) \<Rightarrow> ('s, 'a) prog" where
  "query f \<equiv> bnd (gets f) lift_sum"

section \<open>Accessors\<close>

definition specialist_contribution ::
  "decision_workflow_row \<Rightarrow> string \<Rightarrow> 'z workflow_store_scheme \<Rightarrow> specialist_contribution_row option" where
  "specialist_contribution flow key s =
     select_first (\<lambda>r. sp_workflow_id r = rid flow \<and> sp_contract_key r = key \<and> sp_contract_version r = 1)
       (specialist_contributions s)"

definition contributions_of ::
  "decision_workflow_row \<Rightarrow> 'z workflow_store_scheme \<Rightarrow> specialist_contribution_row list" where
  "contributions_of flow s = sort_key sp_contract_key (filter (\<lambda>r. sp_workflow_id r = rid flow) (specialist_contributions s))"

definition candidates_of ::
  "decision_workflow_row \<Rightarrow> 'z workflow_store_scheme \<Rightarrow> decision_candidate_row list" where
  "candidates_of flow s = filter (\<lambda>c. ca_workflow_id c = rid flow) (decision_candidates s)"

text \<open>\<open>ORDER BY version_number DESC LIMIT 1\<close>.\<close>

definition latest_candidate_or_none ::
  "decision_workflow_row \<Rightarrow> 'z workflow_store_scheme \<Rightarrow> decision_candidate_row option" where
  "latest_candidate_or_none flow s =
     select_first (\<lambda>_. True) (sort_key (\<lambda>c. - ca_version_number c) (candidates_of flow s))"

definition latest_candidate ::
  "decision_workflow_row \<Rightarrow> 'z workflow_store_scheme \<Rightarrow> py_error + decision_candidate_row" where
  "latest_candidate flow s =
    (case latest_candidate_or_none flow s of
       None \<Rightarrow> Inl (TransientJobError ''DecisionCandidate is not ready'') | Some c \<Rightarrow> Inr c)"

definition candidate_for_version ::
  "decision_workflow_row \<Rightarrow> int \<Rightarrow> 'z workflow_store_scheme \<Rightarrow> decision_candidate_row option" where
  "candidate_for_version flow v s =
    (if v < 1 then None else select_first (\<lambda>c. ca_version_number c = v) (candidates_of flow s))"

definition next_candidate_version :: "decision_workflow_row \<Rightarrow> 'z workflow_store_scheme \<Rightarrow> int" where
  "next_candidate_version flow s =
    (case map ca_version_number (candidates_of flow s) of [] \<Rightarrow> 0 | v # vs \<Rightarrow> fold max vs v) + 1"

definition reviews_of :: "decision_candidate_row \<Rightarrow> 'z workflow_store_scheme \<Rightarrow> decision_review_row list" where
  "reviews_of c s =
     sort_key (\<lambda>r. case dr_controller_type r of None \<Rightarrow> [] | Some t \<Rightarrow> t)
       (filter (\<lambda>r. dr_decision_candidate_id r = Some (rid c)) (decision_reviews s))"

definition enqueue_workflow_advance ::
  "decision_workflow_row \<Rightarrow> string \<Rightarrow> datetime \<Rightarrow> ('z workflow_store_scheme, job_row) prog" where
  "enqueue_workflow_advance flow suffix now =
     bnd (create_job (scope_of flow) JOB_TYPE_WORKFLOW_ADVANCE
            [(''workflow_id'', JStr (rid flow)), (''payload_schema_version'', JInt 1)] 1
            (''decision_workflow:'' @ rid flow @ '':advance:'' @ suffix) now 5 None
            (dw_correlation_id flow) (Some (rid flow))) (\<lambda>job.
     bnd (enqueue (rid job)) (\<lambda>_. ret job))"

section \<open>Evidence references\<close>

definition manifest_item_statuses :: "json \<Rightarrow> (string \<times> string) list" where
  "manifest_item_statuses item =
    (case item of
       JObj d \<Rightarrow>
        (case as_str (dict_get d ''epistemic_status'') of
           None \<Rightarrow> []
         | Some st \<Rightarrow>
             (case as_str (dict_get d ''provenance_ref'') of None \<Rightarrow> [] | Some p \<Rightarrow> [(p, st)]) @
             (case as_str (dict_get d ''source_object_id'') of
                Some i \<Rightarrow> if dict_get d ''source_object_type'' = Some (JStr ''evidence'') then [(i, st)] else []
              | None \<Rightarrow> []))
     | _ \<Rightarrow> [])"

text \<open>The assignments to the dictionary, in order; a later one wins.\<close>

definition manifest_evidence_ref_statuses :: "payload \<Rightarrow> (string \<times> string) list" where
  "manifest_evidence_ref_statuses manifest =
    (case dict_get manifest ''items'' of
       Some (JList items) \<Rightarrow> concat (map manifest_item_statuses items)
     | _ \<Rightarrow> [])"

definition snapshot_item_statuses :: "json \<Rightarrow> (string \<times> string) list" where
  "snapshot_item_statuses item =
    (case item of
       JObj d \<Rightarrow>
        (case (as_str (dict_get d ''id''), as_str (dict_get d ''status'')) of
           (Some i, Some st) \<Rightarrow> [(i, st)] | _ \<Rightarrow> [])
     | _ \<Rightarrow> [])"

definition snapshot_evidence_ref_statuses :: "payload \<Rightarrow> (string \<times> string) list" where
  "snapshot_evidence_ref_statuses pl =
    (case dict_get pl ''evidence'' of
       Some (JList items) \<Rightarrow> concat (map snapshot_item_statuses items)
     | _ \<Rightarrow> [])"

definition agent_run_evidence_ref_statuses ::
  "decision_workflow_row \<Rightarrow> agent_run_row \<Rightarrow> 'z workflow_store_scheme \<Rightarrow> py_error + (string \<rightharpoonup> string)" where
  "agent_run_evidence_ref_statuses flow run s =
    (case assert_matches (scope_of flow) (org run) (biz run) of
       Inl e \<Rightarrow> Inl e
     | Inr _ \<Rightarrow>
         let statuses = manifest_evidence_ref_statuses (ar_context_manifest run)
         in if (''business_snapshot:'' @ dw_snapshot_id flow) \<in> set (map fst statuses)
            then (case get_snapshot (scope_of flow) (dw_snapshot_id flow) s of
                    Inl e \<Rightarrow> Inl e
                  | Inr sn \<Rightarrow> Inr (map_of (rev (statuses @ snapshot_evidence_ref_statuses (sn_payload sn)))))
            else Inr (map_of (rev statuses)))"

fun check_refs :: "(string \<rightharpoonup> string) \<Rightarrow> EvidenceReference list \<Rightarrow> py_error + unit" where
  "check_refs statuses [] = Inr ()"
| "check_refs statuses (r # rs) =
    (case statuses (er_evidence_id r) of
       None \<Rightarrow> Inl (PermanentJobError (''unsupported evidence reference: '' @ er_evidence_id r))
     | Some st \<Rightarrow>
         if st \<noteq> epistemic_value (er_epistemic_status r)
         then Inl (PermanentJobError ''evidence reference epistemic status mismatch'')
         else check_refs statuses rs)"

definition validate_evidence_refs ::
  "decision_workflow_row \<Rightarrow> agent_run_row \<Rightarrow> EvidenceReference list \<Rightarrow> 'z workflow_store_scheme \<Rightarrow> py_error + unit" where
  "validate_evidence_refs flow run refs s =
    (case agent_run_evidence_ref_statuses flow run s of Inl e \<Rightarrow> Inl e | Inr statuses \<Rightarrow> check_refs statuses refs)"

section \<open>Agent runs of a workflow\<close>

definition runs_for ::
  "decision_workflow_row \<Rightarrow> string \<Rightarrow> string \<Rightarrow> 'z agent_store_scheme \<Rightarrow> agent_run_row list" where
  "runs_for flow key input_ref s =
     rev (sort_key (\<lambda>r. (ar_created_at r, rid r))
       (filter (\<lambda>r. org r = org flow \<and> biz r = biz flow \<and> ar_contract_key r = key \<and>
          ar_contract_version r = 1 \<and> ar_input_ref r = Some input_ref) (agent_runs s)))"

definition run_generation :: "decision_workflow_row \<Rightarrow> string list \<Rightarrow> 'z agent_store_scheme \<Rightarrow> nat" where
  "run_generation flow input_refs s =
     length (filter (\<lambda>r. org r = org flow \<and> biz r = biz flow \<and> ar_input_ref r \<in> Some ` set input_refs) (agent_runs s))"

definition pending :: "agent_run_row \<Rightarrow> bool" where
  "pending r \<longleftrightarrow> ar_status r \<in> {AgentRunStatus.QUEUED, AgentRunStatus.RUNNING, AgentRunStatus.RETRY_WAIT}"

definition MAX_OUTPUT_ATTEMPTS :: nat where
  "MAX_OUTPUT_ATTEMPTS = 3"

text \<open>What \<open>except (PermanentJobError, ValidationError)\<close> around the checks of a run makes of them.\<close>

definition is_permanent :: "py_error \<Rightarrow> bool" where
  "is_permanent e =
    (case e of PermanentJobError _ \<Rightarrow> True | SecretRejectedError _ \<Rightarrow> True
     | OtherError c _ \<Rightarrow> c \<in> {''AIContractError'', ''AIConfigurationError'', ''AIContextError'',
         ''AIInvalidOutputError'', ''AIPermanentProviderError''}
     | _ \<Rightarrow> False)"

definition permanent_means_no :: "py_error + unit \<Rightarrow> py_error + bool" where
  "permanent_means_no r = (case r of Inr _ \<Rightarrow> Inr True | Inl e \<Rightarrow> if is_permanent e then Inr False else Inl e)"

text \<open>\<open>for run in runs: if ...: return run\<close>, where the test may raise.\<close>

fun first_run :: "(agent_run_row \<Rightarrow> py_error + bool) \<Rightarrow> agent_run_row list \<Rightarrow> py_error + agent_run_row option" where
  "first_run can [] = Inr None"
| "first_run can (r # rs) =
    (case can r of Inl e \<Rightarrow> Inl e | Inr ok \<Rightarrow> if ok then Inr (Some r) else first_run can rs)"

datatype run_state = Pending | Ready | Create

definition run_state_of ::
  "(agent_run_row \<Rightarrow> py_error + bool) \<Rightarrow> string \<Rightarrow> agent_run_row list \<Rightarrow> py_error + run_state" where
  "run_state_of can limit_message runs =
    (if list_ex pending runs then Inr Pending
     else case first_run can runs of
         Inl e \<Rightarrow> Inl e
       | Inr (Some _) \<Rightarrow> Inr Ready
       | Inr None \<Rightarrow>
           if MAX_OUTPUT_ATTEMPTS \<le> length runs then Inl (PermanentJobError limit_message) else Inr Create)"

definition agent_run_of ::
  "(agent_run_row \<Rightarrow> py_error + bool) \<Rightarrow> string \<Rightarrow> string \<Rightarrow> agent_run_row list \<Rightarrow> py_error + agent_run_row" where
  "agent_run_of can not_ready_message limit_message runs =
    (case first_run can runs of
       Inl e \<Rightarrow> Inl e
     | Inr (Some r) \<Rightarrow> Inr r
     | Inr None \<Rightarrow>
         if list_ex pending runs then Inl (TransientJobError not_ready_message)
         else if MAX_OUTPUT_ATTEMPTS \<le> length runs then Inl (PermanentJobError limit_message)
         else Inl (TransientJobError not_ready_message))"

definition next_run_key :: "string \<Rightarrow> agent_run_row list \<Rightarrow> string" where
  "next_run_key base_key runs =
    (if runs = [] then base_key else base_key @ '':retry:'' @ show_nat (length runs + 1))"

definition required_context_hash :: "agent_run_row \<Rightarrow> py_error + string" where
  "required_context_hash run =
    (case ar_context_hash run of
       Some h \<Rightarrow> if h \<noteq> [] then Inr h else Inl (PermanentJobError ''AgentRun missing required context_hash'')
     | None \<Rightarrow> Inl (PermanentJobError ''AgentRun missing required context_hash''))"

definition definition_for_run :: "agent_run_row \<Rightarrow> 'z workflow_store_scheme \<Rightarrow> py_error + agent_definition_row" where
  "definition_for_run run s =
    (case row_get rid (ar_agent_definition_id run) (agent_definitions s) of
       None \<Rightarrow> Inl (PermanentJobError ''AgentRun missing AgentDefinition'') | Some d \<Rightarrow> Inr d)"

subsection \<open>Specialists\<close>

definition specialist_run_input_ref :: "decision_workflow_row \<Rightarrow> string \<Rightarrow> string" where
  "specialist_run_input_ref flow key = ''decision_workflow:'' @ rid flow @ '':specialist:'' @ key"

definition specialist_agent_runs ::
  "decision_workflow_row \<Rightarrow> string \<Rightarrow> 'z workflow_store_scheme \<Rightarrow> agent_run_row list" where
  "specialist_agent_runs flow key s = runs_for flow key (specialist_run_input_ref flow key) s"

definition specialist_run_can_materialize ::
  "'e workflow_env_scheme \<Rightarrow> decision_workflow_row \<Rightarrow> 'z workflow_store_scheme \<Rightarrow> agent_run_row \<Rightarrow> py_error + bool" where
  "specialist_run_can_materialize env flow s run =
    (case (ar_status run, ar_output_data run) of
       (AgentRunStatus.SUCCEEDED, Some d) \<Rightarrow>
        (case validate_specialist env d of
           Inl _ \<Rightarrow> Inr False
         | Inr output \<Rightarrow> permanent_means_no (validate_evidence_refs flow run (sc_evidence_refs output) s))
     | _ \<Rightarrow> Inr False)"

definition specialist_run_state ::
  "'e workflow_env_scheme \<Rightarrow> decision_workflow_row \<Rightarrow> string \<Rightarrow> 'z workflow_store_scheme \<Rightarrow> py_error + run_state" where
  "specialist_run_state env flow key s =
     run_state_of (specialist_run_can_materialize env flow s) ''SpecialistContribution output retry limit exceeded''
       (specialist_agent_runs flow key s)"

definition specialist_agent_run ::
  "'e workflow_env_scheme \<Rightarrow> decision_workflow_row \<Rightarrow> string \<Rightarrow> 'z workflow_store_scheme \<Rightarrow> py_error + agent_run_row" where
  "specialist_agent_run env flow key s =
     agent_run_of (specialist_run_can_materialize env flow s) (''specialist run is not ready: '' @ key)
       ''SpecialistContribution output retry limit exceeded'' (specialist_agent_runs flow key s)"

definition next_specialist_run_idempotency_key ::
  "decision_workflow_row \<Rightarrow> string \<Rightarrow> 'z workflow_store_scheme \<Rightarrow> string" where
  "next_specialist_run_idempotency_key flow key s =
     next_run_key (specialist_run_input_ref flow key) (specialist_agent_runs flow key s)"

definition specialist_run_generation :: "decision_workflow_row \<Rightarrow> 'z workflow_store_scheme \<Rightarrow> nat" where
  "specialist_run_generation flow s =
     run_generation flow (map (specialist_run_input_ref flow) SPECIALIST_CONTRACT_KEYS) s"

text \<open>
  The loop over contract keys: a key that is not ready counts; a missing run is created. The result is
  the number of keys that are not ready.
\<close>

primrec count_not_ready ::
  "(string \<Rightarrow> 's \<Rightarrow> py_error + run_state) \<Rightarrow> (string \<Rightarrow> ('s, unit) prog) \<Rightarrow> string list \<Rightarrow> ('s, nat) prog" where
  "count_not_ready state_of create [] = ret 0"
| "count_not_ready state_of create (key # keys) =
     bnd (query (state_of key)) (\<lambda>st.
     bnd (if st = Create then create key else ret ()) (\<lambda>_.
     bnd (count_not_ready state_of create keys) (\<lambda>n.
     ret (if st = Ready then n else Suc n))))"

definition create_specialist_run ::
  "'e workflow_env_scheme \<Rightarrow> agent_registry \<Rightarrow> decision_workflow_row \<Rightarrow> datetime \<Rightarrow> string
     \<Rightarrow> ('z workflow_store_scheme, unit) prog" where
  "create_specialist_run env reg flow now key =
     bnd (gets (next_specialist_run_idempotency_key flow key)) (\<lambda>idem.
     bnd (create_agent_run env reg (scope_of flow) key 1 (Some (specialist_run_input_ref flow key))
            [\<lparr>cr_object_type = ''business_snapshot'', cr_object_id = dw_snapshot_id flow\<rparr>]
            (dw_correlation_id flow) (Some (rid flow)) JOB_TYPE_AI_RUN_AGENT (Some idem) now) (\<lambda>_.
     ret ()))"

definition ensure_specialist_runs ::
  "'e workflow_env_scheme \<Rightarrow> agent_registry \<Rightarrow> decision_workflow_row \<Rightarrow> datetime
     \<Rightarrow> ('z workflow_store_scheme, nat) prog" where
  "ensure_specialist_runs env reg flow now =
     count_not_ready (specialist_run_state env flow) (create_specialist_run env reg flow now) SPECIALIST_CONTRACT_KEYS"

definition specialist_row ::
  "decision_workflow_row \<Rightarrow> agent_run_row \<Rightarrow> agent_definition_row \<Rightarrow> SpecialistContribution \<Rightarrow> string \<Rightarrow> datetime
     \<Rightarrow> string \<Rightarrow> specialist_contribution_row" where
  "specialist_row flow run d output hsh now i =
     \<lparr>rid = i, org = org flow, biz = biz flow, sp_workflow_id = rid flow, sp_snapshot_id = dw_snapshot_id flow,
      sp_agent_run_id = rid run, sp_contract_key = ar_contract_key run, sp_contract_version = ar_contract_version run,
      sp_instruction_version = ad_instruction_version d, sp_schema_version = 1, sp_role = sc_role output,
      sp_payload = dump_specialist output, sp_evidence_refs = map dump_evidence_ref (sc_evidence_refs output),
      sp_context_hash = hsh, sp_context_manifest = ar_context_manifest run,
      sp_correlation_id = ar_correlation_id run, sp_causation_id = ar_causation_id run, sp_created_at = now\<rparr>"

definition materialize_specialist_contribution ::
  "'e workflow_env_scheme \<Rightarrow> decision_workflow_row \<Rightarrow> datetime \<Rightarrow> string \<Rightarrow> ('z workflow_store_scheme, unit) prog" where
  "materialize_specialist_contribution env flow now key =
     bnd (gets (specialist_contribution flow key)) (\<lambda>existing.
     if existing \<noteq> None then ret () else
     bnd (query (specialist_agent_run env flow key)) (\<lambda>run.
     bnd (required (if ar_status run = AgentRunStatus.SUCCEEDED then ar_output_data run else None)
           (TransientJobError (''specialist run is not ready: '' @ key))) (\<lambda>data.
     bnd (lift_sum (case validate_specialist env data of
            Inl _ \<Rightarrow> Inl (PermanentJobError ''specialist output failed schema validation'')
          | Inr output \<Rightarrow> Inr output)) (\<lambda>output.
     bnd (query (validate_evidence_refs flow run (sc_evidence_refs output))) (\<lambda>_.
     bnd (query (definition_for_run run)) (\<lambda>d.
     bnd new_id (\<lambda>i.
     bnd (lift_sum (required_context_hash run)) (\<lambda>hsh.
     bnd (modify (\<lambda>s. s\<lparr>specialist_contributions := specialist_contributions s @
            [specialist_row flow run d output hsh now i]\<rparr>)) (\<lambda>_.
     flush)))))))))"

definition materialize_specialist_contributions ::
  "'e workflow_env_scheme \<Rightarrow> decision_workflow_row \<Rightarrow> datetime \<Rightarrow> ('z workflow_store_scheme, unit) prog" where
  "materialize_specialist_contributions env flow now =
     foreach SPECIALIST_CONTRACT_KEYS (materialize_specialist_contribution env flow now)"

subsection \<open>The chief\<close>

definition chief_run_input_ref :: "decision_workflow_row \<Rightarrow> int \<Rightarrow> string" where
  "chief_run_input_ref flow v = ''decision_workflow:'' @ rid flow @ '':chief:v'' @ show_int v"

definition chief_agent_runs ::
  "decision_workflow_row \<Rightarrow> int \<Rightarrow> 'z workflow_store_scheme \<Rightarrow> agent_run_row list" where
  "chief_agent_runs flow v s = runs_for flow CHIEF_GROWTH_PRODUCER_CONTRACT_KEY (chief_run_input_ref flow v) s"

definition chief_run_can_materialize ::
  "'e workflow_env_scheme \<Rightarrow> decision_workflow_row \<Rightarrow> 'z workflow_store_scheme \<Rightarrow> agent_run_row \<Rightarrow> py_error + bool" where
  "chief_run_can_materialize env flow s run =
    (case (ar_status run, ar_output_data run) of
       (AgentRunStatus.SUCCEEDED, Some d) \<Rightarrow>
        (case validate_candidate env d of
           Inl _ \<Rightarrow> Inr False
         | Inr output \<Rightarrow>
             if strip (dcd_selected_action output) = [] then Inr False
             else permanent_means_no (validate_evidence_refs flow run (dcd_evidence_refs output) s))
     | _ \<Rightarrow> Inr False)"

definition chief_run_state ::
  "'e workflow_env_scheme \<Rightarrow> decision_workflow_row \<Rightarrow> int \<Rightarrow> 'z workflow_store_scheme \<Rightarrow> py_error + run_state" where
  "chief_run_state env flow v s =
     run_state_of (chief_run_can_materialize env flow s) ''DecisionCandidate output retry limit exceeded''
       (chief_agent_runs flow v s)"

definition chief_agent_run ::
  "'e workflow_env_scheme \<Rightarrow> decision_workflow_row \<Rightarrow> int \<Rightarrow> 'z workflow_store_scheme \<Rightarrow> py_error + agent_run_row" where
  "chief_agent_run env flow v s =
     agent_run_of (chief_run_can_materialize env flow s) ''chief run is not ready''
       ''DecisionCandidate output retry limit exceeded'' (chief_agent_runs flow v s)"

definition next_chief_run_idempotency_key ::
  "decision_workflow_row \<Rightarrow> int \<Rightarrow> 'z workflow_store_scheme \<Rightarrow> string" where
  "next_chief_run_idempotency_key flow v s =
     next_run_key (chief_run_input_ref flow v) (chief_agent_runs flow v s)"

definition chief_run_generation :: "decision_workflow_row \<Rightarrow> int \<Rightarrow> 'z workflow_store_scheme \<Rightarrow> nat" where
  "chief_run_generation flow v s = run_generation flow [chief_run_input_ref flow v] s"

definition chief_context_refs ::
  "decision_workflow_row \<Rightarrow> decision_candidate_row option \<Rightarrow> decision_review_row list \<Rightarrow> 'z workflow_store_scheme
     \<Rightarrow> ContextReference list" where
  "chief_context_refs flow previous reviews s =
     [\<lparr>cr_object_type = ''business_snapshot'', cr_object_id = dw_snapshot_id flow\<rparr>] @
     map (\<lambda>r. \<lparr>cr_object_type = ''specialist_contribution'', cr_object_id = rid r\<rparr>) (contributions_of flow s) @
     (case previous of None \<Rightarrow> [] | Some c \<Rightarrow> [\<lparr>cr_object_type = ''decision_candidate'', cr_object_id = rid c\<rparr>]) @
     map (\<lambda>r. \<lparr>cr_object_type = ''controller_review'', cr_object_id = rid r\<rparr>) reviews"

definition ensure_chief_run ::
  "'e workflow_env_scheme \<Rightarrow> agent_registry \<Rightarrow> decision_workflow_row \<Rightarrow> decision_candidate_row option
     \<Rightarrow> decision_review_row list \<Rightarrow> datetime \<Rightarrow> ('z workflow_store_scheme, nat) prog" where
  "ensure_chief_run env reg flow previous reviews now =
     bnd (gets (next_candidate_version flow)) (\<lambda>v.
     bnd (query (chief_run_state env flow v)) (\<lambda>st.
     if st = Ready then ret 0
     else if st = Pending then ret 1
     else
       bnd (gets (\<lambda>s. if previous = None \<and> reviews = []
              then (case candidate_for_version flow (v - 1) s of
                      None \<Rightarrow> (None, []) | Some c \<Rightarrow> (Some c, reviews_of c s))
              else (previous, reviews))) (\<lambda>(previous_candidate, its_reviews).
       bnd (gets (chief_context_refs flow previous_candidate its_reviews)) (\<lambda>refs.
       bnd (gets (next_chief_run_idempotency_key flow v)) (\<lambda>idem.
       bnd (create_agent_run env reg (scope_of flow) CHIEF_GROWTH_PRODUCER_CONTRACT_KEY 1
              (Some (chief_run_input_ref flow v)) refs (dw_correlation_id flow) (Some (rid flow))
              JOB_TYPE_AI_RUN_AGENT (Some idem) now) (\<lambda>_.
       ret 1))))))"

definition candidate_row ::
  "decision_workflow_row \<Rightarrow> agent_run_row \<Rightarrow> DecisionCandidate \<Rightarrow> int \<Rightarrow> decision_candidate_row option \<Rightarrow> string list
     \<Rightarrow> string \<Rightarrow> datetime \<Rightarrow> string \<Rightarrow> decision_candidate_row" where
  "candidate_row flow run output v previous contribution_ids hsh now i =
     \<lparr>rid = i, org = org flow, biz = biz flow, ca_workflow_id = rid flow, ca_snapshot_id = dw_snapshot_id flow,
      ca_chief_agent_run_id = rid run, ca_previous_candidate_id = map_option rid previous, ca_version_number = v,
      ca_revision_round = dw_revision_count flow, ca_status = CANDIDATE, ca_schema_version = 1,
      ca_selected_action = dcd_selected_action output, ca_payload = dump_candidate output,
      ca_evidence_refs = map dump_evidence_ref (dcd_evidence_refs output),
      ca_specialist_contribution_ids = contribution_ids, ca_controller_review_ids = [], ca_context_hash = hsh,
      ca_context_manifest = ar_context_manifest run, ca_correlation_id = ar_correlation_id run,
      ca_causation_id = ar_causation_id run, ca_created_at = now\<rparr>"

definition materialize_candidate ::
  "'e workflow_env_scheme \<Rightarrow> decision_workflow_row \<Rightarrow> datetime \<Rightarrow> ('z workflow_store_scheme, decision_candidate_row) prog" where
  "materialize_candidate env flow now =
     bnd (gets (next_candidate_version flow)) (\<lambda>v.
     bnd (gets (\<lambda>s. select_first (\<lambda>c. ca_version_number c = v) (candidates_of flow s))) (\<lambda>existing.
     case existing of
       Some c \<Rightarrow> ret c
     | None \<Rightarrow>
         bnd (query (chief_agent_run env flow v)) (\<lambda>run.
         bnd (required (if ar_status run = AgentRunStatus.SUCCEEDED then ar_output_data run else None)
               (TransientJobError ''chief run is not ready'')) (\<lambda>data.
         bnd (lift_sum (case validate_candidate env data of
                Inl _ \<Rightarrow> Inl (PermanentJobError ''DecisionCandidate output failed schema validation'')
              | Inr output \<Rightarrow> Inr output)) (\<lambda>output.
         bnd (require (strip (dcd_selected_action output) \<noteq> [])
               (PermanentJobError ''DecisionCandidate selected_action is required'')) (\<lambda>_.
         bnd (query (validate_evidence_refs flow run (dcd_evidence_refs output))) (\<lambda>_.
         bnd (gets (latest_candidate_or_none flow)) (\<lambda>previous.
         bnd (gets (\<lambda>s. map rid (contributions_of flow s))) (\<lambda>contribution_ids.
         bnd new_id (\<lambda>i.
         bnd (lift_sum (required_context_hash run)) (\<lambda>hsh.
         let row = candidate_row flow run output v previous contribution_ids hsh now i
         in bnd (modify (\<lambda>s. s\<lparr>decision_candidates := decision_candidates s @ [row]\<rparr>)) (\<lambda>_.
            bnd flush (\<lambda>_. ret row)))))))))))))"

subsection \<open>Controllers\<close>

definition CONTROLLER_TYPE_ALIASES :: "(string \<times> string list) list" where
  "CONTROLLER_TYPE_ALIASES =
    [(''evidence'', [''evidence'', ''evidencecontroller'', ''evidencecontrollerreview'']),
     (''strategy_red_team'', [''strategyredteam'', ''strategyredteamcontroller'', ''strategyredteamreview'']),
     (''constitutional'', [''constitutional'', ''constitutionalcontroller'', ''constitutionalcontrollerreview'']),
     (''decision_quality'', [''decisionquality'', ''decisionqualitycontroller'', ''decisionqualitycontrollerreview'']),
     (''economics'', [''economics'', ''economicscontroller'', ''economicscontrollerreview'']),
     (''manipulation'', [''manipulation'', ''manipulationcontroller'', ''manipulationcontrollerreview'']),
     (''anti_analysis_paralysis'', [''antianalysisparalysis'', ''antianalysisparalysiscontroller'',
        ''antianalysisparalysiscontrollerreview''])]"

text \<open>\<open>str.isalnum\<close> on the characters of the text model.\<close>

definition is_alnum :: "char \<Rightarrow> bool" where
  "is_alnum c =
    (let n = of_char c :: nat in
     48 \<le> n \<and> n \<le> 57 \<or> 65 \<le> n \<and> n \<le> 90 \<or> 97 \<le> n \<and> n \<le> 122 \<or>
     n \<in> {170, 178, 179, 181, 185, 186, 188, 189, 190} \<or> 192 \<le> n \<and> n \<noteq> 215 \<and> n \<noteq> 247)"

definition controller_type_token :: "string \<Rightarrow> string" where
  "controller_type_token v = filter is_alnum (lower v)"

definition assert_controller_type_matches_contract :: "string \<Rightarrow> string \<Rightarrow> py_error + unit" where
  "assert_controller_type_matches_contract expected given =
    (case map_of CONTROLLER_TYPE_ALIASES expected of
       None \<Rightarrow> Inl (PermanentJobError ''unknown controller contract type'')
     | Some aliases \<Rightarrow>
         if controller_type_token given \<notin> set aliases
         then Inl (PermanentJobError ''ControllerReview controller_type does not match contract'')
         else Inr ())"

text \<open>The coarse scan of \<open>decision_workflow.py\<close>: any business term together with any worth term.\<close>

definition mentions_human_worth :: "payload \<Rightarrow> bool" where
  "mentions_human_worth pl =
    (let t = lower (join_with '' '' (strings (JObj pl)))
     in any_in [''sales'', ''conversion'', ''price'', ''non-purchase'', ''discipline'', ''revenue''] t \<and>
        any_in [''human value'', ''worth'', ''rank'', ''not ready'', ''readiness'', ''correctness''] t)"

definition validate_controller_verdict ::
  "string \<Rightarrow> decision_candidate_row \<Rightarrow> ControllerReviewOutput \<Rightarrow> py_error + unit" where
  "validate_controller_verdict ctype candidate output =
    (if ctype = ''constitutional'' \<and> mentions_human_worth (ca_payload candidate) \<and> co_verdict output \<noteq> BLOCK
     then Inl (PermanentJobError ''Constitutional Controller must BLOCK human-worth violations'')
     else if ctype = ''evidence'' \<and> co_evidence_refs output = []
     then Inl (PermanentJobError ''Evidence Controller must include evidence_refs'')
     else Inr ())"

definition controller_run_input_ref :: "decision_workflow_row \<Rightarrow> decision_candidate_row \<Rightarrow> string \<Rightarrow> string" where
  "controller_run_input_ref flow candidate key =
     ''decision_workflow:'' @ rid flow @ '':candidate:'' @ show_int (ca_version_number candidate) @ '':'' @ key"

definition controller_agent_runs ::
  "decision_workflow_row \<Rightarrow> decision_candidate_row \<Rightarrow> string \<Rightarrow> 'z workflow_store_scheme \<Rightarrow> agent_run_row list" where
  "controller_agent_runs flow candidate key s = runs_for flow key (controller_run_input_ref flow candidate key) s"

text \<open>The three checks of a review, in the order in which they raise.\<close>

definition review_checks ::
  "decision_workflow_row \<Rightarrow> decision_candidate_row \<Rightarrow> string \<Rightarrow> agent_run_row \<Rightarrow> ControllerReviewOutput
     \<Rightarrow> 'z workflow_store_scheme \<Rightarrow> py_error + unit" where
  "review_checks flow candidate ctype run output s =
    (case assert_controller_type_matches_contract ctype (co_controller_type output) of
       Inl e \<Rightarrow> Inl e
     | Inr _ \<Rightarrow>
        (case validate_evidence_refs flow run (co_evidence_refs output) s of
           Inl e \<Rightarrow> Inl e
         | Inr _ \<Rightarrow> validate_controller_verdict ctype candidate output))"

definition controller_run_can_materialize ::
  "'e workflow_env_scheme \<Rightarrow> decision_workflow_row \<Rightarrow> decision_candidate_row \<Rightarrow> string \<Rightarrow> 'z workflow_store_scheme
     \<Rightarrow> agent_run_row \<Rightarrow> py_error + bool" where
  "controller_run_can_materialize env flow candidate ctype s run =
    (case (ar_status run, ar_output_data run) of
       (AgentRunStatus.SUCCEEDED, Some d) \<Rightarrow>
        (case validate_review env d of
           Inl _ \<Rightarrow> Inr False
         | Inr output \<Rightarrow> permanent_means_no (review_checks flow candidate ctype run output s))
     | _ \<Rightarrow> Inr False)"

abbreviation controller_type_of :: "string \<Rightarrow> string" where
  "controller_type_of key \<equiv> removeprefix ''ai.controller.'' key"

definition controller_run_state ::
  "'e workflow_env_scheme \<Rightarrow> decision_workflow_row \<Rightarrow> decision_candidate_row \<Rightarrow> string \<Rightarrow> 'z workflow_store_scheme
     \<Rightarrow> py_error + run_state" where
  "controller_run_state env flow candidate key s =
     run_state_of (controller_run_can_materialize env flow candidate (controller_type_of key) s)
       ''ControllerReview output retry limit exceeded'' (controller_agent_runs flow candidate key s)"

definition controller_agent_run ::
  "'e workflow_env_scheme \<Rightarrow> decision_workflow_row \<Rightarrow> decision_candidate_row \<Rightarrow> string \<Rightarrow> 'z workflow_store_scheme
     \<Rightarrow> py_error + agent_run_row" where
  "controller_agent_run env flow candidate key s =
     agent_run_of (controller_run_can_materialize env flow candidate (controller_type_of key) s)
       (''controller run is not ready: '' @ controller_type_of key)
       ''ControllerReview output retry limit exceeded'' (controller_agent_runs flow candidate key s)"

definition next_controller_run_idempotency_key ::
  "decision_workflow_row \<Rightarrow> decision_candidate_row \<Rightarrow> string \<Rightarrow> 'z workflow_store_scheme \<Rightarrow> string" where
  "next_controller_run_idempotency_key flow candidate key s =
     next_run_key (controller_run_input_ref flow candidate key) (controller_agent_runs flow candidate key s)"

definition controller_run_generation ::
  "decision_workflow_row \<Rightarrow> decision_candidate_row \<Rightarrow> 'z workflow_store_scheme \<Rightarrow> nat" where
  "controller_run_generation flow candidate s =
     run_generation flow (map (controller_run_input_ref flow candidate) REQUIRED_CONTROLLER_CONTRACT_KEYS) s"

definition create_controller_run ::
  "'e workflow_env_scheme \<Rightarrow> agent_registry \<Rightarrow> decision_workflow_row \<Rightarrow> decision_candidate_row \<Rightarrow> datetime \<Rightarrow> string
     \<Rightarrow> ('z workflow_store_scheme, unit) prog" where
  "create_controller_run env reg flow candidate now key =
     bnd (gets (next_controller_run_idempotency_key flow candidate key)) (\<lambda>idem.
     bnd (create_agent_run env reg (scope_of flow) key 1 (Some (controller_run_input_ref flow candidate key))
            [\<lparr>cr_object_type = ''business_snapshot'', cr_object_id = dw_snapshot_id flow\<rparr>,
             \<lparr>cr_object_type = ''decision_candidate'', cr_object_id = rid candidate\<rparr>]
            (dw_correlation_id flow) (Some (rid candidate)) JOB_TYPE_AI_RUN_CONTROLLER (Some idem) now) (\<lambda>_.
     ret ()))"

definition ensure_controller_runs ::
  "'e workflow_env_scheme \<Rightarrow> agent_registry \<Rightarrow> decision_workflow_row \<Rightarrow> decision_candidate_row \<Rightarrow> datetime
     \<Rightarrow> ('z workflow_store_scheme, nat) prog" where
  "ensure_controller_runs env reg flow candidate now =
     count_not_ready (controller_run_state env flow candidate) (create_controller_run env reg flow candidate now)
       REQUIRED_CONTROLLER_CONTRACT_KEYS"

text \<open>\<open>"; ".join(output.issues or output.required_changes or [output.verdict.value])\<close>.\<close>

definition review_reason :: "ControllerReviewOutput \<Rightarrow> string" where
  "review_reason output =
     join_with ''; '' (if co_issues output \<noteq> [] then co_issues output
       else if co_required_changes output \<noteq> [] then co_required_changes output
       else [verdict_value (co_verdict output)])"

definition review_row ::
  "decision_workflow_row \<Rightarrow> decision_candidate_row \<Rightarrow> string \<Rightarrow> agent_run_row \<Rightarrow> agent_definition_row
     \<Rightarrow> ControllerReviewOutput \<Rightarrow> string \<Rightarrow> string \<Rightarrow> decision_review_row" where
  "review_row flow candidate ctype run d output hsh i =
     \<lparr>rid = i, org = org flow, biz = biz flow, dr_decision_id = None, dr_asset_version_id = None,
      dr_controller_name = co_controller_type output, dr_verdict = verdict_value (co_verdict output),
      dr_reason = review_reason output, dr_decision_candidate_id = Some (rid candidate),
      dr_agent_run_id = Some (rid run), dr_snapshot_id = Some (dw_snapshot_id flow), dr_controller_type = Some ctype,
      dr_contract_key = Some (ar_contract_key run), dr_contract_version = Some (ar_contract_version run),
      dr_instruction_version = Some (ad_instruction_version d), dr_output_schema_version = Some 1,
      dr_context_hash = Some hsh, dr_context_manifest = ar_context_manifest run,
      dr_severity = Some (risk_value (co_severity output)), dr_issues = co_issues output,
      dr_required_changes = co_required_changes output,
      dr_evidence_refs = map dump_evidence_ref (co_evidence_refs output),
      dr_conditions = (if co_verdict output = PASS_WITH_CONDITIONS then co_required_changes output else []),
      dr_correlation_id = ar_correlation_id run, dr_causation_id = ar_causation_id run\<rparr>"

definition materialize_controller_review ::
  "'e workflow_env_scheme \<Rightarrow> decision_workflow_row \<Rightarrow> decision_candidate_row \<Rightarrow> string
     \<Rightarrow> ('z workflow_store_scheme, decision_review_row) prog" where
  "materialize_controller_review env flow candidate key =
     (let ctype = controller_type_of key in
     bnd (gets (\<lambda>s. select_first (\<lambda>r. dr_decision_candidate_id r = Some (rid candidate) \<and>
            dr_controller_type r = Some ctype) (decision_reviews s))) (\<lambda>existing.
     case existing of
       Some r \<Rightarrow> ret r
     | None \<Rightarrow>
         bnd (query (controller_agent_run env flow candidate key)) (\<lambda>run.
         bnd (required (if ar_status run = AgentRunStatus.SUCCEEDED then ar_output_data run else None)
               (TransientJobError (''controller run is not ready: '' @ ctype))) (\<lambda>data.
         bnd (lift_sum (case validate_review env data of
                Inl _ \<Rightarrow> Inl (PermanentJobError ''ControllerReview output failed schema validation'')
              | Inr output \<Rightarrow> Inr output)) (\<lambda>output.
         bnd (query (review_checks flow candidate ctype run output)) (\<lambda>_.
         bnd (query (definition_for_run run)) (\<lambda>d.
         bnd new_id (\<lambda>i.
         bnd (lift_sum (required_context_hash run)) (\<lambda>hsh.
         let row = review_row flow candidate ctype run d output hsh i
         in bnd (modify (\<lambda>s. s\<lparr>decision_reviews := decision_reviews s @ [row]\<rparr>)) (\<lambda>_.
            bnd flush (\<lambda>_. ret row)))))))))))"

definition materialize_controller_reviews ::
  "'e workflow_env_scheme \<Rightarrow> decision_workflow_row \<Rightarrow> decision_candidate_row
     \<Rightarrow> ('z workflow_store_scheme, decision_review_row list) prog" where
  "materialize_controller_reviews env flow candidate =
     bnd (map_prog (materialize_controller_review env flow candidate) REQUIRED_CONTROLLER_CONTRACT_KEYS) (\<lambda>reviews.
     bnd (modify (\<lambda>s. s\<lparr>decision_candidates := row_set rid (rid candidate)
            (\<lambda>c. c\<lparr>ca_controller_review_ids := map rid reviews\<rparr>) (decision_candidates s)\<rparr>)) (\<lambda>_.
     bnd flush (\<lambda>_. ret reviews)))"

section \<open>The decision\<close>

definition decision_of ::
  "decision_workflow_row \<Rightarrow> decision_candidate_row \<Rightarrow> DecisionCandidate \<Rightarrow> string \<Rightarrow> decision_row" where
  "decision_of flow candidate output i =
     \<lparr>rid = i, org = org flow, biz = biz flow, dc_version = 1,
      dc_goal_problem = dcd_goal output @ '': '' @ dcd_problem output,
      dc_selected_action = dcd_selected_action output, dc_expected_effect = dcd_expected_effect output,
      dc_confidence = Some (dcd_confidence output), dc_reversibility = dcd_reversibility output,
      dc_risk_class = risk_value (dcd_risk_class output), dc_status = ''AWAITING_DECISION_APPROVAL'',
      dc_snapshot_id = Some (dw_snapshot_id flow), dc_supersedes_decision_id = None,
      dc_next_checkpoint = Some (dcd_next_checkpoint output),
      dc_evidence_ids = map er_evidence_id (dcd_evidence_refs output),
      dc_assumption_ids = map su_statement (dcd_assumptions output),
      dc_known_unknown_ids = map us_question (dcd_unknowns output), dc_source_candidate_id = Some (rid candidate),
      dc_why_alternatives_not_selected = dcd_why_alternatives_not_selected output,
      dc_hypotheses = map dump_supposition (dcd_hypotheses output),
      dc_assumptions = map dump_supposition (dcd_assumptions output),
      dc_experiment_proposal = (case dcd_experiment_proposal output of None \<Rightarrow> [] | Some x \<Rightarrow> dump_experiment x),
      dc_required_assets = dcd_required_assets output, dc_required_actions = dcd_required_actions output\<rparr>"

definition add_alternative ::
  "decision_workflow_row \<Rightarrow> string \<Rightarrow> DecisionAlternativeOutput \<Rightarrow> ('z workflow_store_scheme, unit) prog" where
  "add_alternative flow decision_id a =
     bnd new_id (\<lambda>i.
     bnd (modify (\<lambda>s. s\<lparr>decision_alternatives := decision_alternatives s @
            [\<lparr>rid = i, org = org flow, biz = biz flow, al_decision_id = decision_id, al_action = ao_action a,
              al_rejection_reason = ao_rejection_reason a\<rparr>]\<rparr>)) (\<lambda>_.
     touch (org flow) (biz flow)))"

definition experiment_rule_of :: "decision_workflow_row \<Rightarrow> string \<Rightarrow> ExperimentProposal \<Rightarrow> string \<Rightarrow> experiment_rule_row" where
  "experiment_rule_of flow experiment_id x i =
     \<lparr>rid = i, org = org flow, biz = biz flow, ru_experiment_id = experiment_id, ru_baseline = xp_baseline x,
      ru_segment = xp_segment x, ru_treatment = xp_treatment x, ru_metric = xp_metric x, ru_window = xp_window x,
      ru_attribution_method = xp_attribution_method x, ru_success_threshold = xp_success_threshold x,
      ru_weak_signal_threshold = xp_weak_signal_threshold x, ru_failure_threshold = xp_failure_threshold x,
      ru_next_action_on_success = xp_next_action_on_success x,
      ru_next_action_on_weak_signal = xp_next_action_on_weak_signal x,
      ru_next_action_on_failure = xp_next_action_on_failure x\<rparr>"

definition add_experiment ::
  "decision_workflow_row \<Rightarrow> string \<Rightarrow> ExperimentProposal \<Rightarrow> ('z workflow_store_scheme, unit) prog" where
  "add_experiment flow decision_id x =
     bnd new_id (\<lambda>e.
     bnd (modify (\<lambda>s. s\<lparr>experiments := experiments s @
            [\<lparr>rid = e, org = org flow, biz = biz flow, experiment_decision_id = decision_id,
              experiment_hypothesis_id = None, experiment_metric = xp_metric x,
              experiment_status = ExperimentStatus.DRAFT, experiment_causality_class = CausalityClass.UNKNOWN\<rparr>]\<rparr>)) (\<lambda>_.
     bnd flush (\<lambda>_.
     bnd new_id (\<lambda>i.
     bnd (modify (\<lambda>s. s\<lparr>experiment_rules := experiment_rules s @ [experiment_rule_of flow e x i]\<rparr>)) (\<lambda>_.
     touch (org flow) (biz flow))))))"

text \<open>Every review of the candidate is bound to the decision.\<close>

definition bind_reviews ::
  "decision_candidate_row \<Rightarrow> string \<Rightarrow> 'z workflow_store_scheme \<Rightarrow> 'z workflow_store_scheme" where
  "bind_reviews candidate decision_id s =
     s\<lparr>decision_reviews := map (\<lambda>r. if dr_decision_candidate_id r = Some (rid candidate)
         then r\<lparr>dr_decision_id := Some decision_id\<rparr> else r) (decision_reviews s)\<rparr>"

definition insert_decision ::
  "decision_workflow_row \<Rightarrow> decision_candidate_row \<Rightarrow> DecisionCandidate \<Rightarrow> datetime
     \<Rightarrow> ('z workflow_store_scheme, decision_row) prog" where
  "insert_decision flow candidate output now =
     bnd (if or_else (dw_correlation_id flow) [] = [] then new_id else ret (or_else (dw_correlation_id flow) [])) (\<lambda>cid.
     let ctx = \<lparr>organization_id = org flow, business_id = biz flow, cc_actor_user_id = None,
           cc_correlation_id = cid, cc_causation_id = Some (rid candidate)\<rparr>
     in bnd new_id (\<lambda>i.
     let decision = decision_of flow candidate output i
     in bnd (modify (\<lambda>s. s\<lparr>decisions := decisions s @ [decision]\<rparr>)) (\<lambda>_.
     bnd flush (\<lambda>_.
     bnd (foreach (dcd_alternatives output) (add_alternative flow i)) (\<lambda>_.
     bnd (case dcd_experiment_proposal output of None \<Rightarrow> ret () | Some x \<Rightarrow> add_experiment flow i x) (\<lambda>_.
     bnd (modify (bind_reviews candidate i)) (\<lambda>_.
     bnd (set_candidate_status MATERIALIZED candidate) (\<lambda>_.
     bnd (update_workflow flow (\<lambda>w. w\<lparr>dw_final_decision_id := Some i, dw_status := FINAL_DECISION_MATERIALIZED\<rparr>)) (\<lambda>_.
     bnd (emit ctx ''decision.materialized'' ''Decision'' i [(''source_candidate_id'', JStr (rid candidate))] now) (\<lambda>_.
     bnd (append_audit ctx ''materialize_decision'' ''Decision'' i [(''candidate_id'', JStr (rid candidate))]) (\<lambda>_.
     bnd flush (\<lambda>_. ret decision))))))))))))"

definition materialize_final_decision ::
  "'e workflow_env_scheme \<Rightarrow> decision_workflow_row \<Rightarrow> decision_candidate_row \<Rightarrow> datetime
     \<Rightarrow> ('z workflow_store_scheme, decision_row) prog" where
  "materialize_final_decision env flow candidate now =
    (case dw_final_decision_id flow of
       Some i \<Rightarrow>
         bnd (gets (\<lambda>s. row_get rid i (decisions s))) (\<lambda>existing.
         required existing (PermanentJobError ''Workflow final_decision_id points to missing Decision''))
     | None \<Rightarrow>
         bnd (lift_sum (case validate_candidate env (ca_payload candidate) of
                Inl m \<Rightarrow> Inl (OtherError ''ValidationError'' m) | Inr output \<Rightarrow> Inr output)) (\<lambda>output.
         bnd (require (strip (dcd_selected_action output) \<noteq> [])
               (PermanentJobError ''accepted candidate has no selected_action'')) (\<lambda>_.
         insert_decision flow candidate output now)))"

section \<open>Advancing the workflow\<close>

definition after_chief_suffix :: "decision_workflow_row \<Rightarrow> 'z workflow_store_scheme \<Rightarrow> string" where
  "after_chief_suffix flow s = ''after-chief:'' @ show_int (next_candidate_version flow s)"

definition advance_snapshot_ready ::
  "'e workflow_env_scheme \<Rightarrow> agent_registry \<Rightarrow> decision_workflow_row \<Rightarrow> datetime \<Rightarrow> ('z workflow_store_scheme, unit) prog" where
  "advance_snapshot_ready env reg flow now =
     bnd (ensure_specialist_runs env reg flow now) (\<lambda>_.
     bnd (set_workflow_status SPECIALISTS_RUNNING flow) (\<lambda>_.
     bnd (enqueue_workflow_advance flow ''after-specialists'' now) (\<lambda>_. ret ())))"

definition advance_specialists_running ::
  "'e workflow_env_scheme \<Rightarrow> agent_registry \<Rightarrow> decision_workflow_row \<Rightarrow> datetime \<Rightarrow> ('z workflow_store_scheme, unit) prog" where
  "advance_specialists_running env reg flow now =
     bnd (ensure_specialist_runs env reg flow now) (\<lambda>not_ready.
     if not_ready \<noteq> 0 then
       bnd (gets (specialist_run_generation flow)) (\<lambda>generation.
       bnd (enqueue_workflow_advance flow
              (''after-specialists:specialist-output-retry:'' @ show_nat generation) now) (\<lambda>_. ret ()))
     else
       bnd (materialize_specialist_contributions env flow now) (\<lambda>_.
       bnd (set_workflow_status SPECIALISTS_READY flow) (\<lambda>_.
       bnd (ensure_chief_run env reg flow None [] now) (\<lambda>_.
       bnd (set_workflow_status CHIEF_RUNNING flow) (\<lambda>_.
       bnd (gets (after_chief_suffix flow)) (\<lambda>suffix.
       bnd (enqueue_workflow_advance flow suffix now) (\<lambda>_. ret ())))))))"

definition advance_chief_running ::
  "'e workflow_env_scheme \<Rightarrow> agent_registry \<Rightarrow> decision_workflow_row \<Rightarrow> datetime \<Rightarrow> ('z workflow_store_scheme, unit) prog" where
  "advance_chief_running env reg flow now =
     bnd (ensure_chief_run env reg flow None [] now) (\<lambda>not_ready.
     if not_ready \<noteq> 0 then
       bnd (gets (next_candidate_version flow)) (\<lambda>v.
       bnd (gets (chief_run_generation flow v)) (\<lambda>generation.
       bnd (enqueue_workflow_advance flow
              (''after-chief:'' @ show_int v @ '':chief-output-retry:'' @ show_nat generation) now) (\<lambda>_. ret ())))
     else
       bnd (materialize_candidate env flow now) (\<lambda>candidate.
       bnd (set_workflow_status DECISION_CANDIDATE_READY flow) (\<lambda>_.
       bnd (ensure_controller_runs env reg flow candidate now) (\<lambda>_.
       bnd (set_candidate_status UNDER_REVIEW candidate) (\<lambda>_.
       bnd (set_workflow_status CONTROLLERS_RUNNING flow) (\<lambda>_.
       bnd (enqueue_workflow_advance flow (''after-controllers:'' @ show_int (ca_version_number candidate)) now) (\<lambda>_.
       ret ())))))))"

text \<open>
  What follows from the outcome of the reviews: the base workflow revises on \<open>REVISE\<close> only, the guarded
  one on open conditions as well.
\<close>

definition apply_outcome ::
  "'e workflow_env_scheme \<Rightarrow> agent_registry \<Rightarrow> ControllerVerdict list \<Rightarrow> decision_workflow_row \<Rightarrow> decision_candidate_row
     \<Rightarrow> decision_review_row list \<Rightarrow> ControllerVerdict \<Rightarrow> datetime \<Rightarrow> ('z workflow_store_scheme, unit) prog" where
  "apply_outcome env reg revises flow candidate reviews outcome now =
    (if outcome = BLOCK then
       bnd (set_candidate_status BLOCKED candidate) (\<lambda>_.
       bnd (set_workflow_status DecisionWorkflowStatus.BLOCKED flow) (\<lambda>_. flush))
     else if outcome \<in> set revises then
       bnd (set_candidate_status REVISION_REQUIRED candidate) (\<lambda>_.
       if dw_max_revision_rounds flow \<le> dw_revision_count flow then
         bnd (set_workflow_status ESCALATED flow) (\<lambda>_. flush)
       else
         bnd (update_workflow flow (\<lambda>w. w\<lparr>dw_revision_count := dw_revision_count w + 1,
                dw_status := DecisionWorkflowStatus.REVISION_REQUIRED\<rparr>)) (\<lambda>_.
         bnd (ensure_chief_run env reg flow (Some candidate) reviews now) (\<lambda>_.
         bnd (set_workflow_status CHIEF_RUNNING flow) (\<lambda>_.
         bnd (gets (after_chief_suffix flow)) (\<lambda>suffix.
         bnd (enqueue_workflow_advance flow suffix now) (\<lambda>_. ret ()))))))
     else
       bnd (set_candidate_status ACCEPTED candidate) (\<lambda>_.
       bnd (set_workflow_status CANDIDATE_ACCEPTED flow) (\<lambda>_.
       bnd (materialize_final_decision env flow candidate now) (\<lambda>_.
       set_workflow_status AWAITING_DECISION_APPROVAL flow))))"

definition advance_controllers_running ::
  "'e workflow_env_scheme \<Rightarrow> agent_registry \<Rightarrow> ControllerVerdict list
     \<Rightarrow> (decision_candidate_row \<Rightarrow> decision_review_row list \<Rightarrow> py_error + ControllerVerdict)
     \<Rightarrow> decision_workflow_row \<Rightarrow> datetime \<Rightarrow> ('z workflow_store_scheme, unit) prog" where
  "advance_controllers_running env reg revises outcome_of flow now =
     bnd (query (latest_candidate flow)) (\<lambda>candidate.
     bnd (ensure_controller_runs env reg flow candidate now) (\<lambda>not_ready.
     if not_ready \<noteq> 0 then
       bnd (gets (controller_run_generation flow candidate)) (\<lambda>generation.
       bnd (enqueue_workflow_advance flow
              (''after-controllers:'' @ show_int (ca_version_number candidate) @ '':controller-output-retry:'' @
               show_nat generation) now) (\<lambda>_. ret ()))
     else
       bnd (materialize_controller_reviews env flow candidate) (\<lambda>reviews.
       bnd (lift_sum (outcome_of candidate reviews)) (\<lambda>outcome.
       apply_outcome env reg revises flow candidate reviews outcome now))))"

text \<open>Statuses that are not listed end the function without effect.\<close>

definition advance_workflow ::
  "'e workflow_env_scheme \<Rightarrow> agent_registry \<Rightarrow> ControllerVerdict list
     \<Rightarrow> (decision_candidate_row \<Rightarrow> decision_review_row list \<Rightarrow> py_error + ControllerVerdict)
     \<Rightarrow> decision_workflow_row \<Rightarrow> datetime \<Rightarrow> ('z workflow_store_scheme, unit) prog" where
  "advance_workflow env reg revises outcome_of flow now =
    (case dw_status flow of
       SNAPSHOT_READY \<Rightarrow> advance_snapshot_ready env reg flow now
     | SPECIALISTS_RUNNING \<Rightarrow> advance_specialists_running env reg flow now
     | CHIEF_RUNNING \<Rightarrow> advance_chief_running env reg flow now
     | CONTROLLERS_RUNNING \<Rightarrow> advance_controllers_running env reg revises outcome_of flow now
     | _ \<Rightarrow> ret ())"

text \<open>\<open>decision_workflow._advance_workflow\<close> and \<open>decision_governance._advance_workflow\<close>.\<close>

definition base_advance ::
  "'e workflow_env_scheme \<Rightarrow> agent_registry \<Rightarrow> decision_workflow_row \<Rightarrow> datetime \<Rightarrow> ('z workflow_store_scheme, unit) prog" where
  "base_advance env reg = advance_workflow env reg [REVISE] (\<lambda>_. controller_outcome)"

definition guarded_advance ::
  "'e workflow_env_scheme \<Rightarrow> agent_registry \<Rightarrow> decision_workflow_row \<Rightarrow> datetime \<Rightarrow> ('z workflow_store_scheme, unit) prog" where
  "guarded_advance env reg =
     advance_workflow env reg [REVISE, PASS_WITH_CONDITIONS]
       (\<lambda>candidate. governed_controller_outcome (float_repr env) (ca_payload candidate))"

definition workflow_id_of :: "payload \<Rightarrow> py_error + string" where
  "workflow_id_of pl =
    (if \<not> equals_int (dict_get pl ''payload_schema_version'') 1
     then Inl (PermanentJobError ''workflow.advance payload_schema_version must be 1'')
     else case as_str (dict_get pl ''workflow_id'') of
         None \<Rightarrow> Inl (PermanentJobError ''workflow_id is required'') | Some i \<Rightarrow> Inr i)"

definition handle_advance ::
  "(decision_workflow_row \<Rightarrow> datetime \<Rightarrow> ('z workflow_store_scheme, unit) prog)
     \<Rightarrow> RuntimeJobContext \<Rightarrow> payload \<Rightarrow> datetime \<Rightarrow> ('z workflow_store_scheme, unit) prog" where
  "handle_advance advance context pl now =
     bnd (check_no_secrets pl) (\<lambda>_.
     bnd (lift_sum (workflow_id_of pl)) (\<lambda>i.
     bnd (gets (\<lambda>s. row_get rid i (decision_workflows s))) (\<lambda>found.
     bnd (required found (PermanentJobError (''DecisionWorkflow not found: '' @ i))) (\<lambda>flow.
     bnd (check_scope context (org flow) (biz flow)) (\<lambda>_.
     advance flow now)))))"

definition DecisionWorkflowAdvanceHandler_handle ::
  "'e workflow_env_scheme \<Rightarrow> agent_registry \<Rightarrow> RuntimeJobContext \<Rightarrow> payload \<Rightarrow> datetime
     \<Rightarrow> ('z workflow_store_scheme, unit) prog" where
  "DecisionWorkflowAdvanceHandler_handle env reg = handle_advance (base_advance env reg)"

definition GuardedDecisionWorkflowAdvanceHandler_handle ::
  "'e workflow_env_scheme \<Rightarrow> agent_registry \<Rightarrow> RuntimeJobContext \<Rightarrow> payload \<Rightarrow> datetime
     \<Rightarrow> ('z workflow_store_scheme, unit) prog" where
  "GuardedDecisionWorkflowAdvanceHandler_handle env reg = handle_advance (guarded_advance env reg)"

section \<open>Start, approval and view\<close>

fun workflow_status_value :: "DecisionWorkflowStatus \<Rightarrow> string" where
  "workflow_status_value SNAPSHOT_READY = ''SNAPSHOT_READY''"
| "workflow_status_value SPECIALISTS_RUNNING = ''SPECIALISTS_RUNNING''"
| "workflow_status_value SPECIALISTS_READY = ''SPECIALISTS_READY''"
| "workflow_status_value CHIEF_RUNNING = ''CHIEF_RUNNING''"
| "workflow_status_value DECISION_CANDIDATE_READY = ''DECISION_CANDIDATE_READY''"
| "workflow_status_value CONTROLLERS_RUNNING = ''CONTROLLERS_RUNNING''"
| "workflow_status_value DecisionWorkflowStatus.BLOCKED = ''BLOCKED''"
| "workflow_status_value DecisionWorkflowStatus.REVISION_REQUIRED = ''REVISION_REQUIRED''"
| "workflow_status_value CANDIDATE_ACCEPTED = ''CANDIDATE_ACCEPTED''"
| "workflow_status_value FINAL_DECISION_MATERIALIZED = ''FINAL_DECISION_MATERIALIZED''"
| "workflow_status_value AWAITING_DECISION_APPROVAL = ''AWAITING_DECISION_APPROVAL''"
| "workflow_status_value APPROVED_FOR_PRODUCTION = ''APPROVED_FOR_PRODUCTION''"
| "workflow_status_value ESCALATED = ''ESCALATED''"

record DecisionWorkflowStartResult =
  started_workflow :: decision_workflow_row
  started_snapshot :: business_snapshot_row
  started_job_id :: string

definition obtain_snapshot ::
  "CommandContext \<Rightarrow> string option \<Rightarrow> string option \<Rightarrow> datetime \<Rightarrow> ('z workflow_store_scheme, business_snapshot_row) prog" where
  "obtain_snapshot context launch_id given now =
    (case given of
       Some i \<Rightarrow> query (get_snapshot context i)
     | None \<Rightarrow>
         bnd (query (snapshot_payload context launch_id)) (\<lambda>pl.
         bnd (create_business_snapshot context ''phase3.decision_workflow'' pl now) (\<lambda>(row, ev).
         ret row)))"

definition check_launch ::
  "CommandContext \<Rightarrow> string option \<Rightarrow> 'z workflow_store_scheme \<Rightarrow> py_error + unit" where
  "check_launch context launch_id s =
    (case launch_id of
       None \<Rightarrow> Inr ()
     | Some i \<Rightarrow>
        (case row_get rid i (launches s) of
           None \<Rightarrow> Inl (PermanentJobError ''Launch not found for decision workflow'')
         | Some l \<Rightarrow> assert_matches context (org l) (biz l)))"

definition start_decision_workflow ::
  "CommandContext \<Rightarrow> string option \<Rightarrow> string option \<Rightarrow> int \<Rightarrow> datetime
     \<Rightarrow> ('z workflow_store_scheme, DecisionWorkflowStartResult) prog" where
  "start_decision_workflow context launch_id given max_rounds now =
     bnd (obtain_snapshot context launch_id given now) (\<lambda>snapshot.
     bnd (query (check_launch context launch_id)) (\<lambda>_.
     bnd (gets (\<lambda>s. select_first (\<lambda>w. org w = organization_id context \<and> biz w = business_id context \<and>
            dw_snapshot_id w = rid snapshot) (decision_workflows s))) (\<lambda>existing.
     case existing of
       Some w \<Rightarrow>
         bnd (enqueue_workflow_advance w
                (''resume:'' @ workflow_status_value (dw_status w) @ '':'' @ show_int (dw_revision_count w)) now) (\<lambda>job.
         ret \<lparr>started_workflow = w, started_snapshot = snapshot, started_job_id = rid job\<rparr>)
     | None \<Rightarrow>
         bnd new_id (\<lambda>i.
         let w = \<lparr>rid = i, org = organization_id context, biz = business_id context, dw_launch_id = launch_id,
               dw_snapshot_id = rid snapshot, dw_status = SNAPSHOT_READY, dw_revision_count = 0,
               dw_max_revision_rounds = max_rounds, dw_final_decision_id = None, dw_final_approval_id = None,
               dw_correlation_id = Some (cc_correlation_id context), dw_causation_id = cc_causation_id context\<rparr>
         in bnd (modify (\<lambda>s. s\<lparr>decision_workflows := decision_workflows s @ [w]\<rparr>)) (\<lambda>_.
            bnd flush (\<lambda>_.
            bnd (emit context ''decision_workflow.started'' ''DecisionWorkflow'' i
                   [(''snapshot_id'', JStr (rid snapshot)), (''launch_id'', opt_json launch_id)] now) (\<lambda>_.
            bnd (append_audit context ''start_decision_workflow'' ''DecisionWorkflow'' i
                   [(''snapshot_id'', JStr (rid snapshot))]) (\<lambda>_.
            bnd (enqueue_workflow_advance w ''start'' now) (\<lambda>job.
            ret \<lparr>started_workflow = w, started_snapshot = snapshot, started_job_id = rid job\<rparr>)))))))))"

definition DECISION_APPROVAL_ACTION :: string where
  "DECISION_APPROVAL_ACTION = ''approve_decision_for_production''"

definition approval_of ::
  "CommandContext \<Rightarrow> decision_workflow_row \<Rightarrow> decision_row \<Rightarrow> string \<Rightarrow> string \<Rightarrow> datetime \<Rightarrow> string
     \<Rightarrow> decision_approval_row" where
  "approval_of context flow decision candidate_id user_id now i =
     \<lparr>rid = i, org = organization_id context, biz = business_id context, da_workflow_id = rid flow,
      da_decision_id = rid decision, da_candidate_id = candidate_id, da_action_type = DECISION_APPROVAL_ACTION,
      da_object_type = ''Decision'', da_object_id = rid decision, da_object_version_id = rid decision,
      da_object_version = dc_version decision, da_approved_by_user_id = user_id,
      da_status = ApprovalStatus.APPROVED, da_correlation_id = cc_correlation_id context,
      da_causation_id = cc_causation_id context, da_created_at = now\<rparr>"

text \<open>The approval that an approved workflow is bound to.\<close>

definition bound_approval :: "decision_workflow_row \<Rightarrow> 'z workflow_store_scheme \<Rightarrow> py_error + decision_approval_row" where
  "bound_approval flow s =
    (case dw_final_approval_id flow of
       None \<Rightarrow> Inl (PermanentJobError ''Approved DecisionWorkflow has no approval binding'')
     | Some i \<Rightarrow>
        (case row_get rid i (decision_approvals s) of
           None \<Rightarrow> Inl (PermanentJobError ''DecisionWorkflow approval binding is missing'') | Some a \<Rightarrow> Inr a))"

definition insert_decision_approval ::
  "CommandContext \<Rightarrow> decision_workflow_row \<Rightarrow> decision_row \<Rightarrow> string \<Rightarrow> string \<Rightarrow> datetime
     \<Rightarrow> ('z workflow_store_scheme, decision_approval_row) prog" where
  "insert_decision_approval context flow decision candidate_id user_id now =
     bnd new_id (\<lambda>i.
     let approval = approval_of context flow decision candidate_id user_id now i
     in bnd (modify (\<lambda>s. s\<lparr>decision_approvals := decision_approvals s @ [approval]\<rparr>)) (\<lambda>_.
        bnd flush (\<lambda>_.
        bnd (modify (\<lambda>s. s\<lparr>decisions := row_set rid (rid decision)
               (\<lambda>d. d\<lparr>dc_status := ''APPROVED_FOR_PRODUCTION''\<rparr>) (decisions s)\<rparr>)) (\<lambda>_.
        bnd (touch (org decision) (biz decision)) (\<lambda>_.
        bnd (update_workflow flow (\<lambda>w. w\<lparr>dw_final_approval_id := Some i, dw_status := APPROVED_FOR_PRODUCTION\<rparr>)) (\<lambda>_.
        bnd (emit context ''decision.approved_for_production'' ''Decision'' (rid decision)
               [(''approval_id'', JStr i), (''object_version_id'', JStr (rid decision)),
                (''action_type'', JStr DECISION_APPROVAL_ACTION)] now) (\<lambda>_.
        bnd (append_audit context DECISION_APPROVAL_ACTION ''Decision'' (rid decision)
               [(''object_version_id'', JStr (rid decision))]) (\<lambda>_.
        bnd flush (\<lambda>_. ret approval)))))))))"

definition approve_decision_for_production ::
  "CommandContext \<Rightarrow> string \<Rightarrow> string \<Rightarrow> datetime \<Rightarrow> ('z workflow_store_scheme, decision_approval_row) prog" where
  "approve_decision_for_production context workflow_id user_id now =
     bnd (gets (\<lambda>s. row_get rid workflow_id (decision_workflows s))) (\<lambda>found.
     bnd (required found (PermanentJobError ''DecisionWorkflow not found'')) (\<lambda>flow.
     bnd (check_scope context (org flow) (biz flow)) (\<lambda>_.
     if dw_status flow = APPROVED_FOR_PRODUCTION then query (bound_approval flow)
     else
       bnd (require (dw_status flow = AWAITING_DECISION_APPROVAL)
             (PermanentJobError ''DecisionWorkflow is not awaiting decision approval'')) (\<lambda>_.
       bnd (required (dw_final_decision_id flow) (PermanentJobError ''DecisionWorkflow has no final Decision'')) (\<lambda>decision_id.
       bnd (gets (\<lambda>s. Option.bind (row_get rid decision_id (decisions s)) (\<lambda>d.
              map_option (\<lambda>c. (d, c)) (dc_source_candidate_id d)))) (\<lambda>provenance.
       bnd (required provenance (PermanentJobError ''Final Decision provenance is incomplete'')) (\<lambda>(decision, candidate_id).
       bnd (check_scope context (org decision) (biz decision)) (\<lambda>_.
       bnd (gets (\<lambda>s. select_first (\<lambda>a. da_decision_id a = rid decision \<and> da_action_type a = DECISION_APPROVAL_ACTION \<and>
              da_object_version_id a = rid decision) (decision_approvals s))) (\<lambda>existing.
       case existing of
         Some a \<Rightarrow> ret a
       | None \<Rightarrow> insert_decision_approval context flow decision candidate_id user_id now)))))))))"

definition approval_matches_decision :: "decision_approval_row \<Rightarrow> decision_row \<Rightarrow> bool" where
  "approval_matches_decision a d \<longleftrightarrow>
     da_object_type a = ''Decision'' \<and> da_object_id a = rid d \<and> da_object_version_id a = rid d \<and>
     da_object_version a = dc_version d \<and> da_action_type a = DECISION_APPROVAL_ACTION \<and>
     da_status a = ApprovalStatus.APPROVED"

record UserDecisionView =
  view_decision :: string
  view_reasons :: "json list"
  view_what_happens_now :: string
  view_ready_assets_actions :: "string list"
  view_metric_target_current :: "string option"
  view_next_checkpoint :: "string option"
  view_approval_needed :: bool
  view_status :: string

text \<open>\<open>tuple((payload.get("why") or [])[:3])\<close>; the slice of a number or of a mapping raises.\<close>

definition first_reasons :: "payload \<Rightarrow> py_error + json list" where
  "first_reasons pl =
    (if \<not> truthy (dict_get pl ''why'') then Inr []
     else case dict_get pl ''why'' of
         Some (JList xs) \<Rightarrow> Inr (take 3 xs)
       | Some (JStr t) \<Rightarrow> Inr (map (\<lambda>c. JStr [c]) (take 3 t))
       | _ \<Rightarrow> Inl (OtherError ''TypeError'' ''object is not subscriptable''))"

definition metric_target :: "payload \<Rightarrow> string option" where
  "metric_target experiment =
    (case (as_str (dict_get experiment ''metric''), as_str (dict_get experiment ''success_threshold'')) of
       (Some m, Some t) \<Rightarrow> Some (m @ '' / '' @ t) | _ \<Rightarrow> None)"

definition get_user_decision_view ::
  "'y TenantScope_scheme \<Rightarrow> string \<Rightarrow> 'z workflow_store_scheme \<Rightarrow> py_error + UserDecisionView" where
  "get_user_decision_view scope decision_id s =
    (case row_get rid decision_id (decisions s) of
       None \<Rightarrow> Inl (PermanentJobError ''Decision not found'')
     | Some d \<Rightarrow>
        (case assert_matches scope (org d) (biz d) of
           Inl e \<Rightarrow> Inl e
         | Inr _ \<Rightarrow>
             let pl = (case Option.bind (dc_source_candidate_id d) (\<lambda>c. row_get rid c (decision_candidates s)) of
                         None \<Rightarrow> [] | Some c \<Rightarrow> ca_payload c);
                 waiting = (dc_status d = ''AWAITING_DECISION_APPROVAL'')
             in (case first_reasons pl of
                   Inl e \<Rightarrow> Inl e
                 | Inr reasons \<Rightarrow> Inr
                     \<lparr>view_decision = dc_selected_action d, view_reasons = reasons,
                      view_what_happens_now = (if waiting then ''Await owner approval before production.''
                        else ''Decision approved for Phase 4 production.''),
                      view_ready_assets_actions = dc_required_actions d,
                      view_metric_target_current = metric_target (dc_experiment_proposal d),
                      view_next_checkpoint = dc_next_checkpoint d, view_approval_needed = waiting,
                      view_status = dc_status d\<rparr>)))"

end
