(* ===== verification/Agent_Context.thy ===== *)
theory Agent_Context
  imports Decision_Workflow
begin

text \<open>
  The context of an agent run (\<open>ai_runtime/context.py\<close>): the rows of one business that a contract
  allows, projected to items, bounded, screened for secrets and hashed. The builder is written over the
  function that loads a reference, which a subclass overrides. The columns \<open>created_at\<close> and
  \<open>updated_at\<close> that the database library maintains are read through \<open>context_env\<close> where the row
  of the model does not carry them.
\<close>

section \<open>Text\<close>

record context_env = workflow_env +
  row_created_at :: "string \<Rightarrow> string \<Rightarrow> datetime"
  row_updated_at :: "string \<Rightarrow> string \<Rightarrow> datetime"

text \<open>\<open>json.dumps(value, sort_keys=True, ensure_ascii=True)\<close>, with the default separators.\<close>

fun spaced_dumps :: "(real \<Rightarrow> string) \<Rightarrow> json \<Rightarrow> string" where
  "spaced_dumps fr JNull = ''null''"
| "spaced_dumps fr (JBool b) = (if b then ''true'' else ''false'')"
| "spaced_dumps fr (JInt i) = show_int i"
| "spaced_dumps fr (JFloat r) = fr r"
| "spaced_dumps fr (JStr s) = ascii_dumps fr (JStr s)"
| "spaced_dumps fr (JList xs) = ''['' @ join_with '', '' (map (spaced_dumps fr) xs) @ '']''"
| "spaced_dumps fr (JObj d) =
     ''{'' @ join_with '', '' (map (\<lambda>kv. ascii_dumps fr (JStr (fst kv)) @ '': '' @ snd kv)
       (sort_key fst (map (\<lambda>kv. (fst kv, spaced_dumps fr (snd kv))) d))) @ ''}''"

text \<open>A slice \<open>value[:n]\<close>; a negative bound counts from the end.\<close>

definition py_prefix :: "int \<Rightarrow> string \<Rightarrow> string" where
  "py_prefix n t = (if n < 0 then take (length t - nat (- n)) t else take (nat n) t)"

definition truncate_text :: "string \<Rightarrow> int \<Rightarrow> string" where
  "truncate_text v max_chars = (if int (length v) \<le> max_chars then v else py_prefix (max_chars - 3) v @ ''...'')"

definition stable_hash :: "'e agent_env_scheme \<Rightarrow> json \<Rightarrow> string" where
  "stable_hash env v = sha256_hex env (ascii_dumps (float_repr env) v)"

fun trust_value :: "SourceTrust \<Rightarrow> string" where
  "trust_value UNTRUSTED_EXTERNAL = ''UNTRUSTED_EXTERNAL''"
| "trust_value CONNECTOR = ''CONNECTOR''"
| "trust_value USER_PROVIDED = ''USER_PROVIDED''"
| "trust_value INTERNAL_SYSTEM = ''INTERNAL_SYSTEM''"

text \<open>How the validation library writes an instant in UTC.\<close>

definition json_time :: "datetime \<Rightarrow> string" where
  "json_time t = take (length (isoformat t) - 6) (isoformat t) @ ''Z''"

section \<open>Items\<close>

record ContextItem =
  ci_organization_id :: string
  ci_business_id :: string
  ci_object_type :: string
  ci_object_id :: string
  ci_provenance_ref :: string
  ci_epistemic_status :: EpistemicStatus
  ci_trust_class :: SourceTrust
  ci_data_boundary :: string
  ci_occurred_at :: "datetime option"
  ci_recorded_at :: "datetime option"
  ci_content :: string
  ci_projection :: payload
  ci_sensitivity :: string
  ci_retention :: string

definition dump_item :: "ContextItem \<Rightarrow> json" where
  "dump_item i = JObj
    [(''organization_id'', JStr (ci_organization_id i)), (''business_id'', JStr (ci_business_id i)),
     (''source_object_type'', JStr (ci_object_type i)), (''source_object_id'', JStr (ci_object_id i)),
     (''provenance_ref'', JStr (ci_provenance_ref i)),
     (''epistemic_status'', JStr (epistemic_value (ci_epistemic_status i))),
     (''trust_class'', JStr (trust_value (ci_trust_class i))), (''data_boundary'', JStr (ci_data_boundary i)),
     (''occurred_at'', opt_json (map_option json_time (ci_occurred_at i))),
     (''recorded_at'', opt_json (map_option json_time (ci_recorded_at i))),
     (''content'', JStr (ci_content i)), (''structured_projection'', JObj (ci_projection i)),
     (''sensitivity'', JStr (ci_sensitivity i)), (''retention'', JStr (ci_retention i))]"

definition manifest_entry :: "'e agent_env_scheme \<Rightarrow> ContextItem \<Rightarrow> json" where
  "manifest_entry env i = JObj
    [(''organization_id'', JStr (ci_organization_id i)), (''business_id'', JStr (ci_business_id i)),
     (''source_object_type'', JStr (ci_object_type i)), (''source_object_id'', JStr (ci_object_id i)),
     (''provenance_ref'', JStr (ci_provenance_ref i)),
     (''epistemic_status'', JStr (epistemic_value (ci_epistemic_status i))),
     (''trust_class'', JStr (trust_value (ci_trust_class i))), (''data_boundary'', JStr (ci_data_boundary i)),
     (''occurred_at'', opt_json (map_option isoformat (ci_occurred_at i))),
     (''recorded_at'', opt_json (map_option isoformat (ci_recorded_at i))),
     (''content_hash'', JStr (stable_hash env (dump_item i))),
     (''sensitivity'', JStr (ci_sensitivity i)), (''retention'', JStr (ci_retention i))]"

record ContextBundle =
  cb_items :: "ContextItem list"
  cb_manifest :: payload
  cb_context_hash :: string
  cb_structured_context :: string

record ContextBudget =
  max_items :: nat
  max_content_chars :: int

definition default_budget :: ContextBudget where
  "default_budget = \<lparr>max_items = 20, max_content_chars = 600\<rparr>"

section \<open>Projections of rows\<close>

text \<open>\<open>INTERNAL\<close> data of the system itself, the default of the fields that most items leave alone.\<close>

definition internal_item ::
  "'y TenantScope_scheme \<Rightarrow> string \<Rightarrow> string \<Rightarrow> EpistemicStatus \<Rightarrow> datetime \<Rightarrow> datetime \<Rightarrow> string \<Rightarrow> payload \<Rightarrow> string
     \<Rightarrow> ContextItem" where
  "internal_item scope ty i st occ rec content proj retention =
     \<lparr>ci_organization_id = organization_id scope, ci_business_id = business_id scope, ci_object_type = ty,
      ci_object_id = i, ci_provenance_ref = ty @ '':'' @ i, ci_epistemic_status = st,
      ci_trust_class = INTERNAL_SYSTEM, ci_data_boundary = ''TRUSTED_INTERNAL_DATA'',
      ci_occurred_at = Some occ, ci_recorded_at = Some rec, ci_content = content,
      ci_projection = proj, ci_sensitivity = ''INTERNAL'', ci_retention = retention\<rparr>"

definition untrusted_item ::
  "'y TenantScope_scheme \<Rightarrow> string \<Rightarrow> string \<Rightarrow> EpistemicStatus \<Rightarrow> SourceTrust \<Rightarrow> datetime option \<Rightarrow> datetime
     \<Rightarrow> string \<Rightarrow> payload \<Rightarrow> ContextItem" where
  "untrusted_item scope ty i st trust occ rec content proj =
     \<lparr>ci_organization_id = organization_id scope, ci_business_id = business_id scope, ci_object_type = ty,
      ci_object_id = i, ci_provenance_ref = ty @ '':'' @ i, ci_epistemic_status = st,
      ci_trust_class = trust, ci_data_boundary = ''UNTRUSTED_DATA'', ci_occurred_at = occ,
      ci_recorded_at = Some rec, ci_content = content, ci_projection = proj,
      ci_sensitivity = ''CONFIDENTIAL'', ci_retention = ''STANDARD''\<rparr>"

abbreviation screened :: "json \<Rightarrow> 'a \<Rightarrow> py_error + 'a" where
  "screened v x \<equiv> (case assert_no_secrets v ''payload'' of Inl e \<Rightarrow> Inl e | Inr _ \<Rightarrow> Inr x)"

definition context_business_item ::
  "'e context_env_scheme \<Rightarrow> 'y TenantScope_scheme \<Rightarrow> business_row \<Rightarrow> py_error + ContextItem" where
  "context_business_item env scope b =
    (let content = ''Business name: '' @ bz_name b @ ''; timezone: '' @ bz_timezone b
     in screened (JStr content)
       (internal_item scope ''business'' (bz_id b) FACT (bz_created_at b) (row_updated_at env ''business'' (bz_id b))
          content [(''name'', JStr (bz_name b)), (''timezone'', JStr (bz_timezone b)), (''version'', JInt (bz_version b))]
          ''STANDARD''))"

definition goal_item ::
  "'e context_env_scheme \<Rightarrow> 'y TenantScope_scheme \<Rightarrow> goal_row \<Rightarrow> py_error + ContextItem" where
  "goal_item env scope g =
    (let content = ''Goal: '' @ go_title g @ ''; target: '' @ go_target g
     in screened (JStr content)
       (internal_item scope ''goal'' (rid g) FACT (go_created_at g) (row_updated_at env ''goal'' (rid g)) content
          [(''title'', JStr (go_title g)), (''metric'', opt_json (go_metric g))] ''STANDARD''))"

definition constraint_item ::
  "'e context_env_scheme \<Rightarrow> 'y TenantScope_scheme \<Rightarrow> constraint_row \<Rightarrow> py_error + ContextItem" where
  "constraint_item env scope c =
    (let content = ''Constraint category: '' @ cn_category c @ ''; rule: '' @ cn_rule c
     in screened (JStr content)
       (internal_item scope ''constraint'' (rid c) FACT (cn_created_at c) (row_updated_at env ''constraint'' (rid c)) content
          [(''category'', JStr (cn_category c))] ''STANDARD''))"

text \<open>A payload is screened before it is cut, and its text again afterwards.\<close>

definition source_record_item ::
  "'e context_env_scheme \<Rightarrow> ContextBudget \<Rightarrow> 'y TenantScope_scheme \<Rightarrow> source_row \<Rightarrow> py_error + ContextItem" where
  "source_record_item env budget scope r =
    (case no_secrets (src_payload r) of
       Inl e \<Rightarrow> Inl e
     | Inr _ \<Rightarrow>
         let content = truncate_text (spaced_dumps (float_repr env) (JObj (src_payload r))) (max_content_chars budget)
         in screened (JStr content)
           (untrusted_item scope ''source_record'' (rid r) OBSERVATION (src_trust r) (src_occurred_at r)
              (src_ingested_at r) content
              [(''provider'', JStr (src_provider r)), (''external_id'', JStr (src_external_id r)),
               (''source_type'', JStr (src_source_type r))]))"

definition context_evidence_item ::
  "ContextBudget \<Rightarrow> 'y TenantScope_scheme \<Rightarrow> evidence_row \<Rightarrow> py_error + ContextItem" where
  "context_evidence_item budget scope r =
    (let content = truncate_text (ev_statement r) (max_content_chars budget)
     in screened (JStr content)
       (untrusted_item scope ''evidence'' (rid r) (ev_status r) UNTRUSTED_EXTERNAL (ev_occurred_at r) (ev_recorded_at r)
          content [(''source_record_id'', JStr (ev_source_record_id r)), (''confidence'', opt_float (ev_confidence r))]))"

definition snapshot_item ::
  "'e context_env_scheme \<Rightarrow> ContextBudget \<Rightarrow> 'y TenantScope_scheme \<Rightarrow> business_snapshot_row \<Rightarrow> py_error + ContextItem" where
  "snapshot_item env budget scope r =
    (case no_secrets (sn_payload r) of
       Inl e \<Rightarrow> Inl e
     | Inr _ \<Rightarrow>
         let content = truncate_text (spaced_dumps (float_repr env) (JObj (sn_payload r))) (max_content_chars budget)
         in screened (JStr content)
           (internal_item scope ''business_snapshot'' (rid r) FACT (sn_created_at r) (sn_created_at r) content
              [(''snapshot_id'', JStr (rid r)), (''version'', JInt (sn_version r)), (''reason'', JStr (sn_reason r))]
              ''AUDIT''))"

definition specialist_contribution_item ::
  "'e context_env_scheme \<Rightarrow> ContextBudget \<Rightarrow> 'y TenantScope_scheme \<Rightarrow> specialist_contribution_row
     \<Rightarrow> py_error + ContextItem" where
  "specialist_contribution_item env budget scope r =
    (case no_secrets (sp_payload r) of
       Inl e \<Rightarrow> Inl e
     | Inr _ \<Rightarrow> Inr (internal_item scope ''specialist_contribution'' (rid r) OBSERVATION (sp_created_at r) (sp_created_at r)
         (truncate_text (spaced_dumps (float_repr env) (JObj (sp_payload r))) (max_content_chars budget))
         [(''role'', JStr (sp_role r)), (''contract_key'', JStr (sp_contract_key r)),
          (''schema_version'', JInt (sp_schema_version r))] ''AUDIT''))"

fun candidate_status_value :: "DecisionCandidateStatus \<Rightarrow> string" where
  "candidate_status_value CANDIDATE = ''CANDIDATE''"
| "candidate_status_value UNDER_REVIEW = ''UNDER_REVIEW''"
| "candidate_status_value REVISION_REQUIRED = ''REVISION_REQUIRED''"
| "candidate_status_value BLOCKED = ''BLOCKED''"
| "candidate_status_value ACCEPTED = ''ACCEPTED''"
| "candidate_status_value MATERIALIZED = ''MATERIALIZED''"

definition decision_candidate_item ::
  "'e context_env_scheme \<Rightarrow> ContextBudget \<Rightarrow> 'y TenantScope_scheme \<Rightarrow> decision_candidate_row
     \<Rightarrow> py_error + ContextItem" where
  "decision_candidate_item env budget scope r =
    (case no_secrets (ca_payload r) of
       Inl e \<Rightarrow> Inl e
     | Inr _ \<Rightarrow> Inr (internal_item scope ''decision_candidate'' (rid r) HYPOTHESIS (ca_created_at r) (ca_created_at r)
         (truncate_text (spaced_dumps (float_repr env) (JObj (ca_payload r))) (max_content_chars budget))
         [(''version_number'', JInt (ca_version_number r)), (''selected_action'', JStr (ca_selected_action r)),
          (''status'', JStr (candidate_status_value (ca_status r)))] ''AUDIT''))"

definition controller_review_item ::
  "'e context_env_scheme \<Rightarrow> ContextBudget \<Rightarrow> 'y TenantScope_scheme \<Rightarrow> decision_review_row
     \<Rightarrow> py_error + ContextItem" where
  "controller_review_item env budget scope r =
    (let ctype = (case dr_controller_type r of Some t \<Rightarrow> if t \<noteq> [] then t else dr_controller_name r
           | None \<Rightarrow> dr_controller_name r);
         pl = [(''controller_type'', JStr ctype), (''verdict'', JStr (dr_verdict r)),
           (''issues'', JList (map JStr (dr_issues r))), (''required_changes'', JList (map JStr (dr_required_changes r))),
           (''conditions'', JList (map JStr (dr_conditions r)))]
     in (case no_secrets pl of
           Inl e \<Rightarrow> Inl e
         | Inr _ \<Rightarrow> Inr (internal_item scope ''controller_review'' (rid r) OBSERVATION
             (row_created_at env ''controller_review'' (rid r)) (row_updated_at env ''controller_review'' (rid r))
             (truncate_text (spaced_dumps (float_repr env) (JObj pl)) (max_content_chars budget)) pl ''AUDIT'')))"

section \<open>The builder\<close>

text \<open>\<open>session.get\<close>, then the tenant of the row, then its projection.\<close>

definition project_row ::
  "'y TenantScope_scheme \<Rightarrow> ('r \<Rightarrow> string \<times> string) \<Rightarrow> ('r \<Rightarrow> py_error + ContextItem) \<Rightarrow> 'r option
     \<Rightarrow> py_error + ContextItem option" where
  "project_row scope tenant project found =
    (case found of
       None \<Rightarrow> Inr None
     | Some r \<Rightarrow>
        (case assert_matches scope (fst (tenant r)) (snd (tenant r)) of
           Inl e \<Rightarrow> Inl e
         | Inr _ \<Rightarrow> (case project r of Inl e \<Rightarrow> Inl e | Inr i \<Rightarrow> Inr (Some i))))"

abbreviation tenant_of :: "'r scoped_row_scheme \<Rightarrow> string \<times> string" where
  "tenant_of r \<equiv> (org r, biz r)"

type_synonym ('z, 'y) context_loader =
  "'y TenantScope_scheme \<Rightarrow> ContextReference \<Rightarrow> 'z workflow_store_scheme \<Rightarrow> py_error + ContextItem option"

abbreviation AIContextError :: "string \<Rightarrow> py_error" where
  "AIContextError m \<equiv> OtherError ''AIContextError'' m"

definition load_reference ::
  "'e context_env_scheme \<Rightarrow> ContextBudget \<Rightarrow> ('z, 'y) context_loader" where
  "load_reference env budget scope ref s =
    (let ty = cr_object_type ref; i = cr_object_id ref in
     if ty = ''business'' then
       project_row scope (\<lambda>b. (bz_organization_id b, bz_id b)) (context_business_item env scope)
         (row_get bz_id i (businesses s))
     else if ty = ''goal'' then project_row scope tenant_of (goal_item env scope) (row_get rid i (goals s))
     else if ty = ''constraint'' then
       project_row scope tenant_of (constraint_item env scope) (row_get rid i (constraints s))
     else if ty = ''source_record'' then
       project_row scope tenant_of (source_record_item env budget scope) (row_get rid i (source_records s))
     else if ty = ''evidence'' then
       project_row scope tenant_of (context_evidence_item budget scope) (row_get rid i (evidence s))
     else if ty = ''business_snapshot'' then
       project_row scope tenant_of (snapshot_item env budget scope) (row_get rid i (business_snapshots s))
     else if ty = ''specialist_contribution'' then
       project_row scope tenant_of (specialist_contribution_item env budget scope)
         (row_get rid i (specialist_contributions s))
     else if ty = ''decision_candidate'' then
       project_row scope tenant_of (decision_candidate_item env budget scope) (row_get rid i (decision_candidates s))
     else if ty = ''controller_review'' then
       project_row scope tenant_of (controller_review_item env budget scope) (row_get rid i (decision_reviews s))
     else Inl (AIContextError (''unsupported context type: '' @ ty)))"

text \<open>A generator that may raise, consumed in order.\<close>

fun sequence :: "(py_error + 'a) list \<Rightarrow> py_error + 'a list" where
  "sequence [] = Inr []"
| "sequence (x # xs) =
    (case x of Inl e \<Rightarrow> Inl e | Inr a \<Rightarrow> (case sequence xs of Inl e \<Rightarrow> Inl e | Inr ys \<Rightarrow> Inr (a # ys)))"

definition collect_default_items ::
  "'e context_env_scheme \<Rightarrow> ContextBudget \<Rightarrow> 'y TenantScope_scheme \<Rightarrow> string list \<Rightarrow> 'z workflow_store_scheme
     \<Rightarrow> py_error + ContextItem list" where
  "collect_default_items env budget scope allowed s =
    sequence
      ((if ''business'' \<in> set allowed then
          (case row_get bz_id (business_id scope) (businesses s) of
             None \<Rightarrow> []
           | Some b \<Rightarrow> [case assert_matches scope (bz_organization_id b) (bz_id b) of
                Inl e \<Rightarrow> Inl e | Inr _ \<Rightarrow> context_business_item env scope b])
        else []) @
       (if ''goal'' \<in> set allowed then
          map (goal_item env scope) (take (max_items budget) (scoped_select scope go_created_at (goals s))) else []) @
       (if ''constraint'' \<in> set allowed then
          map (constraint_item env scope) (take (max_items budget) (scoped_select scope cn_created_at (constraints s)))
        else []) @
       (if ''source_record'' \<in> set allowed then
          map (source_record_item env budget scope)
            (take (max_items budget) (scoped_select scope src_ingested_at (source_records s)))
        else []) @
       (if ''evidence'' \<in> set allowed then
          map (context_evidence_item budget scope)
            (take (max_items budget) (scoped_select scope ev_recorded_at (evidence s)))
        else []))"

fun load_all ::
  "('z, 'y) context_loader \<Rightarrow> string list \<Rightarrow> 'y TenantScope_scheme \<Rightarrow> 'z workflow_store_scheme \<Rightarrow> ContextReference list
     \<Rightarrow> py_error + ContextItem list" where
  "load_all load allowed scope s [] = Inr []"
| "load_all load allowed scope s (r # rs) =
    (if cr_object_type r \<notin> set allowed
     then Inl (AIContextError (''context type not allowed for agent: '' @ cr_object_type r))
     else case load scope r s of
         Inl e \<Rightarrow> Inl e
       | Inr found \<Rightarrow>
          (case load_all load allowed scope s rs of
             Inl e \<Rightarrow> Inl e
           | Inr items \<Rightarrow> Inr (case found of None \<Rightarrow> items | Some i \<Rightarrow> i # items)))"

definition item_key :: "ContextItem \<Rightarrow> string \<times> string \<times> string" where
  "item_key i = (ci_object_type i, (case ci_occurred_at i of None \<Rightarrow> [] | Some t \<Rightarrow> isoformat t), ci_object_id i)"

definition allowed_evidence_refs :: "ContextItem list \<Rightarrow> json list" where
  "allowed_evidence_refs items = concat (map (\<lambda>i.
     let ref = (\<lambda>n. JObj [(''evidence_id'', JStr n), (''epistemic_status'', JStr (epistemic_value (ci_epistemic_status i)))])
     in ref (ci_provenance_ref i) # (if ci_object_type i = ''evidence'' then [ref (ci_object_id i)] else [])) items)"

definition context_payload :: "AgentContract \<Rightarrow> ContextItem list \<Rightarrow> payload" where
  "context_payload c items =
    [(''schema_name'', JStr ''AgentScopedContext''), (''schema_version'', JInt 1),
     (''purpose'', JStr (ct_contract_key c)),
     (''evidence_ref_policy'', JObj
        [(''allowed_refs'', JList (allowed_evidence_refs items)),
         (''output_rule'', JStr (''If the output schema includes evidence_refs, evidence_id must be one '' @
            ''of allowed_refs exactly and must use the listed epistemic_status. '' @
            ''Do not use IDs embedded inside content unless they are listed here.''))]),
     (''items'', JList (map dump_item items))]"

definition context_manifest :: "'e agent_env_scheme \<Rightarrow> AgentContract \<Rightarrow> ContextItem list \<Rightarrow> string \<Rightarrow> payload" where
  "context_manifest env c items hsh =
    [(''schema_name'', JStr ''AgentContextManifest''), (''schema_version'', JInt 1),
     (''purpose'', JStr (ct_contract_key c)), (''item_count'', JInt (int (length items))),
     (''items'', JList (map (manifest_entry env) items)), (''context_hash'', JStr hsh)]"

definition finish_context ::
  "'e agent_env_scheme \<Rightarrow> ContextBudget \<Rightarrow> AgentContract \<Rightarrow> ContextItem list \<Rightarrow> py_error + ContextBundle" where
  "finish_context env budget c items =
    (let limited = take (max_items budget) (sort_key item_key items);
         missing = filter (\<lambda>t. t \<notin> set (map ci_object_type limited)) (remdups (ct_required_context_types c))
     in if missing \<noteq> [] then Inl (AIContextError (''required context missing: '' @ join_with '', '' (sort missing)))
        else let pl = context_payload c limited
          in (case no_secrets pl of
                Inl e \<Rightarrow> Inl e
              | Inr _ \<Rightarrow>
                  let hsh = stable_hash env (JObj pl); manifest = context_manifest env c limited hsh
                  in (case no_secrets manifest of
                        Inl e \<Rightarrow> Inl e
                      | Inr _ \<Rightarrow> Inr \<lparr>cb_items = limited, cb_manifest = manifest, cb_context_hash = hsh,
                          cb_structured_context = ascii_dumps (float_repr env) (JObj pl)\<rparr>)))"

definition ContextBuilder_build ::
  "'e context_env_scheme \<Rightarrow> ContextBudget \<Rightarrow> ('z, 'y) context_loader \<Rightarrow> 'y TenantScope_scheme \<Rightarrow> AgentContract
     \<Rightarrow> ContextReference list \<Rightarrow> 'z workflow_store_scheme \<Rightarrow> py_error + ContextBundle" where
  "ContextBuilder_build env budget load scope c requested s =
    (case (if requested \<noteq> []
           then load_all load (ct_allowed_context_types c) scope s
             (sort_key (\<lambda>r. (cr_object_type r, cr_object_id r)) requested)
           else collect_default_items env budget scope (ct_allowed_context_types c) s) of
       Inl e \<Rightarrow> Inl e
     | Inr items \<Rightarrow> finish_context env budget c items)"

end
