(* ===== verification/Agent_Models.thy ===== *)
theory Agent_Models
  imports Agent_Context Telegram
begin

text \<open>
  The models behind the agents (\<open>ai_runtime/contracts.py\<close>, \<open>router.py\<close>,
  \<open>adapters/openai.py\<close>, \<open>adapters/fake.py\<close>): requests and results, the route from a
  capability to a provider, and the two adapters. The client library of the provider is the argument
  \<open>api\<close>: what it answers may depend on everything sent before. Every request that leaves the
  process is appended to \<open>provider_log\<close>. The interface the handler of agent runs uses is the
  locale \<open>model_port\<close>, interpreted on both adapters.
\<close>

section \<open>Requests and results (\<open>ai_runtime/contracts.py\<close>)\<close>

datatype ModelResultKind = PARSED | REFUSAL | INCOMPLETE | INVALID_OUTPUT

fun result_kind_value :: "ModelResultKind \<Rightarrow> string" where
  "result_kind_value PARSED = ''PARSED''"
| "result_kind_value REFUSAL = ''REFUSAL''"
| "result_kind_value INCOMPLETE = ''INCOMPLETE''"
| "result_kind_value ModelResultKind.INVALID_OUTPUT = ''INVALID_OUTPUT''"

record ProviderMetadata =
  pm_provider_name :: string
  pm_model_name :: string
  pm_response_id :: "string option"
  pm_token_usage :: payload
  pm_latency_ms :: "int option"
  pm_started_at :: datetime
  pm_completed_at :: datetime

definition opt_int :: "int option \<Rightarrow> json" where
  "opt_int x = (case x of None \<Rightarrow> JNull | Some i \<Rightarrow> JInt i)"

definition safe_dict :: "ProviderMetadata \<Rightarrow> payload" where
  "safe_dict m =
    [(''provider_name'', JStr (pm_provider_name m)), (''model_name'', JStr (pm_model_name m)),
     (''response_id'', opt_json (pm_response_id m)), (''token_usage'', JObj (pm_token_usage m)),
     (''latency_ms'', opt_int (pm_latency_ms m)), (''started_at'', JStr (isoformat (pm_started_at m))),
     (''completed_at'', JStr (isoformat (pm_completed_at m)))]"

record ModelRequest =
  rq_capability :: ModelCapability
  rq_selected_provider_name :: string
  rq_selected_model_name :: string
  rq_system_instructions :: string
  rq_instruction_version :: string
  rq_structured_context :: string
  rq_context_manifest :: payload
  rq_context_hash :: string
  rq_output_type :: OutputModel
  rq_correlation_id :: "string option"
  rq_causation_id :: "string option"
  rq_safe_generation_policy :: "string option"

text \<open>An object of an output class is its class and its dump.\<close>

record ModelResult =
  mr_kind :: ModelResultKind
  mr_parsed_output :: "(OutputModel \<times> payload) option"
  mr_refusal :: "string option"
  mr_incomplete_reason :: "string option"
  mr_invalid_output_reason :: "string option"
  mr_metadata :: ProviderMetadata

definition plain_result :: "ModelResultKind \<Rightarrow> ProviderMetadata \<Rightarrow> ModelResult" where
  "plain_result k m = \<lparr>mr_kind = k, mr_parsed_output = None, mr_refusal = None, mr_incomplete_reason = None,
     mr_invalid_output_reason = None, mr_metadata = m\<rparr>"

abbreviation parsed_result :: "OutputModel \<times> payload \<Rightarrow> ProviderMetadata \<Rightarrow> ModelResult" where
  "parsed_result x m \<equiv> (plain_result PARSED m)\<lparr>mr_parsed_output := Some x\<rparr>"

abbreviation refusal_result :: "string \<Rightarrow> ProviderMetadata \<Rightarrow> ModelResult" where
  "refusal_result x m \<equiv> (plain_result REFUSAL m)\<lparr>mr_refusal := Some x\<rparr>"

abbreviation incomplete_result :: "string \<Rightarrow> ProviderMetadata \<Rightarrow> ModelResult" where
  "incomplete_result x m \<equiv> (plain_result INCOMPLETE m)\<lparr>mr_incomplete_reason := Some x\<rparr>"

abbreviation invalid_result :: "string \<Rightarrow> ProviderMetadata \<Rightarrow> ModelResult" where
  "invalid_result x m \<equiv> (plain_result ModelResultKind.INVALID_OUTPUT m)\<lparr>mr_invalid_output_reason := Some x\<rparr>"

record 'z model_adapter =
  ma_provider_name :: string
  invoke :: "ModelRequest \<Rightarrow> ('z store_scheme, ModelResult) prog"

section \<open>Routes (\<open>ai_runtime/router.py\<close>)\<close>

record ModelRoute =
  mo_capability :: ModelCapability
  mo_provider_name :: string
  mo_model_name :: string

record 'z ModelRouter =
  mt_routes :: "(ModelCapability \<times> ModelRoute) list"
  mt_adapters :: "(string \<times> 'z model_adapter) list"

abbreviation AIConfigurationError :: "string \<Rightarrow> py_error" where
  "AIConfigurationError m \<equiv> OtherError ''AIConfigurationError'' m"

definition new_ModelRouter ::
  "(ModelCapability \<times> ModelRoute) list \<Rightarrow> (string \<times> 'z model_adapter) list \<Rightarrow> py_error + 'z ModelRouter" where
  "new_ModelRouter routes adapters =
    (case List.find (\<lambda>(capability, route). mo_capability route \<noteq> capability) routes of
       Some (capability, route) \<Rightarrow>
         Inl (AIConfigurationError (''model route capability mismatch for '' @ capability_value capability))
     | None \<Rightarrow> Inr \<lparr>mt_routes = routes, mt_adapters = adapters\<rparr>)"

definition resolve_route ::
  "'z ModelRouter \<Rightarrow> ModelCapability \<Rightarrow> py_error + ModelRoute \<times> 'z model_adapter" where
  "resolve_route router capability =
    (case map_of (mt_routes router) capability of
       None \<Rightarrow> Inl (AIConfigurationError (''no model route configured for capability '' @ capability_value capability))
     | Some route \<Rightarrow>
        (case map_of (mt_adapters router) (mo_provider_name route) of
           None \<Rightarrow> Inl (AIConfigurationError (''no adapter configured for provider '' @ mo_provider_name route))
         | Some adapter \<Rightarrow> Inr (route, adapter)))"

definition route_matrix :: "'z ModelRouter \<Rightarrow> payload" where
  "route_matrix router = map (\<lambda>(capability, route). (capability_value capability,
     JObj [(''provider'', JStr (mo_provider_name route)), (''model'', JStr (mo_model_name route))])) (mt_routes router)"

section \<open>The OpenAI adapter (\<open>ai_runtime/adapters/openai.py\<close>)\<close>

text \<open>
  A response is its plain attributes, as JSON (an object for an object, a list for a list), and the
  parsed object: its class, if it is one of the program's, and its dump.
\<close>

record api_response =
  rs_attributes :: payload
  rs_output_parsed :: "(OutputModel option \<times> payload) option"

text \<open>
  What \<open>responses.parse\<close> can do, by the class of the exception: a connection failure or a
  timeout, a rate limit or another error status with its code, another error of the client library, a
  response that does not validate, anything else, or a response.
\<close>

datatype parse_outcome =
    ConnectionFailure string
  | RateLimited string int
  | StatusFailure string int
  | ApiFailure string
  | ParseFailure string
  | OtherFailure py_error
  | Responded api_response

type_synonym openai_api = "json list \<Rightarrow> payload \<Rightarrow> parse_outcome"

fun output_model_name :: "OutputModel \<Rightarrow> string" where
  "output_model_name RuntimeProbeOutput = ''RuntimeProbeOutput''"
| "output_model_name SpecialistContributionModel = ''SpecialistContribution''"
| "output_model_name DecisionCandidateModel = ''DecisionCandidate''"
| "output_model_name ControllerReviewOutputModel = ''ControllerReviewOutput''"
| "output_model_name ContentStrategyProposal = ''ContentStrategyProposal''"
| "output_model_name AssetDraftProposal = ''AssetDraftProposal''"

text \<open>The keyword arguments of the call; a class is named.\<close>

definition call_arguments :: "ModelRequest \<Rightarrow> payload" where
  "call_arguments rq =
    [(''model'', JStr (rq_selected_model_name rq)), (''instructions'', JStr (rq_system_instructions rq)),
     (''input'', JList [JObj [(''role'', JStr ''user''), (''content'', JStr (rq_structured_context rq))]]),
     (''text_format'', JStr (output_model_name (rq_output_type rq))), (''store'', JBool False)]"

definition asked :: "ModelRequest \<Rightarrow> json" where
  "asked rq = log_entry ''responses.parse'' (call_arguments rq)"

definition is_transient_status :: "int \<Rightarrow> bool" where
  "is_transient_status code \<longleftrightarrow> code \<in> {408, 409, 429} \<or> 500 \<le> code"

abbreviation transient_provider_error :: "string \<Rightarrow> py_error" where
  "transient_provider_error m \<equiv> OtherError ''AITransientProviderError'' m"

abbreviation permanent_provider_error :: "string \<Rightarrow> py_error" where
  "permanent_provider_error m \<equiv> OtherError ''AIPermanentProviderError'' m"

definition safe_status_error :: "string \<Rightarrow> int \<Rightarrow> string" where
  "safe_status_error cls code = cls @ '': provider status '' @ show_int code"

definition safe_error :: "string \<Rightarrow> string" where
  "safe_error cls = cls @ '': provider request failed''"

definition attribute :: "json option \<Rightarrow> string \<Rightarrow> json option" where
  "attribute v name = (case as_obj v of None \<Rightarrow> None | Some d \<Rightarrow> dict_get d name)"

definition response_id_of :: "payload \<Rightarrow> string option" where
  "response_id_of d =
    as_str (if truthy (dict_get d ''id'') then dict_get d ''id'' else dict_get d ''_request_id'')"

text \<open>A Boolean is an \<open>int\<close>.\<close>

definition token_usage_of :: "payload \<Rightarrow> payload" where
  "token_usage_of d =
    concat (map (\<lambda>n. case attribute (dict_get d ''usage'') n of
        Some (JInt i) \<Rightarrow> [(n, JInt i)] | Some (JBool b) \<Rightarrow> [(n, JBool b)] | _ \<Rightarrow> [])
      [''input_tokens'', ''output_tokens'', ''total_tokens''])"

fun list_items :: "json option \<Rightarrow> json list" where
  "list_items (Some (JList xs)) = xs"
| "list_items _ = []"

definition extract_refusal :: "payload \<Rightarrow> string option" where
  "extract_refusal d =
    (let parts = concat (map (\<lambda>item. list_items (attribute (Some item) ''content'')) (list_items (dict_get d ''output'')));
         refused = (\<lambda>part. if attribute (Some part) ''type'' = Some (JStr ''refusal'')
           then as_str (attribute (Some part) ''refusal'') else None)
     in (case List.find (\<lambda>part. refused part \<noteq> None) parts of None \<Rightarrow> None | Some part \<Rightarrow> refused part))"

definition incomplete_reason_of :: "payload \<Rightarrow> string option" where
  "incomplete_reason_of d =
    (if dict_get d ''status'' \<noteq> Some (JStr ''incomplete'') then None
     else (case as_str (attribute (dict_get d ''incomplete_details'') ''reason'') of
         Some reason \<Rightarrow> Some reason | None \<Rightarrow> Some ''incomplete''))"

definition response_result :: "ModelRequest \<Rightarrow> api_response \<Rightarrow> ProviderMetadata \<Rightarrow> ModelResult" where
  "response_result rq rsp m =
    (case extract_refusal (rs_attributes rsp) of
       Some refusal \<Rightarrow> refusal_result refusal m
     | None \<Rightarrow>
        (case incomplete_reason_of (rs_attributes rsp) of
           Some reason \<Rightarrow> incomplete_result reason m
         | None \<Rightarrow>
            (case rs_output_parsed rsp of
               None \<Rightarrow> invalid_result ''OpenAI response did not include parsed structured output'' m
             | Some (cls, parsed) \<Rightarrow>
                 if cls \<noteq> Some (rq_output_type rq)
                 then invalid_result ''OpenAI parsed output type did not match requested schema'' m
                 else parsed_result (rq_output_type rq, parsed) m)))"

text \<open>\<open>clocks\<close> gives the instants around a call and its latency.\<close>

type_synonym model_clocks = "json list \<Rightarrow> datetime \<times> datetime \<times> int"

definition openai_metadata ::
  "model_clocks \<Rightarrow> json list \<Rightarrow> ModelRequest \<Rightarrow> string option \<Rightarrow> payload \<Rightarrow> ProviderMetadata" where
  "openai_metadata clocks lg rq response_id usage =
    (let (t0, t1, latency) = clocks lg
     in \<lparr>pm_provider_name = ''openai'', pm_model_name = rq_selected_model_name rq, pm_response_id = response_id,
         pm_token_usage = usage, pm_latency_ms = Some latency, pm_started_at = t0, pm_completed_at = t1\<rparr>)"

definition openai_outcome ::
  "model_clocks \<Rightarrow> json list \<Rightarrow> ModelRequest \<Rightarrow> parse_outcome \<Rightarrow> py_error + ModelResult" where
  "openai_outcome clocks lg rq outcome =
    (case outcome of
       ConnectionFailure cls \<Rightarrow> Inl (transient_provider_error (safe_error cls))
     | RateLimited cls code \<Rightarrow> Inl (transient_provider_error (safe_status_error cls code))
     | StatusFailure cls code \<Rightarrow>
         Inl ((if is_transient_status code then transient_provider_error else permanent_provider_error)
           (safe_status_error cls code))
     | ApiFailure cls \<Rightarrow> Inl (permanent_provider_error (safe_error cls))
     | ParseFailure m \<Rightarrow> Inr (invalid_result m (openai_metadata clocks lg rq None []))
     | OtherFailure e \<Rightarrow> Inl e
     | Responded rsp \<Rightarrow> Inr (response_result rq rsp
         (openai_metadata clocks lg rq (response_id_of (rs_attributes rsp)) (token_usage_of (rs_attributes rsp)))))"

definition openai_invoke ::
  "openai_api \<Rightarrow> model_clocks \<Rightarrow> ModelRequest \<Rightarrow> ('z store_scheme, ModelResult) prog" where
  "openai_invoke api clocks rq =
     bnd (gets provider_log) (\<lambda>lg.
     bnd (modify (\<lambda>s. s\<lparr>provider_log := provider_log s @ [asked rq]\<rparr>)) (\<lambda>_.
     lift_sum (openai_outcome clocks lg rq (api lg (call_arguments rq)))))"

definition openai_adapter :: "openai_api \<Rightarrow> model_clocks \<Rightarrow> 'z model_adapter" where
  "openai_adapter api clocks = \<lparr>ma_provider_name = ''openai'', invoke = openai_invoke api clocks\<rparr>"

definition OpenAIResponsesAdapter ::
  "string option \<Rightarrow> openai_api \<Rightarrow> model_clocks \<Rightarrow> py_error + 'z model_adapter" where
  "OpenAIResponsesAdapter api_key api clocks =
    (if api_key \<in> {None, Some []} then Inl (AIConfigurationError ''OpenAI adapter requires OPENAI_API_KEY'')
     else Inr (openai_adapter api clocks))"

section \<open>The scripted adapter (\<open>ai_runtime/adapters/fake.py\<close>)\<close>

text \<open>The kind is text; the kinds of results are the texts of the enumeration.\<close>

record FakeAdapterScriptStep =
  fs_kind :: string
  fs_payload :: "payload option"
  fs_refusal :: "string option"
  fs_incomplete_reason :: "string option"
  fs_invalid_output_reason :: "string option"
  fs_error_message :: string

definition default_success_step :: FakeAdapterScriptStep where
  "default_success_step = \<lparr>fs_kind = ''PARSED'', fs_payload = Some
     [(''schema_name'', JStr ''RuntimeProbeOutput''), (''schema_version'', JInt 1),
      (''message'', JStr ''fake runtime probe completed''), (''facts_used'', JList []), (''hypotheses'', JList []),
      (''unknowns'', JList []), (''confidence'', JFloat (1 / 2))],
     fs_refusal = None, fs_incomplete_reason = None, fs_invalid_output_reason = None,
     fs_error_message = ''scripted provider failure''\<rparr>"

fun is_call :: "json \<Rightarrow> bool" where
  "is_call (JList [JStr m, _]) = (m = ''responses.parse'')"
| "is_call _ = False"

definition call_count :: "json list \<Rightarrow> nat" where
  "call_count lg = length (filter is_call lg)"

text \<open>\<open>model_validate\<close> of an output class: the dump of the object, or the first message.\<close>

type_synonym output_validator = "OutputModel \<Rightarrow> payload \<Rightarrow> string + payload"

definition fake_outcome ::
  "output_validator \<Rightarrow> ModelRequest \<Rightarrow> FakeAdapterScriptStep \<Rightarrow> ProviderMetadata \<Rightarrow> py_error + ModelResult" where
  "fake_outcome validate rq step m =
    (if fs_kind step = ''transient_error'' then Inl (transient_provider_error (fs_error_message step))
     else if fs_kind step = ''permanent_error'' then Inl (permanent_provider_error (fs_error_message step))
     else if fs_kind step = ''REFUSAL'' then Inr (refusal_result (or_else (fs_refusal step) ''fake refusal'') m)
     else if fs_kind step = ''INCOMPLETE''
     then Inr (incomplete_result (or_else (fs_incomplete_reason step) ''fake incomplete response'') m)
     else if fs_kind step = ''INVALID_OUTPUT''
     then Inr (invalid_result (or_else (fs_invalid_output_reason step) ''fake invalid output'') m)
     else (case validate (rq_output_type rq) (case fs_payload step of None \<Rightarrow> [] | Some d \<Rightarrow> d) of
         Inl msg \<Rightarrow> Inr (invalid_result msg m)
       | Inr parsed \<Rightarrow> Inr (parsed_result (rq_output_type rq, parsed) m)))"

text \<open>The call of number \<open>n\<close> plays step \<open>n\<close> of the script, and the default step after its end.\<close>

definition fake_metadata :: "string \<Rightarrow> model_clocks \<Rightarrow> json list \<Rightarrow> ModelRequest \<Rightarrow> ProviderMetadata" where
  "fake_metadata model_name clocks lg rq =
    (let (t0, t1, _) = clocks lg
     in \<lparr>pm_provider_name = (if rq_selected_provider_name rq \<noteq> [] then rq_selected_provider_name rq else ''fake''),
         pm_model_name = (if rq_selected_model_name rq \<noteq> [] then rq_selected_model_name rq else model_name),
         pm_response_id = Some (''fake-response-'' @ show_nat (call_count lg + 1)),
         pm_token_usage = [(''input_tokens'', JInt 1), (''output_tokens'', JInt 1), (''total_tokens'', JInt 2)],
         pm_latency_ms = Some 0, pm_started_at = t0, pm_completed_at = t1\<rparr>)"

definition fake_invoke ::
  "output_validator \<Rightarrow> string \<Rightarrow> FakeAdapterScriptStep list \<Rightarrow> model_clocks \<Rightarrow> ModelRequest
     \<Rightarrow> ('z store_scheme, ModelResult) prog" where
  "fake_invoke validate model_name script clocks rq =
     bnd (gets provider_log) (\<lambda>lg.
     bnd (modify (\<lambda>s. s\<lparr>provider_log := provider_log s @ [asked rq]\<rparr>)) (\<lambda>_.
     let n = call_count lg; step = (if n < length script then script ! n else default_success_step)
     in lift_sum (fake_outcome validate rq step (fake_metadata model_name clocks lg rq))))"

definition FakeModelAdapter ::
  "output_validator \<Rightarrow> string \<Rightarrow> FakeAdapterScriptStep list \<Rightarrow> model_clocks \<Rightarrow> 'z model_adapter" where
  "FakeModelAdapter validate model_name script clocks =
     \<lparr>ma_provider_name = ''fake'', invoke = fake_invoke validate model_name script clocks\<rparr>"

section \<open>Routers of the composition (\<open>ai_runtime/composition.py\<close>)\<close>

definition all_capabilities :: "ModelCapability list" where
  "all_capabilities = [DEEP_REASONING, STANDARD_REASONING, FAST_STRUCTURED_CLASSIFICATION, CREATIVE_COPY, VISION,
     IMAGE_GENERATION, SPEECH_TO_TEXT, EMBEDDINGS]"

definition routes_to :: "string \<Rightarrow> string \<Rightarrow> ModelCapability list \<Rightarrow> (ModelCapability \<times> ModelRoute) list" where
  "routes_to provider model caps = map (\<lambda>c. (c,
     \<lparr>mo_capability = c, mo_provider_name = provider, mo_model_name = model\<rparr>)) caps"

definition fake_model_router :: "'z model_adapter \<Rightarrow> string option \<Rightarrow> py_error + 'z ModelRouter" where
  "fake_model_router adapter model_name =
     new_ModelRouter (routes_to (ma_provider_name adapter)
         (case model_name of None \<Rightarrow> ''fake-structured-model'' | Some m \<Rightarrow> m) all_capabilities)
       [(ma_provider_name adapter, adapter)]"

section \<open>The interface\<close>

text \<open>
  An adapter sends one request for each call and touches nothing else. What it returns names the
  provider and the model the request selected, a parsed object is of the class that was asked for, and
  an object is there exactly for a parsed result.
\<close>

locale model_port =
  fixes adapter :: "'z model_adapter"
  assumes asks_once: "snd (invoke adapter rq s) = s\<lparr>provider_log := provider_log s @ [asked rq]\<rparr>"
    and route_kept: "invoke adapter rq s = (Inr result, t) \<Longrightarrow>
      rq_selected_provider_name rq = ma_provider_name adapter \<Longrightarrow> rq_selected_provider_name rq \<noteq> [] \<Longrightarrow>
      rq_selected_model_name rq \<noteq> [] \<Longrightarrow>
      pm_provider_name (mr_metadata result) = rq_selected_provider_name rq \<and>
      pm_model_name (mr_metadata result) = rq_selected_model_name rq"
    and typed: "invoke adapter rq s = (Inr result, t) \<Longrightarrow>
      (mr_kind result = PARSED \<longleftrightarrow> mr_parsed_output result \<noteq> None) \<and>
      (\<forall>x. mr_parsed_output result = Some x \<longrightarrow> fst x = rq_output_type rq)"
begin

lemma invoke_state:
  assumes "invoke adapter rq s = (x, t)"
  shows "t = s\<lparr>provider_log := provider_log s @ [asked rq]\<rparr>"
  using asks_once [of rq s] assms by simp

lemma invoke_frame: "tracks jobs_frame (invoke adapter rq)"
proof (rule tracksI)
  fix s :: "'z store_scheme"
  show "jobs_frame s (snd (invoke adapter rq s))"
    unfolding asks_once by (rule jobs_frame_same) simp_all
qed

end

lemma openai_outcome_typed:
  assumes "openai_outcome clocks lg rq outcome = Inr result"
  shows "pm_provider_name (mr_metadata result) = ''openai'' \<and>
    pm_model_name (mr_metadata result) = rq_selected_model_name rq \<and>
    (mr_kind result = PARSED \<longleftrightarrow> mr_parsed_output result \<noteq> None) \<and>
    (\<forall>x. mr_parsed_output result = Some x \<longrightarrow> fst x = rq_output_type rq)"
  using assms
  by (auto simp: openai_outcome_def response_result_def openai_metadata_def plain_result_def
      split: parse_outcome.splits option.splits if_splits prod.splits)

interpretation openai_model: model_port "openai_adapter api clocks"
proof
  fix rq result and s t :: "'z store_scheme"
  let ?a = "openai_adapter api clocks"
  show "snd (invoke ?a rq s) = s\<lparr>provider_log := provider_log s @ [asked rq]\<rparr>"
    by (simp add: openai_adapter_def openai_invoke_def run_simps)
  assume run: "invoke ?a rq s = (Inr result, t)"
  then have "openai_outcome clocks (provider_log s) rq (api (provider_log s) (call_arguments rq)) = Inr result"
    by (simp add: openai_adapter_def openai_invoke_def run_simps)
  note typed = openai_outcome_typed [OF this]
  show "(mr_kind result = PARSED \<longleftrightarrow> mr_parsed_output result \<noteq> None) \<and>
      (\<forall>x. mr_parsed_output result = Some x \<longrightarrow> fst x = rq_output_type rq)"
    using typed by blast
  assume "rq_selected_provider_name rq = ma_provider_name ?a"
  then show "pm_provider_name (mr_metadata result) = rq_selected_provider_name rq \<and>
      pm_model_name (mr_metadata result) = rq_selected_model_name rq"
    using typed by (simp add: openai_adapter_def)
qed

lemma fake_outcome_typed:
  assumes "fake_outcome validate rq step m = Inr result"
  shows "mr_metadata result = m \<and> (mr_kind result = PARSED \<longleftrightarrow> mr_parsed_output result \<noteq> None) \<and>
    (\<forall>x. mr_parsed_output result = Some x \<longrightarrow> fst x = rq_output_type rq)"
  using assms by (auto simp: fake_outcome_def plain_result_def split: if_splits sum.splits)

interpretation fake_model: model_port "FakeModelAdapter validate model_name script clocks"
proof
  fix rq result and s t :: "'z store_scheme"
  let ?a = "FakeModelAdapter validate model_name script clocks"
  show "snd (invoke ?a rq s) = s\<lparr>provider_log := provider_log s @ [asked rq]\<rparr>"
    by (simp add: FakeModelAdapter_def fake_invoke_def run_simps Let_def)
  assume "invoke ?a rq s = (Inr result, t)"
  then obtain step where
    "fake_outcome validate rq step (fake_metadata model_name clocks (provider_log s) rq) = Inr result"
    by (auto simp: FakeModelAdapter_def fake_invoke_def run_simps Let_def)
  note typed = fake_outcome_typed [OF this]
  show "(mr_kind result = PARSED \<longleftrightarrow> mr_parsed_output result \<noteq> None) \<and>
      (\<forall>x. mr_parsed_output result = Some x \<longrightarrow> fst x = rq_output_type rq)"
    using typed by blast
  assume "rq_selected_provider_name rq \<noteq> []" "rq_selected_model_name rq \<noteq> []"
  then show "pm_provider_name (mr_metadata result) = rq_selected_provider_name rq \<and>
      pm_model_name (mr_metadata result) = rq_selected_model_name rq"
    using typed by (simp add: fake_metadata_def split: prod.splits)
qed

end
