(* ===== verification/Agent_Handler.thy ===== *)
theory Agent_Handler
  imports Agent_Models
begin

text \<open>
  The handler of agent runs (\<open>ai_runtime/job_handler.py\<close>): it loads a run, checks that the
  stored definition still says what the code says, builds the context, asks the model the contract is
  routed to, and stores what came back on the run. A failed attempt is recorded on the run as well.
\<close>

section \<open>Inputs\<close>

abbreviation AIInvalidOutputError :: "string \<Rightarrow> py_error" where
  "AIInvalidOutputError m \<equiv> OtherError ''AIInvalidOutputError'' m"

definition agent_run_id :: "payload \<Rightarrow> py_error + string" where
  "agent_run_id pl =
    (if \<not> equals_int (dict_get pl ''payload_schema_version'') 1
     then Inl (PermanentJobError ''ai.run_agent payload_schema_version must be 1'')
     else (case as_str (dict_get pl ''agent_run_id'') of
         None \<Rightarrow> Inl (PermanentJobError ''agent_run_id is required'') | Some i \<Rightarrow> Inr i))"

definition load_run :: "string \<Rightarrow> 'z agent_store_scheme \<Rightarrow> py_error + agent_run_row" where
  "load_run i s = (case row_get rid i (agent_runs s) of
     None \<Rightarrow> Inl (PermanentJobError (''AgentRun not found: '' @ i)) | Some run \<Rightarrow> Inr run)"

text \<open>\<open>ContextReference.model_validate\<close>: both fields, not empty, and nothing else.\<close>

definition validate_reference :: "payload \<Rightarrow> py_error + ContextReference" where
  "validate_reference d =
    (case (as_str (dict_get d ''object_type''), as_str (dict_get d ''object_id'')) of
       (Some ty, Some i) \<Rightarrow>
         if ty \<noteq> [] \<and> i \<noteq> [] \<and> list_all (\<lambda>k. k \<in> {''object_type'', ''object_id''}) (map fst d)
         then Inr \<lparr>cr_object_type = ty, cr_object_id = i\<rparr>
         else Inl (AIContractError ''AgentRun context_refs failed validation'')
     | _ \<Rightarrow> Inl (AIContractError ''AgentRun context_refs failed validation''))"

definition context_refs :: "payload list \<Rightarrow> py_error + ContextReference list" where
  "context_refs refs = sequence (map validate_reference refs)"

section \<open>Outcomes\<close>

definition update_run ::
  "agent_run_row \<Rightarrow> (agent_run_row \<Rightarrow> agent_run_row) \<Rightarrow> ('z agent_store_scheme, unit) prog" where
  "update_run run f =
     bnd (modify (\<lambda>s. s\<lparr>agent_runs := row_set rid (rid run) f (agent_runs s)\<rparr>)) (\<lambda>_. touch (org run) (biz run))"

definition started_run :: "datetime \<Rightarrow> agent_run_row \<Rightarrow> agent_run_row" where
  "started_run now r = r\<lparr>ar_status := AgentRunStatus.RUNNING, ar_started_at := Some now, ar_completed_at := None,
     ar_error_class := None, ar_error_summary := None, ar_refusal_summary := None\<rparr>"

definition with_context :: "ContextBundle \<Rightarrow> agent_run_row \<Rightarrow> agent_run_row" where
  "with_context b r = r\<lparr>ar_context_manifest := cb_manifest b, ar_context_hash := Some (cb_context_hash b)\<rparr>"

definition provider_trace :: "ProviderMetadata \<Rightarrow> agent_run_row \<Rightarrow> agent_run_row" where
  "provider_trace m r = r\<lparr>ar_provider_name := Some (pm_provider_name m), ar_provider_model := Some (pm_model_name m),
     ar_provider_response_id := pm_response_id m, ar_token_usage := pm_token_usage m,
     ar_latency_ms := pm_latency_ms m\<rparr>"

definition assert_route_trace :: "ModelCapability \<Rightarrow> ModelRoute \<Rightarrow> ModelResult \<Rightarrow> py_error + unit" where
  "assert_route_trace capability route result =
    (let m = mr_metadata result in
     if pm_provider_name m \<noteq> mo_provider_name route \<or> pm_model_name m \<noteq> mo_model_name route
     then Inl (AIContractError (''model route trace mismatch: requested='' @ capability_value capability @
       '' selected='' @ mo_provider_name route @ ''/'' @ mo_model_name route @
       '' invoked='' @ pm_provider_name m @ ''/'' @ pm_model_name m))
     else Inr ())"

definition trace_of :: "string \<Rightarrow> ModelCapability \<Rightarrow> ModelRoute \<Rightarrow> ProviderMetadata \<Rightarrow> payload" where
  "trace_of outcome capability route m =
     safe_dict m @
     [(''schema_name'', JStr ''AgentRunProviderTrace''), (''schema_version'', JInt 1), (''outcome'', JStr outcome),
      (''requested_capability'', JStr (capability_value capability)),
      (''selected_provider_name'', JStr (mo_provider_name route)),
      (''selected_model_name'', JStr (mo_model_name route)),
      (''actual_provider_name'', JStr (pm_provider_name m)), (''actual_model_name'', JStr (pm_model_name m))]"

definition safe_trace :: "string \<Rightarrow> ModelCapability \<Rightarrow> ModelRoute \<Rightarrow> ProviderMetadata \<Rightarrow> py_error + payload" where
  "safe_trace outcome capability route m =
    (let trace = trace_of outcome capability route m
     in case no_secrets trace of Inl e \<Rightarrow> Inl e | Inr _ \<Rightarrow> Inr trace)"

definition safe_text :: "string \<Rightarrow> string" where
  "safe_text v = removeprefix ''RuntimeError: '' (redacted_error_summary (OtherError ''RuntimeError'' v))"

definition invalid_reason :: "ModelResult \<Rightarrow> string" where
  "invalid_reason result =
     or_else (mr_incomplete_reason result) (or_else (mr_invalid_output_reason result) ''invalid output'')"

text \<open>The fields that a result of each kind writes, before the trace.\<close>

definition settled_run :: "datetime \<Rightarrow> ModelResult \<Rightarrow> agent_run_row \<Rightarrow> agent_run_row" where
  "settled_run now result r =
    (case mr_kind result of
       PARSED \<Rightarrow> r\<lparr>ar_status := AgentRunStatus.SUCCEEDED, ar_output_data := map_option snd (mr_parsed_output result),
         ar_output_ref := None, ar_completed_at := Some now\<rparr>
     | REFUSAL \<Rightarrow> r\<lparr>ar_status := AgentRunStatus.REFUSED,
         ar_refusal_summary := Some (safe_text (or_else (mr_refusal result) ''provider refusal'')),
         ar_output_data := None, ar_completed_at := Some now\<rparr>
     | _ \<Rightarrow> r\<lparr>ar_status := AgentRunStatus.INVALID_OUTPUT, ar_error_class := Some (result_kind_value (mr_kind result)),
         ar_error_summary := Some (safe_text (invalid_reason result)), ar_output_data := None,
         ar_completed_at := Some now\<rparr>)"

fun outcome_value :: "ModelResultKind \<Rightarrow> string" where
  "outcome_value PARSED = ''SUCCEEDED''"
| "outcome_value REFUSAL = ''REFUSED''"
| "outcome_value _ = ''INVALID_OUTPUT''"

definition parsed_output_checked :: "ModelResult \<Rightarrow> py_error + unit" where
  "parsed_output_checked result =
    (if mr_kind result = PARSED
     then (case mr_parsed_output result of
         None \<Rightarrow> Inl (AIInvalidOutputError ''parsed result missing output object'')
       | Some (cls, pl) \<Rightarrow> no_secrets pl)
     else Inr ())"

definition persist_model_result ::
  "agent_run_row \<Rightarrow> ModelResult \<Rightarrow> datetime \<Rightarrow> ModelCapability \<Rightarrow> ModelRoute \<Rightarrow> ('z agent_store_scheme, unit) prog" where
  "persist_model_result run result now capability route =
     bnd (update_run run (provider_trace (mr_metadata result))) (\<lambda>_.
     bnd (lift_sum (parsed_output_checked result)) (\<lambda>_.
     bnd (update_run run (settled_run now result)) (\<lambda>_.
     bnd (lift_sum (safe_trace (outcome_value (mr_kind result)) capability route (mr_metadata result))) (\<lambda>trace.
     update_run run (\<lambda>r. r\<lparr>ar_safe_trace_metadata := trace\<rparr>)))))"

section \<open>The handler\<close>

type_synonym ('z, 'y) context_build =
  "'y TenantScope_scheme \<Rightarrow> AgentContract \<Rightarrow> ContextReference list \<Rightarrow> 'z workflow_store_scheme
     \<Rightarrow> py_error + ContextBundle"

definition model_request ::
  "RuntimeJobContext \<Rightarrow> AgentContract \<Rightarrow> ModelRoute \<Rightarrow> ContextBundle \<Rightarrow> ModelRequest" where
  "model_request context c route b =
    \<lparr>rq_capability = ct_model_capability c, rq_selected_provider_name = mo_provider_name route,
     rq_selected_model_name = mo_model_name route, rq_system_instructions = ct_system_instructions c,
     rq_instruction_version = ct_instruction_version c, rq_structured_context = cb_structured_context b,
     rq_context_manifest = cb_manifest b, rq_context_hash = cb_context_hash b, rq_output_type = ct_output_model c,
     rq_correlation_id = ctx_correlation_id context, rq_causation_id = ctx_causation_id context,
     rq_safe_generation_policy = Some ''strict_structured_output_no_tools_no_truth_promotion''\<rparr>"

text \<open>The contract of a run: registered, the same as the stored definition, and the one the run was made for.\<close>

definition run_contract ::
  "'e agent_env_scheme \<Rightarrow> agent_registry \<Rightarrow> agent_run_row \<Rightarrow> 'z agent_store_scheme \<Rightarrow> py_error + AgentContract" where
  "run_contract env reg run s =
    (case row_get rid (ar_agent_definition_id run) (agent_definitions s) of
       None \<Rightarrow> Inl (AIContractError ''AgentDefinition not found for AgentRun'')
     | Some d \<Rightarrow>
        (case resolve_contract reg (ar_contract_key run) (ar_contract_version run) of
           Inl e \<Rightarrow> Inl e
         | Inr c \<Rightarrow>
            (case assert_agent_definition_parity env d c of
               Inl e \<Rightarrow> Inl e
             | Inr _ \<Rightarrow>
                if ar_contract_fingerprint run \<noteq> fingerprint env c
                then Inl (AIContractError ''AgentRun contract fingerprint does not match AgentDefinition'')
                else Inr c)))"

definition run_agent ::
  "('z, unit) context_build \<Rightarrow> ('z workflow_store_ext business_store_ext agent_store_ext decision_store_ext
       analytics_store_ext exec_store_ext) ModelRouter
     \<Rightarrow> RuntimeJobContext \<Rightarrow> agent_run_row \<Rightarrow> AgentContract \<Rightarrow> datetime \<Rightarrow> ('z workflow_store_scheme, unit) prog" where
  "run_agent build router context run c now =
     bnd (update_run run (started_run now)) (\<lambda>_.
     bnd flush (\<lambda>_.
     bnd (lift_sum (context_refs (ar_context_refs run))) (\<lambda>refs.
     bnd (query (build \<lparr>organization_id = organization_id context, business_id = business_id context\<rparr> c refs)) (\<lambda>b.
     bnd (update_run run (with_context b)) (\<lambda>_.
     bnd (lift_sum (resolve_route router (ct_model_capability c))) (\<lambda>(route, adapter).
     bnd (invoke adapter (model_request context c route b)) (\<lambda>result.
     bnd (lift_sum (assert_route_trace (ct_model_capability c) route result)) (\<lambda>_.
     bnd (persist_model_result run result now (ct_model_capability c) route) (\<lambda>_.
     flush)))))))))"

definition AgentRunJobHandler_handle ::
  "'e agent_env_scheme \<Rightarrow> agent_registry \<Rightarrow> ('z, unit) context_build
     \<Rightarrow> ('z workflow_store_ext business_store_ext agent_store_ext decision_store_ext
       analytics_store_ext exec_store_ext) ModelRouter
     \<Rightarrow> RuntimeJobContext \<Rightarrow> payload \<Rightarrow> datetime \<Rightarrow> ('z workflow_store_scheme, unit) prog" where
  "AgentRunJobHandler_handle env reg build router context pl now =
     bnd (check_no_secrets pl) (\<lambda>_.
     bnd (lift_sum (agent_run_id pl)) (\<lambda>i.
     bnd (query (load_run i)) (\<lambda>run.
     bnd (check_scope context (org run) (biz run)) (\<lambda>_.
     bnd (require (ar_job_id run \<in> {None, Some (ctx_job_id context)})
           (AIContractError ''AgentRun is bound to a different Job'')) (\<lambda>_.
     if agent_run_is_terminal run then ret ()
     else bnd (query (run_contract env reg run)) (\<lambda>c. run_agent build router context run c now))))))"

definition failed_run :: "job_row \<Rightarrow> py_error \<Rightarrow> bool \<Rightarrow> datetime \<Rightarrow> agent_run_row \<Rightarrow> agent_run_row" where
  "failed_run job e will_retry now r = r\<lparr>
     ar_status := (if will_retry then AgentRunStatus.RETRY_WAIT else AgentRunStatus.FAILED),
     ar_error_class := Some (error_class_name e), ar_error_summary := Some (redacted_error_summary e),
     ar_safe_trace_metadata :=
       [(''schema_name'', JStr ''AgentRunFailureTrace''), (''schema_version'', JInt 1),
        (''will_retry'', JBool will_retry), (''job_id'', JStr (rid job)),
        (''job_attempt_count'', JInt (attempt_count job))],
     ar_completed_at := (if will_retry then None else Some now)\<rparr>"

definition AgentRunJobHandler_record_attempt_failure ::
  "job_row \<Rightarrow> py_error \<Rightarrow> bool \<Rightarrow> datetime \<Rightarrow> timedelta \<Rightarrow> ('z agent_store_scheme, unit) prog" where
  "AgentRunJobHandler_record_attempt_failure job e will_retry now retry_backoff =
     bnd (gets (\<lambda>s. case as_str (dict_get (job_payload job) ''agent_run_id'') of
            None \<Rightarrow> None | Some i \<Rightarrow> row_get rid i (agent_runs s))) (\<lambda>found.
     case found of
       None \<Rightarrow> ret ()
     | Some run \<Rightarrow>
         if agent_run_is_terminal run \<or> org run \<noteq> org job \<or> biz run \<noteq> biz job then ret ()
         else bnd (update_run run (failed_run job e will_retry now)) (\<lambda>_. flush))"

definition AgentRunJobHandler ::
  "'e agent_env_scheme \<Rightarrow> agent_registry \<Rightarrow> ('z, unit) context_build
     \<Rightarrow> ('z workflow_store_ext business_store_ext agent_store_ext decision_store_ext
       analytics_store_ext exec_store_ext) ModelRouter
     \<Rightarrow> ('z workflow_store_ext business_store_ext agent_store_ext decision_store_ext
       analytics_store_ext exec_store_ext) job_handler" where
  "AgentRunJobHandler env reg build router =
    \<lparr>handle = AgentRunJobHandler_handle env reg build router,
     record_attempt_failure = Some AgentRunJobHandler_record_attempt_failure\<rparr>"

end
