(* ===== verification/Agent_Registry.thy ===== *)
theory Agent_Registry
  imports Agent_Runs
begin

text \<open>
  What the registry of agent contracts promises: it holds exactly the validated contracts it was built
  from, and the authorities of the roles are separate.
\<close>

definition registered :: "agent_registry \<Rightarrow> bool" where
  "registered reg \<longleftrightarrow> (\<forall>k v c. reg (k, v) = Some c \<longrightarrow> ct_contract_key c = k \<and> ct_contract_version c = v)"

abbreviation contract_id :: "AgentContract \<Rightarrow> string \<times> int" where
  "contract_id c \<equiv> (ct_contract_key c, ct_contract_version c)"

lemma add_contracts_exact:
  "add_contracts cs reg = Inr reg' \<Longrightarrow>
   distinct (map contract_id cs) \<and> (\<forall>c \<in> set cs. reg (contract_id c) = None) \<and>
   (\<forall>k c. reg' k = Some c \<longleftrightarrow> reg k = Some c \<or> c \<in> set cs \<and> contract_id c = k)"
proof (induction cs arbitrary: reg)
  case (Cons c cs)
  then have none: "reg (contract_id c) = None" and rest: "add_contracts cs (reg(contract_id c \<mapsto> c)) = Inr reg'"
    by (auto simp: Let_def split: option.splits)
  from Cons.IH [OF rest] none show ?case by (auto split: if_splits)
qed simp

lemma find_none_validated:
  "List.find (\<lambda>r. r \<noteq> Inr ()) (map validate_contract cs) = None \<longleftrightarrow> (\<forall>c \<in> set cs. validate_contract c = Inr ())"
  by (induction cs) auto

lemma registry_built:
  assumes "AgentRegistry cs = Inr reg"
  shows "(\<forall>c \<in> set cs. validate_contract c = Inr ()) \<and> add_contracts cs Map.empty = Inr reg"
proof (cases "List.find (\<lambda>r. r \<noteq> Inr ()) (map validate_contract cs)")
  case None
  with assms show ?thesis using find_none_validated [of cs] by (simp add: AgentRegistry_def)
next
  case (Some r)
  then have "r \<noteq> Inr ()" by (auto simp: find_Some_iff)
  with assms Some show ?thesis by (cases r) (simp_all add: AgentRegistry_def)
qed

lemma registered_built: "AgentRegistry cs = Inr reg \<Longrightarrow> registered reg"
  using add_contracts_exact registry_built by (fastforce simp: registered_def)

text \<open>
  Claim C33. The registry of agents is exact. It is built only from contracts that all pass the
  validation rules and whose key and version occur once, and then resolves a key and version to the
  contract with exactly this key and version, if there is one, and to an error otherwise. Every registered
  agent may read its context; no specialist may propose or review a decision or an asset, no chief may
  review a decision or touch assets, and no controller may propose anything.
\<close>

theorem agent_registry_exact:
  assumes built: "AgentRegistry cs = Inr reg"
  shows "distinct (map contract_id cs) \<and> (\<forall>c \<in> set cs. validate_contract c = Inr ()) \<and>
    (\<forall>key v c. resolve_contract reg key v = Inr c \<longleftrightarrow> c \<in> set cs \<and> contract_id c = (key, v)) \<and>
    (\<forall>key v c. resolve_contract reg key v = Inr c \<longrightarrow> READ_CONTEXT \<in> set (ct_authority_boundaries c) \<and>
       (starts_with ''ai.specialist.'' key \<longrightarrow> set (ct_authority_boundaries c) \<inter>
          {PROPOSE_DECISION_CANDIDATE, REVIEW_DECISION_CANDIDATE, PROPOSE_CONTENT_STRATEGY, PROPOSE_ASSET_DRAFT,
           REVIEW_ASSET_VERSION} = {}) \<and>
       (starts_with ''ai.chief.'' key \<longrightarrow> set (ct_authority_boundaries c) \<inter>
          {REVIEW_DECISION_CANDIDATE, PROPOSE_CONTENT_STRATEGY, PROPOSE_ASSET_DRAFT, REVIEW_ASSET_VERSION} = {}) \<and>
       (starts_with ''ai.controller.'' key \<longrightarrow> set (ct_authority_boundaries c) \<inter>
          {PROPOSE_RECOMMENDATION, PROPOSE_DECISION_CANDIDATE, PROPOSE_CONTENT_STRATEGY, PROPOSE_ASSET_DRAFT} = {}))"
proof -
  from registry_built [OF built] have ok: "\<forall>c \<in> set cs. validate_contract c = Inr ()"
    and add: "add_contracts cs Map.empty = Inr reg" by simp_all
  have res: "resolve_contract reg key v = Inr c \<longleftrightarrow> c \<in> set cs \<and> contract_id c = (key, v)" for key v c
  proof -
    have "resolve_contract reg key v = Inr c \<longleftrightarrow> reg (key, v) = Some c"
      by (simp add: resolve_contract_def split: option.split)
    then show ?thesis using add_contracts_exact [OF add] by simp
  qed
  have rules: "list_all fst (role_rules c)" if "c \<in> set cs" for c
  proof -
    from that ok have "validate_contract c = Inr ()" by blast
    then have "List.find (\<lambda>(ok, m). \<not> ok) (contract_rules c) = None"
      by (simp add: validate_contract_def split: option.splits prod.splits)
    then have "list_all fst (contract_rules c)" by (auto simp only: find_None_iff list_all_iff split_beta not_not)
    then show ?thesis by (simp add: contract_rules_def Let_def)
  qed
  show ?thesis
    using add_contracts_exact [OF add] ok res rules
    by (auto simp: role_rules_def Let_def list_all_iff)
qed

lemma phase3_built: "\<not> isl phase3_agent_registry"
  by code_simp

theorem agent_registry_exact_witness:
  "\<exists>reg. phase3_agent_registry = Inr reg \<and> distinct (map contract_id phase3_contracts) \<and>
     (\<forall>c \<in> set phase3_contracts. resolve_contract reg (ct_contract_key c) (ct_contract_version c) = Inr c)"
proof -
  obtain reg where reg: "AgentRegistry phase3_contracts = Inr reg"
    using phase3_built unfolding phase3_agent_registry_def by (cases "AgentRegistry phase3_contracts") auto
  from agent_registry_exact [OF reg] reg show ?thesis by (auto simp: phase3_agent_registry_def)
qed

end
