(* ===== verification/Production_Schemas.thy ===== *)
theory Production_Schemas
  imports Agent_Context Production_Registry
begin

text \<open>
  The data of production: the outputs of the content director and the writer
  (\<open>ai_runtime/schemas.py\<close>) and the tables of \<open>persistence/production_models.py\<close> that the earlier
  theories do not need. As before, the parsers belong to the validation library and are arguments.
\<close>

section \<open>Outputs\<close>

record ContentStrategyProposal =
  st_objective :: string
  st_audience :: string
  st_content_job :: string
  st_core_message :: string
  st_angle :: string
  st_message_mechanism :: string
  st_tone :: string
  st_cta_intent :: string
  st_channel_format :: string
  st_evidence_refs :: "EvidenceReference list"
  st_allowed_claims :: "string list"
  st_forbidden_or_unsupported_claims :: "string list"
  st_brand_constraints :: "string list"
  st_production_constraints :: "string list"
  st_risks :: "string list"
  st_unknowns :: "UnknownStatement list"

datatype ClaimType = FACTUAL | QUANTITATIVE | TESTIMONIAL | RESULT | PROMOTIONAL

fun claim_type_value :: "ClaimType \<Rightarrow> string" where
  "claim_type_value FACTUAL = ''FACTUAL''"
| "claim_type_value QUANTITATIVE = ''QUANTITATIVE''"
| "claim_type_value TESTIMONIAL = ''TESTIMONIAL''"
| "claim_type_value RESULT = ''RESULT''"
| "claim_type_value PROMOTIONAL = ''PROMOTIONAL''"

record ClaimInventoryItem =
  cm_text :: string
  cm_claim_type :: ClaimType
  cm_requires_evidence :: bool
  cm_evidence_ref :: "string option"

datatype RightsOrigin = GENERATED | USER_PROVIDED | LICENSED | DERIVED

fun origin_value :: "RightsOrigin \<Rightarrow> string" where
  "origin_value GENERATED = ''GENERATED''"
| "origin_value RightsOrigin.USER_PROVIDED = ''USER_PROVIDED''"
| "origin_value LICENSED = ''LICENSED''"
| "origin_value DERIVED = ''DERIVED''"

record RightsProvenanceDeclaration =
  rd_origin :: RightsOrigin
  rd_related_source_asset_ids :: "string list"
  rd_permission_scope :: "string option"
  rd_customer_content_consent_ref :: "string option"
  rd_publication_restrictions :: "string list"
  rd_license_expires_at :: "string option"

record AssetDraftProposal =
  dp_body :: string
  dp_opening :: "string option"
  dp_cta :: string
  dp_claim_inventory :: "ClaimInventoryItem list"
  dp_evidence_refs :: "EvidenceReference list"
  dp_content_notes :: "string list"
  dp_rights :: RightsProvenanceDeclaration

definition dump_strategy :: "ContentStrategyProposal \<Rightarrow> payload" where
  "dump_strategy p =
    [(''schema_name'', JStr ''ContentStrategyProposal''), (''schema_version'', JInt 1),
     (''objective'', JStr (st_objective p)), (''audience'', JStr (st_audience p)),
     (''content_job'', JStr (st_content_job p)), (''core_message'', JStr (st_core_message p)),
     (''angle'', JStr (st_angle p)), (''message_mechanism'', JStr (st_message_mechanism p)),
     (''tone'', JStr (st_tone p)), (''cta_intent'', JStr (st_cta_intent p)),
     (''channel_format'', JStr (st_channel_format p)),
     (''evidence_refs'', JList (map (\<lambda>r. JObj (dump_evidence_ref r)) (st_evidence_refs p))),
     (''allowed_claims'', jstrs (st_allowed_claims p)),
     (''forbidden_or_unsupported_claims'', jstrs (st_forbidden_or_unsupported_claims p)),
     (''brand_constraints'', jstrs (st_brand_constraints p)),
     (''production_constraints'', jstrs (st_production_constraints p)), (''risks'', jstrs (st_risks p)),
     (''unknowns'', JList (map (\<lambda>u. JObj (dump_unknown u)) (st_unknowns p)))]"

definition dump_claim :: "ClaimInventoryItem \<Rightarrow> payload" where
  "dump_claim c =
    [(''text'', JStr (cm_text c)), (''claim_type'', JStr (claim_type_value (cm_claim_type c))),
     (''requires_evidence'', JBool (cm_requires_evidence c)), (''evidence_ref'', opt_json (cm_evidence_ref c))]"

definition dump_rights :: "RightsProvenanceDeclaration \<Rightarrow> payload" where
  "dump_rights r =
    [(''origin'', JStr (origin_value (rd_origin r))),
     (''related_source_asset_ids'', jstrs (rd_related_source_asset_ids r)),
     (''permission_scope'', opt_json (rd_permission_scope r)),
     (''customer_content_consent_ref'', opt_json (rd_customer_content_consent_ref r)),
     (''publication_restrictions'', jstrs (rd_publication_restrictions r)),
     (''license_expires_at'', opt_json (rd_license_expires_at r))]"

definition valid_strategy :: "ContentStrategyProposal \<Rightarrow> bool" where
  "valid_strategy p \<longleftrightarrow>
     [] \<notin> set [st_objective p, st_audience p, st_content_job p, st_core_message p, st_angle p,
       st_message_mechanism p, st_tone p, st_cta_intent p, st_channel_format p] \<and>
     list_all valid_evidence_ref (st_evidence_refs p) \<and> list_all (\<lambda>u. us_question u \<noteq> []) (st_unknowns p)"

text \<open>With the validators \<open>_requires_evidence_ref\<close> and \<open>_claims_reference_declared_evidence\<close>.\<close>

definition valid_claim :: "ClaimInventoryItem \<Rightarrow> bool" where
  "valid_claim c \<longleftrightarrow> cm_text c \<noteq> [] \<and> (cm_requires_evidence c \<longrightarrow> or_else (cm_evidence_ref c) [] \<noteq> [])"

definition valid_draft :: "AssetDraftProposal \<Rightarrow> bool" where
  "valid_draft d \<longleftrightarrow>
     dp_body d \<noteq> [] \<and> dp_cta d \<noteq> [] \<and> list_all valid_claim (dp_claim_inventory d) \<and>
     list_all valid_evidence_ref (dp_evidence_refs d) \<and>
     list_all (\<lambda>c. case cm_evidence_ref c of None \<Rightarrow> True | Some r \<Rightarrow> r \<in> set (map er_evidence_id (dp_evidence_refs d)))
       (dp_claim_inventory d)"

record production_env = context_env +
  validate_strategy :: "payload \<Rightarrow> string + ContentStrategyProposal"
  validate_draft :: "payload \<Rightarrow> string + AssetDraftProposal"

definition production_schemas_checked :: "'e production_env_scheme \<Rightarrow> bool" where
  "production_schemas_checked env \<longleftrightarrow> schemas_checked env \<and>
     (\<forall>pl p. validate_strategy env pl = Inr p \<longrightarrow> valid_strategy p) \<and>
     (\<forall>pl d. validate_draft env pl = Inr d \<longrightarrow> valid_draft d)"

section \<open>Rows (\<open>persistence/production_models.py\<close>)\<close>

record content_strategy_row = scoped_row +
  cst_workflow_id :: string
  cst_decision_id :: string
  cst_snapshot_id :: string
  cst_agent_run_id :: string
  cst_schema_version :: int
  cst_payload :: payload
  cst_evidence_refs :: "payload list"
  cst_context_hash :: string
  cst_context_manifest :: payload
  cst_correlation_id :: "string option"
  cst_causation_id :: "string option"
  cst_created_at :: datetime

record creative_brief_row = scoped_row +
  br_decision_id :: string
  br_title :: string
  br_objective :: string
  br_constraints :: "string list"

record creative_brief_detail_row = scoped_row +
  bd_workflow_id :: string
  bd_creative_brief_id :: string
  bd_content_strategy_id :: string
  bd_snapshot_id :: string
  bd_payload :: payload
  bd_correlation_id :: "string option"
  bd_causation_id :: "string option"
  bd_created_at :: datetime

record asset_row = scoped_row +
  as_creative_brief_id :: string
  as_asset_type :: string
  as_title :: string

record asset_creator_row = scoped_row +
  vc_asset_version_id :: string
  vc_creator_type :: string
  vc_created_by_user_id :: "string option"
  vc_created_by_agent_run_id :: "string option"
  vc_created_at :: datetime

record asset_review_row = scoped_row +
  ax_workflow_id :: string
  ax_asset_version_id :: string
  ax_agent_run_id :: string
  ax_controller_type :: string
  ax_verdict :: ControllerVerdict
  ax_reason :: string
  ax_severity :: RiskClass
  ax_issues :: "string list"
  ax_required_changes :: "string list"
  ax_conditions :: "string list"
  ax_evidence_refs :: "payload list"
  ax_contract_key :: string
  ax_contract_version :: int
  ax_instruction_version :: string
  ax_output_schema_version :: int
  ax_context_hash :: string
  ax_context_manifest :: payload
  ax_correlation_id :: "string option"
  ax_causation_id :: "string option"
  ax_created_at :: datetime

record production_store = workflow_store +
  content_strategies :: "content_strategy_row list"
  creative_briefs :: "creative_brief_row list"
  creative_brief_details :: "creative_brief_detail_row list"
  assets :: "asset_row list"
  asset_version_creators :: "asset_creator_row list"
  asset_reviews :: "asset_review_row list"

end
