(* ===== verification/Production_Workflow.thy ===== *)
theory Production_Workflow
  imports Production_Schemas
begin

text \<open>
  The production workflow (\<open>application/production_workflow.py\<close>, \<open>production/*.py\<close>): from an
  approved decision a content director proposes a strategy, a writer drafts a text, seven controllers
  review the exact version, and deterministic rules on top of their verdicts block it, send it back for a
  bounded number of revisions or mark it ready. Each advance is one job; the clock and \<open>utc_now\<close> give
  one reading \<open>now\<close>. A Python object of the workflow is one mutable row; where a step reads a column
  it has just assigned, the assigned value is passed on.
\<close>

section \<open>Support (\<open>production/support.py\<close>)\<close>

abbreviation production_scope :: "'w production_workflow_row_scheme \<Rightarrow> TenantScope" where
  "production_scope flow \<equiv> \<lparr>organization_id = org flow, business_id = biz flow\<rparr>"

definition update_production ::
  "production_workflow_row \<Rightarrow> (production_workflow_row \<Rightarrow> production_workflow_row)
     \<Rightarrow> ('z production_store_scheme, unit) prog" where
  "update_production flow f =
     bnd (modify (\<lambda>s. s\<lparr>production_workflows := row_set rid (rid flow) f (production_workflows s)\<rparr>)) (\<lambda>_.
     touch (org flow) (biz flow))"

definition set_production_status ::
  "ProductionWorkflowStatus \<Rightarrow> production_workflow_row \<Rightarrow> ('z production_store_scheme, unit) prog" where
  "set_production_status st flow = update_production flow (\<lambda>w. w\<lparr>pw_status := st\<rparr>)"

definition production_decision ::
  "production_workflow_row \<Rightarrow> 'z decision_store_scheme \<Rightarrow> py_error + decision_row" where
  "production_decision flow s =
    (case row_get rid (pw_decision_id flow) (decisions s) of
       None \<Rightarrow> Inl (PermanentJobError ''ProductionWorkflow Decision not found'')
     | Some d \<Rightarrow>
        (case assert_matches (production_scope flow) (org d) (biz d) of Inl e \<Rightarrow> Inl e | Inr _ \<Rightarrow> Inr d))"

definition superseded_by_some :: "string \<Rightarrow> string \<Rightarrow> string \<Rightarrow> 'z decision_store_scheme \<Rightarrow> bool" where
  "superseded_by_some og bz decision_id s =
     list_ex (\<lambda>d. org d = og \<and> biz d = bz \<and> dc_supersedes_decision_id d = Some decision_id) (decisions s)"

definition assert_decision_binding ::
  "production_workflow_row \<Rightarrow> 'z workflow_store_scheme \<Rightarrow> py_error + unit" where
  "assert_decision_binding flow s =
    (case production_decision flow s of
       Inl e \<Rightarrow> Inl e
     | Inr d \<Rightarrow>
         if dc_version d \<noteq> pw_decision_version flow
         then Inl (PermanentJobError ''Decision version changed after production workflow start'')
         else if dc_status d \<noteq> ''APPROVED_FOR_PRODUCTION''
         then Inl (PermanentJobError ''Decision approval is no longer production-eligible'')
         else if (case row_get rid (pw_decision_approval_id flow) (decision_approvals s) of
                    None \<Rightarrow> True | Some a \<Rightarrow> \<not> approval_matches_decision a d)
         then Inl (PermanentJobError ''production Decision approval is stale'')
         else if superseded_by_some (org flow) (biz flow) (rid d) s
         then Inl (PermanentJobError ''production cannot continue from superseded Decision'')
         else Inr ())"

definition validated_output ::
  "agent_run_row \<Rightarrow> (payload \<Rightarrow> string + 'o) \<Rightarrow> string \<Rightarrow> py_error + 'o" where
  "validated_output run validate label =
    (case (if ar_status run = AgentRunStatus.SUCCEEDED then ar_output_data run else None) of
       None \<Rightarrow> if pending run then Inl (TransientJobError (label @ '' AgentRun is not ready''))
          else Inl (PermanentJobError (label @ '' AgentRun did not produce valid output''))
     | Some d \<Rightarrow>
        (case validate d of
           Inl _ \<Rightarrow> Inl (PermanentJobError (label @ '' output failed schema validation'')) | Inr x \<Rightarrow> Inr x))"

fun validate_production_refs ::
  "'y TenantScope_scheme \<Rightarrow> EvidenceReference list \<Rightarrow> 'z analytics_store_scheme \<Rightarrow> py_error + unit" where
  "validate_production_refs scope [] s = Inr ()"
| "validate_production_refs scope (r # rs) s =
    (case row_get rid (er_evidence_id r) (evidence s) of
       None \<Rightarrow> Inl (PermanentJobError (''unknown evidence ref: '' @ er_evidence_id r))
     | Some e \<Rightarrow>
        (case assert_matches scope (org e) (biz e) of
           Inl err \<Rightarrow> Inl err
         | Inr _ \<Rightarrow>
             if ev_status e \<noteq> er_epistemic_status r
             then Inl (PermanentJobError ''AI output cannot promote or rewrite evidence status'')
             else validate_production_refs scope rs s))"

definition agent_run_by_idempotency ::
  "production_workflow_row \<Rightarrow> string \<Rightarrow> 'z agent_store_scheme \<Rightarrow> py_error + agent_run_row" where
  "agent_run_by_idempotency flow key s =
    (case select_first (\<lambda>r. org r = org flow \<and> biz r = biz flow \<and> ar_idempotency_key r = Some key) (agent_runs s) of
       None \<Rightarrow> Inl (TransientJobError (''AgentRun not created yet: '' @ key)) | Some r \<Rightarrow> Inr r)"

definition versions_of :: "production_workflow_row \<Rightarrow> 'z exec_store_scheme \<Rightarrow> asset_version_row list" where
  "versions_of flow s =
     filter (\<lambda>v. org v = org flow \<and> biz v = biz flow \<and> Some (av_asset_id v) = pw_asset_id flow) (asset_versions s)"

definition asset_version_numbered ::
  "production_workflow_row \<Rightarrow> int \<Rightarrow> 'z exec_store_scheme \<Rightarrow> asset_version_row option" where
  "asset_version_numbered flow n s = select_first (\<lambda>v. av_version_number v = n) (versions_of flow s)"

definition latest_asset_version ::
  "production_workflow_row \<Rightarrow> 'z exec_store_scheme \<Rightarrow> py_error + asset_version_row" where
  "latest_asset_version flow s =
    (if pw_asset_id flow = None then Inl (PermanentJobError ''ProductionWorkflow has no Asset'')
     else case select_first (\<lambda>_. True) (sort_key (\<lambda>v. - av_version_number v) (versions_of flow s)) of
         None \<Rightarrow> Inl (PermanentJobError ''ProductionWorkflow Asset has no version'') | Some v \<Rightarrow> Inr v)"

definition next_asset_version_number :: "production_workflow_row \<Rightarrow> 'z exec_store_scheme \<Rightarrow> int" where
  "next_asset_version_number flow s =
    (case map av_version_number (versions_of flow s) of [] \<Rightarrow> 0 | v # vs \<Rightarrow> fold max vs v) + 1"

definition rights_for_version :: "string \<Rightarrow> 'z exec_store_scheme \<Rightarrow> rights_row option" where
  "rights_for_version i s = select_first (\<lambda>r. rights_asset_version_id r = i) (asset_rights s)"

definition strategy_of ::
  "production_workflow_row \<Rightarrow> 'z production_store_scheme \<Rightarrow> py_error + content_strategy_row" where
  "strategy_of flow s =
    (case select_first (\<lambda>r. cst_workflow_id r = rid flow) (content_strategies s) of
       None \<Rightarrow> Inl (PermanentJobError ''ProductionWorkflow ContentStrategy not found'')
     | Some r \<Rightarrow>
        (case assert_matches (production_scope flow) (org r) (biz r) of Inl e \<Rightarrow> Inl e | Inr _ \<Rightarrow> Inr r))"

definition advance_key :: "production_workflow_row \<Rightarrow> string \<Rightarrow> string" where
  "advance_key flow suffix = ''production_workflow:'' @ rid flow @ '':advance:'' @ suffix"

definition enqueue_production_advance ::
  "production_workflow_row \<Rightarrow> string \<Rightarrow> datetime \<Rightarrow> ('z production_store_scheme, string) prog" where
  "enqueue_production_advance flow suffix now =
     bnd (create_job (production_scope flow) JOB_TYPE_WORKFLOW_ADVANCE
            [(''payload_schema_version'', JInt 1), (''production_workflow_id'', JStr (rid flow))] 1
            (advance_key flow suffix) now 20 None (pw_correlation_id flow) (Some (rid flow))) (\<lambda>job.
     bnd flush (\<lambda>_.
     bnd (enqueue (rid job)) (\<lambda>_. ret (rid job))))"

definition workflow_job :: "production_workflow_row \<Rightarrow> 'z store_scheme \<Rightarrow> job_row option" where
  "workflow_job flow s =
     select_first (\<lambda>_. True) (sort_key job_created_at (sql_select_jobs (\<lambda>j. org j = org flow \<and> biz j = biz flow \<and>
       job_type j = JOB_TYPE_WORKFLOW_ADVANCE \<and> idempotency_key j = advance_key flow ''start'') s))"

definition assert_phase4_no_external_execution ::
  "'y TenantScope_scheme \<Rightarrow> 'z exec_store_scheme \<Rightarrow> py_error + unit" where
  "assert_phase4_no_external_execution scope s =
    (let mine = (\<lambda>og bz. og = organization_id scope \<and> bz = business_id scope) in
     if list_ex (\<lambda>r. mine (org r) (biz r)) (actions s) \<or> list_ex (\<lambda>r. mine (org r) (biz r)) (publications s) \<or>
        list_ex (\<lambda>r. mine (org r) (biz r)) (executions s)
     then Inl (PermanentJobError ''Phase 4 must not create external execution objects'')
     else Inr ())"

section \<open>Agent runs (\<open>production/runs.py\<close>)\<close>

abbreviation ref_to :: "string \<Rightarrow> string \<Rightarrow> ContextReference" where
  "ref_to ty i \<equiv> \<lparr>cr_object_type = ty, cr_object_id = i\<rparr>"

text \<open>The references all agents of production get.\<close>

definition common_refs :: "production_workflow_row \<Rightarrow> decision_row \<Rightarrow> ContextReference list" where
  "common_refs flow d =
     [ref_to ''business_snapshot'' (pw_snapshot_id flow), ref_to ''decision'' (pw_decision_id flow)] @
     map (ref_to ''evidence'') (dc_evidence_ids d)"

definition strategy_run_key :: "production_workflow_row \<Rightarrow> string" where
  "strategy_run_key flow = ''production_workflow:'' @ rid flow @ '':content_strategy''"

definition draft_run_key :: "production_workflow_row \<Rightarrow> int \<Rightarrow> string" where
  "draft_run_key flow v = ''production_workflow:'' @ rid flow @ '':asset:v'' @ show_int v"

definition asset_controller_run_key :: "production_workflow_row \<Rightarrow> int \<Rightarrow> string \<Rightarrow> string" where
  "asset_controller_run_key flow v key = ''production_workflow:'' @ rid flow @ '':asset:'' @ show_int v @ '':'' @ key"

definition production_run ::
  "'e agent_env_scheme \<Rightarrow> agent_registry \<Rightarrow> production_workflow_row \<Rightarrow> string \<Rightarrow> ContextReference list \<Rightarrow> string
     \<Rightarrow> string \<Rightarrow> string \<Rightarrow> datetime \<Rightarrow> ('z production_store_scheme, unit) prog" where
  "production_run env reg flow contract refs causation jtype key now =
     bnd (create_agent_run env reg (production_scope flow) contract 1 (Some key) refs (pw_correlation_id flow)
            (Some causation) jtype (Some key) now) (\<lambda>_. ret ())"

definition ensure_content_strategy_run ::
  "'e agent_env_scheme \<Rightarrow> agent_registry \<Rightarrow> production_workflow_row \<Rightarrow> datetime \<Rightarrow> ('z production_store_scheme, unit) prog" where
  "ensure_content_strategy_run env reg flow now =
     bnd (query (production_decision flow)) (\<lambda>d.
     production_run env reg flow CONTENT_DIRECTOR_CONTRACT_KEY (common_refs flow d) (pw_decision_id flow)
       JOB_TYPE_AI_RUN_AGENT (strategy_run_key flow) now)"

definition writer_refs ::
  "production_workflow_row \<Rightarrow> decision_row \<Rightarrow> string \<Rightarrow> string \<Rightarrow> asset_version_row option \<Rightarrow> asset_review_row list
     \<Rightarrow> ContextReference list" where
  "writer_refs flow d strategy_id brief_id previous reviews =
     common_refs flow d @ [ref_to ''content_strategy'' strategy_id, ref_to ''creative_brief'' brief_id] @
     (case previous of None \<Rightarrow> [] | Some v \<Rightarrow> [ref_to ''asset_version'' (rid v)]) @
     map (\<lambda>r. ref_to ''asset_review'' (rid r)) reviews"

definition ensure_writer_run ::
  "'e agent_env_scheme \<Rightarrow> agent_registry \<Rightarrow> production_workflow_row \<Rightarrow> asset_version_row option
     \<Rightarrow> asset_review_row list \<Rightarrow> datetime \<Rightarrow> ('z production_store_scheme, unit) prog" where
  "ensure_writer_run env reg flow previous reviews now =
     bnd (required (pw_creative_brief_id flow) (PermanentJobError ''CreativeBrief must exist before writing'')) (\<lambda>brief_id.
     bnd (query (strategy_of flow)) (\<lambda>strategy.
     bnd (gets (next_asset_version_number flow)) (\<lambda>v.
     bnd (query (production_decision flow)) (\<lambda>d.
     production_run env reg flow TELEGRAM_WRITER_CONTRACT_KEY
       (writer_refs flow d (rid strategy) brief_id previous reviews)
       (case previous of None \<Rightarrow> rid flow | Some p \<Rightarrow> rid p) JOB_TYPE_AI_RUN_AGENT (draft_run_key flow v) now))))"

definition ensure_asset_controller_runs ::
  "'e agent_env_scheme \<Rightarrow> agent_registry \<Rightarrow> production_workflow_row \<Rightarrow> asset_version_row \<Rightarrow> datetime
     \<Rightarrow> ('z production_store_scheme, unit) prog" where
  "ensure_asset_controller_runs env reg flow v now =
     bnd (required (pw_creative_brief_id flow) (PermanentJobError ''CreativeBrief missing before asset review'')) (\<lambda>brief_id.
     bnd (gets (rights_for_version (rid v))) (\<lambda>found.
     bnd (required found (PermanentJobError ''asset rights provenance must exist before review'')) (\<lambda>rights.
     bnd (query (production_decision flow)) (\<lambda>d.
     foreach REQUIRED_ASSET_CONTROLLER_CONTRACT_KEYS (\<lambda>key.
       production_run env reg flow key
         (common_refs flow d @ [ref_to ''creative_brief'' brief_id, ref_to ''asset_version'' (rid v),
            ref_to ''asset_rights_provenance'' (rid rights)])
         (rid v) JOB_TYPE_AI_RUN_CONTROLLER (asset_controller_run_key flow (av_version_number v) key) now)))))"

section \<open>Materialization (\<open>production/materialization.py\<close>)\<close>

definition ASSET_TYPE_TELEGRAM_POST_COPY :: string where
  "ASSET_TYPE_TELEGRAM_POST_COPY = ''TELEGRAM_POST_COPY''"

definition strategy_row ::
  "production_workflow_row \<Rightarrow> agent_run_row \<Rightarrow> ContentStrategyProposal \<Rightarrow> string \<Rightarrow> datetime \<Rightarrow> string
     \<Rightarrow> content_strategy_row" where
  "strategy_row flow run output hsh now i =
    \<lparr>rid = i, org = org flow, biz = biz flow, cst_workflow_id = rid flow, cst_decision_id = pw_decision_id flow,
     cst_snapshot_id = pw_snapshot_id flow, cst_agent_run_id = rid run, cst_schema_version = 1,
     cst_payload = dump_strategy output, cst_evidence_refs = map dump_evidence_ref (st_evidence_refs output),
     cst_context_hash = hsh, cst_context_manifest = ar_context_manifest run,
     cst_correlation_id = pw_correlation_id flow, cst_causation_id = Some (rid run), cst_created_at = now\<rparr>"

definition materialize_content_strategy ::
  "'e production_env_scheme \<Rightarrow> production_workflow_row \<Rightarrow> datetime \<Rightarrow> ('z production_store_scheme, content_strategy_row) prog" where
  "materialize_content_strategy env flow now =
     bnd (gets (\<lambda>s. select_first (\<lambda>r. cst_workflow_id r = rid flow) (content_strategies s))) (\<lambda>existing.
     case existing of
       Some r \<Rightarrow> ret r
     | None \<Rightarrow>
         bnd (query (agent_run_by_idempotency flow (strategy_run_key flow))) (\<lambda>run.
         bnd (lift_sum (validated_output run (validate_strategy env) ''content strategy'')) (\<lambda>output.
         bnd (query (validate_production_refs (production_scope flow) (st_evidence_refs output))) (\<lambda>_.
         bnd (required (ar_context_hash run)
               (PermanentJobError ''content strategy run missing context hash'')) (\<lambda>hsh.
         bnd new_id (\<lambda>i.
         let row = strategy_row flow run output hsh now i
         in bnd (modify (\<lambda>s. s\<lparr>content_strategies := content_strategies s @ [row]\<rparr>)) (\<lambda>_.
            bnd flush (\<lambda>_. ret row))))))))"

definition brief_row :: "production_workflow_row \<Rightarrow> ContentStrategyProposal \<Rightarrow> string \<Rightarrow> creative_brief_row" where
  "brief_row flow p i =
    \<lparr>rid = i, org = org flow, biz = biz flow, br_decision_id = pw_decision_id flow, br_title = ''Telegram launch post'',
     br_objective = st_objective p,
     br_constraints = st_brand_constraints p @ st_production_constraints p @
       map (\<lambda>v. ''unsupported claim: '' @ v) (st_forbidden_or_unsupported_claims p)\<rparr>"

definition brief_detail_payload :: "ContentStrategyProposal \<Rightarrow> decision_row \<Rightarrow> payload" where
  "brief_detail_payload p d =
    [(''audience'', JStr (st_audience p)), (''channel_format'', JStr (st_channel_format p)),
     (''content_job'', JStr (st_content_job p)), (''core_message'', JStr (st_core_message p)),
     (''angle'', JStr (st_angle p)), (''message_mechanism'', JStr (st_message_mechanism p)),
     (''tone'', JStr (st_tone p)), (''cta'', JStr (st_cta_intent p)),
     (''evidence_refs'', JList (map (\<lambda>r. JObj (dump_evidence_ref r)) (st_evidence_refs p))),
     (''allowed_claims'', jstrs (st_allowed_claims p)),
     (''claim_constraints'', jstrs (st_forbidden_or_unsupported_claims p)),
     (''brand_constraints'', jstrs (st_brand_constraints p)),
     (''production_requirements'', jstrs (st_production_constraints p)),
     (''experiment_binding'', JObj (dc_experiment_proposal d)), (''rights_restrictions'', JList [])]"

definition brief_detail_row ::
  "production_workflow_row \<Rightarrow> string \<Rightarrow> string \<Rightarrow> payload \<Rightarrow> datetime \<Rightarrow> string \<Rightarrow> creative_brief_detail_row" where
  "brief_detail_row flow brief_id strategy_id pl now i =
    \<lparr>rid = i, org = org flow, biz = biz flow, bd_workflow_id = rid flow, bd_creative_brief_id = brief_id,
     bd_content_strategy_id = strategy_id, bd_snapshot_id = pw_snapshot_id flow, bd_payload = pl,
     bd_correlation_id = pw_correlation_id flow, bd_causation_id = Some strategy_id, bd_created_at = now\<rparr>"

definition insert_brief ::
  "production_workflow_row \<Rightarrow> content_strategy_row \<Rightarrow> ContentStrategyProposal \<Rightarrow> datetime
     \<Rightarrow> ('z production_store_scheme, creative_brief_row) prog" where
  "insert_brief flow strategy p now =
     bnd new_id (\<lambda>i.
     let brief = brief_row flow p i
     in bnd (modify (\<lambda>s. s\<lparr>creative_briefs := creative_briefs s @ [brief]\<rparr>)) (\<lambda>_.
     bnd flush (\<lambda>_.
     bnd (query (production_decision flow)) (\<lambda>d.
     bnd (check_no_secrets (brief_detail_payload p d)) (\<lambda>_.
     bnd new_id (\<lambda>j.
     bnd (modify (\<lambda>s. s\<lparr>creative_brief_details := creative_brief_details s @
            [brief_detail_row flow i (rid strategy) (brief_detail_payload p d) now j]\<rparr>)) (\<lambda>_.
     bnd flush (\<lambda>_. ret brief))))))))"

definition materialize_creative_brief ::
  "'e production_env_scheme \<Rightarrow> production_workflow_row \<Rightarrow> content_strategy_row \<Rightarrow> datetime
     \<Rightarrow> ('z production_store_scheme, creative_brief_row) prog" where
  "materialize_creative_brief env flow strategy now =
     bnd (gets (\<lambda>s. select_first (\<lambda>r. bd_workflow_id r = rid flow) (creative_brief_details s))) (\<lambda>existing.
     case existing of
       Some detail \<Rightarrow>
         bnd (gets (\<lambda>s. row_get rid (bd_creative_brief_id detail) (creative_briefs s))) (\<lambda>brief.
         required brief (PermanentJobError ''CreativeBrief detail points to missing brief''))
     | None \<Rightarrow>
         bnd (lift_sum (case validate_strategy env (cst_payload strategy) of
                Inl m \<Rightarrow> Inl (OtherError ''ValidationError'' m) | Inr p \<Rightarrow> Inr p)) (\<lambda>p.
         insert_brief flow strategy p now))"

text \<open>The identifier of the asset; a new one is bound to the workflow.\<close>

definition ensure_asset ::
  "production_workflow_row \<Rightarrow> ('z production_store_scheme, asset_row) prog" where
  "ensure_asset flow =
    (case pw_asset_id flow of
       Some i \<Rightarrow>
         bnd (gets (\<lambda>s. row_get rid i (assets s))) (\<lambda>found.
         required found (PermanentJobError ''ProductionWorkflow asset binding is broken''))
     | None \<Rightarrow>
         bnd (required (pw_creative_brief_id flow)
               (PermanentJobError ''CreativeBrief missing before Asset creation'')) (\<lambda>brief_id.
         bnd new_id (\<lambda>i.
         let asset = \<lparr>rid = i, org = org flow, biz = biz flow, as_creative_brief_id = brief_id,
               as_asset_type = ASSET_TYPE_TELEGRAM_POST_COPY, as_title = ''Telegram launch post''\<rparr>
         in bnd (modify (\<lambda>s. s\<lparr>assets := assets s @ [asset]\<rparr>)) (\<lambda>_.
            bnd flush (\<lambda>_.
            bnd (update_production flow (\<lambda>w. w\<lparr>pw_asset_id := Some i\<rparr>)) (\<lambda>_. ret asset))))))"

definition version_provenance :: "agent_run_row \<Rightarrow> AssetDraftProposal \<Rightarrow> payload" where
  "version_provenance run output =
    [(''schema_name'', JStr ''AssetVersionProvenance''), (''schema_version'', JInt 1),
     (''origin'', JStr (origin_value (rd_origin (dp_rights output)))), (''writer_agent_run_id'', JStr (rid run)),
     (''claim_inventory'', JList (map (\<lambda>c. JObj (dump_claim c)) (dp_claim_inventory output))),
     (''evidence_refs'', JList (map (\<lambda>r. JObj (dump_evidence_ref r)) (dp_evidence_refs output))),
     (''content_notes'', jstrs (dp_content_notes output))]"

definition version_row ::
  "production_workflow_row \<Rightarrow> string \<Rightarrow> int \<Rightarrow> agent_run_row \<Rightarrow> AssetDraftProposal \<Rightarrow> datetime \<Rightarrow> string
     \<Rightarrow> asset_version_row" where
  "version_row flow asset n run output now i =
    \<lparr>rid = i, org = org flow, biz = biz flow, av_asset_id = asset, av_version_number = n, av_body = dp_body output,
     av_created_by_user_id = None, av_provenance = version_provenance run output, av_created_at = now\<rparr>"

definition creator_row ::
  "production_workflow_row \<Rightarrow> string \<Rightarrow> agent_run_row \<Rightarrow> datetime \<Rightarrow> string \<Rightarrow> asset_creator_row" where
  "creator_row flow version_id run now i =
    \<lparr>rid = i, org = org flow, biz = biz flow, vc_asset_version_id = version_id, vc_creator_type = ''AGENT'',
     vc_created_by_user_id = None, vc_created_by_agent_run_id = Some (rid run), vc_created_at = now\<rparr>"

definition rights_row_of ::
  "production_workflow_row \<Rightarrow> string \<Rightarrow> agent_run_row \<Rightarrow> RightsProvenanceDeclaration \<Rightarrow> datetime \<Rightarrow> string
     \<Rightarrow> rights_row" where
  "rights_row_of flow version_id run rights now i =
    \<lparr>rid = i, org = org flow, biz = biz flow, rights_asset_version_id = version_id,
     rights_origin = origin_value (rd_origin rights),
     rights_generated_by_agent_run_id = (if rd_origin rights = GENERATED then Some (rid run) else None),
     rights_model_provider = ar_provider_name run, rights_model_name = ar_provider_model run,
     rights_related_source_asset_ids = rd_related_source_asset_ids rights,
     rights_permission_scope = rd_permission_scope rights,
     rights_consent_ref = rd_customer_content_consent_ref rights,
     rights_publication_restrictions = rd_publication_restrictions rights,
     rights_license_expires_at = None,
     rights_provenance = [(''writer_agent_run_id'', JStr (rid run)), (''rights_declaration'', JObj (dump_rights rights))],
     rights_created_at = now\<rparr>"

definition insert_asset_version ::
  "production_workflow_row \<Rightarrow> string \<Rightarrow> int \<Rightarrow> agent_run_row \<Rightarrow> AssetDraftProposal \<Rightarrow> datetime
     \<Rightarrow> ('z production_store_scheme, asset_version_row) prog" where
  "insert_asset_version flow asset n run output now =
     bnd (check_no_secrets (version_provenance run output)) (\<lambda>_.
     bnd new_id (\<lambda>i.
     let v = version_row flow asset n run output now i
     in bnd (modify (\<lambda>s. s\<lparr>asset_versions := asset_versions s @ [v]\<rparr>)) (\<lambda>_.
     bnd flush (\<lambda>_.
     bnd new_id (\<lambda>j.
     bnd (modify (\<lambda>s. s\<lparr>asset_version_creators := asset_version_creators s @ [creator_row flow i run now j]\<rparr>)) (\<lambda>_.
     bnd new_id (\<lambda>k.
     bnd (modify (\<lambda>s. s\<lparr>asset_rights := asset_rights s @ [rights_row_of flow i run (dp_rights output) now k]\<rparr>)) (\<lambda>_.
     bnd (update_production flow (\<lambda>w. w\<lparr>pw_asset_id := Some asset, pw_final_asset_version_id := Some i\<rparr>)) (\<lambda>_.
     bnd flush (\<lambda>_. ret v))))))))))"

definition materialize_asset_version ::
  "'e production_env_scheme \<Rightarrow> production_workflow_row \<Rightarrow> datetime \<Rightarrow> ('z production_store_scheme, asset_version_row) prog" where
  "materialize_asset_version env flow now =
     bnd (gets (next_asset_version_number flow)) (\<lambda>n.
     bnd (gets (asset_version_numbered flow n)) (\<lambda>existing.
     case existing of
       Some v \<Rightarrow> ret v
     | None \<Rightarrow>
         bnd (query (agent_run_by_idempotency flow (draft_run_key flow n))) (\<lambda>run.
         bnd (lift_sum (validated_output run (validate_draft env) ''asset draft'')) (\<lambda>output.
         bnd (query (validate_production_refs (production_scope flow) (dp_evidence_refs output))) (\<lambda>_.
         bnd (ensure_asset flow) (\<lambda>asset.
         insert_asset_version flow (rid asset) n run output now))))))"

definition asset_review_reason :: "ControllerReviewOutput \<Rightarrow> string" where
  "asset_review_reason output =
    (let t = join_with ''; '' (co_issues output) in if t = [] then verdict_value (co_verdict output) else t)"

definition asset_review_of ::
  "production_workflow_row \<Rightarrow> asset_version_row \<Rightarrow> string \<Rightarrow> agent_run_row \<Rightarrow> agent_definition_row
     \<Rightarrow> ControllerReviewOutput \<Rightarrow> string \<Rightarrow> datetime \<Rightarrow> string \<Rightarrow> asset_review_row" where
  "asset_review_of flow v ctype run d output hsh now i =
    \<lparr>rid = i, org = org flow, biz = biz flow, ax_workflow_id = rid flow, ax_asset_version_id = rid v,
     ax_agent_run_id = rid run, ax_controller_type = ctype, ax_verdict = co_verdict output,
     ax_reason = asset_review_reason output, ax_severity = co_severity output, ax_issues = co_issues output,
     ax_required_changes = co_required_changes output,
     ax_conditions = (if co_verdict output = PASS_WITH_CONDITIONS then co_required_changes output else []),
     ax_evidence_refs = map dump_evidence_ref (co_evidence_refs output), ax_contract_key = ar_contract_key run,
     ax_contract_version = ar_contract_version run, ax_instruction_version = ad_instruction_version d,
     ax_output_schema_version = ar_output_schema_version run, ax_context_hash = hsh,
     ax_context_manifest = ar_context_manifest run, ax_correlation_id = pw_correlation_id flow,
     ax_causation_id = Some (rid v), ax_created_at = now\<rparr>"

definition materialize_asset_review ::
  "'e production_env_scheme \<Rightarrow> production_workflow_row \<Rightarrow> asset_version_row \<Rightarrow> datetime \<Rightarrow> string
     \<Rightarrow> ('z production_store_scheme, asset_review_row) prog" where
  "materialize_asset_review env flow v now key =
    (let ctype = asset_controller_type key in
     bnd (gets (\<lambda>s. select_first (\<lambda>r. ax_asset_version_id r = rid v \<and> ax_controller_type r = ctype) (asset_reviews s)))
       (\<lambda>existing.
     case existing of
       Some r \<Rightarrow> ret r
     | None \<Rightarrow>
         bnd (query (agent_run_by_idempotency flow (asset_controller_run_key flow (av_version_number v) key))) (\<lambda>run.
         bnd (lift_sum (validated_output run (validate_review env) ''asset controller'')) (\<lambda>output.
         bnd (require (co_controller_type output = ctype)
               (PermanentJobError ''asset controller output type does not match registered contract'')) (\<lambda>_.
         bnd (query (validate_production_refs (production_scope flow) (co_evidence_refs output))) (\<lambda>_.
         bnd (gets (\<lambda>s. case row_get rid (ar_agent_definition_id run) (agent_definitions s) of
                None \<Rightarrow> None | Some d \<Rightarrow> map_option (Pair d) (ar_context_hash run))) (\<lambda>trace.
         bnd (required trace (PermanentJobError ''asset controller run missing durable contract trace'')) (\<lambda>(d, hsh).
         bnd new_id (\<lambda>i.
         let row = asset_review_of flow v ctype run d output hsh now i
         in bnd (modify (\<lambda>s. s\<lparr>asset_reviews := asset_reviews s @ [row]\<rparr>)) (\<lambda>_.
            bnd flush (\<lambda>_. ret row)))))))))))"

definition materialize_asset_reviews ::
  "'e production_env_scheme \<Rightarrow> production_workflow_row \<Rightarrow> asset_version_row \<Rightarrow> datetime
     \<Rightarrow> ('z production_store_scheme, asset_review_row list) prog" where
  "materialize_asset_reviews env flow v now =
     map_prog (materialize_asset_review env flow v now) REQUIRED_ASSET_CONTROLLER_CONTRACT_KEYS"

end
