(* ===== verification/Production_Governance.thy ===== *)
theory Production_Governance
  imports Production_Workflow
begin

text \<open>
  The rules over the reviews of an asset (\<open>production/governance.py\<close>), the advance of the workflow
  and its handler (\<open>application/production_workflow.py\<close>), and its start
  (\<open>production/start.py\<close>).
\<close>

section \<open>Governance (\<open>production/governance.py\<close>)\<close>

definition hard_phrases :: "string list" where
  "hard_phrases = [''if you don'' @ [char_of (39::nat)] @ ''t buy'', ''if you do not buy'', ''you are not ready'',
     ''you'' @ [char_of (39::nat)] @ ''ll regret'', ''you will regret'', ''only worthy people'', ''prove your worth'']"

definition contains_hard_manipulation :: "string \<Rightarrow> bool" where
  "contains_hard_manipulation copy = any_in hard_phrases (lower copy)"

definition risky_markers :: "string list" where
  "risky_markers = [''guaranteed'', ''guarantee'', ''100%'', ''testimonial'', ''everyone gets'']"

definition claim_inventory_of :: "payload \<Rightarrow> json list" where
  "claim_inventory_of pl =
    (case dict_get pl ''claim_inventory'' of Some (JList xs) \<Rightarrow> xs | _ \<Rightarrow> [])"

definition item_attribute :: "json \<Rightarrow> string \<Rightarrow> json option" where
  "item_attribute v name = (case as_obj (Some v) of None \<Rightarrow> None | Some d \<Rightarrow> dict_get d name)"

definition declared_refs :: "json list \<Rightarrow> string list" where
  "declared_refs inventory =
     concat (map (\<lambda>item. case as_str (item_attribute item ''evidence_ref'') of None \<Rightarrow> [] | Some r \<Rightarrow> [r]) inventory)"

text \<open>
  The test of the set of claim types hashes the value, which raises for a list or a mapping.
\<close>

definition unsupported_claim ::
  "'y TenantScope_scheme \<Rightarrow> 'z analytics_store_scheme \<Rightarrow> json \<Rightarrow> py_error + bool" where
  "unsupported_claim scope s item =
    (case item of
       JObj d \<Rightarrow>
        (case dict_get d ''claim_type'' of
           Some (JList _) \<Rightarrow> Inl (OtherError ''TypeError'' ''unhashable type'')
         | Some (JObj _) \<Rightarrow> Inl (OtherError ''TypeError'' ''unhashable type'')
         | ty \<Rightarrow> Inr (ty \<in> Some ` JStr ` set [''FACTUAL'', ''QUANTITATIVE'', ''TESTIMONIAL'', ''RESULT''] \<and>
             (case Option.bind (as_str (dict_get d ''evidence_ref'')) (\<lambda>r. row_get rid r (evidence s)) of
                None \<Rightarrow> True | Some e \<Rightarrow> assert_matches scope (org e) (biz e) \<noteq> Inr ())))
     | _ \<Rightarrow> Inr True)"

text \<open>\<open>any\<close> over tests that may raise, in order.\<close>

fun any_raising :: "(py_error + bool) list \<Rightarrow> py_error + bool" where
  "any_raising [] = Inr False"
| "any_raising (x # xs) = (case x of Inl e \<Rightarrow> Inl e | Inr b \<Rightarrow> if b then Inr True else any_raising xs)"

definition has_unsupported_claims ::
  "'y TenantScope_scheme \<Rightarrow> asset_version_row \<Rightarrow> 'z analytics_store_scheme \<Rightarrow> py_error + bool" where
  "has_unsupported_claims scope v s =
    (let inventory = claim_inventory_of (av_provenance v)
     in case any_raising (map (unsupported_claim scope s) inventory) of
          Inl e \<Rightarrow> Inl e
        | Inr True \<Rightarrow> Inr True
        | Inr False \<Rightarrow> Inr (any_in risky_markers (lower (av_body v)) \<and> declared_refs inventory = []))"

definition rights_are_complete :: "asset_version_row \<Rightarrow> 'z production_store_scheme \<Rightarrow> bool" where
  "rights_are_complete v s \<longleftrightarrow>
    (case (rights_for_version (rid v) s,
           select_first (\<lambda>c. vc_asset_version_id c = rid v) (asset_version_creators s)) of
       (Some rights, Some creator) \<Rightarrow>
         vc_creator_type creator = ''AGENT'' \<and> vc_created_by_agent_run_id creator \<noteq> None \<and>
         (if rights_origin rights = ''GENERATED''
          then rights_generated_by_agent_run_id rights = vc_created_by_agent_run_id creator
          else rights_origin rights \<in> set [''USER_PROVIDED'', ''LICENSED'', ''DERIVED''] \<and>
            or_else (rights_permission_scope rights) [] \<noteq> [])
     | _ \<Rightarrow> False)"

definition mandatory_asset_conditions :: "asset_review_row \<Rightarrow> string list" where
  "mandatory_asset_conditions r =
     dedupe (map strip (filter (\<lambda>v. strip v \<noteq> []) (ax_conditions r @ ax_required_changes r)))"

definition review_verdict_outcome :: "asset_review_row list \<Rightarrow> ControllerVerdict" where
  "review_verdict_outcome reviews =
    (if BLOCK \<in> set (map ax_verdict reviews) then BLOCK
     else if REVISE \<in> set (map ax_verdict reviews) then REVISE
     else if list_ex (\<lambda>r. ax_verdict r = PASS_WITH_CONDITIONS \<and> mandatory_asset_conditions r \<noteq> []) reviews
     then PASS_WITH_CONDITIONS
     else PASS)"

definition missing_controllers :: "asset_review_row list \<Rightarrow> string list" where
  "missing_controllers reviews =
     filter (\<lambda>t. t \<notin> set (map ax_controller_type reviews)) (map asset_controller_type REQUIRED_ASSET_CONTROLLER_CONTRACT_KEYS)"

definition governed_asset_outcome ::
  "production_workflow_row \<Rightarrow> asset_version_row \<Rightarrow> asset_review_row list \<Rightarrow> 'z production_store_scheme
     \<Rightarrow> py_error + ControllerVerdict" where
  "governed_asset_outcome flow v reviews s =
    (if missing_controllers reviews \<noteq> []
     then Inl (TransientJobError (''required asset controllers not ready: '' @
       join_with '', '' (sort (missing_controllers reviews))))
     else if contains_human_worth_violation [(''body'', JStr (av_body v))] then Inr BLOCK
     else if contains_hard_manipulation (av_body v) then Inr BLOCK
     else (case has_unsupported_claims (production_scope flow) v s of
         Inl e \<Rightarrow> Inl e
       | Inr unsupported \<Rightarrow>
           if unsupported \<or> \<not> rights_are_complete v s then Inr REVISE
           else Inr (review_verdict_outcome reviews)))"

section \<open>Advancing the workflow (\<open>application/production_workflow.py\<close>)\<close>

definition after_writer_suffix :: "production_workflow_row \<Rightarrow> 'z exec_store_scheme \<Rightarrow> string" where
  "after_writer_suffix flow s = ''after-writer:'' @ show_int (next_asset_version_number flow s)"

definition advance_approval_verified ::
  "'e production_env_scheme \<Rightarrow> agent_registry \<Rightarrow> production_workflow_row \<Rightarrow> datetime \<Rightarrow> ('z production_store_scheme, unit) prog" where
  "advance_approval_verified env reg flow now =
     bnd (ensure_content_strategy_run env reg flow now) (\<lambda>_.
     bnd (set_production_status CONTENT_STRATEGY_RUNNING flow) (\<lambda>_.
     bnd (enqueue_production_advance flow ''after-content-strategy'' now) (\<lambda>_. ret ())))"

definition advance_strategy_running ::
  "'e production_env_scheme \<Rightarrow> agent_registry \<Rightarrow> production_workflow_row \<Rightarrow> datetime \<Rightarrow> ('z production_store_scheme, unit) prog" where
  "advance_strategy_running env reg flow now =
     bnd (materialize_content_strategy env flow now) (\<lambda>strategy.
     bnd (set_production_status CONTENT_STRATEGY_READY flow) (\<lambda>_.
     bnd (materialize_creative_brief env flow strategy now) (\<lambda>brief.
     bnd (update_production flow (\<lambda>w. w\<lparr>pw_creative_brief_id := Some (rid brief), pw_status := BRIEF_READY\<rparr>)) (\<lambda>_.
     bnd (ensure_writer_run env reg (flow\<lparr>pw_creative_brief_id := Some (rid brief)\<rparr>) None [] now) (\<lambda>_.
     bnd (set_production_status PRODUCTION_RUNNING flow) (\<lambda>_.
     bnd (gets (after_writer_suffix flow)) (\<lambda>suffix.
     bnd (enqueue_production_advance flow suffix now) (\<lambda>_. ret ()))))))))"

definition advance_production_running ::
  "'e production_env_scheme \<Rightarrow> agent_registry \<Rightarrow> production_workflow_row \<Rightarrow> datetime \<Rightarrow> ('z production_store_scheme, unit) prog" where
  "advance_production_running env reg flow now =
     bnd (materialize_asset_version env flow now) (\<lambda>v.
     bnd (update_production flow (\<lambda>w. w\<lparr>pw_final_asset_version_id := Some (rid v), pw_status := ASSET_VERSION_READY\<rparr>)) (\<lambda>_.
     bnd (ensure_asset_controller_runs env reg flow v now) (\<lambda>_.
     bnd (set_production_status ASSET_CONTROLLERS_RUNNING flow) (\<lambda>_.
     bnd (enqueue_production_advance flow (''after-asset-controllers:'' @ show_int (av_version_number v)) now) (\<lambda>_.
     ret ())))))"

definition apply_asset_outcome ::
  "'e production_env_scheme \<Rightarrow> agent_registry \<Rightarrow> production_workflow_row \<Rightarrow> asset_version_row
     \<Rightarrow> asset_review_row list \<Rightarrow> ControllerVerdict \<Rightarrow> datetime \<Rightarrow> ('z production_store_scheme, unit) prog" where
  "apply_asset_outcome env reg flow v reviews outcome now =
    (if outcome = BLOCK then
       bnd (set_production_status ProductionWorkflowStatus.BLOCKED flow) (\<lambda>_. flush)
     else if outcome \<in> {REVISE, PASS_WITH_CONDITIONS} then
       (if pw_max_revision_rounds flow \<le> pw_revision_count flow then
         bnd (set_production_status ProductionWorkflowStatus.ESCALATED flow) (\<lambda>_. flush)
       else
         bnd (update_production flow (\<lambda>w. w\<lparr>pw_revision_count := pw_revision_count w + 1,
                pw_status := ProductionWorkflowStatus.REVISION_REQUIRED\<rparr>)) (\<lambda>_.
         bnd (ensure_writer_run env reg flow (Some v) reviews now) (\<lambda>_.
         bnd (set_production_status PRODUCTION_RUNNING flow) (\<lambda>_.
         bnd (gets (after_writer_suffix flow)) (\<lambda>suffix.
         bnd (enqueue_production_advance flow suffix now) (\<lambda>_. ret ()))))))
     else
       bnd (set_production_status PRODUCTION_READY flow) (\<lambda>_.
       bnd (update_production flow (\<lambda>w. w\<lparr>pw_final_asset_version_id := Some (rid v),
              pw_status := READY_FOR_ACTION_PROPOSAL\<rparr>)) (\<lambda>_.
       flush)))"

definition advance_asset_controllers_running ::
  "'e production_env_scheme \<Rightarrow> agent_registry \<Rightarrow> production_workflow_row \<Rightarrow> datetime \<Rightarrow> ('z production_store_scheme, unit) prog" where
  "advance_asset_controllers_running env reg flow now =
     bnd (query (latest_asset_version flow)) (\<lambda>v.
     bnd (materialize_asset_reviews env flow v now) (\<lambda>reviews.
     bnd (query (governed_asset_outcome flow v reviews)) (\<lambda>outcome.
     apply_asset_outcome env reg flow v reviews outcome now)))"

text \<open>Statuses that are not listed end the function without effect.\<close>

definition advance_production_workflow ::
  "'e production_env_scheme \<Rightarrow> agent_registry \<Rightarrow> production_workflow_row \<Rightarrow> datetime \<Rightarrow> ('z production_store_scheme, unit) prog" where
  "advance_production_workflow env reg flow now =
     bnd (query (assert_decision_binding flow)) (\<lambda>_.
     case pw_status flow of
       DECISION_APPROVAL_VERIFIED \<Rightarrow> advance_approval_verified env reg flow now
     | CONTENT_STRATEGY_RUNNING \<Rightarrow> advance_strategy_running env reg flow now
     | PRODUCTION_RUNNING \<Rightarrow> advance_production_running env reg flow now
     | ASSET_CONTROLLERS_RUNNING \<Rightarrow> advance_asset_controllers_running env reg flow now
     | _ \<Rightarrow> ret ())"

definition production_workflow_id_of :: "payload \<Rightarrow> py_error + string" where
  "production_workflow_id_of pl =
    (if \<not> equals_int (dict_get pl ''payload_schema_version'') 1
     then Inl (PermanentJobError ''production workflow payload_schema_version must be 1'')
     else case as_str (dict_get pl ''production_workflow_id'') of
         None \<Rightarrow> Inl (PermanentJobError ''production_workflow_id is required'') | Some i \<Rightarrow> Inr i)"

definition ProductionWorkflowAdvanceHandler_handle ::
  "'e production_env_scheme \<Rightarrow> agent_registry \<Rightarrow> RuntimeJobContext \<Rightarrow> payload \<Rightarrow> datetime
     \<Rightarrow> ('z production_store_scheme, unit) prog" where
  "ProductionWorkflowAdvanceHandler_handle env reg context pl now =
     bnd (check_no_secrets pl) (\<lambda>_.
     bnd (lift_sum (production_workflow_id_of pl)) (\<lambda>i.
     bnd (gets (\<lambda>s. row_get rid i (production_workflows s))) (\<lambda>found.
     bnd (required found (PermanentJobError (''ProductionWorkflow not found: '' @ i))) (\<lambda>flow.
     bnd (check_scope context (org flow) (biz flow)) (\<lambda>_.
     advance_production_workflow env reg flow now)))))"

section \<open>Start (\<open>production/start.py\<close>)\<close>

record ProductionWorkflowStartResult =
  production_started :: production_workflow_row
  production_job_id :: string
  production_created :: bool

text \<open>The newest approval of the decision in the tenant.\<close>

definition decision_approval_for ::
  "'y TenantScope_scheme \<Rightarrow> string \<Rightarrow> 'z workflow_store_scheme \<Rightarrow> decision_approval_row option" where
  "decision_approval_for scope decision_id s =
     select_first (\<lambda>_. True) (sort_key (\<lambda>a. - da_created_at a) (filter (\<lambda>a. org a = organization_id scope \<and>
       biz a = business_id scope \<and> da_decision_id a = decision_id \<and> da_action_type a = DECISION_APPROVAL_ACTION \<and>
       da_status a = ApprovalStatus.APPROVED) (decision_approvals s)))"

text \<open>The decision, its snapshot and its approval, or the first check that fails.\<close>

definition production_eligible ::
  "'y TenantScope_scheme \<Rightarrow> string \<Rightarrow> int \<Rightarrow> 'z workflow_store_scheme
     \<Rightarrow> py_error + decision_row \<times> string \<times> decision_approval_row" where
  "production_eligible scope decision_id max_rounds s =
    (if max_rounds < 0 then Inl (PermanentJobError ''max_revision_rounds cannot be negative'')
     else case row_get rid decision_id (decisions s) of
         None \<Rightarrow> Inl (PermanentJobError ''Decision not found'')
       | Some d \<Rightarrow>
          (case assert_matches scope (org d) (biz d) of
             Inl e \<Rightarrow> Inl e
           | Inr _ \<Rightarrow>
               if dc_status d \<noteq> ''APPROVED_FOR_PRODUCTION''
               then Inl (PermanentJobError ''production requires APPROVED_FOR_PRODUCTION Decision'')
               else (case dc_snapshot_id d of
                   None \<Rightarrow> Inl (PermanentJobError ''approved Decision must retain immutable BusinessSnapshot'')
                 | Some sn \<Rightarrow>
                     if superseded_by_some (organization_id scope) (business_id scope) (rid d) s
                     then Inl (PermanentJobError ''superseded Decision cannot start production'')
                     else (case decision_approval_for scope (rid d) s of
                         None \<Rightarrow> Inl (PermanentJobError ''exact-version Decision approval is required'')
                       | Some a \<Rightarrow>
                           if approval_matches_decision a d then Inr (d, sn, a)
                           else Inl (PermanentJobError ''exact-version Decision approval is required'')))))"

definition new_production_workflow ::
  "'y TenantScope_scheme \<Rightarrow> decision_row \<Rightarrow> string \<Rightarrow> decision_approval_row \<Rightarrow> string option \<Rightarrow> int
     \<Rightarrow> string option \<Rightarrow> string option \<Rightarrow> datetime \<Rightarrow> string \<Rightarrow> production_workflow_row" where
  "new_production_workflow scope d sn a launch max_rounds correlation causation now i =
    \<lparr>rid = i, org = organization_id scope, biz = business_id scope, pw_decision_id = rid d,
     pw_decision_version = dc_version d, pw_decision_approval_id = rid a, pw_snapshot_id = sn, pw_launch_id = launch,
     pw_status = DECISION_APPROVAL_VERIFIED, pw_revision_count = 0, pw_max_revision_rounds = max_rounds,
     pw_creative_brief_id = None, pw_asset_id = None, pw_final_asset_version_id = None,
     pw_correlation_id = correlation, pw_causation_id = Some (or_else causation (rid d)), pw_created_at = now,
     pw_version = 1\<rparr>"

definition start_production_workflow ::
  "'y TenantScope_scheme \<Rightarrow> string \<Rightarrow> int \<Rightarrow> string option \<Rightarrow> string option \<Rightarrow> datetime
     \<Rightarrow> ('z production_store_scheme, ProductionWorkflowStartResult) prog" where
  "start_production_workflow scope decision_id max_rounds correlation causation now =
     bnd (query (production_eligible scope decision_id max_rounds)) (\<lambda>(d, sn, a).
     bnd (gets (\<lambda>s. select_first (\<lambda>w. org w = organization_id scope \<and> biz w = business_id scope \<and>
            pw_decision_id w = rid d \<and> pw_decision_version w = dc_version d) (production_workflows s))) (\<lambda>existing.
     case existing of
       Some w \<Rightarrow>
         bnd (gets (workflow_job w)) (\<lambda>found.
         bnd (required found (PermanentJobError ''idempotent ProductionWorkflow exists without workflow Job'')) (\<lambda>job.
         ret \<lparr>production_started = w, production_job_id = rid job, production_created = False\<rparr>))
     | None \<Rightarrow>
         bnd (gets (\<lambda>s. Option.bind (select_first (\<lambda>w. org w = organization_id scope \<and> biz w = business_id scope \<and>
                dw_final_decision_id w = Some (rid d)) (decision_workflows s)) dw_launch_id)) (\<lambda>launch.
         bnd new_id (\<lambda>i.
         let w = new_production_workflow scope d sn a launch max_rounds correlation causation now i
         in bnd (modify (\<lambda>s. s\<lparr>production_workflows := production_workflows s @ [w]\<rparr>)) (\<lambda>_.
            bnd flush (\<lambda>_.
            bnd (enqueue_production_advance w ''start'' now) (\<lambda>job_id.
            ret \<lparr>production_started = w, production_job_id = job_id, production_created = True\<rparr>)))))))"

end
