(* ===== verification/Handler_Frames.thy ===== *)
theory Handler_Frames
  imports Execution_Safety Adaptation Agent_Handler Production_Governance
begin

text \<open>
  The handlers of agent runs, of the decision workflow and of the production workflow honour the contract of
  the runtime (\<open>job_handlers\<close>): whatever they do and however they end, they leave the jobs that exist alone.
\<close>

named_theorems job_frames

declare frame_rules [job_frames] exec_modify_frame [job_frames]

lemma definition_frame [job_frames]: "tracks jobs_frame (ensure_agent_definition env scope c)"
  unfolding ensure_agent_definition_def by (intro job_frames) auto

lemma agent_run_frame [job_frames]:
  "tracks jobs_frame (create_agent_run env reg scope key ver input_ref refs co ca jtype idem now)"
  unfolding create_agent_run_def by (intro job_frames) auto

section \<open>Agent runs\<close>

lemma update_run_frame [job_frames]: "tracks jobs_frame (update_run run f)"
  unfolding update_run_def by (intro job_frames) auto

lemma agent_handler_frame:
  assumes "\<forall>(name, adapter) \<in> set (mt_adapters router). model_port adapter"
  shows "tracks jobs_frame (AgentRunJobHandler_handle env reg build router context pl now)"
proof -
  have ask: "tracks jobs_frame (invoke adapter rq)" if "resolve_route router c = Inr (route, adapter)" for c route adapter rq
  proof -
    from that assms have "model_port adapter"
      by (auto simp: resolve_route_def split: option.splits dest!: map_of_SomeD)
    then show ?thesis by (rule model_port.invoke_frame)
  qed
  have routed: "tracks jobs_frame (bnd (lift_sum (resolve_route router c)) (\<lambda>(route, adapter).
      bnd (invoke adapter (rq route)) (k route)))" if "\<And>route result. tracks jobs_frame (k route result)" for c rq k
  proof (cases "resolve_route router c")
    case (Inl e)
    then show ?thesis by (auto intro!: tracksI simp: run_bnd run_lift_sum jf.refl)
  next
    case (Inr found)
    then obtain route adapter where found: "resolve_route router c = Inr (route, adapter)" by (cases found) simp
    have "tracks jobs_frame (bnd (invoke adapter (rq route)) (k route))"
      by (intro jf.t_bnd ask [OF found] that)
    then show ?thesis by (simp add: found lift_sum_def)
  qed
  show ?thesis
    unfolding AgentRunJobHandler_handle_def run_agent_def persist_model_result_def by (rule routed job_frames)+
qed

lemma agent_recorder_frame:
  "tracks jobs_frame (AgentRunJobHandler_record_attempt_failure job e will_retry now backoff)"
  unfolding AgentRunJobHandler_record_attempt_failure_def by (intro job_frames)

section \<open>The decision workflow\<close>

lemma decision_row_frames [job_frames]:
  "tracks jobs_frame (update_workflow flow f)"
  "tracks jobs_frame (set_candidate_status st c)"
  unfolding update_workflow_def set_candidate_status_def by (intro job_frames; simp)+

lemma decision_status_frame [job_frames]: "tracks jobs_frame (set_workflow_status st flow)"
  unfolding set_workflow_status_def by (intro job_frames)

lemma enqueue_advance_frame [job_frames]: "tracks jobs_frame (enqueue_workflow_advance flow suffix now)"
  unfolding enqueue_workflow_advance_def by (intro job_frames)

lemma count_not_ready_frame [job_frames]:
  "(\<And>key. tracks jobs_frame (create key)) \<Longrightarrow> tracks jobs_frame (count_not_ready state_of create keys)"
  by (induction keys) (auto intro!: job_frames)

lemma decision_run_frames [job_frames]:
  "tracks jobs_frame (ensure_specialist_runs env reg flow now)"
  "tracks jobs_frame (ensure_chief_run env reg flow previous reviews now)"
  "tracks jobs_frame (ensure_controller_runs env reg flow candidate now)"
  unfolding ensure_specialist_runs_def create_specialist_run_def ensure_chief_run_def ensure_controller_runs_def
    create_controller_run_def
  by (intro job_frames)+

lemma map_prog_frame [job_frames]: "(\<And>x. tracks jobs_frame (f x)) \<Longrightarrow> tracks jobs_frame (map_prog f xs)"
  by (induction xs) (auto intro!: job_frames)

lemma decision_materialize_frames [job_frames]:
  "tracks jobs_frame (materialize_specialist_contributions env flow now)"
  "tracks jobs_frame (materialize_candidate env flow now)"
  "tracks jobs_frame (materialize_controller_reviews env flow candidate)"
  unfolding materialize_specialist_contributions_def materialize_specialist_contribution_def materialize_candidate_def
    materialize_controller_reviews_def materialize_controller_review_def
  by (intro job_frames; simp)+

lemma event_frames [job_frames]:
  "tracks jobs_frame (emit ctx ty ag i pl now)" "tracks jobs_frame (append_audit ctx act ot oid pl)"
  unfolding emit_def append_outbox_event_def append_audit_def by (intro job_frames; simp)+

lemma final_decision_frame [job_frames]: "tracks jobs_frame (materialize_final_decision env flow candidate now)"
  unfolding materialize_final_decision_def insert_decision_def add_alternative_def add_experiment_def
  by (intro job_frames; simp add: bind_reviews_def)

lemma advance_workflow_frame: "tracks jobs_frame (advance_workflow env reg revises outcome_of flow now)"
  unfolding advance_workflow_def advance_snapshot_ready_def advance_specialists_running_def advance_chief_running_def
    advance_controllers_running_def apply_outcome_def
  by (cases "dw_status flow") (simp_all, (intro job_frames)+)

lemma guarded_handler_frame: "tracks jobs_frame (GuardedDecisionWorkflowAdvanceHandler_handle env reg context pl now)"
  unfolding GuardedDecisionWorkflowAdvanceHandler_handle_def handle_advance_def guarded_advance_def
  by (intro job_frames advance_workflow_frame)

lemma checkpoint_frame [job_frames]: "tracks jobs_frame (create_checkpoint_definition_for_decision env scope i spec now)"
  unfolding create_checkpoint_definition_for_decision_def by (intro job_frames; simp)

lemma successor_frame [job_frames]: "tracks jobs_frame (bind_successor scope prior i d now)"
  unfolding bind_successor_def by (intro job_frames; simp)

lemma phase6_intent_frame [job_frames]: "tracks jobs_frame (materialize_phase6_intent env validate scope i now)"
  unfolding materialize_phase6_intent_def by (intro job_frames)

lemma phase6_handler_frame:
  assumes "\<And>context pl now. tracks jobs_frame (delegate context pl now)"
  shows "tracks jobs_frame (Phase6DecisionWorkflowAdvanceHandler_handle env validate delegate context pl now)"
  unfolding Phase6DecisionWorkflowAdvanceHandler_handle_def by (intro job_frames assms)

section \<open>The production workflow\<close>

lemma update_production_frame [job_frames]: "tracks jobs_frame (update_production flow f)"
  unfolding update_production_def by (intro job_frames) simp

lemma production_status_frame [job_frames]: "tracks jobs_frame (set_production_status st flow)"
  unfolding set_production_status_def by (intro job_frames)

lemma production_advance_frame [job_frames]: "tracks jobs_frame (enqueue_production_advance flow suffix now)"
  unfolding enqueue_production_advance_def by (intro job_frames)

lemma production_run_frames [job_frames]:
  "tracks jobs_frame (ensure_content_strategy_run env reg flow now)"
  "tracks jobs_frame (ensure_writer_run env reg flow previous reviews now)"
  "tracks jobs_frame (ensure_asset_controller_runs env reg flow v now)"
  unfolding ensure_content_strategy_run_def ensure_writer_run_def ensure_asset_controller_runs_def production_run_def
  by (intro job_frames)+

lemma production_materialize_frames [job_frames]:
  "tracks jobs_frame (materialize_content_strategy env flow now)"
  "tracks jobs_frame (materialize_creative_brief env flow strategy now)"
  "tracks jobs_frame (materialize_asset_version env flow now)"
  "tracks jobs_frame (materialize_asset_reviews env flow v now)"
  unfolding materialize_content_strategy_def materialize_creative_brief_def insert_brief_def materialize_asset_version_def
    ensure_asset_def insert_asset_version_def materialize_asset_reviews_def materialize_asset_review_def
  by (intro job_frames; simp)+

lemma production_handler_frame: "tracks jobs_frame (ProductionWorkflowAdvanceHandler_handle env reg context pl now)"
proof -
  have "tracks jobs_frame (advance_production_workflow env reg flow now)" for flow
    unfolding advance_production_workflow_def advance_approval_verified_def advance_strategy_running_def
      advance_production_running_def advance_asset_controllers_running_def apply_asset_outcome_def
    by (cases "pw_status flow") (simp_all, (intro job_frames)+)
  then show ?thesis unfolding ProductionWorkflowAdvanceHandler_handle_def by (intro job_frames)
qed

end
