(* ===== verification/Production_Context.thy ===== *)
theory Production_Context
  imports Production_Schemas
begin

text \<open>
  The context builder of the application (\<open>production/context.py\<close>): it loads the objects of
  production and leaves every other reference to the builder of \<open>ai_runtime/context.py\<close>.
\<close>

definition production_item ::
  "'y TenantScope_scheme \<Rightarrow> string \<Rightarrow> string \<Rightarrow> string \<Rightarrow> payload \<Rightarrow> EpistemicStatus \<Rightarrow> datetime
     \<Rightarrow> py_error + ContextItem" where
  "production_item scope ty i content proj st rec =
    (case assert_no_secrets (JStr content) ''payload'' of
       Inl e \<Rightarrow> Inl e
     | Inr _ \<Rightarrow>
        (case no_secrets proj of
           Inl e \<Rightarrow> Inl e
         | Inr _ \<Rightarrow> Inr
             \<lparr>ci_organization_id = organization_id scope, ci_business_id = business_id scope, ci_object_type = ty,
              ci_object_id = i, ci_provenance_ref = ty @ '':'' @ i, ci_epistemic_status = st,
              ci_trust_class = INTERNAL_SYSTEM, ci_data_boundary = ''TRUSTED_INTERNAL_DATA'',
              ci_occurred_at = None, ci_recorded_at = Some rec, ci_content = take 600 content,
              ci_projection = proj, ci_sensitivity = ''INTERNAL'', ci_retention = ''STANDARD''\<rparr>))"

definition json_content :: "'e agent_env_scheme \<Rightarrow> payload \<Rightarrow> string" where
  "json_content env pl = take 600 (ascii_dumps (float_repr env) (JObj pl))"

definition decision_item ::
  "'e context_env_scheme \<Rightarrow> 'y TenantScope_scheme \<Rightarrow> decision_row \<Rightarrow> py_error + ContextItem" where
  "decision_item env scope d =
     production_item scope ''decision'' (rid d) (dc_selected_action d)
       [(''version'', JInt (dc_version d)), (''status'', JStr (dc_status d)),
        (''goal_problem'', JStr (dc_goal_problem d)), (''selected_action'', JStr (dc_selected_action d)),
        (''expected_effect'', JStr (dc_expected_effect d)), (''risk_class'', JStr (dc_risk_class d)),
        (''required_assets'', jstrs (dc_required_assets d)), (''required_actions'', jstrs (dc_required_actions d)),
        (''experiment_proposal'', JObj (dc_experiment_proposal d)), (''evidence_ids'', jstrs (dc_evidence_ids d))]
       OBSERVATION (row_updated_at env ''decision'' (rid d))"

definition content_strategy_item ::
  "'e context_env_scheme \<Rightarrow> 'y TenantScope_scheme \<Rightarrow> content_strategy_row \<Rightarrow> py_error + ContextItem" where
  "content_strategy_item env scope r =
     production_item scope ''content_strategy'' (rid r) (json_content env (cst_payload r))
       [(''decision_id'', JStr (cst_decision_id r)), (''snapshot_id'', JStr (cst_snapshot_id r)),
        (''payload'', JObj (cst_payload r)), (''evidence_refs'', JList (map JObj (cst_evidence_refs r)))]
       OBSERVATION (cst_created_at r)"

definition creative_brief_item ::
  "'e context_env_scheme \<Rightarrow> 'y TenantScope_scheme \<Rightarrow> creative_brief_row \<Rightarrow> py_error + ContextItem" where
  "creative_brief_item env scope r =
     production_item scope ''creative_brief'' (rid r) (br_title r @ '': '' @ br_objective r)
       [(''decision_id'', JStr (br_decision_id r)), (''title'', JStr (br_title r)),
        (''objective'', JStr (br_objective r)), (''constraints'', jstrs (br_constraints r))]
       OBSERVATION (row_updated_at env ''creative_brief'' (rid r))"

definition asset_version_item ::
  "'y TenantScope_scheme \<Rightarrow> asset_version_row \<Rightarrow> py_error + ContextItem" where
  "asset_version_item scope r =
     production_item scope ''asset_version'' (rid r) (av_body r)
       [(''asset_id'', JStr (av_asset_id r)), (''version_number'', JInt (av_version_number r)),
        (''provenance'', JObj (av_provenance r))]
       OBSERVATION (av_created_at r)"

definition asset_review_item ::
  "'y TenantScope_scheme \<Rightarrow> asset_review_row \<Rightarrow> py_error + ContextItem" where
  "asset_review_item scope r =
     production_item scope ''asset_review'' (rid r) (ax_reason r)
       [(''asset_version_id'', JStr (ax_asset_version_id r)), (''controller_type'', JStr (ax_controller_type r)),
        (''verdict'', JStr (verdict_value (ax_verdict r))), (''issues'', jstrs (ax_issues r)),
        (''required_changes'', jstrs (ax_required_changes r)), (''conditions'', jstrs (ax_conditions r))]
       OBSERVATION (ax_created_at r)"

definition asset_rights_item ::
  "'y TenantScope_scheme \<Rightarrow> rights_row \<Rightarrow> py_error + ContextItem" where
  "asset_rights_item scope r =
     production_item scope ''asset_rights_provenance'' (rid r)
       (''origin='' @ rights_origin r @ ''; permission_scope='' @
        (case rights_permission_scope r of None \<Rightarrow> ''None'' | Some p \<Rightarrow> p))
       [(''asset_version_id'', JStr (rights_asset_version_id r)), (''origin'', JStr (rights_origin r)),
        (''generated_by_agent_run_id'', opt_json (rights_generated_by_agent_run_id r)),
        (''related_source_asset_ids'', jstrs (rights_related_source_asset_ids r)),
        (''permission_scope'', opt_json (rights_permission_scope r)),
        (''customer_content_consent_ref'', opt_json (rights_consent_ref r)),
        (''publication_restrictions'', jstrs (rights_publication_restrictions r))]
       FACT (rights_created_at r)"

definition production_load_reference ::
  "'e context_env_scheme \<Rightarrow> ContextBudget \<Rightarrow> ('z production_store_ext, 'y) context_loader" where
  "production_load_reference env budget scope ref s =
    (let ty = cr_object_type ref; i = cr_object_id ref in
     if ty = ''decision'' then project_row scope tenant_of (decision_item env scope) (row_get rid i (decisions s))
     else if ty = ''content_strategy'' then
       project_row scope tenant_of (content_strategy_item env scope) (row_get rid i (content_strategies s))
     else if ty = ''creative_brief'' then
       project_row scope tenant_of (creative_brief_item env scope) (row_get rid i (creative_briefs s))
     else if ty = ''asset_version'' then
       project_row scope tenant_of (asset_version_item scope) (row_get rid i (asset_versions s))
     else if ty = ''asset_review'' then
       project_row scope tenant_of (asset_review_item scope) (row_get rid i (asset_reviews s))
     else if ty = ''asset_rights_provenance'' then
       project_row scope tenant_of (asset_rights_item scope) (row_get rid i (asset_rights s))
     else load_reference env budget scope ref s)"

text \<open>\<open>ContextBuilder().build\<close> and \<open>ProductionContextBuilder().build\<close> with the default budget.\<close>

definition default_context_build ::
  "'e context_env_scheme \<Rightarrow> 'y TenantScope_scheme \<Rightarrow> AgentContract \<Rightarrow> ContextReference list
     \<Rightarrow> 'z workflow_store_scheme \<Rightarrow> py_error + ContextBundle" where
  "default_context_build env = ContextBuilder_build env default_budget (load_reference env default_budget)"

definition production_context_build ::
  "'e context_env_scheme \<Rightarrow> 'y TenantScope_scheme \<Rightarrow> AgentContract \<Rightarrow> ContextReference list
     \<Rightarrow> 'z production_store_scheme \<Rightarrow> py_error + ContextBundle" where
  "production_context_build env = ContextBuilder_build env default_budget (production_load_reference env default_budget)"

end
