(* ===== verification/Workflow_Machine.thy ===== *)
theory Workflow_Machine
  imports Prelude
begin

text \<open>
  Workflows as the rest of the system sees them: a row with an identity that never changes and a state
  that only advances of this workflow move, along the edges of a machine in which every edge lowers a
  measure. The decision workflow and the production workflow are two of them.
\<close>

lemma bnd_gets: "bnd (gets f) g s = g (f s) s"
  by (simp add: run_bnd run_gets)

lemma guards_ok:
  "required x e s = (Inr y, t) \<longleftrightarrow> x = Some y \<and> t = s" "require b e s = (Inr u, t) \<longleftrightarrow> b \<and> t = s"
  by (auto simp: run_required run_require split: option.splits)

text \<open>
  A run of the whole system as one workflow sees it: advances that return, and anything else that leaves
  its row alone. The number counts the advances that changed the row.
\<close>

inductive observed_run ::
  "(string \<Rightarrow> 's \<Rightarrow> 'w option) \<Rightarrow> (string \<Rightarrow> 's \<Rightarrow> 's \<Rightarrow> bool) \<Rightarrow> string \<Rightarrow> 's \<Rightarrow> nat \<Rightarrow> 's \<Rightarrow> bool"
  for row_at advances i s where
  start: "observed_run row_at advances i s 0 s"
| other: "observed_run row_at advances i s n t \<Longrightarrow> row_at i u = row_at i t \<Longrightarrow> observed_run row_at advances i s n u"
| waits: "observed_run row_at advances i s n t \<Longrightarrow> advances i t u \<Longrightarrow> row_at i u = row_at i t \<Longrightarrow>
    observed_run row_at advances i s n u"
| steps: "observed_run row_at advances i s n t \<Longrightarrow> advances i t u \<Longrightarrow> row_at i u \<noteq> row_at i t \<Longrightarrow>
    observed_run row_at advances i s (Suc n) u"

locale workflow_machine =
  fixes row_at :: "string \<Rightarrow> 's \<Rightarrow> 'w option"
    and advances :: "string \<Rightarrow> 's \<Rightarrow> 's \<Rightarrow> bool"
    and ident :: "'w \<Rightarrow> 'i" and state_of :: "'w \<Rightarrow> 'st"
    and edge :: "'i \<Rightarrow> 'st \<Rightarrow> 'st \<Rightarrow> bool" and left :: "'i \<Rightarrow> 'st \<Rightarrow> nat"
  assumes one_edge: "advances i s t \<Longrightarrow> row_at i s = Some w \<Longrightarrow> \<exists>w'. row_at i t = Some w' \<and> ident w' = ident w \<and>
      (w' = w \<or> edge (ident w) (state_of w) (state_of w'))"
    and lowers: "edge k a b \<Longrightarrow> left k b < left k a"
begin

lemma run_bounded:
  assumes "observed_run row_at advances i s n t" and "row_at i s = Some w"
  shows "\<exists>w'. row_at i t = Some w' \<and> ident w' = ident w \<and> (edge (ident w))\<^sup>*\<^sup>* (state_of w) (state_of w') \<and>
    n + left (ident w) (state_of w') \<le> left (ident w) (state_of w)"
  using assms
proof (induction rule: observed_run.induct)
  case (steps n t u)
  then obtain v where v: "row_at i t = Some v" "ident v = ident w" "(edge (ident w))\<^sup>*\<^sup>* (state_of w) (state_of v)"
      "n + left (ident w) (state_of v) \<le> left (ident w) (state_of w)" by blast
  from one_edge [OF steps.hyps(2) v(1)] steps.hyps(3) v(1,2) obtain v' where v': "row_at i u = Some v'" "ident v' = ident w"
      "edge (ident w) (state_of v) (state_of v')" by auto
  with lowers [OF v'(3)] v show ?case by (auto intro: rtranclp.rtrancl_into_rtrancl)
qed simp_all

end

end
