(* ===== verification/Decision_Machine.thy ===== *)
theory Decision_Machine
  imports Decision_Workflow Workflow_Machine
begin

text \<open>
  The decision workflow as a state machine: the abstract machine over a status and a number of
  revision rounds, the proof that every successful advance of the code is one step of it or a wait,
  and what follows for the machine: a workflow changes its state only a bounded number of times, and
  the rounds never exceed the configured maximum.
\<close>

section \<open>The machine\<close>

type_synonym flow_state = "DecisionWorkflowStatus \<times> int"

inductive machine_step :: "int \<Rightarrow> flow_state \<Rightarrow> flow_state \<Rightarrow> bool" for mx where
  analyse: "machine_step mx (SNAPSHOT_READY, r) (SPECIALISTS_RUNNING, r)"
| propose: "machine_step mx (SPECIALISTS_RUNNING, r) (CHIEF_RUNNING, r)"
| review: "machine_step mx (CHIEF_RUNNING, r) (CONTROLLERS_RUNNING, r)"
| block: "machine_step mx (CONTROLLERS_RUNNING, r) (DecisionWorkflowStatus.BLOCKED, r)"
| revise: "r < mx \<Longrightarrow> machine_step mx (CONTROLLERS_RUNNING, r) (CHIEF_RUNNING, r + 1)"
| escalate: "mx \<le> r \<Longrightarrow> machine_step mx (CONTROLLERS_RUNNING, r) (ESCALATED, r)"
| accept: "machine_step mx (CONTROLLERS_RUNNING, r) (AWAITING_DECISION_APPROVAL, r)"

inductive_cases machine_stepE: "machine_step mx a b"

fun rank :: "DecisionWorkflowStatus \<Rightarrow> nat" where
  "rank SNAPSHOT_READY = 4"
| "rank SPECIALISTS_RUNNING = 3"
| "rank CHIEF_RUNNING = 2"
| "rank CONTROLLERS_RUNNING = 1"
| "rank _ = 0"

text \<open>How many steps a workflow has left at most: two for every round, and the way to the reviews.\<close>

definition weight :: "int \<Rightarrow> flow_state \<Rightarrow> nat" where
  "weight mx st = 2 * nat (mx - snd st) + rank (fst st)"

lemma machine_step_weight: "machine_step mx a b \<Longrightarrow> weight mx b < weight mx a"
  by (auto simp: weight_def elim!: machine_stepE)

lemma machine_step_rounds: "machine_step mx a b \<Longrightarrow> snd a \<le> snd b \<and> (snd b \<le> mx \<or> snd b = snd a)"
  by (auto elim!: machine_stepE)

section \<open>What the operations leave alone\<close>

text \<open>The columns of a workflow that nothing assigns once the row exists.\<close>

definition flow_ident ::
  "decision_workflow_row \<Rightarrow> (string \<times> string \<times> string) \<times> string option \<times> string \<times> int \<times> string option \<times> string option" where
  "flow_ident w = ((rid w, org w, biz w), dw_launch_id w, dw_snapshot_id w, dw_max_revision_rounds w,
     dw_correlation_id w, dw_causation_id w)"

interpretation flowtab: keyed_table "rid :: decision_workflow_row \<Rightarrow> string" flow_ident
  by unfold_locales (simp add: flow_ident_def)

abbreviation flow_state_of :: "decision_workflow_row \<Rightarrow> flow_state" where
  "flow_state_of w \<equiv> (dw_status w, dw_revision_count w)"

definition same_core :: "'z workflow_store_scheme \<Rightarrow> 'z workflow_store_scheme \<Rightarrow> bool" where
  "same_core s t \<longleftrightarrow>
     decision_workflows t = decision_workflows s \<and> decisions t = decisions s \<and>
     decision_candidates t = decision_candidates s \<and> decision_reviews t = decision_reviews s \<and>
     specialist_contributions t = specialist_contributions s \<and> decision_approvals t = decision_approvals s \<and>
     business_snapshots t = business_snapshots s"

interpretation sc: state_preorder same_core
  by unfold_locales (simp_all add: same_core_def)

definition same_flows :: "'z workflow_store_scheme \<Rightarrow> 'z workflow_store_scheme \<Rightarrow> bool" where
  "same_flows s t \<longleftrightarrow> decision_workflows t = decision_workflows s"

interpretation sf: state_preorder same_flows
  by unfold_locales (simp_all add: same_flows_def)

lemma core_flows: "tracks same_core m \<Longrightarrow> tracks same_flows m"
  by (simp add: tracks_def same_core_def same_flows_def)

lemma core_primitives:
  "tracks same_core new_id" "tracks same_core flush" "tracks same_core (touch og bz)"
  "tracks same_core (enqueue i)" "tracks same_core (check_scope scope og bz)"
  "tracks same_core (check_no_secrets pl)" "tracks same_core (add_audit a)" "tracks same_core (add_outbox q)"
  by (auto simp: tracks_def same_core_def run_simps add_audit_def add_outbox_def check_no_secrets_def check_scope_def)

lemma create_job_core: "tracks same_core (create_job scope jtype pl sv key now mx av co ca)"
proof (rule tracksI)
  fix s :: "'z workflow_store_scheme"
  obtain r t where run: "create_job scope jtype pl sv key now mx av co ca s = (r, t)" by (metis prod.exhaust)
  have "same_core s t"
    by (cases r) (use run create_job_error create_job_result in \<open>fastforce simp: same_core_def\<close>)+
  with run show "same_core s (snd (create_job scope jtype pl sv key now mx av co ca s))" by simp
qed

lemmas core_rules = sc.t_rules core_primitives create_job_core

lemma event_core:
  "tracks same_core (emit context et ag aid pl now)" "tracks same_core (append_audit context act ot oid pl)"
  unfolding emit_def append_outbox_event_def append_audit_def by (intro core_rules)+

lemma create_agent_run_core:
  "tracks same_core (create_agent_run env reg scope key ver input_ref refs co ca jtype idem now)"
  unfolding create_agent_run_def ensure_agent_definition_def
  by (intro core_rules sc.t_modify; simp add: same_core_def)

lemma enqueue_advance_core: "tracks same_core (enqueue_workflow_advance flow suffix now)"
  unfolding enqueue_workflow_advance_def by (intro core_rules)

lemma count_not_ready_core:
  "(\<And>k. tracks same_core (create k)) \<Longrightarrow> tracks same_core (count_not_ready state_of create keys)"
  by (induction keys) (auto intro!: core_rules)

lemma ensure_core:
  "tracks same_core (ensure_specialist_runs env reg flow now)"
  "tracks same_core (ensure_chief_run env reg flow previous reviews now)"
  "tracks same_core (ensure_controller_runs env reg flow candidate now)"
  unfolding ensure_specialist_runs_def create_specialist_run_def ensure_chief_run_def ensure_controller_runs_def
    create_controller_run_def
  by (intro core_rules count_not_ready_core create_agent_run_core)+

lemmas flows_rules = sf.t_rules core_primitives [THEN core_flows] event_core [THEN core_flows]
  enqueue_advance_core [THEN core_flows] ensure_core [THEN core_flows]

lemma materialize_flows:
  "tracks same_flows (materialize_specialist_contributions env flow now)"
  "tracks same_flows (materialize_candidate env flow now)"
  "tracks same_flows (materialize_controller_reviews env flow candidate)"
  "tracks same_flows (set_candidate_status st candidate)"
  unfolding materialize_specialist_contributions_def materialize_specialist_contribution_def
    materialize_candidate_def materialize_controller_reviews_def materialize_controller_review_def
    set_candidate_status_def
  by (intro flows_rules sf.t_modify; simp add: same_flows_def)+

lemma decision_rows_core:
  "tracks same_core (add_alternative flow i a)" "tracks same_core (add_experiment flow i x)"
  unfolding add_alternative_def add_experiment_def
  by (intro core_rules sc.t_modify; simp add: same_core_def)+

lemma update_workflow_run:
  "update_workflow flow f s = (Inr (), s\<lparr>decision_workflows := row_set rid (rid flow) f (decision_workflows s),
     unit_of_work := unit_of_work s @ [(org flow, biz flow)]\<rparr>)"
  by (simp add: update_workflow_def touch_def run_simps)

lemma flowsD: "tracks same_flows m \<Longrightarrow> m s = (r, t) \<Longrightarrow> decision_workflows t = decision_workflows s"
  using tracksD [of same_flows] by (auto simp: same_flows_def)

section \<open>Every advance is a step of the machine\<close>

lemma row_set_twice_flow [simp]:
  "(\<And>r. rid (f r) = rid r) \<Longrightarrow> row_set rid i g (row_set rid i f rs) = row_set rid i (\<lambda>r. g (f r)) rs"
  by (simp add: row_set_def)

lemma row_set_id [simp]: "row_set rid i (\<lambda>r. r) rs = rs"
  by (simp add: row_set_def)

lemma set_status_run:
  "set_workflow_status st flow s = (Inr u, t) \<Longrightarrow>
   decision_workflows t = row_set rid (rid flow) (\<lambda>w. w\<lparr>dw_status := st\<rparr>) (decision_workflows s)"
  by (auto simp: set_workflow_status_def update_workflow_run)

lemma snapshot_ready_flows:
  assumes "advance_snapshot_ready env reg flow now s = (Inr (), t)"
  shows "decision_workflows t = row_set rid (rid flow) (\<lambda>w. w\<lparr>dw_status := SPECIALISTS_RUNNING\<rparr>) (decision_workflows s)"
  using assms unfolding advance_snapshot_ready_def
  by (auto elim!: bnd_okE simp: run_ret dest!: set_status_run flowsD [OF ensure_core(1) [THEN core_flows]]
      flowsD [OF enqueue_advance_core [THEN core_flows]])

lemma specialists_running_flows:
  assumes "advance_specialists_running env reg flow now s = (Inr (), t)"
  shows "decision_workflows t = decision_workflows s \<or>
    decision_workflows t = row_set rid (rid flow) (\<lambda>w. w\<lparr>dw_status := CHIEF_RUNNING\<rparr>) (decision_workflows s)"
  using assms unfolding advance_specialists_running_def
  by (auto elim!: bnd_okE simp: run_ret run_gets split: if_splits dest!: set_status_run
      flowsD [OF ensure_core(1) [THEN core_flows]] flowsD [OF ensure_core(2) [THEN core_flows]]
      flowsD [OF materialize_flows(1)] flowsD [OF enqueue_advance_core [THEN core_flows]])

lemma chief_running_flows:
  assumes "advance_chief_running env reg flow now s = (Inr (), t)"
  shows "decision_workflows t = decision_workflows s \<or>
    decision_workflows t = row_set rid (rid flow) (\<lambda>w. w\<lparr>dw_status := CONTROLLERS_RUNNING\<rparr>) (decision_workflows s)"
  using assms unfolding advance_chief_running_def
  by (auto elim!: bnd_okE simp: run_ret run_gets split: if_splits dest!: set_status_run
      flowsD [OF ensure_core(2) [THEN core_flows]] flowsD [OF ensure_core(3) [THEN core_flows]]
      flowsD [OF materialize_flows(2)] flowsD [OF materialize_flows(4)]
      flowsD [OF enqueue_advance_core [THEN core_flows]])

lemma set_candidate_status_run:
  "set_candidate_status st c s = (Inr (), s\<lparr>decision_candidates := row_set rid (rid c) (\<lambda>r. r\<lparr>ca_status := st\<rparr>)
     (decision_candidates s), unit_of_work := unit_of_work s @ [(org c, biz c)]\<rparr>)"
  by (simp add: set_candidate_status_def touch_def run_simps)

text \<open>Everything that inserting a decision writes to the tables of the workflow.\<close>

lemma insert_decision_run:
  assumes "insert_decision flow candidate out now s = (Inr d, t)"
  shows "\<exists>i. d = decision_of flow candidate out i \<and>
    same_core (s\<lparr>decisions := decisions s @ [d],
      decision_reviews := decision_reviews (bind_reviews candidate i s),
      decision_candidates := row_set rid (rid candidate) (\<lambda>c. c\<lparr>ca_status := MATERIALIZED\<rparr>) (decision_candidates s),
      decision_workflows := row_set rid (rid flow) (\<lambda>w. w\<lparr>dw_final_decision_id := Some i,
        dw_status := FINAL_DECISION_MATERIALIZED\<rparr>) (decision_workflows s)\<rparr>) t"
proof -
  have fresh: "tracks same_core (if b then new_id else ret x)" for b :: bool and x :: string
    by (intro core_rules)
  have alts: "tracks same_core (foreach xs (add_alternative flow i))" for xs i
    by (intro core_rules decision_rows_core)
  have exps: "tracks same_core (case p of None \<Rightarrow> ret () | Some x \<Rightarrow> add_experiment flow i x)" for p i
    by (intro core_rules decision_rows_core)
  note same = tracksD [OF fresh] tracksD [OF alts] tracksD [OF exps] tracksD [OF event_core(1)]
    tracksD [OF event_core(2)] tracksD [OF core_primitives(1)] tracksD [OF core_primitives(2)]
  from assms show ?thesis unfolding insert_decision_def Let_def
    by (elim bnd_okE) (auto dest!: same simp: run_ret run_modify update_workflow_run set_candidate_status_run
        bind_reviews_def same_core_def)
qed

lemma final_decision_flows:
  assumes "materialize_final_decision env flow candidate now s = (Inr d, t)"
  shows "decision_workflows t = decision_workflows s \<or>
    (\<exists>i. decision_workflows t = row_set rid (rid flow)
       (\<lambda>w. w\<lparr>dw_final_decision_id := Some i, dw_status := FINAL_DECISION_MATERIALIZED\<rparr>) (decision_workflows s))"
proof (cases "dw_final_decision_id flow")
  case (Some i)
  with assms show ?thesis by (auto simp: materialize_final_decision_def run_simps split: option.splits)
next
  case None
  then obtain out where "insert_decision flow candidate out now s = (Inr d, t)"
    using assms by (auto simp: materialize_final_decision_def run_lift_sum run_require split: sum.splits if_splits
        elim!: bnd_okE)
  then show ?thesis by (auto dest!: insert_decision_run simp: same_core_def)
qed

text \<open>The assignments that one advance may make to the row of its workflow.\<close>

definition moves :: "decision_workflow_row \<Rightarrow> (decision_workflow_row \<Rightarrow> decision_workflow_row) \<Rightarrow> bool" where
  "moves flow f \<longleftrightarrow> flowtab.stable f \<and>
     (f flow = flow \<or> machine_step (dw_max_revision_rounds flow) (flow_state_of flow) (flow_state_of (f flow)))"

lemma moves_stay [simp]: "moves flow (\<lambda>w. w)"
  by (simp add: moves_def flowtab.stable_def)

lemma moves_status:
  "machine_step (dw_max_revision_rounds flow) (flow_state_of flow) (st, dw_revision_count flow) \<Longrightarrow>
   moves flow (\<lambda>w. w\<lparr>dw_status := st\<rparr>)"
  "machine_step (dw_max_revision_rounds flow) (flow_state_of flow) (st, dw_revision_count flow) \<Longrightarrow>
   moves flow (\<lambda>w. w\<lparr>dw_final_decision_id := Some i, dw_status := st\<rparr>)"
  "machine_step (dw_max_revision_rounds flow) (flow_state_of flow) (st, dw_revision_count flow + 1) \<Longrightarrow>
   moves flow (\<lambda>w. w\<lparr>dw_revision_count := dw_revision_count w + 1, dw_status := st\<rparr>)"
  by (simp_all add: moves_def flowtab.stable_def flow_ident_def)

lemma apply_outcome_flows:
  assumes run: "apply_outcome env reg revises flow candidate reviews outcome now s = (Inr (), t)"
    and st: "dw_status flow = CONTROLLERS_RUNNING"
  shows "\<exists>f. moves flow f \<and> decision_workflows t = row_set rid (rid flow) f (decision_workflows s)"
proof -
  note same = flowsD [OF materialize_flows(4)] flowsD [OF ensure_core(2) [THEN core_flows]]
    flowsD [OF enqueue_advance_core [THEN core_flows]] flowsD [OF core_primitives(2) [THEN core_flows]]
  let ?rows = "\<lambda>f. decision_workflows t = row_set rid (rid flow) f (decision_workflows s)"
  consider "?rows (\<lambda>w. w\<lparr>dw_status := DecisionWorkflowStatus.BLOCKED\<rparr>)"
    | "?rows (\<lambda>w. w\<lparr>dw_status := ESCALATED\<rparr>)" "dw_max_revision_rounds flow \<le> dw_revision_count flow"
    | "?rows (\<lambda>w. w\<lparr>dw_revision_count := dw_revision_count w + 1, dw_status := CHIEF_RUNNING\<rparr>)"
        "dw_revision_count flow < dw_max_revision_rounds flow"
    | "?rows (\<lambda>w. w\<lparr>dw_status := AWAITING_DECISION_APPROVAL\<rparr>)"
    | i where "?rows (\<lambda>w. w\<lparr>dw_final_decision_id := Some i, dw_status := AWAITING_DECISION_APPROVAL\<rparr>)"
    using run unfolding apply_outcome_def
    by (auto elim!: bnd_okE simp: run_ret run_gets update_workflow_run split: if_splits
        dest!: set_status_run same final_decision_flows)
  then show ?thesis
  proof cases
    case 1
    moreover from 1 have "machine_step (dw_max_revision_rounds flow) (flow_state_of flow) (DecisionWorkflowStatus.BLOCKED, dw_revision_count flow)"
      by (simp add: st machine_step.block)
    ultimately show ?thesis using moves_status(1) by blast
  next
    case 2
    moreover from 2 have "machine_step (dw_max_revision_rounds flow) (flow_state_of flow) (ESCALATED, dw_revision_count flow)"
      by (simp add: st machine_step.escalate)
    ultimately show ?thesis using moves_status(1) by blast
  next
    case 3
    moreover from 3 have "machine_step (dw_max_revision_rounds flow) (flow_state_of flow) (CHIEF_RUNNING, dw_revision_count flow + 1)"
      by (simp add: st machine_step.revise)
    ultimately show ?thesis using moves_status(3) by blast
  next
    case 4
    moreover from 4 have "machine_step (dw_max_revision_rounds flow) (flow_state_of flow) (AWAITING_DECISION_APPROVAL, dw_revision_count flow)"
      by (simp add: st machine_step.accept)
    ultimately show ?thesis using moves_status(1) by blast
  next
    case 5
    moreover from 5 have "machine_step (dw_max_revision_rounds flow) (flow_state_of flow) (AWAITING_DECISION_APPROVAL, dw_revision_count flow)"
      by (simp add: st machine_step.accept)
    ultimately show ?thesis using moves_status(2) by blast
  qed
qed

lemma controllers_running_flows:
  assumes run: "advance_controllers_running env reg revises outcome_of flow now s = (Inr (), t)"
    and st: "dw_status flow = CONTROLLERS_RUNNING"
  shows "\<exists>f. moves flow f \<and> decision_workflows t = row_set rid (rid flow) f (decision_workflows s)"
proof -
  note same = flowsD [OF ensure_core(3) [THEN core_flows]] flowsD [OF materialize_flows(3)]
    flowsD [OF enqueue_advance_core [THEN core_flows]]
  have "decision_workflows t = decision_workflows s \<or>
    (\<exists>candidate reviews outcome u. apply_outcome env reg revises flow candidate reviews outcome now u = (Inr (), t) \<and>
       decision_workflows u = decision_workflows s)"
    using run unfolding advance_controllers_running_def
    by (auto elim!: bnd_okE simp: run_ret run_gets run_lift_sum split: if_splits dest!: same)
  then show ?thesis using apply_outcome_flows [OF _ st] moves_stay by (metis row_set_id)
qed

lemma advance_flows:
  assumes run: "advance_workflow env reg revises outcome_of flow now s = (Inr (), t)"
  shows "\<exists>f. moves flow f \<and> decision_workflows t = row_set rid (rid flow) f (decision_workflows s)"
proof -
  have stay: ?thesis if "decision_workflows t = decision_workflows s"
    using that moves_stay by (metis row_set_id)
  have to: ?thesis
    if "decision_workflows t = row_set rid (rid flow) (\<lambda>w. w\<lparr>dw_status := st\<rparr>) (decision_workflows s)"
      "machine_step (dw_max_revision_rounds flow) (flow_state_of flow) (st, dw_revision_count flow)" for st
    by (rule exI [of _ "\<lambda>w. w\<lparr>dw_status := st\<rparr>"]) (simp add: that moves_status(1))
  show ?thesis
  proof (cases "dw_status flow")
    case SNAPSHOT_READY
    with run snapshot_ready_flows [of env reg flow now s t] show ?thesis
      using to [of SPECIALISTS_RUNNING] by (simp add: advance_workflow_def machine_step.analyse)
  next
    case SPECIALISTS_RUNNING
    with run specialists_running_flows [of env reg flow now s t] show ?thesis
      using stay to [of CHIEF_RUNNING] by (auto simp: advance_workflow_def machine_step.propose)
  next
    case CHIEF_RUNNING
    with run chief_running_flows [of env reg flow now s t] show ?thesis
      using stay to [of CONTROLLERS_RUNNING] by (auto simp: advance_workflow_def machine_step.review)
  next
    case CONTROLLERS_RUNNING
    with run show ?thesis by (auto simp: advance_workflow_def dest: controllers_running_flows)
  qed (use run stay in \<open>simp add: advance_workflow_def run_ret\<close>)+
qed

text \<open>The handlers find the row of the workflow and advance it.\<close>

lemma handle_advance_run:
  assumes "handle_advance advance context pl now s = (Inr (), t)"
  obtains i flow where "workflow_id_of pl = Inr i" "row_get rid i (decision_workflows s) = Some flow" "rid flow = i"
    "org flow = organization_id context" "biz flow = business_id context" "advance flow now s = (Inr (), t)"
proof -
  from assms obtain i flow where a: "workflow_id_of pl = Inr i" "row_get rid i (decision_workflows s) = Some flow"
      "org flow = organization_id context" "biz flow = business_id context" "advance flow now s = (Inr (), t)"
    unfolding handle_advance_def
    by (auto elim!: bnd_okE simp: run_gets run_required run_lift_sum run_check_scope run_check_no_secrets
        assert_matches_ok split: option.splits)
  with row_get_Some [OF a(2)] show thesis by (intro that) auto
qed

section \<open>Episodes\<close>

abbreviation flow_at :: "string \<Rightarrow> 'z workflow_store_scheme \<Rightarrow> decision_workflow_row option" where
  "flow_at i s \<equiv> row_get rid i (decision_workflows s)"

lemma handled_flow:
  assumes run: "handle_advance (advance_workflow env reg revises outcome_of) context pl now s = (Inr (), t)"
  obtains i flow flow' where "workflow_id_of pl = Inr i" "flow_at i s = Some flow" "flow_at i t = Some flow'"
    "flow_ident flow' = flow_ident flow"
    "flow' = flow \<or> machine_step (dw_max_revision_rounds flow) (flow_state_of flow) (flow_state_of flow')"
    "\<And>j. j \<noteq> i \<Longrightarrow> flow_at j t = flow_at j s"
proof -
  obtain i flow where i: "workflow_id_of pl = Inr i" "flow_at i s = Some flow" "rid flow = i"
    and adv: "advance_workflow env reg revises outcome_of flow now s = (Inr (), t)"
    using handle_advance_run [OF run] by metis
  obtain f where f: "moves flow f" "decision_workflows t = row_set rid i f (decision_workflows s)"
    using advance_flows [OF adv] i(3) by blast
  then have st: "flowtab.stable f" by (simp add: moves_def)
  show thesis
  proof (rule that [OF i(1,2)])
    show "flow_at i t = Some (f flow)" using i(2) by (simp add: f(2) flowtab.get_set_same [OF st])
    show "flow_ident (f flow) = flow_ident flow" using st by (simp add: flowtab.stable_def)
    show "f flow = flow \<or> machine_step (dw_max_revision_rounds flow) (flow_state_of flow) (flow_state_of (f flow))"
      using f(1) by (simp add: moves_def)
    show "flow_at j t = flow_at j s" if "j \<noteq> i" for j
      using that by (simp add: f(2) flowtab.get_set_other [OF st])
  qed
qed

text \<open>The advances of a workflow by a handler, and the bound on the runs of the system they take part in.\<close>

definition advanced_by ::
  "(RuntimeJobContext \<Rightarrow> payload \<Rightarrow> datetime \<Rightarrow> ('z workflow_store_scheme, unit) prog) \<Rightarrow> string
     \<Rightarrow> 'z workflow_store_scheme \<Rightarrow> 'z workflow_store_scheme \<Rightarrow> bool" where
  "advanced_by handler i s t \<longleftrightarrow> (\<exists>ctx pl now. handler ctx pl now s = (Inr (), t) \<and> workflow_id_of pl = Inr i)"

abbreviation rounds_of_ident ::
  "(string \<times> string \<times> string) \<times> string option \<times> string \<times> int \<times> string option \<times> string option \<Rightarrow> int" where
  "rounds_of_ident k \<equiv> fst (snd (snd (snd k)))"

abbreviation episode ::
  "(RuntimeJobContext \<Rightarrow> payload \<Rightarrow> datetime \<Rightarrow> ('z workflow_store_scheme, unit) prog) \<Rightarrow> string
     \<Rightarrow> 'z workflow_store_scheme \<Rightarrow> nat \<Rightarrow> 'z workflow_store_scheme \<Rightarrow> bool" where
  "episode handler \<equiv> observed_run flow_at (advanced_by handler)"

interpretation decision_machine: workflow_machine flow_at
  "advanced_by (handle_advance (advance_workflow env reg revises outcome_of))" flow_ident flow_state_of
  "\<lambda>k. machine_step (rounds_of_ident k)" "\<lambda>k. weight (rounds_of_ident k)"
proof
  fix i and s t :: "'c workflow_store_scheme" and w
  assume "advanced_by (handle_advance (advance_workflow env reg revises outcome_of)) i s t" and w: "flow_at i s = Some w"
  then obtain ctx pl now where run: "handle_advance (advance_workflow env reg revises outcome_of) ctx pl now s = (Inr (), t)"
    and i: "workflow_id_of pl = Inr i" by (auto simp: advanced_by_def)
  show "\<exists>w'. flow_at i t = Some w' \<and> flow_ident w' = flow_ident w \<and>
      (w' = w \<or> machine_step (rounds_of_ident (flow_ident w)) (flow_state_of w) (flow_state_of w'))"
    using handled_flow [OF run] i w by (metis (no_types, lifting) flow_ident_def fst_conv option.inject snd_conv sum.inject(2))
qed (rule machine_step_weight)

lemma machine_rounds:
  "(machine_step mx)\<^sup>*\<^sup>* a b \<Longrightarrow> snd a \<le> snd b \<and> (snd b \<le> mx \<or> snd b = snd a)"
  by (induction rule: rtranclp_induct) (auto dest!: machine_step_rounds)

end
