(* ===== verification/Decision_Example.thy ===== *)
theory Decision_Example
  imports Decision_Machine
begin

text \<open>
  A concrete business with one decision workflow, from its first snapshot to the reviews of a
  candidate, on which the theorems about decisions are evaluated. The parsers accept exactly the
  outputs of the example.
\<close>

definition flow_context :: RuntimeJobContext where
  "flow_context = \<lparr>organization_id = ''o'', business_id = ''b'', ctx_job_id = ''j'',
     ctx_job_type = JOB_TYPE_WORKFLOW_ADVANCE, ctx_attempt_count = 1, ctx_correlation_id = None, ctx_causation_id = None\<rparr>"

definition owner_context :: CommandContext where
  "owner_context = \<lparr>organization_id = ''o'', business_id = ''b'', cc_actor_user_id = Some ''u'',
     cc_correlation_id = ''c'', cc_causation_id = None\<rparr>"

definition flow_output :: DecisionCandidate where
  "flow_output = \<lparr>dcd_goal = ''g'', dcd_problem = ''p'', dcd_selected_action = ''post'', dcd_why = [''w''],
     dcd_evidence_refs = [\<lparr>er_evidence_id = ''e1'', er_epistemic_status = FACT, er_note = ''n''\<rparr>],
     dcd_alternatives = [\<lparr>ao_action = ''wait'', ao_rejection_reason = ''slow''\<rparr>],
     dcd_why_alternatives_not_selected = [], dcd_hypotheses = [], dcd_assumptions = [], dcd_unknowns = [],
     dcd_expected_effect = ''x'', dcd_confidence = 1, dcd_reversibility = ''easy'', dcd_risk_class = LOW,
     dcd_experiment_proposal = None, dcd_required_assets = [], dcd_required_actions = [''publish''],
     dcd_next_checkpoint = ''later''\<rparr>"

definition flow_note :: SpecialistContribution where
  "flow_note = \<lparr>sc_role = ''r'', sc_observations = [''seen''], sc_facts_used = [], sc_hypotheses = [],
     sc_assumptions = [], sc_recommendations = [], sc_risks = [], sc_unknowns = [], sc_conflicts = [],
     sc_confidence = 1, sc_evidence_refs = []\<rparr>"

definition flow_review :: "string \<Rightarrow> ControllerVerdict \<Rightarrow> ControllerReviewOutput" where
  "flow_review ctype v = \<lparr>co_controller_type = ctype, co_verdict = v, co_issues = [], co_required_changes = [],
     co_severity = LOW, co_evidence_refs = [\<lparr>er_evidence_id = ''e1'', er_epistemic_status = FACT, er_note = ''n''\<rparr>]\<rparr>"

definition flow_env :: workflow_env where
  "flow_env = \<lparr>float_repr = (\<lambda>_. []), sha256_hex = (\<lambda>_. ''h''), json_schema = (\<lambda>_. []),
     validate_specialist = (\<lambda>pl. if dict_get pl ''role'' = Some (JStr ''r'') then Inr flow_note else Inl ''invalid''),
     validate_candidate = (\<lambda>pl. if dict_get pl ''goal'' = Some (JStr ''g'') then Inr flow_output else Inl ''invalid''),
     validate_review = (\<lambda>pl. case (as_str (dict_get pl ''controller_type''), as_str (dict_get pl ''verdict'')) of
        (Some ctype, Some v) \<Rightarrow>
          (case parse_verdict v of Inl _ \<Rightarrow> Inl ''invalid'' | Inr w \<Rightarrow> Inr (flow_review ctype w))
      | _ \<Rightarrow> Inl ''invalid'')\<rparr>"

definition flow_run :: "string \<Rightarrow> string \<Rightarrow> string \<Rightarrow> payload \<Rightarrow> agent_run_row" where
  "flow_run i key input_ref data = \<lparr>rid = i, org = ''o'', biz = ''b'', ar_agent_definition_id = ''d'',
     ar_job_id = Some ''j'', ar_payload_schema_version = 1, ar_contract_key = key, ar_contract_version = 1,
     ar_contract_fingerprint = ''h'', ar_output_schema_name = '''', ar_output_schema_version = 1,
     ar_status = AgentRunStatus.SUCCEEDED, ar_input_ref = Some input_ref, ar_output_ref = None, ar_context_refs = [],
     ar_context_manifest = [(''items'', JList [JObj [(''epistemic_status'', JStr ''FACT''), (''provenance_ref'', JStr ''e1'')]])],
     ar_context_hash = Some ''h'', ar_output_data = Some data, ar_refusal_summary = None, ar_error_class = None,
     ar_error_summary = None, ar_provider_name = None, ar_provider_model = None, ar_provider_response_id = None,
     ar_token_usage = [], ar_latency_ms = None, ar_safe_trace_metadata = [], ar_started_at = None,
     ar_completed_at = None, ar_correlation_id = None, ar_causation_id = None, ar_idempotency_key = None,
     ar_created_at = 0\<rparr>"

definition flow_definition :: agent_definition_row where
  "flow_definition = (new_agent_definition flow_env owner_context runtime_probe_contract ''d'')
     \<lparr>ad_contract_fingerprint := ''h''\<rparr>"

definition flow_row :: "DecisionWorkflowStatus \<Rightarrow> decision_workflow_row" where
  "flow_row st = \<lparr>rid = ''w'', org = ''o'', biz = ''b'', dw_launch_id = None, dw_snapshot_id = ''sn'', dw_status = st,
     dw_revision_count = 0, dw_max_revision_rounds = 2, dw_final_decision_id = None, dw_final_approval_id = None,
     dw_correlation_id = Some ''c'', dw_causation_id = None\<rparr>"

definition flow_candidate :: decision_candidate_row where
  "flow_candidate = \<lparr>rid = ''k'', org = ''o'', biz = ''b'', ca_workflow_id = ''w'', ca_snapshot_id = ''sn'',
     ca_chief_agent_run_id = ''r'', ca_previous_candidate_id = None, ca_version_number = 1, ca_revision_round = 0,
     ca_status = UNDER_REVIEW, ca_schema_version = 1, ca_selected_action = ''post'',
     ca_payload = dump_candidate flow_output, ca_evidence_refs = [], ca_specialist_contribution_ids = [],
     ca_controller_review_ids = [], ca_context_hash = ''h'', ca_context_manifest = [], ca_correlation_id = None,
     ca_causation_id = None, ca_created_at = 0\<rparr>"

definition empty_db :: workflow_store where
  "empty_db = \<lparr>jobs = [], sql_jobs = [], outbox_events = [], business_events = [], audit_logs = [],
     unit_of_work = [], uuids = (\<lambda>n. replicate n CHR ''i''), uuid_pos = 0, wakeups = [], provider_log = [],
     channels = [], memberships = [], permission_policies = [], asset_versions = [], production_workflows = [],
     asset_rights = [], experiments = [], checkpoint_bindings = [], connector_accounts = [], actions = [],
     action_details = [], controller_reviews = [], permission_evaluations = [], global_controls = [], approvals = [],
     executions = [], external_references = [], publications = [], publication_links = [], source_records = [],
     evidence = [], observation_states = [], observations = [], observation_links = [], metric_versions = [],
     experiment_results = [], result_details = [], learning_reviews = [], learnings = [], learning_details = [],
     decisions = [], experiment_rules = [], decision_workflows = [], phase6_intents = [],
     decision_learning_links = [], agent_definitions = [flow_definition], agent_runs = [],
     organizations = [], businesses = [], launches = [], goals = [], constraints = [], products = [], offers = [],
     claims = [], hypotheses = [], information_needs = [], business_snapshots = [],
     specialist_contributions = [], decision_candidates = [], decision_reviews = [], decision_alternatives = [],
     decision_approvals = []\<rparr>"

text \<open>
  The workflow waits for its controllers; all of them have answered with the same verdict, and their
  reviews are stored.
\<close>

definition controller_flow_run :: "ControllerVerdict \<Rightarrow> string \<Rightarrow> agent_run_row" where
  "controller_flow_run v key = flow_run key key (controller_run_input_ref (flow_row CONTROLLERS_RUNNING) flow_candidate key)
     [(''controller_type'', JStr (controller_type_of key)), (''verdict'', JStr (verdict_value v))]"

definition flow_review_row :: "ControllerVerdict \<Rightarrow> string \<Rightarrow> decision_review_row" where
  "flow_review_row v key = review_row (flow_row CONTROLLERS_RUNNING) flow_candidate (controller_type_of key)
     (controller_flow_run v key) flow_definition (flow_review (controller_type_of key) v) ''h'' key"

definition reviewed_db :: "ControllerVerdict \<Rightarrow> workflow_store" where
  "reviewed_db v = empty_db\<lparr>decision_workflows := [flow_row CONTROLLERS_RUNNING],
     decision_candidates := [flow_candidate],
     agent_runs := map (controller_flow_run v) REQUIRED_CONTROLLER_CONTRACT_KEYS,
     decision_reviews := map (flow_review_row v) REQUIRED_CONTROLLER_CONTRACT_KEYS\<rparr>"

definition flow_job :: payload where
  "flow_job = [(''workflow_id'', JStr ''w''), (''payload_schema_version'', JInt 1)]"

section \<open>The advance on the example\<close>

lemma flow_job_accepted: "workflow_id_of flow_job = Inr ''w''" "no_secrets flow_job = Inr ()"
  by code_simp+

lemma candidate_is_harmless:
  "\<not> mentions_human_worth (ca_payload flow_candidate)" "\<not> contains_human_worth_violation (ca_payload flow_candidate)"
  by code_simp+

lemma example_keys:
  "distinct REQUIRED_CONTROLLER_CONTRACT_KEYS" "distinct (map controller_type_of REQUIRED_CONTROLLER_CONTRACT_KEYS)"
  by code_simp+

lemma controller_types_match:
  assumes "key \<in> set REQUIRED_CONTROLLER_CONTRACT_KEYS"
  shows "assert_controller_type_matches_contract (controller_type_of key) (controller_type_of key) = Inr ()"
proof -
  have "list_all (\<lambda>k. assert_controller_type_matches_contract (controller_type_of k) (controller_type_of k) = Inr ())
      REQUIRED_CONTROLLER_CONTRACT_KEYS"
    by code_simp
  with assms show ?thesis by (simp add: list_all_iff)
qed

lemma parse_verdict_value [simp]: "parse_verdict (verdict_value v) = Inr v"
  by (cases v) (simp_all add: parse_verdict_def)

lemma filter_one: "distinct xs \<Longrightarrow> x \<in> set xs \<Longrightarrow> filter (\<lambda>k. k = x \<and> P k) xs = (if P x then [x] else [])"
  by (induction xs) (auto simp: filter_empty_conv)

lemma flow_row_simps [simp]:
  "rid (flow_row st) = ''w''" "org (flow_row st) = ''o''" "biz (flow_row st) = ''b''" "dw_status (flow_row st) = st"
  "dw_snapshot_id (flow_row st) = ''sn''" "dw_final_decision_id (flow_row st) = None"
  "dw_correlation_id (flow_row st) = Some ''c''" "dw_revision_count (flow_row st) = 0"
  "dw_max_revision_rounds (flow_row st) = 2"
  by (simp_all add: flow_row_def)

lemma flow_env_simps [simp]:
  "float_repr flow_env = (\<lambda>_. [])" "validate_candidate flow_env (ca_payload flow_candidate) = Inr flow_output"
  by (simp_all add: flow_env_def flow_candidate_def dump_candidate_def flow_output_def dict_get_def)

abbreviation reviewed_flow :: decision_workflow_row where
  "reviewed_flow \<equiv> flow_row CONTROLLERS_RUNNING"

lemma example_runs:
  assumes "key \<in> set REQUIRED_CONTROLLER_CONTRACT_KEYS"
  shows "controller_agent_runs reviewed_flow flow_candidate key (reviewed_db v) = [controller_flow_run v key]"
proof -
  have "filter (\<lambda>r. org r = org reviewed_flow \<and> biz r = biz reviewed_flow \<and> ar_contract_key r = key \<and>
          ar_contract_version r = 1 \<and> ar_input_ref r = Some (controller_run_input_ref reviewed_flow flow_candidate key))
        (map (controller_flow_run v) REQUIRED_CONTROLLER_CONTRACT_KEYS) =
      map (controller_flow_run v) (filter (\<lambda>k. k = key \<and> True) REQUIRED_CONTROLLER_CONTRACT_KEYS)"
    unfolding filter_map comp_def
    by (rule arg_cong [where f = "map _"], rule filter_cong [OF refl])
      (auto simp: controller_flow_run_def flow_run_def flow_row_def)
  then show ?thesis
    by (simp add: controller_agent_runs_def runs_for_def reviewed_db_def filter_one [OF example_keys(1) assms, of "\<lambda>_. True", simplified])
qed

lemma example_refs:
  "validate_evidence_refs reviewed_flow (controller_flow_run v key) (co_evidence_refs (flow_review ctype v)) s = Inr ()"
  by (simp add: validate_evidence_refs_def agent_run_evidence_ref_statuses_def assert_matches_def flow_row_def
      controller_flow_run_def flow_run_def flow_review_def manifest_evidence_ref_statuses_def
      manifest_item_statuses_def dict_get_def Let_def)

lemma example_ready:
  assumes "key \<in> set REQUIRED_CONTROLLER_CONTRACT_KEYS"
  shows "controller_run_state flow_env reviewed_flow flow_candidate key (reviewed_db v) = Inr Ready"
proof -
  have "controller_run_can_materialize flow_env reviewed_flow flow_candidate (controller_type_of key) (reviewed_db v)
      (controller_flow_run v key) = Inr True"
    using controller_types_match [OF assms] example_refs [of v key "controller_type_of key" "reviewed_db v"]
    by (simp add: controller_run_can_materialize_def review_checks_def validate_controller_verdict_def
        candidate_is_harmless(1) permanent_means_no_def controller_flow_run_def flow_run_def flow_env_def dict_get_def
        flow_review_def)
  moreover have "\<not> pending (controller_flow_run v key)"
    by (simp add: pending_def controller_flow_run_def flow_run_def)
  ultimately show ?thesis by (simp add: controller_run_state_def run_state_of_def example_runs [OF assms])
qed

lemma count_all_ready:
  "(\<And>k. k \<in> set keys \<Longrightarrow> state_of k s = Inr Ready) \<Longrightarrow> count_not_ready state_of create keys s = (Inr 0, s)"
  by (induction keys) (simp_all add: run_bnd run_gets run_lift_sum run_ret)

lemma map_prog_returns:
  "(\<And>x. x \<in> set xs \<Longrightarrow> f x s = (Inr (g x), s)) \<Longrightarrow> map_prog f xs s = (Inr (map g xs), s)"
  by (induction xs) (simp_all add: run_bnd run_ret)

lemma select_first_map:
  "x \<in> set xs \<Longrightarrow> (\<And>y. y \<in> set xs \<Longrightarrow> P (f y) \<longleftrightarrow> y = x) \<Longrightarrow> select_first P (map f xs) = Some (f x)"
  by (induction xs) (auto simp: select_first_def)

lemma flow_review_row_simps [simp]:
  "rid (flow_review_row v key) = key" "dr_verdict (flow_review_row v key) = verdict_value v"
  "dr_decision_candidate_id (flow_review_row v key) = Some (rid flow_candidate)"
  "dr_controller_type (flow_review_row v key) = Some (controller_type_of key)"
  by (simp_all add: flow_review_row_def review_row_def flow_review_def)

lemma example_review_stored:
  assumes "key \<in> set REQUIRED_CONTROLLER_CONTRACT_KEYS"
  shows "materialize_controller_review flow_env reviewed_flow flow_candidate key (reviewed_db v) =
    (Inr (flow_review_row v key), reviewed_db v)"
proof -
  have "select_first (\<lambda>r. dr_decision_candidate_id r = Some (rid flow_candidate) \<and>
        dr_controller_type r = Some (controller_type_of key)) (map (flow_review_row v) REQUIRED_CONTROLLER_CONTRACT_KEYS) =
      Some (flow_review_row v key)"
    by (rule select_first_map [OF assms]) (use example_keys(2) assms in \<open>auto simp: distinct_map inj_on_def\<close>)
  then show ?thesis
    by (simp add: materialize_controller_review_def Let_def run_bnd run_gets run_ret reviewed_db_def)
qed

lemma example_passes:
  "governed_controller_outcome fr (ca_payload flow_candidate)
     (map (flow_review_row PASS) REQUIRED_CONTROLLER_CONTRACT_KEYS) = Inr PASS"
proof -
  let ?rs = "map (flow_review_row PASS) REQUIRED_CONTROLLER_CONTRACT_KEYS"
  have verdicts: "parse_verdicts (map (flow_review_row PASS) keys) = Inr (map (\<lambda>_. PASS) keys)" for keys
    by (induction keys) (simp_all add: parse_verdict_value [of PASS, simplified])
  have "ignored_review_ids fr (ca_payload flow_candidate) ?rs = Inr []"
  proof (cases "review_by_type ''anti_analysis_paralysis'' ?rs")
    case (Some r)
    then have "r \<in> set ?rs" by (blast dest: review_by_type_Some)
    then obtain key where "r = flow_review_row PASS key" by auto
    then have "dr_verdict r = ''PASS''" by simp
    with Some show ?thesis by (simp add: ignored_review_ids_def parse_verdict_def)
  qed (simp add: ignored_review_ids_def)
  then show ?thesis
    by (simp add: governed_controller_outcome_def candidate_is_harmless(2) verdicts resolve_verdicts_def REQUIRED_CONTROLLER_CONTRACT_KEYS_def)
qed

text \<open>What the advance leaves: the reviews are listed on the candidate before the outcome is applied.\<close>

definition listed_db :: "ControllerVerdict \<Rightarrow> workflow_store" where
  "listed_db v = (reviewed_db v)\<lparr>decision_candidates :=
     [flow_candidate\<lparr>ca_controller_review_ids := REQUIRED_CONTROLLER_CONTRACT_KEYS\<rparr>]\<rparr>"

lemma example_materialized:
  "materialize_controller_reviews flow_env reviewed_flow flow_candidate (reviewed_db v) =
    (Inr (map (flow_review_row v) REQUIRED_CONTROLLER_CONTRACT_KEYS), listed_db v)"
proof -
  have stored: "map_prog (materialize_controller_review flow_env reviewed_flow flow_candidate)
      REQUIRED_CONTROLLER_CONTRACT_KEYS (reviewed_db v) =
    (Inr (map (flow_review_row v) REQUIRED_CONTROLLER_CONTRACT_KEYS), reviewed_db v)"
    by (rule map_prog_returns) (rule example_review_stored)
  show ?thesis unfolding materialize_controller_reviews_def
    by (simp add: run_bnd stored run_modify run_flush run_ret)
      (simp add: listed_db_def reviewed_db_def empty_db_def row_set_def comp_def)
qed

lemma example_advance:
  assumes "governed_controller_outcome (\<lambda>_. []) (ca_payload flow_candidate)
     (map (flow_review_row v) REQUIRED_CONTROLLER_CONTRACT_KEYS) = Inr v"
  shows "GuardedDecisionWorkflowAdvanceHandler_handle flow_env Map.empty flow_context flow_job 9 (reviewed_db v) =
    apply_outcome flow_env Map.empty [REVISE, PASS_WITH_CONDITIONS] reviewed_flow flow_candidate
      (map (flow_review_row v) REQUIRED_CONTROLLER_CONTRACT_KEYS) v 9 (listed_db v)"
proof -
  have latest: "latest_candidate reviewed_flow (reviewed_db v) = Inr flow_candidate"
    by (simp add: latest_candidate_def latest_candidate_or_none_def candidates_of_def reviewed_db_def select_first_def
        flow_candidate_def)
  have ready: "ensure_controller_runs flow_env Map.empty reviewed_flow flow_candidate 9 (reviewed_db v) = (Inr 0, reviewed_db v)"
    unfolding ensure_controller_runs_def by (rule count_all_ready) (rule example_ready)
  have adv: "guarded_advance flow_env Map.empty reviewed_flow 9 (reviewed_db v) =
    apply_outcome flow_env Map.empty [REVISE, PASS_WITH_CONDITIONS] reviewed_flow flow_candidate
      (map (flow_review_row v) REQUIRED_CONTROLLER_CONTRACT_KEYS) v 9 (listed_db v)"
    by (simp add: guarded_advance_def advance_workflow_def advance_controllers_running_def run_bnd run_gets
        run_lift_sum latest ready example_materialized assms)
  have "flow_at ''w'' (reviewed_db v) = Some reviewed_flow"
    by (simp add: reviewed_db_def row_get_def)
  then show ?thesis
    by (simp add: GuardedDecisionWorkflowAdvanceHandler_handle_def handle_advance_def run_bnd run_check_no_secrets
        flow_job_accepted run_lift_sum run_gets run_required run_check_scope adv flow_context_def assert_matches_def)
qed

text \<open>When all controllers pass, the decision is made.\<close>

definition decided_db :: workflow_store where
  "decided_db = snd (GuardedDecisionWorkflowAdvanceHandler_handle flow_env Map.empty flow_context flow_job 9 (reviewed_db PASS))"

lemma example_decides:
  "GuardedDecisionWorkflowAdvanceHandler_handle flow_env Map.empty flow_context flow_job 9 (reviewed_db PASS) =
    (Inr (), decided_db)"
  "decisions decided_db = [decision_of reviewed_flow flow_candidate flow_output []]"
  "decisions (reviewed_db PASS) = []"
  "decision_approvals decided_db = []"
  "flow_at ''w'' (reviewed_db PASS) = Some reviewed_flow"
  "flow_at ''w'' decided_db =
    Some (reviewed_flow\<lparr>dw_final_decision_id := Some [], dw_status := AWAITING_DECISION_APPROVAL\<rparr>)"
proof -
  have action: "strip (dcd_selected_action flow_output) \<noteq> []" by code_simp
  have outs: "dcd_alternatives flow_output = [\<lparr>ao_action = ''wait'', ao_rejection_reason = ''slow''\<rparr>]"
    "dcd_experiment_proposal flow_output = None" by (simp_all add: flow_output_def)
  have db: "uuids (listed_db PASS) = (\<lambda>n. replicate n CHR ''i'')" "uuid_pos (listed_db PASS) = 0"
    "decisions (listed_db PASS) = []"
    "decision_workflows (listed_db PASS) = [reviewed_flow]" "decision_approvals (listed_db PASS) = []" by (simp_all add: listed_db_def reviewed_db_def empty_db_def)
  let ?run = "apply_outcome flow_env Map.empty [REVISE, PASS_WITH_CONDITIONS] reviewed_flow flow_candidate
      (map (flow_review_row PASS) REQUIRED_CONTROLLER_CONTRACT_KEYS) PASS 9 (listed_db PASS)"
  have run: "fst ?run = Inr ()" "decisions (snd ?run) = [decision_of reviewed_flow flow_candidate flow_output []]"
    "decision_approvals (snd ?run) = []"
    "decision_workflows (snd ?run) =
      [reviewed_flow\<lparr>dw_final_decision_id := Some [], dw_status := AWAITING_DECISION_APPROVAL\<rparr>]"
    using action
    by (simp_all add: apply_outcome_def set_workflow_status_def set_candidate_status_run update_workflow_run run_bnd
        materialize_final_decision_def run_lift_sum run_require insert_decision_def run_ret Let_def
        outs add_alternative_def touch_def run_modify run_new_id run_flush emit_def append_outbox_event_def add_outbox_def
        append_audit_def add_audit_def bind_reviews_def db or_else_def row_set_def)
  show "GuardedDecisionWorkflowAdvanceHandler_handle flow_env Map.empty flow_context flow_job 9 (reviewed_db PASS) =
      (Inr (), decided_db)"
    using run(1) by (simp add: decided_db_def example_advance [OF example_passes] prod_eq_iff)
  show "decisions decided_db = [decision_of reviewed_flow flow_candidate flow_output []]"
    using run(2) by (simp add: decided_db_def example_advance [OF example_passes])
  show "decisions (reviewed_db PASS) = []" by (simp add: reviewed_db_def empty_db_def)
  show "decision_approvals decided_db = []"
    using run(3) by (simp add: decided_db_def example_advance [OF example_passes])
  show "flow_at ''w'' (reviewed_db PASS) = Some reviewed_flow" by (simp add: reviewed_db_def row_get_def)
  show "flow_at ''w'' decided_db =
      Some (reviewed_flow\<lparr>dw_final_decision_id := Some [], dw_status := AWAITING_DECISION_APPROVAL\<rparr>)"
    using run(4) by (simp add: decided_db_def example_advance [OF example_passes] row_get_def)
qed

end
