(* ===== verification/Production_Example.thy ===== *)
theory Production_Example
  imports Production_Governance Production_Context Decision_Example
begin

text \<open>
  A concrete business whose approved decision goes through production, on which the theorems about
  agents and production are evaluated. The parsers accept exactly the outputs of the example.
\<close>

definition prod_scope :: TenantScope where
  "prod_scope = \<lparr>organization_id = ''o'', business_id = ''b''\<rparr>"

definition prod_strategy :: ContentStrategyProposal where
  "prod_strategy = \<lparr>st_objective = ''g'', st_audience = ''a'', st_content_job = ''j'', st_core_message = ''m'',
     st_angle = ''n'', st_message_mechanism = ''k'', st_tone = ''t'', st_cta_intent = ''c'', st_channel_format = ''f'',
     st_evidence_refs = [], st_allowed_claims = [], st_forbidden_or_unsupported_claims = [], st_brand_constraints = [],
     st_production_constraints = [], st_risks = [], st_unknowns = []\<rparr>"

definition prod_rights :: RightsProvenanceDeclaration where
  "prod_rights = \<lparr>rd_origin = GENERATED, rd_related_source_asset_ids = [], rd_permission_scope = None,
     rd_customer_content_consent_ref = None, rd_publication_restrictions = [], rd_license_expires_at = None\<rparr>"

definition prod_draft :: AssetDraftProposal where
  "prod_draft = \<lparr>dp_body = ''we open on friday'', dp_opening = None, dp_cta = ''c'', dp_claim_inventory = [],
     dp_evidence_refs = [], dp_content_notes = [], dp_rights = prod_rights\<rparr>"

definition prod_review :: "string \<Rightarrow> ControllerVerdict \<Rightarrow> ControllerReviewOutput" where
  "prod_review ctype v = \<lparr>co_controller_type = ctype, co_verdict = v, co_issues = [], co_required_changes = [],
     co_severity = LOW, co_evidence_refs = []\<rparr>"

definition prod_env :: production_env where
  "prod_env = \<lparr>float_repr = (\<lambda>_. []), sha256_hex = (\<lambda>_. ''h''), json_schema = (\<lambda>_. []),
     validate_specialist = (\<lambda>_. Inl ''invalid''), validate_candidate = (\<lambda>_. Inl ''invalid''),
     validate_review = (\<lambda>pl. case (as_str (dict_get pl ''controller_type''), as_str (dict_get pl ''verdict'')) of
        (Some ctype, Some v) \<Rightarrow>
          (case parse_verdict v of Inl _ \<Rightarrow> Inl ''invalid'' | Inr w \<Rightarrow> Inr (prod_review ctype w))
      | _ \<Rightarrow> Inl ''invalid''),
     row_created_at = (\<lambda>_ _. 0), row_updated_at = (\<lambda>_ _. 0),
     validate_strategy = (\<lambda>pl. if dict_get pl ''objective'' = Some (JStr ''g'') then Inr prod_strategy else Inl ''invalid''),
     validate_draft = (\<lambda>pl. if dict_get pl ''cta'' = Some (JStr ''c'') then Inr prod_draft else Inl ''invalid'')\<rparr>"

definition prod_decision :: decision_row where
  "prod_decision = \<lparr>rid = ''d'', org = ''o'', biz = ''b'', dc_version = 1, dc_goal_problem = ''g: p'',
     dc_selected_action = ''post'', dc_expected_effect = ''x'', dc_confidence = None, dc_reversibility = ''easy'',
     dc_risk_class = ''LOW'', dc_status = ''APPROVED_FOR_PRODUCTION'', dc_snapshot_id = Some ''sn'',
     dc_supersedes_decision_id = None, dc_next_checkpoint = None, dc_evidence_ids = [''e''], dc_assumption_ids = [],
     dc_known_unknown_ids = [], dc_source_candidate_id = None, dc_why_alternatives_not_selected = [],
     dc_hypotheses = [], dc_assumptions = [], dc_experiment_proposal = [], dc_required_assets = [],
     dc_required_actions = []\<rparr>"

definition prod_approval :: decision_approval_row where
  "prod_approval = \<lparr>rid = ''da'', org = ''o'', biz = ''b'', da_workflow_id = ''w'', da_decision_id = ''d'',
     da_candidate_id = ''k'', da_action_type = DECISION_APPROVAL_ACTION, da_object_type = ''Decision'',
     da_object_id = ''d'', da_object_version_id = ''d'', da_object_version = 1, da_approved_by_user_id = ''u'',
     da_status = ApprovalStatus.APPROVED, da_correlation_id = ''c'', da_causation_id = None, da_created_at = 0\<rparr>"

definition prod_snapshot :: business_snapshot_row where
  "prod_snapshot = \<lparr>rid = ''sn'', org = ''o'', biz = ''b'', sn_version = 1, sn_reason = ''r'', sn_payload = [],
     sn_created_at = 0\<rparr>"

definition prod_evidence :: evidence_row where
  "prod_evidence = \<lparr>rid = ''e'', org = ''o'', biz = ''b'', ev_source_record_id = ''sr'', ev_statement = ''seen'',
     ev_status = OBSERVATION, ev_confidence = None,
     ev_occurred_at = None, ev_recorded_at = 0, ev_conflicts_with = []\<rparr>"

definition prod_flow :: "ProductionWorkflowStatus \<Rightarrow> string option \<Rightarrow> production_workflow_row" where
  "prod_flow st asset = \<lparr>rid = ''pw'', org = ''o'', biz = ''b'', pw_decision_id = ''d'', pw_decision_version = 1,
     pw_decision_approval_id = ''da'', pw_snapshot_id = ''sn'', pw_launch_id = None, pw_status = st,
     pw_revision_count = 0, pw_max_revision_rounds = 2, pw_creative_brief_id = Some ''br'', pw_asset_id = asset,
     pw_final_asset_version_id = map_option (\<lambda>_. ''v'') asset, pw_correlation_id = None, pw_causation_id = Some ''d'',
     pw_created_at = 0, pw_version = 1\<rparr>"

definition prod_run :: "string \<Rightarrow> string \<Rightarrow> string \<Rightarrow> AgentRunStatus \<Rightarrow> payload option \<Rightarrow> agent_run_row" where
  "prod_run i contract key st data = \<lparr>rid = i, org = ''o'', biz = ''b'', ar_agent_definition_id = ''ad'',
     ar_job_id = Some ''j'', ar_payload_schema_version = 1, ar_contract_key = contract, ar_contract_version = 1,
     ar_contract_fingerprint = ''h'', ar_output_schema_name = ''x'', ar_output_schema_version = 1,
     ar_status = st, ar_input_ref = Some key, ar_output_ref = None, ar_context_refs = [],
     ar_context_manifest = [], ar_context_hash = Some ''h'', ar_output_data = data, ar_refusal_summary = None,
     ar_error_class = None, ar_error_summary = None, ar_provider_name = Some ''fake'', ar_provider_model = Some ''m'',
     ar_provider_response_id = None, ar_token_usage = [], ar_latency_ms = None, ar_safe_trace_metadata = [],
     ar_started_at = None, ar_completed_at = None, ar_correlation_id = None, ar_causation_id = None,
     ar_idempotency_key = Some key, ar_created_at = 0\<rparr>"

definition prod_definition :: agent_definition_row where
  "prod_definition = new_agent_definition prod_env prod_scope content_director_contract ''ad''"

definition prod_db :: production_store where
  "prod_db = \<lparr>jobs = [], sql_jobs = [], outbox_events = [], business_events = [], audit_logs = [],
     unit_of_work = [], uuids = (\<lambda>n. replicate n CHR ''i''), uuid_pos = 0, wakeups = [], provider_log = [],
     channels = [], memberships = [], permission_policies = [], asset_versions = [], production_workflows = [],
     asset_rights = [], experiments = [], checkpoint_bindings = [], connector_accounts = [], actions = [],
     action_details = [], controller_reviews = [], permission_evaluations = [], global_controls = [], approvals = [],
     executions = [], external_references = [], publications = [], publication_links = [], source_records = [],
     evidence = [prod_evidence], observation_states = [], observations = [], observation_links = [], metric_versions = [],
     experiment_results = [], result_details = [], learning_reviews = [], learnings = [], learning_details = [],
     decisions = [prod_decision], experiment_rules = [], decision_workflows = [], phase6_intents = [],
     decision_learning_links = [], agent_definitions = [prod_definition], agent_runs = [],
     organizations = [], businesses = [], launches = [], goals = [], constraints = [], products = [], offers = [],
     claims = [], hypotheses = [], information_needs = [], business_snapshots = [prod_snapshot],
     specialist_contributions = [], decision_candidates = [], decision_reviews = [], decision_alternatives = [],
     decision_approvals = [prod_approval], content_strategies = [], creative_briefs = [], creative_brief_details = [],
     assets = [], asset_version_creators = [], asset_reviews = []\<rparr>"

lemma prod_scope_simps [simp]: "organization_id prod_scope = ''o''" "business_id prod_scope = ''b''"
  by (simp_all add: prod_scope_def)

lemma prod_decision_simps [simp]:
  "rid prod_decision = ''d''" "org prod_decision = ''o''" "biz prod_decision = ''b''" "dc_version prod_decision = 1"
  "dc_status prod_decision = ''APPROVED_FOR_PRODUCTION''" "dc_evidence_ids prod_decision = [''e'']"
  "dc_supersedes_decision_id prod_decision = None" "dc_snapshot_id prod_decision = Some ''sn''"
  by (simp_all add: prod_decision_def)

lemma prod_flow_simps [simp]:
  "rid (prod_flow st a) = ''pw''" "org (prod_flow st a) = ''o''" "biz (prod_flow st a) = ''b''"
  "pw_status (prod_flow st a) = st" "pw_decision_id (prod_flow st a) = ''d''" "pw_decision_version (prod_flow st a) = 1"
  "pw_decision_approval_id (prod_flow st a) = ''da''" "pw_asset_id (prod_flow st a) = a"
  "pw_revision_count (prod_flow st a) = 0" "pw_max_revision_rounds (prod_flow st a) = 2"
  "pw_creative_brief_id (prod_flow st a) = Some ''br''" "pw_correlation_id (prod_flow st a) = None"
  "pw_snapshot_id (prod_flow st a) = ''sn''"
  by (simp_all add: prod_flow_def)

lemma prod_evidence_simps [simp]:
  "rid prod_evidence = ''e''" "org prod_evidence = ''o''" "biz prod_evidence = ''b''"
  by (simp_all add: prod_evidence_def)

lemma prod_snapshot_simps [simp]:
  "rid prod_snapshot = ''sn''" "org prod_snapshot = ''o''" "biz prod_snapshot = ''b''"
  by (simp_all add: prod_snapshot_def)

lemma prod_approved: "approval_matches_decision prod_approval prod_decision"
  by (simp add: approval_matches_decision_def prod_approval_def)

lemma prod_db_simps [simp]:
  "decisions prod_db = [prod_decision]" "decision_approvals prod_db = [prod_approval]"
  "business_snapshots prod_db = [prod_snapshot]" "evidence prod_db = [prod_evidence]"
  "agent_definitions prod_db = [prod_definition]" "agent_runs prod_db = []" "provider_log prod_db = []"
  "asset_rights prod_db = []" "asset_versions prod_db = []" "jobs prod_db = []" "production_workflows prod_db = []"
  "uuids prod_db = (\<lambda>n. replicate n CHR ''i'')" "uuid_pos prod_db = 0" "asset_reviews prod_db = []"
  "asset_version_creators prod_db = []" "assets prod_db = []"
  by (simp_all add: prod_db_def)

end
