(* ===== verification/Application.thy ===== *)
theory Application
  imports Adaptation_Safety Observation_Polls Handler_Frames Production_Example Production_Registry
begin

text \<open>
  The handlers put together (\<open>application/composition.py\<close>, \<open>ai_runtime/composition.py\<close>): which
  job types the worker can run under which settings, and that the whole registry honours the contract
  of the runtime, so that what is proved of the runtime for every registry holds of the application.
\<close>

section \<open>Composition\<close>

text \<open>The settings from the feature flags to the key of the model provider, and the token of the bot.\<close>

record Settings =
  launch_workflow_enabled :: bool
  ai_team_enabled :: bool
  max_decision_revision_rounds :: int
  max_asset_revision_rounds :: int
  ai_model_provider :: "string option"
  ai_openai_text_model :: "string option"
  openai_api_key :: "string option"
  telegram_bot_token :: "string option"

text \<open>What the handlers call outside the repository.\<close>

record app_env = production_env +
  probe_repr :: "json \<Rightarrow> string"
  provider_api :: openai_api
  provider_clocks :: model_clocks
  bot_api :: telegram_api
  validate_checkpoint :: "payload \<Rightarrow> py_error + Phase6CheckpointSpec"

abbreviation digest_env :: "'e hash_env_scheme \<Rightarrow> hash_env" where
  "digest_env env \<equiv> \<lparr>float_repr = float_repr env, sha256_hex = sha256_hex env\<rparr>"

text \<open>The tables of the application, and what extends the runtime's part of them.\<close>

type_synonym 'z business_part = "'z production_store_ext workflow_store_ext business_store_ext agent_store_ext decision_store_ext"

type_synonym 'z tables = "'z business_part analytics_store_ext exec_store_ext"

text \<open>One route for each of the four capabilities of text.\<close>

definition model_router_from_settings :: "'e app_env_scheme \<Rightarrow> Settings \<Rightarrow> py_error + 'z ModelRouter" where
  "model_router_from_settings env st =
    (if \<not> ai_team_enabled st then Inl (AIConfigurationError ''feature flag v11_ai_team is disabled'')
     else if ai_model_provider st \<noteq> Some ''openai''
     then Inl (AIConfigurationError (''LAUNCH_OS_AI_MODEL_PROVIDER must be '' @ [char_of (39::nat)] @ ''openai'' @ [char_of (39::nat)] @ '' for live routing''))
     else if ai_openai_text_model st \<in> {None, Some []}
     then Inl (AIConfigurationError ''LAUNCH_OS_AI_OPENAI_TEXT_MODEL is required'')
     else case OpenAIResponsesAdapter (openai_api_key st) (provider_api env) (provider_clocks env) of
         Inl e \<Rightarrow> Inl e
       | Inr adapter \<Rightarrow>
           new_ModelRouter (routes_to (ma_provider_name adapter) (or_else (ai_openai_text_model st) [])
               [DEEP_REASONING, STANDARD_REASONING, FAST_STRUCTURED_CLASSIFICATION, CREATIVE_COPY])
             [(ma_provider_name adapter, adapter)])"

definition default_agent_registry :: "py_error + agent_registry" where
  "default_agent_registry = phase3_agent_registry"

definition compose_handler_registry ::
  "'e app_env_scheme \<Rightarrow> Settings \<Rightarrow> agent_registry option \<Rightarrow> 'z tables ModelRouter option
     \<Rightarrow> ('z production_store_ext, unit) context_build option \<Rightarrow> py_error + 'z tables registry" where
  "compose_handler_registry env st registry model_router build =
    (if \<not> ai_team_enabled st \<and> model_router = None then Inr (default_handler_registry (probe_repr env))
     else case (case registry of None \<Rightarrow> default_agent_registry | Some reg \<Rightarrow> Inr reg) of
         Inl e \<Rightarrow> Inl e
       | Inr reg \<Rightarrow>
          (case (case model_router of None \<Rightarrow> model_router_from_settings env st | Some router \<Rightarrow> Inr router) of
             Inl e \<Rightarrow> Inl e
           | Inr router \<Rightarrow>
               let ai_handler = AgentRunJobHandler env reg
                     (case build of None \<Rightarrow> ContextBuilder_build env default_budget (load_reference env default_budget)
                      | Some b \<Rightarrow> b) router
               in Inr ((default_handler_registry (probe_repr env))
                    (JOB_TYPE_AI_RUN_AGENT \<mapsto> ai_handler, JOB_TYPE_AI_RUN_CONTROLLER \<mapsto> ai_handler))))"

definition decision_handler ::
  "'e app_env_scheme \<Rightarrow> agent_registry \<Rightarrow> RuntimeJobContext \<Rightarrow> payload \<Rightarrow> datetime \<Rightarrow> ('z workflow_store_scheme, unit) prog" where
  "decision_handler env reg =
     Phase6DecisionWorkflowAdvanceHandler_handle (digest_env env) (validate_checkpoint env)
       (GuardedDecisionWorkflowAdvanceHandler_handle env reg)"

definition compose_application_handler_registry ::
  "'e app_env_scheme \<Rightarrow> Settings \<Rightarrow> agent_registry option \<Rightarrow> 'z tables ModelRouter option
     \<Rightarrow> ('z production_store_ext, unit) context_build option \<Rightarrow> 'z tables telegram_connector option
     \<Rightarrow> 'z tables observation_connector option \<Rightarrow> py_error + 'z tables registry" where
  "compose_application_handler_registry env st registry model_router build connector observation =
    (case (case registry of None \<Rightarrow> phase4_agent_registry | Some reg \<Rightarrow> Inr reg) of
       Inl e \<Rightarrow> Inl e
     | Inr reg \<Rightarrow>
        (case compose_handler_registry env st (Some reg) model_router
            (Some (case build of None \<Rightarrow> production_context_build env | Some b \<Rightarrow> b)) of
           Inl e \<Rightarrow> Inl e
         | Inr ai \<Rightarrow>
             let actual_connector = (case connector of
                   None \<Rightarrow> TelegramHttpConnector (bot_api env) (telegram_bot_token st) TELEGRAM_SECRET_REF | Some c \<Rightarrow> c);
                 handlers = ai(JOB_TYPE_EXECUTION_TELEGRAM_PUBLISH \<mapsto>
                     \<lparr>handle = TelegramExecutionHandler_handle (digest_env env) actual_connector, record_attempt_failure = None\<rparr>)
                   ++ phase6_handler_registry (digest_env env) observation
             in if \<not> launch_workflow_enabled st \<and> model_router = None then Inr handlers
                else if \<not> ai_team_enabled st \<and> model_router = None
                then Inl (AIConfigurationError ''Phase 3-6 governed workflows require the governed AI runtime'')
                else Inr (handlers(JOB_TYPE_WORKFLOW_ADVANCE \<mapsto>
                  \<lparr>handle = WorkflowAdvanceDispatcher_handle (decision_handler env reg)
                     (ProductionWorkflowAdvanceHandler_handle env reg),
                   record_attempt_failure = None\<rparr>))))"

section \<open>The analytics handlers honour the contract of the runtime\<close>

lemma analytics_audit_frame: "tracks jobs_frame (analytics_audit scope act ot oid pl co ca)"
  unfolding analytics_audit_def by (intro exec_frames)

lemma analytics_outbox_frame: "tracks jobs_frame (analytics_outbox scope et ag aid pl now co ca)"
  unfolding analytics_outbox_def by (intro exec_frames)

lemma normalize_frame: "tracks jobs_frame (normalize_observation scope q)"
  unfolding normalize_observation_def insert_normalized_def
  by (intro exec_frames exec_modify_frame) auto

lemma normalize_handler_frame: "tracks jobs_frame (NormalizeConnectorObservationHandler_handle context pl now)"
  unfolding NormalizeConnectorObservationHandler_handle_def by (intro exec_frames normalize_frame)

lemma ingest_frame_jobs: "tracks jobs_frame (ingest_telegram_update env scope account_id u now)"
  unfolding ingest_telegram_update_def
  by (intro exec_frames exec_modify_frame normalize_frame) auto

lemma ingest_all_frame: "tracks jobs_frame (ingest_all env scope account_id now us ps m)"
proof (induction us arbitrary: ps m)
  case Nil
  then show ?case by (simp add: jf.t_ret)
next
  case (Cons u us)
  then show ?case by (auto intro!: exec_frames ingest_frame_jobs)
qed

lemma update_state_frame: "tracks jobs_frame (update_observation_state i f)"
  unfolding update_observation_state_def by (rule exec_modify_frame) simp

lemma observation_handler_frame:
  assumes "observation_port connector"
  shows "tracks jobs_frame (TelegramObservationHandler_handle env connector context pl now)"
  unfolding TelegramObservationHandler_handle_def observe_updates_def enqueue_metric_job_def
  by (intro exec_frames update_state_frame ingest_all_frame observation_port.poll_frame [OF assms] jf.t_foreach)

lemma metric_handler_frame: "tracks jobs_frame (CalculateMetricVersionHandler_handle env context pl now)"
proof -
  have "tracks jobs_frame (insert_metric_version scope c x p ids av cov ws we h l now)" for scope :: RuntimeJobContext and c x p ids av cov ws we h l
    unfolding insert_metric_version_def
    by (intro exec_frames exec_modify_frame analytics_audit_frame analytics_outbox_frame) auto
  then show ?thesis
    unfolding CalculateMetricVersionHandler_handle_def calculate_metric_version_def by (intro exec_frames)
qed

lemma interpret_handler_frame: "tracks jobs_frame (InterpretCheckpointHandler_handle env context pl now)"
  unfolding InterpretCheckpointHandler_handle_def interpret_checkpoint_def insert_experiment_result_def
  by (intro exec_frames exec_modify_frame analytics_audit_frame analytics_outbox_frame) auto

lemma learning_handler_frame: "tracks jobs_frame (GovernedLearningHandler_handle context pl now)"
  unfolding GovernedLearningHandler_handle_def create_governed_learning_def insert_learning_def
    materialize_learning_reviews_def
  by (intro exec_frames exec_modify_frame analytics_audit_frame analytics_outbox_frame) auto

lemmas JOB_TYPE_defs = JOB_TYPE_AI_RUN_AGENT_def JOB_TYPE_AI_RUN_CONTROLLER_def JOB_TYPE_WORKFLOW_ADVANCE_def
  JOB_TYPE_EXECUTION_TELEGRAM_PUBLISH_def JOB_TYPE_CONNECTOR_TELEGRAM_OBSERVE_UPDATES_def
  JOB_TYPE_ANALYTICS_NORMALIZE_CONNECTOR_OBSERVATION_def JOB_TYPE_ANALYTICS_CALCULATE_METRIC_VERSION_def
  JOB_TYPE_LEARNING_INTERPRET_CHECKPOINT_def JOB_TYPE_LEARNING_RUN_GOVERNED_def JOB_TYPE_OUTBOX_DISPATCH_def
  JOB_TYPE_RUNTIME_PROBE_def

text \<open>Registries that honour the contract can be overlaid and extended.\<close>

lemma handlers_add:
  assumes m: "job_handlers m" and n: "job_handlers n"
  shows "job_handlers (m ++ n)"
proof
  fix ty h ctx pl now
  assume "(m ++ n) ty = Some h"
  then show "tracks jobs_frame (handle h ctx pl now)"
    using job_handlers.handle_frame [OF m] job_handlers.handle_frame [OF n] by (auto simp: map_add_Some_iff)
next
  fix ty h recorder job err will_retry now backoff
  assume "(m ++ n) ty = Some h" "record_attempt_failure h = Some recorder"
  then show "tracks jobs_frame (recorder job err will_retry now backoff)"
    using job_handlers.record_frame [OF m] job_handlers.record_frame [OF n] by (auto simp: map_add_Some_iff)
qed

lemma handlers_empty: "job_handlers Map.empty"
  by (simp add: job_handlers_def)

lemma handlers_upd:
  assumes "job_handlers m" and "\<And>context pl now. tracks jobs_frame (handle h context pl now)"
    and "\<And>recorder job err will_retry now backoff. record_attempt_failure h = Some recorder \<Longrightarrow>
      tracks jobs_frame (recorder job err will_retry now backoff)"
  shows "job_handlers (m(ty \<mapsto> h))"
  using assms by (auto simp: job_handlers_def split: if_splits)

lemma phase6_handlers:
  assumes "\<And>c. observation = Some c \<Longrightarrow> observation_port c"
  shows "job_handlers (phase6_handler_registry env observation)"
proof -
  have "job_handlers (case observation of None \<Rightarrow> Map.empty
      | Some c \<Rightarrow> [JOB_TYPE_CONNECTOR_TELEGRAM_OBSERVE_UPDATES \<mapsto>
          \<lparr>handle = TelegramObservationHandler_handle env c, record_attempt_failure = None\<rparr>])"
    using assms by (auto intro!: handlers_empty handlers_upd observation_handler_frame split: option.split)
  then show ?thesis
    unfolding phase6_handler_registry_def
    by (intro handlers_add handlers_upd handlers_empty)
      (simp_all add: normalize_handler_frame metric_handler_frame interpret_handler_frame learning_handler_frame)
qed

interpretation phase6_http: job_handlers "phase6_handler_registry env (Some (TelegramHttpObservationConnector api token))"
  by (rule phase6_handlers) (simp add: http_observation.observation_port_axioms)

lemma phase6_dom:
  "dom (phase6_handler_registry env observation) =
    {JOB_TYPE_ANALYTICS_NORMALIZE_CONNECTOR_OBSERVATION, JOB_TYPE_ANALYTICS_CALCULATE_METRIC_VERSION,
     JOB_TYPE_LEARNING_INTERPRET_CHECKPOINT, JOB_TYPE_LEARNING_RUN_GOVERNED} \<union>
    (if observation = None then {} else {JOB_TYPE_CONNECTOR_TELEGRAM_OBSERVE_UPDATES})"
  by (auto simp: phase6_handler_registry_def split: option.splits if_splits)

lemma default_handlers: "job_handlers (default_handler_registry py)" 
  by (rule runtime_handlers.job_handlers_axioms)

lemma settings_router_ports:
  "model_router_from_settings env st = Inr router \<Longrightarrow> \<forall>(name, adapter) \<in> set (mt_adapters router). model_port adapter"
  by (auto simp: model_router_from_settings_def OpenAIResponsesAdapter_def new_ModelRouter_def openai_model.model_port_axioms
      split: if_splits option.splits prod.splits)

lemma agent_handlers_upd:
  assumes "job_handlers m" and "\<forall>(name, adapter) \<in> set (mt_adapters router). model_port adapter"
  shows "job_handlers (m(ty \<mapsto> AgentRunJobHandler env reg build router))"
  using assms by (intro handlers_upd) (auto simp: AgentRunJobHandler_def agent_handler_frame agent_recorder_frame)

lemma execution_handlers_upd:
  assumes "job_handlers m" and "telegram_port connector"
  shows "job_handlers (m(ty \<mapsto> \<lparr>handle = TelegramExecutionHandler_handle env connector, record_attempt_failure = None\<rparr>))"
  using assms by (intro handlers_upd) (auto intro: exec_port.handler_frame exec_port.intro)

lemma dispatcher_handlers_upd:
  assumes "job_handlers m"
  shows "job_handlers (m(ty \<mapsto> \<lparr>handle = WorkflowAdvanceDispatcher_handle (decision_handler env reg)
    (ProductionWorkflowAdvanceHandler_handle env reg), record_attempt_failure = None\<rparr>))"
  using assms unfolding decision_handler_def
  by (intro handlers_upd) (auto intro!: WorkflowAdvanceDispatcher_frame phase6_handler_frame guarded_handler_frame production_handler_frame)

lemma composed_handlers:
  assumes "compose_handler_registry env st registry model_router build = Inr m"
    and "\<And>router. model_router = Some router \<Longrightarrow> \<forall>(name, adapter) \<in> set (mt_adapters router). model_port adapter"
  shows "job_handlers m \<and> dom m = {JOB_TYPE_OUTBOX_DISPATCH, JOB_TYPE_RUNTIME_PROBE} \<union>
    (if ai_team_enabled st \<or> model_router \<noteq> None then {JOB_TYPE_AI_RUN_AGENT, JOB_TYPE_AI_RUN_CONTROLLER} else {})"
proof -
  have d: "dom (default_handler_registry py) = {JOB_TYPE_OUTBOX_DISPATCH, JOB_TYPE_RUNTIME_PROBE}" for py
    by (auto simp: default_handler_registry_def split: if_splits)
  show ?thesis
  proof (cases "\<not> ai_team_enabled st \<and> model_router = None")
    case True
    with assms(1) have m: "m = default_handler_registry (probe_repr env)" by (simp add: compose_handler_registry_def)
    from True show ?thesis unfolding m by (simp add: d default_handlers)
  next
    case False
    with assms(1) obtain reg router b where
      found: "(case model_router of None \<Rightarrow> model_router_from_settings env st | Some router \<Rightarrow> Inr router) = Inr router"
      and m: "m = (default_handler_registry (probe_repr env))(JOB_TYPE_AI_RUN_AGENT \<mapsto> AgentRunJobHandler env reg b router,
        JOB_TYPE_AI_RUN_CONTROLLER \<mapsto> AgentRunJobHandler env reg b router)"
      unfolding compose_handler_registry_def Let_def by (auto split: sum.split_asm)
    have "\<forall>(name, adapter) \<in> set (mt_adapters router). model_port adapter"
      using found assms(2) settings_router_ports [of env st router] by (cases model_router) simp_all
    then have "job_handlers m" unfolding m by (intro agent_handlers_upd default_handlers)
    moreover have "dom m = {JOB_TYPE_OUTBOX_DISPATCH, JOB_TYPE_RUNTIME_PROBE} \<union> {JOB_TYPE_AI_RUN_AGENT, JOB_TYPE_AI_RUN_CONTROLLER}"
      unfolding m by (auto simp: d)
    ultimately show ?thesis using False by auto
  qed
qed

text \<open>
  Claim C39. The application's registry is well formed. Whenever composition returns, the registry
  maps exactly the job types that the settings, the connectors and the router enable, all of them
  executable types, and every executable type when everything is enabled; and it honours the contract
  of the runtime, provided that connectors and model adapters that are passed in keep theirs; those that
  the settings build do.
\<close>

theorem application_registry:
  assumes port: "\<And>c. connector = Some c \<Longrightarrow> telegram_port c"
    and obs: "\<And>c. observation = Some c \<Longrightarrow> observation_port c"
    and ai: "\<And>router. model_router = Some router \<Longrightarrow> \<forall>(name, adapter) \<in> set (mt_adapters router). model_port adapter"
    and run: "compose_application_handler_registry env st registry model_router build connector observation = Inr reg"
  shows "job_handlers reg \<and>
    dom reg = {JOB_TYPE_OUTBOX_DISPATCH, JOB_TYPE_RUNTIME_PROBE, JOB_TYPE_EXECUTION_TELEGRAM_PUBLISH,
       JOB_TYPE_ANALYTICS_NORMALIZE_CONNECTOR_OBSERVATION, JOB_TYPE_ANALYTICS_CALCULATE_METRIC_VERSION,
       JOB_TYPE_LEARNING_INTERPRET_CHECKPOINT, JOB_TYPE_LEARNING_RUN_GOVERNED} \<union>
      (if observation = None then {} else {JOB_TYPE_CONNECTOR_TELEGRAM_OBSERVE_UPDATES}) \<union>
      (if ai_team_enabled st \<or> model_router \<noteq> None then {JOB_TYPE_AI_RUN_AGENT, JOB_TYPE_AI_RUN_CONTROLLER} else {}) \<union>
      (if launch_workflow_enabled st \<or> model_router \<noteq> None then {JOB_TYPE_WORKFLOW_ADVANCE} else {}) \<and>
    dom reg \<subseteq> set EXECUTABLE_JOB_TYPES \<and>
    (dom reg = set EXECUTABLE_JOB_TYPES \<longleftrightarrow> observation \<noteq> None \<and>
       (ai_team_enabled st \<or> model_router \<noteq> None) \<and> (launch_workflow_enabled st \<or> model_router \<noteq> None))"
proof -
  obtain rg m where m: "compose_handler_registry env st (Some rg) model_router
      (Some (case build of None \<Rightarrow> production_context_build env | Some b \<Rightarrow> b)) = Inr m"
    and reg: "reg = (let base = m(JOB_TYPE_EXECUTION_TELEGRAM_PUBLISH \<mapsto>
        \<lparr>handle = TelegramExecutionHandler_handle (digest_env env) (case connector of
             None \<Rightarrow> TelegramHttpConnector (bot_api env) (telegram_bot_token st) TELEGRAM_SECRET_REF | Some c \<Rightarrow> c),
         record_attempt_failure = None\<rparr>) ++ phase6_handler_registry (digest_env env) observation
      in if launch_workflow_enabled st \<or> model_router \<noteq> None
         then base(JOB_TYPE_WORKFLOW_ADVANCE \<mapsto> \<lparr>handle = WorkflowAdvanceDispatcher_handle (decision_handler env rg)
           (ProductionWorkflowAdvanceHandler_handle env rg), record_attempt_failure = None\<rparr>)
         else base)"
    using run by (auto simp: compose_application_handler_registry_def Let_def split: if_splits sum.splits option.splits)
  note ai' = composed_handlers [OF m ai]
  have "telegram_port (case connector of
      None \<Rightarrow> TelegramHttpConnector (bot_api env) (telegram_bot_token st) TELEGRAM_SECRET_REF | Some c \<Rightarrow> c)"
    using port by (simp add: http.telegram_port_axioms split: option.split)
  then have h: "job_handlers reg"
    unfolding reg Let_def using ai'
    by (auto intro!: handlers_add execution_handlers_upd dispatcher_handlers_upd phase6_handlers obs)
  have d: "dom reg = {JOB_TYPE_OUTBOX_DISPATCH, JOB_TYPE_RUNTIME_PROBE, JOB_TYPE_EXECUTION_TELEGRAM_PUBLISH,
       JOB_TYPE_ANALYTICS_NORMALIZE_CONNECTOR_OBSERVATION, JOB_TYPE_ANALYTICS_CALCULATE_METRIC_VERSION,
       JOB_TYPE_LEARNING_INTERPRET_CHECKPOINT, JOB_TYPE_LEARNING_RUN_GOVERNED} \<union>
      (if observation = None then {} else {JOB_TYPE_CONNECTOR_TELEGRAM_OBSERVE_UPDATES}) \<union>
      (if ai_team_enabled st \<or> model_router \<noteq> None then {JOB_TYPE_AI_RUN_AGENT, JOB_TYPE_AI_RUN_CONTROLLER} else {}) \<union>
      (if launch_workflow_enabled st \<or> model_router \<noteq> None then {JOB_TYPE_WORKFLOW_ADVANCE} else {})"
    unfolding reg Let_def using ai' by (simp add: phase6_dom) blast
  have "dom reg \<subseteq> set EXECUTABLE_JOB_TYPES"
    unfolding d by (simp add: EXECUTABLE_JOB_TYPES_def PHASE6_JOB_TYPES_def)
  moreover have "dom reg = set EXECUTABLE_JOB_TYPES \<longleftrightarrow> observation \<noteq> None \<and>
      (ai_team_enabled st \<or> model_router \<noteq> None) \<and> (launch_workflow_enabled st \<or> model_router \<noteq> None)"
  proof
    assume eq: "dom reg = set EXECUTABLE_JOB_TYPES"
    have "JOB_TYPE_CONNECTOR_TELEGRAM_OBSERVE_UPDATES \<in> dom reg" "JOB_TYPE_AI_RUN_AGENT \<in> dom reg"
        "JOB_TYPE_WORKFLOW_ADVANCE \<in> dom reg"
      unfolding eq by (simp_all add: EXECUTABLE_JOB_TYPES_def PHASE6_JOB_TYPES_def)
    then show "observation \<noteq> None \<and> (ai_team_enabled st \<or> model_router \<noteq> None) \<and>
        (launch_workflow_enabled st \<or> model_router \<noteq> None)"
      unfolding d by (simp add: JOB_TYPE_defs split: if_splits)
  next
    assume "observation \<noteq> None \<and> (ai_team_enabled st \<or> model_router \<noteq> None) \<and>
        (launch_workflow_enabled st \<or> model_router \<noteq> None)"
    then show "dom reg = set EXECUTABLE_JOB_TYPES"
      unfolding d by (simp add: EXECUTABLE_JOB_TYPES_def PHASE6_JOB_TYPES_def) blast
  qed
  ultimately show ?thesis using h d by (intro conjI) blast+
qed

text \<open>The settings of a live system, all of whose connections are the real ones.\<close>

definition live_settings :: Settings where
  "live_settings = \<lparr>launch_workflow_enabled = True, ai_team_enabled = True,
     max_decision_revision_rounds = 2, max_asset_revision_rounds = 2, ai_model_provider = Some ''openai'',
     ai_openai_text_model = Some ''m'', openai_api_key = Some ''k'', telegram_bot_token = Some ''t''\<rparr>"

text \<open>A provider and a bot that never answer.\<close>

definition live_env :: app_env where
  "live_env = production_env.extend prod_env (app_env.fields (\<lambda>_. []) (\<lambda>_ _. ConnectionFailure ''down'') (\<lambda>_. (0, 0, 0))
     (\<lambda>_ _ _. TransportFailure) (\<lambda>_. Inl (PermanentJobError ''invalid'')))"

theorem application_registry_witness:
  "\<exists>reg :: unit tables registry.
     compose_application_handler_registry live_env live_settings None None None None
       (Some (TelegramHttpObservationConnector (bot_api live_env) (Some ''t''))) = Inr reg \<and>
     job_handlers reg \<and> dom reg = set EXECUTABLE_JOB_TYPES"
proof -
  let ?obs = "TelegramHttpObservationConnector (bot_api live_env) (Some ''t'') :: unit tables observation_connector"
  have obs: "observation_port ?obs" by (rule http_observation.observation_port_axioms)
  obtain rg where rg: "phase4_agent_registry = Inr rg" using phase4_built by (metis sum.collapse(2))
  have flags: "ai_team_enabled live_settings" "launch_workflow_enabled live_settings" by (simp_all add: live_settings_def)
  have "\<exists>router :: unit tables ModelRouter. model_router_from_settings live_env live_settings = Inr router"
    by (simp add: model_router_from_settings_def live_settings_def OpenAIResponsesAdapter_def new_ModelRouter_def routes_to_def)
  then obtain router :: "unit tables ModelRouter" where "model_router_from_settings live_env live_settings = Inr router" by blast
  then have "\<exists>m. compose_handler_registry live_env live_settings (Some rg) None
      (Some (production_context_build live_env)) = Inr (m :: unit tables registry)"
    by (simp add: compose_handler_registry_def flags Let_def)
  then obtain reg :: "unit tables registry" where
    run: "compose_application_handler_registry live_env live_settings None None None None (Some ?obs) = Inr reg"
    by (auto simp: compose_application_handler_registry_def rg flags Let_def)
  have "job_handlers reg \<and> dom reg = set EXECUTABLE_JOB_TYPES"
    using application_registry [OF _ _ _ run] obs by (simp add: flags, elim conjE, metis)
  with run show ?thesis by blast
qed

end
