(* ===== verification/Phase6_Start.thy ===== *)
theory Phase6_Start
  imports Decision_Workflow Workflow_Machine
begin

text \<open>
  The two functions of \<open>application/phase6.py\<close> that start a governed decision workflow, the first one of a
  business and the successor of a decision from a learning; and the two commands of
  \<open>application/commands.py\<close> that store a decision and an asset version made with the domain model.
\<close>

section \<open>Starting a workflow with a checkpoint\<close>

definition start_phase6_decision_workflow ::
  "hash_env \<Rightarrow> CommandContext \<Rightarrow> Phase6CheckpointSpec \<Rightarrow> string option \<Rightarrow> int \<Rightarrow> datetime
     \<Rightarrow> ('z workflow_store_scheme, DecisionWorkflowStartResult) prog" where
  "start_phase6_decision_workflow env context spec launch_id max_rounds now =
     bnd (query (snapshot_payload context launch_id)) (\<lambda>pl.
     bnd (create_business_snapshot context ''phase6.governed_decision''
            (pl @ [(''phase6_checkpoint_intent'', JObj [(''checkpoint_spec_hash'', JStr (contract_hash env spec))])]) now)
       (\<lambda>(snapshot, ev).
     bnd flush (\<lambda>_.
     bnd (start_decision_workflow context launch_id (Some (rid snapshot)) max_rounds now) (\<lambda>result.
     bnd (register_intent env context (rid (started_workflow result)) spec None None now) (\<lambda>_.
     ret result)))))"

definition phase6_assert_owner :: "'y TenantScope_scheme \<Rightarrow> string \<Rightarrow> ('z exec_store_scheme, unit) prog" where
  "phase6_assert_owner scope user_id =
     bnd (gets (\<lambda>s. select_first (\<lambda>m. org m = organization_id scope \<and> biz m = business_id scope \<and>
            member_user_id m = user_id) (memberships s))) (\<lambda>membership.
     require (case membership of None \<Rightarrow> False | Some m \<Rightarrow> upper (member_role m) = ''OWNER'')
       (PermanentJobError ''Phase 6 adaptation requires exact business owner authority''))"

definition adaptation_payload :: "hash_env \<Rightarrow> string \<Rightarrow> string \<Rightarrow> learning_detail_row \<Rightarrow> Phase6CheckpointSpec \<Rightarrow> payload" where
  "adaptation_payload env prior_id learning_id detail spec =
    [(''prior_decision_id'', JStr prior_id), (''learning_id'', JStr learning_id),
     (''experiment_result_id'', JStr (ld_experiment_result_id detail)),
     (''metric_version_ids'', jstrs (ld_metric_version_ids detail)),
     (''checkpoint_spec_hash'', JStr (contract_hash env spec))]"

definition start_successor_decision_workflow_from_learning ::
  "hash_env \<Rightarrow> CommandContext \<Rightarrow> string \<Rightarrow> string \<Rightarrow> Phase6CheckpointSpec \<Rightarrow> int \<Rightarrow> datetime
     \<Rightarrow> ('z workflow_store_scheme, DecisionWorkflowStartResult) prog" where
  "start_successor_decision_workflow_from_learning env context prior_id learning_id spec max_rounds now =
     bnd (required (cc_actor_user_id context)
           (PermanentJobError ''owner identity is required to start Phase 6 adaptation'')) (\<lambda>user.
     bnd (phase6_assert_owner context user) (\<lambda>_.
     bnd (gets (\<lambda>s. (row_get rid prior_id (decisions s), row_get rid learning_id (learnings s)))) (\<lambda>(d, l).
     bnd (required d (PermanentJobError ''prior Decision or Learning not found'')) (\<lambda>prior.
     bnd (required l (PermanentJobError ''prior Decision or Learning not found'')) (\<lambda>learning.
     bnd (check_scope context (org prior) (biz prior)) (\<lambda>_.
     bnd (check_scope context (org learning) (biz learning)) (\<lambda>_.
     bnd (require (le_decision_id learning = Some (rid prior))
           (PermanentJobError ''Learning is not bound to the prior Decision'')) (\<lambda>_.
     bnd (gets (\<lambda>s. select_first (\<lambda>x. ld_learning_id x = rid learning) (learning_details s))) (\<lambda>found.
     bnd (required found (PermanentJobError ''Learning provenance detail is required for adaptation'')) (\<lambda>detail.
     bnd (query (snapshot_payload context None)) (\<lambda>pl.
     bnd (create_business_snapshot context ''phase6.learning_adaptation''
            (pl @ [(''adaptation'', JObj (adaptation_payload env (rid prior) (rid learning) detail spec))]) now)
       (\<lambda>(snapshot, ev).
     bnd flush (\<lambda>_.
     bnd (start_decision_workflow context None (Some (rid snapshot)) max_rounds now) (\<lambda>result.
     bnd (register_intent env context (rid (started_workflow result)) spec (Some (rid prior)) (Some (rid learning)) now)
       (\<lambda>_. ret result)))))))))))))))"

section \<open>Commands over the domain model\<close>

fun decision_status_value :: "DecisionStatus \<Rightarrow> string" where
  "decision_status_value DecisionStatus.ACTIVE = ''ACTIVE''"
| "decision_status_value DecisionStatus.SUPERSEDED = ''SUPERSEDED''"
| "decision_status_value DecisionStatus.INVALIDATED = ''INVALIDATED''"

text \<open>
  The reference policy of \<open>persistence/repositories.py\<close> for a row of the named model: a reference that is
  set must be visible in the scope, and looking for it flushes.
\<close>

definition is_reference_visible :: "'y TenantScope_scheme \<Rightarrow> 'r scoped_row_scheme list \<Rightarrow> string \<Rightarrow> bool" where
  "is_reference_visible scope rows i \<longleftrightarrow>
     list_ex (\<lambda>r. rid r = i \<and> org r = organization_id scope \<and> biz r = business_id scope) rows"

definition validate_reference_field ::
  "'y TenantScope_scheme \<Rightarrow> string \<Rightarrow> ('z store_scheme \<Rightarrow> 'r scoped_row_scheme list) \<Rightarrow> string option
     \<Rightarrow> ('z store_scheme, unit) prog" where
  "validate_reference_field scope field table ref =
    (case ref of
       None \<Rightarrow> ret ()
     | Some i \<Rightarrow>
         bnd flush (\<lambda>_.
         bnd (gets (\<lambda>s. is_reference_visible scope (table s) i)) (\<lambda>visible.
         require visible (TenantScopeViolation
           (field @ '' references an object outside the current tenant/business scope'')))))"

definition decision_row_of :: "Decision \<Rightarrow> decision_row" where
  "decision_row_of d =
    \<lparr>rid = object_id d, org = organization_id d, biz = business_id d, dc_version = version d,
     dc_goal_problem = goal_problem d, dc_selected_action = selected_action d, dc_expected_effect = expected_effect d,
     dc_confidence = decision_confidence d, dc_reversibility = reversibility d, dc_risk_class = risk_class d,
     dc_status = decision_status_value (decision_status d), dc_snapshot_id = snapshot_id d,
     dc_supersedes_decision_id = supersedes_decision_id d, dc_next_checkpoint = next_checkpoint d,
     dc_evidence_ids = decision_evidence_ids d, dc_assumption_ids = assumption_ids d,
     dc_known_unknown_ids = known_unknown_ids d, dc_source_candidate_id = None, dc_why_alternatives_not_selected = [],
     dc_hypotheses = [], dc_assumptions = [], dc_experiment_proposal = [], dc_required_assets = [],
     dc_required_actions = []\<rparr>"

definition persist_decision ::
  "CommandContext \<Rightarrow> Decision \<Rightarrow> datetime \<Rightarrow> ('z workflow_store_scheme, decision_row \<times> DomainEvent) prog" where
  "persist_decision context d now =
     bnd (check_scope context (organization_id d) (business_id d)) (\<lambda>_.
     let row = decision_row_of d
     in bnd (check_scope context (org row) (biz row)) (\<lambda>_.
        bnd (validate_reference_field context ''DecisionModel.snapshot_id'' business_snapshots (dc_snapshot_id row)) (\<lambda>_.
        bnd (validate_reference_field context ''DecisionModel.supersedes_decision_id'' decisions
               (dc_supersedes_decision_id row)) (\<lambda>_.
        bnd (modify (\<lambda>s. s\<lparr>decisions := decisions s @ [row]\<rparr>)) (\<lambda>_.
        bnd (touch (org row) (biz row)) (\<lambda>_.
        bnd (emit context ''decision.created'' ''Decision'' (rid row)
               [(''supersedes_decision_id'', opt_json (dc_supersedes_decision_id row))] now) (\<lambda>ev.
        ret (row, ev))))))))"

text \<open>The asset and the previous version are given as the domain objects made from their rows.\<close>

definition create_asset_version ::
  "CommandContext \<Rightarrow> Asset \<Rightarrow> string \<Rightarrow> string \<Rightarrow> AssetVersion option \<Rightarrow> payload option \<Rightarrow> datetime
     \<Rightarrow> ('z business_store_scheme, asset_version_row \<times> DomainEvent) prog" where
  "create_asset_version context asset txt user previous prov now =
     bnd new_id (\<lambda>i.
     let v = next_for asset txt user previous prov i now;
         row = \<lparr>rid = asset_version_id v, org = organization_id v, biz = business_id v, av_asset_id = asset_id v,
           av_version_number = version_number v, av_body = body v, av_created_by_user_id = Some (created_by_user_id v),
           av_provenance = provenance v, av_created_at = version_created_at v\<rparr>
     in bnd (check_scope context (org row) (biz row)) (\<lambda>_.
        bnd (modify (\<lambda>s. s\<lparr>asset_versions := asset_versions s @ [row]\<rparr>)) (\<lambda>_.
        bnd (touch (org row) (biz row)) (\<lambda>_.
        bnd (emit context ''asset_version.created'' ''AssetVersion'' (rid row)
               [(''asset_id'', JStr (av_asset_id row)), (''version_number'', JInt (av_version_number row))] now) (\<lambda>ev.
        ret (row, ev))))))"

text \<open>The check of \<open>application/approval_preflight.py\<close>.\<close>

definition validate_approval_for_action :: "approval_row \<Rightarrow> action_row \<Rightarrow> py_error + unit" where
  "validate_approval_for_action approval action =
    (if org approval \<noteq> org action \<or> biz approval \<noteq> biz action
     then Inl (TenantScopeViolation ''approval and action belong to different tenant/business scopes'')
     else if appr_action_id approval \<noteq> rid action \<or> appr_action_type approval \<noteq> action_type action \<or>
       appr_object_type approval \<noteq> target_object_type action \<or> appr_object_id approval \<noteq> target_object_id action \<or>
       appr_object_version approval \<noteq> target_object_version action \<or>
       appr_object_version_id approval \<noteq> target_object_version_id action
     then Inl (ApprovalBindingError ''approval is stale or bound to a different object/version/action'')
     else Inr ())"

text \<open>It accepts exactly what the preflight of an execution accepts, in the tenant of the action.\<close>

lemma validate_approval_exact:
  "validate_approval_for_action approval action = Inr () \<longleftrightarrow>
     org approval = org action \<and> biz approval = biz action \<and> approval_matches_action approval action"
  by (auto simp: validate_approval_for_action_def approval_matches_action_def)

section \<open>What a successor is bound to\<close>

lemma register_intent_run:
  assumes "register_intent env scope w spec prior l now s = (Inr i, t)"
  shows "i \<in> set (phase6_intents t) \<and> in_workflow_id i = w \<and> in_checkpoint_spec_hash i = contract_hash env spec \<and>
    in_prior_decision_id i = prior \<and> in_learning_id i = l"
  using assms unfolding register_intent_def
  by (elim bnd_okE) (auto simp: run_simps Let_def dest: select_first_Some split: option.splits if_splits)

text \<open>
  A successor starts only for an owner of the business and from a learning of exactly the prior decision, both
  of the tenant; and the intent of the workflow it returns, from which the lineage of its decision is made,
  names exactly these two and the checkpoint.
\<close>

theorem successor_start_bound:
  assumes "start_successor_decision_workflow_from_learning env context prior_id learning_id spec max_rounds now s = (Inr result, t)"
  shows "\<exists>m \<in> set (memberships s). cc_actor_user_id context = Some (member_user_id m) \<and> upper (member_role m) = ''OWNER'' \<and>
      org m = organization_id context \<and> biz m = business_id context"
    and "\<exists>learning. row_get rid learning_id (learnings s) = Some learning \<and> le_decision_id learning = Some prior_id \<and>
      org learning = organization_id context \<and> biz learning = business_id context"
    and "\<exists>intent \<in> set (phase6_intents t). in_workflow_id intent = rid (started_workflow result) \<and>
      in_prior_decision_id intent = Some prior_id \<and> in_learning_id intent = Some learning_id \<and>
      in_checkpoint_spec_hash intent = contract_hash env spec"
proof -
  from assms obtain user m prior learning intent u where
    "cc_actor_user_id context = Some user"
    "select_first (\<lambda>m. org m = organization_id context \<and> biz m = business_id context \<and> member_user_id m = user)
       (memberships s) = Some m" "upper (member_role m) = ''OWNER''"
    "row_get rid prior_id (decisions s) = Some prior" "row_get rid learning_id (learnings s) = Some learning"
    "assert_matches context (org learning) (biz learning) = Inr ()" "le_decision_id learning = Some (rid prior)"
    "register_intent env context (rid (started_workflow result)) spec (Some (rid prior)) (Some (rid learning)) now u =
       (Inr intent, t)"
    unfolding start_successor_decision_workflow_from_learning_def phase6_assert_owner_def case_prod_beta
    by (elim bnd_okE) (auto simp: run_gets guards_ok run_ret check_scope_def run_lift_sum split: option.splits)
  then show "\<exists>m \<in> set (memberships s). cc_actor_user_id context = Some (member_user_id m) \<and> upper (member_role m) = ''OWNER'' \<and>
      org m = organization_id context \<and> biz m = business_id context"
    "\<exists>learning. row_get rid learning_id (learnings s) = Some learning \<and> le_decision_id learning = Some prior_id \<and>
      org learning = organization_id context \<and> biz learning = business_id context"
    "\<exists>intent \<in> set (phase6_intents t). in_workflow_id intent = rid (started_workflow result) \<and>
      in_prior_decision_id intent = Some prior_id \<and> in_learning_id intent = Some learning_id \<and>
      in_checkpoint_spec_hash intent = contract_hash env spec"
    using register_intent_run row_get_Some [of rid prior_id] row_get_Some [of rid learning_id]
    by (auto simp: assert_matches_def dest!: select_first_Some split: if_splits) blast+
qed

end
