(* ===== verification/Readiness.thy ===== *)
theory Readiness
  imports Prelude
begin

text \<open>
  The health endpoints (\<open>api/app.py\<close>, \<open>api/readiness.py\<close>). What the libraries answer is given: how the
  database URL parses, the version the database reports, and the head of the migrations of the code.
\<close>

record ReadinessResult =
  is_ready :: bool
  rr_database :: string
  rr_detail :: string
  rr_migration_version :: "string option"
  rr_expected_migration_version :: "string option"

text \<open>A URL does not parse, with the text of the exception, or names a backend.\<close>

datatype parsed_url = UnparsedUrl string | BackendName string

text \<open>The query for the version: the text of the database error, or the version if there is one.\<close>

definition check_database_readiness ::
  "string option \<Rightarrow> parsed_url \<Rightarrow> string + string option \<Rightarrow> ReadinessResult" where
  "check_database_readiness expected url found =
    (let not_ready = (\<lambda>database detail v. \<lparr>is_ready = False, rr_database = database, rr_detail = detail,
           rr_migration_version = v, rr_expected_migration_version = expected\<rparr>)
     in case url of
          UnparsedUrl m \<Rightarrow> not_ready ''invalid_url'' m None
        | BackendName backend \<Rightarrow>
            if backend \<noteq> ''postgresql'' then not_ready ''not_postgresql'' ''readiness requires PostgreSQL'' None
            else (case found of
                Inl m \<Rightarrow> not_ready ''unavailable'' m None
              | Inr v \<Rightarrow>
                  if v \<noteq> expected
                  then not_ready ''migration_mismatch'' ''database migration version is not at head'' v
                  else \<lparr>is_ready = True, rr_database = ''ok'', rr_detail = ''ready'',
                    rr_migration_version = Some (case v of None \<Rightarrow> ''None'' | Some x \<Rightarrow> x),
                    rr_expected_migration_version = expected\<rparr>))"

definition live :: payload where
  "live = [(''status'', JStr ''ok'')]"

definition ready :: "ReadinessResult \<Rightarrow> int \<times> payload" where
  "ready r =
    (if is_ready r then 200 else 503,
     [(''status'', JStr (if is_ready r then ''ok'' else ''not_ready'')), (''database'', JStr (rr_database r)),
      (''detail'', JStr (rr_detail r)), (''migration_version'', opt_json (rr_migration_version r)),
      (''expected_migration_version'', opt_json (rr_expected_migration_version r))])"

text \<open>
  The endpoint answers 200 exactly for a PostgreSQL database that can be queried and is at the version of
  the code; with no version on either side as well.
\<close>

theorem ready_exact:
  "fst (ready (check_database_readiness expected url found)) = 200 \<longleftrightarrow>
     url = BackendName ''postgresql'' \<and> found = Inr expected"
  by (auto simp: ready_def check_database_readiness_def Let_def split: parsed_url.split sum.split)

theorem ready_answers:
  "fst (ready r) \<in> {200, 503} \<and> (fst (ready r) = 200 \<longleftrightarrow> dict_get (snd (ready r)) ''status'' = Some (JStr ''ok''))"
  by (simp add: ready_def dict_get_def)

end
