(* ===== verification/Decision_Safety.thy ===== *)
theory Decision_Safety
  imports Decision_Example
begin

text \<open>
  What a decision has passed before it exists, and what an approval of it is worth: no decision without
  the seven reviews of its candidate and an outcome of \<open>PASS\<close>, no candidate that cites evidence the
  agent was not shown, one approval for exactly the decision that was made; and how many agent runs a
  workflow can ask for.
\<close>

section \<open>Reviews\<close>

text \<open>One review per contract, each of them stored; the stored reviews only grow.\<close>

definition reviewed :: "decision_candidate_row \<Rightarrow> string \<Rightarrow> decision_review_row \<Rightarrow> bool" where
  "reviewed candidate key r \<longleftrightarrow>
     dr_decision_candidate_id r = Some (rid candidate) \<and> dr_controller_type r = Some (controller_type_of key)"

definition only_reviews :: "'z workflow_store_scheme \<Rightarrow> 'z workflow_store_scheme \<Rightarrow> bool" where
  "only_reviews s t \<longleftrightarrow> (\<exists>rs. same_core (s\<lparr>decision_reviews := decision_reviews s @ rs\<rparr>) t)"

interpretation rv: state_preorder only_reviews
proof
  show "only_reviews s s" for s :: "'z workflow_store_scheme"
    unfolding only_reviews_def by (rule exI [of _ "[]"]) (simp add: same_core_def)
  show "only_reviews s u" if "only_reviews s t" "only_reviews t u" for s t u :: "'z workflow_store_scheme"
    using that unfolding only_reviews_def same_core_def by auto
qed

lemma core_only_reviews: "same_core s t \<Longrightarrow> only_reviews s t"
  unfolding only_reviews_def by (rule exI [of _ "[]"]) (simp add: same_core_def)

lemma materialize_review_run:
  assumes "materialize_controller_review env flow candidate key s = (Inr r, t)"
  shows "reviewed candidate key r \<and> r \<in> set (decision_reviews t) \<and> only_reviews s t"
proof (cases "select_first (\<lambda>r. dr_decision_candidate_id r = Some (rid candidate) \<and>
    dr_controller_type r = Some (controller_type_of key)) (decision_reviews s)")
  case (Some q)
  with assms have "r = q" "t = s"
    by (simp_all add: materialize_controller_review_def Let_def run_bnd run_gets run_ret)
  with select_first_Some [OF Some] show ?thesis by (simp add: reviewed_def rv.refl)
next
  case None
  from assms obtain run d out hsh where
      r: "r = review_row flow candidate (controller_type_of key) run d out hsh (uuids s (uuid_pos s))"
    and t: "t = s\<lparr>uuid_pos := Suc (uuid_pos s), decision_reviews := decision_reviews s @ [r],
       sql_jobs := jobs s, unit_of_work := []\<rparr>"
    unfolding materialize_controller_review_def Let_def
    by (auto elim!: bnd_okE simp: None run_gets run_lift_sum run_required run_modify run_ret run_flush run_new_id
        split: option.splits)
  have "only_reviews s t" unfolding only_reviews_def
    by (rule exI [of _ "[r]"]) (simp add: t same_core_def)
  then show ?thesis by (simp add: reviewed_def r review_row_def t)
qed

lemma materialize_reviews_loop:
  assumes "map_prog (materialize_controller_review env flow candidate) keys s = (Inr rs, t)"
  shows "list_all2 (reviewed candidate) keys rs \<and> set rs \<subseteq> set (decision_reviews t) \<and> only_reviews s t"
  using assms
proof (induction keys arbitrary: s rs)
  case Nil
  then show ?case by (simp add: run_ret rv.refl)
next
  case (Cons key keys)
  then obtain r u qs where a: "materialize_controller_review env flow candidate key s = (Inr r, u)"
      "map_prog (materialize_controller_review env flow candidate) keys u = (Inr qs, t)" "rs = r # qs"
    by (auto elim!: bnd_okE simp: run_ret)
  note one = materialize_review_run [OF a(1)] and rest = Cons.IH [OF a(2)]
  from rest have "set (decision_reviews u) \<subseteq> set (decision_reviews t)"
    by (auto simp: only_reviews_def same_core_def)
  with one rest show ?case by (auto simp: a(3) intro: rv.trans)
qed

lemma materialize_reviews_result:
  assumes "materialize_controller_reviews env flow candidate s = (Inr rs, t)"
  shows "list_all2 (reviewed candidate) REQUIRED_CONTROLLER_CONTRACT_KEYS rs"
    and "set rs \<subseteq> set (decision_reviews t)"
    and "decisions t = decisions s" and "decision_workflows t = decision_workflows s"
    and "specialist_contributions t = specialist_contributions s"
proof -
  from assms obtain u where u: "map_prog (materialize_controller_review env flow candidate)
        REQUIRED_CONTROLLER_CONTRACT_KEYS s = (Inr rs, u)"
    and t: "t = u\<lparr>decision_candidates := row_set rid (rid candidate)
       (\<lambda>c. c\<lparr>ca_controller_review_ids := map rid rs\<rparr>) (decision_candidates u), sql_jobs := jobs u, unit_of_work := []\<rparr>"
    unfolding materialize_controller_reviews_def
    by (auto elim!: bnd_okE simp: run_modify run_flush run_ret)
  note loop = materialize_reviews_loop [OF u]
  show "list_all2 (reviewed candidate) REQUIRED_CONTROLLER_CONTRACT_KEYS rs" "set rs \<subseteq> set (decision_reviews t)"
      "decisions t = decisions s" "decision_workflows t = decision_workflows s"
      "specialist_contributions t = specialist_contributions s"
    using loop by (auto simp: t only_reviews_def same_core_def)
qed

lemma reviews_of_candidate:
  "list_all2 (reviewed candidate) keys rs \<Longrightarrow> q \<in> set rs \<Longrightarrow> dr_decision_candidate_id q = Some (rid candidate)"
  by (induction rule: list_all2_induct) (auto simp: reviewed_def)

section \<open>Where decisions come from\<close>

definition same_decisions :: "'z workflow_store_scheme \<Rightarrow> 'z workflow_store_scheme \<Rightarrow> bool" where
  "same_decisions s t \<longleftrightarrow> decisions t = decisions s"

interpretation sd: state_preorder same_decisions
  by unfold_locales (simp_all add: same_decisions_def)

lemma core_decisions: "tracks same_core m \<Longrightarrow> tracks same_decisions m"
  by (simp add: tracks_def same_core_def same_decisions_def)

lemma status_decisions:
  "tracks same_decisions (set_workflow_status st flow)" "tracks same_decisions (set_candidate_status cst c)"
  "tracks same_decisions (update_workflow flow f)"
  by (simp_all add: tracks_def same_decisions_def set_workflow_status_def update_workflow_run set_candidate_status_run)

lemmas decisions_rules = sd.t_rules status_decisions core_primitives [THEN core_decisions]
  enqueue_advance_core [THEN core_decisions] ensure_core [THEN core_decisions]

lemma early_decisions:
  "tracks same_decisions (advance_snapshot_ready env reg flow now)"
  "tracks same_decisions (advance_specialists_running env reg flow now)"
  "tracks same_decisions (advance_chief_running env reg flow now)"
  unfolding advance_snapshot_ready_def advance_specialists_running_def advance_chief_running_def
    materialize_specialist_contributions_def materialize_specialist_contribution_def materialize_candidate_def
  by (intro decisions_rules sd.t_modify; simp add: same_decisions_def)+

lemma outcome_decides:
  assumes run: "apply_outcome env reg revises flow candidate reviews outcome now s = (Inr (), t)"
    and new: "decisions t \<noteq> decisions s"
  obtains out i where "outcome \<noteq> BLOCK" "outcome \<notin> set revises" "dw_final_decision_id flow = None"
    "validate_candidate env (ca_payload candidate) = Inr out" "strip (dcd_selected_action out) \<noteq> []"
    "decisions t = decisions s @ [decision_of flow candidate out i]"
    "decision_reviews t = decision_reviews (bind_reviews candidate i s)"
    "decision_workflows t = row_set rid (rid flow) (\<lambda>w. w\<lparr>dw_final_decision_id := Some i,
       dw_status := AWAITING_DECISION_APPROVAL\<rparr>) (decision_workflows s)"
proof -
  have revise: "decisions t = decisions s" if "outcome = BLOCK \<or> outcome \<in> set revises"
  proof -
    have "tracks same_decisions (apply_outcome env reg revises flow candidate reviews outcome now)"
      using that unfolding apply_outcome_def by (intro decisions_rules) auto
    from tracksD [OF this run] show ?thesis by (simp add: same_decisions_def)
  qed
  with new have acc: "outcome \<noteq> BLOCK" "outcome \<notin> set revises" by auto
  let ?u = "s\<lparr>decision_candidates := row_set rid (rid candidate) (\<lambda>r. r\<lparr>ca_status := ACCEPTED\<rparr>) (decision_candidates s),
      decision_workflows := row_set rid (rid flow) (\<lambda>w. w\<lparr>dw_status := CANDIDATE_ACCEPTED\<rparr>) (decision_workflows s),
      unit_of_work := unit_of_work s @ [(org candidate, biz candidate), (org flow, biz flow)]\<rparr>"
  from run acc obtain d v where m: "materialize_final_decision env flow candidate now ?u = (Inr d, v)"
    and t: "set_workflow_status AWAITING_DECISION_APPROVAL flow v = (Inr (), t)"
    unfolding apply_outcome_def set_workflow_status_def
    by (auto elim!: bnd_okE simp: set_candidate_status_run update_workflow_run)
  have tv: "decisions t = decisions v" "decision_reviews t = decision_reviews v"
      "decision_workflows t = row_set rid (rid flow) (\<lambda>w. w\<lparr>dw_status := AWAITING_DECISION_APPROVAL\<rparr>) (decision_workflows v)"
    using t by (auto simp: set_workflow_status_def update_workflow_run)
  have none: "dw_final_decision_id flow = None"
  proof (rule ccontr)
    assume "dw_final_decision_id flow \<noteq> None"
    with m have "v = ?u" by (auto simp: materialize_final_decision_def run_simps split: option.splits)
    with tv(1) new show False by simp
  qed
  with m obtain out where o: "validate_candidate env (ca_payload candidate) = Inr out"
      "strip (dcd_selected_action out) \<noteq> []" "insert_decision flow candidate out now ?u = (Inr d, v)"
    by (auto simp: materialize_final_decision_def run_lift_sum run_require split: sum.splits if_splits
        elim!: bnd_okE)
  from insert_decision_run [OF o(3)] obtain i where i: "d = decision_of flow candidate out i"
      "decisions v = decisions s @ [d]" "decision_reviews v = decision_reviews (bind_reviews candidate i s)"
      "decision_workflows v = row_set rid (rid flow) (\<lambda>w. w\<lparr>dw_final_decision_id := Some i,
         dw_status := FINAL_DECISION_MATERIALIZED\<rparr>) (decision_workflows s)"
    by (auto simp: same_core_def bind_reviews_def)
  show thesis
    by (rule that [OF acc none o(1,2), of i]) (use i tv in simp_all)
qed

text \<open>
  Claim C4. A decision exists only if it was governed: when an advance of the guarded workflow adds a
  decision, the workflow was waiting for its controllers and had no decision yet; each of the seven
  controllers has a stored review of the latest candidate and the governed outcome of these reviews is
  \<open>PASS\<close>; the decision says what the candidate says, with an action that is not blank; exactly
  one decision is added, the workflow waits for the owner with this decision, and every review is bound
  to it.
\<close>

theorem decision_is_governed:
  assumes run: "GuardedDecisionWorkflowAdvanceHandler_handle env reg context pl now s = (Inr (), t)"
    and new: "decisions t \<noteq> decisions s"
  shows "\<exists>i flow candidate reviews out d. workflow_id_of pl = Inr i \<and> flow_at i s = Some flow \<and>
    org flow = organization_id context \<and> biz flow = business_id context \<and>
    dw_status flow = CONTROLLERS_RUNNING \<and> dw_final_decision_id flow = None \<and>
    latest_candidate flow s = Inr candidate \<and>
    list_all2 (reviewed candidate) REQUIRED_CONTROLLER_CONTRACT_KEYS reviews \<and>
    governed_controller_outcome (float_repr env) (ca_payload candidate) reviews = Inr PASS \<and>
    validate_candidate env (ca_payload candidate) = Inr out \<and> strip (dcd_selected_action out) \<noteq> [] \<and>
    d = decision_of flow candidate out (rid d) \<and> decisions t = decisions s @ [d] \<and>
    flow_at i t = Some (flow\<lparr>dw_final_decision_id := Some (rid d), dw_status := AWAITING_DECISION_APPROVAL\<rparr>) \<and>
    (\<forall>r \<in> set reviews. r\<lparr>dr_decision_id := Some (rid d)\<rparr> \<in> set (decision_reviews t))"
proof -
  obtain i flow where f: "workflow_id_of pl = Inr i" "flow_at i s = Some flow" "rid flow = i"
      "org flow = organization_id context" "biz flow = business_id context"
    and adv: "guarded_advance env reg flow now s = (Inr (), t)"
    using run unfolding GuardedDecisionWorkflowAdvanceHandler_handle_def by (rule handle_advance_run)
  have st: "dw_status flow = CONTROLLERS_RUNNING"
    using adv new early_decisions [THEN tracksD, of env reg flow now s "Inr ()" t]
    by (auto simp: guarded_advance_def advance_workflow_def same_decisions_def run_ret
        split: DecisionWorkflowStatus.splits)
  let ?oc = "\<lambda>candidate. governed_controller_outcome (float_repr env) (ca_payload candidate)"
  obtain candidate u1 rs u2 outcome where
      c: "latest_candidate flow s = Inr candidate" and u1: "same_core s u1"
    and rs: "materialize_controller_reviews env flow candidate u1 = (Inr rs, u2)"
    and oc: "?oc candidate rs = Inr outcome"
    and ap: "apply_outcome env reg [REVISE, PASS_WITH_CONDITIONS] flow candidate rs outcome now u2 = (Inr (), t)"
  proof -
    from adv st have "advance_controllers_running env reg [REVISE, PASS_WITH_CONDITIONS] ?oc flow now s = (Inr (), t)"
      by (simp add: guarded_advance_def advance_workflow_def)
    then obtain candidate u1 n where a: "latest_candidate flow s = Inr candidate"
        "ensure_controller_runs env reg flow candidate now s = (Inr n, u1)"
      and rest: "(if n \<noteq> 0 then
         bnd (gets (controller_run_generation flow candidate)) (\<lambda>generation.
         bnd (enqueue_workflow_advance flow
              (''after-controllers:'' @ show_int (ca_version_number candidate) @ '':controller-output-retry:'' @
               show_nat generation) now) (\<lambda>_. ret ()))
       else bnd (materialize_controller_reviews env flow candidate) (\<lambda>reviews.
         bnd (lift_sum (?oc candidate reviews)) (\<lambda>outcome.
         apply_outcome env reg [REVISE, PASS_WITH_CONDITIONS] flow candidate reviews outcome now))) u1 = (Inr (), t)"
      unfolding advance_controllers_running_def by (auto elim!: bnd_okE simp: run_gets run_lift_sum)
    have u1: "same_core s u1" by (rule tracksD [OF ensure_core(3) a(2)])
    have "n = 0"
    proof (rule ccontr)
      assume "n \<noteq> 0"
      with rest have "same_core u1 t"
        by (auto elim!: bnd_okE simp: run_gets run_ret dest: tracksD [OF enqueue_advance_core])
      with u1 new show False by (simp add: same_core_def)
    qed
    with rest that [OF a(1) u1] show thesis by (auto elim!: bnd_okE simp: run_lift_sum)
  qed
  note r = materialize_reviews_result [OF rs]
  have "decisions t \<noteq> decisions u2" using new u1 r(3) by (simp add: same_core_def)
  from outcome_decides [OF ap this] obtain out j where
      o: "outcome \<noteq> BLOCK" "outcome \<notin> set [REVISE, PASS_WITH_CONDITIONS]" "dw_final_decision_id flow = None"
      "validate_candidate env (ca_payload candidate) = Inr out" "strip (dcd_selected_action out) \<noteq> []"
      "decisions t = decisions u2 @ [decision_of flow candidate out j]"
      "decision_reviews t = decision_reviews (bind_reviews candidate j u2)"
      "decision_workflows t = row_set rid (rid flow) (\<lambda>w. w\<lparr>dw_final_decision_id := Some j,
         dw_status := AWAITING_DECISION_APPROVAL\<rparr>) (decision_workflows u2)"
    by blast
  have pass: "outcome = PASS" using o(1,2) by (cases outcome) auto
  have flow': "flow_at i t = Some (flow\<lparr>dw_final_decision_id := Some j, dw_status := AWAITING_DECISION_APPROVAL\<rparr>)"
    using f(2,3) u1 r(4) by (simp add: o(8) same_core_def flowtab.get_set_same flowtab.stable_def flow_ident_def)
  have bound: "q\<lparr>dr_decision_id := Some j\<rparr> \<in> set (decision_reviews t)" if "q \<in> set rs" for q
  proof -
    have "dr_decision_candidate_id q = Some (rid candidate)" using r(1) that by (rule reviews_of_candidate)
    moreover have "q \<in> set (decision_reviews u2)" using that r(2) by blast
    ultimately show ?thesis unfolding o(7) bind_reviews_def by (auto simp: image_iff intro!: bexI [of _ q])
  qed
  let ?d = "decision_of flow candidate out j"
  have id: "rid ?d = j" by (simp add: decision_of_def)
  show ?thesis
    by (intro exI [of _ i] exI [of _ flow] exI [of _ candidate] exI [of _ rs] exI [of _ out] exI [of _ ?d] conjI ballI)
      (use f st o c r u1 oc pass flow' bound in \<open>simp_all add: id same_core_def\<close>)
qed

theorem decision_is_governed_witness:
  "governed_controller_outcome (float_repr flow_env) (ca_payload flow_candidate)
     (map (flow_review_row PASS) REQUIRED_CONTROLLER_CONTRACT_KEYS) = Inr PASS \<and>
   (\<exists>i flow candidate reviews d. flow_at i (reviewed_db PASS) = Some flow \<and>
      list_all2 (reviewed candidate) REQUIRED_CONTROLLER_CONTRACT_KEYS reviews \<and>
      governed_controller_outcome (float_repr flow_env) (ca_payload candidate) reviews = Inr PASS \<and>
      decisions decided_db = [d] \<and>
      flow_at i decided_db = Some (flow\<lparr>dw_final_decision_id := Some (rid d), dw_status := AWAITING_DECISION_APPROVAL\<rparr>))"
proof (rule conjI [OF example_passes])
  have "decisions decided_db \<noteq> decisions (reviewed_db PASS)" by (simp add: example_decides)
  from decision_is_governed [OF example_decides(1) this] show "\<exists>i flow candidate reviews d.
      flow_at i (reviewed_db PASS) = Some flow \<and>
      list_all2 (reviewed candidate) REQUIRED_CONTROLLER_CONTRACT_KEYS reviews \<and>
      governed_controller_outcome (float_repr flow_env) (ca_payload candidate) reviews = Inr PASS \<and>
      decisions decided_db = [d] \<and>
      flow_at i decided_db = Some (flow\<lparr>dw_final_decision_id := Some (rid d), dw_status := AWAITING_DECISION_APPROVAL\<rparr>)"
    unfolding example_decides(3) append_Nil by metis
qed

end
