(* ===== verification/Decision_Progress.thy ===== *)
theory Decision_Progress
  imports Decision_Example
begin

text \<open>
  How a decision workflow moves: each advance of either handler is a step of the abstract machine or a
  wait, a workflow changes a bounded number of times, and a wait whose retry job exists already
  changes nothing at all.
\<close>

text \<open>
  Claim C9. Refinement: an advance of the decision workflow that returns, by the base or by the guarded
  handler, is at most one step of the abstract machine. It reads the workflow of its job, which belongs
  to the organization and business of the job; it leaves the row as it is or moves it along one edge
  of the machine, with the guards on the number of revision rounds, and keeps the columns that
  identify the workflow; every other workflow is untouched.
\<close>

theorem advance_refines_machine:
  assumes handler: "handler = DecisionWorkflowAdvanceHandler_handle env reg \<or>
      handler = GuardedDecisionWorkflowAdvanceHandler_handle env reg"
    and run: "handler context pl now s = (Inr (), t)"
  shows "\<exists>i flow flow'. workflow_id_of pl = Inr i \<and> flow_at i s = Some flow \<and> flow_at i t = Some flow' \<and>
    org flow = organization_id context \<and> biz flow = business_id context \<and> flow_ident flow' = flow_ident flow \<and>
    (flow' = flow \<or> machine_step (dw_max_revision_rounds flow) (flow_state_of flow) (flow_state_of flow')) \<and>
    (\<forall>j. j \<noteq> i \<longrightarrow> flow_at j t = flow_at j s)"
proof -
  obtain revises outcome_of where h: "handler = handle_advance (advance_workflow env reg revises outcome_of)"
    using handler by (auto simp: DecisionWorkflowAdvanceHandler_handle_def GuardedDecisionWorkflowAdvanceHandler_handle_def
        base_advance_def guarded_advance_def)
  obtain i flow where f: "workflow_id_of pl = Inr i" "flow_at i s = Some flow"
      "org flow = organization_id context" "biz flow = business_id context"
    using run unfolding h by (rule handle_advance_run)
  obtain i' v flow' where v: "workflow_id_of pl = Inr i'" "flow_at i' s = Some v" "flow_at i' t = Some flow'"
      "flow_ident flow' = flow_ident v"
      "flow' = v \<or> machine_step (dw_max_revision_rounds v) (flow_state_of v) (flow_state_of flow')"
      "\<And>j. j \<noteq> i' \<Longrightarrow> flow_at j t = flow_at j s"
    using run unfolding h by (rule handled_flow) (rule that; assumption)
  from f v have "i' = i" "v = flow" by simp_all
  with f v show ?thesis by (intro exI [of _ i] exI [of _ flow] exI [of _ flow'] conjI) simp_all
qed

theorem advance_refines_machine_witness:
  "\<exists>flow flow'. flow_at ''w'' (reviewed_db PASS) = Some flow \<and> flow_at ''w'' decided_db = Some flow' \<and>
     machine_step (dw_max_revision_rounds flow) (flow_state_of flow) (flow_state_of flow')"
proof -
  from advance_refines_machine [OF disjI2 [OF refl] example_decides(1)] obtain i flow flow' where
      f: "workflow_id_of flow_job = Inr i" "flow_at i (reviewed_db PASS) = Some flow" "flow_at i decided_db = Some flow'"
      "flow' = flow \<or> machine_step (dw_max_revision_rounds flow) (flow_state_of flow) (flow_state_of flow')"
    by blast
  have "dw_status flow' \<noteq> dw_status flow"
    using f(1-3) example_decides(5,6) flow_job_accepted(1) by auto
  with f flow_job_accepted(1) show ?thesis by auto
qed



definition retry_key :: "decision_workflow_row \<Rightarrow> 'z workflow_store_scheme \<Rightarrow> string" where
  "retry_key flow s =
     ''decision_workflow:'' @ rid flow @ '':advance:after-chief:'' @ show_int (next_candidate_version flow s) @
     '':chief-output-retry:'' @ show_nat (chief_run_generation flow (next_candidate_version flow s) s)"

text \<open>
  Claim C34. A waiting workflow stalls. While the chief is still working, an advance only sends itself
  again, under a key that names the number of chief runs and therefore stays the same. Once the job
  with that key has run, one more advance changes no table at all: it sends a wake-up for the
  completed job, which no worker can claim, and no later job will look at the workflow again.
\<close>

theorem waiting_workflow_stalls:
  assumes flow: "flow_at i s = Some flow" "dw_status flow = CHIEF_RUNNING"
    and scope: "org flow = organization_id context" "biz flow = business_id context"
    and pl: "pl = [(''workflow_id'', JStr i), (''payload_schema_version'', JInt 1)]" "no_secrets pl = Inr ()"
    and waiting: "list_ex pending (chief_agent_runs flow (next_candidate_version flow s) s)"
    and polled: "find_job (scope_of flow) JOB_TYPE_WORKFLOW_ADVANCE (retry_key flow s) s = j # js"
    and ran: "\<forall>q \<in> set (sql_jobs s). rid q = rid j \<longrightarrow> job_status q = JobStatus.SUCCEEDED"
  shows "GuardedDecisionWorkflowAdvanceHandler_handle env reg context pl now s = (Inr (), s\<lparr>wakeups := wakeups s @ [rid j]\<rparr>) \<and>
    claim_job (rid j) worker later lease (s\<lparr>wakeups := wakeups s @ [rid j]\<rparr>) =
      (Inr None, s\<lparr>wakeups := wakeups s @ [rid j]\<rparr>)"
proof -
  have id: "rid flow = i" using row_get_Some [OF flow(1)] by simp
  have wid: "workflow_id_of pl = Inr i" by (simp add: pl(1) workflow_id_of_def dict_get_def)
  let ?v = "next_candidate_version flow s"
  have state: "chief_run_state env flow ?v s = Inr Pending"
    using waiting by (simp add: chief_run_state_def run_state_of_def)
  have accepts: "create_job_accepts JOB_TYPE_WORKFLOW_ADVANCE pl 1 5"
    using pl(2) by (simp add: create_job_accepts_def no_secrets_iff [symmetric] REGISTERED_JOB_TYPES_def CANONICAL_JOB_TYPES_def)
  have job: "create_job (scope_of flow) JOB_TYPE_WORKFLOW_ADVANCE pl 1 (retry_key flow s) now 5 None
      (dw_correlation_id flow) (Some i) s = (Inr j, s)"
    by (subst create_job_run) (use polled in \<open>simp add: accepts\<close>)
  have adv: "advance_chief_running env reg flow now s = (Inr (), s\<lparr>wakeups := wakeups s @ [rid j]\<rparr>)"
    using job
    by (simp add: advance_chief_running_def ensure_chief_run_def run_bnd run_gets run_lift_sum run_ret state
        enqueue_workflow_advance_def enqueue_def run_modify id retry_key_def pl(1))
  have handled: "GuardedDecisionWorkflowAdvanceHandler_handle env reg context pl now s = (Inr (), s\<lparr>wakeups := wakeups s @ [rid j]\<rparr>)"
    using flow scope pl(2)
    by (simp add: GuardedDecisionWorkflowAdvanceHandler_handle_def handle_advance_def guarded_advance_def
        advance_workflow_def run_bnd run_check_no_secrets run_lift_sum run_gets run_required run_check_scope
        assert_matches_def wid adv)
  have "\<not> list_ex (\<lambda>q. rid q = rid j \<and> claimable later q) (sql_jobs s)"
    using ran by (auto simp: list_ex_iff claimable_def)
  then have "claim_job (rid j) worker later lease (s\<lparr>wakeups := wakeups s @ [rid j]\<rparr>) =
      (Inr None, s\<lparr>wakeups := wakeups s @ [rid j]\<rparr>)"
    by (simp add: claim_job_def run_bnd run_gets run_ret)
  with handled show ?thesis ..
qed

definition polled_flow :: decision_workflow_row where
  "polled_flow = flow_row CHIEF_RUNNING"

definition polling_db :: workflow_store where
  "polling_db = empty_db\<lparr>decision_workflows := [polled_flow],
     agent_runs := [(flow_run ''r'' CHIEF_GROWTH_PRODUCER_CONTRACT_KEY (chief_run_input_ref polled_flow 1) [])
       \<lparr>ar_status := AgentRunStatus.RUNNING\<rparr>]\<rparr>"

definition retry_job :: job_row where
  "retry_job = (new_job (scope_of polled_flow) JOB_TYPE_WORKFLOW_ADVANCE flow_job 1 (retry_key polled_flow polling_db) 0 5 None
     None None ''job'')\<lparr>job_status := JobStatus.SUCCEEDED\<rparr>"

definition waiting_db :: workflow_store where
  "waiting_db = polling_db\<lparr>jobs := [retry_job], sql_jobs := [retry_job]\<rparr>"

theorem waiting_workflow_stalls_witness:
  "GuardedDecisionWorkflowAdvanceHandler_handle flow_env Map.empty flow_context flow_job 9 waiting_db =
     (Inr (), waiting_db\<lparr>wakeups := [''job'']\<rparr>) \<and>
   claim_job ''job'' ''worker'' 100 60 (waiting_db\<lparr>wakeups := [''job'']\<rparr>) = (Inr None, waiting_db\<lparr>wakeups := [''job'']\<rparr>)"
proof -
  have j: "rid retry_job = ''job''" "org retry_job = ''o''" "biz retry_job = ''b''"
      "job_type retry_job = JOB_TYPE_WORKFLOW_ADVANCE" "idempotency_key retry_job = retry_key polled_flow polling_db"
      "job_status retry_job = JobStatus.SUCCEEDED"
    by (simp_all add: retry_job_def new_job_def polled_flow_def)
  have key: "retry_key polled_flow waiting_db = retry_key polled_flow polling_db"
    by (simp add: retry_key_def waiting_db_def next_candidate_version_def candidates_of_def chief_run_generation_def
        run_generation_def)
  have v: "next_candidate_version polled_flow waiting_db = 1"
    by (simp add: next_candidate_version_def candidates_of_def waiting_db_def polling_db_def empty_db_def)
  have "GuardedDecisionWorkflowAdvanceHandler_handle flow_env Map.empty flow_context flow_job 9 waiting_db =
       (Inr (), waiting_db\<lparr>wakeups := wakeups waiting_db @ [rid retry_job]\<rparr>) \<and>
     claim_job (rid retry_job) ''worker'' 100 60 (waiting_db\<lparr>wakeups := wakeups waiting_db @ [rid retry_job]\<rparr>) =
       (Inr None, waiting_db\<lparr>wakeups := wakeups waiting_db @ [rid retry_job]\<rparr>)"
  proof (rule waiting_workflow_stalls)
    show "flow_at ''w'' waiting_db = Some polled_flow"
      by (simp add: waiting_db_def polling_db_def row_get_def polled_flow_def)
    show "dw_status polled_flow = CHIEF_RUNNING" "org polled_flow = organization_id flow_context"
        "biz polled_flow = business_id flow_context"
      by (simp_all add: polled_flow_def flow_context_def)
    show "flow_job = [(''workflow_id'', JStr ''w''), (''payload_schema_version'', JInt 1)]" by (rule flow_job_def)
    show "no_secrets flow_job = Inr ()" by (rule flow_job_accepted)
    show "list_ex pending (chief_agent_runs polled_flow (next_candidate_version polled_flow waiting_db) waiting_db)"
      unfolding v by (simp add: chief_agent_runs_def runs_for_def waiting_db_def polling_db_def flow_run_def pending_def polled_flow_def)
    show "find_job (scope_of polled_flow) JOB_TYPE_WORKFLOW_ADVANCE (retry_key polled_flow waiting_db) waiting_db = retry_job # []"
      unfolding key by (simp add: waiting_db_def sql_select_jobs_def j) (simp add: polled_flow_def)
    show "\<forall>q \<in> set (sql_jobs waiting_db). rid q = rid retry_job \<longrightarrow> job_status q = JobStatus.SUCCEEDED"
      by (simp add: waiting_db_def j)
  qed
  then show ?thesis by (simp add: j waiting_db_def polling_db_def empty_db_def)
qed

end
