(* ===== verification/Decision_Budget.thy ===== *)
theory Decision_Budget
  imports Decision_Progress Agent_Registry
begin

text \<open>
  How often a workflow may ask an agent: for each question, that is a contract and an input, no more
  than three agent runs are ever created.
\<close>

definition run_key :: "agent_run_row \<Rightarrow> string \<times> string \<times> string \<times> int \<times> string option" where
  "run_key r = (org r, biz r, ar_contract_key r, ar_contract_version r, ar_input_ref r)"

definition run_keys :: "'z agent_store_scheme \<Rightarrow> (string \<times> string \<times> string \<times> int \<times> string option) list" where
  "run_keys s = map run_key (agent_runs s)"

definition within_budget :: "'z agent_store_scheme \<Rightarrow> bool" where
  "within_budget s \<longleftrightarrow> (\<forall>flow key input_ref. length (runs_for flow key input_ref s) \<le> MAX_OUTPUT_ATTEMPTS)"

lemma runs_for_count:
  "length (runs_for flow key input_ref s) = count_list (run_keys s) (org flow, biz flow, key, 1, Some input_ref)"
  unfolding runs_for_def run_keys_def count_list_eq_length_filter length_rev length_sort filter_map length_map comp_def
  by (rule arg_cong [where f = length], rule filter_cong [OF refl]) (auto simp: run_key_def)

definition same_runs :: "'z agent_store_scheme \<Rightarrow> 'z agent_store_scheme \<Rightarrow> bool" where
  "same_runs s t \<longleftrightarrow> run_keys t = run_keys s"

interpretation sr: state_preorder same_runs
  by unfold_locales (simp_all add: same_runs_def)

lemma runs_primitives:
  "tracks same_runs new_id" "tracks same_runs flush" "tracks same_runs (touch og bz)"
  "tracks same_runs (enqueue i)" "tracks same_runs (check_scope scope og bz)"
  "tracks same_runs (check_no_secrets pl)" "tracks same_runs (add_audit a)" "tracks same_runs (add_outbox q)"
  by (auto simp: tracks_def same_runs_def run_keys_def run_simps add_audit_def add_outbox_def check_no_secrets_def check_scope_def)

lemma create_job_runs: "tracks same_runs (create_job scope jtype pl sv key now mx av co ca)"
proof (rule tracksI)
  fix s :: "'z agent_store_scheme"
  obtain r t where run: "create_job scope jtype pl sv key now mx av co ca s = (r, t)" by (metis prod.exhaust)
  have "same_runs s t"
    by (cases r) (use run create_job_error create_job_result in \<open>fastforce simp: same_runs_def run_keys_def\<close>)+
  with run show "same_runs s (snd (create_job scope jtype pl sv key now mx av co ca s))" by simp
qed

lemmas runs_rules = sr.t_rules runs_primitives create_job_runs

lemma update_run_keys:
  "(\<And>r. run_key (f r) = run_key r) \<Longrightarrow> map run_key (row_set rid i f rs) = map run_key rs"
  by (simp add: row_set_def)

text \<open>Creating an agent run adds one run for its question, or none.\<close>

definition adds_run ::
  "string \<times> string \<times> string \<times> int \<times> string option \<Rightarrow> ('z agent_store_scheme, 'a) prog \<Rightarrow> bool" where
  "adds_run k m \<longleftrightarrow> (\<forall>s. run_keys (snd (m s)) \<in> {run_keys s, run_keys s @ [k]})"

lemma adds_same: "tracks same_runs m \<Longrightarrow> adds_run k m"
  by (simp add: adds_run_def tracks_def same_runs_def)

lemma adds_then: "tracks same_runs m \<Longrightarrow> (\<And>x. adds_run k (f x)) \<Longrightarrow> adds_run k (bnd m f)"
  unfolding adds_run_def bnd_def tracks_def same_runs_def by (auto split: prod.splits sum.splits) (metis snd_conv)+

lemma adds_now:
  "run_key run = k \<Longrightarrow> tracks same_runs (f ()) \<Longrightarrow>
   adds_run k (bnd (modify (\<lambda>s. s\<lparr>agent_runs := agent_runs s @ [run]\<rparr>)) f)"
  unfolding adds_run_def tracks_def same_runs_def by (simp add: run_bnd run_modify run_keys_def)

lemma create_agent_run_adds:
  assumes "registered reg"
  shows "adds_run (organization_id scope, business_id scope, key, ver, input_ref)
    (create_agent_run env reg scope key ver input_ref refs co ca jtype idem now)"
proof (cases "reg (key, ver)")
  case None
  then show ?thesis by (simp add: adds_run_def create_agent_run_def resolve_contract_def run_simps)
next
  case (Some c)
  with assms have c: "ct_contract_key c = key" "ct_contract_version c = ver" by (auto simp: registered_def)
  have def1: "tracks same_runs (ensure_agent_definition env scope c)"
    unfolding ensure_agent_definition_def by (intro runs_rules sr.t_modify) (simp_all add: same_runs_def run_keys_def)
  have resolved: "bnd (lift_sum (Inr c)) f = f c" for f :: "AgentContract \<Rightarrow> ('z agent_store_scheme, AgentRunCreationResult) prog"
    by (rule ext) (simp add: run_bnd run_lift_sum)
  show ?thesis
    unfolding create_agent_run_def resolve_contract_def Some option.case resolved Let_def
  proof (rule adds_then [OF def1], rule adds_then [OF sr.t_gets], goal_cases)
    case (1 d existing)
    show ?case
    proof (cases existing)
      case None
      show ?thesis unfolding None option.case
        by (rule adds_then [OF runs_primitives(1)], rule adds_now)
          (simp add: run_key_def new_agent_run_def c,
           intro runs_rules sr.t_modify, simp add: same_runs_def run_keys_def update_run_keys run_key_def)
    next
      case (Some run)
      show ?thesis unfolding Some option.case by (intro adds_same runs_rules)
    qed
  qed
qed

lemma adds_budget:
  assumes "adds_run (org flow, biz flow, key, 1, Some input_ref) m" "within_budget s"
    and "length (runs_for flow key input_ref s) < MAX_OUTPUT_ATTEMPTS"
  shows "within_budget (snd (m s))"
  using assms unfolding within_budget_def runs_for_count adds_run_def
  by (elim allE [of _ s] insertE) auto

section \<open>The handlers keep the budget\<close>

lemma same_budget: "tracks same_runs m \<Longrightarrow> keeps within_budget m"
  by (simp add: keeps_def tracks_def same_runs_def within_budget_def runs_for_count)

lemma state_create:
  "run_state_of can m runs = Inr Create \<Longrightarrow> length runs < MAX_OUTPUT_ATTEMPTS"
  by (auto simp: run_state_of_def split: if_splits sum.splits option.splits)

lemma keeps_query:
  "(\<And>x s. q s = Inr x \<Longrightarrow> I s \<Longrightarrow> I (snd (f x s))) \<Longrightarrow> keeps I (bnd (query q) f)"
  by (simp add: keeps_def tracks_def run_bnd run_gets run_lift_sum split: sum.split)

lemma keeps_at: "I (snd (m s)) \<Longrightarrow> (\<And>x. keeps I (f x)) \<Longrightarrow> I (snd (bnd m f s))"
  by (auto simp: keeps_def tracks_def bnd_def split: prod.splits sum.splits)

lemma count_not_ready_budget:
  assumes "\<And>k s. state_of k s = Inr Create \<Longrightarrow> within_budget s \<Longrightarrow> within_budget (snd (create k s))"
  shows "keeps within_budget (count_not_ready state_of create keys)"
proof (induction keys)
  case Nil
  show ?case by (simp add: keeps_rules)
next
  case (Cons key keys)
  show ?case unfolding count_not_ready.simps
  proof (rule keeps_query)
    fix st s assume st: "state_of key s = Inr st" and s: "within_budget s"
    have "within_budget (snd ((if st = Create then create key else ret ()) s))"
      using assms st s by (simp add: run_ret)
    then show "within_budget (snd (bnd (if st = Create then create key else ret ()) (\<lambda>_.
        bnd (count_not_ready state_of create keys) (\<lambda>n. ret (if st = Ready then n else Suc n))) s))"
      by (rule keeps_at) (intro keeps_rules Cons.IH)
  qed
qed

text \<open>A run is created only for a question that has fewer than three.\<close>

lemma create_budget:
  assumes reg: "registered reg" and s: "within_budget s" "length (runs_for flow key input_ref s) < MAX_OUTPUT_ATTEMPTS"
  shows "within_budget (snd (bnd (create_agent_run env reg (scope_of flow) key 1 (Some input_ref) refs co ca jtype idem now)
    (\<lambda>_. ret x) s))"
proof (rule keeps_at)
  show "within_budget (snd (create_agent_run env reg (scope_of flow) key 1 (Some input_ref) refs co ca jtype idem now s))"
    by (rule adds_budget [OF _ s]) (use create_agent_run_adds [OF reg, of "scope_of flow"] in simp)
qed (rule keeps_rules(1))

lemma ensure_budget:
  assumes reg: "registered reg"
  shows "keeps within_budget (ensure_specialist_runs env reg flow now)"
    and "keeps within_budget (ensure_chief_run env reg flow previous reviews now)"
    and "keeps within_budget (ensure_controller_runs env reg flow candidate now)"
proof -
  note create = create_budget [OF reg]
  show "keeps within_budget (ensure_specialist_runs env reg flow now)"
    unfolding ensure_specialist_runs_def
  proof (rule count_not_ready_budget, goal_cases)
    case (1 k s)
    then show ?case
      unfolding create_specialist_run_def specialist_run_state_def specialist_agent_runs_def bnd_gets
      by - (rule create, auto dest: state_create)
  qed
  show "keeps within_budget (ensure_controller_runs env reg flow candidate now)"
    unfolding ensure_controller_runs_def
  proof (rule count_not_ready_budget, goal_cases)
    case (1 k s)
    then show ?case
      unfolding create_controller_run_def controller_run_state_def controller_agent_runs_def bnd_gets
      by - (rule create, auto dest: state_create)
  qed
  show "keeps within_budget (ensure_chief_run env reg flow previous reviews now)"
    unfolding ensure_chief_run_def
  proof (rule keeps_rules(7) [OF keeps_rules(3)], rule keeps_query, goal_cases)
    case (1 v st s)
    note s = 1(2)
    show ?case
    proof (cases "st = Create")
      case True
      with 1(1) have "length (runs_for flow CHIEF_GROWTH_PRODUCER_CONTRACT_KEY (chief_run_input_ref flow v) s) < MAX_OUTPUT_ATTEMPTS"
        by (auto simp: chief_run_state_def chief_agent_runs_def dest: state_create)
      note made = create [OF s this]
      show ?thesis unfolding True bnd_gets
        by (auto split: prod.split simp: bnd_gets intro!: made)
    next
      case False
      with s show ?thesis by (cases st) (simp_all add: run_ret)
    qed
  qed
qed

lemma runs_frames:
  "tracks same_runs (emit context et ag aid pl now)" "tracks same_runs (append_audit context act ot oid pl)"
  "tracks same_runs (enqueue_workflow_advance flow suffix now)" "tracks same_runs (update_workflow flow f)"
  "tracks same_runs (set_workflow_status st flow)" "tracks same_runs (set_candidate_status cst c)"
  unfolding emit_def append_outbox_event_def append_audit_def enqueue_workflow_advance_def update_workflow_def
    set_workflow_status_def set_candidate_status_def
  by (intro runs_rules sr.t_modify; simp add: same_runs_def run_keys_def)+

lemma materialize_runs:
  "tracks same_runs (materialize_specialist_contributions env flow now)"
  "tracks same_runs (materialize_candidate env flow now)"
  "tracks same_runs (materialize_controller_reviews env flow candidate)"
  "tracks same_runs (materialize_final_decision env flow candidate now)"
  unfolding materialize_specialist_contributions_def materialize_specialist_contribution_def
    materialize_candidate_def materialize_controller_reviews_def materialize_controller_review_def
    materialize_final_decision_def insert_decision_def add_alternative_def add_experiment_def bind_reviews_def
  by (intro runs_rules runs_frames sr.t_modify; simp add: same_runs_def run_keys_def)+

lemmas budget_rules = keeps_rules runs_frames [THEN same_budget] materialize_runs [THEN same_budget]
  runs_primitives [THEN same_budget]

lemma advance_budget:
  assumes "registered reg"
  shows "keeps within_budget (advance_workflow env reg revises outcome_of flow now)"
  unfolding advance_workflow_def advance_snapshot_ready_def advance_specialists_running_def
    advance_chief_running_def advance_controllers_running_def apply_outcome_def
  by (cases "dw_status flow") (simp_all only: DecisionWorkflowStatus.case, (intro budget_rules ensure_budget [OF assms])+)

text \<open>
  Claim C20. The budget of agent runs is kept: whatever an advance of a workflow does, by the base or by
  the guarded handler, whether it returns or raises, no question, that is a contract with an input
  reference of one organization and business, has more than three agent runs if none had before.
\<close>

theorem agent_run_budget:
  assumes reg: "AgentRegistry cs = Inr reg"
    and handler: "handler = DecisionWorkflowAdvanceHandler_handle env reg \<or>
      handler = GuardedDecisionWorkflowAdvanceHandler_handle env reg"
    and run: "handler context pl now s = (r, t)"
    and before: "\<forall>flow key input_ref. length (runs_for flow key input_ref s) \<le> 3"
  shows "\<forall>flow key input_ref. length (runs_for flow key input_ref t) \<le> 3"
proof -
  have "keeps within_budget (handler context pl now)"
    using handler unfolding DecisionWorkflowAdvanceHandler_handle_def GuardedDecisionWorkflowAdvanceHandler_handle_def
      base_advance_def guarded_advance_def
    by (elim disjE; simp only: handle_advance_def) (intro budget_rules advance_budget [OF registered_built [OF reg]])+
  then have "within_budget s \<longrightarrow> within_budget t" using run unfolding keeps_def by (rule tracksD)
  with before show ?thesis by (simp add: within_budget_def MAX_OUTPUT_ATTEMPTS_def)
qed

theorem agent_run_budget_witness:
  "\<exists>reg. AgentRegistry phase3_contracts = Inr reg \<and>
     (\<forall>flow key input_ref. length (runs_for flow key input_ref
        (snd (GuardedDecisionWorkflowAdvanceHandler_handle flow_env reg flow_context flow_job 9
          (empty_db\<lparr>decision_workflows := [flow_row SNAPSHOT_READY]\<rparr>)))) \<le> 3)"
proof -
  obtain reg where reg: "AgentRegistry phase3_contracts = Inr reg"
    using phase3_built unfolding phase3_agent_registry_def by (cases "AgentRegistry phase3_contracts") auto
  have none: "\<forall>flow key input_ref. length (runs_for flow key input_ref
      (empty_db\<lparr>decision_workflows := [flow_row SNAPSHOT_READY]\<rparr>)) \<le> 3"
    by (simp add: runs_for_def empty_db_def)
  show ?thesis
    by (intro exI [of _ reg] conjI reg)
      (rule agent_run_budget [OF reg disjI2 [OF refl] surjective_pairing none])
qed

end
