(* ===== verification/Decision_Approval.thy ===== *)
theory Decision_Approval
  imports Decision_Example
begin

text \<open>
  The owner's approval of a decision: it binds exactly the decision that the workflow made, in its
  version, it is given once, and asking again gives the same approval and changes nothing.
\<close>

interpretation dectab: keyed_table "rid :: decision_row \<Rightarrow> string" rid
  by unfold_locales simp

lemma insert_approval_run:
  assumes "insert_decision_approval context flow decision c user now s = (Inr a, t)"
  shows "a = approval_of context flow decision c user now (uuids s (uuid_pos s)) \<and>
    same_core (s\<lparr>decision_approvals := decision_approvals s @ [a],
      decisions := row_set rid (rid decision) (\<lambda>d. d\<lparr>dc_status := ''APPROVED_FOR_PRODUCTION''\<rparr>) (decisions s),
      decision_workflows := row_set rid (rid flow) (\<lambda>w. w\<lparr>dw_final_approval_id := Some (rid a),
        dw_status := APPROVED_FOR_PRODUCTION\<rparr>) (decision_workflows s)\<rparr>) t"
proof -
  note same = tracksD [OF event_core(1)] tracksD [OF event_core(2)] tracksD [OF core_primitives(2)]
  from assms show ?thesis unfolding insert_decision_approval_def Let_def
    by (elim bnd_okE) (auto dest!: same simp: run_ret run_modify run_new_id update_workflow_run touch_def same_core_def
        approval_of_def)
qed

abbreviation existing_approval :: "decision_row \<Rightarrow> 'z workflow_store_scheme \<Rightarrow> decision_approval_row option" where
  "existing_approval d s \<equiv> select_first (\<lambda>b. da_decision_id b = rid d \<and>
     da_action_type b = DECISION_APPROVAL_ACTION \<and> da_object_version_id b = rid d) (decision_approvals s)"

text \<open>A successful approval either gives back the one that exists or writes a new one.\<close>

lemma approve_run:
  assumes "approve_decision_for_production context w user now s = (Inr a, t)"
  obtains (bound) flow where "flow_at w s = Some flow" "org flow = organization_id context" "biz flow = business_id context"
      "dw_status flow = APPROVED_FOR_PRODUCTION" "bound_approval flow s = Inr a" "t = s"
    | (given) flow d where "flow_at w s = Some flow" "org flow = organization_id context" "biz flow = business_id context"
      "dw_status flow = AWAITING_DECISION_APPROVAL" "dw_final_decision_id flow = Some (rid d)"
      "row_get rid (rid d) (decisions s) = Some d" "org d = organization_id context" "biz d = business_id context"
      "dc_source_candidate_id d \<noteq> None" "existing_approval d s = Some a" "t = s"
    | (fresh) flow d c where "flow_at w s = Some flow" "org flow = organization_id context" "biz flow = business_id context"
      "dw_status flow = AWAITING_DECISION_APPROVAL" "dw_final_decision_id flow = Some (rid d)"
      "row_get rid (rid d) (decisions s) = Some d"
      "existing_approval d s = None"
      "insert_decision_approval context flow d c user now s = (Inr a, t)"
proof -
  from assms obtain flow where f: "flow_at w s = Some flow" "org flow = organization_id context" "biz flow = business_id context"
    and rest: "(if dw_status flow = APPROVED_FOR_PRODUCTION then query (bound_approval flow) else
       bnd (require (dw_status flow = AWAITING_DECISION_APPROVAL)
             (PermanentJobError ''DecisionWorkflow is not awaiting decision approval'')) (\<lambda>_.
       bnd (required (dw_final_decision_id flow) (PermanentJobError ''DecisionWorkflow has no final Decision'')) (\<lambda>decision_id.
       bnd (gets (\<lambda>s. Option.bind (row_get rid decision_id (decisions s)) (\<lambda>d.
              map_option (\<lambda>c. (d, c)) (dc_source_candidate_id d)))) (\<lambda>provenance.
       bnd (required provenance (PermanentJobError ''Final Decision provenance is incomplete'')) (\<lambda>(decision, candidate_id).
       bnd (check_scope context (org decision) (biz decision)) (\<lambda>_.
       bnd (gets (existing_approval decision)) (\<lambda>existing.
       case existing of
         Some a \<Rightarrow> ret a
       | None \<Rightarrow> insert_decision_approval context flow decision candidate_id user now))))))) s = (Inr a, t)"
    unfolding approve_decision_for_production_def
    by (auto elim!: bnd_okE simp: run_gets run_required run_check_scope assert_matches_ok split: option.splits)
  show thesis
  proof (cases "dw_status flow = APPROVED_FOR_PRODUCTION")
    case True
    with rest have "bound_approval flow s = Inr a" "t = s" by (auto elim!: bnd_okE simp: run_gets run_lift_sum)
    with bound f True show thesis by blast
  next
    case False
    with rest obtain did d c where w: "dw_status flow = AWAITING_DECISION_APPROVAL"
        "dw_final_decision_id flow = Some did" "row_get rid did (decisions s) = Some d"
      and d: "org d = organization_id context" "biz d = business_id context" "dc_source_candidate_id d \<noteq> None"
      and last: "existing_approval d s = Some a \<and> t = s \<or>
        existing_approval d s = None \<and> insert_decision_approval context flow d c user now s = (Inr a, t)"
      by (auto elim!: bnd_okE simp: run_gets run_require run_required run_check_scope assert_matches_ok run_ret
          split: option.splits if_splits bind_splits)
    then have "did = rid d" by (auto dest: row_get_Some)
    note w = w [unfolded this]
    show thesis
    proof (cases "existing_approval d s")
      case None
      with last fresh [OF f w] show thesis by auto
    next
      case (Some b)
      with last given [OF f w d] show thesis by auto
    qed
  qed
qed

lemma approve_bound:
  "flow_at w s = Some flow \<Longrightarrow> org flow = organization_id context \<Longrightarrow> biz flow = business_id context \<Longrightarrow>
   dw_status flow = APPROVED_FOR_PRODUCTION \<Longrightarrow> bound_approval flow s = Inr a \<Longrightarrow>
   approve_decision_for_production context w user now s = (Inr a, s)"
  by (simp add: approve_decision_for_production_def run_simps assert_matches_def)

lemma approve_given:
  "flow_at w s = Some flow \<Longrightarrow> org flow = organization_id context \<Longrightarrow> biz flow = business_id context \<Longrightarrow>
   dw_status flow = AWAITING_DECISION_APPROVAL \<Longrightarrow> dw_final_decision_id flow = Some (rid d) \<Longrightarrow>
   row_get rid (rid d) (decisions s) = Some d \<Longrightarrow> org d = organization_id context \<Longrightarrow> biz d = business_id context \<Longrightarrow>
   dc_source_candidate_id d \<noteq> None \<Longrightarrow> existing_approval d s = Some a \<Longrightarrow>
   approve_decision_for_production context w user now s = (Inr a, s)"
  by (auto simp: approve_decision_for_production_def run_simps assert_matches_def)

text \<open>
  Claim C19. A decision is approved once, for what it is. An approval that succeeds belongs to a
  workflow of the caller's organization and business that waits for its owner or has been approved;
  asking again, by whoever and whenever, gives back the same approval and changes nothing. If a new
  approval is written, it is the only approval of the workflow's final decision, it matches exactly
  this decision and its version, it names the user, and the decision and the workflow are marked approved.
\<close>

theorem decision_approved_once:
  assumes run: "approve_decision_for_production context w user now s = (Inr a, t)"
    and new: "uuids s (uuid_pos s) \<notin> rid ` set (decision_approvals s)"
    and again: "organization_id context' = organization_id context" "business_id context' = business_id context"
  shows "approve_decision_for_production context' w user' now' t = (Inr a, t) \<and>
    (\<exists>flow. flow_at w s = Some flow \<and> org flow = organization_id context \<and> biz flow = business_id context \<and>
       (t = s \<and> a \<in> set (decision_approvals s) \<and> dw_status flow \<in> {AWAITING_DECISION_APPROVAL, APPROVED_FOR_PRODUCTION} \<or>
        (\<exists>d. dw_status flow = AWAITING_DECISION_APPROVAL \<and> dw_final_decision_id flow = Some (rid d) \<and>
           row_get rid (rid d) (decisions s) = Some d \<and> approval_matches_decision a d \<and> da_approved_by_user_id a = user \<and>
           select_first (\<lambda>b. approval_matches_decision b d \<and> da_decision_id b = rid d) (decision_approvals s) = None \<and>
           decision_approvals t = decision_approvals s @ [a] \<and>
           row_get rid (rid d) (decisions t) = Some (d\<lparr>dc_status := ''APPROVED_FOR_PRODUCTION''\<rparr>) \<and>
           flow_at w t = Some (flow\<lparr>dw_final_approval_id := Some (rid a), dw_status := APPROVED_FOR_PRODUCTION\<rparr>))))"
  using run
proof (cases rule: approve_run)
  case (bound flow)
  have "a \<in> set (decision_approvals s)"
    using bound(5) by (auto simp: bound_approval_def split: option.splits dest!: row_get_Some)
  moreover have "approve_decision_for_production context' w user' now' t = (Inr a, t)"
    using bound again by (simp add: approve_bound [where flow = flow])
  ultimately show ?thesis using bound by auto
next
  case (given flow d)
  have "approve_decision_for_production context' w user' now' t = (Inr a, t)"
    using given again by (simp add: approve_given [where flow = flow and d = d])
  with given select_first_Some [OF given(10)] show ?thesis by auto
next
  case (fresh flow d c)
  have id: "rid flow = w" using row_get_Some [OF fresh(1)] by simp
  note run = insert_approval_run [OF fresh(8)]
  let ?flow = "flow\<lparr>dw_final_approval_id := Some (rid a), dw_status := APPROVED_FOR_PRODUCTION\<rparr>"
  have a: "a = approval_of context flow d c user now (uuids s (uuid_pos s))" and rida: "rid a = uuids s (uuid_pos s)"
    using run by (simp_all add: approval_of_def)
  have t: "decision_approvals t = decision_approvals s @ [a]"
    "row_get rid (rid d) (decisions t) = Some (d\<lparr>dc_status := ''APPROVED_FOR_PRODUCTION''\<rparr>)"
    "flow_at w t = Some ?flow"
    using run fresh(1,6) id
    by (simp_all add: same_core_def dectab.get_set_same dectab.stable_def flowtab.get_set_same flowtab.stable_def
        flow_ident_def)
  have "row_get rid (rid a) (decision_approvals s) = None"
    using new rida unfolding row_get_def find_None_iff image_iff by metis
  then have "row_get rid (rid a) (decision_approvals t) = Some a"
    by (simp add: t(1) row_get_def select_first_append [unfolded select_first_def])
  then have "bound_approval ?flow t = Inr a" by (simp add: bound_approval_def)
  then have "approve_decision_for_production context' w user' now' t = (Inr a, t)"
    using t(3) fresh(2,3) again by (simp add: approve_bound [where flow = ?flow])
  moreover have "approval_matches_decision a d" "da_approved_by_user_id a = user"
    by (simp_all add: a approval_matches_decision_def approval_of_def)
  moreover have "select_first (\<lambda>b. approval_matches_decision b d \<and> da_decision_id b = rid d) (decision_approvals s) = None"
    using fresh(7) by (auto simp: select_first_None approval_matches_decision_def)
  ultimately show ?thesis using fresh t by blast
qed

theorem decision_approved_once_witness:
  "\<exists>a t. approve_decision_for_production owner_context ''w'' ''u'' 20 decided_db = (Inr a, t) \<and>
     decision_approvals t = [a] \<and> approve_decision_for_production owner_context ''w'' ''v'' 30 t = (Inr a, t)"
proof -
  let ?d = "decision_of reviewed_flow flow_candidate flow_output []"
  have d: "row_get rid [] (decisions decided_db) = Some ?d" "dc_source_candidate_id ?d = Some ''k''" "rid ?d = []"
      "org ?d = ''o''" "biz ?d = ''b''" "select_first P [] = None" for P :: "decision_approval_row \<Rightarrow> bool"
    by (simp_all add: example_decides row_get_def decision_of_def flow_candidate_def select_first_def)
  have "fst (approve_decision_for_production owner_context ''w'' ''u'' 20 decided_db) \<in> range Inr"
    by (simp add: approve_decision_for_production_def insert_decision_approval_def run_simps d example_decides(4,6)
        assert_matches_def owner_context_def Let_def update_workflow_run touch_def emit_def append_outbox_event_def
        add_outbox_def append_audit_def add_audit_def)
  then obtain a t where run: "approve_decision_for_production owner_context ''w'' ''u'' 20 decided_db = (Inr a, t)"
    by (metis imageE prod.collapse)
  from decision_approved_once [OF run _ refl refl, of "''v''" 30] run show ?thesis
    by (auto simp: example_decides)
qed

end
