(* ===== verification/Decision_Evidence.thy ===== *)
theory Decision_Evidence
  imports Decision_Example
begin

text \<open>
  What a candidate may cite: nothing but evidence that its agent was shown, in its context manifest or
  in the snapshot of the workflow, and with the epistemic status it had there.
\<close>

definition shown :: "decision_workflow_row \<Rightarrow> agent_run_row \<Rightarrow> 'z workflow_store_scheme \<Rightarrow> string \<Rightarrow> string \<Rightarrow> bool" where
  "shown flow run s i st \<longleftrightarrow>
     (i, st) \<in> set (manifest_evidence_ref_statuses (ar_context_manifest run)) \<or>
     (\<exists>sn. get_snapshot (scope_of flow) (dw_snapshot_id flow) s = Inr sn \<and>
        (i, st) \<in> set (snapshot_evidence_ref_statuses (sn_payload sn)))"

lemma check_refs_ok:
  "check_refs statuses refs = Inr () \<longleftrightarrow>
   (\<forall>r \<in> set refs. statuses (er_evidence_id r) = Some (epistemic_value (er_epistemic_status r)))"
  by (induction refs) (auto split: option.splits if_splits)

lemma statuses_shown:
  assumes "agent_run_evidence_ref_statuses flow run s = Inr statuses" "statuses i = Some st"
  shows "shown flow run s i st"
proof -
  have "map_of (rev xs) i = Some st \<Longrightarrow> (i, st) \<in> set xs" for xs by (auto dest: map_of_SomeD)
  with assms show ?thesis
    by (auto simp: agent_run_evidence_ref_statuses_def shown_def Let_def split: sum.splits if_splits
        dest!: map_of_SomeD)
qed

lemma first_run_Some: "first_run can runs = Inr (Some r) \<Longrightarrow> r \<in> set runs \<and> can r = Inr True"
  by (induction runs) (auto split: sum.splits if_splits)

lemma agent_run_of_ok:
  "agent_run_of can a b runs = Inr r \<Longrightarrow> r \<in> set runs \<and> can r = Inr True"
  by (auto simp: agent_run_of_def split: sum.splits option.splits if_splits dest: first_run_Some)

lemma runs_for_mem:
  "r \<in> set (runs_for flow key input_ref s) \<longleftrightarrow>
   r \<in> set (agent_runs s) \<and> org r = org flow \<and> biz r = biz flow \<and> ar_contract_key r = key \<and>
   ar_contract_version r = 1 \<and> ar_input_ref r = Some input_ref"
  by (auto simp: runs_for_def)

section \<open>Where candidates come from\<close>

definition same_candidate_ids :: "'z workflow_store_scheme \<Rightarrow> 'z workflow_store_scheme \<Rightarrow> bool" where
  "same_candidate_ids s t \<longleftrightarrow> map rid (decision_candidates t) = map rid (decision_candidates s)"

interpretation sci: state_preorder same_candidate_ids
  by unfold_locales (simp_all add: same_candidate_ids_def)

lemma core_candidate_ids: "tracks same_core m \<Longrightarrow> tracks same_candidate_ids m"
  by (simp add: tracks_def same_core_def same_candidate_ids_def)

lemma row_set_ids [simp]: "(\<And>r. rid (f r) = rid r) \<Longrightarrow> map rid (row_set rid i f rs) = map rid rs"
  by (simp add: row_set_def)

lemma status_candidate_ids:
  "tracks same_candidate_ids (set_workflow_status st flow)" "tracks same_candidate_ids (set_candidate_status cst c)"
  "tracks same_candidate_ids (update_workflow flow f)"
  by (simp_all add: tracks_def same_candidate_ids_def set_workflow_status_def update_workflow_run set_candidate_status_run)

lemmas candidate_ids_rules = sci.t_rules status_candidate_ids core_primitives [THEN core_candidate_ids]
  enqueue_advance_core [THEN core_candidate_ids] ensure_core [THEN core_candidate_ids]
  decision_rows_core [THEN core_candidate_ids] event_core [THEN core_candidate_ids]

lemma other_candidate_ids:
  "tracks same_candidate_ids (advance_snapshot_ready env reg flow now)"
  "tracks same_candidate_ids (advance_specialists_running env reg flow now)"
  "tracks same_candidate_ids (advance_controllers_running env reg revises outcome_of flow now)"
  unfolding advance_snapshot_ready_def advance_specialists_running_def advance_controllers_running_def
    materialize_specialist_contributions_def materialize_specialist_contribution_def
    materialize_controller_reviews_def materialize_controller_review_def apply_outcome_def
    materialize_final_decision_def insert_decision_def bind_reviews_def
  by (intro candidate_ids_rules sci.t_modify; simp add: same_candidate_ids_def)+

lemma ensure_chief_zero:
  "ensure_chief_run env reg flow previous reviews now s = (Inr 0, t) \<Longrightarrow> t = s"
  by (auto simp: ensure_chief_run_def run_gets run_lift_sum run_ret elim!: bnd_okE split: if_splits prod.splits)

lemma materialize_candidate_new:
  assumes "materialize_candidate env flow now s = (Inr c, t)"
    and "map rid (decision_candidates t) \<noteq> map rid (decision_candidates s)"
  obtains run data out hsh i where "chief_agent_run env flow (next_candidate_version flow s) s = Inr run"
    "ar_status run = AgentRunStatus.SUCCEEDED" "ar_output_data run = Some data" "validate_candidate env data = Inr out"
    "validate_evidence_refs flow run (dcd_evidence_refs out) s = Inr ()"
    "c = candidate_row flow run out (next_candidate_version flow s) (latest_candidate_or_none flow s)
       (map rid (contributions_of flow s)) hsh now i"
    "decision_candidates t = decision_candidates s @ [c]"
  using assms unfolding materialize_candidate_def
  by (auto elim!: bnd_okE simp: run_gets run_lift_sum run_required run_require run_modify run_new_id run_flush run_ret Let_def
      split: option.splits sum.splits if_splits)

lemma chief_running_candidates:
  assumes run: "advance_chief_running env reg flow now s = (Inr (), t)"
    and new: "map rid (decision_candidates t) \<noteq> map rid (decision_candidates s)"
  obtains c u where "materialize_candidate env flow now s = (Inr c, u)"
    "map rid (decision_candidates u) \<noteq> map rid (decision_candidates s)"
    "decision_candidates t = row_set rid (rid c) (\<lambda>r. r\<lparr>ca_status := UNDER_REVIEW\<rparr>) (decision_candidates u)"
proof -
  from run obtain n u0 where n: "ensure_chief_run env reg flow None [] now s = (Inr n, u0)"
    and rest: "(if n \<noteq> 0 then
       bnd (gets (next_candidate_version flow)) (\<lambda>v.
       bnd (gets (chief_run_generation flow v)) (\<lambda>generation.
       bnd (enqueue_workflow_advance flow
              (''after-chief:'' @ show_int v @ '':chief-output-retry:'' @ show_nat generation) now) (\<lambda>_. ret ())))
     else
       bnd (materialize_candidate env flow now) (\<lambda>candidate.
       bnd (set_workflow_status DECISION_CANDIDATE_READY flow) (\<lambda>_.
       bnd (ensure_controller_runs env reg flow candidate now) (\<lambda>_.
       bnd (set_candidate_status UNDER_REVIEW candidate) (\<lambda>_.
       bnd (set_workflow_status CONTROLLERS_RUNNING flow) (\<lambda>_.
       bnd (enqueue_workflow_advance flow (''after-controllers:'' @ show_int (ca_version_number candidate)) now) (\<lambda>_.
       ret ()))))))) u0 = (Inr (), t)"
    unfolding advance_chief_running_def by (auto elim!: bnd_okE)
  have "n = 0"
  proof (rule ccontr)
    assume "n \<noteq> 0"
    with rest have "same_core u0 t" by (auto elim!: bnd_okE simp: run_gets run_ret dest: tracksD [OF enqueue_advance_core])
    with tracksD [OF ensure_core(2) n] new show False by (simp add: same_core_def)
  qed
  with n have u0: "u0 = s" using ensure_chief_zero by blast
  with rest \<open>n = 0\<close> obtain c u where m: "materialize_candidate env flow now s = (Inr c, u)"
    and t: "decision_candidates t = row_set rid (rid c) (\<lambda>r. r\<lparr>ca_status := UNDER_REVIEW\<rparr>) (decision_candidates u)"
    by (auto elim!: bnd_okE simp: run_ret set_workflow_status_def update_workflow_run set_candidate_status_run same_core_def
        dest!: tracksD [OF enqueue_advance_core] tracksD [OF ensure_core(3)])
  show thesis by (rule that [OF m _ t]) (use new t in simp)
qed


section \<open>An example\<close>

text \<open>The chief has answered, and the controllers have been asked before the answer was stored.\<close>

definition chief_flow :: decision_workflow_row where
  "chief_flow = flow_row CHIEF_RUNNING"

definition chief_done :: agent_run_row where
  "chief_done = flow_run ''r'' CHIEF_GROWTH_PRODUCER_CONTRACT_KEY (chief_run_input_ref chief_flow 1) [(''goal'', JStr ''g'')]"

definition chief_candidate :: decision_candidate_row where
  "chief_candidate = candidate_row chief_flow chief_done flow_output 1 None [] ''h'' 9 []"

definition asked_controller :: "string \<Rightarrow> agent_run_row" where
  "asked_controller key = (flow_run key key (controller_run_input_ref chief_flow chief_candidate key) [])
     \<lparr>ar_status := AgentRunStatus.RUNNING\<rparr>"

definition chief_db :: workflow_store where
  "chief_db = empty_db\<lparr>decision_workflows := [chief_flow],
     agent_runs := chief_done # map asked_controller REQUIRED_CONTROLLER_CONTRACT_KEYS\<rparr>"

definition proposed_db :: workflow_store where
  "proposed_db = snd (GuardedDecisionWorkflowAdvanceHandler_handle flow_env Map.empty flow_context flow_job 9 chief_db)"

lemma chief_key_apart: "CHIEF_GROWTH_PRODUCER_CONTRACT_KEY \<notin> set REQUIRED_CONTROLLER_CONTRACT_KEYS"
  by code_simp

lemma chief_done_simps [simp]:
  "ar_status chief_done = AgentRunStatus.SUCCEEDED" "ar_output_data chief_done = Some [(''goal'', JStr ''g'')]"
  "ar_context_hash chief_done = Some ''h''" "rid chief_done = ''r''"
  by (simp_all add: chief_done_def flow_run_def)

lemma chief_runs: "chief_agent_runs chief_flow 1 chief_db = [chief_done]"
  using chief_key_apart
  by (auto simp: chief_agent_runs_def runs_for_def chief_db_def chief_done_def flow_run_def asked_controller_def chief_flow_def
      filter_map comp_def filter_empty_conv)

lemma chief_output: "validate_candidate flow_env [(''goal'', JStr ''g'')] = Inr flow_output" "strip (dcd_selected_action flow_output) \<noteq> []"
  by (simp add: flow_env_def dict_get_def) code_simp

lemma chief_refs: "validate_evidence_refs chief_flow chief_done (dcd_evidence_refs flow_output) s = Inr ()"
  by (simp add: validate_evidence_refs_def agent_run_evidence_ref_statuses_def assert_matches_def chief_flow_def
      chief_done_def flow_run_def flow_output_def manifest_evidence_ref_statuses_def
      manifest_item_statuses_def dict_get_def Let_def)

lemma chief_can: "chief_run_can_materialize flow_env chief_flow s chief_done = Inr True"
  using chief_output chief_refs [of s]
  by (simp add: chief_run_can_materialize_def permanent_means_no_def)

lemma chief_version: "next_candidate_version chief_flow chief_db = 1" "candidates_of chief_flow chief_db = []"
  by (simp_all add: next_candidate_version_def candidates_of_def chief_db_def empty_db_def)

lemma chief_ready: "ensure_chief_run flow_env Map.empty chief_flow None [] 9 chief_db = (Inr 0, chief_db)"
  by (simp add: ensure_chief_run_def run_bnd run_gets run_lift_sum run_ret chief_version chief_run_state_def chief_runs
      run_state_of_def chief_can pending_def)

definition stored_db :: workflow_store where
  "stored_db = chief_db\<lparr>uuid_pos := 1, decision_candidates := [chief_candidate]\<rparr>"

lemma chief_stored: "materialize_candidate flow_env chief_flow 9 chief_db = (Inr chief_candidate, stored_db)"
proof -
  have db: "uuids chief_db = (\<lambda>n. replicate n CHR ''i'')" "uuid_pos chief_db = 0" "decision_candidates chief_db = []"
      "specialist_contributions chief_db = []" "jobs chief_db = sql_jobs chief_db" "unit_of_work chief_db = []"
    by (simp_all add: chief_db_def empty_db_def)
  show ?thesis
    by (simp add: materialize_candidate_def run_bnd run_gets run_lift_sum run_required run_require run_modify run_new_id
        run_flush run_ret chief_version chief_agent_run_def chief_runs agent_run_of_def chief_can chief_output chief_refs
        latest_candidate_or_none_def contributions_of_def select_first_def required_context_hash_def Let_def db
        stored_db_def chief_candidate_def)
qed

lemma controllers_asked:
  "ensure_controller_runs flow_env Map.empty chief_flow chief_candidate 9 u = (Inr 7, u)"
  if "agent_runs u = agent_runs chief_db"
proof -
  have "controller_run_state flow_env chief_flow chief_candidate key u = Inr Pending"
    if key: "key \<in> set REQUIRED_CONTROLLER_CONTRACT_KEYS" for key
  proof -
    have "asked_controller key \<in> set (controller_agent_runs chief_flow chief_candidate key u)"
      using key by (auto simp: controller_agent_runs_def runs_for_mem \<open>agent_runs u = _\<close> chief_db_def asked_controller_def
          flow_run_def chief_flow_def)
    moreover have "pending (asked_controller key)" by (simp add: pending_def asked_controller_def)
    ultimately show ?thesis by (auto simp: controller_run_state_def run_state_of_def list_ex_iff)
  qed
  then have "count_not_ready (controller_run_state flow_env chief_flow chief_candidate) create keys u = (Inr (length keys), u)"
    if "set keys \<subseteq> set REQUIRED_CONTROLLER_CONTRACT_KEYS" for keys create
    using that by (induction keys) (simp_all add: run_bnd run_gets run_lift_sum run_ret)
  from this [OF subset_refl] show ?thesis
    by (simp add: ensure_controller_runs_def REQUIRED_CONTROLLER_CONTRACT_KEYS_def)
qed

lemma enqueue_first:
  assumes "jobs u = []"
  obtains j v where "enqueue_workflow_advance chief_flow suffix now u = (Inr j, v)"
    "decision_candidates v = decision_candidates u"
proof -
  have accepts: "create_job_accepts JOB_TYPE_WORKFLOW_ADVANCE flow_job 1 5"
    using flow_job_accepted(2)
    by (simp add: create_job_accepts_def no_secrets_iff [symmetric] REGISTERED_JOB_TYPES_def CANONICAL_JOB_TYPES_def)
  have "rid chief_flow = ''w''" by (simp add: chief_flow_def)
  then have "\<exists>j v. enqueue_workflow_advance chief_flow suffix now u = (Inr j, v)"
    using accepts assms unfolding enqueue_workflow_advance_def
    by (simp add: run_bnd create_job_run sql_select_jobs_def Let_def enqueue_def run_modify run_ret flip: flow_job_def)
  then obtain j v where e: "enqueue_workflow_advance chief_flow suffix now u = (Inr j, v)" by blast
  from tracksD [OF enqueue_advance_core e] that [OF e] show thesis by (simp add: same_core_def)
qed

lemma example_proposes:
  "GuardedDecisionWorkflowAdvanceHandler_handle flow_env Map.empty flow_context flow_job 9 chief_db = (Inr (), proposed_db)"
  "decision_candidates proposed_db = [chief_candidate\<lparr>ca_status := UNDER_REVIEW\<rparr>]"
proof -
  define u where "u = stored_db\<lparr>decision_candidates := [chief_candidate\<lparr>ca_status := UNDER_REVIEW\<rparr>],
    decision_workflows := row_set rid ''w'' (\<lambda>w. w\<lparr>dw_status := CONTROLLERS_RUNNING\<rparr>) (decision_workflows stored_db),
    unit_of_work := [(''o'', ''b''), (org chief_candidate, biz chief_candidate), (''o'', ''b'')]\<rparr>"
  have fields: "rid chief_flow = ''w''" "org chief_flow = ''o''" "biz chief_flow = ''b''" "dw_status chief_flow = CHIEF_RUNNING"
      "ca_version_number chief_candidate = 1"
    by (simp_all add: chief_flow_def chief_candidate_def candidate_row_def)
  have db: "agent_runs stored_db = agent_runs chief_db" "unit_of_work stored_db = []"
      "decision_candidates stored_db = [chief_candidate]" "jobs u = []"
    by (simp_all add: stored_db_def chief_db_def empty_db_def u_def)
  obtain j v where e: "enqueue_workflow_advance chief_flow (''after-controllers:'' @ show_int 1) 9 u = (Inr j, v)"
    "decision_candidates v = decision_candidates u" using db(4) by (rule enqueue_first)
  have adv: "advance_chief_running flow_env Map.empty chief_flow 9 chief_db = (Inr (), v)"
    using e(1)
    by (simp add: advance_chief_running_def run_bnd run_ret chief_ready chief_stored set_workflow_status_def
        update_workflow_run fields controllers_asked db set_candidate_status_run u_def row_set_def [of rid "rid chief_candidate"])
  have run: "GuardedDecisionWorkflowAdvanceHandler_handle flow_env Map.empty flow_context flow_job 9 chief_db = (Inr (), v)"
  proof -
    have "flow_at ''w'' chief_db = Some chief_flow" by (simp add: chief_db_def row_get_def fields)
    then show ?thesis
      by (simp add: GuardedDecisionWorkflowAdvanceHandler_handle_def handle_advance_def guarded_advance_def
          advance_workflow_def run_bnd run_check_no_secrets flow_job_accepted run_lift_sum run_gets run_required
          run_check_scope assert_matches_def flow_context_def fields adv)
  qed
  then have v: "proposed_db = v" by (simp add: proposed_db_def)
  show "GuardedDecisionWorkflowAdvanceHandler_handle flow_env Map.empty flow_context flow_job 9 chief_db = (Inr (), proposed_db)"
    using run v by simp
  show "decision_candidates proposed_db = [chief_candidate\<lparr>ca_status := UNDER_REVIEW\<rparr>]"
    by (simp add: v e(2) u_def)
qed


end
