(* ===== verification/Decision_Snapshot.thy ===== *)
theory Decision_Snapshot
  imports Decision_Evidence
begin

text \<open>
  The snapshot a decision starts from: what it says about evidence can be read back from the stored
  row, and it is exactly the evidence of the tenant.
\<close>

lemma evidence_items:
  "concat (map snapshot_item_statuses (map evidence_item rs)) = map (\<lambda>r. (rid r, epistemic_value (ev_status r))) rs"
  by (induction rs) (simp_all add: evidence_item_def snapshot_item_statuses_def dict_get_def)

lemma snapshot_statuses:
  assumes "snapshot_payload scope launch_id s = Inr pl"
  shows "snapshot_evidence_ref_statuses pl =
    map (\<lambda>r. (rid r, epistemic_value (ev_status r))) (scoped_select scope ev_recorded_at (evidence s))"
proof -
  from assms have "dict_get pl ''evidence'' = Some (JList (map evidence_item (scoped_select scope ev_recorded_at (evidence s))))"
    by (auto simp: snapshot_payload_def Let_def snapshot_lists_def dict_get_def split: option.splits sum.splits)
  then show ?thesis by (simp add: snapshot_evidence_ref_statuses_def evidence_items del: map_map)
qed

lemma create_snapshot_run:
  fixes s :: "'z workflow_store_scheme"
  assumes "create_business_snapshot context reason pl now s = (Inr (sn, ev), t)"
  shows "rid sn = uuids s (uuid_pos s) \<and> sn_payload sn = pl \<and> org sn = organization_id context \<and>
    biz sn = business_id context \<and> business_snapshots t = business_snapshots s @ [sn]"
  using assms unfolding create_business_snapshot_def Let_def
  by (auto elim!: bnd_okE dest!: tracksD [OF event_core(1)] tracksD [OF event_core(2)] tracksD [OF core_primitives(2)]
      tracksD [OF core_primitives(3)] simp: run_new_id run_modify run_ret same_core_def touch_def)

text \<open>
  Claim C32. The snapshot round trip: after a new snapshot of the business has been stored, it is found
  again by its id and says the same, and the evidence statuses read back from it are exactly the
  evidence records of the organization and business, each with its epistemic status; evidence of
  another tenant never appears, and none of the tenant's is missing.
\<close>

theorem snapshot_status_roundtrip:
  fixes s :: "'z workflow_store_scheme"
  assumes run: "obtain_snapshot context launch_id None now s = (Inr sn, t)"
    and fresh: "uuids s (uuid_pos s) \<notin> rid ` set (business_snapshots s)"
  shows "get_snapshot context (rid sn) t = Inr sn \<and>
    set (snapshot_evidence_ref_statuses (sn_payload sn)) =
      {(rid r, epistemic_value (ev_status r)) | r. r \<in> set (evidence s) \<and>
         org r = organization_id context \<and> biz r = business_id context}"
proof -
  from run obtain pl ev where pl: "snapshot_payload context launch_id s = Inr pl"
    and made: "create_business_snapshot context ''phase3.decision_workflow'' pl now s = (Inr (sn, ev), t)"
    by (auto simp: obtain_snapshot_def run_gets run_lift_sum run_ret elim!: bnd_okE)
  note sn = create_snapshot_run [OF made]
  have "row_get rid (rid sn) (business_snapshots s) = None"
    using fresh sn unfolding row_get_def find_None_iff image_iff by metis
  then have "row_get rid (rid sn) (business_snapshots t) = Some sn"
    using sn by (simp add: row_get_def select_first_append [unfolded select_first_def])
  then have "get_snapshot context (rid sn) t = Inr sn"
    using sn by (simp add: get_snapshot_def assert_matches_def)
  moreover have "set (snapshot_evidence_ref_statuses (sn_payload sn)) =
      {(rid r, epistemic_value (ev_status r)) | r. r \<in> set (evidence s) \<and>
         org r = organization_id context \<and> biz r = business_id context}"
    using sn by (auto simp: snapshot_statuses [OF pl] scoped_select_def)
  ultimately show ?thesis by blast
qed

definition noted_db :: workflow_store where
  "noted_db = empty_db\<lparr>businesses := [\<lparr>bz_id = ''b'', bz_organization_id = ''o'', bz_name = [], bz_timezone = [], bz_version = 1,
      bz_created_at = 0\<rparr>],
     evidence := [\<lparr>rid = ''e1'', org = ''o'', biz = ''b'', ev_source_record_id = [], ev_statement = [],
       ev_status = FACT, ev_confidence = None, ev_occurred_at = None, ev_recorded_at = 1, ev_conflicts_with = []\<rparr>,
      \<lparr>rid = ''e2'', org = ''x'', biz = ''b'', ev_source_record_id = [], ev_statement = [],
       ev_status = FACT, ev_confidence = None, ev_occurred_at = None, ev_recorded_at = 1, ev_conflicts_with = []\<rparr>]\<rparr>"

lemma noted_payload: "\<not> isl (snapshot_payload owner_context None noted_db)"
  by code_simp

theorem snapshot_status_roundtrip_witness:
  "\<exists>sn t. obtain_snapshot owner_context None None 5 noted_db = (Inr sn, t) \<and> get_snapshot owner_context (rid sn) t = Inr sn \<and>
     set (snapshot_evidence_ref_statuses (sn_payload sn)) = {(''e1'', ''FACT'')}"
proof -
  obtain pl where pl: "snapshot_payload owner_context None noted_db = Inr pl"
    using noted_payload by (cases "snapshot_payload owner_context None noted_db") auto
  have "fst (obtain_snapshot owner_context None None 5 noted_db) \<in> range Inr"
    by (simp add: obtain_snapshot_def create_business_snapshot_def run_simps pl Let_def touch_def emit_def
        append_outbox_event_def add_outbox_def append_audit_def add_audit_def)
  then obtain sn t where run: "obtain_snapshot owner_context None None 5 noted_db = (Inr sn, t)"
    by (metis imageE prod.collapse)
  have fresh: "uuids noted_db (uuid_pos noted_db) \<notin> rid ` set (business_snapshots noted_db)"
    by (simp add: noted_db_def empty_db_def)
  have "{(rid r, epistemic_value (ev_status r)) | r. r \<in> set (evidence noted_db) \<and>
      org r = organization_id owner_context \<and> biz r = business_id owner_context} =
    (\<lambda>r. (rid r, epistemic_value (ev_status r))) ` set (filter (\<lambda>r. org r = organization_id owner_context \<and>
      biz r = business_id owner_context) (evidence noted_db))" by auto
  also have "\<dots> = {(''e1'', ''FACT'')}" by (simp add: noted_db_def owner_context_def)
  finally have "{(rid r, epistemic_value (ev_status r)) | r. r \<in> set (evidence noted_db) \<and>
      org r = organization_id owner_context \<and> biz r = business_id owner_context} = {(''e1'', ''FACT'')}" .
  with snapshot_status_roundtrip [OF run fresh] run show ?thesis by auto
qed

end
