(* ===== verification/Context_Safety.thy ===== *)
theory Context_Safety
  imports Production_Context
begin

text \<open>
  What a context builder promises, over the function that loads a reference. The locale
  \<open>context_source\<close> states the contract of such a function: what it gives for a reference is an item
  of the asking tenant that shows a row of this tenant with the type and the identifier asked for. Both
  builders of the program satisfy it.
\<close>

section \<open>Items of a tenant\<close>

definition scoped_item :: "'y TenantScope_scheme \<Rightarrow> ContextItem \<Rightarrow> bool" where
  "scoped_item scope i \<longleftrightarrow>
     ci_organization_id i = organization_id scope \<and> ci_business_id i = business_id scope \<and>
     ci_provenance_ref i = ci_object_type i @ '':'' @ ci_object_id i"

abbreviation row_here :: "'y TenantScope_scheme \<Rightarrow> string \<Rightarrow> 'r scoped_row_scheme list \<Rightarrow> bool" where
  "row_here scope i rows \<equiv> list_ex (\<lambda>r. rid r = i \<and> org r = organization_id scope \<and> biz r = business_id scope) rows"

text \<open>A row of the tenant with this type and identifier.\<close>

definition stored_in_tenant ::
  "string \<Rightarrow> string \<Rightarrow> 'y TenantScope_scheme \<Rightarrow> 'z workflow_store_scheme \<Rightarrow> bool" where
  "stored_in_tenant ty i scope s \<longleftrightarrow>
    (if ty = ''business'' then list_ex (\<lambda>b. bz_id b = i \<and> bz_organization_id b = organization_id scope \<and>
        bz_id b = business_id scope) (businesses s)
     else if ty = ''goal'' then row_here scope i (goals s)
     else if ty = ''constraint'' then row_here scope i (constraints s)
     else if ty = ''source_record'' then row_here scope i (source_records s)
     else if ty = ''evidence'' then row_here scope i (evidence s)
     else if ty = ''business_snapshot'' then row_here scope i (business_snapshots s)
     else if ty = ''specialist_contribution'' then row_here scope i (specialist_contributions s)
     else if ty = ''decision_candidate'' then row_here scope i (decision_candidates s)
     else ty = ''controller_review'' \<and> row_here scope i (decision_reviews s))"

definition production_in_tenant ::
  "string \<Rightarrow> string \<Rightarrow> 'y TenantScope_scheme \<Rightarrow> 'z production_store_scheme \<Rightarrow> bool" where
  "production_in_tenant ty i scope s \<longleftrightarrow>
    (if ty = ''decision'' then row_here scope i (decisions s)
     else if ty = ''content_strategy'' then row_here scope i (content_strategies s)
     else if ty = ''creative_brief'' then row_here scope i (creative_briefs s)
     else if ty = ''asset_version'' then row_here scope i (asset_versions s)
     else if ty = ''asset_review'' then row_here scope i (asset_reviews s)
     else if ty = ''asset_rights_provenance'' then row_here scope i (asset_rights s)
     else stored_in_tenant ty i scope s)"

definition default_types :: "string list" where
  "default_types = [''business'', ''goal'', ''constraint'', ''source_record'', ''evidence'']"

section \<open>The contract of a loader\<close>

definition shows_row :: "'y TenantScope_scheme \<Rightarrow> string \<Rightarrow> string \<Rightarrow> py_error + ContextItem \<Rightarrow> bool" where
  "shows_row scope ty i x \<longleftrightarrow>
     (\<forall>it. x = Inr it \<longrightarrow> scoped_item scope it \<and> ci_object_type it = ty \<and> ci_object_id it = i)"

named_theorems item_simps "what the projections of rows show"

lemma item_shows [item_simps]:
  "shows_row scope ''business'' (bz_id b) (context_business_item env scope b)"
  "shows_row scope ''goal'' (rid g) (goal_item env scope g)"
  "shows_row scope ''constraint'' (rid cn) (constraint_item env scope cn)"
  "shows_row scope ''source_record'' (rid sr) (source_record_item env budget scope sr)"
  "shows_row scope ''evidence'' (rid ev) (context_evidence_item budget scope ev)"
  "shows_row scope ''business_snapshot'' (rid sn) (snapshot_item env budget scope sn)"
  "shows_row scope ''specialist_contribution'' (rid sp) (specialist_contribution_item env budget scope sp)"
  "shows_row scope ''decision_candidate'' (rid ca) (decision_candidate_item env budget scope ca)"
  "shows_row scope ''controller_review'' (rid dr) (controller_review_item env budget scope dr)"
  by (auto simp: shows_row_def scoped_item_def context_business_item_def goal_item_def constraint_item_def
      source_record_item_def context_evidence_item_def snapshot_item_def specialist_contribution_item_def
      decision_candidate_item_def controller_review_item_def internal_item_def untrusted_item_def Let_def
      split: sum.splits)

lemma production_item_shows: "shows_row scope ty i (production_item scope ty i content proj st rec)"
  by (auto simp: shows_row_def scoped_item_def production_item_def split: sum.splits)

lemma production_shows [item_simps]:
  "shows_row scope ''decision'' (rid d) (decision_item env scope d)"
  "shows_row scope ''content_strategy'' (rid cs) (content_strategy_item env scope cs)"
  "shows_row scope ''creative_brief'' (rid br) (creative_brief_item env scope br)"
  "shows_row scope ''asset_version'' (rid av) (asset_version_item scope av)"
  "shows_row scope ''asset_review'' (rid ax) (asset_review_item scope ax)"
  "shows_row scope ''asset_rights_provenance'' (rid ri) (asset_rights_item scope ri)"
  by (simp_all add: decision_item_def content_strategy_item_def creative_brief_item_def asset_version_item_def
      asset_review_item_def asset_rights_item_def production_item_shows)

lemma project_row_Some:
  assumes "project_row scope tenant project found = Inr (Some it)"
  obtains r where "found = Some r" "assert_matches scope (fst (tenant r)) (snd (tenant r)) = Inr ()"
    "project r = Inr it"
  using assms by (auto simp: project_row_def split: option.splits sum.splits)

lemma scope_matches_iff: "assert_matches scope og bz = Inr () \<longleftrightarrow> og = organization_id scope \<and> bz = business_id scope"
  by (simp add: assert_matches_def)

lemma loaded_row:
  assumes "project_row scope tenant_of project (row_get rid i rows) = Inr (Some it)"
    and "\<And>r. shows_row scope ty (rid r) (project r)"
  shows "scoped_item scope it \<and> ci_object_type it = ty \<and> ci_object_id it = i \<and> row_here scope i rows"
  using assms(1)
proof (cases rule: project_row_Some)
  case (1 r)
  with assms(2) [of r] row_get_Some [OF 1(1)] show ?thesis
    by (auto simp: shows_row_def scope_matches_iff list_ex_iff)
qed

lemma loaded_business:
  assumes "project_row scope (\<lambda>b. (bz_organization_id b, bz_id b)) (context_business_item env scope)
      (row_get bz_id i (businesses s)) = Inr (Some it)"
  shows "scoped_item scope it \<and> ci_object_type it = ''business'' \<and> ci_object_id it = i \<and>
    list_ex (\<lambda>b. bz_id b = i \<and> bz_organization_id b = organization_id scope \<and> bz_id b = business_id scope) (businesses s)"
  using assms
proof (cases rule: project_row_Some)
  case (1 r)
  with item_shows(1) [of scope r env] row_get_Some [OF 1(1)] show ?thesis
    by (auto simp: shows_row_def scope_matches_iff list_ex_iff)
qed

locale context_source =
  fixes load :: "('z, 'y) context_loader"
    and here :: "string \<Rightarrow> string \<Rightarrow> 'y TenantScope_scheme \<Rightarrow> 'z workflow_store_scheme \<Rightarrow> bool"
  assumes loaded: "load scope ref s = Inr (Some it) \<Longrightarrow>
      scoped_item scope it \<and> ci_object_type it = cr_object_type ref \<and> ci_object_id it = cr_object_id ref \<and>
      here (cr_object_type ref) (cr_object_id ref) scope s"
    and defaults: "ty \<in> set default_types \<Longrightarrow> stored_in_tenant ty i scope s \<Longrightarrow> here ty i scope s"
begin

definition admitted :: "string list \<Rightarrow> 'y TenantScope_scheme \<Rightarrow> 'z workflow_store_scheme \<Rightarrow> ContextItem \<Rightarrow> bool" where
  "admitted allowed scope s it \<longleftrightarrow> scoped_item scope it \<and> ci_object_type it \<in> set allowed \<and>
     here (ci_object_type it) (ci_object_id it) scope s"

lemma load_all_admitted:
  "load_all load allowed scope s refs = Inr items \<Longrightarrow> it \<in> set items \<Longrightarrow> admitted allowed scope s it"
proof (induction refs arbitrary: items)
  case (Cons r refs)
  then obtain found rest where "cr_object_type r \<in> set allowed" "load scope r s = Inr found"
    "load_all load allowed scope s refs = Inr rest"
    "items = (case found of None \<Rightarrow> rest | Some i \<Rightarrow> i # rest)"
    by (auto split: if_splits sum.splits)
  with Cons loaded [of scope r s] show ?case
    by (cases found) (auto simp: admitted_def)
qed simp

end

section \<open>The default items\<close>

lemma sequence_ok: "sequence xs = Inr ys \<Longrightarrow> y \<in> set ys \<Longrightarrow> Inr y \<in> set xs"
  by (induction xs arbitrary: ys) (auto split: sum.splits)

lemma scoped_select_here:
  assumes "r \<in> set (take n (scoped_select scope column rows))"
  shows "row_here scope (rid r) rows"
  using in_set_takeD [OF assms] by (auto simp: scoped_select_def list_ex_iff)

lemma picked_item: "Inr it \<in> set (if b then map f ys else []) \<Longrightarrow> \<exists>r. b \<and> r \<in> set ys \<and> f r = Inr it"
  by (auto split: if_splits)

lemma picked_business:
  assumes "Inr it \<in> set (if b then (case found of None \<Rightarrow> []
      | Some r \<Rightarrow> [case g r of Inl e \<Rightarrow> Inl e | Inr _ \<Rightarrow> f r]) else [])"
  shows "\<exists>r. b \<and> found = Some r \<and> g r = Inr () \<and> f r = Inr it"
  using assms by (cases found; cases b; cases "g (the found)") auto

lemma default_items_stored:
  assumes "collect_default_items env budget scope allowed s = Inr items" and "it \<in> set items"
  shows "scoped_item scope it \<and> ci_object_type it \<in> set allowed \<and> ci_object_type it \<in> set default_types \<and>
    stored_in_tenant (ci_object_type it) (ci_object_id it) scope s"
proof -
  note stored = shows_row_def stored_in_tenant_def default_types_def
  from sequence_ok [OF assms [unfolded collect_default_items_def], unfolded set_append Un_iff] show ?thesis
  proof (elim disjE, goal_cases)
    case 1
    from picked_business [OF this] obtain b where b: "''business'' \<in> set allowed"
      "row_get bz_id (business_id scope) (businesses s) = Some b"
      "assert_matches scope (bz_organization_id b) (bz_id b) = Inr ()" "context_business_item env scope b = Inr it" by blast
    from b(4) item_shows(1) [of scope b env]
    have "scoped_item scope it \<and> ci_object_type it = ''business'' \<and> ci_object_id it = bz_id b" by (simp add: shows_row_def)
    with b row_get_Some [OF b(2)] show ?case by (auto simp: stored scope_matches_iff list_ex_iff)
  next
    case 2
    from picked_item [OF this] obtain r where r: "''goal'' \<in> set allowed" "goal_item env scope r = Inr it"
      "r \<in> set (take (max_items budget) (scoped_select scope go_created_at (goals s)))" by blast
    from r(1,2) item_shows(2) [of scope r env] scoped_select_here [OF r(3)] show ?case by (auto simp: stored)
  next
    case 3
    from picked_item [OF this] obtain r where r: "''constraint'' \<in> set allowed" "constraint_item env scope r = Inr it"
      "r \<in> set (take (max_items budget) (scoped_select scope cn_created_at (constraints s)))" by blast
    from r(1,2) item_shows(3) [of scope r env] scoped_select_here [OF r(3)] show ?case by (auto simp: stored)
  next
    case 4
    from picked_item [OF this] obtain r where r: "''source_record'' \<in> set allowed" "source_record_item env budget scope r = Inr it"
      "r \<in> set (take (max_items budget) (scoped_select scope src_ingested_at (source_records s)))" by blast
    from r(1,2) item_shows(4) [of scope r env budget] scoped_select_here [OF r(3)] show ?case by (auto simp: stored)
  next
    case 5
    from picked_item [OF this] obtain r where r: "''evidence'' \<in> set allowed" "context_evidence_item budget scope r = Inr it"
      "r \<in> set (take (max_items budget) (scoped_select scope ev_recorded_at (evidence s)))" by blast
    from r(1,2) item_shows(5) [of scope r budget] scoped_select_here [OF r(3)] show ?case by (auto simp: stored)
  qed
qed

section \<open>The bundle\<close>

lemma finish_ok:
  assumes "finish_context env budget c items = Inr b"
  shows "cb_items b = take (max_items budget) (sort_key item_key items) \<and>
    set (ct_required_context_types c) \<subseteq> set (map ci_object_type (cb_items b)) \<and>
    no_secrets (context_payload c (cb_items b)) = Inr () \<and>
    cb_context_hash b = stable_hash env (JObj (context_payload c (cb_items b))) \<and>
    cb_manifest b = context_manifest env c (cb_items b) (cb_context_hash b) \<and>
    no_secrets (cb_manifest b) = Inr () \<and>
    cb_structured_context b = ascii_dumps (float_repr env) (JObj (context_payload c (cb_items b)))"
  using assms
  by (auto simp: finish_context_def Let_def filter_empty_conv split: if_splits sum.splits)

lemma build_ok:
  assumes "ContextBuilder_build env budget load scope c refs s = Inr b"
  obtains items where "finish_context env budget c items = Inr b"
    "refs \<noteq> [] \<Longrightarrow> load_all load (ct_allowed_context_types c) scope s
       (sort_key (\<lambda>r. (cr_object_type r, cr_object_id r)) refs) = Inr items"
    "refs = [] \<Longrightarrow> collect_default_items env budget scope (ct_allowed_context_types c) s = Inr items"
  using assms by (auto simp: ContextBuilder_build_def split: if_splits sum.splits)

context context_source
begin

lemma build_admitted:
  assumes "ContextBuilder_build env budget load scope c refs s = Inr b" and "it \<in> set (cb_items b)"
  shows "admitted (ct_allowed_context_types c) scope s it"
  using assms(1)
proof (cases rule: build_ok)
  case (1 items)
  from finish_ok [OF 1(1)] assms(2) have it: "it \<in> set items"
    by (auto dest: in_set_takeD)
  show ?thesis
  proof (cases "refs = []")
    case True
    from default_items_stored [OF 1(3) [OF True] it] defaults show ?thesis by (auto simp: admitted_def)
  next
    case False
    from load_all_admitted [OF 1(2) [OF False] it] show ?thesis .
  qed
qed

end

interpretation base_context: context_source "load_reference env budget" stored_in_tenant
proof
  fix scope :: "'b TenantScope_scheme" and ref and s :: "'c workflow_store_scheme" and it
  assume "load_reference env budget scope ref s = Inr (Some it)"
  then show "scoped_item scope it \<and> ci_object_type it = cr_object_type ref \<and> ci_object_id it = cr_object_id ref \<and>
      stored_in_tenant (cr_object_type ref) (cr_object_id ref) scope s"
    unfolding load_reference_def Let_def stored_in_tenant_def
    by (auto split: if_splits dest!: loaded_business loaded_row [OF _ item_simps(2)] loaded_row [OF _ item_simps(3)]
        loaded_row [OF _ item_simps(4)] loaded_row [OF _ item_simps(5)] loaded_row [OF _ item_simps(6)]
        loaded_row [OF _ item_simps(7)] loaded_row [OF _ item_simps(8)] loaded_row [OF _ item_simps(9)])
qed

interpretation production_context: context_source "production_load_reference env budget" production_in_tenant
proof
  fix scope :: "'b TenantScope_scheme" and ref and s :: "'c production_store_scheme" and it
  assume "production_load_reference env budget scope ref s = Inr (Some it)"
  then show "scoped_item scope it \<and> ci_object_type it = cr_object_type ref \<and> ci_object_id it = cr_object_id ref \<and>
      production_in_tenant (cr_object_type ref) (cr_object_id ref) scope s"
    unfolding production_load_reference_def Let_def production_in_tenant_def
    by (auto split: if_splits dest!: loaded_row [OF _ production_shows(1)] loaded_row [OF _ production_shows(2)]
        loaded_row [OF _ production_shows(3)] loaded_row [OF _ production_shows(4)]
        loaded_row [OF _ production_shows(5)] loaded_row [OF _ production_shows(6)] base_context.loaded)
qed (auto simp: production_in_tenant_def default_types_def)

end
