(* ===== verification/Context_Properties.thy ===== *)
theory Context_Properties
  imports Context_Safety Production_Example "HOL-Library.Multiset"
begin

text \<open>
  The properties of the contexts of agents: what reaches a model is bounded, of one tenant and free of
  secrets; what it says about evidence is what the decision workflow accepts, and not what the
  production workflow accepts.
\<close>

section \<open>The order of references\<close>

lemma reference_key_inj: "inj_on (\<lambda>r :: ContextReference. (cr_object_type r, cr_object_id r)) A"
  by (auto simp: inj_on_def)

lemma references_sorted:
  fixes refs refs' :: "ContextReference list"
  assumes "mset refs = mset refs'"
  shows "sort_key (\<lambda>r. (cr_object_type r, cr_object_id r)) refs = sort_key (\<lambda>r. (cr_object_type r, cr_object_id r)) refs'"
  by (rule sort_key_inj_key_eq) (simp_all add: assms reference_key_inj)

lemma build_order:
  assumes "mset refs = mset refs'"
  shows "ContextBuilder_build env budget load scope c refs s = ContextBuilder_build env budget load scope c refs' s"
proof -
  have "refs = [] \<longleftrightarrow> refs' = []" using assms by auto
  then show ?thesis unfolding ContextBuilder_build_def references_sorted [OF assms] by auto
qed

section \<open>What reaches a model\<close>

text \<open>
  Claim C17. Every context that reaches a model has at most twenty items; each item shows a stored row
  of the tenant of the run, of a type that the contract of the agent allows, under the tenant's own
  identifiers; the required types are all there; the text sent is the dump of the payload, and neither
  the payload nor the manifest stored for it has a secret anywhere. The order in which references are
  asked for has no effect.
\<close>

theorem context_is_scoped:
  assumes "production_context_build env scope c refs s = Inr b"
  shows "length (cb_items b) \<le> 20 \<and>
    (\<forall>it \<in> set (cb_items b). scoped_item scope it \<and> ci_object_type it \<in> set (ct_allowed_context_types c) \<and>
       production_in_tenant (ci_object_type it) (ci_object_id it) scope s) \<and>
    set (ct_required_context_types c) \<subseteq> set (map ci_object_type (cb_items b)) \<and>
    cb_structured_context b = ascii_dumps (float_repr env) (JObj (context_payload c (cb_items b))) \<and>
    secret_free (JObj (context_payload c (cb_items b))) \<and> secret_free (JObj (cb_manifest b)) \<and>
    (\<forall>refs'. mset refs' = mset refs \<longrightarrow> production_context_build env scope c refs' s = Inr b)"
proof -
  note build = assms [unfolded production_context_build_def]
  from build obtain items where "finish_context env default_budget c items = Inr b" by (rule build_ok)
  note finished = finish_ok [OF this]
  have "length (cb_items b) \<le> 20" using finished by (simp add: default_budget_def)
  moreover have "\<forall>it \<in> set (cb_items b). scoped_item scope it \<and> ci_object_type it \<in> set (ct_allowed_context_types c) \<and>
      production_in_tenant (ci_object_type it) (ci_object_id it) scope s"
    using production_context.build_admitted [OF build] by (simp add: production_context.admitted_def)
  moreover have "\<forall>refs'. mset refs' = mset refs \<longrightarrow> production_context_build env scope c refs' s = Inr b"
    using build build_order unfolding production_context_build_def by metis
  ultimately show ?thesis using finished by (auto simp: no_secrets_iff)
qed

section \<open>What a context says about evidence\<close>

abbreviation told :: "string \<times> string \<Rightarrow> json" where
  "told p \<equiv> JObj [(''evidence_id'', JStr (fst p)), (''epistemic_status'', JStr (snd p))]"

lemma told_manifest_entry:
  "map told (manifest_item_statuses (manifest_entry env i)) = allowed_evidence_refs [i]"
  by (simp add: manifest_item_statuses_def manifest_entry_def allowed_evidence_refs_def dict_get_def)

lemma told_manifest:
  "allowed_evidence_refs items = map told (manifest_evidence_ref_statuses (context_manifest env c items hsh))"
proof -
  have "allowed_evidence_refs items = concat (map (\<lambda>i. allowed_evidence_refs [i]) items)"
    by (simp add: allowed_evidence_refs_def)
  also have "\<dots> = map told (concat (map (manifest_item_statuses \<circ> manifest_entry env) items))"
    by (simp add: map_concat comp_def told_manifest_entry)
  also have "\<dots> = map told (manifest_evidence_ref_statuses (context_manifest env c items hsh))"
    by (simp add: manifest_evidence_ref_statuses_def context_manifest_def dict_get_def)
  finally show ?thesis .
qed

lemma accepted_refs: "check_refs statuses refs = Inr () \<longleftrightarrow>
    (\<forall>r \<in> set refs. statuses (er_evidence_id r) = Some (epistemic_value (er_epistemic_status r)))"
  by (induction refs) (auto split: option.splits)


section \<open>What production accepts\<close>

text \<open>
  Claim C40. The production workflow refuses references that its agents were told to use. The context
  lists every item under its provenance reference, the type and the identifier with a colon, and says that
  exactly the listed references may be cited; the production workflow only looks for an evidence row with
  the cited identifier, so that, as long as no evidence identifier has a colon in it, an output that cites
  such a reference is refused for good.
\<close>

theorem production_refuses_told_refs:
  assumes "production_context_build env scope c refs s = Inr b" and "it \<in> set (cb_items b)"
    and "er_evidence_id r = ci_provenance_ref it" and "er_epistemic_status r = ci_epistemic_status it"
    and "\<forall>e \<in> set (evidence s). CHR '':'' \<notin> set (rid e)"
  shows "told (er_evidence_id r, epistemic_value (er_epistemic_status r)) \<in> set (allowed_evidence_refs (cb_items b)) \<and>
    validate_production_refs sc (r # rs) s = Inl (PermanentJobError (''unknown evidence ref: '' @ er_evidence_id r))"
proof -
  have "ci_provenance_ref it = ci_object_type it @ '':'' @ ci_object_id it"
    using production_context.build_admitted [OF assms(1) [unfolded production_context_build_def] assms(2)]
    by (simp add: production_context.admitted_def scoped_item_def)
  then have "CHR '':'' \<in> set (er_evidence_id r)" using assms(3) by simp
  then have "row_get rid (er_evidence_id r) (evidence s) = None"
    using assms(5) by (auto simp: row_get_None)
  moreover have "told (er_evidence_id r, epistemic_value (er_epistemic_status r)) \<in> set (allowed_evidence_refs [it])"
    using assms(3,4) by (simp add: allowed_evidence_refs_def)
  then have "told (er_evidence_id r, epistemic_value (er_epistemic_status r)) \<in> set (allowed_evidence_refs (cb_items b))"
    using assms(2) by (auto simp: allowed_evidence_refs_def)
  ultimately show ?thesis by simp
qed

definition prod_refs :: "ContextReference list" where
  "prod_refs = [\<lparr>cr_object_type = ''decision'', cr_object_id = ''d''\<rparr>,
     \<lparr>cr_object_type = ''evidence'', cr_object_id = ''e''\<rparr>,
     \<lparr>cr_object_type = ''business_snapshot'', cr_object_id = ''sn''\<rparr>]"

definition prod_decision_item :: ContextItem where
  "prod_decision_item = \<lparr>ci_organization_id = ''o'', ci_business_id = ''b'', ci_object_type = ''decision'',
     ci_object_id = ''d'', ci_provenance_ref = ''decision:d'', ci_epistemic_status = OBSERVATION,
     ci_trust_class = INTERNAL_SYSTEM, ci_data_boundary = ''TRUSTED_INTERNAL_DATA'', ci_occurred_at = None,
     ci_recorded_at = Some 0, ci_content = ''post'',
     ci_projection = [(''version'', JInt 1), (''status'', JStr ''APPROVED_FOR_PRODUCTION''),
       (''goal_problem'', JStr ''g: p''), (''selected_action'', JStr ''post''), (''expected_effect'', JStr ''x''),
       (''risk_class'', JStr ''LOW''), (''required_assets'', JList []), (''required_actions'', JList []),
       (''experiment_proposal'', JObj []), (''evidence_ids'', JList [JStr ''e''])],
     ci_sensitivity = ''INTERNAL'', ci_retention = ''STANDARD''\<rparr>"

definition prod_evidence_item :: ContextItem where
  "prod_evidence_item = untrusted_item prod_scope ''evidence'' ''e'' OBSERVATION UNTRUSTED_EXTERNAL None 0 ''seen''
     [(''source_record_id'', JStr ''sr''), (''confidence'', JNull)]"

definition prod_snapshot_item :: ContextItem where
  "prod_snapshot_item = internal_item prod_scope ''business_snapshot'' ''sn'' FACT 0 0 ''{}''
     [(''snapshot_id'', JStr ''sn''), (''version'', JInt 1), (''reason'', JStr ''r'')] ''AUDIT''"

lemma prod_shown:
  "decision_item prod_env prod_scope prod_decision = Inr prod_decision_item"
  "context_evidence_item default_budget prod_scope prod_evidence = Inr prod_evidence_item"
  "snapshot_item prod_env default_budget prod_scope prod_snapshot = Inr prod_snapshot_item"
  by code_simp+

lemma prod_loaded:
  "production_load_reference prod_env default_budget prod_scope \<lparr>cr_object_type = ''decision'', cr_object_id = ''d''\<rparr> prod_db
     = Inr (Some prod_decision_item)"
  "production_load_reference prod_env default_budget prod_scope \<lparr>cr_object_type = ''evidence'', cr_object_id = ''e''\<rparr> prod_db
     = Inr (Some prod_evidence_item)"
  "production_load_reference prod_env default_budget prod_scope
     \<lparr>cr_object_type = ''business_snapshot'', cr_object_id = ''sn''\<rparr> prod_db = Inr (Some prod_snapshot_item)"
  by (simp_all add: production_load_reference_def load_reference_def project_row_def row_get_singleton
      assert_matches_def prod_shown)


definition prod_items :: "ContextItem list" where
  "prod_items = [prod_snapshot_item, prod_decision_item, prod_evidence_item]"

lemmas prod_item_defs = prod_snapshot_item_def prod_decision_item_def prod_evidence_item_def internal_item_def
  untrusted_item_def

lemma prod_told: "allowed_evidence_refs prod_items =
    [told (''business_snapshot:sn'', ''FACT''), told (''decision:d'', ''OBSERVATION''),
     told (''evidence:e'', ''OBSERVATION''), told (''e'', ''OBSERVATION'')]"
  by (simp add: allowed_evidence_refs_def prod_items_def prod_item_defs)

lemma prod_told_screened: "assert_no_secrets (JList
    [told (''business_snapshot:sn'', ''FACT''), told (''decision:d'', ''OBSERVATION''),
     told (''evidence:e'', ''OBSERVATION''), told (''e'', ''OBSERVATION'')]) [] = Inr ()"
  by code_simp

lemma prod_time: "isoformat 0 = ''1970-01-01T00:00:00+00:00''"
  by code_simp

lemma prod_json_time: "json_time 0 = ''1970-01-01T00:00:00Z''"
  by (simp add: json_time_def prod_time)

lemma prod_dumps_screened:
  "assert_no_secrets (dump_item prod_snapshot_item) [] = Inr ()"
  "assert_no_secrets (dump_item prod_decision_item) [] = Inr ()"
  "assert_no_secrets (dump_item prod_evidence_item) [] = Inr ()"
  by (simp only: dump_item_def prod_item_defs prod_scope_simps ContextItem.simps option.map prod_json_time, code_simp)+

lemma prod_rule_screened:
  "assert_no_secrets (JObj [(''schema_name'', JStr ''AgentScopedContext''), (''schema_version'', JInt 1),
     (''purpose'', JStr (ct_contract_key content_director_contract)),
     (''output_rule'', JStr (''If the output schema includes evidence_refs, evidence_id must be one '' @
        ''of allowed_refs exactly and must use the listed epistemic_status. '' @
        ''Do not use IDs embedded inside content unless they are listed here.''))]) [] = Inr ()"
  by code_simp

lemma prod_keys: "\<not> secret_key ''evidence_ref_policy''" "\<not> secret_key ''allowed_refs''" "\<not> secret_key ''items''"
  by code_simp+

lemma prod_screened: "no_secrets (context_payload content_director_contract prod_items) = Inr ()"
  using prod_told_screened prod_dumps_screened prod_rule_screened prod_keys
  unfolding no_secrets_iff assert_no_secrets_iff context_payload_def secret_free_JObj prod_told
  by (simp add: prod_items_def secret_free_JList secret_free_JObj)

lemma prod_item_keys:
  "item_key prod_snapshot_item = (''business_snapshot'', isoformat 0, ''sn'')"
  "item_key prod_decision_item = (''decision'', [], ''d'')"
  "item_key prod_evidence_item = (''evidence'', [], ''e'')"
  by (simp_all add: item_key_def prod_item_defs)

lemma prod_sorted_items: "take (max_items default_budget) (sort_key item_key prod_items) = prod_items"
  by (simp add: prod_items_def default_budget_def prod_item_keys less_eq_prod_def)

lemma prod_sorted_refs:
  "sort_key (\<lambda>r. (cr_object_type r, cr_object_id r)) prod_refs =
    [\<lparr>cr_object_type = ''business_snapshot'', cr_object_id = ''sn''\<rparr>,
     \<lparr>cr_object_type = ''decision'', cr_object_id = ''d''\<rparr>, \<lparr>cr_object_type = ''evidence'', cr_object_id = ''e''\<rparr>]"
  by code_simp

lemma prod_manifest_entry: "manifest_entry prod_env it = JObj
    [(''organization_id'', JStr (ci_organization_id it)), (''business_id'', JStr (ci_business_id it)),
     (''source_object_type'', JStr (ci_object_type it)), (''source_object_id'', JStr (ci_object_id it)),
     (''provenance_ref'', JStr (ci_provenance_ref it)),
     (''epistemic_status'', JStr (epistemic_value (ci_epistemic_status it))),
     (''trust_class'', JStr (trust_value (ci_trust_class it))), (''data_boundary'', JStr (ci_data_boundary it)),
     (''occurred_at'', opt_json (map_option isoformat (ci_occurred_at it))),
     (''recorded_at'', opt_json (map_option isoformat (ci_recorded_at it))),
     (''content_hash'', JStr ''h''), (''sensitivity'', JStr (ci_sensitivity it)), (''retention'', JStr (ci_retention it))]"
  by (simp add: manifest_entry_def stable_hash_def prod_env_def)

lemma prod_entries_screened:
  "assert_no_secrets (manifest_entry prod_env prod_snapshot_item) [] = Inr ()"
  "assert_no_secrets (manifest_entry prod_env prod_decision_item) [] = Inr ()"
  "assert_no_secrets (manifest_entry prod_env prod_evidence_item) [] = Inr ()"
  by (simp only: prod_manifest_entry prod_item_defs prod_scope_simps ContextItem.simps option.map prod_time, code_simp)+

lemma prod_frame_screened:
  "assert_no_secrets (JObj [(''schema_name'', JStr ''AgentContextManifest''), (''schema_version'', JInt 1),
     (''purpose'', JStr (ct_contract_key content_director_contract)), (''item_count'', JInt 3),
     (''context_hash'', JStr ''h'')]) [] = Inr ()"
  by code_simp

lemma prod_manifest_screened: "no_secrets (context_manifest prod_env content_director_contract prod_items ''h'') = Inr ()"
  using prod_entries_screened prod_frame_screened prod_keys
  unfolding no_secrets_iff assert_no_secrets_iff context_manifest_def secret_free_JObj
  by (simp add: prod_items_def secret_free_JList secret_free_JObj)

lemma prod_context: "\<exists>b. production_context_build prod_env prod_scope content_director_contract prod_refs prod_db = Inr b \<and>
    cb_items b = prod_items"
proof -
  have "stable_hash prod_env v = ''h''" for v by (simp add: stable_hash_def prod_env_def)
  moreover have "filter (\<lambda>t. t \<notin> set (map ci_object_type prod_items))
      (remdups (ct_required_context_types content_director_contract)) = []" by code_simp
  ultimately have "\<exists>b. finish_context prod_env default_budget content_director_contract
      [prod_snapshot_item, prod_decision_item, prod_evidence_item] = Inr b \<and> cb_items b = prod_items"
    using prod_sorted_items prod_screened prod_manifest_screened
    by (simp add: finish_context_def Let_def prod_items_def [symmetric])
  moreover have "load_all (production_load_reference prod_env default_budget)
      (ct_allowed_context_types content_director_contract) prod_scope prod_db
      [\<lparr>cr_object_type = ''business_snapshot'', cr_object_id = ''sn''\<rparr>, \<lparr>cr_object_type = ''decision'', cr_object_id = ''d''\<rparr>,
       \<lparr>cr_object_type = ''evidence'', cr_object_id = ''e''\<rparr>]
     = Inr [prod_snapshot_item, prod_decision_item, prod_evidence_item]"
    by (simp add: prod_loaded content_director_contract_def)
  moreover have "prod_refs \<noteq> []" by (simp add: prod_refs_def)
  ultimately show ?thesis
    by (simp add: production_context_build_def ContextBuilder_build_def prod_sorted_refs)
qed

theorem context_is_scoped_witness:
  "\<exists>b. production_context_build prod_env prod_scope content_director_contract prod_refs prod_db = Inr b \<and>
    secret_free (JObj (context_payload content_director_contract prod_items)) \<and>
    production_context_build prod_env prod_scope content_director_contract (rev prod_refs) prod_db = Inr b"
proof -
  from prod_context obtain b where b: "cb_items b = prod_items"
    "production_context_build prod_env prod_scope content_director_contract prod_refs prod_db = Inr b" by blast
  from context_is_scoped [OF b(2)] b show ?thesis by simp
qed

definition cited_ref :: "string \<Rightarrow> EvidenceReference" where
  "cited_ref i = \<lparr>er_evidence_id = i, er_epistemic_status = OBSERVATION, er_note = ''n''\<rparr>"


theorem production_refuses_told_refs_witness:
  "validate_production_refs prod_scope [cited_ref ''decision:d''] prod_db =
     Inl (PermanentJobError ''unknown evidence ref: decision:d'')"
proof -
  from prod_context obtain b where b: "cb_items b = prod_items"
    "production_context_build prod_env prod_scope content_director_contract prod_refs prod_db = Inr b" by blast
  have "er_evidence_id (cited_ref ''decision:d'') = ci_provenance_ref prod_decision_item"
    "er_epistemic_status (cited_ref ''decision:d'') = ci_epistemic_status prod_decision_item"
    "prod_decision_item \<in> set (cb_items b)"
    by (simp_all add: cited_ref_def prod_decision_item_def b(1) prod_items_def)
  with production_refuses_told_refs [OF b(2), of prod_decision_item "cited_ref ''decision:d''" prod_scope "[]"]
  show ?thesis by (simp add: cited_ref_def)
qed

end
