(* ===== verification/Agent_Safety.thy ===== *)
theory Agent_Safety
  imports Agent_Handler Context_Properties
begin

text \<open>
  What the handler of agent runs does to the world: at most one request to a model for an attempt, built
  from a scoped context under a checked contract; what comes back is stored on the one run, screened, and
  never changed again.
\<close>

section \<open>The interface of a context\<close>

text \<open>
  The handler saves the run before it asks for the context; what it is given must not depend on that.
\<close>

locale context_port =
  fixes build :: "('z, unit) context_build"
  assumes blind: "build scope c refs (s\<lparr>agent_runs := runs, sql_jobs := sql, unit_of_work := fresh\<rparr>)
    = build scope c refs s"

lemma load_all_cong:
  "(\<And>r. load scope r s = load scope r t) \<Longrightarrow> load_all load allowed scope s refs = load_all load allowed scope t refs"
  by (induction refs) (simp_all split: sum.split)

lemma collect_blind: "collect_default_items env budget scope allowed
    (s\<lparr>agent_runs := runs, sql_jobs := sql, unit_of_work := fresh\<rparr>) = collect_default_items env budget scope allowed s"
  by (simp add: collect_default_items_def)

lemma load_reference_blind: "load_reference env budget scope ref
    (s\<lparr>agent_runs := runs, sql_jobs := sql, unit_of_work := fresh\<rparr>) = load_reference env budget scope ref s"
  by (simp add: load_reference_def Let_def)

lemma production_load_blind: "production_load_reference env budget scope ref
    (s\<lparr>agent_runs := runs, sql_jobs := sql, unit_of_work := fresh\<rparr>) = production_load_reference env budget scope ref s"
  by (simp add: production_load_reference_def Let_def load_reference_blind)

lemma load_all_blind:
  "load_all (load_reference env budget) allowed scope (s\<lparr>agent_runs := runs, sql_jobs := sql, unit_of_work := fresh\<rparr>) refs
    = load_all (load_reference env budget) allowed scope s refs"
  "load_all (production_load_reference env budget) allowed scope
      (s'\<lparr>agent_runs := runs, sql_jobs := sql, unit_of_work := fresh\<rparr>) refs
    = load_all (production_load_reference env budget) allowed scope s' refs"
  by (rule load_all_cong, rule load_reference_blind) (rule load_all_cong, rule production_load_blind)

interpretation base_port: context_port "default_context_build env"
  by unfold_locales (simp add: default_context_build_def ContextBuilder_build_def collect_blind load_all_blind)

interpretation production_port: context_port "production_context_build env"
  by unfold_locales (simp add: production_context_build_def ContextBuilder_build_def collect_blind load_all_blind)

section \<open>The steps of an attempt\<close>

text \<open>The state without the runs and without what the session and the provider log keep.\<close>

definition beside_runs :: "'z agent_store_scheme \<Rightarrow> 'z agent_store_scheme" where
  "beside_runs s = s\<lparr>agent_runs := [], sql_jobs := [], unit_of_work := [], provider_log := []\<rparr>"

lemma beside_runs_update [simp]:
  "beside_runs (s\<lparr>agent_runs := x\<rparr>) = beside_runs s" "beside_runs (s\<lparr>sql_jobs := y\<rparr>) = beside_runs s"
  "beside_runs (s\<lparr>unit_of_work := z\<rparr>) = beside_runs s" "beside_runs (s\<lparr>provider_log := w\<rparr>) = beside_runs s"
  by (simp_all add: beside_runs_def)

lemma run_update_run [run_simps]:
  "update_run run f s = (Inr (), s\<lparr>agent_runs := row_set rid (rid run) f (agent_runs s),
     unit_of_work := unit_of_work s @ [(org run, biz run)]\<rparr>)"
  by (simp add: update_run_def run_bnd run_modify touch_def)

definition begun :: "agent_run_row \<Rightarrow> datetime \<Rightarrow> 'z agent_store_scheme \<Rightarrow> 'z agent_store_scheme" where
  "begun run now s = s\<lparr>agent_runs := row_set rid (rid run) (started_run now) (agent_runs s), sql_jobs := jobs s,
     unit_of_work := []\<rparr>"

definition contexted :: "agent_run_row \<Rightarrow> datetime \<Rightarrow> ContextBundle \<Rightarrow> 'z agent_store_scheme \<Rightarrow> 'z agent_store_scheme" where
  "contexted run now b s = s\<lparr>sql_jobs := jobs s, agent_runs := row_set rid (rid run) (with_context b \<circ> started_run now) (agent_runs s),
     unit_of_work := [(org run, biz run)]\<rparr>"

lemma row_set_after:
  "(\<And>r. rid (f r) = rid r) \<Longrightarrow> row_set rid i g (row_set rid i f rs) = row_set rid i (g \<circ> f) rs"
  by (simp add: row_set_def)

lemma kept_id [simp]:
  "rid (started_run now r) = rid r" "rid (with_context b r) = rid r" "rid (provider_trace m r) = rid r"
  "rid (settled_run now result r) = rid r"
  by (simp_all add: started_run_def with_context_def provider_trace_def settled_run_def split: ModelResultKind.split)

lemma run_agent_run:
  "run_agent build router context run c now s =
    (case context_refs (ar_context_refs run) of Inl e \<Rightarrow> (Inl e, begun run now s)
     | Inr refs \<Rightarrow>
      (case build \<lparr>organization_id = organization_id context, business_id = business_id context\<rparr> c refs (begun run now s) of
         Inl e \<Rightarrow> (Inl e, begun run now s)
       | Inr b \<Rightarrow>
        (case resolve_route router (ct_model_capability c) of Inl e \<Rightarrow> (Inl e, contexted run now b s)
         | Inr (route, adapter) \<Rightarrow>
            bnd (invoke adapter (model_request context c route b)) (\<lambda>result.
            bnd (lift_sum (assert_route_trace (ct_model_capability c) route result)) (\<lambda>_.
            bnd (persist_model_result run result now (ct_model_capability c) route) (\<lambda>_.
            flush))) (contexted run now b s))))"
  by (simp add: run_agent_def run_simps begun_def contexted_def row_set_after comp_def
      split: sum.split prod.split)


section \<open>What an attempt sends and stores\<close>

abbreviation scope_of_job :: "RuntimeJobContext \<Rightarrow> TenantScope" where
  "scope_of_job context \<equiv> \<lparr>organization_id = organization_id context, business_id = business_id context\<rparr>"

definition same_sent :: "'z store_scheme \<Rightarrow> 'z store_scheme \<Rightarrow> bool" where
  "same_sent s t \<longleftrightarrow> provider_log t = provider_log s"

interpretation sent: state_preorder same_sent
  by unfold_locales (simp_all add: same_sent_def)

lemma persist_sent: "tracks same_sent (persist_model_result run result now capability route)"
  unfolding persist_model_result_def update_run_def touch_def
  by (intro sent.t_rules sent.t_modify; simp add: same_sent_def)

definition stored_run ::
  "ContextBundle \<Rightarrow> ModelResult \<Rightarrow> payload \<Rightarrow> datetime \<Rightarrow> agent_run_row \<Rightarrow> agent_run_row" where
  "stored_run b result trace now r =
     (settled_run now result (provider_trace (mr_metadata result) (with_context b (started_run now r))))
       \<lparr>ar_safe_trace_metadata := trace\<rparr>"

lemma persist_ok:
  assumes "persist_model_result run result now capability route s = (Inr (), t)"
  obtains trace where "parsed_output_checked result = Inr ()"
    "safe_trace (outcome_value (mr_kind result)) capability route (mr_metadata result) = Inr trace"
    "agent_runs t = row_set rid (rid run) (\<lambda>r. (settled_run now result (provider_trace (mr_metadata result) r))
       \<lparr>ar_safe_trace_metadata := trace\<rparr>) (agent_runs s)"
    "beside_runs t = beside_runs s" "provider_log t = provider_log s"
  using assms
  by (auto simp: persist_model_result_def run_simps row_set_after comp_def split: sum.splits)


lemma begun_simps [simp]:
  "provider_log (begun run now s) = provider_log s" "provider_log (contexted run now b s) = provider_log s"
  "beside_runs (begun run now s) = beside_runs s" "beside_runs (contexted run now b s) = beside_runs s"
  "agent_runs (contexted run now b s) = row_set rid (rid run) (with_context b \<circ> started_run now) (agent_runs s)"
  by (simp_all add: begun_def contexted_def)

lemma resolved_adapter: "resolve_route router capability = Inr (route, adapter) \<Longrightarrow> adapter \<in> snd ` set (mt_adapters router)"
  by (force simp: resolve_route_def split: option.splits dest: map_of_SomeD)

lemma same_sent_flush: "tracks same_sent flush"
  by (simp add: tracks_def same_sent_def run_flush)

context model_port
begin

lemma asked_then:
  assumes "bnd (invoke adapter rq) f s = (r, t)" and "\<And>x. tracks same_sent (f x)"
  shows "provider_log t = provider_log s @ [asked rq]"
proof -
  obtain x u where u: "invoke adapter rq s = (x, u)" by fastforce
  have "provider_log u = provider_log s @ [asked rq]" unfolding invoke_state [OF u] by simp
  moreover have "provider_log t = provider_log u"
  proof (cases x)
    case (Inr y)
    with u assms(1) have "f y u = (r, t)" by (simp add: run_bnd)
    from tracksD [OF assms(2) this] show ?thesis by (simp add: same_sent_def)
  qed (use u assms(1) in \<open>simp add: run_bnd\<close>)
  ultimately show ?thesis by simp
qed

lemma answered_then:
  assumes "bnd (invoke adapter rq) f s = (Inr y, t)"
  obtains result where "invoke adapter rq s = (Inr result, s\<lparr>provider_log := provider_log s @ [asked rq]\<rparr>)"
    "f result (s\<lparr>provider_log := provider_log s @ [asked rq]\<rparr>) = (Inr y, t)"
  using assms invoke_state by (elim bnd_okE) metis

end

context context_port
begin

lemma begun_blind: "build scope c refs (begun run now s) = build scope c refs s"
  by (simp add: begun_def blind)

lemma attempt_sends:
  assumes adapters: "\<forall>a \<in> snd ` set (mt_adapters router). model_port a"
    and run: "run_agent build router context run c now s = (r, t)"
  shows "provider_log t = provider_log s \<or> (\<exists>refs b route adapter.
    context_refs (ar_context_refs run) = Inr refs \<and> build (scope_of_job context) c refs s = Inr b \<and>
    resolve_route router (ct_model_capability c) = Inr (route, adapter) \<and>
    provider_log t = provider_log s @ [asked (model_request context c route b)])"
proof (cases "context_refs (ar_context_refs run)")
  case (Inr refs)
  show ?thesis
  proof (cases "build (scope_of_job context) c refs s")
    case built: (Inr b)
    show ?thesis
    proof (cases "resolve_route router (ct_model_capability c)")
      case (Inr ra)
      obtain route adapter where ra: "ra = (route, adapter)" by fastforce
      have "model_port adapter" using adapters resolved_adapter Inr ra by blast
      from model_port.asked_then [OF this, of "model_request context c route b" _ "contexted run now b s"] run
      have "provider_log t = provider_log s @ [asked (model_request context c route b)]"
        using Inr built ra \<open>context_refs (ar_context_refs run) = Inr refs\<close>
        by (auto simp: run_agent_run begun_blind intro!: sent.t_rules persist_sent same_sent_flush)
      then show ?thesis using Inr built ra \<open>context_refs (ar_context_refs run) = Inr refs\<close> by blast
    qed (use run Inr built in \<open>auto simp: run_agent_run begun_blind\<close>)
  qed (use run Inr in \<open>auto simp: run_agent_run begun_blind\<close>)
qed (use run in \<open>auto simp: run_agent_run\<close>)

lemma attempt_stores:
  assumes adapters: "\<forall>a \<in> snd ` set (mt_adapters router). model_port a"
    and run: "run_agent build router context run c now s = (Inr (), t)"
  obtains refs b route adapter result trace where
    "context_refs (ar_context_refs run) = Inr refs" "build (scope_of_job context) c refs s = Inr b"
    "resolve_route router (ct_model_capability c) = Inr (route, adapter)"
    "fst (invoke adapter (model_request context c route b) (contexted run now b s)) = Inr result"
    "assert_route_trace (ct_model_capability c) route result = Inr ()" "parsed_output_checked result = Inr ()"
    "safe_trace (outcome_value (mr_kind result)) (ct_model_capability c) route (mr_metadata result) = Inr trace"
    "agent_runs t = row_set rid (rid run) (stored_run b result trace now) (agent_runs s)"
    "beside_runs t = beside_runs s" "provider_log t = provider_log s @ [asked (model_request context c route b)]"
proof -
  from run obtain refs b route adapter where steps: "context_refs (ar_context_refs run) = Inr refs"
      "build (scope_of_job context) c refs s = Inr b" "resolve_route router (ct_model_capability c) = Inr (route, adapter)"
      "bnd (invoke adapter (model_request context c route b)) (\<lambda>result.
            bnd (lift_sum (assert_route_trace (ct_model_capability c) route result)) (\<lambda>_.
            bnd (persist_model_result run result now (ct_model_capability c) route) (\<lambda>_.
            flush))) (contexted run now b s) = (Inr (), t)"
    by (auto simp: run_agent_run begun_blind split: sum.splits)
  have "model_port adapter" using adapters resolved_adapter steps(3) by blast
  from model_port.answered_then [OF this steps(4)] obtain result where
    asked: "invoke adapter (model_request context c route b) (contexted run now b s) = (Inr result, (contexted run now b s)
      \<lparr>provider_log := provider_log (contexted run now b s) @ [asked (model_request context c route b)]\<rparr>)"
    and rest: "bnd (lift_sum (assert_route_trace (ct_model_capability c) route result)) (\<lambda>_.
       bnd (persist_model_result run result now (ct_model_capability c) route) (\<lambda>_. flush))
       ((contexted run now b s)\<lparr>provider_log := provider_log (contexted run now b s) @
          [asked (model_request context c route b)]\<rparr>) = (Inr (), t)" .
  from rest obtain u where u: "assert_route_trace (ct_model_capability c) route result = Inr ()"
    "persist_model_result run result now (ct_model_capability c) route ((contexted run now b s)\<lparr>provider_log :=
       provider_log (contexted run now b s) @ [asked (model_request context c route b)]\<rparr>) = (Inr (), u)"
    "t = u\<lparr>sql_jobs := jobs u, unit_of_work := []\<rparr>"
    by (auto elim!: bnd_okE simp: run_lift_sum run_flush)
  from u(2) obtain trace where p: "parsed_output_checked result = Inr ()"
    "safe_trace (outcome_value (mr_kind result)) (ct_model_capability c) route (mr_metadata result) = Inr trace"
    "agent_runs u = row_set rid (rid run) (\<lambda>r. (settled_run now result (provider_trace (mr_metadata result) r))
       \<lparr>ar_safe_trace_metadata := trace\<rparr>) (row_set rid (rid run) (with_context b \<circ> started_run now) (agent_runs s))"
    "beside_runs u = beside_runs s" "provider_log u = provider_log s @ [asked (model_request context c route b)]"
    by (rule persist_ok) simp
  show ?thesis
  proof (rule that [of refs b route adapter result trace])
    show "agent_runs t = row_set rid (rid run) (stored_run b result trace now) (agent_runs s)"
      by (simp add: u(3) p(3) row_set_after comp_def stored_run_def [abs_def])
  qed (use steps asked u p in simp_all)
qed

end


section \<open>The gate of the handler\<close>

text \<open>The run that a job may attempt: of the tenant and the job, not settled, under a contract that still holds.\<close>

definition attemptable ::
  "'e agent_env_scheme \<Rightarrow> agent_registry \<Rightarrow> RuntimeJobContext \<Rightarrow> payload \<Rightarrow> agent_run_row \<Rightarrow> AgentContract
     \<Rightarrow> 'z agent_store_scheme \<Rightarrow> bool" where
  "attemptable env reg context pl run c s \<longleftrightarrow>
     agent_run_id pl = Inr (rid run) \<and> row_get rid (rid run) (agent_runs s) = Some run \<and>
     org run = organization_id context \<and> biz run = business_id context \<and>
     ar_job_id run \<in> {None, Some (ctx_job_id context)} \<and> \<not> agent_run_is_terminal run \<and>
     run_contract env reg run s = Inr c"

lemma handle_cases:
  assumes "AgentRunJobHandler_handle env reg build router context pl now s = (r, t)"
  obtains (refused) "r \<noteq> Inr ()" "t = s"
  | (settled) run where "r = Inr ()" "t = s" "agent_run_id pl = Inr (rid run)"
      "row_get rid (rid run) (agent_runs s) = Some run" "agent_run_is_terminal run"
  | (attempt) run c where "attemptable env reg context pl run c s" "run_agent build router context run c now s = (r, t)"
proof (cases "no_secrets pl")
  case (Inl e)
  with assms show ?thesis by (intro refused) (auto simp: AgentRunJobHandler_handle_def run_simps)
next
  case free: (Inr u)
  show ?thesis
  proof (cases "agent_run_id pl")
    case (Inl e)
    with assms free show ?thesis by (intro refused) (auto simp: AgentRunJobHandler_handle_def run_simps)
  next
    case i: (Inr i)
    show ?thesis
    proof (cases "row_get rid i (agent_runs s)")
      case None
      with assms free i show ?thesis
        by (intro refused) (auto simp: AgentRunJobHandler_handle_def run_simps load_run_def)
    next
      case found: (Some run)
      from row_get_Some [OF this] have id: "i = rid run" by simp
      note here = assms [unfolded AgentRunJobHandler_handle_def] free i found
      show ?thesis
      proof (cases "assert_matches context (org run) (biz run)")
        case (Inl e)
        with here show ?thesis by (intro refused) (auto simp: run_simps load_run_def)
      next
        case scope: (Inr v)
        show ?thesis
        proof (cases "ar_job_id run \<in> {None, Some (ctx_job_id context)}")
          case False
          with here scope show ?thesis by (intro refused) (auto simp: run_simps load_run_def)
        next
          case bound: True
          show ?thesis
          proof (cases "agent_run_is_terminal run")
            case True
            with here scope bound id show ?thesis
              by (intro settled [of run]) (simp_all add: run_simps load_run_def)
          next
            case unsettled: False
            show ?thesis
            proof (cases "run_contract env reg run s")
              case (Inl e)
              with here scope bound unsettled show ?thesis by (intro refused) (auto simp: run_simps load_run_def)
            next
              case (Inr c)
              have own: "org run = organization_id context \<and> biz run = business_id context"
                using scope scope_matches_iff by (cases v) blast
              show ?thesis
              proof (rule attempt)
                show "run_agent build router context run c now s = (r, t)"
                  using here scope bound unsettled Inr by (simp add: run_simps load_run_def)
                show "attemptable env reg context pl run c s"
                  using i found id own bound unsettled Inr by (simp add: attemptable_def)
              qed
            qed
          qed
        qed
      qed
    qed
  qed
qed

lemma trace_screened: "safe_trace v capability route m = Inr trace \<Longrightarrow> secret_free (JObj trace)"
  by (auto simp: safe_trace_def Let_def no_secrets_iff split: sum.splits)

lemma stored_run_simps:
  "agent_run_is_terminal (stored_run b result trace now r)"
  "ar_status (stored_run b result trace now r) = AgentRunStatus.SUCCEEDED \<longleftrightarrow> mr_kind result = PARSED"
  "mr_kind result \<noteq> PARSED \<Longrightarrow> ar_output_data (stored_run b result trace now r) = None"
  "mr_kind result = PARSED \<Longrightarrow> ar_output_data (stored_run b result trace now r) = map_option snd (mr_parsed_output result)"
  "ar_context_manifest (stored_run b result trace now r) = cb_manifest b"
  "ar_safe_trace_metadata (stored_run b result trace now r) = trace"
  by (cases "mr_kind result"; simp add: stored_run_def settled_run_def provider_trace_def with_context_def started_run_def
      agent_run_is_terminal_def)+

section \<open>Properties\<close>

text \<open>
  Claim C14. An attempt at an agent run asks a model at most once, and then only for a run of the tenant
  and of the job at hand that is not settled, whose stored definition still is the registered contract
  with the fingerprint the run was made for. What is asked is exactly the request made from the contract
  and from the context built for this tenant, whose items all belong to it and whose text has no secret.
\<close>

theorem model_asked_from_scoped_context:
  assumes adapters: "\<forall>a \<in> snd ` set (mt_adapters router). model_port a"
    and run: "AgentRunJobHandler_handle env reg (production_context_build env) router context pl now s = (r, t)"
  shows "provider_log t = provider_log s \<or> (\<exists>run c refs b route adapter.
    attemptable env reg context pl run c s \<and> context_refs (ar_context_refs run) = Inr refs \<and>
    production_context_build env (scope_of_job context) c refs s = Inr b \<and>
    (\<forall>it \<in> set (cb_items b). ci_organization_id it = org run \<and> ci_business_id it = biz run) \<and>
    secret_free (JObj (context_payload c (cb_items b))) \<and>
    resolve_route router (ct_model_capability c) = Inr (route, adapter) \<and>
    provider_log t = provider_log s @ [asked (model_request context c route b)])"
  using run
proof (cases rule: handle_cases)
  case (attempt run c)
  from production_port.attempt_sends [OF adapters attempt(2)] show ?thesis
  proof (elim disjE exE conjE, goal_cases)
    case (2 refs b route adapter)
    note build = 2(2) [unfolded production_context_build_def]
    have "ci_organization_id it = org run \<and> ci_business_id it = biz run" if "it \<in> set (cb_items b)" for it
      using production_context.build_admitted [OF build that] attempt(1)
      by (simp add: production_context.admitted_def scoped_item_def attemptable_def)
    moreover from build obtain items where "finish_context env default_budget c items = Inr b" by (rule build_ok)
    from finish_ok [OF this] have "secret_free (JObj (context_payload c (cb_items b)))" unfolding no_secrets_iff by blast
    ultimately show ?case using 2 attempt(1) by blast
  qed simp
qed simp_all



section \<open>An attempt in the example\<close>

definition prod_adapter :: "'z model_adapter" where
  "prod_adapter = FakeModelAdapter (\<lambda>_ pl. Inr pl) ''fake-structured-model''
     [default_success_step\<lparr>fs_payload := Some [(''objective'', JStr ''g'')]\<rparr>] (\<lambda>_. (0, 0, 0))"

definition prod_router :: "'z ModelRouter" where
  "prod_router = \<lparr>mt_routes = routes_to ''fake'' ''fake-structured-model'' all_capabilities,
     mt_adapters = [(''fake'', prod_adapter)]\<rparr>"

definition prod_registry :: agent_registry where
  "prod_registry = [(CONTENT_DIRECTOR_CONTRACT_KEY, 1) \<mapsto> content_director_contract]"

definition prod_asked :: agent_run_row where
  "prod_asked = new_agent_run prod_env prod_scope content_director_contract ''ad'' None prod_refs None None None 0 ''r''"

definition prod_job :: RuntimeJobContext where
  "prod_job = \<lparr>organization_id = ''o'', business_id = ''b'', ctx_job_id = ''j'', ctx_job_type = JOB_TYPE_AI_RUN_AGENT,
     ctx_attempt_count = 1, ctx_correlation_id = None, ctx_causation_id = None\<rparr>"

definition prod_payload :: payload where
  "prod_payload = [(''payload_schema_version'', JInt 1), (''agent_run_id'', JStr ''r'')]"

definition prod_start :: production_store where
  "prod_start = prod_db\<lparr>agent_runs := [prod_asked]\<rparr>"

lemma prod_asked_simps [simp]:
  "rid prod_asked = ''r''" "org prod_asked = ''o''" "biz prod_asked = ''b''" "ar_job_id prod_asked = None"
  "ar_status prod_asked = AgentRunStatus.QUEUED" "ar_agent_definition_id prod_asked = ''ad''"
  "ar_contract_key prod_asked = CONTENT_DIRECTOR_CONTRACT_KEY" "ar_contract_version prod_asked = 1"
  "ar_contract_fingerprint prod_asked = fingerprint prod_env content_director_contract"
  "ar_context_refs prod_asked = map dump_reference prod_refs"
  by (simp_all add: prod_asked_def new_agent_run_def content_director_contract_def)

lemma prod_contract: "run_contract prod_env prod_registry prod_asked prod_start = Inr content_director_contract"
  by (simp add: run_contract_def prod_start_def prod_definition_def new_agent_definition_def prod_registry_def
      resolve_contract_def assert_agent_definition_parity_def content_director_contract_def)

lemma prod_attemptable: "attemptable prod_env prod_registry prod_job prod_payload prod_asked content_director_contract prod_start"
  unfolding attemptable_def prod_contract
  by (simp add: agent_run_id_def prod_payload_def dict_get_def prod_start_def prod_job_def agent_run_is_terminal_def)

lemma prod_payload_screened: "no_secrets prod_payload = Inr ()"
  by code_simp

lemma prod_refs_read: "context_refs (map dump_reference prod_refs) = Inr prod_refs"
  by code_simp


lemma prod_start_built: "\<exists>b. production_context_build prod_env prod_scope content_director_contract prod_refs prod_start = Inr b \<and>
    cb_items b = prod_items"
proof -
  have "prod_start = prod_db\<lparr>agent_runs := [prod_asked], sql_jobs := sql_jobs prod_db, unit_of_work := unit_of_work prod_db\<rparr>"
    by (simp add: prod_start_def)
  with prod_context production_port.blind show ?thesis by metis
qed

definition prod_route :: ModelRoute where
  "prod_route = \<lparr>mo_capability = STANDARD_REASONING, mo_provider_name = ''fake'', mo_model_name = ''fake-structured-model''\<rparr>"

lemma prod_resolved: "resolve_route prod_router (ct_model_capability content_director_contract) = Inr (prod_route, prod_adapter)"
  by (simp add: resolve_route_def prod_router_def routes_to_def all_capabilities_def prod_route_def content_director_contract_def)

definition prod_metadata :: ProviderMetadata where
  "prod_metadata = \<lparr>pm_provider_name = ''fake'', pm_model_name = ''fake-structured-model'',
     pm_response_id = Some ''fake-response-1'',
     pm_token_usage = [(''input_tokens'', JInt 1), (''output_tokens'', JInt 1), (''total_tokens'', JInt 2)],
     pm_latency_ms = Some 0, pm_started_at = 0, pm_completed_at = 0\<rparr>"

lemma prod_answer:
  assumes "provider_log s = []"
  shows "invoke prod_adapter (model_request prod_job content_director_contract prod_route b) s =
    (Inr (parsed_result (ContentStrategyProposal, [(''objective'', JStr ''g'')]) prod_metadata),
     s\<lparr>provider_log := [asked (model_request prod_job content_director_contract prod_route b)]\<rparr>)"
proof -
  have "show_nat 1 = ''1''" by code_simp
  then have "fake_metadata ''fake-structured-model'' (\<lambda>_. (0, 0, 0)) [] (model_request prod_job content_director_contract prod_route b)
      = prod_metadata"
    by (simp add: fake_metadata_def model_request_def prod_route_def prod_metadata_def call_count_def)
  moreover have "rq_output_type (model_request prod_job content_director_contract prod_route b) = ContentStrategyProposal"
    by (simp add: model_request_def content_director_contract_def)
  ultimately show ?thesis using assms
    by (simp add: prod_adapter_def FakeModelAdapter_def fake_invoke_def run_simps Let_def call_count_def
        fake_outcome_def default_success_step_def)
qed

lemma prod_trace_screened: "\<exists>trace. safe_trace (outcome_value PARSED) (ct_model_capability content_director_contract) prod_route prod_metadata
    = Inr trace"
proof -
  have "trace_of (outcome_value PARSED) (ct_model_capability content_director_contract) prod_route prod_metadata =
     [(''provider_name'', JStr ''fake''), (''model_name'', JStr ''fake-structured-model''),
      (''response_id'', JStr ''fake-response-1''),
      (''token_usage'', JObj [(''input_tokens'', JInt 1), (''output_tokens'', JInt 1), (''total_tokens'', JInt 2)]),
      (''latency_ms'', JInt 0), (''started_at'', JStr ''1970-01-01T00:00:00+00:00''),
      (''completed_at'', JStr ''1970-01-01T00:00:00+00:00''),
      (''schema_name'', JStr ''AgentRunProviderTrace''), (''schema_version'', JInt 1), (''outcome'', JStr ''SUCCEEDED''),
      (''requested_capability'', JStr ''STANDARD_REASONING''), (''selected_provider_name'', JStr ''fake''),
      (''selected_model_name'', JStr ''fake-structured-model''), (''actual_provider_name'', JStr ''fake''),
      (''actual_model_name'', JStr ''fake-structured-model'')]"
    by (simp add: trace_of_def safe_dict_def prod_metadata_def prod_route_def content_director_contract_def opt_int_def
        opt_json_def prod_time)
  moreover have "no_secrets \<dots> = Inr ()" by code_simp
  ultimately show ?thesis by (simp add: safe_trace_def Let_def)
qed


lemma prod_attempt: "\<exists>t. AgentRunJobHandler_handle prod_env prod_registry (production_context_build prod_env) prod_router
    prod_job prod_payload 0 prod_start = (Inr (), t)"
proof -
  from prod_start_built obtain b where
    "production_context_build prod_env prod_scope content_director_contract prod_refs prod_start = Inr b" by blast
  then have built: "production_context_build prod_env (scope_of_job prod_job) content_director_contract prod_refs
      (begun prod_asked 0 prod_start) = Inr b"
    unfolding production_port.begun_blind by (simp add: prod_scope_def prod_job_def)
  have "provider_log (contexted prod_asked 0 b prod_start) = []" by (simp add: prod_start_def)
  note answer = prod_answer [OF this]
  obtain R where R: "R = parsed_result (ContentStrategyProposal, [(''objective'', JStr ''g'')]) prod_metadata" by simp
  then have fields: "mr_kind R = PARSED" "mr_metadata R = prod_metadata" by (simp_all add: plain_result_def)
  have route: "assert_route_trace (ct_model_capability content_director_contract) prod_route R = Inr ()"
    by (simp add: assert_route_trace_def fields prod_metadata_def prod_route_def)
  have "no_secrets [(''objective'', JStr ''g'')] = Inr ()" by code_simp
  then have checked: "parsed_output_checked R = Inr ()"
    by (simp add: parsed_output_checked_def R plain_result_def)
  obtain trace where trace: "safe_trace ''SUCCEEDED'' (ct_model_capability content_director_contract)
      prod_route prod_metadata = Inr trace" using prod_trace_screened by auto
  have "\<exists>t. run_agent (production_context_build prod_env) prod_router prod_job prod_asked content_director_contract 0 prod_start
      = (Inr (), t)"
    by (simp add: run_agent_run prod_refs_read built prod_resolved answer [folded R] run_simps route persist_model_result_def
        checked fields trace)
  moreover have "check_scope prod_job ''o'' ''b'' prod_start = (Inr (), prod_start)"
    by (simp add: run_simps assert_matches_def prod_job_def)
  ultimately show ?thesis
    using prod_attemptable prod_payload_screened
    by (simp add: AgentRunJobHandler_handle_def attemptable_def run_bnd run_gets run_lift_sum run_require
        run_check_no_secrets load_run_def prod_start_def)
qed

lemma prod_adapters: "\<forall>a \<in> snd ` set (mt_adapters prod_router). model_port a"
  by (simp add: prod_router_def prod_adapter_def fake_model.model_port_axioms)

theorem model_asked_from_scoped_context_witness:
  "\<exists>t. AgentRunJobHandler_handle prod_env prod_registry (production_context_build prod_env) prod_router
      prod_job prod_payload 0 prod_start = (Inr (), t) \<and>
    (provider_log t = [] \<or> (\<exists>c b route. provider_log t = [asked (model_request prod_job c route b)] \<and>
       secret_free (JObj (context_payload c (cb_items b)))))"
proof -
  from prod_attempt obtain t where t: "AgentRunJobHandler_handle prod_env prod_registry (production_context_build prod_env)
      prod_router prod_job prod_payload 0 prod_start = (Inr (), t)" by blast
  have "provider_log prod_start = []" by (simp add: prod_start_def)
  with model_asked_from_scoped_context [OF prod_adapters t] t show ?thesis by auto
qed



section \<open>Settled runs\<close>

text \<open>Runs with another identifier stay where they are.\<close>

definition keeps_others :: "string \<Rightarrow> 'z agent_store_scheme \<Rightarrow> 'z agent_store_scheme \<Rightarrow> bool" where
  "keeps_others i s t \<longleftrightarrow> (\<forall>x \<in> set (agent_runs s). rid x \<noteq> i \<longrightarrow> x \<in> set (agent_runs t))"

interpretation others: state_preorder "keeps_others i"
  by unfold_locales (simp_all add: keeps_others_def)

lemma others_primitives:
  "tracks (keeps_others i) flush" "tracks (keeps_others (rid run)) (update_run run f)"
  by (auto simp: tracks_def keeps_others_def run_simps set_row_set)

lemma others_invoke: "model_port adapter \<Longrightarrow> tracks (keeps_others i) (invoke adapter rq)"
  by (rule tracksI) (simp add: keeps_others_def model_port.asks_once)

lemma others_lifted: "(\<And>y. x = Inr y \<Longrightarrow> tracks (keeps_others i) (f y)) \<Longrightarrow> tracks (keeps_others i) (bnd (lift_sum x) f)"
  by (cases x) (simp_all add: tracks_def run_simps keeps_others_def)

lemma attempt_keeps_others:
  assumes adapters: "\<forall>a \<in> snd ` set (mt_adapters router). model_port a"
  shows "tracks (keeps_others (rid run)) (run_agent build router context run c now)"
proof -
  have "tracks (keeps_others (rid run)) (invoke adapter rq)"
    if "resolve_route router capability = Inr x" "x = (route, adapter)" for capability x route adapter rq
    using adapters resolved_adapter that by (intro others_invoke) blast
  then show ?thesis
    unfolding run_agent_def persist_model_result_def
    by (intro others_lifted others.t_rules others_primitives)
qed

text \<open>
  Claim C16. A settled agent run is final. Whatever a delivery of any job does, returning or raising, and
  whatever failure is recorded for any job, a run that is settled keeps every column; a delivery that names
  it sends nothing and changes nothing. A failure recorded for a job marks the run it names as waiting for
  the retry or as failed, in the same tenant only, with a bounded summary, and leaves every other run.
\<close>

theorem settled_run_is_final:
  assumes adapters: "\<forall>a \<in> snd ` set (mt_adapters router). model_port a"
    and ids: "distinct (map rid (agent_runs s))" and run: "run \<in> set (agent_runs s)" "agent_run_is_terminal run"
    and handled: "AgentRunJobHandler_handle env reg build router context pl now s = (r, t)"
    and recorded: "AgentRunJobHandler_record_attempt_failure job e will_retry now backoff s = (q, u)"
  shows "run \<in> set (agent_runs t) \<and> (agent_run_id pl = Inr (rid run) \<longrightarrow> t = s) \<and>
    run \<in> set (agent_runs u) \<and> q = Inr () \<and> provider_log u = provider_log s \<and>
    (\<forall>x \<in> set (agent_runs u) - set (agent_runs s). \<exists>y \<in> set (agent_runs s).
       as_str (dict_get (job_payload job) ''agent_run_id'') = Some (rid y) \<and> \<not> agent_run_is_terminal y \<and>
       org y = org job \<and> biz y = biz job \<and> x = failed_run job e will_retry now y \<and>
       length (the (ar_error_summary x)) \<le> 500)"
proof -
  have unique: "x = y" if "x \<in> set (agent_runs s)" "y \<in> set (agent_runs s)" "rid x = rid y" for x y
    using ids that by (auto simp: distinct_map dest: inj_onD)
  have first: "run \<in> set (agent_runs t) \<and> (agent_run_id pl = Inr (rid run) \<longrightarrow> t = s)"
    using handled
  proof (cases rule: handle_cases)
    case (attempt other c)
    then have other: "other \<in> set (agent_runs s)" "\<not> agent_run_is_terminal other" "agent_run_id pl = Inr (rid other)"
      by (auto simp: attemptable_def dest: row_get_Some)
    with run unique have "rid run \<noteq> rid other" by blast
    with other(3) tracksD [OF attempt_keeps_others [OF adapters] attempt(2)] run(1) show ?thesis
      by (simp add: keeps_others_def)
  qed (use run in simp_all)
  show ?thesis
  proof (cases "as_str (dict_get (job_payload job) ''agent_run_id'')")
    case None
    with recorded first run(1) show ?thesis
      by (simp add: AgentRunJobHandler_record_attempt_failure_def run_simps)
  next
    case i: (Some i)
    show ?thesis
    proof (cases "row_get rid i (agent_runs s)")
      case None
      with recorded first run(1) i show ?thesis
        by (simp add: AgentRunJobHandler_record_attempt_failure_def run_simps)
    next
      case (Some y)
      show ?thesis
      proof (cases "agent_run_is_terminal y \<or> org y \<noteq> org job \<or> biz y \<noteq> biz job")
        case True
        with recorded first run(1) i Some show ?thesis
          by (simp add: AgentRunJobHandler_record_attempt_failure_def run_simps)
      next
        case False
        have y: "y \<in> set (agent_runs s)" "rid y = i" using row_get_Some [OF Some] by simp_all
        with False run unique have "rid run \<noteq> i" by blast
        have u: "agent_runs u = row_set rid i (failed_run job e will_retry now) (agent_runs s)" "q = Inr ()"
          "provider_log u = provider_log s"
          using recorded i Some False y(2) by (auto simp: AgentRunJobHandler_record_attempt_failure_def run_simps)
        have "x = failed_run job e will_retry now y" if "x \<in> set (agent_runs u) - set (agent_runs s)" for x
        proof -
          from that obtain z where "z \<in> set (agent_runs s)" "rid z = i" "x = failed_run job e will_retry now z"
            unfolding u by (auto simp: set_row_set split: if_splits)
          with unique y show ?thesis by blast
        qed
        moreover have "length (the (ar_error_summary (failed_run job e will_retry now y))) \<le> 500"
          by (simp add: failed_run_def redacted_length)
        ultimately show ?thesis
          using first u y False i run(1) \<open>rid run \<noteq> i\<close> by (auto simp: set_row_set)
      qed
    qed
  qed
qed

theorem settled_run_is_final_witness:
  "\<exists>t u. AgentRunJobHandler_handle prod_env prod_registry (production_context_build prod_env) prod_router prod_job
      prod_payload 0 (prod_db\<lparr>agent_runs := [prod_run ''r'' ''c'' ''k'' REFUSED None]\<rparr>) = (Inr (), t) \<and>
    prod_run ''r'' ''c'' ''k'' REFUSED None \<in> set (agent_runs t)"
proof -
  let ?run = "prod_run ''r'' ''c'' ''k'' REFUSED None"
  let ?s = "prod_db\<lparr>agent_runs := [?run]\<rparr>"
  have run: "distinct (map rid (agent_runs ?s))" "?run \<in> set (agent_runs ?s)" "agent_run_is_terminal ?run"
    by (simp_all add: prod_run_def agent_run_is_terminal_def)
  have "agent_run_id prod_payload = Inr ''r''" using prod_attemptable by (simp add: attemptable_def)
  then have t: "AgentRunJobHandler_handle prod_env prod_registry (production_context_build prod_env) prod_router prod_job
      prod_payload 0 ?s = (Inr (), ?s)"
    using prod_payload_screened
    by (simp add: AgentRunJobHandler_handle_def run_simps load_run_def prod_run_def assert_matches_def prod_job_def
        agent_run_is_terminal_def)
  obtain q u where "AgentRunJobHandler_record_attempt_failure (probe_job prod_payload) (OtherError ''E'' []) True 0 0 ?s = (q, u)"
    by fastforce
  from settled_run_is_final [OF prod_adapters run t this] t show ?thesis by blast
qed

end
