(* ===== verification/Production_Machine.thy ===== *)
theory Production_Machine
  imports Production_Governance Workflow_Machine
begin

text \<open>
  The production workflow as a state machine over its status and its revision rounds, and the proof that
  every advance that returns is exactly one of its edges.
\<close>

section \<open>The machine\<close>

type_synonym production_state = "ProductionWorkflowStatus \<times> int"

inductive production_step :: "int \<Rightarrow> production_state \<Rightarrow> production_state \<Rightarrow> bool" for mx where
  plan: "production_step mx (DECISION_APPROVAL_VERIFIED, r) (CONTENT_STRATEGY_RUNNING, r)"
| draft: "production_step mx (CONTENT_STRATEGY_RUNNING, r) (PRODUCTION_RUNNING, r)"
| review: "production_step mx (PRODUCTION_RUNNING, r) (ASSET_CONTROLLERS_RUNNING, r)"
| block: "production_step mx (ASSET_CONTROLLERS_RUNNING, r) (ProductionWorkflowStatus.BLOCKED, r)"
| revise: "r < mx \<Longrightarrow> production_step mx (ASSET_CONTROLLERS_RUNNING, r) (PRODUCTION_RUNNING, r + 1)"
| escalate: "mx \<le> r \<Longrightarrow> production_step mx (ASSET_CONTROLLERS_RUNNING, r) (ProductionWorkflowStatus.ESCALATED, r)"
| finish: "production_step mx (ASSET_CONTROLLERS_RUNNING, r) (READY_FOR_ACTION_PROPOSAL, r)"

inductive_cases production_stepE: "production_step mx a b"

fun production_rank :: "ProductionWorkflowStatus \<Rightarrow> nat" where
  "production_rank DECISION_APPROVAL_VERIFIED = 4"
| "production_rank CONTENT_STRATEGY_RUNNING = 3"
| "production_rank PRODUCTION_RUNNING = 2"
| "production_rank ASSET_CONTROLLERS_RUNNING = 1"
| "production_rank _ = 0"

definition production_left :: "int \<Rightarrow> production_state \<Rightarrow> nat" where
  "production_left mx st = 2 * nat (mx - snd st) + production_rank (fst st)"

lemma production_step_left: "production_step mx a b \<Longrightarrow> production_left mx b < production_left mx a"
  by (auto simp: production_left_def elim!: production_stepE)

lemma production_steps_rounds:
  "(production_step mx)\<^sup>*\<^sup>* a b \<Longrightarrow> snd a \<le> snd b \<and> (snd b \<le> mx \<or> snd b = snd a)"
  by (induction rule: rtranclp_induct) (auto elim!: production_stepE)

section \<open>What the operations leave alone\<close>

text \<open>The columns of a workflow that nothing assigns once the row exists.\<close>

definition production_ident :: "production_workflow_row \<Rightarrow> production_workflow_row" where
  "production_ident w = w\<lparr>pw_status := DECISION_APPROVAL_VERIFIED, pw_revision_count := 0, pw_creative_brief_id := None,
     pw_asset_id := None, pw_final_asset_version_id := None\<rparr>"

interpretation prodtab: keyed_table "rid :: production_workflow_row \<Rightarrow> string" production_ident
  by unfold_locales (auto simp: production_ident_def dest: arg_cong [where f = rid])

abbreviation production_state_of :: "production_workflow_row \<Rightarrow> production_state" where
  "production_state_of w \<equiv> (pw_status w, pw_revision_count w)"

text \<open>All that production itself reads and writes, but the plans.\<close>

definition same_assets :: "'z production_store_scheme \<Rightarrow> 'z production_store_scheme \<Rightarrow> bool" where
  "same_assets s t \<longleftrightarrow> production_workflows t = production_workflows s \<and> asset_versions t = asset_versions s \<and>
     asset_rights t = asset_rights s \<and> asset_version_creators t = asset_version_creators s \<and>
     asset_reviews t = asset_reviews s \<and> assets t = assets s \<and> decisions t = decisions s \<and>
     decision_approvals t = decision_approvals s \<and> evidence t = evidence s"

interpretation sa: state_preorder same_assets
  by unfold_locales (simp_all add: same_assets_def)

lemma assets_primitives:
  "tracks same_assets new_id" "tracks same_assets flush" "tracks same_assets (touch og bz)"
  "tracks same_assets (enqueue i)" "tracks same_assets (check_scope scope og bz)"
  "tracks same_assets (check_no_secrets pl)"
  by (auto simp: tracks_def same_assets_def run_simps check_no_secrets_def check_scope_def)

lemma create_job_assets: "tracks same_assets (create_job scope jtype pl sv key now mx av co ca)"
proof (rule tracksI)
  fix s :: "'z production_store_scheme"
  obtain r t where run: "create_job scope jtype pl sv key now mx av co ca s = (r, t)" by (metis prod.exhaust)
  have "same_assets s t"
    by (cases r) (use run create_job_error create_job_result in \<open>fastforce simp: same_assets_def\<close>)+
  with run show "same_assets s (snd (create_job scope jtype pl sv key now mx av co ca s))" by simp
qed

lemmas assets_rules = sa.t_rules assets_primitives create_job_assets

lemma production_run_assets: "tracks same_assets (production_run env reg flow contract refs causation jtype key now)"
  unfolding production_run_def create_agent_run_def ensure_agent_definition_def
  by (intro assets_rules sa.t_modify; simp add: same_assets_def)

lemma production_enqueue_assets: "tracks same_assets (enqueue_production_advance flow suffix now)"
  unfolding enqueue_production_advance_def by (intro assets_rules)

lemma production_ensure_assets:
  "tracks same_assets (ensure_content_strategy_run env reg flow now)"
  "tracks same_assets (ensure_writer_run env reg flow previous reviews now)"
  "tracks same_assets (ensure_asset_controller_runs env reg flow v now)"
  unfolding ensure_content_strategy_run_def ensure_writer_run_def ensure_asset_controller_runs_def
  by (intro assets_rules production_run_assets)+

lemma production_plan_assets:
  "tracks same_assets (materialize_content_strategy env flow now)"
  "tracks same_assets (materialize_creative_brief env flow strategy now)"
  unfolding materialize_content_strategy_def materialize_creative_brief_def insert_brief_def
  by (intro assets_rules sa.t_modify; simp add: same_assets_def)+

lemmas assets_kept = production_ensure_assets production_enqueue_assets production_plan_assets assets_primitives(2)

lemma update_production_run [run_simps]:
  "update_production flow f s = (Inr (), s\<lparr>production_workflows := row_set rid (rid flow) f (production_workflows s),
     unit_of_work := unit_of_work s @ [(org flow, biz flow)]\<rparr>)"
  by (simp add: update_production_def touch_def run_simps)

lemma assetsD: "tracks same_assets m \<Longrightarrow> m s = (r, t) \<Longrightarrow> same_assets s t"
  by (rule tracksD)

section \<open>What the materialised rows are\<close>

lemma fold_max_ge: "x \<in> set (y # ys) \<Longrightarrow> x \<le> fold max ys (y :: int)"
  using Max_ge [of "set (y # ys)" x] by (simp only: List.finite_set Max.set_eq_fold simp_thms)

lemma next_number_new: "v \<in> set (versions_of flow s) \<Longrightarrow> av_version_number v < next_asset_version_number flow s"
  using fold_max_ge [of "av_version_number v"]
  by (auto simp: next_asset_version_number_def split: list.split)

lemma next_number_free: "asset_version_numbered flow (next_asset_version_number flow s) s = None"
  using next_number_new [of _ flow s] by (fastforce simp: asset_version_numbered_def select_first_None)

lemma ensure_asset_run:
  assumes "ensure_asset flow s = (Inr asset, t)"
  shows "(pw_asset_id flow = Some (rid asset) \<and> t = s) \<or>
    (pw_asset_id flow = None \<and> same_assets (s\<lparr>assets := assets s @ [asset],
       production_workflows := row_set rid (rid flow) (\<lambda>w. w\<lparr>pw_asset_id := Some (rid asset)\<rparr>) (production_workflows s)\<rparr>) t)"
proof (cases "pw_asset_id flow")
  case None
  with assms show ?thesis
    by (auto simp: ensure_asset_def Let_def run_simps same_assets_def split: option.splits)
next
  case (Some i)
  with assms show ?thesis
    by (auto simp: ensure_asset_def run_simps split: option.splits dest: row_get_Some)
qed

lemma insert_version_run:
  assumes "insert_asset_version flow asset n run out now s = (Inr v, t)"
  shows "\<exists>j k. same_assets (s\<lparr>asset_versions := asset_versions s @ [v],
       asset_version_creators := asset_version_creators s @ [creator_row flow (rid v) run now j],
       asset_rights := asset_rights s @ [rights_row_of flow (rid v) run (dp_rights out) now k],
       production_workflows := row_set rid (rid flow) (\<lambda>w. w\<lparr>pw_asset_id := Some asset,
         pw_final_asset_version_id := Some (rid v)\<rparr>) (production_workflows s)\<rparr>) t \<and>
     v = version_row flow asset n run out now (rid v)"
proof -
  have id: "rid (version_row flow asset n run out now i) = i" for i by (simp add: version_row_def)
  from assms show ?thesis
    unfolding insert_asset_version_def Let_def
    by (elim bnd_okE) (auto simp: run_simps same_assets_def id)
qed

text \<open>The version that production adds: the validated output of a succeeded run for exactly this number.\<close>

definition drafted ::
  "'e production_env_scheme \<Rightarrow> production_workflow_row \<Rightarrow> asset_version_row \<Rightarrow> agent_run_row \<Rightarrow> AssetDraftProposal
     \<Rightarrow> 'z production_store_scheme \<Rightarrow> bool" where
  "drafted env flow v run out s \<longleftrightarrow>
     v \<notin> set (versions_of flow s) \<and> av_version_number v = next_asset_version_number flow s \<and>
     agent_run_by_idempotency flow (draft_run_key flow (av_version_number v)) s = Inr run \<and>
     validated_output run (validate_draft env) ''asset draft'' = Inr out \<and>
     validate_production_refs (production_scope flow) (dp_evidence_refs out) s = Inr () \<and>
     (pw_asset_id flow = None \<or> pw_asset_id flow = Some (av_asset_id v)) \<and>
     org v = org flow \<and> biz v = biz flow \<and> av_body v = dp_body out \<and> av_provenance v = version_provenance run out"

lemma materialize_version_run:
  assumes "materialize_asset_version env flow now s = (Inr v, t)"
  shows "\<exists>run out j k new. drafted env flow v run out s \<and>
    same_assets (s\<lparr>assets := assets s @ new, asset_versions := asset_versions s @ [v],
       asset_version_creators := asset_version_creators s @ [creator_row flow (rid v) run now j],
       asset_rights := asset_rights s @ [rights_row_of flow (rid v) run (dp_rights out) now k],
       production_workflows := row_set rid (rid flow) (\<lambda>w. w\<lparr>pw_asset_id := Some (av_asset_id v),
         pw_final_asset_version_id := Some (rid v)\<rparr>) (production_workflows s)\<rparr>) t"
proof -
  let ?n = "next_asset_version_number flow s"
  from assms obtain run out asset u where
    steps: "agent_run_by_idempotency flow (draft_run_key flow ?n) s = Inr run"
      "validated_output run (validate_draft env) ''asset draft'' = Inr out"
      "validate_production_refs (production_scope flow) (dp_evidence_refs out) s = Inr ()"
      "ensure_asset flow s = (Inr asset, u)" "insert_asset_version flow (rid asset) ?n run out now u = (Inr v, t)"
    unfolding materialize_asset_version_def
    by (auto elim!: bnd_okE simp: run_gets run_lift_sum next_number_free)
  from insert_version_run [OF steps(5)] obtain j k where
    v: "v = version_row flow (rid asset) ?n run out now (rid v)" and
    t: "same_assets (u\<lparr>asset_versions := asset_versions u @ [v],
       asset_version_creators := asset_version_creators u @ [creator_row flow (rid v) run now j],
       asset_rights := asset_rights u @ [rights_row_of flow (rid v) run (dp_rights out) now k],
       production_workflows := row_set rid (rid flow) (\<lambda>w. w\<lparr>pw_asset_id := Some (rid asset),
         pw_final_asset_version_id := Some (rid v)\<rparr>) (production_workflows u)\<rparr>) t" by blast
  have fields: "av_asset_id v = rid asset" "av_version_number v = ?n" "org v = org flow" "biz v = biz flow"
      "av_body v = dp_body out" "av_provenance v = version_provenance run out"
    by (subst v, simp add: version_row_def)+
  have "drafted env flow v run out s"
    using steps(1-3) fields ensure_asset_run [OF steps(4)] next_number_new [of v flow s]
    by (auto simp: drafted_def)
  moreover have "\<exists>new. same_assets (s\<lparr>assets := assets s @ new, asset_versions := asset_versions s @ [v],
       asset_version_creators := asset_version_creators s @ [creator_row flow (rid v) run now j],
       asset_rights := asset_rights s @ [rights_row_of flow (rid v) run (dp_rights out) now k],
       production_workflows := row_set rid (rid flow) (\<lambda>w. w\<lparr>pw_asset_id := Some (av_asset_id v),
         pw_final_asset_version_id := Some (rid v)\<rparr>) (production_workflows s)\<rparr>) t"
    using ensure_asset_run [OF steps(4)]
  proof (elim disjE conjE)
    assume "u = s"
    with t fields(1) show ?thesis by (intro exI [of _ "[]"]) simp
  next
    assume "same_assets (s\<lparr>assets := assets s @ [asset],
       production_workflows := row_set rid (rid flow) (\<lambda>w. w\<lparr>pw_asset_id := Some (rid asset)\<rparr>) (production_workflows s)\<rparr>) u"
    with t fields(1) show ?thesis
      by (intro exI [of _ "[asset]"]) (auto simp: same_assets_def row_set_def)
  qed
  ultimately show ?thesis by blast
qed

lemma materialize_asset_review_run:
  assumes "materialize_asset_review env flow v now key s = (Inr r, t)"
  shows "ax_controller_type r = asset_controller_type key \<and> ax_asset_version_id r = rid v \<and>
    (\<exists>new. same_assets (s\<lparr>asset_reviews := asset_reviews s @ new\<rparr>) t \<and> r \<in> set (asset_reviews s @ new))"
proof (cases "select_first (\<lambda>r. ax_asset_version_id r = rid v \<and> ax_controller_type r = asset_controller_type key) (asset_reviews s)")
  case (Some q)
  from select_first_Some [OF this] Some assms show ?thesis
    by (auto simp: materialize_asset_review_def Let_def run_simps intro!: exI [of _ "[]"] sa.refl)
next
  case None
  have fields: "ax_controller_type (asset_review_of flow v ctype run d out hsh now i) = ctype"
    "ax_asset_version_id (asset_review_of flow v ctype run d out hsh now i) = rid v" for ctype run d out hsh i
    by (simp_all add: asset_review_of_def)
  from assms [unfolded materialize_asset_review_def Let_def bnd_gets None option.case case_prod_beta]
  have "ax_controller_type r = asset_controller_type key" "ax_asset_version_id r = rid v"
    "same_assets (s\<lparr>asset_reviews := asset_reviews s @ [r]\<rparr>) t"
    by (elim bnd_okE, simp only: run_gets run_lift_sum run_modify run_flush run_ret run_new_id prod.inject sum.inject guards_ok,
        elim conjE, hypsubst, simp (no_asm) add: fields same_assets_def)+
  then show ?thesis by (auto intro!: exI [of _ "[r]"])
qed

lemma materialize_asset_reviews_run:
  assumes "map_prog (materialize_asset_review env flow v now) keys s = (Inr rs, t)"
  shows "map ax_controller_type rs = map asset_controller_type keys \<and> (\<forall>r \<in> set rs. ax_asset_version_id r = rid v) \<and>
    (\<exists>new. same_assets (s\<lparr>asset_reviews := asset_reviews s @ new\<rparr>) t \<and> set rs \<subseteq> set (asset_reviews s @ new))"
  using assms
proof (induction keys arbitrary: s rs)
  case Nil
  then show ?case by (auto simp: run_simps intro!: exI [of _ "[]"] sa.refl)
next
  case (Cons key keys)
  from Cons.prems obtain r u qs where r: "materialize_asset_review env flow v now key s = (Inr r, u)"
    and qs: "map_prog (materialize_asset_review env flow v now) keys u = (Inr qs, t)" and rs: "rs = r # qs"
    by (auto elim!: bnd_okE simp: run_ret)
  from materialize_asset_review_run [OF r] obtain new where new: "ax_controller_type r = asset_controller_type key"
    "ax_asset_version_id r = rid v" "same_assets (s\<lparr>asset_reviews := asset_reviews s @ new\<rparr>) u"
    "r \<in> set (asset_reviews s @ new)" by blast
  from Cons.IH [OF qs] obtain more where more: "map ax_controller_type qs = map asset_controller_type keys"
    "\<forall>r \<in> set qs. ax_asset_version_id r = rid v" "same_assets (u\<lparr>asset_reviews := asset_reviews u @ more\<rparr>) t"
    "set qs \<subseteq> set (asset_reviews u @ more)" by blast
  from new more show ?case unfolding rs
    by (intro conjI exI [of _ "new @ more"]) (auto simp: same_assets_def)
qed

section \<open>Every advance is a step\<close>

definition production_moves :: "production_workflow_row \<Rightarrow> (production_workflow_row \<Rightarrow> production_workflow_row) \<Rightarrow> bool" where
  "production_moves flow f \<longleftrightarrow> prodtab.stable f \<and>
     production_step (pw_max_revision_rounds flow) (production_state_of flow) (production_state_of (f flow))"

lemma row_set_compose [simp]:
  "(\<And>r. rid (f r) = rid r) \<Longrightarrow> row_set rid i g (row_set rid i f rs) = row_set rid i (\<lambda>r. g (f r)) rs"
  by (simp add: row_set_def)

lemmas assets_keptD = assets_kept [THEN assetsD]

lemma approval_verified_moves:
  assumes "advance_approval_verified env reg flow now s = (Inr (), t)"
  shows "same_assets (s\<lparr>production_workflows := row_set rid (rid flow) (\<lambda>w. w\<lparr>pw_status := CONTENT_STRATEGY_RUNNING\<rparr>)
    (production_workflows s)\<rparr>) t"
  using assms unfolding advance_approval_verified_def set_production_status_def
  by (elim bnd_okE) (auto dest!: assets_keptD simp: run_ret update_production_run same_assets_def)

lemma strategy_running_moves:
  assumes "advance_strategy_running env reg flow now s = (Inr (), t)"
  shows "\<exists>brief. same_assets (s\<lparr>production_workflows := row_set rid (rid flow) (\<lambda>w. w\<lparr>pw_creative_brief_id := Some brief,
    pw_status := PRODUCTION_RUNNING\<rparr>) (production_workflows s)\<rparr>) t"
  using assms unfolding advance_strategy_running_def set_production_status_def
  by (elim bnd_okE) (auto dest!: assets_keptD simp: run_ret run_gets update_production_run same_assets_def)

lemma production_running_moves:
  assumes "advance_production_running env reg flow now s = (Inr (), t)"
  shows "\<exists>v u. materialize_asset_version env flow now s = (Inr v, u) \<and>
    same_assets (u\<lparr>production_workflows := row_set rid (rid flow) (\<lambda>w. w\<lparr>pw_final_asset_version_id := Some (rid v),
      pw_status := ASSET_CONTROLLERS_RUNNING\<rparr>) (production_workflows u)\<rparr>) t"
  using assms unfolding advance_production_running_def set_production_status_def
  by (elim bnd_okE) (auto dest!: assets_keptD simp: run_ret update_production_run same_assets_def)

lemma outcome_moves:
  assumes run: "apply_asset_outcome env reg flow v reviews outcome now s = (Inr (), t)"
    and st: "pw_status flow = ASSET_CONTROLLERS_RUNNING"
  shows "\<exists>f. production_moves flow f \<and>
      same_assets (s\<lparr>production_workflows := row_set rid (rid flow) f (production_workflows s)\<rparr>) t \<and>
      (pw_status (f flow) = READY_FOR_ACTION_PROPOSAL \<longrightarrow>
         outcome = PASS \<and> (\<forall>w. pw_final_asset_version_id (f w) = Some (rid v) \<and> pw_asset_id (f w) = pw_asset_id w))"
proof -
  let ?rows = "\<lambda>f. same_assets (s\<lparr>production_workflows := row_set rid (rid flow) f (production_workflows s)\<rparr>) t"
  consider "?rows (\<lambda>w. w\<lparr>pw_status := ProductionWorkflowStatus.BLOCKED\<rparr>)"
    | "?rows (\<lambda>w. w\<lparr>pw_status := ProductionWorkflowStatus.ESCALATED\<rparr>)" "pw_max_revision_rounds flow \<le> pw_revision_count flow"
    | "?rows (\<lambda>w. w\<lparr>pw_revision_count := pw_revision_count w + 1, pw_status := PRODUCTION_RUNNING\<rparr>)"
        "pw_revision_count flow < pw_max_revision_rounds flow"
    | "?rows (\<lambda>w. w\<lparr>pw_final_asset_version_id := Some (rid v), pw_status := READY_FOR_ACTION_PROPOSAL\<rparr>)" "outcome = PASS"
    using run unfolding apply_asset_outcome_def set_production_status_def
    by (cases outcome) (auto elim!: bnd_okE dest!: assets_keptD
        simp: run_ret run_gets run_flush update_production_run same_assets_def split: if_splits)
  then show ?thesis
  proof cases
    case 1
    then show ?thesis by (intro exI [of _ "\<lambda>w. w\<lparr>pw_status := ProductionWorkflowStatus.BLOCKED\<rparr>"])
        (simp add: production_moves_def st prodtab.stable_def production_ident_def production_step.block)
  next
    case 2
    then show ?thesis by (intro exI [of _ "\<lambda>w. w\<lparr>pw_status := ProductionWorkflowStatus.ESCALATED\<rparr>"])
        (simp add: production_moves_def st prodtab.stable_def production_ident_def production_step.escalate)
  next
    case 3
    then show ?thesis by (intro exI [of _ "\<lambda>w. w\<lparr>pw_revision_count := pw_revision_count w + 1, pw_status := PRODUCTION_RUNNING\<rparr>"])
        (simp add: production_moves_def st prodtab.stable_def production_ident_def production_step.revise)
  next
    case 4
    then show ?thesis by (intro exI [of _ "\<lambda>w. w\<lparr>pw_final_asset_version_id := Some (rid v), pw_status := READY_FOR_ACTION_PROPOSAL\<rparr>"])
        (simp add: production_moves_def st prodtab.stable_def production_ident_def production_step.finish)
  qed
qed

text \<open>What the outcome of a review round rests on.\<close>

definition reviewed ::
  "production_workflow_row \<Rightarrow> asset_version_row \<Rightarrow> asset_review_row list \<Rightarrow> ControllerVerdict
     \<Rightarrow> 'z production_store_scheme \<Rightarrow> bool" where
  "reviewed flow v reviews outcome s \<longleftrightarrow>
     latest_asset_version flow s = Inr v \<and>
     map ax_controller_type reviews = map asset_controller_type REQUIRED_ASSET_CONTROLLER_CONTRACT_KEYS \<and>
     (\<forall>r \<in> set reviews. ax_asset_version_id r = rid v \<and> r \<in> set (asset_reviews s)) \<and>
     governed_asset_outcome flow v reviews s = Inr outcome"

lemma latest_version_cong: "asset_versions t = asset_versions s \<Longrightarrow> latest_asset_version flow t = latest_asset_version flow s"
  by (simp add: latest_asset_version_def versions_of_def)

lemma governed_asset_outcome_cong:
  assumes "asset_rights t = asset_rights s" "asset_version_creators t = asset_version_creators s" "evidence t = evidence s"
  shows "governed_asset_outcome flow v reviews t = governed_asset_outcome flow v reviews s"
proof -
  have "unsupported_claim (production_scope flow) t = unsupported_claim (production_scope flow) s"
    by (rule ext) (simp only: unsupported_claim_def assms)
  moreover have "rights_are_complete v t = rights_are_complete v s"
    using assms by (simp add: rights_are_complete_def rights_for_version_def)
  ultimately show ?thesis
    by (simp only: governed_asset_outcome_def has_unsupported_claims_def)
qed

lemma controllers_running_moves:
  assumes run: "advance_asset_controllers_running env reg flow now s = (Inr (), t)"
    and st: "pw_status flow = ASSET_CONTROLLERS_RUNNING"
  shows "\<exists>f v reviews outcome new. production_moves flow f \<and>
      same_assets (s\<lparr>asset_reviews := asset_reviews s @ new,
        production_workflows := row_set rid (rid flow) f (production_workflows s)\<rparr>) t \<and>
      reviewed flow v reviews outcome t \<and>
      (pw_status (f flow) = READY_FOR_ACTION_PROPOSAL \<longrightarrow>
         outcome = PASS \<and> (\<forall>w. pw_final_asset_version_id (f w) = Some (rid v) \<and> pw_asset_id (f w) = pw_asset_id w))"
proof -
  from run obtain v reviews outcome u where steps: "latest_asset_version flow s = Inr v"
      "map_prog (materialize_asset_review env flow v now) REQUIRED_ASSET_CONTROLLER_CONTRACT_KEYS s = (Inr reviews, u)"
      "governed_asset_outcome flow v reviews u = Inr outcome"
      "apply_asset_outcome env reg flow v reviews outcome now u = (Inr (), t)"
    unfolding advance_asset_controllers_running_def materialize_asset_reviews_def
    by (elim bnd_okE) (auto simp: run_gets run_lift_sum)
  from materialize_asset_reviews_run [OF steps(2)] obtain new where
    r: "map ax_controller_type reviews = map asset_controller_type REQUIRED_ASSET_CONTROLLER_CONTRACT_KEYS"
      "\<forall>r \<in> set reviews. ax_asset_version_id r = rid v" and
    u: "same_assets (s\<lparr>asset_reviews := asset_reviews s @ new\<rparr>) u" "set reviews \<subseteq> set (asset_reviews s @ new)" by blast
  from outcome_moves [OF steps(4) st] obtain f where f: "production_moves flow f"
      "same_assets (u\<lparr>production_workflows := row_set rid (rid flow) f (production_workflows u)\<rparr>) t"
      "pw_status (f flow) = READY_FOR_ACTION_PROPOSAL \<longrightarrow>
         outcome = PASS \<and> (\<forall>w. pw_final_asset_version_id (f w) = Some (rid v) \<and> pw_asset_id (f w) = pw_asset_id w)" by blast
  have t: "same_assets (s\<lparr>asset_reviews := asset_reviews s @ new,
        production_workflows := row_set rid (rid flow) f (production_workflows s)\<rparr>) t"
    using u(1) f(2) by (simp add: same_assets_def)
  have eqs: "asset_versions t = asset_versions s" "asset_reviews t = asset_reviews s @ new"
      "asset_rights t = asset_rights u" "asset_version_creators t = asset_version_creators u" "evidence t = evidence u"
    using t u(1) by (simp_all add: same_assets_def)
  have "reviewed flow v reviews outcome t"
    using steps(1,3) r u(2) latest_version_cong [OF eqs(1)] governed_asset_outcome_cong [OF eqs(3-5)] eqs(2)
    by (auto simp: reviewed_def)
  with f t show ?thesis by blast
qed

abbreviation production_active :: "ProductionWorkflowStatus \<Rightarrow> bool" where
  "production_active st \<equiv>
     st \<in> {DECISION_APPROVAL_VERIFIED, CONTENT_STRATEGY_RUNNING, PRODUCTION_RUNNING, ASSET_CONTROLLERS_RUNNING}"

lemma production_moves_status:
  "production_step (pw_max_revision_rounds flow) (production_state_of flow) (st, pw_revision_count flow) \<Longrightarrow>
   production_moves flow (\<lambda>w. w\<lparr>pw_status := st\<rparr>)"
  "production_step (pw_max_revision_rounds flow) (production_state_of flow) (st, pw_revision_count flow) \<Longrightarrow>
   production_moves flow (\<lambda>w. w\<lparr>pw_creative_brief_id := brief, pw_status := st\<rparr>)"
  "production_step (pw_max_revision_rounds flow) (production_state_of flow) (st, pw_revision_count flow) \<Longrightarrow>
   production_moves flow (\<lambda>w. w\<lparr>pw_asset_id := asset, pw_final_asset_version_id := final, pw_status := st\<rparr>)"
  by (simp_all add: production_moves_def prodtab.stable_def production_ident_def)

lemma production_advance_moves:
  assumes run: "advance_production_workflow env reg flow now s = (Inr (), t)"
  shows "assert_decision_binding flow s = Inr () \<and>
    (if production_active (pw_status flow)
     then \<exists>f. production_moves flow f \<and> production_workflows t = row_set rid (rid flow) f (production_workflows s)
     else t = s)"
proof -
  from run have bound: "assert_decision_binding flow s = Inr ()"
    by (auto simp: advance_production_workflow_def run_simps split: sum.splits)
  note step = run [unfolded advance_production_workflow_def bnd_assoc bnd_gets run_bnd [of "lift_sum _"] run_lift_sum bound, simplified]
  show ?thesis
  proof (cases "pw_status flow")
    case DECISION_APPROVAL_VERIFIED
    with approval_verified_moves [of env reg flow now s t] step have
      "production_workflows t = row_set rid (rid flow) (\<lambda>w. w\<lparr>pw_status := CONTENT_STRATEGY_RUNNING\<rparr>) (production_workflows s)"
      by (simp add: same_assets_def)
    with DECISION_APPROVAL_VERIFIED bound show ?thesis
      by (auto intro!: exI [of _ "\<lambda>w. w\<lparr>pw_status := CONTENT_STRATEGY_RUNNING\<rparr>"] production_moves_status(1) simp: production_step.plan)
  next
    case CONTENT_STRATEGY_RUNNING
    with strategy_running_moves [of env reg flow now s t] step obtain brief where
      "production_workflows t = row_set rid (rid flow) (\<lambda>w. w\<lparr>pw_creative_brief_id := Some brief,
         pw_status := PRODUCTION_RUNNING\<rparr>) (production_workflows s)"
      by (auto simp: same_assets_def)
    with CONTENT_STRATEGY_RUNNING bound show ?thesis
      by (auto intro!: exI [of _ "\<lambda>w. w\<lparr>pw_creative_brief_id := Some brief, pw_status := PRODUCTION_RUNNING\<rparr>"]
        production_moves_status(2) simp: production_step.draft)
  next
    case PRODUCTION_RUNNING
    with step obtain v u where "materialize_asset_version env flow now s = (Inr v, u)"
      and t: "same_assets (u\<lparr>production_workflows := row_set rid (rid flow) (\<lambda>w. w\<lparr>pw_final_asset_version_id := Some (rid v),
          pw_status := ASSET_CONTROLLERS_RUNNING\<rparr>) (production_workflows u)\<rparr>) t"
      using production_running_moves by fastforce
    from materialize_version_run [OF this(1)] t have "production_workflows t = row_set rid (rid flow)
        (\<lambda>w. w\<lparr>pw_asset_id := Some (av_asset_id v), pw_final_asset_version_id := Some (rid v),
           pw_status := ASSET_CONTROLLERS_RUNNING\<rparr>) (production_workflows s)"
      by (auto simp: same_assets_def)
    with PRODUCTION_RUNNING bound show ?thesis
      by (auto intro!: exI [of _ "\<lambda>w. w\<lparr>pw_asset_id := Some (av_asset_id v), pw_final_asset_version_id := Some (rid v),
           pw_status := ASSET_CONTROLLERS_RUNNING\<rparr>"] production_moves_status(3) simp: production_step.review)
  next
    case ASSET_CONTROLLERS_RUNNING
    with step controllers_running_moves [of env reg flow now s t] obtain f where "production_moves flow f"
      "production_workflows t = row_set rid (rid flow) f (production_workflows s)"
      by (auto simp: same_assets_def)
    with ASSET_CONTROLLERS_RUNNING bound show ?thesis by auto
  qed (use step bound in \<open>simp_all add: run_ret\<close>)
qed

section \<open>The handler\<close>

abbreviation production_at :: "string \<Rightarrow> 'z production_store_scheme \<Rightarrow> production_workflow_row option" where
  "production_at i s \<equiv> row_get rid i (production_workflows s)"

lemma production_handled:
  assumes "ProductionWorkflowAdvanceHandler_handle env reg ctx pl now s = (Inr (), t)"
  shows "\<exists>i flow. production_workflow_id_of pl = Inr i \<and> production_at i s = Some flow \<and> rid flow = i \<and>
    assert_matches ctx (org flow) (biz flow) = Inr () \<and>
    advance_production_workflow env reg flow now s = (Inr (), t)"
  using assms unfolding ProductionWorkflowAdvanceHandler_handle_def
  by (elim bnd_okE) (auto simp: check_no_secrets_def check_scope_def run_gets run_lift_sum guards_ok dest: row_get_Some)

definition production_advances ::
  "'e production_env_scheme \<Rightarrow> agent_registry \<Rightarrow> string \<Rightarrow> 'z production_store_scheme \<Rightarrow> 'z production_store_scheme \<Rightarrow> bool" where
  "production_advances env reg i s t \<longleftrightarrow> (\<exists>ctx pl now. production_workflow_id_of pl = Inr i \<and>
     ProductionWorkflowAdvanceHandler_handle env reg ctx pl now s = (Inr (), t))"

lemma production_one_edge:
  assumes "production_advances env reg i s t" and "production_at i s = Some w"
  shows "\<exists>w'. production_at i t = Some w' \<and> production_ident w' = production_ident w \<and>
    (w' = w \<or> production_step (pw_max_revision_rounds w) (production_state_of w) (production_state_of w'))"
proof -
  from assms obtain now where i: "rid w = i" and run: "advance_production_workflow env reg w now s = (Inr (), t)"
    unfolding production_advances_def by (metis production_handled option.inject sum.inject(2))
  show ?thesis
  proof (cases "production_active (pw_status w)")
    case True
    with production_advance_moves [OF run] obtain f where f: "production_moves w f"
      and t: "production_workflows t = row_set rid (rid w) f (production_workflows s)" by auto
    have "production_at i t = Some (f w)" "production_ident (f w) = production_ident w"
      using f t assms(2) i by (simp_all add: production_moves_def prodtab.stable_def prodtab.get_set_same)
    with f show ?thesis by (simp add: production_moves_def)
  next
    case False
    with production_advance_moves [OF run] assms(2) show ?thesis by auto
  qed
qed

interpretation production_machine: workflow_machine production_at "production_advances env reg" production_ident
  production_state_of "\<lambda>k. production_step (pw_max_revision_rounds k)" "\<lambda>k. production_left (pw_max_revision_rounds k)"
proof
  fix i and s t :: "'c production_store_scheme" and w
  assume "production_advances env reg i s t" "production_at i s = Some w"
  moreover have "pw_max_revision_rounds (production_ident w) = pw_max_revision_rounds w" by (simp add: production_ident_def)
  ultimately show "\<exists>w'. production_at i t = Some w' \<and> production_ident w' = production_ident w \<and>
      (w' = w \<or> production_step (pw_max_revision_rounds (production_ident w)) (production_state_of w) (production_state_of w'))"
    using production_one_edge by simp
qed (rule production_step_left)

end
