(* ===== verification/Production_Safety.thy ===== *)
theory Production_Safety
  imports Production_Machine Production_Example
begin

text \<open>
  What production guarantees: the workflow follows its machine and stops, an asset is ready only when its
  exact version went through the whole review and the rules over it, versions are only ever added, each from
  a validated output, and a decision goes into production once.
\<close>

section \<open>A reviewed asset\<close>

definition prod_version :: "string \<Rightarrow> asset_version_row" where
  "prod_version tx = \<lparr>rid = ''v'', org = ''o'', biz = ''b'', av_asset_id = ''as'', av_version_number = 1,
     av_body = tx, av_created_by_user_id = None, av_provenance = [], av_created_at = 0\<rparr>"

definition prod_rights_row :: rights_row where
  "prod_rights_row = \<lparr>rid = ''ri'', org = ''o'', biz = ''b'', rights_asset_version_id = ''v'',
     rights_origin = ''GENERATED'', rights_generated_by_agent_run_id = Some ''wr'', rights_model_provider = None,
     rights_model_name = None, rights_related_source_asset_ids = [], rights_permission_scope = None,
     rights_consent_ref = None, rights_publication_restrictions = [], rights_license_expires_at = None,
     rights_provenance = [], rights_created_at = 0\<rparr>"

definition prod_creator :: asset_creator_row where
  "prod_creator = \<lparr>rid = ''cr'', org = ''o'', biz = ''b'', vc_asset_version_id = ''v'', vc_creator_type = ''AGENT'',
     vc_created_by_user_id = None, vc_created_by_agent_run_id = Some ''wr'', vc_created_at = 0\<rparr>"

definition prod_asset_review :: "ControllerVerdict \<Rightarrow> string \<Rightarrow> asset_review_row" where
  "prod_asset_review vd key = \<lparr>rid = key, org = ''o'', biz = ''b'', ax_workflow_id = ''pw'', ax_asset_version_id = ''v'',
     ax_agent_run_id = key, ax_controller_type = asset_controller_type key, ax_verdict = vd,
     ax_reason = ''r'', ax_severity = LOW, ax_issues = [], ax_required_changes = [], ax_conditions = [],
     ax_evidence_refs = [], ax_contract_key = key, ax_contract_version = 1, ax_instruction_version = ''i'',
     ax_output_schema_version = 1, ax_context_hash = ''h'', ax_context_manifest = [], ax_correlation_id = None,
     ax_causation_id = None, ax_created_at = 0\<rparr>"

definition prod_reviews :: "ControllerVerdict \<Rightarrow> asset_review_row list" where
  "prod_reviews vd = map (prod_asset_review vd) REQUIRED_ASSET_CONTROLLER_CONTRACT_KEYS"

text \<open>The state in which the seven reviews are in, with the text and the verdict of all of them.\<close>

definition prod_reviewed :: "string \<Rightarrow> ControllerVerdict \<Rightarrow> production_store" where
  "prod_reviewed tx vd = prod_db\<lparr>production_workflows := [prod_flow ASSET_CONTROLLERS_RUNNING (Some ''as'')],
     asset_versions := [prod_version tx], asset_rights := [prod_rights_row], asset_version_creators := [prod_creator],
     asset_reviews := prod_reviews vd\<rparr>"

definition prod_finished :: "ProductionWorkflowStatus \<Rightarrow> production_store \<Rightarrow> production_store" where
  "prod_finished st s = s\<lparr>production_workflows := [prod_flow st (Some ''as'')], sql_jobs := [], unit_of_work := []\<rparr>"

definition prod_job_context :: RuntimeJobContext where
  "prod_job_context = \<lparr>organization_id = ''o'', business_id = ''b'', ctx_job_id = ''j'', ctx_job_type = JOB_TYPE_WORKFLOW_ADVANCE,
     ctx_attempt_count = 1, ctx_correlation_id = None, ctx_causation_id = None\<rparr>"

definition prod_advance_payload :: payload where
  "prod_advance_payload = [(''payload_schema_version'', JInt 1), (''production_workflow_id'', JStr ''pw'')]"

lemma prod_screen: "no_secrets prod_advance_payload = Inr ()" "production_workflow_id_of prod_advance_payload = Inr ''pw''"
  by code_simp+

lemma prod_bound:
  "decisions s = [prod_decision] \<Longrightarrow> decision_approvals s = [prod_approval] \<Longrightarrow>
   assert_decision_binding (prod_flow st a) s = Inr ()"
  using prod_approved by (simp add: assert_decision_binding_def production_decision_def row_get_def prod_approval_def
      superseded_by_some_def assert_matches_def)

lemma prod_good_text: "contains_human_worth_violation [(''body'', JStr ''we open on friday'')] = False"
  "contains_hard_manipulation ''we open on friday'' = False"
  "any_in risky_markers (lower ''we open on friday'') = False"
  by code_simp+

lemma prod_reviewed_simps [simp]:
  "production_workflows (prod_reviewed tx vd) = [prod_flow ASSET_CONTROLLERS_RUNNING (Some ''as'')]"
  "asset_versions (prod_reviewed tx vd) = [prod_version tx]" "asset_reviews (prod_reviewed tx vd) = prod_reviews vd"
  "decisions (prod_reviewed tx vd) = [prod_decision]" "decision_approvals (prod_reviewed tx vd) = [prod_approval]"
  "asset_rights (prod_reviewed tx vd) = [prod_rights_row]" "asset_version_creators (prod_reviewed tx vd) = [prod_creator]"
  "jobs (prod_reviewed tx vd) = []"
  by (simp_all add: prod_reviewed_def prod_db_def)

lemma prod_latest: "asset_versions s = [prod_version tx] \<Longrightarrow>
   latest_asset_version (prod_flow st (Some ''as'')) s = Inr (prod_version tx)"
  by (simp add: latest_asset_version_def versions_of_def prod_version_def)

lemma select_first_keyed:
  "distinct (map c ks) \<Longrightarrow> k \<in> set ks \<Longrightarrow> (\<And>x. x \<in> set ks \<Longrightarrow> P (g x) \<longleftrightarrow> c x = c k) \<Longrightarrow>
   select_first P (map g ks) = Some (g k)"
  unfolding select_first_def by (induction ks) auto

lemma asset_controllers_distinct: "distinct (map asset_controller_type REQUIRED_ASSET_CONTROLLER_CONTRACT_KEYS)"
  by code_simp

lemma prod_review_stored:
  assumes "asset_reviews s = prod_reviews vd" and "key \<in> set REQUIRED_ASSET_CONTROLLER_CONTRACT_KEYS"
  shows "materialize_asset_review env flow (prod_version tx) now key s = (Inr (prod_asset_review vd key), s)"
proof -
  have "select_first (\<lambda>r. ax_asset_version_id r = ''v'' \<and> ax_controller_type r = asset_controller_type key) (prod_reviews vd) =
      Some (prod_asset_review vd key)"
    unfolding prod_reviews_def
    by (rule select_first_keyed [OF asset_controllers_distinct assms(2)]) (simp add: prod_asset_review_def)
  with assms(1) show ?thesis
    by (simp add: materialize_asset_review_def Let_def bnd_gets prod_version_def run_ret)
qed

lemma map_prog_constant:
  "(\<And>x. x \<in> set xs \<Longrightarrow> f x s = (Inr (g x), s)) \<Longrightarrow> map_prog f xs s = (Inr (map g xs), s)"
  by (induction xs) (simp_all add: run_simps)

lemma prod_reviews_stored:
  "asset_reviews s = prod_reviews vd \<Longrightarrow>
   materialize_asset_reviews env flow (prod_version tx) now s = (Inr (prod_reviews vd), s)"
  unfolding materialize_asset_reviews_def prod_reviews_def
  by (rule map_prog_constant) (rule prod_review_stored [unfolded prod_reviews_def])

lemma prod_complete: "missing_controllers (prod_reviews vd) = []"
  by (simp add: missing_controllers_def prod_reviews_def prod_asset_review_def comp_def)

lemma prod_governed:
  assumes "asset_rights s = [prod_rights_row]" "asset_version_creators s = [prod_creator]"
  shows "governed_asset_outcome flow (prod_version ''we open on friday'') (prod_reviews vd) s =
    Inr (review_verdict_outcome (prod_reviews vd))"
  using assms unfolding governed_asset_outcome_def prod_complete
  by (simp add: prod_good_text has_unsupported_claims_def claim_inventory_of_def rights_are_complete_def rights_for_version_def
      prod_version_def prod_rights_row_def prod_creator_def dict_get_def)

lemma prod_verdict: "review_verdict_outcome (prod_reviews PASS) = PASS" "review_verdict_outcome (prod_reviews BLOCK) = BLOCK"
  by (simp_all add: review_verdict_outcome_def prod_reviews_def prod_asset_review_def REQUIRED_ASSET_CONTROLLER_CONTRACT_KEYS_def)

text \<open>The whole advance on it: a good text that everybody passes is ready, a blocked one is not.\<close>

lemma prod_flow_updates:
  "(prod_flow st a)\<lparr>pw_status := st'\<rparr> = prod_flow st' a"
  "(prod_flow st (Some ''as''))\<lparr>pw_final_asset_version_id := Some ''v''\<rparr> = prod_flow st (Some ''as'')"
  by (simp_all add: prod_flow_def)

lemma prod_controllers:
  "advance_asset_controllers_running env reg (prod_flow ASSET_CONTROLLERS_RUNNING (Some ''as'')) now
     (prod_reviewed ''we open on friday'' vd) =
   apply_asset_outcome env reg (prod_flow ASSET_CONTROLLERS_RUNNING (Some ''as'')) (prod_version ''we open on friday'')
     (prod_reviews vd) (review_verdict_outcome (prod_reviews vd)) now (prod_reviewed ''we open on friday'' vd)"
  by (simp add: advance_asset_controllers_running_def prod_latest prod_reviews_stored prod_governed run_simps)

lemma prod_advanced:
  "ProductionWorkflowAdvanceHandler_handle env reg prod_job_context prod_advance_payload now
     (prod_reviewed ''we open on friday'' vd) =
   advance_asset_controllers_running env reg (prod_flow ASSET_CONTROLLERS_RUNNING (Some ''as'')) now
     (prod_reviewed ''we open on friday'' vd)"
  by (simp add: ProductionWorkflowAdvanceHandler_handle_def advance_production_workflow_def run_simps check_no_secrets_def
      check_scope_def prod_screen prod_bound row_get_def prod_job_context_def assert_matches_def)

lemma prod_ready_run:
  "ProductionWorkflowAdvanceHandler_handle env reg prod_job_context prod_advance_payload now
     (prod_reviewed ''we open on friday'' PASS) =
   (Inr (), prod_finished READY_FOR_ACTION_PROPOSAL (prod_reviewed ''we open on friday'' PASS))"
  by (simp add: prod_advanced prod_controllers prod_verdict apply_asset_outcome_def set_production_status_def run_simps
      prod_finished_def row_set_def prod_flow_updates numeral_2_eq_2 prod_version_def)

lemma prod_blocked_run:
  "ProductionWorkflowAdvanceHandler_handle env reg prod_job_context prod_advance_payload now
     (prod_reviewed ''we open on friday'' BLOCK) =
   (Inr (), prod_finished ProductionWorkflowStatus.BLOCKED (prod_reviewed ''we open on friday'' BLOCK))"
  by (simp add: prod_advanced prod_controllers prod_verdict apply_asset_outcome_def set_production_status_def run_simps
      prod_finished_def row_set_def prod_flow_updates)

section \<open>The machine\<close>

text \<open>
  Claim C11. An advance that returns moved exactly one workflow of its own tenant, the one its payload names,
  by one edge of the production machine and changed none of its identity columns, after it verified that the
  decision is still the approved version; a workflow in a waiting or final status leaves the whole database
  as it was.
\<close>

theorem production_refines_machine:
  assumes "ProductionWorkflowAdvanceHandler_handle env reg context pl now s = (Inr (), t)"
  shows "\<exists>flow. production_workflow_id_of pl = Inr (rid flow) \<and> production_at (rid flow) s = Some flow \<and>
    org flow = organization_id context \<and> biz flow = business_id context \<and> assert_decision_binding flow s = Inr () \<and>
    (if production_active (pw_status flow)
     then (\<exists>w. production_at (rid flow) t = Some w \<and> production_ident w = production_ident flow \<and>
         production_step (pw_max_revision_rounds flow) (production_state_of flow) (production_state_of w)) \<and>
       (\<forall>j. j \<noteq> rid flow \<longrightarrow> production_at j t = production_at j s)
     else t = s)"
proof -
  from production_handled [OF assms] obtain flow where flow: "production_workflow_id_of pl = Inr (rid flow)"
      "production_at (rid flow) s = Some flow" "assert_matches context (org flow) (biz flow) = Inr ()"
      "advance_production_workflow env reg flow now s = (Inr (), t)" by metis
  then have tenant: "org flow = organization_id context" "biz flow = business_id context"
    by (auto simp: assert_matches_def split: if_splits)
  from production_advance_moves [OF flow(4)] flow(2) have "assert_decision_binding flow s = Inr () \<and>
    (if production_active (pw_status flow)
     then (\<exists>w. production_at (rid flow) t = Some w \<and> production_ident w = production_ident flow \<and>
         production_step (pw_max_revision_rounds flow) (production_state_of flow) (production_state_of w)) \<and>
       (\<forall>j. j \<noteq> rid flow \<longrightarrow> production_at j t = production_at j s)
     else t = s)"
    by (auto simp: production_moves_def prodtab.get_set_same prodtab.get_set_other [OF _ not_sym] prodtab.stable_def)
  with flow(1,2) tenant show ?thesis by blast
qed

lemma production_refines_machine_witness:
  "\<exists>flow. production_workflow_id_of prod_advance_payload = Inr (rid flow) \<and>
    production_at (rid flow) (prod_reviewed ''we open on friday'' PASS) = Some flow \<and>
    assert_decision_binding flow (prod_reviewed ''we open on friday'' PASS) = Inr ()"
  using production_refines_machine [OF prod_ready_run [of prod_env Map.empty 0]] by blast

text \<open>
  Claim C12. A production workflow terminates: in a run of the whole system, in which anything else may happen
  that does not touch its row, advances change it at most twice for every revision round that is left, and
  as often as its status is from the end. The revision counter never passes its maximum.
\<close>

theorem production_terminates:
  assumes "observed_run production_at (production_advances env reg) i s n t" and "production_at i s = Some w"
  shows "\<exists>w'. production_at i t = Some w' \<and> production_ident w' = production_ident w \<and>
    n \<le> 2 * nat (pw_max_revision_rounds w - pw_revision_count w) + production_rank (pw_status w) \<and>
    (pw_revision_count w' \<le> pw_max_revision_rounds w \<or> pw_revision_count w' = pw_revision_count w)"
proof -
  have mx: "pw_max_revision_rounds (production_ident w) = pw_max_revision_rounds w" by (simp add: production_ident_def)
  from production_machine.run_bounded [OF assms] obtain w' where w': "production_at i t = Some w'"
      "production_ident w' = production_ident w"
      "(production_step (pw_max_revision_rounds w))\<^sup>*\<^sup>* (production_state_of w) (production_state_of w')"
      "n + production_left (pw_max_revision_rounds w) (production_state_of w') \<le>
        production_left (pw_max_revision_rounds w) (production_state_of w)" unfolding mx by blast
  with production_steps_rounds [OF w'(3)] show ?thesis by (auto simp: production_left_def)
qed

lemma production_terminates_witness:
  "\<exists>w'. production_at ''pw'' (prod_finished READY_FOR_ACTION_PROPOSAL (prod_reviewed ''we open on friday'' PASS)) = Some w' \<and>
    (1 :: nat) \<le> 2 * nat (2 - 0) + production_rank ASSET_CONTROLLERS_RUNNING"
proof -
  let ?s = "prod_reviewed ''we open on friday'' PASS"
  have at: "production_at ''pw'' ?s = Some (prod_flow ASSET_CONTROLLERS_RUNNING (Some ''as''))"
    "production_at ''pw'' (prod_finished READY_FOR_ACTION_PROPOSAL ?s) = Some (prod_flow READY_FOR_ACTION_PROPOSAL (Some ''as''))"
    by (simp_all add: row_get_def prod_finished_def)
  have "production_advances prod_env Map.empty ''pw'' ?s (prod_finished READY_FOR_ACTION_PROPOSAL ?s)"
    unfolding production_advances_def using prod_ready_run prod_screen(2) by blast
  then have
    "observed_run production_at (production_advances prod_env Map.empty) ''pw'' ?s 1 (prod_finished READY_FOR_ACTION_PROPOSAL ?s)"
    unfolding One_nat_def by (rule observed_run.steps [OF observed_run.start]) (simp add: at prod_flow_def)
  from production_terminates [OF this at(1)] show ?thesis by auto
qed

section \<open>Ready assets\<close>

lemma verdict_ok:
  "x = PASS \<or> (x = PASS_WITH_CONDITIONS \<and> q) \<longleftrightarrow> x \<noteq> BLOCK \<and> x \<noteq> REVISE \<and> (x = PASS_WITH_CONDITIONS \<longrightarrow> q)"
  by (cases x) auto

lemma in_verdicts: "x \<in> set (map ax_verdict reviews) \<longleftrightarrow> (\<exists>r \<in> set reviews. ax_verdict r = x)"
  by auto

lemma review_verdict_PASS:
  "review_verdict_outcome reviews = PASS \<longleftrightarrow> (\<forall>r \<in> set reviews. ax_verdict r = PASS \<or>
     (ax_verdict r = PASS_WITH_CONDITIONS \<and> mandatory_asset_conditions r = []))"
  unfolding verdict_ok review_verdict_outcome_def in_verdicts list_ex_iff by simp blast

lemma governed_asset_PASS:
  "governed_asset_outcome flow v reviews s = Inr PASS \<longleftrightarrow> missing_controllers reviews = [] \<and>
     \<not> contains_human_worth_violation [(''body'', JStr (av_body v))] \<and> \<not> contains_hard_manipulation (av_body v) \<and>
     has_unsupported_claims (production_scope flow) v s = Inr False \<and> rights_are_complete v s \<and>
     review_verdict_outcome reviews = PASS"
  by (auto simp: governed_asset_outcome_def split: sum.splits)

lemma governed_asset_BLOCK:
  "governed_asset_outcome flow v reviews s = Inr BLOCK \<longleftrightarrow> missing_controllers reviews = [] \<and>
     (contains_human_worth_violation [(''body'', JStr (av_body v))] \<or> contains_hard_manipulation (av_body v) \<or>
      (has_unsupported_claims (production_scope flow) v s = Inr False \<and> rights_are_complete v s \<and>
       BLOCK \<in> set (map ax_verdict reviews)))"
  by (auto simp: governed_asset_outcome_def review_verdict_outcome_def split: sum.splits if_splits)



text \<open>
  Claim C5. An asset becomes ready for an action proposal only in an advance that found the decision binding
  intact and then bound the newest version of the asset, all seven controllers having a stored review of
  exactly this version, and the deterministic rules over text, claims, rights and verdicts giving PASS.
\<close>

theorem ready_asset_is_governed:
  assumes run: "ProductionWorkflowAdvanceHandler_handle env reg context pl now s = (Inr (), t)"
    and before: "production_at i s = Some flow" "pw_status flow \<noteq> READY_FOR_ACTION_PROPOSAL"
    and after: "production_at i t = Some w" "pw_status w = READY_FOR_ACTION_PROPOSAL"
  shows "assert_decision_binding flow s = Inr () \<and> pw_asset_id w = pw_asset_id flow \<and>
    (\<exists>v reviews. latest_asset_version flow t = Inr v \<and> pw_final_asset_version_id w = Some (rid v) \<and>
       map ax_controller_type reviews = map asset_controller_type REQUIRED_ASSET_CONTROLLER_CONTRACT_KEYS \<and>
       (\<forall>r \<in> set reviews. r \<in> set (asset_reviews t) \<and> ax_asset_version_id r = rid v) \<and>
       governed_asset_outcome flow v reviews t = Inr PASS)"
proof -
  from production_handled [OF run] obtain flow' where adv: "production_at (rid flow') s = Some flow'"
      "advance_production_workflow env reg flow' now s = (Inr (), t)" by metis
  note moved = production_advance_moves [OF adv(2)]
  have i: "i = rid flow'"
  proof (rule ccontr)
    assume "i \<noteq> rid flow'"
    with moved before after show False
      by (auto simp: production_moves_def prodtab.get_set_other [OF _ not_sym] split: if_splits)
  qed
  with adv(1) before(1) have [simp]: "flow' = flow" by simp
  from moved before after i have st: "pw_status flow = ASSET_CONTROLLERS_RUNNING"
    by (auto simp: production_moves_def prodtab.get_set_same elim: production_stepE split: if_splits)
  have run: "advance_asset_controllers_running env reg flow now s = (Inr (), t)"
    using adv(2) moved by (simp add: advance_production_workflow_def run_simps st)
  from controllers_running_moves [OF this st] obtain f v reviews outcome where f: "production_moves flow f"
      "production_workflows t = row_set rid (rid flow) f (production_workflows s)"
    and rv: "reviewed flow v reviews outcome t"
    and fin: "pw_status (f flow) = READY_FOR_ACTION_PROPOSAL \<longrightarrow>
         outcome = PASS \<and> (\<forall>w. pw_final_asset_version_id (f w) = Some (rid v) \<and> pw_asset_id (f w) = pw_asset_id w)"
    by (auto simp: same_assets_def)
  have "w = f flow" using f after(1) before(1) i by (simp add: production_moves_def prodtab.get_set_same)
  with fin after(2) rv moved show ?thesis by (auto simp: reviewed_def)
qed

lemma ready_asset_is_governed_witness:
  "latest_asset_version (prod_flow ASSET_CONTROLLERS_RUNNING (Some ''as'')) (prod_reviewed ''we open on friday'' PASS) =
     Inr (prod_version ''we open on friday'') \<and>
   assert_decision_binding (prod_flow ASSET_CONTROLLERS_RUNNING (Some ''as'')) (prod_reviewed ''we open on friday'' PASS) = Inr ()"
proof -
  let ?s = "prod_reviewed ''we open on friday'' PASS"
  have "production_at ''pw'' ?s = Some (prod_flow ASSET_CONTROLLERS_RUNNING (Some ''as''))"
    "production_at ''pw'' (prod_finished READY_FOR_ACTION_PROPOSAL ?s) = Some (prod_flow READY_FOR_ACTION_PROPOSAL (Some ''as''))"
    by (simp_all add: row_get_def prod_finished_def)
  from ready_asset_is_governed [OF prod_ready_run this(1) _ this(2)] show ?thesis
    by (simp add: prod_latest)
qed

section \<open>Versions are only added\<close>

lemma versions_kept:
  assumes run: "advance_production_workflow env reg flow now s = (Inr (), t)"
    and st: "pw_status flow \<noteq> PRODUCTION_RUNNING"
  shows "asset_versions t = asset_versions s \<and> asset_version_creators t = asset_version_creators s \<and> asset_rights t = asset_rights s"
proof -
  note moved = production_advance_moves [OF run]
  have step: "run_branch s = (Inr (), t)" if "advance_production_workflow env reg flow now = bnd (query (assert_decision_binding flow)) (\<lambda>_. run_branch)"
    for run_branch using run moved that by (simp add: run_simps)
  show ?thesis
  proof (cases "pw_status flow")
    case DECISION_APPROVAL_VERIFIED
    with step have "advance_approval_verified env reg flow now s = (Inr (), t)" by (simp add: advance_production_workflow_def)
    from approval_verified_moves [OF this] show ?thesis by (simp add: same_assets_def)
  next
    case CONTENT_STRATEGY_RUNNING
    with step have "advance_strategy_running env reg flow now s = (Inr (), t)" by (simp add: advance_production_workflow_def)
    from strategy_running_moves [OF this] show ?thesis by (auto simp: same_assets_def)
  next
    case ASSET_CONTROLLERS_RUNNING
    with step have "advance_asset_controllers_running env reg flow now s = (Inr (), t)" by (simp add: advance_production_workflow_def)
    from controllers_running_moves [OF this ASSET_CONTROLLERS_RUNNING] show ?thesis by (auto simp: same_assets_def)
  qed (use st moved in simp_all)
qed



section \<open>A refused strategy\<close>

text \<open>
  A strategy run that ended without a valid output (refused, invalid or failed) makes every later advance of its
  workflow fail for good and leaves the workflow in its status: no further run is asked for, since the key of
  the run is fixed and the run is only requested one status earlier.
\<close>

lemma refused_strategy_stalls:
  assumes "assert_decision_binding flow s = Inr ()" "pw_status flow = CONTENT_STRATEGY_RUNNING"
    and "select_first (\<lambda>r. cst_workflow_id r = rid flow) (content_strategies s) = None"
    and "agent_run_by_idempotency flow (strategy_run_key flow) s = Inr run"
    and "ar_status run \<in> {AgentRunStatus.REFUSED, AgentRunStatus.INVALID_OUTPUT, AgentRunStatus.FAILED}"
  shows "advance_production_workflow env reg flow now s =
    (Inl (PermanentJobError ''content strategy AgentRun did not produce valid output''), s)"
  using assms
  by (auto simp: advance_production_workflow_def advance_strategy_running_def materialize_content_strategy_def
      validated_output_def pending_def run_simps)

end
