(* ===== verification/Spec2Isabelle.thy ===== *)
theory Spec2Isabelle
  imports Application Phase6_Start Readiness Decision_Safety Decision_Budget Decision_Approval Decision_Snapshot
    Agent_Safety Production_Safety
begin

text \<open>
  Launch OS is a runtime for governed publishing under \<open>src/src/launch_os_v11\<close>. A business is a
  tenant. Decisions about what to publish are prepared by agents, reviewed by controllers and approved
  by an owner; an approved text is published on a Telegram channel by a job; reactions to it are
  observed, counted, interpreted against a checkpoint fixed beforehand, and turned into a learning that
  may start the next decision. Everything is driven by durable jobs in one database table, a Redis queue
  that carries only identifiers, workers that lease jobs, and a scheduler that repairs and wakes them.

  \<^bold>\<open>Programs.\<close> A Python function that uses a session is a function of type \<open>('s, 'a) prog\<close>: from a
  state to a value or an exception and the state reached (\<open>Prelude\<close>). \<open>bnd\<close> sequences, \<open>require\<close> and
  \<open>required\<close> are the guards that raise, \<open>handle_error\<close> is \<open>except\<close>. Exceptions are the values of
  \<open>py_error\<close>. A table is the list of its rows in insertion order; \<open>session.get\<close> is \<open>row_get\<close>, a filtered
  select of one row is \<open>select_first\<close>, an attribute assignment is \<open>row_set\<close>. The state of the runtime is the
  record \<open>store\<close> (\<open>Store\<close>): the tables, the image of the job table that bulk SQL sees, the objects of the
  session that are not flushed yet, the stream of fresh identifiers, and what has left the process, which a
  rollback does not undo (queue messages and provider calls). \<open>exec_store\<close>, \<open>analytics_store\<close>,
  \<open>decision_store\<close>, \<open>agent_store\<close>, \<open>business_store\<close>, \<open>workflow_store\<close> and \<open>production_store\<close> extend it with
  the tables of the later phases. \<open>in_transaction\<close> is \<open>session_scope\<close>.

  \<^bold>\<open>Components.\<close>
  \<^item> \<open>Domain\<close>: \<open>domain/*.py\<close>. Truth states and their transitions, tenant scopes, evidence, claims,
    hypotheses, decisions, asset versions and approvals. No path reaches FACT without evidence, and an
    approval binds one target.
  \<^item> \<open>Security\<close>: \<open>runtime/security.py\<close>. The secret screen is exact on nested JSON, with the regular
    expression written as a matcher; redaction is idempotent and bounded.
  \<^item> \<open>Runtime_Jobs\<close>: \<open>runtime/contracts.py\<close>, \<open>runtime/repositories.py\<close>. Creation, claim, completion,
    failure, recovery and due scan of jobs: idempotence, exclusive leases, outcome on every branch.
  \<^item> \<open>Runtime_Worker\<close>: \<open>runtime/handlers.py\<close>, \<open>runtime/worker.py\<close>, \<open>runtime/scheduler.py\<close>,
    \<open>application/workflow_dispatcher.py\<close>. One delivery from claim to result. The locale \<open>job_handlers\<close> is
    the contract of a handler registry; every theorem about the runtime holds for every registry with it.
  \<^item> \<open>Runtime_System\<close>: any number of workers, the scheduler, clients, crashes and lost messages as a step
    relation, with the invariant of the job table over every run and the bound on attempts.
  \<^item> \<open>Execution_Store\<close>, \<open>Telegram\<close>, \<open>Execution_Governance\<close>, \<open>Execution\<close>: \<open>execution/*.py\<close>. Connector
    (locale \<open>telegram_port\<close>, interpreted for the HTTP and the fake connector), the five deterministic
    controllers, permission, proposal, approval, emergency controls and the publish handler.
    \<open>Execution_Safety\<close>: nothing is sent without authority, a settled execution never sends again, every
    send that the handler survives is recorded. \<open>Execution_Flow\<close>: emergency stop, permission table, proposals
    and approvals given once, and the send that a raised exception forgets.
  \<^item> \<open>Analytics_Store\<close>, \<open>Observation\<close>: \<open>connectors/telegram_observation.py\<close>, \<open>analytics/contracts.py\<close>
    and the first half of \<open>analytics/phase6.py\<close>. \<open>Observation_Safety\<close>: the tables refine a finite map from
    provider events, which ingestion extends by insert-if-new. \<open>Observation_Polls\<close>: a poll loses nothing
    (locale \<open>observation_port\<close>), and the order of delivery has no effect.
  \<^item> \<open>Analytics\<close>, \<open>Learning\<close>: the second half of \<open>analytics/phase6.py\<close>. \<open>Analytics_Safety\<close>: a metric
    counts the known events of its window, versions form a chain and recalculation is idempotent.
    \<open>Learning_Safety\<close>: an experiment is interpreted once, learnings are reviewed, bounded and created once.
  \<^item> \<open>Decision_Governance\<close>: \<open>application/decision_governance.py\<close>. The search for statements about human
    worth (loops with termination proof, equal to a declarative specification) and the exact outcome of a
    set of reviews.
  \<^item> \<open>Agent_Runs\<close>, \<open>Agent_Registry\<close>, \<open>Agent_Schemas\<close>: \<open>ai_runtime/contracts.py\<close>, \<open>registry.py\<close>,
    \<open>service.py\<close>, \<open>schemas.py\<close>. The contracts of the agents, the rules that keep their authorities apart,
    the registry, durable agent definitions and runs, and the outputs of specialists, chief and controllers.
  \<^item> \<open>Agent_Context\<close>: \<open>ai_runtime/context.py\<close>. What an agent is shown: rows of its tenant, as typed data with a
    manifest. \<open>Context_Safety\<close> has the locale \<open>context_source\<close> (what a loader of references promises), interpreted
    for the base loader and the one of production; \<open>Context_Properties\<close>: a context is scoped and screened, and
    the references the model may cite are exactly those that are read back when its output is checked.
  \<^item> \<open>Agent_Models\<close>, \<open>Agent_Handler\<close>: \<open>ai_runtime/router.py\<close>, \<open>adapters/*.py\<close>, \<open>job_handler.py\<close>. Routing, the two
    adapters (locale \<open>model_port\<close>: a call sends at most its own request and changes nothing else) and the
    handler of agent runs. \<open>Agent_Safety\<close>: a model is asked at most once in an attempt and only from a scoped
    context (locale \<open>context_port\<close>), the exact outcome of an attempt, and a settled run is final.
  \<^item> \<open>Commands\<close>: \<open>application/commands.py\<close>, \<open>persistence/outbox.py\<close> and the snapshot payload of
    \<open>application/decision_workflow.py\<close>. \<open>Decision_Snapshot\<close>: a stored snapshot says exactly what the tenant's
    evidence says.
  \<^item> \<open>Decision_Workflow\<close>: \<open>application/decision_workflow.py\<close> and the guarded handler of
    \<open>application/decision_governance.py\<close>. \<open>Workflow_Machine\<close> is the locale of a workflow whose
    state advances along edges that lower a measure, with the bound on its changes over any run of the system.
    \<open>Decision_Machine\<close> has the abstract machine (a step relation on status and revision round) and shows that
    each advance is one of its steps or a wait;
    \<open>Decision_Progress\<close>: termination, and the wait that no job ends; \<open>Decision_Safety\<close>: no decision without
    the seven reviews and a governed PASS; \<open>Decision_Evidence\<close>: candidates cite only evidence their agent
    was shown; \<open>Decision_Budget\<close>: at most three agent runs for a question; \<open>Decision_Approval\<close>: one approval
    for exactly the decision that was made. \<open>Decision_Example\<close> is the business on which they are evaluated.
  \<^item> \<open>Production_Registry\<close>, \<open>Production_Schemas\<close>, \<open>Production_Workflow\<close>, \<open>Production_Governance\<close>,
    \<open>Production_Context\<close>: \<open>production/*.py\<close> and \<open>application/production_workflow.py\<close>. The agents of production, their
    outputs, the rows made from them, the rules over the reviews, the advance, the start and the context.
    \<open>Production_Machine\<close> is the second interpretation of \<open>workflow_machine\<close>; \<open>Production_Safety\<close>: refinement of the
    machine, termination, what an asset that is ready went through, the exact outcome of a review round, and
    versions that are only added. \<open>Production_Example\<close> is the business on which they are evaluated.
  \<^item> \<open>Adaptation\<close>, \<open>Adaptation_Safety\<close>: \<open>application/phase6.py\<close>. The checkpoint of a decision is immutable
    and bound before publication is proposed, which counts it can classify, and the lineage of a successor.
    \<open>Phase6_Start\<close>: the two functions that start a workflow with a checkpoint, what a successor is bound to, and
    the commands that store decisions and asset versions of the domain model.
  \<^item> \<open>Application\<close>: \<open>application/composition.py\<close>, \<open>ai_runtime/composition.py\<close>. The registry is
    composed from the handlers modelled here, with the router the settings build; it honours \<open>job_handlers\<close>
    (\<open>Handler_Frames\<close> shows it of agent runs and of the two workflows), so the theorems about the runtime hold of
    the application without a hypothesis about its handlers.
  \<^item> \<open>Readiness\<close>: \<open>api/app.py\<close>, \<open>api/readiness.py\<close>. When the application says it is ready.

  \<^bold>\<open>Parameters.\<close> What the repository only calls is an argument: the SHA-256 digest and the printing of
  floats (\<open>hash_env\<close>), the JSON schema of an output model (\<open>agent_env\<close>), the parsers of the validation
  library for agent outputs (\<open>workflow_env\<close>, \<open>production_env\<close>), the two time stamps of a controller review,
  which its row here does not carry (\<open>context_env\<close>), the answers of the client library of the model
  provider (\<open>openai_api\<close>) and its clocks, the answers of the Telegram HTTP interface (\<open>telegram_api\<close>), Python's \<open>repr\<close> of a
  probe payload, and the validation library (\<open>validate\<close>). No theorem assumes that the digest is
  injective.

  \<^bold>\<open>Conventions.\<close> Instants and durations are integers in microseconds and a clock gives one reading per
  transaction. Text is a list of 8-bit characters, with case folding on the ASCII letters. Numbers of
  Python are unbounded integers, and floats are reals where they are only compared. Column lengths, foreign
  keys and unique constraints of the database are not modelled: the theorems hold without their help.
  Loops are structural recursion or have a termination proof, and no definition uses fuel.

  \<^bold>\<open>Not modelled.\<close> Of \<open>persistence/repositories.py\<close> the generic reads, updates and deletions, which nothing of the
  application calls, and entities of \<open>domain/entities.py\<close> that are plain data. The wiring of the HTTP
  framework, the process entry points, the reading of the settings from the environment and the migrations are input, output and
  schema text.
\<close>

end
